(* ===== verification/Prelude.thy ===== *)
theory Prelude
  imports Complex_Main
begin

text \<open>
  Shared vocabulary of the DiffractLLM development: the named theorem collections, Go's
  64-bit integers, the string functions of the \<^verbatim>\<open>strings\<close> package that the source calls,
  ordered iteration helpers, and generic lemmas on lists, options and maps.

  Go strings are byte strings, modelled as \<^typ>\<open>string\<close>. The string functions below follow
  the ASCII behaviour of the Go library (the white space bytes and the letters of ASCII);
  Go's additional handling of multi-byte Unicode white space and case is not modelled.
  A point in time is an \<^typ>\<open>int\<close>, nanoseconds since Go's zero time; a \<^verbatim>\<open>time.Duration\<close> is an
  \<^typ>\<open>int\<close> of nanoseconds kept in the signed 64-bit range where the source does arithmetic.
\<close>

named_theorems wf_intro \<open>preservation of well-formedness invariants\<close>
named_theorems wire_simps \<open>printing and parsing of enumerations\<close>
named_theorems step_simps \<open>one-step unfoldings of loops over lists\<close>

section \<open>Signed 64-bit integers\<close>

type_synonym int64 = int
type_synonym time = int
type_synonym duration = int

text \<open>The first of January 1970.\<close>

definition unix_epoch :: time where "unix_epoch = 62135596800 * 1000000000"

definition max_int64 :: int where
  "max_int64 = 2 ^ 63 - 1"

definition min_int64 :: int where
  "min_int64 = - (2 ^ 63)"

definition in_int64 :: "int \<Rightarrow> bool" where
  "in_int64 x \<longleftrightarrow> min_int64 \<le> x \<and> x \<le> max_int64"

text \<open>Two's complement wrap-around of a mathematical result.\<close>

definition wrap64 :: "int \<Rightarrow> int64" where
  "wrap64 x = (x + 2 ^ 63) mod 2 ^ 64 - 2 ^ 63"

lemma wrap64_in [simp, intro]: "in_int64 (wrap64 x)"
proof -
  have "0 \<le> (x + 2 ^ 63) mod 2 ^ 64" and "(x + 2 ^ 63) mod 2 ^ 64 < 2 ^ 64"
    by simp_all
  then show ?thesis
    by (simp add: in_int64_def wrap64_def min_int64_def max_int64_def)
qed

lemma wrap64_id [simp]: "in_int64 x \<Longrightarrow> wrap64 x = x"
  by (simp add: in_int64_def wrap64_def min_int64_def max_int64_def)

lemma wrap64_wrap64_add [simp]: "wrap64 (wrap64 x + y) = wrap64 (x + y)"
  by (simp add: wrap64_def) (simp add: mod_simps algebra_simps)

lemma wrap64_add_wrap64 [simp]: "wrap64 (x + wrap64 y) = wrap64 (x + y)"
  using wrap64_wrap64_add [of y x] by (simp add: add.commute)

lemma in_int64_bounds: "0 \<le> x \<Longrightarrow> x < 2 ^ 63 \<Longrightarrow> in_int64 x"
  by (simp add: in_int64_def min_int64_def max_int64_def)

section \<open>Strings\<close>

definition is_space :: "char \<Rightarrow> bool" where
  "is_space c \<longleftrightarrow> of_char c \<in> {9 :: nat, 10, 11, 12, 13, 32}"

text \<open>\<^verbatim>\<open>strings.TrimSpace\<close>\<close>

definition TrimSpace :: "string \<Rightarrow> string" where
  "TrimSpace s = rev (dropWhile is_space (rev (dropWhile is_space s)))"

definition lower_char :: "char \<Rightarrow> char" where
  "lower_char c = (let n = (of_char c :: nat) in if 65 \<le> n \<and> n \<le> 90 then char_of (n + 32) else c)"

text \<open>\<^verbatim>\<open>strings.ToLower\<close>\<close>

definition ToLower :: "string \<Rightarrow> string" where
  "ToLower s = map lower_char s"

text \<open>\<^verbatim>\<open>strings.HasPrefix\<close>, \<^verbatim>\<open>strings.TrimPrefix\<close>, \<^verbatim>\<open>strings.Contains\<close>\<close>

definition HasPrefix :: "string \<Rightarrow> string \<Rightarrow> bool" where
  "HasPrefix s p \<longleftrightarrow> take (length p) s = p"

fun Contains :: "string \<Rightarrow> string \<Rightarrow> bool" where
  "Contains [] p = (p = [])"
| "Contains (c # cs) p = (take (length p) (c # cs) = p \<or> Contains cs p)"

text \<open>\<^verbatim>\<open>strings.Cut\<close> with a one-byte separator: text before, text after, and whether it was found.\<close>

fun Cut :: "string \<Rightarrow> char \<Rightarrow> string \<times> string \<times> bool" where
  "Cut [] sep = ([], [], False)"
| "Cut (c # cs) sep =
     (if c = sep then ([], cs, True)
      else case Cut cs sep of (before, after, found) \<Rightarrow> (c # before, after, found))"

text \<open>\<^verbatim>\<open>strings.Split\<close> with a one-byte separator and \<^verbatim>\<open>strings.Join\<close>.\<close>

fun Split :: "string \<Rightarrow> char \<Rightarrow> string list" where
  "Split [] sep = [[]]"
| "Split (c # cs) sep =
     (if c = sep then [] # Split cs sep
      else case Split cs sep of [] \<Rightarrow> [[c]] | w # ws \<Rightarrow> (c # w) # ws)"

fun Join :: "string list \<Rightarrow> string \<Rightarrow> string" where
  "Join [] sep = []"
| "Join [w] sep = w"
| "Join (w # v # ws) sep = w @ sep @ Join (v # ws) sep"

text \<open>\<^verbatim>\<open>strings.TrimRight(s, c)\<close> with a one-byte cut set.\<close>

definition TrimRight :: "string \<Rightarrow> char \<Rightarrow> string" where
  "TrimRight s c = rev (dropWhile (\<lambda>d. d = c) (rev s))"

definition is_digit :: "char \<Rightarrow> bool" where
  "is_digit c \<longleftrightarrow> 48 \<le> (of_char c :: nat) \<and> of_char c \<le> (57 :: nat)"

text \<open>\<^verbatim>\<open>strconv.Itoa\<close> and the verb \<^verbatim>\<open>%d\<close>.\<close>

fun nat_digits :: "nat \<Rightarrow> string" where
  "nat_digits n = (if n < 10 then [char_of (48 + n)] else nat_digits (n div 10) @ [char_of (48 + n mod 10)])"

declare nat_digits.simps [simp del]

definition Itoa :: "int \<Rightarrow> string" where
  "Itoa i = (if i < 0 then ''-'' @ nat_digits (nat (- i)) else nat_digits (nat i))"

text \<open>\<^verbatim>\<open>strconv.Atoi\<close>: an optional sign and decimal digits, within 64 bits.\<close>

definition Atoi :: "string \<Rightarrow> int option" where
  "Atoi s =
    (let neg = (s \<noteq> [] \<and> hd s = CHR ''-'');
         ds = (if s \<noteq> [] \<and> (hd s = CHR ''-'' \<or> hd s = CHR ''+'') then tl s else s);
         n = foldl (\<lambda>x c. x * 10 + (int (of_char c) - 48)) 0 ds;
         v = (if neg then - n else n)
     in if ds = [] \<or> \<not> list_all is_digit ds \<or> \<not> in_int64 v then None else Some v)"

definition squote :: char where
  "squote = char_of (39 :: nat)"

lemma Split_not_Nil [simp]: "Split s sep \<noteq> []"
  by (cases s) (auto split: list.splits)

lemma Join_Split: "Join (Split s sep) [sep] = s"
proof (induction s)
  case Nil
  then show ?case by simp
next
  case (Cons c cs)
  obtain w ws where sp: "Split cs sep = w # ws"
    using Split_not_Nil [of cs sep] by (cases "Split cs sep") auto
  with Cons show ?case by (cases ws) auto
qed

lemma dropWhile_idem: "dropWhile P (dropWhile P xs) = dropWhile P xs"
  by (induction xs) auto

lemma dropWhile_rev_dropWhile:
  assumes "dropWhile P xs = xs"
  shows "dropWhile P (rev (dropWhile P (rev xs))) = rev (dropWhile P (rev xs))"
proof (cases xs)
  case Nil
  then show ?thesis by simp
next
  case (Cons y ys)
  with assms have y: "\<not> P y"
    by (metis dropWhile_eq_self_iff list.sel(1) list.discI)
  then have "rev (dropWhile P (rev xs)) = y # rev (dropWhile P (rev ys))"
    using Cons by (simp add: dropWhile_append)
  with y show ?thesis by simp
qed

lemma TrimSpace_idem [simp]: "TrimSpace (TrimSpace s) = TrimSpace s"
proof -
  let ?t = "dropWhile is_space s"
  have "dropWhile is_space (TrimSpace s) = TrimSpace s"
    unfolding TrimSpace_def by (rule dropWhile_rev_dropWhile) (rule dropWhile_idem)
  then show ?thesis
    by (simp add: TrimSpace_def [of "TrimSpace s"]) (simp add: TrimSpace_def dropWhile_idem)
qed

lemma TrimSpace_Nil [simp]: "TrimSpace [] = []"
  by (simp add: TrimSpace_def)

lemma Cut_found: "Cut s sep = (a, b, True) \<Longrightarrow> s = a @ sep # b"
  by (induction s arbitrary: a) (auto split: if_splits prod.splits)

lemma Cut_sep: "sep \<notin> set a \<Longrightarrow> Cut (a @ sep # b) sep = (a, b, True)"
  by (induction a) auto

section \<open>Lists, options and maps\<close>

text \<open>The first element of a list that satisfies a predicate, as Go's search loops return it.\<close>

lemma find_SomeD: "List.find P xs = Some x \<Longrightarrow> x \<in> set xs \<and> P x"
  by (induction xs) (auto split: if_splits)

lemma find_None_iff_all: "List.find P xs = None \<longleftrightarrow> (\<forall>x \<in> set xs. \<not> P x)"
  by (induction xs) auto

text \<open>
  Go's \<^verbatim>\<open>append\<close>-if-absent loops: keep the first occurrence of every element, in order.
\<close>

fun dedup :: "'a list \<Rightarrow> 'a list \<Rightarrow> 'a list" where
  "dedup seen [] = []"
| "dedup seen (x # xs) = (if x \<in> set seen then dedup seen xs else x # dedup (x # seen) xs)"

lemma set_dedup: "set (dedup seen xs) = set xs - set seen"
  by (induction seen xs rule: dedup.induct) auto

lemma distinct_dedup: "distinct (dedup seen xs)"
  by (induction seen xs rule: dedup.induct) (auto simp: set_dedup)

lemma dedup_Nil_iff: "dedup [] xs = [] \<longleftrightarrow> xs = []"
  by (cases xs) auto

text \<open>A pointer field: \<^verbatim>\<open>nil\<close> is \<^const>\<open>None\<close>; dereferencing with a default.\<close>

definition opt_or :: "'a \<Rightarrow> 'a option \<Rightarrow> 'a" where
  "opt_or d x = (case x of None \<Rightarrow> d | Some v \<Rightarrow> v)"

lemma opt_or_simps [simp]: "opt_or d None = d" "opt_or d (Some v) = v"
  by (simp_all add: opt_or_def)

text \<open>The fold that Go's \<^verbatim>\<open>for ... range\<close> loop with an accumulator performs.\<close>

lemma foldl_invariant:
  assumes "I s" and "\<And>s x. x \<in> set xs \<Longrightarrow> I s \<Longrightarrow> I (f s x)"
  shows "I (foldl f s xs)"
  using assms by (induction xs arbitrary: s) auto

end
