(* ===== verification/CoreTypes.thy ===== *)
theory CoreTypes
  imports Prelude "HOL-Library.Multiset" "HOL-Library.Word" "HOL-Library.List_Lexorder" "HOL-Library.Char_ord"
begin

unbundle bit_operations_syntax

text \<open>
  The value types of \<^verbatim>\<open>internal/core\<close> that the other components share: providers and model
  strings (\<^verbatim>\<open>provider.go\<close>), request kinds (\<^verbatim>\<open>kind-types.go\<close>), capabilities and model types
  (\<^verbatim>\<open>capability.go\<close>), catalog keys and selector sets (\<^verbatim>\<open>catalog.go\<close>), load balancer kinds
  (\<^verbatim>\<open>dataplane.go\<close>), upstream configuration (\<^verbatim>\<open>upstream.go\<close>) and budgets (\<^verbatim>\<open>budget.go\<close>).

  A Go map from strings to strings is an association list with distinct keys, in the arbitrary
  order in which \<^verbatim>\<open>range\<close> visits it.
\<close>

section \<open>Providers and model strings\<close>

type_synonym Provider = string

definition ProviderOpenAI :: Provider where "ProviderOpenAI = ''openai''"
definition ProviderAnthropic :: Provider where "ProviderAnthropic = ''anthropic''"
definition ProviderAzure :: Provider where "ProviderAzure = ''azure''"
definition ProviderCohere :: Provider where "ProviderCohere = ''cohere''"
definition ProviderOllama :: Provider where "ProviderOllama = ''ollama''"
definition ProviderCustom :: Provider where "ProviderCustom = ''custom''"

lemmas provider_names = ProviderOpenAI_def ProviderAnthropic_def ProviderAzure_def
  ProviderCohere_def ProviderOllama_def ProviderCustom_def

definition supportedProviders :: "Provider list" where
  "supportedProviders = [ProviderOpenAI, ProviderAnthropic, ProviderAzure, ProviderCohere,
     ProviderOllama, ProviderCustom]"

definition IsKnownProvider :: "string \<Rightarrow> bool" where
  "IsKnownProvider name \<longleftrightarrow> name \<in> set supportedProviders"

definition SupportedProviders :: "Provider list" where
  "SupportedProviders = sort supportedProviders"

definition slash :: char where "slash = CHR ''/''"

definition ParseModelString :: "string \<Rightarrow> Provider \<times> string" where
  "ParseModelString model0 = (let model = TrimSpace model0 in
     case Cut model slash of (provider, name, found) \<Rightarrow>
       if found \<and> provider \<noteq> [] \<and> name \<noteq> [] \<and> IsKnownProvider provider
       then (provider, name) else ([], model))"

section \<open>Model types and request kinds\<close>

datatype ModelType =
    ModelTypeUnknown | ModelTypeChat | ModelTypeCompletion | ModelTypeResponses
  | ModelTypeEmbedding | ModelTypeImageGeneration | ModelTypeAudioTranscription
  | ModelTypeAudioSpeech | ModelTypeModeration | ModelTypeRerank | ModelTypeSearch
  | ModelTypeVideoGeneration | ModelTypeImageEdit | ModelTypeRealtime | ModelTypeOCR
  | ModelTypeVectorStore | ModelType3D

fun ModelType_String :: "ModelType \<Rightarrow> string" where
  "ModelType_String ModelTypeChat = ''chat''"
| "ModelType_String ModelTypeCompletion = ''completion''"
| "ModelType_String ModelTypeResponses = ''responses''"
| "ModelType_String ModelTypeEmbedding = ''embedding''"
| "ModelType_String ModelTypeImageGeneration = ''image_generation''"
| "ModelType_String ModelTypeAudioTranscription = ''audio_transcription''"
| "ModelType_String ModelTypeAudioSpeech = ''audio_speech''"
| "ModelType_String ModelTypeModeration = ''moderation''"
| "ModelType_String ModelTypeRerank = ''rerank''"
| "ModelType_String ModelTypeSearch = ''search''"
| "ModelType_String ModelTypeVideoGeneration = ''video_generation''"
| "ModelType_String ModelTypeImageEdit = ''image_edit''"
| "ModelType_String ModelTypeRealtime = ''realtime''"
| "ModelType_String ModelTypeOCR = ''ocr''"
| "ModelType_String ModelTypeVectorStore = ''vector_store''"
| "ModelType_String ModelType3D = ''3d''"
| "ModelType_String ModelTypeUnknown = ''unknown''"

definition ParseModelType :: "string \<Rightarrow> ModelType" where
  "ParseModelType mode =
    (if mode = ''chat'' then ModelTypeChat
     else if mode = ''completion'' then ModelTypeCompletion
     else if mode = ''responses'' then ModelTypeResponses
     else if mode = ''embedding'' then ModelTypeEmbedding
     else if mode = ''image_generation'' then ModelTypeImageGeneration
     else if mode = ''audio_transcription'' then ModelTypeAudioTranscription
     else if mode = ''audio_speech'' then ModelTypeAudioSpeech
     else if mode = ''moderation'' then ModelTypeModeration
     else if mode = ''rerank'' then ModelTypeRerank
     else if mode = ''search'' then ModelTypeSearch
     else if mode = ''video_generation'' then ModelTypeVideoGeneration
     else if mode = ''image_edit'' then ModelTypeImageEdit
     else if mode = ''realtime'' then ModelTypeRealtime
     else if mode = ''ocr'' then ModelTypeOCR
     else if mode = ''vector_store'' then ModelTypeVectorStore
     else if mode = ''3d'' then ModelType3D
     else ModelTypeUnknown)"

datatype RequestKind = ChatRequest | CompletionRequest | ResponsesRequest | EmbeddingRequest
  | ImageGenRequest | ImageEditRequest | SpeechRequest | TranscriptionRequest
  | ModerationRequest | ModelsRequest

fun RequestKind_ModelType :: "RequestKind \<Rightarrow> ModelType" where
  "RequestKind_ModelType ChatRequest = ModelTypeChat"
| "RequestKind_ModelType CompletionRequest = ModelTypeCompletion"
| "RequestKind_ModelType ResponsesRequest = ModelTypeResponses"
| "RequestKind_ModelType EmbeddingRequest = ModelTypeEmbedding"
| "RequestKind_ModelType ImageGenRequest = ModelTypeImageGeneration"
| "RequestKind_ModelType ImageEditRequest = ModelTypeImageEdit"
| "RequestKind_ModelType SpeechRequest = ModelTypeAudioSpeech"
| "RequestKind_ModelType TranscriptionRequest = ModelTypeAudioTranscription"
| "RequestKind_ModelType ModerationRequest = ModelTypeModeration"
| "RequestKind_ModelType ModelsRequest = ModelTypeUnknown"

section \<open>Capabilities\<close>

type_synonym Capability = "32 word"

definition capabilityStrings :: "string list" where
  "capabilityStrings = [''function_calling'', ''parallel_tool_calls'', ''tool_choice'',
     ''reasoning'', ''vision'', ''image_input'', ''audio_input'', ''audio_output'', ''pdf_input'',
     ''video_input'', ''prompt_caching'', ''response_schema'', ''system_messages'', ''streaming'',
     ''web_search'', ''computer_use'', ''assistant_prefill'', ''embedding_image_input'']"

text \<open>The constants \<^verbatim>\<open>1 << iota\<close>, in the order of their declaration, and the map from names to
  them.\<close>

definition CapFunctionCalling :: Capability where "CapFunctionCalling = push_bit 0 1"
definition CapParallelToolCalls :: Capability where "CapParallelToolCalls = push_bit 1 1"
definition CapToolChoice :: Capability where "CapToolChoice = push_bit 2 1"
definition CapReasoning :: Capability where "CapReasoning = push_bit 3 1"
definition CapVision :: Capability where "CapVision = push_bit 4 1"
definition CapImageInput :: Capability where "CapImageInput = push_bit 5 1"
definition CapAudioInput :: Capability where "CapAudioInput = push_bit 6 1"
definition CapAudioOutput :: Capability where "CapAudioOutput = push_bit 7 1"
definition CapPDFInput :: Capability where "CapPDFInput = push_bit 8 1"
definition CapVideoInput :: Capability where "CapVideoInput = push_bit 9 1"
definition CapPromptCaching :: Capability where "CapPromptCaching = push_bit 10 1"
definition CapResponseSchema :: Capability where "CapResponseSchema = push_bit 11 1"
definition CapSystemMessages :: Capability where "CapSystemMessages = push_bit 12 1"
definition CapStreaming :: Capability where "CapStreaming = push_bit 13 1"
definition CapWebSearch :: Capability where "CapWebSearch = push_bit 14 1"
definition CapComputerUse :: Capability where "CapComputerUse = push_bit 15 1"
definition CapAssistantPrefill :: Capability where "CapAssistantPrefill = push_bit 16 1"
definition CapEmbeddingImageInput :: Capability where "CapEmbeddingImageInput = push_bit 17 1"

lemmas capability_defs = CapFunctionCalling_def CapParallelToolCalls_def CapToolChoice_def
  CapReasoning_def CapVision_def CapImageInput_def CapAudioInput_def CapAudioOutput_def
  CapPDFInput_def CapVideoInput_def CapPromptCaching_def CapResponseSchema_def
  CapSystemMessages_def CapStreaming_def CapWebSearch_def CapComputerUse_def
  CapAssistantPrefill_def CapEmbeddingImageInput_def

definition capabilityMap :: "(string \<times> Capability) list" where
  "capabilityMap = [(''function_calling'', CapFunctionCalling),
     (''parallel_tool_calls'', CapParallelToolCalls), (''tool_choice'', CapToolChoice),
     (''reasoning'', CapReasoning), (''vision'', CapVision), (''image_input'', CapImageInput),
     (''audio_input'', CapAudioInput), (''audio_output'', CapAudioOutput),
     (''pdf_input'', CapPDFInput), (''video_input'', CapVideoInput),
     (''prompt_caching'', CapPromptCaching), (''response_schema'', CapResponseSchema),
     (''system_messages'', CapSystemMessages), (''streaming'', CapStreaming),
     (''web_search'', CapWebSearch), (''computer_use'', CapComputerUse),
     (''assistant_prefill'', CapAssistantPrefill),
     (''embedding_image_input'', CapEmbeddingImageInput)]"

definition Capability_Has :: "Capability \<Rightarrow> Capability \<Rightarrow> bool" where
  "Capability_Has c f \<longleftrightarrow> c AND f \<noteq> 0"

definition Capability_SupportsAll :: "Capability \<Rightarrow> Capability \<Rightarrow> bool" where
  "Capability_SupportsAll c required \<longleftrightarrow> c AND required = required"

definition Capability_Empty :: "Capability \<Rightarrow> bool" where
  "Capability_Empty c \<longleftrightarrow> c = 0"

definition Capability_String :: "Capability \<Rightarrow> string list" where
  "Capability_String c =
     map (\<lambda>i. capabilityStrings ! i)
       (filter (\<lambda>i. c AND push_bit i 1 \<noteq> 0) [0..<length capabilityStrings])"

definition ParseCapabilityStrings :: "string list \<Rightarrow> Capability" where
  "ParseCapabilityStrings cap =
     foldl (\<lambda>c n. case map_of capabilityMap n of Some b \<Rightarrow> c OR b | None \<Rightarrow> c) 0 cap"

section \<open>Catalog keys and selectors\<close>

record CatalogKey =
  ck_Provider :: Provider
  ck_ModelName :: string
  ck_ModelType :: ModelType

definition CatalogKey_SlashKey :: "CatalogKey \<Rightarrow> string" where
  "CatalogKey_SlashKey c = ck_Provider c @ ''/'' @ ck_ModelName c"

definition CatalogKey_RouteKey :: "CatalogKey \<Rightarrow> CatalogKey" where
  "CatalogKey_RouteKey c = c\<lparr>ck_ModelType := ModelTypeUnknown\<rparr>"

definition CatalogKey_CustomPricingKey :: "CatalogKey \<Rightarrow> CatalogKey" where
  "CatalogKey_CustomPricingKey c = c\<lparr>ck_Provider := []\<rparr>"

record ModelLimits =
  ContextWindow :: int
  MaxInputTokens :: int
  MaxOutputTokens :: int
  LongContextThreshold :: int

record ModelMetadata =
  mm_ID :: string
  mm_Provider :: Provider
  mm_ModelType :: ModelType
  mm_ModelName :: string
  mm_BaseModel :: string
  mm_Capability :: Capability
  mm_Limits :: ModelLimits
  mm_SourceRawKey :: string

definition ModelMetadata_CatalogKey :: "ModelMetadata \<Rightarrow> CatalogKey" where
  "ModelMetadata_CatalogKey m =
     \<lparr>ck_Provider = mm_Provider m, ck_ModelName = mm_ModelName m, ck_ModelType = mm_ModelType m\<rparr>"

record SelectorSet =
  ss_Key :: string

definition EmptySelectorKey :: string where
  "EmptySelectorKey = ''{}''"

text \<open>
  \<^verbatim>\<open>json.Marshal\<close> of a map from strings to strings: the members in the byte order of their
  keys, strings quoted with the escapes of \<^verbatim>\<open>encoding/json\<close> (control bytes, quote, backslash and
  the HTML bytes \<open><\<close>, \<open>>\<close>, \<open>&\<close>).
\<close>

definition hex_digit :: "nat \<Rightarrow> char" where
  "hex_digit n = ''0123456789abcdef'' ! n"

definition json_escape_char :: "char \<Rightarrow> string" where
  "json_escape_char c = (let n = (of_char c :: nat) in
     if n = 34 then [char_of (92 :: nat), c]
     else if n = 92 then [c, c]
     else if n = 10 then [char_of (92 :: nat), CHR ''n'']
     else if n = 13 then [char_of (92 :: nat), CHR ''r'']
     else if n = 9 then [char_of (92 :: nat), CHR ''t'']
     else if n = 8 then [char_of (92 :: nat), CHR ''b'']
     else if n = 12 then [char_of (92 :: nat), CHR ''f'']
     else if n < 32 \<or> n \<in> {38, 60, 62} then
       [char_of (92 :: nat), CHR ''u'', CHR ''0'', CHR ''0'', hex_digit (n div 16), hex_digit (n mod 16)]
     else [c])"

definition json_quote :: char where "json_quote = char_of (34 :: nat)"

definition json_string :: "string \<Rightarrow> string" where
  "json_string s = json_quote # concat (map json_escape_char s) @ [json_quote]"

definition json_member :: "string \<times> string \<Rightarrow> string" where
  "json_member kv = json_string (fst kv) @ '':'' @ json_string (snd kv)"

definition json_object :: "(string \<times> string) list \<Rightarrow> string" where
  "json_object kvs = ''{'' @ Join (map json_member (sort_key fst kvs)) '','' @ ''}''"

definition blank :: "string \<Rightarrow> bool" where
  "blank s \<longleftrightarrow> TrimSpace s = []"

definition NewSelectorSet :: "(string \<times> string) list \<Rightarrow> SelectorSet option" where
  "NewSelectorSet values =
     (if values = [] then Some \<lparr>ss_Key = EmptySelectorKey\<rparr>
      else if list_ex (\<lambda>(name, value). blank name \<or> blank value) values then None
      else Some \<lparr>ss_Key = json_object values\<rparr>)"

definition SelectorSet_CanonicalKey :: "SelectorSet \<Rightarrow> string" where
  "SelectorSet_CanonicalKey s = (if ss_Key s = [] then EmptySelectorKey else ss_Key s)"

definition SelectorSet_IsEmpty :: "SelectorSet \<Rightarrow> bool" where
  "SelectorSet_IsEmpty s \<longleftrightarrow> SelectorSet_CanonicalKey s = EmptySelectorKey"

section \<open>Load balancer kinds\<close>

datatype LBKind = LBRoundRobin | LBLeastConnection | LBLatencyBased

fun LBKind_String :: "LBKind \<Rightarrow> string" where
  "LBKind_String LBRoundRobin = ''round_robin''"
| "LBKind_String LBLeastConnection = ''least_connection''"
| "LBKind_String LBLatencyBased = ''latency_based''"

definition LBKind_Implemented :: "LBKind \<Rightarrow> bool" where
  "LBKind_Implemented lb \<longleftrightarrow> lb = LBRoundRobin"

definition ParseLBKind :: "string \<Rightarrow> LBKind option" where
  "ParseLBKind value =
     (if value = ''round_robin'' then Some LBRoundRobin
      else if value = ''least_connection'' then Some LBLeastConnection
      else if value = ''latency_based'' then Some LBLatencyBased
      else None)"

section \<open>Upstreams\<close>

record NetworkConfig =
  BaseURL :: string
  Headers :: "(string \<times> string) list"
  RequestTimeout :: "duration option"
  MaxRetries :: "int option"
  RetryBackoff :: "duration option"
  MaxConnsPerHost :: "int option"
  InsecureSkipVerify :: bool
  AllowPrivateNetwork :: bool
  RetryAmbiguousStatus :: "bool option"
  MaxResponseBytes :: int64
  StreamIdleTimeout :: "duration option"

record ProxyConfig =
  pc_Type :: string
  pc_URL :: string
  pc_Username :: string
  pc_Password :: string

record Upstream =
  u_Provider :: Provider
  u_Network :: NetworkConfig
  u_Proxy :: "ProxyConfig option"

definition NetworkConfig_IsZero :: "NetworkConfig \<Rightarrow> bool" where
  "NetworkConfig_IsZero n \<longleftrightarrow> BaseURL n = [] \<and> Headers n = [] \<and>
     RequestTimeout n = None \<and> MaxRetries n = None \<and>
     RetryBackoff n = None \<and> MaxConnsPerHost n = None \<and>
     StreamIdleTimeout n = None \<and> RetryAmbiguousStatus n = None \<and>
     \<not> InsecureSkipVerify n \<and> \<not> AllowPrivateNetwork n \<and>
     MaxResponseBytes n = 0"

section \<open>Budgets\<close>

record Budget =
  b_ID :: string
  b_Name :: string
  b_BudgetLimit :: int64
  b_BudgetUnit :: string
  b_BudgetDuration :: string
  b_LastBudgetRefreshAt :: time
  b_Enforce :: "bool option"
  b_TotalSpend :: int64
  b_RequestCount :: int64
  b_Status :: string
  b_CreatedAt :: time
  b_UpdatedAt :: time
  b_BudgetParseDuration :: duration

section \<open>Wire enumerations\<close>

text \<open>
  The contract of an enumeration that is stored and sent by name: printing is undone by parsing,
  and the names that do not parse are reported (or mapped to a default) by the parser.
\<close>

locale wire_enum =
  fixes print :: "'a \<Rightarrow> string" and parse :: "string \<Rightarrow> 'b" and inj :: "'a \<Rightarrow> 'b"
  assumes parse_print: "parse (print x) = inj x"
    and inj_inj: "inj x = inj y \<Longrightarrow> x = y"
begin

lemma print_inject: "print x = print y \<longleftrightarrow> x = y"
  using parse_print [of x] parse_print [of y] inj_inj by metis

lemma parse_is_print: "parse s = inj x \<Longrightarrow> print y = s \<Longrightarrow> x = y"
  using parse_print [of y] inj_inj by metis

end

interpretation model_type: wire_enum ModelType_String ParseModelType id
  by unfold_locales (case_tac x, simp_all add: ParseModelType_def)

interpretation lb_kind: wire_enum LBKind_String ParseLBKind Some
  by unfold_locales (case_tac x, simp_all add: ParseLBKind_def)

section \<open>Facts\<close>

lemma ParseLBKind_SomeD: "ParseLBKind s = Some k \<Longrightarrow> LBKind_String k = s"
  by (auto simp: ParseLBKind_def split: if_splits)

lemma ParseModelString_sound:
  assumes "ParseModelString m = (p, n)"
  shows "(p = [] \<and> n = TrimSpace m) \<or> (IsKnownProvider p \<and> n \<noteq> [] \<and> TrimSpace m = p @ slash # n)"
  using assms Cut_found [of "TrimSpace m" slash]
  by (auto simp: ParseModelString_def Let_def split: prod.splits if_splits)

lemma known_provider_no_slash: "IsKnownProvider p \<Longrightarrow> slash \<notin> set p \<and> p \<noteq> []"
  by (auto simp: IsKnownProvider_def supportedProviders_def provider_names slash_def)

lemma known_provider_no_space: "IsKnownProvider p \<Longrightarrow> \<not> is_space (hd p)"
  by (auto simp: IsKnownProvider_def supportedProviders_def provider_names is_space_def)

lemma TrimSpace_fixed_last:
  assumes "TrimSpace n = n" "n \<noteq> []"
  shows "\<not> is_space (last n)"
proof -
  let ?d = "dropWhile is_space (rev (dropWhile is_space n))"
  have n: "n = rev ?d" using assms(1) by (simp add: TrimSpace_def)
  then have ne: "?d \<noteq> []" using assms(2) by (metis rev.simps(1))
  have "last n = hd ?d" by (subst n) (simp add: last_rev)
  with hd_dropWhile [OF ne] show ?thesis by simp
qed

lemma TrimSpace_append:
  assumes "p \<noteq> []" "\<not> is_space (hd p)" "TrimSpace n = n" "n \<noteq> []"
  shows "TrimSpace (p @ c # n) = p @ c # n"
proof -
  have h: "\<not> is_space (hd (rev n))" using assms TrimSpace_fixed_last by (simp add: hd_rev)
  have "dropWhile is_space (rev n @ [c] @ rev p) = rev n @ [c] @ rev p"
    using h assms(4) by (subst dropWhile_eq_self_iff) simp
  moreover have "dropWhile is_space (p @ c # n) = p @ c # n"
    using assms(1,2) by (subst dropWhile_eq_self_iff) simp
  ultimately show ?thesis by (simp add: TrimSpace_def)
qed

text \<open>Capabilities: bit \<open>i\<close> of a parsed list is set exactly when the \<open>i\<close>-th name occurs in it.\<close>

lemma capabilityMap_nth:
  "map_of capabilityMap = map_of (zip capabilityStrings (map (\<lambda>i. push_bit i 1) [0..<18]))"
  by (simp add: capabilityMap_def capabilityStrings_def capability_defs upt_rec)

lemma distinct_capabilityStrings: "distinct capabilityStrings"
  by (simp add: capabilityStrings_def)

lemma length_capabilityStrings [simp]: "length capabilityStrings = 18"
  by (simp add: capabilityStrings_def)

lemma capabilityMap_cases:
  "map_of capabilityMap n = Some b \<longleftrightarrow> (\<exists>i < 18. n = capabilityStrings ! i \<and> b = push_bit i 1)"
proof -
  have "map_of capabilityMap n = Some b \<longleftrightarrow>
      (n, b) \<in> set (zip capabilityStrings (map (\<lambda>i. push_bit i 1) [0..<18]))"
    unfolding capabilityMap_nth by (rule map_of_eq_Some_iff) (simp add: distinct_capabilityStrings)
  also have "\<dots> \<longleftrightarrow> (\<exists>i < 18. n = capabilityStrings ! i \<and> b = push_bit i 1)"
    by (auto simp: in_set_zip)
  finally show ?thesis .
qed

lemma bit_ParseCapability_aux:
  "bit (foldl (\<lambda>c n. case map_of capabilityMap n of Some b \<Rightarrow> c OR b | None \<Rightarrow> c) c cap) i
     \<longleftrightarrow> bit c i \<or> (i < 18 \<and> capabilityStrings ! i \<in> set cap)"
proof (induction cap arbitrary: c)
  case Nil
  then show ?case by simp
next
  case (Cons n cap)
  have "bit (case map_of capabilityMap n of Some b \<Rightarrow> c OR b | None \<Rightarrow> c) i
      \<longleftrightarrow> bit c i \<or> (i < 18 \<and> capabilityStrings ! i = n)"
  proof (cases "map_of capabilityMap n")
    case None
    then have "\<nexists>i. i < 18 \<and> n = capabilityStrings ! i" using capabilityMap_cases by force
    with None show ?thesis by auto
  next
    case (Some b)
    then obtain j where j: "j < 18" "n = capabilityStrings ! j" "b = push_bit j 1"
      using capabilityMap_cases by auto
    have "i < 18 \<Longrightarrow> capabilityStrings ! i = capabilityStrings ! j \<longleftrightarrow> i = j"
      using j(1) by (simp add: nth_eq_iff_index_eq distinct_capabilityStrings)
    with Some j show ?thesis by (auto simp: bit_simps)
  qed
  with Cons show ?case by auto
qed

lemma bit_ParseCapabilityStrings:
  "bit (ParseCapabilityStrings cap) i \<longleftrightarrow> i < 18 \<and> capabilityStrings ! i \<in> set cap"
  unfolding ParseCapabilityStrings_def by (subst bit_ParseCapability_aux) simp

lemma and_push_bit_nonzero: "i < 32 \<Longrightarrow> c AND push_bit i 1 \<noteq> 0 \<longleftrightarrow> bit c i" for c :: Capability
  by (simp add: bit_iff_and_push_bit_not_eq_0)

lemma set_Capability_String: "set (Capability_String c) = {capabilityStrings ! i | i. i < 18 \<and> bit c i}"
proof -
  have "filter (\<lambda>i. c AND push_bit i 1 \<noteq> 0) [0..<18] = filter (bit c) [0..<18]"
    by (rule filter_cong [OF refl], rule and_push_bit_nonzero) simp
  then show ?thesis by (auto simp: Capability_String_def)
qed

text \<open>Selector keys do not depend on the order in which the map is visited.\<close>

lemma sort_key_fst_unique:
  assumes "distinct (map fst xs)" "set xs = set ys" "distinct (map fst ys)"
  shows "sort_key fst xs = sort_key fst (ys :: ('k :: linorder \<times> 'v) list)"
proof -
  have d: "distinct xs" "distinct ys" using assms by (simp_all add: distinct_map)
  have "mset xs = mset ys" using assms(2) d by (simp add: set_eq_iff_mset_eq_distinct)
  moreover have "inj_on fst (set xs)" using assms(1) by (simp add: distinct_map)
  ultimately show ?thesis by (intro sort_key_inj_key_eq) simp_all
qed

end
