(* ===== verification/Errors.thy ===== *)
theory Errors
  imports CoreTypes
begin

text \<open>
  The errors of the gateway (\<^verbatim>\<open>internal/core/errors.go\<close>): the record, the error codes, and one
  constructor per failure. A wrapped Go error is its text; the zero value of a field is the empty
  string, 0 or \<^const>\<open>None\<close>. The JSON rendering is done by a third-party encoder and not modelled.
\<close>

datatype ErrorCategory = ErrorCategoryNone | ErrorCategoryClient | ErrorCategoryGateway | ErrorCategoryProvider

fun ErrorCategory_String :: "ErrorCategory \<Rightarrow> string" where
  "ErrorCategory_String ErrorCategoryNone = []"
| "ErrorCategory_String ErrorCategoryClient = ''client_error''"
| "ErrorCategory_String ErrorCategoryGateway = ''gateway_error''"
| "ErrorCategory_String ErrorCategoryProvider = ''provider_error''"

datatype ErrorCode = CodeNone
  | CodeNoHealthyBackends
  | CodeRouteNotFound
  | CodeRouteTableEmpty
  | CodeConfigValidation
  | CodeConfigReload
  | CodeProxyError
  | CodeInternalError
  | CodeUpstreamTimeout
  | CodeUpstreamError
  | CodeUpstreamAuth
  | CodeUpstreamRateLimit
  | CodeUpstreamUnavailable
  | CodeMissingParameter
  | CodeInvalidParameter
  | CodeInvalidRequestBody
  | CodeAuthFailed
  | CodeForbidden
  | CodeBudgetExceeded
  | CodeInvalidBudget

fun ErrorCode_String :: "ErrorCode \<Rightarrow> string" where
  "ErrorCode_String CodeNone = ''''"
| "ErrorCode_String CodeNoHealthyBackends = ''no_healthy_backends''"
| "ErrorCode_String CodeRouteNotFound = ''route_not_found''"
| "ErrorCode_String CodeRouteTableEmpty = ''route_table_empty''"
| "ErrorCode_String CodeConfigValidation = ''config_validation_failed''"
| "ErrorCode_String CodeConfigReload = ''config_reload_failed''"
| "ErrorCode_String CodeProxyError = ''proxy_error''"
| "ErrorCode_String CodeInternalError = ''internal_error''"
| "ErrorCode_String CodeUpstreamTimeout = ''upstream_timeout''"
| "ErrorCode_String CodeUpstreamError = ''upstream_error''"
| "ErrorCode_String CodeUpstreamAuth = ''upstream_auth_error''"
| "ErrorCode_String CodeUpstreamRateLimit = ''upstream_rate_limit''"
| "ErrorCode_String CodeUpstreamUnavailable = ''upstream_unavailable''"
| "ErrorCode_String CodeMissingParameter = ''missing_parameter''"
| "ErrorCode_String CodeInvalidParameter = ''invalid_parameter''"
| "ErrorCode_String CodeInvalidRequestBody = ''invalid_request_body''"
| "ErrorCode_String CodeAuthFailed = ''auth_failed''"
| "ErrorCode_String CodeForbidden = ''forbidden''"
| "ErrorCode_String CodeBudgetExceeded = ''budget_exceeded''"
| "ErrorCode_String CodeInvalidBudget = ''invalid_budget''"

record DiffractLLMError =
  e_ErrorCategory :: ErrorCategory
  e_Code :: ErrorCode
  e_Internal :: "string option"
  e_StatusCode :: int
  e_Message :: string
  e_Type :: string
  e_Component :: string
  e_Provider :: string
  e_Backend :: string
  e_BackendURL :: string
  e_RequestID :: string
  e_Parameter :: "string option"
  e_Details :: "(string \<times> string) list"
  e_RetryAfter :: int
  e_ProviderErrorCode :: string
  e_ProviderErrorType :: string
  e_ProviderErrorDetail :: string

definition DiffractLLMError_zero :: DiffractLLMError where
  "DiffractLLMError_zero = \<lparr>e_ErrorCategory = ErrorCategoryNone, e_Code = CodeNone, e_Internal = None,
     e_StatusCode = 0, e_Message = [], e_Type = [], e_Component = [], e_Provider = [],
     e_Backend = [], e_BackendURL = [], e_RequestID = [], e_Parameter = None, e_Details = [],
     e_RetryAfter = 0, e_ProviderErrorCode = [], e_ProviderErrorType = [], e_ProviderErrorDetail = []\<rparr>"

definition DiffractLLMError_Error :: "DiffractLLMError \<Rightarrow> string" where
  "DiffractLLMError_Error r = (case e_Internal r of
     Some i \<Rightarrow> ''['' @ ErrorCategory_String (e_ErrorCategory r) @ ''] : Status Code - ['' @ Itoa (e_StatusCode r)
       @ ''] Message - '' @ e_Message r @ '' Internal - '' @ i
   | None \<Rightarrow> ''['' @ ErrorCategory_String (e_ErrorCategory r) @ ''] : Status Code - ['' @ Itoa (e_StatusCode r)
       @ ''] Message - '' @ e_Message r)"

definition IsGateway :: "DiffractLLMError \<Rightarrow> bool" where
  "IsGateway r \<longleftrightarrow> e_ErrorCategory r = ErrorCategoryGateway"

definition IsProvider :: "DiffractLLMError \<Rightarrow> bool" where
  "IsProvider r \<longleftrightarrow> e_ErrorCategory r = ErrorCategoryProvider"

definition IsClient :: "DiffractLLMError \<Rightarrow> bool" where
  "IsClient r \<longleftrightarrow> e_ErrorCategory r = ErrorCategoryClient"

section \<open>Constructors\<close>

definition NewNoHealthyBackends :: "string \<Rightarrow> DiffractLLMError" where
  "NewNoHealthyBackends backendName = DiffractLLMError_zero\<lparr>e_ErrorCategory := ErrorCategoryGateway,
     e_Code := CodeNoHealthyBackends,
     e_Message := ''No healthy instances available for backend '' @ [squote] @ backendName @ [squote],
     e_Type := ''gateway_error'',
     e_StatusCode := 503,
     e_Component := ''loadbalancer'',
     e_Backend := backendName\<rparr>"

definition NewRouteNotFound :: "string \<Rightarrow> string \<Rightarrow> DiffractLLMError" where
  "NewRouteNotFound path method = DiffractLLMError_zero\<lparr>e_ErrorCategory := ErrorCategoryGateway,
     e_Code := CodeRouteNotFound,
     e_Message := ''No route found for '' @ method @ '' '' @ path,
     e_Type := ''gateway_error'',
     e_StatusCode := 404,
     e_Component := ''routeengine'',
     e_Details := [(''path'', path), (''method'', method)]\<rparr>"

definition NewRouteTableEmpty :: "DiffractLLMError" where
  "NewRouteTableEmpty = DiffractLLMError_zero\<lparr>e_ErrorCategory := ErrorCategoryGateway,
     e_Code := CodeRouteTableEmpty,
     e_Message := ''Routing table is not initialized'',
     e_Type := ''gateway_error'',
     e_StatusCode := 503,
     e_Component := ''routeengine'',
     e_Details := [(''internal_detail'', ''Check if policy.yaml is loaded correctly'')]\<rparr>"

definition NewConfigValidationError :: "string \<Rightarrow> string option \<Rightarrow> DiffractLLMError" where
  "NewConfigValidationError message cause = DiffractLLMError_zero\<lparr>e_ErrorCategory := ErrorCategoryGateway,
     e_Code := CodeConfigValidation,
     e_Message := ''Configuration validation failed'',
     e_Type := ''gateway_error'',
     e_StatusCode := 500,
     e_Component := ''configmanager'',
     e_Internal := cause,
     e_Details := [(''internal_detail'', message)]\<rparr>"

definition NewConfigReloadError :: "string \<Rightarrow> string option \<Rightarrow> DiffractLLMError" where
  "NewConfigReloadError message cause = DiffractLLMError_zero\<lparr>e_ErrorCategory := ErrorCategoryGateway,
     e_Code := CodeConfigReload,
     e_Message := ''Failed to reload configuration'',
     e_Type := ''gateway_error'',
     e_StatusCode := 500,
     e_Component := ''configmanager'',
     e_Internal := cause,
     e_Details := [(''internal_detail'', message)]\<rparr>"

definition NewProxyError :: "string \<Rightarrow> string option \<Rightarrow> DiffractLLMError" where
  "NewProxyError message cause = DiffractLLMError_zero\<lparr>e_ErrorCategory := ErrorCategoryGateway,
     e_Code := CodeProxyError,
     e_Message := ''Proxy error occurred'',
     e_Type := ''gateway_error'',
     e_StatusCode := 502,
     e_Component := ''reverseproxy'',
     e_Internal := cause,
     e_Details := [(''internal_detail'', message)]\<rparr>"

definition NewInternalError :: "string \<Rightarrow> string \<Rightarrow> string option \<Rightarrow> DiffractLLMError" where
  "NewInternalError component message cause = DiffractLLMError_zero\<lparr>e_ErrorCategory := ErrorCategoryGateway,
     e_Code := CodeInternalError,
     e_Message := ''Internal server error'',
     e_Type := ''gateway_error'',
     e_StatusCode := 500,
     e_Component := component,
     e_Internal := cause,
     e_Details := [(''internal_detail'', message)]\<rparr>"

definition NewUpstreamTimeout :: "string \<Rightarrow> string \<Rightarrow> string option \<Rightarrow> DiffractLLMError" where
  "NewUpstreamTimeout provider backendURL cause = DiffractLLMError_zero\<lparr>e_ErrorCategory := ErrorCategoryProvider,
     e_Code := CodeUpstreamTimeout,
     e_Message := ''Request to '' @ provider @ '' timed out'',
     e_Type := ''provider_error'',
     e_StatusCode := 504,
     e_Component := ''provider'',
     e_Provider := provider,
     e_BackendURL := backendURL,
     e_Internal := cause,
     e_Details := [(''internal_detail'', ''Backend '' @ backendURL @ '' did not respond in time'')]\<rparr>"

definition NewUpstreamError :: "string \<Rightarrow> string \<Rightarrow> int \<Rightarrow> string \<Rightarrow> string option \<Rightarrow> DiffractLLMError" where
  "NewUpstreamError provider backendURL statusCode message cause = DiffractLLMError_zero\<lparr>e_ErrorCategory := ErrorCategoryProvider,
     e_Code := CodeUpstreamError,
     e_Message := ''Provider '' @ provider @ '' returned an error'',
     e_Type := ''provider_error'',
     e_StatusCode := statusCode,
     e_Component := ''provider'',
     e_Provider := provider,
     e_BackendURL := backendURL,
     e_Internal := cause,
     e_Details := [(''internal_detail'', message)]\<rparr>"

definition NewUpstreamAuth :: "string \<Rightarrow> string \<Rightarrow> string \<Rightarrow> DiffractLLMError" where
  "NewUpstreamAuth provider backendURL message = DiffractLLMError_zero\<lparr>e_ErrorCategory := ErrorCategoryProvider,
     e_Code := CodeUpstreamAuth,
     e_Message := ''Authentication failed with '' @ provider,
     e_Type := ''provider_error'',
     e_StatusCode := 502,
     e_Component := ''provider'',
     e_Provider := provider,
     e_BackendURL := backendURL,
     e_Details := [(''internal_detail'', message)]\<rparr>"

definition NewUpstreamRateLimit :: "string \<Rightarrow> string \<Rightarrow> int \<Rightarrow> DiffractLLMError" where
  "NewUpstreamRateLimit provider backendURL retryAfter = DiffractLLMError_zero\<lparr>e_ErrorCategory := ErrorCategoryProvider,
     e_Code := CodeUpstreamRateLimit,
     e_Message := ''Rate limit exceeded on '' @ provider,
     e_Type := ''provider_error'',
     e_StatusCode := 429,
     e_Component := ''provider'',
     e_Provider := provider,
     e_BackendURL := backendURL,
     e_RetryAfter := retryAfter\<rparr>"

definition NewUpstreamUnavailable :: "string \<Rightarrow> string \<Rightarrow> string option \<Rightarrow> DiffractLLMError" where
  "NewUpstreamUnavailable provider backendURL cause = DiffractLLMError_zero\<lparr>e_ErrorCategory := ErrorCategoryProvider,
     e_Code := CodeUpstreamUnavailable,
     e_Message := ''Provider '' @ provider @ '' is currently unavailable'',
     e_Type := ''provider_error'',
     e_StatusCode := 502,
     e_Component := ''provider'',
     e_Provider := provider,
     e_BackendURL := backendURL,
     e_Internal := cause,
     e_Details := [(''internal_detail'', ''Service is down or unreachable'')]\<rparr>"

definition NewMissingParameter :: "string \<Rightarrow> DiffractLLMError" where
  "NewMissingParameter parameter = DiffractLLMError_zero\<lparr>e_ErrorCategory := ErrorCategoryClient,
     e_Code := CodeMissingParameter,
     e_Message := ''Missing required parameter: '' @ parameter,
     e_Type := ''invalid_request_error'',
     e_StatusCode := 400,
     e_Component := ''validator'',
     e_Parameter := Some parameter\<rparr>"

definition NewInvalidParameter :: "string \<Rightarrow> string \<Rightarrow> DiffractLLMError" where
  "NewInvalidParameter parameter reason = DiffractLLMError_zero\<lparr>e_ErrorCategory := ErrorCategoryClient,
     e_Code := CodeInvalidParameter,
     e_Message := ''Invalid parameter '' @ [squote] @ parameter @ [squote] @ '': '' @ reason,
     e_Type := ''invalid_request_error'',
     e_StatusCode := 400,
     e_Component := ''validator'',
     e_Parameter := Some parameter\<rparr>"

definition NewInvalidRequestBody :: "string \<Rightarrow> string option \<Rightarrow> DiffractLLMError" where
  "NewInvalidRequestBody message cause = DiffractLLMError_zero\<lparr>e_ErrorCategory := ErrorCategoryClient,
     e_Code := CodeInvalidRequestBody,
     e_Message := ''Invalid request body'',
     e_Type := ''invalid_request_error'',
     e_StatusCode := 400,
     e_Component := ''validator'',
     e_Internal := cause,
     e_Details := [(''internal_detail'', message)]\<rparr>"

definition NewAuthFailed :: "string \<Rightarrow> DiffractLLMError" where
  "NewAuthFailed message = DiffractLLMError_zero\<lparr>e_ErrorCategory := ErrorCategoryClient,
     e_Code := CodeAuthFailed,
     e_Message := ''Authentication failed'',
     e_Type := ''authentication_error'',
     e_StatusCode := 401,
     e_Component := ''auth'',
     e_Details := [(''internal_detail'', message)]\<rparr>"

definition NewForbidden :: "string \<Rightarrow> DiffractLLMError" where
  "NewForbidden message = DiffractLLMError_zero\<lparr>e_ErrorCategory := ErrorCategoryClient,
     e_Code := CodeForbidden,
     e_Message := ''Access forbidden'',
     e_Type := ''permission_error'',
     e_StatusCode := 403,
     e_Component := ''auth'',
     e_Details := [(''internal_detail'', message)]\<rparr>"

definition NewInvalidBudget :: "string \<Rightarrow> DiffractLLMError" where
  "NewInvalidBudget message = DiffractLLMError_zero\<lparr>e_ErrorCategory := ErrorCategoryGateway,
     e_Code := CodeInvalidBudget,
     e_Message := ''Budget configuration error'',
     e_Type := ''budget_error'',
     e_StatusCode := 500,
     e_Component := ''budget'',
     e_Details := [(''internal_detail'', message)]\<rparr>"

definition NewBudgetExceeded :: "string \<Rightarrow> DiffractLLMError" where
  "NewBudgetExceeded message = DiffractLLMError_zero\<lparr>e_ErrorCategory := ErrorCategoryClient,
     e_Code := CodeBudgetExceeded,
     e_Message := ''Budget limit exceeded'',
     e_Type := ''budget_error'',
     e_StatusCode := 400,
     e_Component := ''budget'',
     e_Details := [(''internal_detail'', message)]\<rparr>"

definition NewPayloadTooLarge :: "int64 \<Rightarrow> DiffractLLMError" where
  "NewPayloadTooLarge limit = DiffractLLMError_zero\<lparr>e_ErrorCategory := ErrorCategoryClient,
     e_Code := CodeInvalidRequestBody,
     e_Message := ''request body exceeds max_body_size'',
     e_Type := ''invalid_request_error'',
     e_StatusCode := 413,
     e_Component := ''validator'',
     e_Details := [(''internal_detail'', ''body limit is '' @ Itoa limit @ '' bytes'')]\<rparr>"

definition NewUnpricedModel :: "CatalogKey \<Rightarrow> DiffractLLMError" where
  "NewUnpricedModel key = DiffractLLMError_zero\<lparr>e_ErrorCategory := ErrorCategoryClient,
     e_Code := CodeInvalidRequestBody,
     e_Message := ''model has no pricing configured'',
     e_Type := ''invalid_request_error'',
     e_StatusCode := 400,
     e_Component := ''pricing'',
     e_Details := [(''model'', CatalogKey_SlashKey key)]\<rparr>"

lemmas error_defs = NewNoHealthyBackends_def NewRouteNotFound_def NewRouteTableEmpty_def NewConfigValidationError_def NewConfigReloadError_def NewProxyError_def NewInternalError_def NewUpstreamTimeout_def NewUpstreamError_def NewUpstreamAuth_def NewUpstreamRateLimit_def NewUpstreamUnavailable_def NewMissingParameter_def NewInvalidParameter_def NewInvalidRequestBody_def NewAuthFailed_def NewForbidden_def NewInvalidBudget_def NewBudgetExceeded_def NewPayloadTooLarge_def NewUnpricedModel_def

lemma ErrorCode_String_inj: "ErrorCode_String a = ErrorCode_String b \<Longrightarrow> a = b"
  by (cases a; cases b) simp_all

text \<open>A constructed error belongs to exactly one category.\<close>

lemma category_exclusive:
  "\<not> (IsGateway r \<and> IsProvider r) \<and> \<not> (IsGateway r \<and> IsClient r) \<and> \<not> (IsProvider r \<and> IsClient r)"
  by (auto simp: IsGateway_def IsProvider_def IsClient_def)

end
