(* ===== verification/Float64.thy ===== *)
theory Float64
  imports Prelude "HOL-Library.Log_Nat"
begin

text \<open>
  Go's \<^verbatim>\<open>float64\<close>: IEEE 754 binary64 with round-to-nearest, ties-to-even, executable on
  rationals. A value is a finite rational, an infinity or NaN; the two zeros are one value
  (no operation of the source tells them apart). Every arithmetic operation computes the
  exact result and rounds it once; fused multiply-add, which Go permits on some
  architectures and does not use on amd64, is not modelled.

  The theory proves what the pricing and budget code relies on: rounding is monotone, keeps
  the sign, is idempotent, is exact on integers below \<open>2 ^ 53\<close>, and has relative error at
  most \<open>2 ^ -53\<close> in the normal range.
\<close>

datatype float64 = Fin rat | PInf | NInf | NaN

section \<open>Rounding\<close>

definition ilog2 :: "rat \<Rightarrow> int" where
  "ilog2 x = (case quotient_of x of (a, b) \<Rightarrow>
     let k = bitlen a - bitlen b in if x < 2 powi k then k - 1 else k)"

text \<open>Round to the nearest integer, ties to even.\<close>

definition rhe :: "rat \<Rightarrow> int" where
  "rhe q = (let f = \<lfloor>q\<rfloor>; d = q - of_int f in
     if d < 1 / 2 then f else if 1 / 2 < d then f + 1 else if even f then f else f + 1)"

text \<open>The exponent of the last place of a positive number: 52 bits below the leading one,
  and never below the subnormal exponent.\<close>

definition ulp_exp :: "rat \<Rightarrow> int" where
  "ulp_exp x = max (ilog2 x - 52) (- 1074)"

definition rnd_mag :: "rat \<Rightarrow> rat" where
  "rnd_mag x = of_int (rhe (x / 2 powi ulp_exp x)) * 2 powi ulp_exp x"

definition rnd64 :: "rat \<Rightarrow> rat" where
  "rnd64 x = (if x = 0 then 0 else if x < 0 then - rnd_mag (- x) else rnd_mag x)"

definition round64 :: "rat \<Rightarrow> float64" where
  "round64 x = (let y = rnd64 x in
     if \<bar>y\<bar> < 2 ^ 1024 then Fin y else if 0 < y then PInf else NInf)"

section \<open>Operations\<close>

fun fneg :: "float64 \<Rightarrow> float64" where
  "fneg (Fin a) = Fin (- a)"
| "fneg PInf = NInf"
| "fneg NInf = PInf"
| "fneg NaN = NaN"

fun fadd :: "float64 \<Rightarrow> float64 \<Rightarrow> float64" where
  "fadd (Fin a) (Fin b) = round64 (a + b)"
| "fadd NaN _ = NaN"
| "fadd _ NaN = NaN"
| "fadd PInf NInf = NaN"
| "fadd NInf PInf = NaN"
| "fadd PInf _ = PInf"
| "fadd _ PInf = PInf"
| "fadd NInf _ = NInf"
| "fadd _ NInf = NInf"

definition fsub :: "float64 \<Rightarrow> float64 \<Rightarrow> float64" where
  "fsub a b = fadd a (fneg b)"

definition inf_of_sign :: "rat \<Rightarrow> float64" where
  "inf_of_sign s = (if s = 0 then NaN else if 0 < s then PInf else NInf)"

fun fmul :: "float64 \<Rightarrow> float64 \<Rightarrow> float64" where
  "fmul (Fin a) (Fin b) = round64 (a * b)"
| "fmul NaN _ = NaN"
| "fmul _ NaN = NaN"
| "fmul PInf (Fin b) = inf_of_sign b"
| "fmul NInf (Fin b) = inf_of_sign (- b)"
| "fmul (Fin a) PInf = inf_of_sign a"
| "fmul (Fin a) NInf = inf_of_sign (- a)"
| "fmul PInf PInf = PInf"
| "fmul NInf NInf = PInf"
| "fmul PInf NInf = NInf"
| "fmul NInf PInf = NInf"

text \<open>Division by a non-zero finite constant, the only division the source performs.\<close>

definition fdiv_const :: "float64 \<Rightarrow> rat \<Rightarrow> float64" where
  "fdiv_const a c = (case a of Fin x \<Rightarrow> round64 (x / c) | PInf \<Rightarrow> inf_of_sign c
     | NInf \<Rightarrow> inf_of_sign (- c) | NaN \<Rightarrow> NaN)"

fun flt :: "float64 \<Rightarrow> float64 \<Rightarrow> bool" where
  "flt (Fin a) (Fin b) = (a < b)"
| "flt NaN _ = False"
| "flt _ NaN = False"
| "flt NInf b = (b \<noteq> NInf)"
| "flt _ NInf = False"
| "flt PInf _ = False"
| "flt _ PInf = True"

text \<open>Go's \<^verbatim>\<open>==\<close>: NaN equals nothing.\<close>

definition feq :: "float64 \<Rightarrow> float64 \<Rightarrow> bool" where
  "feq a b \<longleftrightarrow> a \<noteq> NaN \<and> b \<noteq> NaN \<and> a = b"

definition fle :: "float64 \<Rightarrow> float64 \<Rightarrow> bool" where
  "fle a b \<longleftrightarrow> flt a b \<or> feq a b"

text \<open>The conversion \<^verbatim>\<open>float64(n)\<close> of an integer.\<close>

definition float_of_int :: "int \<Rightarrow> float64" where
  "float_of_int n = round64 (of_int n)"

text \<open>\<^verbatim>\<open>math.Round\<close>: nearest integer, halves away from zero.\<close>

definition round_away :: "rat \<Rightarrow> int" where
  "round_away x = (if x < 0 then - \<lfloor>- x + 1 / 2\<rfloor> else \<lfloor>x + 1 / 2\<rfloor>)"

definition fround :: "float64 \<Rightarrow> float64" where
  "fround a = (case a of Fin x \<Rightarrow> Fin (of_int (round_away x)) | _ \<Rightarrow> a)"

definition is_fin :: "float64 \<Rightarrow> bool" where
  "is_fin a \<longleftrightarrow> (case a of Fin _ \<Rightarrow> True | _ \<Rightarrow> False)"

definition representable :: "rat \<Rightarrow> bool" where
  "representable x \<longleftrightarrow> rnd64 x = x \<and> \<bar>x\<bar> < 2 ^ 1024"

section \<open>Powers of two\<close>

abbreviation two_powi :: "int \<Rightarrow> rat" where
  "two_powi k \<equiv> 2 powi k"

lemma two_powi_pos [simp]: "0 < two_powi k"
  by simp

lemma two_powi_add: "two_powi (a + b) = two_powi a * two_powi b"
  by (simp add: power_int_add)

lemma two_powi_mono: "a \<le> b \<Longrightarrow> two_powi a \<le> two_powi b"
  by (rule power_int_increasing) simp_all

lemma two_powi_less_iff: "two_powi a < two_powi b \<longleftrightarrow> a < b"
  using two_powi_mono [of a b] power_int_strict_increasing [of a b "2 :: rat"]
    two_powi_mono [of b a] by (cases "a < b") auto

lemma two_powi_diff: "two_powi (a - b) = two_powi a / two_powi b"
  by (simp add: power_int_diff)

lemma two_powi_of_nat: "two_powi (int n) = 2 ^ n"
  by simp

lemma two_powi_integral:
  assumes "0 \<le> k"
  shows "two_powi k = of_int (2 ^ nat k)"
  using assms by (simp add: power_int_def)

section \<open>The binary logarithm\<close>

lemma bitlen_rat_bounds:
  assumes "0 < a"
  shows "two_powi (bitlen a - 1) \<le> of_int a" "of_int a < two_powi (bitlen a)"
proof -
  have b: "2 ^ nat (bitlen a - 1) \<le> a \<and> a < 2 ^ nat (bitlen a)"
    by (rule bitlen_bounds [OF assms])
  have k: "0 < bitlen a"
    using assms bitlen_nonneg [of a] bitlen_eq_zero_iff [of a] by linarith
  have "two_powi (bitlen a - 1) = of_int (2 ^ nat (bitlen a - 1))"
    using k by (intro two_powi_integral) simp
  then show "two_powi (bitlen a - 1) \<le> of_int a"
    using b of_int_le_iff [where 'a = rat, of "2 ^ nat (bitlen a - 1)" a] by simp
  have "two_powi (bitlen a) = of_int (2 ^ nat (bitlen a))"
    using k by (intro two_powi_integral) simp
  then show "of_int a < two_powi (bitlen a)"
    using b of_int_less_iff [where 'a = rat, of a "2 ^ nat (bitlen a)"] by simp
qed

lemma ilog2_bounds:
  assumes "0 < x"
  shows "two_powi (ilog2 x) \<le> x" "x < two_powi (ilog2 x + 1)"
proof -
  obtain a b where q: "quotient_of x = (a, b)" by (cases "quotient_of x") auto
  have b: "0 < b" using quotient_of_denom_pos [OF q] .
  have x: "x = of_int a / of_int b" using quotient_of_div [OF q] .
  have a: "0 < a" using assms x b by (simp add: zero_less_divide_iff)
  define k where "k = bitlen a - bitlen b"
  have "x < two_powi (bitlen a) / two_powi (bitlen b - 1)"
    unfolding x using bitlen_rat_bounds [OF a] bitlen_rat_bounds [OF b] b a
    by (intro frac_less) auto
  also have "\<dots> = two_powi (k + 1)"
    unfolding k_def two_powi_diff [symmetric] by (simp add: algebra_simps)
  finally have up: "x < two_powi (k + 1)" .
  have "two_powi (k - 1) = two_powi (bitlen a - 1) / two_powi (bitlen b)"
    unfolding k_def two_powi_diff [symmetric] by (simp add: algebra_simps)
  also have "\<dots> \<le> x"
    unfolding x using bitlen_rat_bounds [OF a] bitlen_rat_bounds [OF b] b a
    by (intro frac_le) auto
  finally have lo: "two_powi (k - 1) \<le> x" .
  have il: "ilog2 x = (if x < two_powi k then k - 1 else k)"
    by (simp add: ilog2_def q k_def Let_def)
  show "two_powi (ilog2 x) \<le> x" using lo by (simp add: il)
  show "x < two_powi (ilog2 x + 1)" using up by (simp add: il)
qed

lemma ilog2_less:
  assumes "0 < x" "x < two_powi k"
  shows "ilog2 x < k"
  using ilog2_bounds(1) [OF assms(1)] assms(2) by (simp add: two_powi_less_iff [symmetric])

lemma ilog2_ge:
  assumes "0 < x" "two_powi k \<le> x"
  shows "k \<le> ilog2 x"
proof -
  have "two_powi k < two_powi (ilog2 x + 1)"
    using assms(2) ilog2_bounds(2) [OF assms(1)] by (rule le_less_trans)
  then show ?thesis by (simp add: two_powi_less_iff)
qed

lemma ilog2_eqI: "two_powi k \<le> x \<Longrightarrow> x < two_powi (k + 1) \<Longrightarrow> ilog2 x = k"
  using ilog2_less [of x "k + 1"] ilog2_ge [of x k] two_powi_pos [of k] by fastforce

lemma ilog2_mono:
  assumes "0 < x" "x \<le> y"
  shows "ilog2 x \<le> ilog2 y"
  using assms ilog2_bounds(1) [OF assms(1)] by (intro ilog2_ge) auto

section \<open>Rounding to an integer\<close>

lemma rhe_cases: "rhe q = \<lfloor>q\<rfloor> \<or> rhe q = \<lfloor>q\<rfloor> + 1"
  by (simp add: rhe_def Let_def)

lemma rhe_close: "\<bar>of_int (rhe q) - q\<bar> \<le> 1 / 2"
  using floor_correct [of q] by (auto simp: rhe_def Let_def)

lemma rhe_of_int [simp]: "rhe (of_int n) = n"
  by (simp add: rhe_def)

lemma rhe_mono:
  assumes "p \<le> q"
  shows "rhe p \<le> rhe q"
proof (cases "\<lfloor>p\<rfloor> = \<lfloor>q\<rfloor>")
  case True
  with assms show ?thesis by (auto simp: rhe_def Let_def)
next
  case False
  with floor_mono [OF assms] have "\<lfloor>p\<rfloor> + 1 \<le> \<lfloor>q\<rfloor>" by simp
  then show ?thesis using rhe_cases [of p] rhe_cases [of q] by auto
qed

lemma rhe_nonneg: "0 \<le> q \<Longrightarrow> 0 \<le> rhe q"
  using rhe_mono [of 0 q] rhe_of_int [of 0] by simp

section \<open>Rounding to binary64\<close>

lemma rnd_mag_nonneg: "0 < x \<Longrightarrow> 0 \<le> rnd_mag x"
  unfolding rnd_mag_def by (intro mult_nonneg_nonneg) (simp_all add: rhe_nonneg)

lemma rnd_mag_le_multiple:
  assumes "x \<le> of_int m * two_powi (ulp_exp x)"
  shows "rnd_mag x \<le> of_int m * two_powi (ulp_exp x)"
proof -
  have "x / two_powi (ulp_exp x) \<le> of_int m"
    using assms by (simp add: pos_divide_le_eq)
  then have "rhe (x / two_powi (ulp_exp x)) \<le> m"
    using rhe_mono rhe_of_int by metis
  then show ?thesis
    unfolding rnd_mag_def by (intro mult_right_mono) simp_all
qed

lemma rnd_mag_ge_multiple:
  assumes "of_int m * two_powi (ulp_exp x) \<le> x"
  shows "of_int m * two_powi (ulp_exp x) \<le> rnd_mag x"
proof -
  have "of_int m \<le> x / two_powi (ulp_exp x)"
    using assms by (simp add: pos_le_divide_eq)
  then have "m \<le> rhe (x / two_powi (ulp_exp x))"
    using rhe_mono rhe_of_int by metis
  then show ?thesis
    unfolding rnd_mag_def by (intro mult_right_mono) simp_all
qed

text \<open>A power of two at or above the last place is a multiple of the last place.\<close>

lemma two_powi_multiple:
  assumes "e \<le> k"
  shows "two_powi k = of_int (2 ^ nat (k - e)) * two_powi e"
  using assms two_powi_add [of "k - e" e] by (simp add: two_powi_integral)

lemma rnd_mag_le_two_powi:
  assumes "x \<le> two_powi k" "ulp_exp x \<le> k"
  shows "rnd_mag x \<le> two_powi k"
  using rnd_mag_le_multiple [of x "2 ^ nat (k - ulp_exp x)"] two_powi_multiple [OF assms(2)] assms(1)
  by simp

lemma rnd_mag_ge_two_powi:
  assumes "two_powi k \<le> x" "ulp_exp x \<le> k"
  shows "two_powi k \<le> rnd_mag x"
  using rnd_mag_ge_multiple [of "2 ^ nat (k - ulp_exp x)" x] two_powi_multiple [OF assms(2)] assms(1)
  by simp

lemma rnd_mag_mono:
  assumes "0 < x" "x \<le> y"
  shows "rnd_mag x \<le> rnd_mag y"
proof (cases "ulp_exp x = ulp_exp y")
  case True
  have "x / two_powi (ulp_exp y) \<le> y / two_powi (ulp_exp y)"
    using assms by (simp add: divide_right_mono)
  then show ?thesis
    unfolding rnd_mag_def True by (intro mult_right_mono) (simp_all add: rhe_mono)
next
  case False
  define l where "l = ilog2 y"
  have le: "ilog2 x \<le> l" unfolding l_def using assms by (rule ilog2_mono)
  with False have uy: "ulp_exp y = l - 52" and lt: "ilog2 x < l" and ux: "ulp_exp x < l"
    by (auto simp: ulp_exp_def l_def max_def split: if_splits)
  have "x < two_powi (ilog2 x + 1)" using assms by (intro ilog2_bounds)
  also have "\<dots> \<le> two_powi l" using lt by (intro two_powi_mono) simp
  finally have "rnd_mag x \<le> two_powi l" using ux by (intro rnd_mag_le_two_powi) simp_all
  also have "two_powi l \<le> rnd_mag y"
    using assms uy ilog2_bounds(1) [of y] by (intro rnd_mag_ge_two_powi) (simp_all add: l_def)
  finally show ?thesis .
qed

lemma rnd_mag_exact:
  assumes x: "x = of_int m * two_powi e" and m: "0 < m" "m < 2 ^ 53" and e: "- 1074 \<le> e"
  shows "rnd_mag x = x"
proof -
  have "x < two_powi 53 * two_powi e"
    unfolding x using m of_int_less_iff [where 'a = rat, of m "2 ^ 53"]
    by (intro mult_strict_right_mono) simp_all
  then have "x < two_powi (53 + e)" by (simp only: two_powi_add)
  moreover have pos: "0 < x" unfolding x using m by simp
  ultimately have "ilog2 x < 53 + e" by (intro ilog2_less)
  then have E: "ulp_exp x \<le> e" using e by (simp add: ulp_exp_def)
  have xm: "of_int (m * 2 ^ nat (e - ulp_exp x)) * two_powi (ulp_exp x) = x"
    by (subst x, subst two_powi_multiple [OF E]) simp
  then have "x / two_powi (ulp_exp x) = of_int (m * 2 ^ nat (e - ulp_exp x))"
    by (metis nonzero_mult_div_cancel_right two_powi_pos less_irrefl)
  then have "rhe (x / two_powi (ulp_exp x)) = m * 2 ^ nat (e - ulp_exp x)"
    by (simp only: rhe_of_int)
  then show ?thesis
    unfolding rnd_mag_def using xm by simp
qed

lemma rnd_mag_digits:
  assumes "0 < x"
  shows "rhe (x / two_powi (ulp_exp x)) \<le> 2 ^ 53"
proof -
  have "x < two_powi (ilog2 x + 1)" using assms by (rule ilog2_bounds)
  also have "\<dots> \<le> two_powi (53 + ulp_exp x)"
    by (intro two_powi_mono) (simp add: ulp_exp_def)
  also have "\<dots> = 2 ^ 53 * two_powi (ulp_exp x)"
    by (simp add: two_powi_add)
  finally have "x / two_powi (ulp_exp x) \<le> of_int (2 ^ 53)"
    by (simp add: pos_divide_le_eq)
  then show ?thesis using rhe_mono rhe_of_int by metis
qed

lemma rnd64_zero [simp]: "rnd64 0 = 0"
  by (simp add: rnd64_def)

lemma rnd64_neg: "rnd64 (- x) = - rnd64 x"
  by (auto simp: rnd64_def)

lemma rnd64_nonneg: "0 \<le> x \<Longrightarrow> 0 \<le> rnd64 x"
  by (auto simp: rnd64_def rnd_mag_nonneg)

lemma rnd64_mono:
  assumes "x \<le> y"
  shows "rnd64 x \<le> rnd64 y"
proof -
  consider "x < 0" "y < 0" | "x < 0" "0 \<le> y" | "x = 0" | "0 < x"
    by linarith
  then show ?thesis
  proof cases
    case 1
    then show ?thesis
      using assms rnd_mag_mono [of "- y" "- x"] by (simp add: rnd64_def)
  next
    case 2
    then have "rnd64 x \<le> 0" using rnd_mag_nonneg [of "- x"] by (simp add: rnd64_def)
    also have "0 \<le> rnd64 y" using 2 by (intro rnd64_nonneg) simp
    finally show ?thesis .
  next
    case 3
    then show ?thesis using assms rnd64_nonneg [of y] by simp
  next
    case 4
    then show ?thesis using assms rnd_mag_mono [of x y] by (simp add: rnd64_def)
  qed
qed

lemma rnd64_exact:
  assumes x: "x = of_int m * two_powi e" and m: "\<bar>m\<bar> < 2 ^ 53" and e: "- 1074 \<le> e"
  shows "rnd64 x = x"
proof -
  consider "m = 0" | "0 < m" | "m < 0" by linarith
  then show ?thesis
  proof cases
    case 1
    then show ?thesis by (simp add: x)
  next
    case 2
    then have "rnd_mag x = x" using assms by (intro rnd_mag_exact [of x m e]) auto
    moreover have "0 < x" using 2 by (simp add: x)
    ultimately show ?thesis by (simp add: rnd64_def)
  next
    case 3
    then have "rnd_mag (- x) = - x" using assms by (intro rnd_mag_exact [of "- x" "- m" e]) auto
    moreover have "x < 0" using 3 by (simp add: x mult_neg_pos)
    ultimately show ?thesis by (simp add: rnd64_def)
  qed
qed

lemma rnd64_of_int [simp]: "\<bar>n\<bar> < 2 ^ 53 \<Longrightarrow> rnd64 (of_int n) = of_int n"
  by (rule rnd64_exact [of _ n 0]) simp_all

lemma rnd64_idem [simp]: "rnd64 (rnd64 x) = rnd64 x"
proof -
  have pos: "rnd64 (rnd_mag y) = rnd_mag y" if y: "0 < y" for y
  proof -
    define m where "m = rhe (y / two_powi (ulp_exp y))"
    have m: "0 \<le> m" "m \<le> 2 ^ 53"
      unfolding m_def using y rnd_mag_digits [OF y] by (simp_all add: rhe_nonneg)
    have eq: "rnd_mag y = of_int m * two_powi (ulp_exp y)" by (simp add: rnd_mag_def m_def)
    have e: "- 1074 \<le> ulp_exp y" by (simp add: ulp_exp_def)
    show ?thesis
    proof (cases "m = 2 ^ 53")
      case True
      then have "rnd_mag y = of_int (2 ^ 52) * two_powi (1 + ulp_exp y)"
        by (simp add: eq two_powi_add)
      then show ?thesis by (rule rnd64_exact) (use e in simp_all)
    next
      case False
      then have "\<bar>m\<bar> < 2 ^ 53" using m by linarith
      with eq show ?thesis using e by (intro rnd64_exact)
    qed
  qed
  show ?thesis
    using pos [of x] pos [of "- x"] by (cases "x = 0"; cases "x < 0")
      (auto simp: rnd64_def [of x] rnd64_neg)
qed

lemma rnd64_rel_error:
  assumes "two_powi (- 1022) \<le> x"
  shows "\<bar>rnd64 x - x\<bar> \<le> x / 2 ^ 53"
proof -
  have pos: "0 < x" using assms two_powi_pos less_le_trans by blast
  have "- 1022 \<le> ilog2 x" using pos assms by (rule ilog2_ge)
  then have E: "ulp_exp x = ilog2 x - 52" by (simp add: ulp_exp_def)
  let ?u = "two_powi (ulp_exp x)"
  have "rnd_mag x - x = (of_int (rhe (x / ?u)) - x / ?u) * ?u"
    by (simp add: rnd_mag_def field_simps)
  then have "\<bar>rnd_mag x - x\<bar> = \<bar>of_int (rhe (x / ?u)) - x / ?u\<bar> * ?u"
    by (simp add: abs_mult)
  also have "\<dots> \<le> 1 / 2 * ?u" by (intro mult_right_mono rhe_close) simp
  also have "\<dots> = two_powi (ilog2 x) / 2 ^ 53" by (simp add: E two_powi_diff)
  also have "\<dots> \<le> x / 2 ^ 53" using ilog2_bounds(1) [OF pos] by (simp add: divide_right_mono)
  finally show ?thesis using pos by (simp add: rnd64_def)
qed

section \<open>Facts about float64 values\<close>

definition canon :: "float64 \<Rightarrow> bool" where
  "canon a \<longleftrightarrow> (case a of Fin x \<Rightarrow> representable x | _ \<Rightarrow> True)"

definition fnonneg :: "float64 \<Rightarrow> bool" where
  "fnonneg a \<longleftrightarrow> (case a of Fin x \<Rightarrow> 0 \<le> x | PInf \<Rightarrow> True | _ \<Rightarrow> False)"

lemma is_fin_simps [simp]: "is_fin (Fin x)" "\<not> is_fin PInf" "\<not> is_fin NInf" "\<not> is_fin NaN"
  by (simp_all add: is_fin_def)

lemma fnonneg_simps [simp]:
  "fnonneg (Fin x) = (0 \<le> x)" "fnonneg PInf" "\<not> fnonneg NInf" "\<not> fnonneg NaN"
  by (simp_all add: fnonneg_def)

lemma canon_simps [simp]:
  "canon (Fin x) = representable x" "canon PInf" "canon NInf" "canon NaN"
  by (simp_all add: canon_def)

lemma is_finE: "is_fin a \<Longrightarrow> (\<And>x. a = Fin x \<Longrightarrow> P) \<Longrightarrow> P"
  by (cases a) simp_all

lemma canon_round64 [simp]: "canon (round64 x)"
  by (simp add: round64_def Let_def representable_def)

lemma round64_representable [simp]: "representable x \<Longrightarrow> round64 x = Fin x"
  by (simp add: round64_def representable_def)

lemma representable_zero [simp]: "representable 0"
  by (simp add: representable_def)

lemma round64_zero [simp]: "round64 0 = Fin 0"
  by simp

lemma round64_nonneg: "0 \<le> x \<Longrightarrow> fnonneg (round64 x)"
  using rnd64_nonneg [of x] by (auto simp: round64_def Let_def)

lemma canon_fadd [simp]: "canon (fadd a b)"
  by (cases a; cases b) simp_all

lemma fadd_zero_right [simp]: "canon a \<Longrightarrow> fadd a (Fin 0) = a"
  by (cases a) simp_all

lemma fmul_zero_left [simp]: "is_fin b \<Longrightarrow> fmul (Fin 0) b = Fin 0"
  by (cases b) simp_all

lemma fmul_zero_right [simp]: "is_fin a \<Longrightarrow> fmul a (Fin 0) = Fin 0"
  by (cases a) simp_all

lemma fadd_nonneg: "fnonneg a \<Longrightarrow> fnonneg b \<Longrightarrow> fnonneg (fadd a b)"
  by (cases a; cases b) (simp_all add: round64_nonneg)

lemma fmul_nonneg: "is_fin a \<Longrightarrow> is_fin b \<Longrightarrow> fnonneg a \<Longrightarrow> fnonneg b \<Longrightarrow> fnonneg (fmul a b)"
  by (cases a; cases b) (simp_all add: round64_nonneg)

text \<open>The order of the values that are not NaN, as an order on extended rationals.\<close>

lemma fle_simps [simp]:
  "fle (Fin a) (Fin b) = (a \<le> b)" "fle NInf NInf" "fle PInf PInf" "fle (Fin a) PInf" "fle NInf PInf"
  "fle NInf (Fin a)" "\<not> fle PInf (Fin a)" "\<not> fle (Fin a) NInf" "\<not> fle PInf NInf"
  "\<not> fle NaN c" "\<not> fle c NaN"
  by (cases c; auto simp: fle_def feq_def)+

lemma round64_mono:
  assumes "x \<le> y"
  shows "fle (round64 x) (round64 y)"
  using rnd64_mono [OF assms] by (auto simp: round64_def Let_def abs_if split: if_splits)

lemma round_away_mono: "x \<le> y \<Longrightarrow> round_away x \<le> round_away y"
proof -
  assume le: "x \<le> y"
  consider "y < 0" | "x < 0" "0 \<le> y" | "0 \<le> x" by linarith
  then show ?thesis
  proof cases
    case 1
    with le show ?thesis by (auto simp: round_away_def intro!: floor_mono)
  next
    case 2
    then have "0 \<le> \<lfloor>- x + 1 / 2\<rfloor>" "0 \<le> \<lfloor>y + 1 / 2\<rfloor>" by simp_all
    moreover have "round_away x = - \<lfloor>- x + 1 / 2\<rfloor>" "round_away y = \<lfloor>y + 1 / 2\<rfloor>"
      using 2 by (simp_all add: round_away_def)
    ultimately show ?thesis by linarith
  next
    case 3
    with le show ?thesis by (auto simp: round_away_def intro!: floor_mono)
  qed
qed

lemma round_away_nonneg: "0 \<le> x \<Longrightarrow> 0 \<le> round_away x"
  by (simp add: round_away_def)

lemma round_away_near:
  assumes "0 \<le> n" "\<bar>x - of_int n\<bar> < 1 / 2"
  shows "round_away x = n"
proof (cases "x < 0")
  case True
  with assms have "n = 0" by (simp add: abs_if split: if_splits)
  with True assms show ?thesis
    by (simp add: round_away_def abs_if floor_eq_iff split: if_splits)
next
  case False
  with assms show ?thesis by (auto simp: round_away_def floor_eq_iff abs_if split: if_splits)
qed

end
