(* ===== verification/PricingTypes.thy ===== *)
theory PricingTypes
  imports Float64
begin

text \<open>
  The price sheet of a model (\<^verbatim>\<open>type Pricing\<close> of \<^verbatim>\<open>internal/core/pricing.go\<close>): one optional rate per
  billing dimension, with the JSON tag of each field, and the field-by-field merge of a custom
  price sheet over a catalog one.
\<close>

section \<open>The price sheet\<close>

record Pricing =
  InputCostPerToken :: "float64 option"
  OutputCostPerToken :: "float64 option"
  InputCostPerTokenPriority :: "float64 option"
  OutputCostPerTokenPriority :: "float64 option"
  InputCostPerTokenFlex :: "float64 option"
  OutputCostPerTokenFlex :: "float64 option"
  InputCostPerTokenBatches :: "float64 option"
  OutputCostPerTokenBatches :: "float64 option"
  InputCostPerTokenFast :: "float64 option"
  OutputCostPerTokenFast :: "float64 option"
  InputCostPerTokenAbove128kTokens :: "float64 option"
  OutputCostPerTokenAbove128kTokens :: "float64 option"
  InputCostPerTokenAbove200kTokens :: "float64 option"
  OutputCostPerTokenAbove200kTokens :: "float64 option"
  InputCostPerTokenAbove256kTokens :: "float64 option"
  OutputCostPerTokenAbove256kTokens :: "float64 option"
  InputCostPerTokenAbove272kTokens :: "float64 option"
  OutputCostPerTokenAbove272kTokens :: "float64 option"
  InputCostPerTokenAbove512kTokens :: "float64 option"
  OutputCostPerTokenAbove512kTokens :: "float64 option"
  InputCostPerTokenAbove200kTokensPriority :: "float64 option"
  OutputCostPerTokenAbove200kTokensPriority :: "float64 option"
  InputCostPerTokenAbove272kTokensPriority :: "float64 option"
  OutputCostPerTokenAbove272kTokensPriority :: "float64 option"
  InputCostPerTokenAbove272kTokensFlex :: "float64 option"
  OutputCostPerTokenAbove272kTokensFlex :: "float64 option"
  InputCostPerTokenFlexAbove272kTokens :: "float64 option"
  OutputCostPerTokenFlexAbove272kTokens :: "float64 option"
  InputCostPerTokenBatchesAbove272kTokens :: "float64 option"
  OutputCostPerTokenBatchesAbove272kTokens :: "float64 option"
  CacheReadInputTokenCost :: "float64 option"
  CacheReadInputTokenCostPriority :: "float64 option"
  CacheReadInputTokenCostFlex :: "float64 option"
  CacheReadInputTokenCostBatches :: "float64 option"
  CacheReadInputTokenCostFast :: "float64 option"
  CacheReadInputTokenCostAbove200kTokens :: "float64 option"
  CacheReadInputTokenCostAbove272kTokens :: "float64 option"
  CacheReadInputTokenCostAbove512kTokens :: "float64 option"
  CacheReadInputTokenCostAbove200kTokensPriority :: "float64 option"
  CacheReadInputTokenCostAbove272kTokensPriority :: "float64 option"
  CacheReadInputTokenCostAbove272kTokensFlex :: "float64 option"
  CacheReadInputTokenCostFlexAbove272kTokens :: "float64 option"
  CacheReadInputTokenCostBatchesAbove272kTokens :: "float64 option"
  InputCostPerTokenCacheHit :: "float64 option"
  CacheCreationInputTokenCost :: "float64 option"
  CacheCreationInputTokenCostPriority :: "float64 option"
  CacheCreationInputTokenCostFlex :: "float64 option"
  CacheCreationInputTokenCostBatches :: "float64 option"
  CacheCreationInputTokenCostFast :: "float64 option"
  CacheCreationInputTokenCostAbove200kTokens :: "float64 option"
  CacheCreationInputTokenCostAbove272kTokens :: "float64 option"
  CacheCreationInputTokenCostAbove272kTokensFlex :: "float64 option"
  CacheCreationInputTokenCostFlexAbove272kTokens :: "float64 option"
  CacheCreationInputTokenCostBatchesAbove272kTokens :: "float64 option"
  CacheCreationInputTokenCostAbove1hr :: "float64 option"
  CacheCreationInputTokenCostAbove1hrAbove200kTokens :: "float64 option"
  CacheCreationInputTokenCostAbove1hrFast :: "float64 option"
  CacheCreationInputTokenCostBatches1h :: "float64 option"
  OutputCostPerReasoningToken :: "float64 option"
  CitationCostPerToken :: "float64 option"
  InputCostPerAudioToken :: "float64 option"
  OutputCostPerAudioToken :: "float64 option"
  InputCostPerAudioTokenPriority :: "float64 option"
  CacheReadInputAudioTokenCost :: "float64 option"
  CacheCreationInputAudioTokenCost :: "float64 option"
  InputCostPerAudioPerSecond :: "float64 option"
  InputCostPerAudioPerSecondAbove128kTokens :: "float64 option"
  InputCostPerCharacter :: "float64 option"
  OutputCostPerCharacter :: "float64 option"
  InputCostPerCharacterAbove128kTokens :: "float64 option"
  OutputCostPerCharacterAbove128kTokens :: "float64 option"
  InputCostPerImage :: "float64 option"
  OutputCostPerImage :: "float64 option"
  InputCostPerImageAbove128kTokens :: "float64 option"
  InputCostPerImageToken :: "float64 option"
  OutputCostPerImageToken :: "float64 option"
  InputCostPerPixel :: "float64 option"
  OutputCostPerPixel :: "float64 option"
  OutputCostPerImageLowQuality :: "float64 option"
  OutputCostPerImageMediumQuality :: "float64 option"
  OutputCostPerImageHighQuality :: "float64 option"
  OutputCostPerImageAutoQuality :: "float64 option"
  OutputCostPerImageAbove1024And1024Pixels :: "float64 option"
  OutputCostPerImageAbove2048And2048Pixels :: "float64 option"
  OutputCostPerImageAbove4096And4096Pixels :: "float64 option"
  OutputCostPerImageAbove2048Pixels :: "float64 option"
  OutputCostPerImageAbove4096Pixels :: "float64 option"
  InputCostPerVideoPerSecond :: "float64 option"
  InputCostPerVideoPerSecondAbove128kTokens :: "float64 option"
  OutputCostPerVideoPerSecond :: "float64 option"
  OutputCostPerVideoToken :: "float64 option"
  OutputCostPerVideo :: "float64 option"
  InputCostPerSecond :: "float64 option"
  OutputCostPerSecond :: "float64 option"
  InputCostPerVideoPerSecondAbove8sInterval :: "float64 option"
  InputCostPerVideoPerSecondAbove15sInterval :: "float64 option"
  OutputCostPerVideoPerSecond360p :: "float64 option"
  OutputCostPerVideoPerSecond360pAudio :: "float64 option"
  OutputCostPerVideoPerSecond480p :: "float64 option"
  OutputCostPerVideoPerSecond480pVideoIn :: "float64 option"
  OutputCostPerVideoPerSecond540p :: "float64 option"
  OutputCostPerVideoPerSecond540pAudio :: "float64 option"
  OutputCostPerVideoPerSecond720p :: "float64 option"
  OutputCostPerVideoPerSecond720pAudio :: "float64 option"
  OutputCostPerVideoPerSecond720pVideoIn :: "float64 option"
  OutputCostPerVideoPerSecond1080p :: "float64 option"
  OutputCostPerVideoPerSecond1080pAudio :: "float64 option"
  OutputCostPerVideoPerSecond1080pVideoIn :: "float64 option"
  OutputCostPerVideoPerSecond4k :: "float64 option"
  OutputCostPerVideoPerSecond4kAudio :: "float64 option"
  OutputCostPerVideoPerSecond4kVideoIn :: "float64 option"
  OutputCostPerVideoPerSecondPro :: "float64 option"
  OutputCostPerVideoPerSecondProAudio :: "float64 option"
  OutputCostPerVideoPerSecondStandard :: "float64 option"
  OutputCostPerVideoPerSecondStandardAudio :: "float64 option"
  OutputCostPerSecond1080p :: "float64 option"
  OutputCostPerVideo768p6s :: "float64 option"
  OutputCostPerVideo768p10s :: "float64 option"
  OutputCostPerVideo1080p6s :: "float64 option"
  InputCostPerQuery :: "float64 option"
  SearchContextCostPerQueryLow :: "float64 option"
  SearchContextCostPerQueryMedium :: "float64 option"
  SearchContextCostPerQueryHigh :: "float64 option"
  CostPerRequest :: "float64 option"
  InputCostPerRequest :: "float64 option"
  OCRCostPerPage :: "float64 option"
  OCRCostPerCredit :: "float64 option"
  AnnotationCostPerPage :: "float64 option"
  CodeInterpreterCostPerSession :: "float64 option"
  InputDBUCostPerToken :: "float64 option"
  OutputDBUCostPerToken :: "float64 option"
  OutputCostPerUnit :: "float64 option"

text \<open>The zero value of the struct: no rate is set.\<close>

definition Pricing_zero :: Pricing where
  "Pricing_zero = \<lparr>
     InputCostPerToken = None,
     OutputCostPerToken = None,
     InputCostPerTokenPriority = None,
     OutputCostPerTokenPriority = None,
     InputCostPerTokenFlex = None,
     OutputCostPerTokenFlex = None,
     InputCostPerTokenBatches = None,
     OutputCostPerTokenBatches = None,
     InputCostPerTokenFast = None,
     OutputCostPerTokenFast = None,
     InputCostPerTokenAbove128kTokens = None,
     OutputCostPerTokenAbove128kTokens = None,
     InputCostPerTokenAbove200kTokens = None,
     OutputCostPerTokenAbove200kTokens = None,
     InputCostPerTokenAbove256kTokens = None,
     OutputCostPerTokenAbove256kTokens = None,
     InputCostPerTokenAbove272kTokens = None,
     OutputCostPerTokenAbove272kTokens = None,
     InputCostPerTokenAbove512kTokens = None,
     OutputCostPerTokenAbove512kTokens = None,
     InputCostPerTokenAbove200kTokensPriority = None,
     OutputCostPerTokenAbove200kTokensPriority = None,
     InputCostPerTokenAbove272kTokensPriority = None,
     OutputCostPerTokenAbove272kTokensPriority = None,
     InputCostPerTokenAbove272kTokensFlex = None,
     OutputCostPerTokenAbove272kTokensFlex = None,
     InputCostPerTokenFlexAbove272kTokens = None,
     OutputCostPerTokenFlexAbove272kTokens = None,
     InputCostPerTokenBatchesAbove272kTokens = None,
     OutputCostPerTokenBatchesAbove272kTokens = None,
     CacheReadInputTokenCost = None,
     CacheReadInputTokenCostPriority = None,
     CacheReadInputTokenCostFlex = None,
     CacheReadInputTokenCostBatches = None,
     CacheReadInputTokenCostFast = None,
     CacheReadInputTokenCostAbove200kTokens = None,
     CacheReadInputTokenCostAbove272kTokens = None,
     CacheReadInputTokenCostAbove512kTokens = None,
     CacheReadInputTokenCostAbove200kTokensPriority = None,
     CacheReadInputTokenCostAbove272kTokensPriority = None,
     CacheReadInputTokenCostAbove272kTokensFlex = None,
     CacheReadInputTokenCostFlexAbove272kTokens = None,
     CacheReadInputTokenCostBatchesAbove272kTokens = None,
     InputCostPerTokenCacheHit = None,
     CacheCreationInputTokenCost = None,
     CacheCreationInputTokenCostPriority = None,
     CacheCreationInputTokenCostFlex = None,
     CacheCreationInputTokenCostBatches = None,
     CacheCreationInputTokenCostFast = None,
     CacheCreationInputTokenCostAbove200kTokens = None,
     CacheCreationInputTokenCostAbove272kTokens = None,
     CacheCreationInputTokenCostAbove272kTokensFlex = None,
     CacheCreationInputTokenCostFlexAbove272kTokens = None,
     CacheCreationInputTokenCostBatchesAbove272kTokens = None,
     CacheCreationInputTokenCostAbove1hr = None,
     CacheCreationInputTokenCostAbove1hrAbove200kTokens = None,
     CacheCreationInputTokenCostAbove1hrFast = None,
     CacheCreationInputTokenCostBatches1h = None,
     OutputCostPerReasoningToken = None,
     CitationCostPerToken = None,
     InputCostPerAudioToken = None,
     OutputCostPerAudioToken = None,
     InputCostPerAudioTokenPriority = None,
     CacheReadInputAudioTokenCost = None,
     CacheCreationInputAudioTokenCost = None,
     InputCostPerAudioPerSecond = None,
     InputCostPerAudioPerSecondAbove128kTokens = None,
     InputCostPerCharacter = None,
     OutputCostPerCharacter = None,
     InputCostPerCharacterAbove128kTokens = None,
     OutputCostPerCharacterAbove128kTokens = None,
     InputCostPerImage = None,
     OutputCostPerImage = None,
     InputCostPerImageAbove128kTokens = None,
     InputCostPerImageToken = None,
     OutputCostPerImageToken = None,
     InputCostPerPixel = None,
     OutputCostPerPixel = None,
     OutputCostPerImageLowQuality = None,
     OutputCostPerImageMediumQuality = None,
     OutputCostPerImageHighQuality = None,
     OutputCostPerImageAutoQuality = None,
     OutputCostPerImageAbove1024And1024Pixels = None,
     OutputCostPerImageAbove2048And2048Pixels = None,
     OutputCostPerImageAbove4096And4096Pixels = None,
     OutputCostPerImageAbove2048Pixels = None,
     OutputCostPerImageAbove4096Pixels = None,
     InputCostPerVideoPerSecond = None,
     InputCostPerVideoPerSecondAbove128kTokens = None,
     OutputCostPerVideoPerSecond = None,
     OutputCostPerVideoToken = None,
     OutputCostPerVideo = None,
     InputCostPerSecond = None,
     OutputCostPerSecond = None,
     InputCostPerVideoPerSecondAbove8sInterval = None,
     InputCostPerVideoPerSecondAbove15sInterval = None,
     OutputCostPerVideoPerSecond360p = None,
     OutputCostPerVideoPerSecond360pAudio = None,
     OutputCostPerVideoPerSecond480p = None,
     OutputCostPerVideoPerSecond480pVideoIn = None,
     OutputCostPerVideoPerSecond540p = None,
     OutputCostPerVideoPerSecond540pAudio = None,
     OutputCostPerVideoPerSecond720p = None,
     OutputCostPerVideoPerSecond720pAudio = None,
     OutputCostPerVideoPerSecond720pVideoIn = None,
     OutputCostPerVideoPerSecond1080p = None,
     OutputCostPerVideoPerSecond1080pAudio = None,
     OutputCostPerVideoPerSecond1080pVideoIn = None,
     OutputCostPerVideoPerSecond4k = None,
     OutputCostPerVideoPerSecond4kAudio = None,
     OutputCostPerVideoPerSecond4kVideoIn = None,
     OutputCostPerVideoPerSecondPro = None,
     OutputCostPerVideoPerSecondProAudio = None,
     OutputCostPerVideoPerSecondStandard = None,
     OutputCostPerVideoPerSecondStandardAudio = None,
     OutputCostPerSecond1080p = None,
     OutputCostPerVideo768p6s = None,
     OutputCostPerVideo768p10s = None,
     OutputCostPerVideo1080p6s = None,
     InputCostPerQuery = None,
     SearchContextCostPerQueryLow = None,
     SearchContextCostPerQueryMedium = None,
     SearchContextCostPerQueryHigh = None,
     CostPerRequest = None,
     InputCostPerRequest = None,
     OCRCostPerPage = None,
     OCRCostPerCredit = None,
     AnnotationCostPerPage = None,
     CodeInterpreterCostPerSession = None,
     InputDBUCostPerToken = None,
     OutputDBUCostPerToken = None,
     OutputCostPerUnit = None\<rparr>"

text \<open>The struct tags, in the order of the fields, each with the field it names.\<close>

definition pricingFieldTags :: "(string \<times> (Pricing \<Rightarrow> float64 option)) list" where
  "pricingFieldTags = [
     (''input_cost_per_token'', InputCostPerToken),
     (''output_cost_per_token'', OutputCostPerToken),
     (''input_cost_per_token_priority'', InputCostPerTokenPriority),
     (''output_cost_per_token_priority'', OutputCostPerTokenPriority),
     (''input_cost_per_token_flex'', InputCostPerTokenFlex),
     (''output_cost_per_token_flex'', OutputCostPerTokenFlex),
     (''input_cost_per_token_batches'', InputCostPerTokenBatches),
     (''output_cost_per_token_batches'', OutputCostPerTokenBatches),
     (''input_cost_per_token_fast'', InputCostPerTokenFast),
     (''output_cost_per_token_fast'', OutputCostPerTokenFast),
     (''input_cost_per_token_above_128k_tokens'', InputCostPerTokenAbove128kTokens),
     (''output_cost_per_token_above_128k_tokens'', OutputCostPerTokenAbove128kTokens),
     (''input_cost_per_token_above_200k_tokens'', InputCostPerTokenAbove200kTokens),
     (''output_cost_per_token_above_200k_tokens'', OutputCostPerTokenAbove200kTokens),
     (''input_cost_per_token_above_256k_tokens'', InputCostPerTokenAbove256kTokens),
     (''output_cost_per_token_above_256k_tokens'', OutputCostPerTokenAbove256kTokens),
     (''input_cost_per_token_above_272k_tokens'', InputCostPerTokenAbove272kTokens),
     (''output_cost_per_token_above_272k_tokens'', OutputCostPerTokenAbove272kTokens),
     (''input_cost_per_token_above_512k_tokens'', InputCostPerTokenAbove512kTokens),
     (''output_cost_per_token_above_512k_tokens'', OutputCostPerTokenAbove512kTokens),
     (''input_cost_per_token_above_200k_tokens_priority'', InputCostPerTokenAbove200kTokensPriority),
     (''output_cost_per_token_above_200k_tokens_priority'', OutputCostPerTokenAbove200kTokensPriority),
     (''input_cost_per_token_above_272k_tokens_priority'', InputCostPerTokenAbove272kTokensPriority),
     (''output_cost_per_token_above_272k_tokens_priority'', OutputCostPerTokenAbove272kTokensPriority),
     (''input_cost_per_token_above_272k_tokens_flex'', InputCostPerTokenAbove272kTokensFlex),
     (''output_cost_per_token_above_272k_tokens_flex'', OutputCostPerTokenAbove272kTokensFlex),
     (''input_cost_per_token_flex_above_272k_tokens'', InputCostPerTokenFlexAbove272kTokens),
     (''output_cost_per_token_flex_above_272k_tokens'', OutputCostPerTokenFlexAbove272kTokens),
     (''input_cost_per_token_batches_above_272k_tokens'', InputCostPerTokenBatchesAbove272kTokens),
     (''output_cost_per_token_batches_above_272k_tokens'', OutputCostPerTokenBatchesAbove272kTokens),
     (''cache_read_input_token_cost'', CacheReadInputTokenCost),
     (''cache_read_input_token_cost_priority'', CacheReadInputTokenCostPriority),
     (''cache_read_input_token_cost_flex'', CacheReadInputTokenCostFlex),
     (''cache_read_input_token_cost_batches'', CacheReadInputTokenCostBatches),
     (''cache_read_input_token_cost_fast'', CacheReadInputTokenCostFast),
     (''cache_read_input_token_cost_above_200k_tokens'', CacheReadInputTokenCostAbove200kTokens),
     (''cache_read_input_token_cost_above_272k_tokens'', CacheReadInputTokenCostAbove272kTokens),
     (''cache_read_input_token_cost_above_512k_tokens'', CacheReadInputTokenCostAbove512kTokens),
     (''cache_read_input_token_cost_above_200k_tokens_priority'', CacheReadInputTokenCostAbove200kTokensPriority),
     (''cache_read_input_token_cost_above_272k_tokens_priority'', CacheReadInputTokenCostAbove272kTokensPriority),
     (''cache_read_input_token_cost_above_272k_tokens_flex'', CacheReadInputTokenCostAbove272kTokensFlex),
     (''cache_read_input_token_cost_flex_above_272k_tokens'', CacheReadInputTokenCostFlexAbove272kTokens),
     (''cache_read_input_token_cost_batches_above_272k_tokens'', CacheReadInputTokenCostBatchesAbove272kTokens),
     (''input_cost_per_token_cache_hit'', InputCostPerTokenCacheHit),
     (''cache_creation_input_token_cost'', CacheCreationInputTokenCost),
     (''cache_creation_input_token_cost_priority'', CacheCreationInputTokenCostPriority),
     (''cache_creation_input_token_cost_flex'', CacheCreationInputTokenCostFlex),
     (''cache_creation_input_token_cost_batches'', CacheCreationInputTokenCostBatches),
     (''cache_creation_input_token_cost_fast'', CacheCreationInputTokenCostFast),
     (''cache_creation_input_token_cost_above_200k_tokens'', CacheCreationInputTokenCostAbove200kTokens),
     (''cache_creation_input_token_cost_above_272k_tokens'', CacheCreationInputTokenCostAbove272kTokens),
     (''cache_creation_input_token_cost_above_272k_tokens_flex'', CacheCreationInputTokenCostAbove272kTokensFlex),
     (''cache_creation_input_token_cost_flex_above_272k_tokens'', CacheCreationInputTokenCostFlexAbove272kTokens),
     (''cache_creation_input_token_cost_batches_above_272k_tokens'', CacheCreationInputTokenCostBatchesAbove272kTokens),
     (''cache_creation_input_token_cost_above_1hr'', CacheCreationInputTokenCostAbove1hr),
     (''cache_creation_input_token_cost_above_1hr_above_200k_tokens'', CacheCreationInputTokenCostAbove1hrAbove200kTokens),
     (''cache_creation_input_token_cost_above_1hr_fast'', CacheCreationInputTokenCostAbove1hrFast),
     (''cache_creation_input_token_cost_batches_1h'', CacheCreationInputTokenCostBatches1h),
     (''output_cost_per_reasoning_token'', OutputCostPerReasoningToken),
     (''citation_cost_per_token'', CitationCostPerToken),
     (''input_cost_per_audio_token'', InputCostPerAudioToken),
     (''output_cost_per_audio_token'', OutputCostPerAudioToken),
     (''input_cost_per_audio_token_priority'', InputCostPerAudioTokenPriority),
     (''cache_read_input_audio_token_cost'', CacheReadInputAudioTokenCost),
     (''cache_creation_input_audio_token_cost'', CacheCreationInputAudioTokenCost),
     (''input_cost_per_audio_per_second'', InputCostPerAudioPerSecond),
     (''input_cost_per_audio_per_second_above_128k_tokens'', InputCostPerAudioPerSecondAbove128kTokens),
     (''input_cost_per_character'', InputCostPerCharacter),
     (''output_cost_per_character'', OutputCostPerCharacter),
     (''input_cost_per_character_above_128k_tokens'', InputCostPerCharacterAbove128kTokens),
     (''output_cost_per_character_above_128k_tokens'', OutputCostPerCharacterAbove128kTokens),
     (''input_cost_per_image'', InputCostPerImage),
     (''output_cost_per_image'', OutputCostPerImage),
     (''input_cost_per_image_above_128k_tokens'', InputCostPerImageAbove128kTokens),
     (''input_cost_per_image_token'', InputCostPerImageToken),
     (''output_cost_per_image_token'', OutputCostPerImageToken),
     (''input_cost_per_pixel'', InputCostPerPixel),
     (''output_cost_per_pixel'', OutputCostPerPixel),
     (''output_cost_per_image_low_quality'', OutputCostPerImageLowQuality),
     (''output_cost_per_image_medium_quality'', OutputCostPerImageMediumQuality),
     (''output_cost_per_image_high_quality'', OutputCostPerImageHighQuality),
     (''output_cost_per_image_auto_quality'', OutputCostPerImageAutoQuality),
     (''output_cost_per_image_above_1024_and_1024_pixels'', OutputCostPerImageAbove1024And1024Pixels),
     (''output_cost_per_image_above_2048_and_2048_pixels'', OutputCostPerImageAbove2048And2048Pixels),
     (''output_cost_per_image_above_4096_and_4096_pixels'', OutputCostPerImageAbove4096And4096Pixels),
     (''output_cost_per_image_above_2048_pixels'', OutputCostPerImageAbove2048Pixels),
     (''output_cost_per_image_above_4096_pixels'', OutputCostPerImageAbove4096Pixels),
     (''input_cost_per_video_per_second'', InputCostPerVideoPerSecond),
     (''input_cost_per_video_per_second_above_128k_tokens'', InputCostPerVideoPerSecondAbove128kTokens),
     (''output_cost_per_video_per_second'', OutputCostPerVideoPerSecond),
     (''output_cost_per_video_token'', OutputCostPerVideoToken),
     (''output_cost_per_video'', OutputCostPerVideo),
     (''input_cost_per_second'', InputCostPerSecond),
     (''output_cost_per_second'', OutputCostPerSecond),
     (''input_cost_per_video_per_second_above_8s_interval'', InputCostPerVideoPerSecondAbove8sInterval),
     (''input_cost_per_video_per_second_above_15s_interval'', InputCostPerVideoPerSecondAbove15sInterval),
     (''output_cost_per_video_per_second_360p'', OutputCostPerVideoPerSecond360p),
     (''output_cost_per_video_per_second_360p_audio'', OutputCostPerVideoPerSecond360pAudio),
     (''output_cost_per_video_per_second_480p'', OutputCostPerVideoPerSecond480p),
     (''output_cost_per_video_per_second_480p_video_in'', OutputCostPerVideoPerSecond480pVideoIn),
     (''output_cost_per_video_per_second_540p'', OutputCostPerVideoPerSecond540p),
     (''output_cost_per_video_per_second_540p_audio'', OutputCostPerVideoPerSecond540pAudio),
     (''output_cost_per_video_per_second_720p'', OutputCostPerVideoPerSecond720p),
     (''output_cost_per_video_per_second_720p_audio'', OutputCostPerVideoPerSecond720pAudio),
     (''output_cost_per_video_per_second_720p_video_in'', OutputCostPerVideoPerSecond720pVideoIn),
     (''output_cost_per_video_per_second_1080p'', OutputCostPerVideoPerSecond1080p),
     (''output_cost_per_video_per_second_1080p_audio'', OutputCostPerVideoPerSecond1080pAudio),
     (''output_cost_per_video_per_second_1080p_video_in'', OutputCostPerVideoPerSecond1080pVideoIn),
     (''output_cost_per_video_per_second_4k'', OutputCostPerVideoPerSecond4k),
     (''output_cost_per_video_per_second_4k_audio'', OutputCostPerVideoPerSecond4kAudio),
     (''output_cost_per_video_per_second_4k_video_in'', OutputCostPerVideoPerSecond4kVideoIn),
     (''output_cost_per_video_per_second_pro'', OutputCostPerVideoPerSecondPro),
     (''output_cost_per_video_per_second_pro_audio'', OutputCostPerVideoPerSecondProAudio),
     (''output_cost_per_video_per_second_standard'', OutputCostPerVideoPerSecondStandard),
     (''output_cost_per_video_per_second_standard_audio'', OutputCostPerVideoPerSecondStandardAudio),
     (''output_cost_per_second_1080p'', OutputCostPerSecond1080p),
     (''output_cost_per_video_768p_6s'', OutputCostPerVideo768p6s),
     (''output_cost_per_video_768p_10s'', OutputCostPerVideo768p10s),
     (''output_cost_per_video_1080p_6s'', OutputCostPerVideo1080p6s),
     (''input_cost_per_query'', InputCostPerQuery),
     (''search_context_cost_per_query_low'', SearchContextCostPerQueryLow),
     (''search_context_cost_per_query_medium'', SearchContextCostPerQueryMedium),
     (''search_context_cost_per_query_high'', SearchContextCostPerQueryHigh),
     (''cost_per_request'', CostPerRequest),
     (''input_cost_per_request'', InputCostPerRequest),
     (''ocr_cost_per_page'', OCRCostPerPage),
     (''ocr_cost_per_credit'', OCRCostPerCredit),
     (''annotation_cost_per_page'', AnnotationCostPerPage),
     (''code_interpreter_cost_per_session'', CodeInterpreterCostPerSession),
     (''input_dbu_cost_per_token'', InputDBUCostPerToken),
     (''output_dbu_cost_per_token'', OutputDBUCostPerToken),
     (''output_cost_per_unit'', OutputCostPerUnit)]"

definition PricingFieldNames :: "string set" where
  "PricingFieldNames = set (map fst pricingFieldTags)"

section \<open>Merging price sheets\<close>

text \<open>A destination \<^verbatim>\<open>**float64\<close> points at one field of the merged sheet: it is the update function
  of that field.\<close>

type_synonym PricingDst = "(float64 option \<Rightarrow> float64 option) \<Rightarrow> Pricing \<Rightarrow> Pricing"

definition pricingFieldPairs :: "Pricing \<Rightarrow> (PricingDst \<times> float64 option) list" where
  "pricingFieldPairs override = [
     (InputCostPerToken_update, InputCostPerToken override),
     (OutputCostPerToken_update, OutputCostPerToken override),
     (InputCostPerTokenPriority_update, InputCostPerTokenPriority override),
     (OutputCostPerTokenPriority_update, OutputCostPerTokenPriority override),
     (InputCostPerTokenFlex_update, InputCostPerTokenFlex override),
     (OutputCostPerTokenFlex_update, OutputCostPerTokenFlex override),
     (InputCostPerTokenBatches_update, InputCostPerTokenBatches override),
     (OutputCostPerTokenBatches_update, OutputCostPerTokenBatches override),
     (InputCostPerTokenFast_update, InputCostPerTokenFast override),
     (OutputCostPerTokenFast_update, OutputCostPerTokenFast override),
     (InputCostPerTokenAbove128kTokens_update, InputCostPerTokenAbove128kTokens override),
     (OutputCostPerTokenAbove128kTokens_update, OutputCostPerTokenAbove128kTokens override),
     (InputCostPerTokenAbove200kTokens_update, InputCostPerTokenAbove200kTokens override),
     (OutputCostPerTokenAbove200kTokens_update, OutputCostPerTokenAbove200kTokens override),
     (InputCostPerTokenAbove256kTokens_update, InputCostPerTokenAbove256kTokens override),
     (OutputCostPerTokenAbove256kTokens_update, OutputCostPerTokenAbove256kTokens override),
     (InputCostPerTokenAbove272kTokens_update, InputCostPerTokenAbove272kTokens override),
     (OutputCostPerTokenAbove272kTokens_update, OutputCostPerTokenAbove272kTokens override),
     (InputCostPerTokenAbove512kTokens_update, InputCostPerTokenAbove512kTokens override),
     (OutputCostPerTokenAbove512kTokens_update, OutputCostPerTokenAbove512kTokens override),
     (InputCostPerTokenAbove200kTokensPriority_update, InputCostPerTokenAbove200kTokensPriority override),
     (OutputCostPerTokenAbove200kTokensPriority_update, OutputCostPerTokenAbove200kTokensPriority override),
     (InputCostPerTokenAbove272kTokensPriority_update, InputCostPerTokenAbove272kTokensPriority override),
     (OutputCostPerTokenAbove272kTokensPriority_update, OutputCostPerTokenAbove272kTokensPriority override),
     (InputCostPerTokenAbove272kTokensFlex_update, InputCostPerTokenAbove272kTokensFlex override),
     (OutputCostPerTokenAbove272kTokensFlex_update, OutputCostPerTokenAbove272kTokensFlex override),
     (InputCostPerTokenFlexAbove272kTokens_update, InputCostPerTokenFlexAbove272kTokens override),
     (OutputCostPerTokenFlexAbove272kTokens_update, OutputCostPerTokenFlexAbove272kTokens override),
     (InputCostPerTokenBatchesAbove272kTokens_update, InputCostPerTokenBatchesAbove272kTokens override),
     (OutputCostPerTokenBatchesAbove272kTokens_update, OutputCostPerTokenBatchesAbove272kTokens override),
     (CacheReadInputTokenCost_update, CacheReadInputTokenCost override),
     (CacheReadInputTokenCostPriority_update, CacheReadInputTokenCostPriority override),
     (CacheReadInputTokenCostFlex_update, CacheReadInputTokenCostFlex override),
     (CacheReadInputTokenCostBatches_update, CacheReadInputTokenCostBatches override),
     (CacheReadInputTokenCostFast_update, CacheReadInputTokenCostFast override),
     (CacheReadInputTokenCostAbove200kTokens_update, CacheReadInputTokenCostAbove200kTokens override),
     (CacheReadInputTokenCostAbove272kTokens_update, CacheReadInputTokenCostAbove272kTokens override),
     (CacheReadInputTokenCostAbove512kTokens_update, CacheReadInputTokenCostAbove512kTokens override),
     (CacheReadInputTokenCostAbove200kTokensPriority_update, CacheReadInputTokenCostAbove200kTokensPriority override),
     (CacheReadInputTokenCostAbove272kTokensPriority_update, CacheReadInputTokenCostAbove272kTokensPriority override),
     (CacheReadInputTokenCostAbove272kTokensFlex_update, CacheReadInputTokenCostAbove272kTokensFlex override),
     (CacheReadInputTokenCostFlexAbove272kTokens_update, CacheReadInputTokenCostFlexAbove272kTokens override),
     (CacheReadInputTokenCostBatchesAbove272kTokens_update, CacheReadInputTokenCostBatchesAbove272kTokens override),
     (InputCostPerTokenCacheHit_update, InputCostPerTokenCacheHit override),
     (CacheCreationInputTokenCost_update, CacheCreationInputTokenCost override),
     (CacheCreationInputTokenCostPriority_update, CacheCreationInputTokenCostPriority override),
     (CacheCreationInputTokenCostFlex_update, CacheCreationInputTokenCostFlex override),
     (CacheCreationInputTokenCostBatches_update, CacheCreationInputTokenCostBatches override),
     (CacheCreationInputTokenCostFast_update, CacheCreationInputTokenCostFast override),
     (CacheCreationInputTokenCostAbove200kTokens_update, CacheCreationInputTokenCostAbove200kTokens override),
     (CacheCreationInputTokenCostAbove272kTokens_update, CacheCreationInputTokenCostAbove272kTokens override),
     (CacheCreationInputTokenCostAbove272kTokensFlex_update, CacheCreationInputTokenCostAbove272kTokensFlex override),
     (CacheCreationInputTokenCostFlexAbove272kTokens_update, CacheCreationInputTokenCostFlexAbove272kTokens override),
     (CacheCreationInputTokenCostBatchesAbove272kTokens_update, CacheCreationInputTokenCostBatchesAbove272kTokens override),
     (CacheCreationInputTokenCostAbove1hr_update, CacheCreationInputTokenCostAbove1hr override),
     (CacheCreationInputTokenCostAbove1hrAbove200kTokens_update, CacheCreationInputTokenCostAbove1hrAbove200kTokens override),
     (CacheCreationInputTokenCostAbove1hrFast_update, CacheCreationInputTokenCostAbove1hrFast override),
     (CacheCreationInputTokenCostBatches1h_update, CacheCreationInputTokenCostBatches1h override),
     (OutputCostPerReasoningToken_update, OutputCostPerReasoningToken override),
     (CitationCostPerToken_update, CitationCostPerToken override),
     (InputCostPerAudioToken_update, InputCostPerAudioToken override),
     (OutputCostPerAudioToken_update, OutputCostPerAudioToken override),
     (InputCostPerAudioTokenPriority_update, InputCostPerAudioTokenPriority override),
     (CacheReadInputAudioTokenCost_update, CacheReadInputAudioTokenCost override),
     (CacheCreationInputAudioTokenCost_update, CacheCreationInputAudioTokenCost override),
     (InputCostPerAudioPerSecond_update, InputCostPerAudioPerSecond override),
     (InputCostPerAudioPerSecondAbove128kTokens_update, InputCostPerAudioPerSecondAbove128kTokens override),
     (InputCostPerCharacter_update, InputCostPerCharacter override),
     (OutputCostPerCharacter_update, OutputCostPerCharacter override),
     (InputCostPerCharacterAbove128kTokens_update, InputCostPerCharacterAbove128kTokens override),
     (OutputCostPerCharacterAbove128kTokens_update, OutputCostPerCharacterAbove128kTokens override),
     (InputCostPerImage_update, InputCostPerImage override),
     (OutputCostPerImage_update, OutputCostPerImage override),
     (InputCostPerImageAbove128kTokens_update, InputCostPerImageAbove128kTokens override),
     (InputCostPerImageToken_update, InputCostPerImageToken override),
     (OutputCostPerImageToken_update, OutputCostPerImageToken override),
     (InputCostPerPixel_update, InputCostPerPixel override),
     (OutputCostPerPixel_update, OutputCostPerPixel override),
     (OutputCostPerImageLowQuality_update, OutputCostPerImageLowQuality override),
     (OutputCostPerImageMediumQuality_update, OutputCostPerImageMediumQuality override),
     (OutputCostPerImageHighQuality_update, OutputCostPerImageHighQuality override),
     (OutputCostPerImageAutoQuality_update, OutputCostPerImageAutoQuality override),
     (OutputCostPerImageAbove1024And1024Pixels_update, OutputCostPerImageAbove1024And1024Pixels override),
     (OutputCostPerImageAbove2048And2048Pixels_update, OutputCostPerImageAbove2048And2048Pixels override),
     (OutputCostPerImageAbove4096And4096Pixels_update, OutputCostPerImageAbove4096And4096Pixels override),
     (OutputCostPerImageAbove2048Pixels_update, OutputCostPerImageAbove2048Pixels override),
     (OutputCostPerImageAbove4096Pixels_update, OutputCostPerImageAbove4096Pixels override),
     (InputCostPerVideoPerSecond_update, InputCostPerVideoPerSecond override),
     (InputCostPerVideoPerSecondAbove128kTokens_update, InputCostPerVideoPerSecondAbove128kTokens override),
     (InputCostPerVideoPerSecondAbove8sInterval_update, InputCostPerVideoPerSecondAbove8sInterval override),
     (InputCostPerVideoPerSecondAbove15sInterval_update, InputCostPerVideoPerSecondAbove15sInterval override),
     (OutputCostPerVideoPerSecond_update, OutputCostPerVideoPerSecond override),
     (OutputCostPerVideoPerSecond360p_update, OutputCostPerVideoPerSecond360p override),
     (OutputCostPerVideoPerSecond360pAudio_update, OutputCostPerVideoPerSecond360pAudio override),
     (OutputCostPerVideoPerSecond480p_update, OutputCostPerVideoPerSecond480p override),
     (OutputCostPerVideoPerSecond480pVideoIn_update, OutputCostPerVideoPerSecond480pVideoIn override),
     (OutputCostPerVideoPerSecond540p_update, OutputCostPerVideoPerSecond540p override),
     (OutputCostPerVideoPerSecond540pAudio_update, OutputCostPerVideoPerSecond540pAudio override),
     (OutputCostPerVideoPerSecond720p_update, OutputCostPerVideoPerSecond720p override),
     (OutputCostPerVideoPerSecond720pAudio_update, OutputCostPerVideoPerSecond720pAudio override),
     (OutputCostPerVideoPerSecond720pVideoIn_update, OutputCostPerVideoPerSecond720pVideoIn override),
     (OutputCostPerVideoPerSecond1080p_update, OutputCostPerVideoPerSecond1080p override),
     (OutputCostPerVideoPerSecond1080pAudio_update, OutputCostPerVideoPerSecond1080pAudio override),
     (OutputCostPerVideoPerSecond1080pVideoIn_update, OutputCostPerVideoPerSecond1080pVideoIn override),
     (OutputCostPerVideoPerSecond4k_update, OutputCostPerVideoPerSecond4k override),
     (OutputCostPerVideoPerSecond4kAudio_update, OutputCostPerVideoPerSecond4kAudio override),
     (OutputCostPerVideoPerSecond4kVideoIn_update, OutputCostPerVideoPerSecond4kVideoIn override),
     (OutputCostPerVideoPerSecondPro_update, OutputCostPerVideoPerSecondPro override),
     (OutputCostPerVideoPerSecondProAudio_update, OutputCostPerVideoPerSecondProAudio override),
     (OutputCostPerVideoPerSecondStandard_update, OutputCostPerVideoPerSecondStandard override),
     (OutputCostPerVideoPerSecondStandardAudio_update, OutputCostPerVideoPerSecondStandardAudio override),
     (OutputCostPerSecond1080p_update, OutputCostPerSecond1080p override),
     (OutputCostPerVideoToken_update, OutputCostPerVideoToken override),
     (OutputCostPerVideo_update, OutputCostPerVideo override),
     (OutputCostPerVideo768p6s_update, OutputCostPerVideo768p6s override),
     (OutputCostPerVideo768p10s_update, OutputCostPerVideo768p10s override),
     (OutputCostPerVideo1080p6s_update, OutputCostPerVideo1080p6s override),
     (InputCostPerSecond_update, InputCostPerSecond override),
     (OutputCostPerSecond_update, OutputCostPerSecond override),
     (InputCostPerQuery_update, InputCostPerQuery override),
     (SearchContextCostPerQueryLow_update, SearchContextCostPerQueryLow override),
     (SearchContextCostPerQueryMedium_update, SearchContextCostPerQueryMedium override),
     (SearchContextCostPerQueryHigh_update, SearchContextCostPerQueryHigh override),
     (CostPerRequest_update, CostPerRequest override),
     (InputCostPerRequest_update, InputCostPerRequest override),
     (OCRCostPerPage_update, OCRCostPerPage override),
     (OCRCostPerCredit_update, OCRCostPerCredit override),
     (AnnotationCostPerPage_update, AnnotationCostPerPage override),
     (CodeInterpreterCostPerSession_update, CodeInterpreterCostPerSession override),
     (InputDBUCostPerToken_update, InputDBUCostPerToken override),
     (OutputDBUCostPerToken_update, OutputDBUCostPerToken override),
     (OutputCostPerUnit_update, OutputCostPerUnit override)]"

definition MergePricing :: "Pricing \<Rightarrow> Pricing \<Rightarrow> Pricing" where
  "MergePricing base override =
     foldl (\<lambda>merged (dst, src). if src \<noteq> None then dst (\<lambda>_. src) merged else merged)
       base (pricingFieldPairs override)"

text \<open>The first of two optional values, as the merge of one field computes it.\<close>

definition merge_opt :: "'a option \<Rightarrow> 'a option \<Rightarrow> 'a option" where
  "merge_opt s x = (case s of None \<Rightarrow> x | Some _ \<Rightarrow> s)"

lemma merge_opt_simps [simp]:
  "merge_opt None x = x" "merge_opt (Some v) x = Some v" "merge_opt x None = x" "merge_opt x x = x"
  by (cases x; simp add: merge_opt_def)+

lemma merge_opt_assoc: "merge_opt (merge_opt a b) c = merge_opt a (merge_opt b c)"
  by (cases a) simp_all

lemma merge_step:
  assumes "dst (\<lambda>x. x) m = m"
  shows "(if src \<noteq> None then dst (\<lambda>_. src) m else m) = dst (merge_opt src) (m :: Pricing)"
proof (cases src)
  case None
  then have "merge_opt src = (\<lambda>x. x)" by auto
  with None assms show ?thesis by simp
next
  case (Some v)
  then have "merge_opt src = (\<lambda>_. src)" by auto
  with Some show ?thesis by simp
qed

lemma foldl_merge:
  "list_all (\<lambda>(dst, src). \<forall>m. dst (\<lambda>x. x) m = m) xs \<Longrightarrow>
     foldl (\<lambda>merged (dst, src). if src \<noteq> None then dst (\<lambda>_. src) merged else merged) m xs =
     foldl (\<lambda>merged (dst, src). dst (merge_opt src) merged) (m :: Pricing) xs"
  by (induction xs arbitrary: m) (auto simp: merge_step simp del: not_None_eq)

lemma pricingFieldPairs_id: "list_all (\<lambda>(dst, src). \<forall>m. dst (\<lambda>x. x) m = m) (pricingFieldPairs r)"
  by (simp add: pricingFieldPairs_def)

lemma MergePricing_alt:
  "MergePricing b r = foldl (\<lambda>merged (dst, src). dst (merge_opt src) merged) b (pricingFieldPairs r)"
  unfolding MergePricing_def by (rule foldl_merge [OF pricingFieldPairs_id])

lemma MergePricing_map:
  "map (\<lambda>t. snd t (MergePricing b r)) pricingFieldTags
     = map (\<lambda>t. merge_opt (snd t r) (snd t b)) pricingFieldTags"
  by (cases b)
    (simp only: MergePricing_alt pricingFieldPairs_def foldl_Cons foldl_Nil prod.case
      Pricing.update_convs pricingFieldTags_def list.map snd_conv Pricing.select_convs)

lemma MergePricing_field:
  "t \<in> set pricingFieldTags \<Longrightarrow> snd t (MergePricing b r) = merge_opt (snd t r) (snd t b)"
  using MergePricing_map [of b r] by simp

text \<open>Two sheets with the same rate under every tag are equal.\<close>

lemma Pricing_ext_map:
  "map (\<lambda>t. snd t p) pricingFieldTags = map (\<lambda>t. snd t q) pricingFieldTags \<Longrightarrow> p = (q :: Pricing)"
  by (cases p, cases q)
    (simp only: pricingFieldTags_def list.map snd_conv Pricing.select_convs list.inject)

lemma Pricing_ext:
  assumes "\<And>t. t \<in> set pricingFieldTags \<Longrightarrow> snd t p = snd t (q :: Pricing)"
  shows "p = q"
  by (rule Pricing_ext_map) (simp add: assms)

lemma Pricing_zero_field: "t \<in> set pricingFieldTags \<Longrightarrow> snd t Pricing_zero = None"
proof -
  have "list_all (\<lambda>t. snd t Pricing_zero = None) pricingFieldTags"
    by (simp only: pricingFieldTags_def Pricing_zero_def list.pred_inject snd_conv
        Pricing.select_convs simp_thms)
  then show "t \<in> set pricingFieldTags \<Longrightarrow> snd t Pricing_zero = None" by (simp add: list_all_iff)
qed

text \<open>
  Merging a custom price sheet over a catalog sheet works field by field, for every one of the
  billing dimensions: a rate set in the override replaces the base rate, a rate left out keeps it.
\<close>

theorem MergePricing_fieldwise:
  "map (\<lambda>(tag, field). (tag, field (MergePricing base override))) pricingFieldTags
   = map (\<lambda>(tag, field). (tag, case field override of Some v \<Rightarrow> Some v | None \<Rightarrow> field base))
       pricingFieldTags"
  by (auto simp: MergePricing_field [where t = "(_, _)", simplified] merge_opt_def split: option.splits)

text \<open>
  Merging is associative, the empty sheet is neutral on both sides and merging a sheet over
  itself changes nothing: stacked overrides can be combined in any grouping.
\<close>

theorem MergePricing_monoid:
  "MergePricing (MergePricing a b) c = MergePricing a (MergePricing b c)
   \<and> MergePricing a Pricing_zero = a \<and> MergePricing Pricing_zero a = a \<and> MergePricing a a = a"
  by (intro conjI; rule Pricing_ext)
    (simp_all add: MergePricing_field Pricing_zero_field merge_opt_assoc)

end
