(* ===== verification/Money.thy ===== *)
theory Money
  imports Float64
begin

text \<open>
  Nano-USD amounts (\<^verbatim>\<open>internal/core/money.go\<close>): the conversion of a floating point price to
  an integer number of billionths of a dollar, saturating at the largest \<^verbatim>\<open>int64\<close>, and back.
\<close>

definition NanoUSD :: rat where
  "NanoUSD = 1000000000"

definition maxNanoUSD :: int64 where
  "maxNanoUSD = max_int64"

text \<open>The comparison \<^verbatim>\<open>nano >= maxNanoUSD\<close> is a \<^verbatim>\<open>float64\<close> comparison: the constant
  \<^verbatim>\<open>math.MaxInt64\<close> is rounded to \<open>2 ^ 63\<close> there.\<close>

definition ToNanoUSD :: "float64 \<Rightarrow> int64" where
  "ToNanoUSD usd =
     (if usd = NaN \<or> fle usd (Fin 0) then 0
      else let nano = fround (fmul usd (Fin NanoUSD)) in
        if nano = PInf \<or> nano = NInf \<or> fle (float_of_int maxNanoUSD) nano then maxNanoUSD
        else case nano of Fin x \<Rightarrow> \<lfloor>x\<rfloor> | _ \<Rightarrow> 0)"

definition FromNanoUSD :: "int64 \<Rightarrow> float64" where
  "FromNanoUSD nano = fdiv_const (float_of_int nano) NanoUSD"

lemma float_of_maxNanoUSD: "float_of_int maxNanoUSD = Fin (2 ^ 63)"
proof -
  have "ilog2 9223372036854775807 = 62" by (rule ilog2_eqI) simp_all
  then have e: "ulp_exp 9223372036854775807 = 10" by (simp add: ulp_exp_def)
  have "\<lfloor>9223372036854775807 / 1024 :: rat\<rfloor> = 9007199254740991" by (simp add: floor_eq_iff)
  then have "rhe (9223372036854775807 / 1024) = 9007199254740992" by (simp add: rhe_def Let_def)
  with e have "rnd64 9223372036854775807 = 2 ^ 63" by (simp add: rnd64_def rnd_mag_def)
  then show ?thesis by (simp add: float_of_int_def maxNanoUSD_def max_int64_def round64_def)
qed

lemma ToNanoUSD_Fin:
  "0 < x \<Longrightarrow> ToNanoUSD (Fin x) =
     (let y = round64 (x * NanoUSD) in
        case y of Fin z \<Rightarrow> if round_away z \<ge> 2 ^ 63 then maxNanoUSD else round_away z
                | _ \<Rightarrow> maxNanoUSD)"
proof -
  assume x: "0 < x"
  then have "0 \<le> rnd64 (x * NanoUSD)" by (intro rnd64_nonneg) (simp add: NanoUSD_def)
  then have nz: "\<not> rnd64 (x * NanoUSD) < 0" "round64 (x * NanoUSD) \<noteq> NaN"
     "round64 (x * NanoUSD) \<noteq> NInf"
    by (auto simp: round64_def Let_def)
  have "(2 ^ 63 :: rat) \<le> of_int k \<longleftrightarrow> (2 ^ 63 :: int) \<le> k" for k
    using of_int_le_iff [of "2 ^ 63" k, where 'a = rat] by simp
  then show ?thesis using x nz
    by (auto simp: ToNanoUSD_def fround_def float_of_maxNanoUSD Let_def split: float64.splits)
qed

lemma ToNanoUSD_nonpos [simp]: "x \<le> 0 \<Longrightarrow> ToNanoUSD (Fin x) = 0"
  by (simp add: ToNanoUSD_def)

lemma ToNanoUSD_special [simp]:
  "ToNanoUSD NaN = 0" "ToNanoUSD NInf = 0" "ToNanoUSD PInf = maxNanoUSD"
  by (simp_all add: ToNanoUSD_def fround_def NanoUSD_def inf_of_sign_def)

lemma ToNanoUSD_bounds: "0 \<le> ToNanoUSD usd \<and> ToNanoUSD usd \<le> maxNanoUSD"
proof (cases usd)
  case (Fin x)
  show ?thesis
  proof (cases "0 < x")
    case True
    have nn: "fnonneg (round64 (x * NanoUSD))"
      using True by (intro round64_nonneg) (simp add: NanoUSD_def)
    show ?thesis
    proof (cases "round64 (x * NanoUSD)")
      case (Fin z)
      then have "0 \<le> round_away z" using nn by (intro round_away_nonneg) simp
      with Fin True show ?thesis
        by (simp add: ToNanoUSD_Fin \<open>usd = _\<close> maxNanoUSD_def max_int64_def)
    qed (use True \<open>usd = _\<close> in \<open>simp_all add: ToNanoUSD_Fin maxNanoUSD_def max_int64_def\<close>)
  next
    case False
    with Fin show ?thesis by (simp add: maxNanoUSD_def max_int64_def)
  qed
qed (simp_all add: maxNanoUSD_def max_int64_def)

lemma ToNanoUSD_mono_Fin:
  assumes "x \<le> y"
  shows "ToNanoUSD (Fin x) \<le> ToNanoUSD (Fin y)"
proof (cases "0 < x")
  case True
  then have m: "fle (round64 (x * NanoUSD)) (round64 (y * NanoUSD))"
    using assms by (intro round64_mono) (simp add: NanoUSD_def)
  have y: "0 < y" using True assms by simp
  show ?thesis
  proof (cases "round64 (y * NanoUSD)")
    case (Fin b)
    show ?thesis
    proof (cases "round64 (x * NanoUSD)")
      case (Fin a)
      then have "round_away a \<le> round_away b"
        using m \<open>round64 (y * _) = _\<close> by (simp add: round_away_mono)
      with Fin \<open>round64 (y * _) = _\<close> True y show ?thesis
        by (simp add: ToNanoUSD_Fin maxNanoUSD_def max_int64_def)
    next
      case NInf
      then show ?thesis using round64_nonneg [of "x * NanoUSD"] True by (simp add: NanoUSD_def)
    qed (use m \<open>round64 (y * _) = _\<close> in simp_all)
  qed (use y ToNanoUSD_bounds [of "Fin x"] in \<open>simp_all add: ToNanoUSD_Fin\<close>)
next
  case False
  then show ?thesis using ToNanoUSD_bounds [of "Fin y"] by simp
qed

text \<open>Rounding twice around a nano-dollar amount below \<open>2 ^ 50\<close> moves it by less than a half.\<close>

lemma nano_rounding_error:
  assumes "0 < n" "n \<le> 2 ^ 50"
  defines "y \<equiv> rnd64 (of_int n / NanoUSD)"
  shows "0 < y" and "\<bar>rnd64 (y * NanoUSD) - of_int n\<bar> < 1 / 2"
proof -
  let ?n = "of_int n :: rat"
  have n: "1 \<le> ?n" "?n \<le> 2 ^ 50" using assms(1,2) of_int_le_iff [of n "2 ^ 50", where 'a = rat] by simp_all
  have tiny: "two_powi (- 1022) \<le> 1 / 2 ^ 40" by (simp add: power_int_minus field_simps)
  have e1: "\<bar>y - ?n / NanoUSD\<bar> \<le> ?n / NanoUSD / 2 ^ 53"
    unfolding y_def using n tiny by (intro rnd64_rel_error) (simp add: NanoUSD_def)
  have "\<bar>y * NanoUSD - ?n\<bar> = \<bar>y - ?n / NanoUSD\<bar> * NanoUSD"
    by (simp add: NanoUSD_def abs_if field_simps)
  also have "\<dots> \<le> ?n / 2 ^ 53" using e1 by (simp add: NanoUSD_def field_simps)
  finally have e2: "\<bar>y * NanoUSD - ?n\<bar> \<le> ?n / 2 ^ 53" .
  have close: "\<bar>y * NanoUSD - ?n\<bar> \<le> 1 / 8" using e2 n by (simp add: field_simps)
  then have big: "7 / 8 \<le> y * NanoUSD" "y * NanoUSD \<le> 2 ^ 50 + 1" using n by linarith+
  then show "0 < y" by (simp add: NanoUSD_def)
  have "\<bar>rnd64 (y * NanoUSD) - y * NanoUSD\<bar> \<le> y * NanoUSD / 2 ^ 53"
    using big tiny by (intro rnd64_rel_error) simp
  also have "\<dots> \<le> 1 / 4" using big by (simp add: mult.commute)
  finally show "\<bar>rnd64 (y * NanoUSD) - ?n\<bar> < 1 / 2" using close by linarith
qed

lemma round64_Fin: "\<bar>rnd64 x\<bar> < 2 ^ 1024 \<Longrightarrow> round64 x = Fin (rnd64 x)"
  by (simp add: round64_def)

lemma FromNanoUSD_Fin:
  assumes "0 \<le> n" "n \<le> 2 ^ 50"
  shows "FromNanoUSD n = Fin (rnd64 (of_int n / NanoUSD))"
proof -
  have "\<bar>n\<bar> < 2 ^ 53" using assms by simp
  then have f: "float_of_int n = Fin (of_int n)"
    unfolding float_of_int_def
    using of_int_less_iff [of "\<bar>n\<bar>" "2 ^ 1024", where 'a = rat] by (subst round64_Fin) simp_all
  have "0 \<le> rnd64 (of_int n / NanoUSD)" using assms by (intro rnd64_nonneg) (simp add: NanoUSD_def)
  moreover have "rnd64 (of_int n / NanoUSD) \<le> rnd64 (of_int (2 ^ 50))"
    using assms of_int_le_iff [of n "2 ^ 50", where 'a = rat] of_int_0_le_iff [of n, where 'a = rat]
    by (intro rnd64_mono) (simp add: NanoUSD_def)
  then have "rnd64 (of_int n / NanoUSD) \<le> 2 ^ 50" by (subst (asm) rnd64_of_int) simp_all
  ultimately show ?thesis by (simp add: FromNanoUSD_def fdiv_const_def f round64_Fin)
qed

text \<open>
  Converting a price to nano-dollars always yields a non-negative amount within the range of
  \<^verbatim>\<open>int64\<close>, whatever the price (negative, NaN, infinite, too large): a cost can never be
  recorded as a refund nor overflow.
\<close>

theorem ToNanoUSD_range: "0 \<le> ToNanoUSD usd \<and> in_int64 (ToNanoUSD usd)"
  using ToNanoUSD_bounds [of usd] by (simp add: in_int64_def maxNanoUSD_def min_int64_def)

text \<open>
  The conversion to nano-dollars is monotone for Go's floating point order: a larger
  price never yields a smaller amount, saturation and rounding included.
\<close>

theorem ToNanoUSD_monotone:
  assumes "fle a b"
  shows "ToNanoUSD a \<le> ToNanoUSD b"
  using assms ToNanoUSD_bounds [of a] ToNanoUSD_bounds [of b]
  by (cases a; cases b) (simp_all add: ToNanoUSD_mono_Fin)

theorem ToNanoUSD_monotone_witness:
  "fle (Fin (1 / 2)) (Fin 3) \<and> ToNanoUSD (Fin (1 / 2)) \<le> ToNanoUSD (Fin 3)"
  using ToNanoUSD_monotone [of "Fin (1 / 2)" "Fin 3"] by simp

text \<open>
  Every recorded amount up to \<open>2 ^ 50\<close> nano-dollars (more than a million dollars) survives
  the trip through the floating point dollars shown to users and back: the two roundings of the
  division and of the multiplication are undone by the final rounding.
\<close>

theorem NanoUSD_round_trip:
  assumes "0 \<le> n" "n \<le> 2 ^ 50"
  shows "ToNanoUSD (FromNanoUSD n) = n"
proof (cases "n = 0")
  case True
  then show ?thesis by (simp add: FromNanoUSD_def float_of_int_def fdiv_const_def)
next
  case False
  define y where "y = rnd64 (of_int n / NanoUSD)"
  have y: "0 < y" "\<bar>rnd64 (y * NanoUSD) - of_int n\<bar> < 1 / 2"
    unfolding y_def using False assms by (intro nano_rounding_error; simp)+
  have "(of_int n :: rat) \<le> 2 ^ 50"
    using assms of_int_le_iff [of n "2 ^ 50", where 'a = rat] by simp
  then have "\<bar>rnd64 (y * NanoUSD)\<bar> < 2 ^ 50 + 1"
    using y(2) assms(1) of_int_0_le_iff [of n, where 'a = rat] by linarith
  then have "round64 (y * NanoUSD) = Fin (rnd64 (y * NanoUSD))"
    by (intro round64_Fin) (rule less_trans, assumption, simp)
  moreover have "round_away (rnd64 (y * NanoUSD)) = n" using assms(1) y(2) by (rule round_away_near)
  ultimately show ?thesis
    using y(1) assms by (simp add: FromNanoUSD_Fin flip: y_def) (simp add: ToNanoUSD_Fin)
qed

theorem NanoUSD_round_trip_witness: "ToNanoUSD (FromNanoUSD 1500000001) = 1500000001"
  by (rule NanoUSD_round_trip) simp_all

end
