(* ===== verification/Pricing.thy ===== *)
theory Pricing
  imports PricingTypes Money CoreTypes
begin

text \<open>
  Pricing of a request (\<^verbatim>\<open>internal/core/pricing.go\<close>): the service tiers, the rate that applies to
  each billing dimension, the recorded usage, and the cost computed from both, as a total and as
  an itemised breakdown. A callback \<^verbatim>\<open>add\<close> of the source is the list of its calls, in order.
\<close>

section \<open>Tiers and bands\<close>

definition BandAbove128K :: int64 where "BandAbove128K = 128000"
definition BandAbove200K :: int64 where "BandAbove200K = 200000"
definition BandAbove256K :: int64 where "BandAbove256K = 256000"
definition BandAbove272K :: int64 where "BandAbove272K = 272000"
definition BandAbove512K :: int64 where "BandAbove512K = 512000"
definition PixelsAbove1024 :: int64 where "PixelsAbove1024 = 1024 * 1024"
definition PixelsAbove2048 :: int64 where "PixelsAbove2048 = 2048 * 2048"
definition PixelsAbove4096 :: int64 where "PixelsAbove4096 = 4096 * 4096"

lemmas band_defs = BandAbove128K_def BandAbove200K_def BandAbove256K_def BandAbove272K_def
  BandAbove512K_def

datatype ServiceTier = TierStandard | TierPriority | TierFlex | TierBatch | TierFast

fun ServiceTier_String :: "ServiceTier \<Rightarrow> string" where
  "ServiceTier_String TierPriority = ''priority''"
| "ServiceTier_String TierFlex = ''flex''"
| "ServiceTier_String TierBatch = ''batch''"
| "ServiceTier_String TierFast = ''fast''"
| "ServiceTier_String TierStandard = ''standard''"

definition ParseServiceTier :: "string \<Rightarrow> ServiceTier" where
  "ParseServiceTier value =
     (if value = ''priority'' then TierPriority
      else if value = ''flex'' then TierFlex
      else if value = ''batch'' \<or> value = ''batches'' then TierBatch
      else if value = ''fast'' then TierFast
      else TierStandard)"

interpretation service_tier: wire_enum ServiceTier_String ParseServiceTier id
  by unfold_locales (case_tac x, simp_all add: ParseServiceTier_def)

section \<open>Rates\<close>

fun rate :: "float64 option list \<Rightarrow> float64" where
  "rate [] = Fin 0"
| "rate (candidate # candidates) = (case candidate of Some v \<Rightarrow> v | None \<Rightarrow> rate candidates)"

text \<open>
  A rate function is a sequence of guarded returns. \<open>guarded\<close> is the candidate of
  \<^verbatim>\<open>if cond && p.F != nil { return *p.F }\<close>, \<open>nonzero\<close> that of
  \<^verbatim>\<open>if v := rate(...); v != 0 { return v }\<close>; the first candidate present is returned.
\<close>

definition guarded :: "bool \<Rightarrow> float64 option \<Rightarrow> float64 option" where
  "guarded c x = (if c then x else None)"

definition nonzero :: "float64 \<Rightarrow> float64 option" where
  "nonzero v = (if feq v (Fin 0) then None else Some v)"

definition inputRate :: "Pricing \<Rightarrow> int64 \<Rightarrow> ServiceTier \<Rightarrow> float64" where
  "inputRate p totalTokens tier = rate (
     (case tier of
        TierFast \<Rightarrow> [InputCostPerTokenFast p]
      | TierFlex \<Rightarrow>
          [guarded (totalTokens > BandAbove272K)
             (nonzero (rate [InputCostPerTokenAbove272kTokensFlex p, InputCostPerTokenFlexAbove272kTokens p])),
           InputCostPerTokenFlex p]
      | TierBatch \<Rightarrow>
          [guarded (totalTokens > BandAbove272K) (InputCostPerTokenBatchesAbove272kTokens p),
           InputCostPerTokenBatches p]
      | _ \<Rightarrow> []) @
     [guarded (totalTokens > BandAbove512K) (InputCostPerTokenAbove512kTokens p),
      guarded (totalTokens > BandAbove272K \<and> tier = TierPriority) (InputCostPerTokenAbove272kTokensPriority p),
      guarded (totalTokens > BandAbove272K) (InputCostPerTokenAbove272kTokens p),
      guarded (totalTokens > BandAbove256K) (InputCostPerTokenAbove256kTokens p),
      guarded (totalTokens > BandAbove200K \<and> tier = TierPriority) (InputCostPerTokenAbove200kTokensPriority p),
      guarded (totalTokens > BandAbove200K) (InputCostPerTokenAbove200kTokens p),
      guarded (totalTokens > BandAbove128K) (InputCostPerTokenAbove128kTokens p),
      guarded (tier = TierPriority) (InputCostPerTokenPriority p),
      InputCostPerToken p])"

definition outputRate :: "Pricing \<Rightarrow> int64 \<Rightarrow> ServiceTier \<Rightarrow> float64" where
  "outputRate p totalTokens tier = rate (
     (case tier of
        TierFast \<Rightarrow> [OutputCostPerTokenFast p]
      | TierFlex \<Rightarrow>
          [guarded (totalTokens > BandAbove272K)
             (nonzero (rate [OutputCostPerTokenAbove272kTokensFlex p, OutputCostPerTokenFlexAbove272kTokens p])),
           OutputCostPerTokenFlex p]
      | TierBatch \<Rightarrow>
          [guarded (totalTokens > BandAbove272K) (OutputCostPerTokenBatchesAbove272kTokens p),
           OutputCostPerTokenBatches p]
      | _ \<Rightarrow> []) @
     [guarded (totalTokens > BandAbove512K) (OutputCostPerTokenAbove512kTokens p),
      guarded (totalTokens > BandAbove272K \<and> tier = TierPriority) (OutputCostPerTokenAbove272kTokensPriority p),
      guarded (totalTokens > BandAbove272K) (OutputCostPerTokenAbove272kTokens p),
      guarded (totalTokens > BandAbove256K) (OutputCostPerTokenAbove256kTokens p),
      guarded (totalTokens > BandAbove200K \<and> tier = TierPriority) (OutputCostPerTokenAbove200kTokensPriority p),
      guarded (totalTokens > BandAbove200K) (OutputCostPerTokenAbove200kTokens p),
      guarded (totalTokens > BandAbove128K) (OutputCostPerTokenAbove128kTokens p),
      guarded (tier = TierPriority) (OutputCostPerTokenPriority p),
      OutputCostPerToken p])"

definition cacheReadRate :: "Pricing \<Rightarrow> int64 \<Rightarrow> ServiceTier \<Rightarrow> float64" where
  "cacheReadRate p totalTokens tier = rate (
     (case tier of
        TierFast \<Rightarrow> [CacheReadInputTokenCostFast p]
      | TierFlex \<Rightarrow>
          [guarded (totalTokens > BandAbove272K)
             (nonzero (rate [CacheReadInputTokenCostAbove272kTokensFlex p, CacheReadInputTokenCostFlexAbove272kTokens p])),
           CacheReadInputTokenCostFlex p]
      | TierBatch \<Rightarrow>
          [guarded (totalTokens > BandAbove272K) (CacheReadInputTokenCostBatchesAbove272kTokens p),
           CacheReadInputTokenCostBatches p]
      | _ \<Rightarrow> []) @
     [guarded (totalTokens > BandAbove512K) (CacheReadInputTokenCostAbove512kTokens p),
      guarded (totalTokens > BandAbove272K \<and> tier = TierPriority) (CacheReadInputTokenCostAbove272kTokensPriority p),
      guarded (totalTokens > BandAbove272K) (CacheReadInputTokenCostAbove272kTokens p),
      guarded (totalTokens > BandAbove200K \<and> tier = TierPriority) (CacheReadInputTokenCostAbove200kTokensPriority p),
      guarded (totalTokens > BandAbove200K) (CacheReadInputTokenCostAbove200kTokens p),
      guarded (tier = TierPriority) (CacheReadInputTokenCostPriority p),
      CacheReadInputTokenCost p,
      InputCostPerTokenCacheHit p])"

definition cacheCreationRate :: "Pricing \<Rightarrow> int64 \<Rightarrow> ServiceTier \<Rightarrow> bool \<Rightarrow> float64" where
  "cacheCreationRate p totalTokens tier longTTL = rate (
     [guarded (longTTL \<and> tier = TierFast) (CacheCreationInputTokenCostAbove1hrFast p),
      guarded (longTTL \<and> tier = TierBatch) (CacheCreationInputTokenCostBatches1h p),
      guarded (longTTL \<and> totalTokens > BandAbove200K) (CacheCreationInputTokenCostAbove1hrAbove200kTokens p),
      guarded longTTL (CacheCreationInputTokenCostAbove1hr p)] @
     (case tier of
        TierFast \<Rightarrow> [CacheCreationInputTokenCostFast p]
      | TierFlex \<Rightarrow>
          [guarded (totalTokens > BandAbove272K)
             (nonzero (rate [CacheCreationInputTokenCostAbove272kTokensFlex p, CacheCreationInputTokenCostFlexAbove272kTokens p])),
           CacheCreationInputTokenCostFlex p]
      | TierBatch \<Rightarrow>
          [guarded (totalTokens > BandAbove272K) (CacheCreationInputTokenCostBatchesAbove272kTokens p),
           CacheCreationInputTokenCostBatches p]
      | _ \<Rightarrow> []) @
     [guarded (totalTokens > BandAbove272K) (CacheCreationInputTokenCostAbove272kTokens p),
      guarded (totalTokens > BandAbove200K) (CacheCreationInputTokenCostAbove200kTokens p),
      guarded (tier = TierPriority) (CacheCreationInputTokenCostPriority p),
      CacheCreationInputTokenCost p])"

definition audioInputTokenRate :: "Pricing \<Rightarrow> ServiceTier \<Rightarrow> float64" where
  "audioInputTokenRate p tier =
     rate [guarded (tier = TierPriority) (InputCostPerAudioTokenPriority p), InputCostPerAudioToken p]"

definition audioSecondRate :: "Pricing \<Rightarrow> int64 \<Rightarrow> float64" where
  "audioSecondRate p totalTokens =
     rate [guarded (totalTokens > BandAbove128K) (InputCostPerAudioPerSecondAbove128kTokens p),
       InputCostPerAudioPerSecond p]"

definition inputCharacterRate :: "Pricing \<Rightarrow> int64 \<Rightarrow> float64" where
  "inputCharacterRate p totalTokens =
     rate [guarded (totalTokens > BandAbove128K) (InputCostPerCharacterAbove128kTokens p),
       InputCostPerCharacter p]"

definition outputCharacterRate :: "Pricing \<Rightarrow> int64 \<Rightarrow> float64" where
  "outputCharacterRate p totalTokens =
     rate [guarded (totalTokens > BandAbove128K) (OutputCostPerCharacterAbove128kTokens p),
       OutputCostPerCharacter p]"

definition inputImageRate :: "Pricing \<Rightarrow> int64 \<Rightarrow> float64" where
  "inputImageRate p totalTokens =
     rate [guarded (totalTokens > BandAbove128K) (InputCostPerImageAbove128kTokens p),
       InputCostPerImage p]"

definition inputVideoSecondRate :: "Pricing \<Rightarrow> int64 \<Rightarrow> float64" where
  "inputVideoSecondRate p totalTokens =
     rate [guarded (totalTokens > BandAbove128K) (InputCostPerVideoPerSecondAbove128kTokens p),
       InputCostPerVideoPerSecond p]"

definition outputVideoSecondRate :: "Pricing \<Rightarrow> string \<Rightarrow> bool \<Rightarrow> bool \<Rightarrow> float64" where
  "outputVideoSecondRate p resolution hasAudio fromVideo = rate (
     (if resolution = ''360p'' then
        [guarded hasAudio (OutputCostPerVideoPerSecond360pAudio p), OutputCostPerVideoPerSecond360p p]
      else if resolution = ''480p'' then
        [guarded fromVideo (OutputCostPerVideoPerSecond480pVideoIn p), OutputCostPerVideoPerSecond480p p]
      else if resolution = ''540p'' then
        [guarded hasAudio (OutputCostPerVideoPerSecond540pAudio p), OutputCostPerVideoPerSecond540p p]
      else if resolution = ''720p'' then
        [guarded hasAudio (OutputCostPerVideoPerSecond720pAudio p),
         guarded fromVideo (OutputCostPerVideoPerSecond720pVideoIn p), OutputCostPerVideoPerSecond720p p]
      else if resolution = ''1080p'' then
        [guarded hasAudio (OutputCostPerVideoPerSecond1080pAudio p),
         guarded fromVideo (OutputCostPerVideoPerSecond1080pVideoIn p),
         nonzero (rate [OutputCostPerVideoPerSecond1080p p, OutputCostPerSecond1080p p])]
      else if resolution = ''4k'' then
        [guarded hasAudio (OutputCostPerVideoPerSecond4kAudio p),
         guarded fromVideo (OutputCostPerVideoPerSecond4kVideoIn p), OutputCostPerVideoPerSecond4k p]
      else if resolution = ''pro'' then
        [guarded hasAudio (OutputCostPerVideoPerSecondProAudio p), OutputCostPerVideoPerSecondPro p]
      else if resolution = ''standard'' then
        [guarded hasAudio (OutputCostPerVideoPerSecondStandardAudio p), OutputCostPerVideoPerSecondStandard p]
      else []) @ [OutputCostPerVideoPerSecond p])"

definition outputImageRate :: "Pricing \<Rightarrow> string \<Rightarrow> int64 \<Rightarrow> float64" where
  "outputImageRate p quality pixels = rate [
     guarded (quality = ''low'') (OutputCostPerImageLowQuality p),
     guarded (quality = ''medium'') (OutputCostPerImageMediumQuality p),
     guarded (quality = ''high'') (OutputCostPerImageHighQuality p),
     guarded (quality = ''auto'') (OutputCostPerImageAutoQuality p),
     guarded (pixels > PixelsAbove4096)
       (nonzero (rate [OutputCostPerImageAbove4096And4096Pixels p, OutputCostPerImageAbove4096Pixels p])),
     guarded (pixels > PixelsAbove2048)
       (nonzero (rate [OutputCostPerImageAbove2048And2048Pixels p, OutputCostPerImageAbove2048Pixels p])),
     guarded (pixels > PixelsAbove1024) (OutputCostPerImageAbove1024And1024Pixels p),
     OutputCostPerImage p]"

definition inputVideoSecondRateForClip :: "Pricing \<Rightarrow> float64 \<Rightarrow> int64 \<Rightarrow> float64" where
  "inputVideoSecondRateForClip p seconds totalTokens = rate [
     guarded (flt (Fin 15) seconds) (InputCostPerVideoPerSecondAbove15sInterval p),
     guarded (flt (Fin 8) seconds) (InputCostPerVideoPerSecondAbove8sInterval p),
     Some (inputVideoSecondRate p totalTokens)]"

definition outputVideoRate :: "Pricing \<Rightarrow> string \<Rightarrow> float64 \<Rightarrow> float64" where
  "outputVideoRate p resolution seconds = rate (
     (if resolution = ''768p'' then
        [guarded (flt (Fin 6) seconds) (OutputCostPerVideo768p10s p), OutputCostPerVideo768p6s p]
      else if resolution = ''1080p'' then [OutputCostPerVideo1080p6s p]
      else []) @ [OutputCostPerVideo p])"

definition searchQueryRate :: "Pricing \<Rightarrow> string \<Rightarrow> float64" where
  "searchQueryRate p contextSize = rate [
     guarded (contextSize = ''low'') (SearchContextCostPerQueryLow p),
     guarded (contextSize = ''high'') (SearchContextCostPerQueryHigh p),
     guarded (contextSize = ''medium'') (SearchContextCostPerQueryMedium p),
     SearchContextCostPerQueryMedium p, SearchContextCostPerQueryHigh p, SearchContextCostPerQueryLow p]"

section \<open>Usage and cost\<close>

record Usage =
  Tier :: ServiceTier
  CacheLongTTL :: bool
  SearchContextSize :: string
  VideoResolution :: string
  VideoHasAudio :: bool
  VideoFromVideo :: bool
  ImageQuality :: string
  InputTokens :: int64
  OutputTokens :: int64
  TotalTokens :: int64
  ReasoningTokens :: int64
  CitationTokens :: int64
  CachedInputTokens :: int64
  CacheCreationTokens :: int64
  AcceptedPredictionTokens :: int64
  RejectedPredictionTokens :: int64
  InputAudioTokens :: int64
  OutputAudioTokens :: int64
  CachedAudioTokens :: int64
  CacheCreationAudioTokens :: int64
  InputAudioSeconds :: float64
  InputCharacters :: int64
  OutputCharacters :: int64
  InputImages :: int64
  OutputImages :: int64
  InputImageTokens :: int64
  OutputImageTokens :: int64
  GeneratedPixels :: int64
  OutputPixels :: int64
  InputVideoSeconds :: float64
  OutputVideoSeconds :: float64
  OutputVideoTokens :: int64
  OutputVideos :: int64
  InputSeconds :: float64
  OutputSeconds :: float64
  Queries :: int64
  SearchQueries :: int64
  Requests :: int64
  InputRequests :: int64
  Pages :: int64
  OCRCredits :: int64
  AnnotationPages :: int64
  CodeSessions :: int64
  InputDBUs :: int64
  OutputDBUs :: int64
  Units :: int64

record CostLine =
  cl_Item :: string
  cl_Quantity :: float64
  cl_Unit :: string
  cl_UnitCost :: float64
  cl_CostUSD :: float64

text \<open>The token counts billed at the plain rates: what has a rate of its own is taken out.\<close>

definition uncachedInput :: "Pricing \<Rightarrow> Usage \<Rightarrow> int64" where
  "uncachedInput p u =
    (let n0 = InputTokens u;
         n1 = (if CacheReadInputTokenCost p \<noteq> None \<or> InputCostPerTokenCacheHit p \<noteq> None
               then wrap64 (n0 - CachedInputTokens u) else n0);
         n2 = (if InputCostPerAudioToken p \<noteq> None \<or> InputCostPerAudioTokenPriority p \<noteq> None
               then wrap64 (n1 - InputAudioTokens u) else n1);
         n3 = (if InputCostPerImageToken p \<noteq> None then wrap64 (n2 - InputImageTokens u) else n2)
     in if n3 < 0 then 0 else n3)"

definition plainOutput :: "Pricing \<Rightarrow> Usage \<Rightarrow> int64" where
  "plainOutput p u =
    (let n0 = OutputTokens u;
         n1 = (if OutputCostPerReasoningToken p \<noteq> None then wrap64 (n0 - ReasoningTokens u) else n0);
         n2 = (if OutputCostPerAudioToken p \<noteq> None then wrap64 (n1 - OutputAudioTokens u) else n1);
         n3 = (if OutputCostPerImageToken p \<noteq> None then wrap64 (n2 - OutputImageTokens u) else n2)
     in if n3 < 0 then 0 else n3)"

text \<open>The calls of the callback, each an item, a unit, a quantity and a unit cost.\<close>

definition costLines :: "Pricing \<Rightarrow> Usage \<Rightarrow> (string \<times> string \<times> float64 \<times> float64) list" where
  "costLines p u = [
     (''input'', ''token'', float_of_int (uncachedInput p u), inputRate p (InputTokens u) (Tier u)),
     (''output'', ''token'', float_of_int (plainOutput p u), outputRate p (InputTokens u) (Tier u)),
     (''input_cache_read'', ''token'', float_of_int (CachedInputTokens u),
        cacheReadRate p (InputTokens u) (Tier u)),
     (''input_cache_write'', ''token'', float_of_int (CacheCreationTokens u),
        cacheCreationRate p (InputTokens u) (Tier u) (CacheLongTTL u)),
     (''reasoning'', ''token'', float_of_int (ReasoningTokens u), rate [OutputCostPerReasoningToken p]),
     (''citation'', ''token'', float_of_int (CitationTokens u), rate [CitationCostPerToken p]),
     (''input_audio'', ''token'', float_of_int (InputAudioTokens u), audioInputTokenRate p (Tier u)),
     (''output_audio'', ''token'', float_of_int (OutputAudioTokens u), rate [OutputCostPerAudioToken p]),
     (''input_audio_cache_read'', ''token'', float_of_int (CachedAudioTokens u),
        rate [CacheReadInputAudioTokenCost p]),
     (''input_audio_cache_write'', ''token'', float_of_int (CacheCreationAudioTokens u),
        rate [CacheCreationInputAudioTokenCost p]),
     (''input_audio'', ''second'', InputAudioSeconds u, audioSecondRate p (InputTokens u)),
     (''input'', ''character'', float_of_int (InputCharacters u), inputCharacterRate p (InputTokens u)),
     (''output'', ''character'', float_of_int (OutputCharacters u), outputCharacterRate p (InputTokens u)),
     (''input_image'', ''image'', float_of_int (InputImages u), inputImageRate p (InputTokens u)),
     (''output_image'', ''image'', float_of_int (OutputImages u),
        outputImageRate p (ImageQuality u) (OutputPixels u)),
     (''input_image'', ''token'', float_of_int (InputImageTokens u), rate [InputCostPerImageToken p]),
     (''output_image'', ''token'', float_of_int (OutputImageTokens u), rate [OutputCostPerImageToken p]),
     (''generated'', ''pixel'', float_of_int (GeneratedPixels u), rate [InputCostPerPixel p]),
     (''output'', ''pixel'', float_of_int (OutputPixels u), rate [OutputCostPerPixel p]),
     (''input_video'', ''second'', InputVideoSeconds u,
        inputVideoSecondRateForClip p (InputVideoSeconds u) (InputTokens u)),
     (''output_video'', ''second'', OutputVideoSeconds u,
        outputVideoSecondRate p (VideoResolution u) (VideoHasAudio u) (VideoFromVideo u)),
     (''output_video'', ''token'', float_of_int (OutputVideoTokens u), rate [OutputCostPerVideoToken p]),
     (''output_video'', ''video'', float_of_int (OutputVideos u),
        outputVideoRate p (VideoResolution u) (OutputVideoSeconds u)),
     (''input'', ''second'', InputSeconds u, rate [InputCostPerSecond p]),
     (''output'', ''second'', OutputSeconds u, rate [OutputCostPerSecond p]),
     (''query'', ''query'', float_of_int (Queries u), rate [InputCostPerQuery p]),
     (''search_query'', ''query'', float_of_int (SearchQueries u), searchQueryRate p (SearchContextSize u)),
     (''request'', ''request'', float_of_int (Requests u), rate [CostPerRequest p]),
     (''input_request'', ''request'', float_of_int (InputRequests u), rate [InputCostPerRequest p]),
     (''ocr'', ''page'', float_of_int (Pages u), rate [OCRCostPerPage p]),
     (''ocr'', ''credit'', float_of_int (OCRCredits u), rate [OCRCostPerCredit p]),
     (''annotation'', ''page'', float_of_int (AnnotationPages u), rate [AnnotationCostPerPage p]),
     (''code_interpreter'', ''session'', float_of_int (CodeSessions u), rate [CodeInterpreterCostPerSession p]),
     (''input'', ''dbu'', float_of_int (InputDBUs u), rate [InputDBUCostPerToken p]),
     (''output'', ''dbu'', float_of_int (OutputDBUs u), rate [OutputDBUCostPerToken p]),
     (''unit'', ''unit'', float_of_int (Units u), rate [OutputCostPerUnit p])]"

definition CalculateCost :: "Pricing \<Rightarrow> Usage \<Rightarrow> float64" where
  "CalculateCost p u =
     foldl (\<lambda>total (_, _, qty, unitCost). fadd total (fmul qty unitCost)) (Fin 0) (costLines p u)"

definition CostBreakdown :: "Pricing \<Rightarrow> Usage \<Rightarrow> CostLine list" where
  "CostBreakdown p u =
     foldl (\<lambda>lines (item, unit, qty, unitCost).
        if \<not> feq qty (Fin 0) \<and> \<not> feq unitCost (Fin 0)
        then lines @ [\<lparr>cl_Item = item, cl_Quantity = qty, cl_Unit = unit, cl_UnitCost = unitCost,
                       cl_CostUSD = fmul qty unitCost\<rparr>]
        else lines) [] (costLines p u)"

section \<open>Priced catalog entries\<close>

record PricingVariant =
  pv_ID :: string
  pv_RawKey :: string
  pv_Selectors :: SelectorSet
  pv_Provider :: Provider
  pv_ModelType :: ModelType
  pv_ModelName :: string
  pv_Pricing :: Pricing

definition PricingVariant_CatalogKey :: "PricingVariant \<Rightarrow> CatalogKey" where
  "PricingVariant_CatalogKey v = \<lparr>ck_Provider = pv_Provider v, ck_ModelName = pv_ModelName v,
     ck_ModelType = pv_ModelType v\<rparr>"

datatype pricing_error = ErrVariantRequired | ErrUnsupportedVariant

datatype ScopeType = ScopeGlobal | ScopeProvider | ScopeVirtualKey | ScopeOther string

record CustomPricing =
  cp_ID :: string
  cp_Name :: string
  cp_ModelName :: string
  cp_ModelType :: ModelType
  cp_Pricing :: Pricing
  cp_ScopeType :: ScopeType
  cp_ScopeVirtualkeyID :: "string option"
  cp_ScopeProvider :: "Provider option"
  cp_CreatedAt :: time
  cp_UpdatedAt :: time

definition CustomPricing_CustomPricingKey :: "CustomPricing \<Rightarrow> CatalogKey" where
  "CustomPricing_CustomPricingKey cp = \<lparr>ck_Provider = [], ck_ModelName = cp_ModelName cp,
     ck_ModelType = cp_ModelType cp\<rparr>"

record CustomScopePricing =
  csp_Global :: "CustomPricing option"
  csp_Provider :: "Provider \<rightharpoonup> CustomPricing"
  csp_VirtualKey :: "string \<rightharpoonup> CustomPricing"

section \<open>Every rate comes from the sheet\<close>

definition sheet_all :: "(float64 \<Rightarrow> bool) \<Rightarrow> Pricing \<Rightarrow> bool" where
  "sheet_all P p \<longleftrightarrow> list_all (\<lambda>t. pred_option P (snd t p)) pricingFieldTags"

lemmas sheet_all_fields = sheet_all_def [unfolded pricingFieldTags_def list.pred_inject snd_conv simp_thms]

lemma rate_ok: "P (Fin 0) \<Longrightarrow> list_all (pred_option P) cs \<Longrightarrow> P (rate cs)"
  by (induction cs) (auto split: option.splits)

lemma pred_guarded: "pred_option P x \<Longrightarrow> pred_option P (guarded c x)"
  by (simp add: guarded_def)

lemma pred_nonzero: "P v \<Longrightarrow> pred_option P (nonzero v)"
  by (simp add: nonzero_def)

lemmas rate_defs = inputRate_def outputRate_def cacheReadRate_def cacheCreationRate_def
  audioInputTokenRate_def audioSecondRate_def inputCharacterRate_def outputCharacterRate_def
  inputImageRate_def inputVideoSecondRate_def outputVideoSecondRate_def outputImageRate_def
  inputVideoSecondRateForClip_def outputVideoRate_def searchQueryRate_def

lemma rates_from_sheet:
  assumes "sheet_all P p" "P (Fin 0)"
  shows "list_all (\<lambda>(_, _, _, c). P c) (costLines p u)"
  using assms(1) unfolding sheet_all_fields
  by (elim conjE)
    (simp add: costLines_def rate_defs rate_ok assms(2) pred_guarded pred_nonzero
      del: rate.simps split: ServiceTier.split)

section \<open>Totals and breakdowns\<close>

definition Usage_counts :: "Usage \<Rightarrow> int64 list" where
  "Usage_counts u = [InputTokens u, OutputTokens u, ReasoningTokens u, CitationTokens u,
     CachedInputTokens u, CacheCreationTokens u, InputAudioTokens u, OutputAudioTokens u,
     CachedAudioTokens u, CacheCreationAudioTokens u, InputCharacters u, OutputCharacters u,
     InputImages u, OutputImages u, InputImageTokens u, OutputImageTokens u, GeneratedPixels u,
     OutputPixels u, OutputVideoTokens u, OutputVideos u, Queries u, SearchQueries u, Requests u,
     InputRequests u, Pages u, OCRCredits u, AnnotationPages u, CodeSessions u, InputDBUs u,
     OutputDBUs u, Units u]"

definition Usage_seconds :: "Usage \<Rightarrow> float64 list" where
  "Usage_seconds u = [InputAudioSeconds u, InputVideoSeconds u, OutputVideoSeconds u,
     InputSeconds u, OutputSeconds u]"

definition wf_usage :: "Usage \<Rightarrow> bool" where
  "wf_usage u \<longleftrightarrow> list_all in_int64 (Usage_counts u) \<and> list_all is_fin (Usage_seconds u)"

definition nonneg_usage :: "Usage \<Rightarrow> bool" where
  "nonneg_usage u \<longleftrightarrow> wf_usage u \<and> list_all (\<lambda>n. 0 \<le> n) (Usage_counts u)
     \<and> list_all fnonneg (Usage_seconds u)"

lemma float_of_int_fin: "in_int64 n \<Longrightarrow> is_fin (float_of_int n)"
proof -
  assume n: "in_int64 n"
  have p63: "rnd64 (2 ^ 63) = 2 ^ 63" by (rule rnd64_exact [of _ 1 63]) simp_all
  have "- (2 ^ 63) \<le> n" "n \<le> 2 ^ 63" using n by (simp_all add: in_int64_def min_int64_def max_int64_def)
  then have "- (2 ^ 63) \<le> (of_int n :: rat)" "(of_int n :: rat) \<le> 2 ^ 63"
    using of_int_le_iff [of "- (2 ^ 63)" n, where 'a = rat] of_int_le_iff [of n "2 ^ 63", where 'a = rat]
    by simp_all
  then have "- (2 ^ 63) \<le> rnd64 (of_int n)" "rnd64 (of_int n) \<le> 2 ^ 63"
    using rnd64_mono [of "- (2 ^ 63)" "of_int n"] rnd64_mono [of "of_int n" "2 ^ 63"]
    by (simp_all only: p63 rnd64_neg)
  then have "\<bar>rnd64 (of_int n)\<bar> \<le> 2 ^ 63" by linarith
  then have "\<bar>rnd64 (of_int n)\<bar> < 2 ^ 1024" by (rule le_less_trans) simp
  then show ?thesis by (simp add: float_of_int_def round64_Fin)
qed

lemma float_of_int_nonneg: "0 \<le> n \<Longrightarrow> fnonneg (float_of_int n)"
  by (simp add: float_of_int_def round64_nonneg)

lemma plain_counts_in: "wf_usage u \<Longrightarrow> in_int64 (uncachedInput p u) \<and> in_int64 (plainOutput p u)"
  by (simp add: wf_usage_def Usage_counts_def uncachedInput_def plainOutput_def Let_def in_int64_bounds)

lemma plain_counts_nonneg: "0 \<le> uncachedInput p u \<and> 0 \<le> plainOutput p u"
  by (simp add: uncachedInput_def plainOutput_def Let_def)

lemma quantities_fin: "wf_usage u \<Longrightarrow> list_all (\<lambda>(_, _, q, _). is_fin q) (costLines p u)"
  using plain_counts_in [of u p]
  by (simp add: costLines_def wf_usage_def Usage_counts_def Usage_seconds_def float_of_int_fin)

lemma quantities_nonneg: "nonneg_usage u \<Longrightarrow> list_all (\<lambda>(_, _, q, _). fnonneg q) (costLines p u)"
  using plain_counts_nonneg [of p u]
  by (simp add: costLines_def nonneg_usage_def Usage_counts_def Usage_seconds_def float_of_int_nonneg)

text \<open>Skipping the lines of zero quantity or zero rate does not change a floating point total.\<close>

lemma total_skip_zero:
  assumes "list_all (\<lambda>(_, _, q, c). is_fin q \<and> is_fin c) xs" "canon t" "t = foldl tot t0 (ls :: CostLine list)"
    and tot: "tot = (\<lambda>t l. fadd t (cl_CostUSD l))"
  shows "foldl tot t0 (foldl (\<lambda>lines (item, unit, qty, unitCost).
        if \<not> feq qty (Fin 0) \<and> \<not> feq unitCost (Fin 0)
        then lines @ [\<lparr>cl_Item = item, cl_Quantity = qty, cl_Unit = unit, cl_UnitCost = unitCost,
                       cl_CostUSD = fmul qty unitCost\<rparr>]
        else lines) ls xs)
    = foldl (\<lambda>total (_, _, qty, unitCost). fadd total (fmul qty unitCost)) t xs"
  using assms(1-3)
proof (induction xs arbitrary: t ls)
  case Nil
  then show ?case by simp
next
  case (Cons x xs)
  obtain i n q c where x: "x = (i, n, q, c)" by (cases x) auto
  with Cons.prems have fin: "is_fin q" "is_fin c" and rest: "list_all (\<lambda>(_, _, q, c). is_fin q \<and> is_fin c) xs"
    by simp_all
  show ?case
  proof (cases "feq q (Fin 0) \<or> feq c (Fin 0)")
    case True
    then have "fmul q c = Fin 0" using fin by (auto simp: feq_def)
    then have "fadd t (fmul q c) = t" using Cons.prems(2) by simp
    with True Cons.IH [OF rest Cons.prems(2,3)] show ?thesis by (auto simp: x simp del: fadd.simps fmul.simps)
  next
    case False
    let ?l = "\<lparr>cl_Item = i, cl_Quantity = q, cl_Unit = n, cl_UnitCost = c, cl_CostUSD = fmul q c\<rparr>"
    have "fadd t (fmul q c) = foldl tot t0 (ls @ [?l])" using Cons.prems(3) by (simp add: tot)
    from Cons.IH [OF rest canon_fadd this] False show ?thesis
      by (simp add: x del: fadd.simps fmul.simps foldl_append)
  qed
qed

lemma total_nonneg:
  assumes "list_all (\<lambda>(_, _, q, c). is_fin q \<and> fnonneg q \<and> is_fin c \<and> fnonneg c) xs" "fnonneg t"
  shows "fnonneg (foldl (\<lambda>total (_, _, qty, unitCost). fadd total (fmul qty unitCost)) t xs)"
  using assms
proof (induction xs arbitrary: t)
  case Nil
  then show ?case by simp
next
  case (Cons x xs)
  obtain i n q c where x: "x = (i, n, q, c)" by (cases x) auto
  with Cons.prems have "fnonneg (fadd t (fmul q c))" by (simp add: fadd_nonneg fmul_nonneg)
  with Cons x show ?case by (simp del: fadd.simps fmul.simps)
qed

text \<open>
  C32: The itemised breakdown shown to the user adds up, in order and with the roundings of
  floating point addition, to exactly the total that is charged, although the breakdown leaves
  out the lines of zero quantity or zero rate. The prices and the measured seconds have to be
  finite numbers and the counters 64-bit integers.
\<close>

theorem CostBreakdown_total:
  assumes "sheet_all is_fin p" "wf_usage u"
  shows "foldl (\<lambda>total line. fadd total (cl_CostUSD line)) (Fin 0) (CostBreakdown p u) = CalculateCost p u"
proof -
  have "list_all (\<lambda>(_, _, q, c). is_fin q \<and> is_fin c) (costLines p u)"
    using quantities_fin [OF assms(2), of p] rates_from_sheet [OF assms(1), of u]
    by (auto simp: list_all_iff)
  then show ?thesis
    unfolding CostBreakdown_def CalculateCost_def by (rule total_skip_zero) simp_all
qed

definition example_sheet :: Pricing where
  "example_sheet = Pricing_zero\<lparr>InputCostPerToken := Some (Fin (1 / 2)), OutputCostPerToken := Some (Fin 2)\<rparr>"

definition Usage_zero :: Usage where
  "Usage_zero = \<lparr>Tier = TierStandard, CacheLongTTL = False, SearchContextSize = [],
     VideoResolution = [], VideoHasAudio = False, VideoFromVideo = False, ImageQuality = [],
     InputTokens = 0, OutputTokens = 0, TotalTokens = 0, ReasoningTokens = 0, CitationTokens = 0,
     CachedInputTokens = 0, CacheCreationTokens = 0, AcceptedPredictionTokens = 0,
     RejectedPredictionTokens = 0, InputAudioTokens = 0, OutputAudioTokens = 0,
     CachedAudioTokens = 0, CacheCreationAudioTokens = 0, InputAudioSeconds = Fin 0,
     InputCharacters = 0, OutputCharacters = 0, InputImages = 0, OutputImages = 0,
     InputImageTokens = 0, OutputImageTokens = 0, GeneratedPixels = 0, OutputPixels = 0,
     InputVideoSeconds = Fin 0, OutputVideoSeconds = Fin 0, OutputVideoTokens = 0,
     OutputVideos = 0, InputSeconds = Fin 0, OutputSeconds = Fin 0, Queries = 0,
     SearchQueries = 0, Requests = 0, InputRequests = 0, Pages = 0, OCRCredits = 0,
     AnnotationPages = 0, CodeSessions = 0, InputDBUs = 0, OutputDBUs = 0, Units = 0\<rparr>"

lemma example_sheet_all: "P (Fin (1 / 2)) \<Longrightarrow> P (Fin 2) \<Longrightarrow> sheet_all P example_sheet"
  unfolding sheet_all_fields example_sheet_def Pricing_zero_def by simp

lemma example_usage_ok:
  "0 \<le> n \<Longrightarrow> n < 2 ^ 63 \<Longrightarrow> nonneg_usage (Usage_zero\<lparr>InputTokens := n\<rparr>)"
  by (simp add: nonneg_usage_def wf_usage_def Usage_counts_def Usage_seconds_def Usage_zero_def
      in_int64_bounds)

theorem CostBreakdown_total_witness:
  "foldl (\<lambda>total line. fadd total (cl_CostUSD line)) (Fin 0)
     (CostBreakdown example_sheet (Usage_zero\<lparr>InputTokens := 10\<rparr>))
   = CalculateCost example_sheet (Usage_zero\<lparr>InputTokens := 10\<rparr>)"
  by (rule CostBreakdown_total)
    (use example_usage_ok [of 10] in \<open>simp_all add: example_sheet_all nonneg_usage_def\<close>)

text \<open>
  With non-negative prices and counters the cost of a request is never negative and never NaN,
  whatever tier, band, resolution or quality selects the rates.
\<close>

theorem CalculateCost_nonneg:
  assumes "sheet_all (\<lambda>v. is_fin v \<and> fnonneg v) p" "nonneg_usage u"
  shows "fnonneg (CalculateCost p u)"
proof -
  have "wf_usage u" using assms(2) by (simp add: nonneg_usage_def)
  then have "list_all (\<lambda>(_, _, q, c). is_fin q \<and> fnonneg q \<and> is_fin c \<and> fnonneg c) (costLines p u)"
    using quantities_fin [of u p] quantities_nonneg [OF assms(2), of p] rates_from_sheet [OF assms(1), of u]
    by (auto simp: list_all_iff)
  then show ?thesis unfolding CalculateCost_def by (rule total_nonneg) simp
qed

theorem CalculateCost_nonneg_witness:
  "fnonneg (CalculateCost example_sheet (Usage_zero\<lparr>InputTokens := 10\<rparr>))"
  by (rule CalculateCost_nonneg) (simp_all add: example_usage_ok example_sheet_all)

text \<open>
  The plain token counts are what is left of the totals: with consistent counters, every
  input token is billed in exactly one of the plain, cached, audio and image categories that have
  a base rate, and likewise for output tokens.
\<close>

theorem plain_tokens_partition:
  assumes "nonneg_usage u"
    and "CachedInputTokens u + InputAudioTokens u + InputImageTokens u \<le> InputTokens u"
    and "ReasoningTokens u + OutputAudioTokens u + OutputImageTokens u \<le> OutputTokens u"
  shows "uncachedInput p u
      + (if CacheReadInputTokenCost p \<noteq> None \<or> InputCostPerTokenCacheHit p \<noteq> None then CachedInputTokens u else 0)
      + (if InputCostPerAudioToken p \<noteq> None \<or> InputCostPerAudioTokenPriority p \<noteq> None then InputAudioTokens u else 0)
      + (if InputCostPerImageToken p \<noteq> None then InputImageTokens u else 0) = InputTokens u
    \<and> plainOutput p u
      + (if OutputCostPerReasoningToken p \<noteq> None then ReasoningTokens u else 0)
      + (if OutputCostPerAudioToken p \<noteq> None then OutputAudioTokens u else 0)
      + (if OutputCostPerImageToken p \<noteq> None then OutputImageTokens u else 0) = OutputTokens u"
proof -
  have w: "wrap64 n = n" if "0 \<le> n" "n \<le> InputTokens u \<or> n \<le> OutputTokens u" for n
    using that assms(1) by (auto simp: nonneg_usage_def wf_usage_def Usage_counts_def in_int64_def min_int64_def)
  have nn: "0 \<le> CachedInputTokens u" "0 \<le> InputAudioTokens u" "0 \<le> InputImageTokens u"
    "0 \<le> ReasoningTokens u" "0 \<le> OutputAudioTokens u" "0 \<le> OutputImageTokens u"
    "0 \<le> InputTokens u" "0 \<le> OutputTokens u"
    using assms(1) by (simp_all add: nonneg_usage_def Usage_counts_def)
  show ?thesis
    using nn assms(2,3) by (simp add: uncachedInput_def plainOutput_def Let_def w)
qed

theorem plain_tokens_partition_witness:
  "uncachedInput example_sheet (Usage_zero\<lparr>InputTokens := 10\<rparr>) = 10"
  using plain_tokens_partition [of "Usage_zero\<lparr>InputTokens := 10\<rparr>" example_sheet]
    example_usage_ok [of 10]
  by (simp add: example_sheet_def Usage_zero_def Pricing_zero_def)

text \<open>
  A sheet with no rate of its own for a service tier bills that tier exactly like the
  standard tier, for input, output and cached tokens and every prompt size.
\<close>

theorem tier_fallback:
  assumes "list_all (\<lambda>x. x = None)
     [InputCostPerTokenFast p, InputCostPerTokenAbove272kTokensFlex p, InputCostPerTokenFlexAbove272kTokens p,
      InputCostPerTokenFlex p, InputCostPerTokenBatchesAbove272kTokens p, InputCostPerTokenBatches p,
      InputCostPerTokenAbove272kTokensPriority p, InputCostPerTokenAbove200kTokensPriority p,
      InputCostPerTokenPriority p]"
    and "list_all (\<lambda>x. x = None)
     [OutputCostPerTokenFast p, OutputCostPerTokenAbove272kTokensFlex p, OutputCostPerTokenFlexAbove272kTokens p,
      OutputCostPerTokenFlex p, OutputCostPerTokenBatchesAbove272kTokens p, OutputCostPerTokenBatches p,
      OutputCostPerTokenAbove272kTokensPriority p, OutputCostPerTokenAbove200kTokensPriority p,
      OutputCostPerTokenPriority p]"
    and "list_all (\<lambda>x. x = None)
     [CacheReadInputTokenCostFast p, CacheReadInputTokenCostAbove272kTokensFlex p,
      CacheReadInputTokenCostFlexAbove272kTokens p, CacheReadInputTokenCostFlex p,
      CacheReadInputTokenCostBatchesAbove272kTokens p, CacheReadInputTokenCostBatches p,
      CacheReadInputTokenCostAbove272kTokensPriority p, CacheReadInputTokenCostAbove200kTokensPriority p,
      CacheReadInputTokenCostPriority p]"
  shows "inputRate p n tier = inputRate p n TierStandard \<and> outputRate p n tier = outputRate p n TierStandard
    \<and> cacheReadRate p n tier = cacheReadRate p n TierStandard"
  using assms
  by (cases tier) (simp_all add: inputRate_def outputRate_def cacheReadRate_def guarded_def nonzero_def feq_def)

theorem tier_fallback_witness:
  "inputRate example_sheet 300000 TierBatch = inputRate example_sheet 300000 TierStandard"
  using tier_fallback [of example_sheet 300000 TierBatch]
  by (simp add: example_sheet_def Pricing_zero_def)

text \<open>
  An explicit price of zero for flex prompts above 272k tokens is not honoured: the sheet says
  long flex prompts are free, and the flat flex rate is charged. The batch tier, in the same
  situation, charges the explicit zero.
\<close>

theorem flex_zero_price_ignored:
  "\<exists>p n. n > BandAbove272K \<and> InputCostPerTokenAbove272kTokensFlex p = Some (Fin 0)
     \<and> inputRate p n TierFlex = Fin 1
     \<and> InputCostPerTokenBatchesAbove272kTokens p = Some (Fin 0) \<and> inputRate p n TierBatch = Fin 0"
proof (intro exI conjI)
  let ?p = "Pricing_zero\<lparr>InputCostPerTokenAbove272kTokensFlex := Some (Fin 0),
     InputCostPerTokenFlex := Some (Fin 1), InputCostPerTokenBatchesAbove272kTokens := Some (Fin 0)\<rparr>"
  show "InputCostPerTokenAbove272kTokensFlex ?p = Some (Fin 0)" by simp
  show "300000 > BandAbove272K" by (simp add: band_defs)
  show "inputRate ?p 300000 TierFlex = Fin 1"
    by (simp add: inputRate_def band_defs guarded_def nonzero_def feq_def)
  show "InputCostPerTokenBatchesAbove272kTokens ?p = Some (Fin 0)" by simp
  show "inputRate ?p 300000 TierBatch = Fin 0"
    by (simp add: inputRate_def band_defs guarded_def)
qed

text \<open>
  A sheet whose only cache price is the one of the priority tier charges a cached token twice
  for a priority request: once at the plain input rate, since the cached tokens are only taken
  out when a base cache rate is set, and once at the priority cache rate.
\<close>

theorem cached_tokens_billed_twice:
  "\<exists>p u. nonneg_usage u \<and> CachedInputTokens u = InputTokens u \<and> 0 < InputTokens u
     \<and> uncachedInput p u = InputTokens u \<and> inputRate p (InputTokens u) (Tier u) = Fin 1
     \<and> cacheReadRate p (InputTokens u) (Tier u) = Fin (1 / 2)"
proof (intro exI conjI)
  let ?p = "Pricing_zero\<lparr>InputCostPerToken := Some (Fin 1), CacheReadInputTokenCostPriority := Some (Fin (1 / 2))\<rparr>"
  let ?u = "Usage_zero\<lparr>InputTokens := 10, CachedInputTokens := 10, Tier := TierPriority\<rparr>"
  show "nonneg_usage ?u"
    by (simp add: nonneg_usage_def wf_usage_def Usage_counts_def Usage_seconds_def Usage_zero_def in_int64_bounds)
  show "CachedInputTokens ?u = InputTokens ?u" "0 < InputTokens ?u" by simp_all
  show "uncachedInput ?p ?u = InputTokens ?u"
    by (simp add: uncachedInput_def Pricing_zero_def Usage_zero_def)
  show "inputRate ?p (InputTokens ?u) (Tier ?u) = Fin 1"
    "cacheReadRate ?p (InputTokens ?u) (Tier ?u) = Fin (1 / 2)"
    by (simp_all add: inputRate_def cacheReadRate_def band_defs guarded_def Pricing_zero_def)
qed

end
