(* ===== verification/ChatTypes.thy ===== *)
theory ChatTypes
  imports Errors Pricing
begin

text \<open>
  The chat requests and responses the gateway works on (\<^verbatim>\<open>internal/core/kind-chat-completion.go\<close>), one
  record per struct with a field per member. A pointer is an option. A member of type \<^verbatim>\<open>any\<close> holds a
  JSON value, a \<^verbatim>\<open>json.RawMessage\<close> the bytes of one.
\<close>

section \<open>JSON values\<close>

datatype json = JNull | JBool bool | JNumber string | JString string | JArray "json list" | JObject "(string \<times> json) list"

section \<open>Messages\<close>

type_synonym Role = string

definition RoleSystem :: Role where "RoleSystem = ''system''"
definition RoleDeveloper :: Role where "RoleDeveloper = ''developer''"
definition RoleUser :: Role where "RoleUser = ''user''"
definition RoleAssistant :: Role where "RoleAssistant = ''assistant''"
definition RoleTool :: Role where "RoleTool = ''tool''"
definition RoleFunction :: Role where "RoleFunction = ''function''"

type_synonym ChatContentType = string

definition ContentText :: ChatContentType where "ContentText = ''text''"
definition ContentImageURL :: ChatContentType where "ContentImageURL = ''image_url''"
definition ContentInputAudio :: ChatContentType where "ContentInputAudio = ''input_audio''"
definition ContentRefusal :: ChatContentType where "ContentRefusal = ''refusal''"
definition ContentInputFile :: ChatContentType where "ContentInputFile = ''file''"

type_synonym FinishReason = string

definition FinishStop :: FinishReason where "FinishStop = ''stop''"
definition FinishLength :: FinishReason where "FinishLength = ''length''"
definition FinishToolCalls :: FinishReason where "FinishToolCalls = ''tool_calls''"
definition FinishContentFilter :: FinishReason where "FinishContentFilter = ''content_filter''"
definition FinishRefusal :: FinishReason where "FinishRefusal = ''refusal''"

record ChatImageURL =
  img_URL :: string
  img_Detail :: "string option"

record ChatInputAudio =
  ia_Data :: string
  ia_Format :: "string option"

record ChatInputFile =
  file_FileID :: "string option"
  file_FileName :: "string option"
  file_FileData :: "string option"
  file_FileType :: "string option"

record ChatPromptCacheBreakpoint =
  pcb_Mode :: "string option"

record ChatContentPart =
  part_Type :: ChatContentType
  part_Text :: "string option"
  part_ImageURL :: "ChatImageURL option"
  part_InputAudio :: "ChatInputAudio option"
  part_Refusal :: "string option"
  part_File :: "ChatInputFile option"
  part_PromptCacheBreakpoint :: "ChatPromptCacheBreakpoint option"

type_synonym ChatContent = "ChatContentPart list"

definition text_part :: "string \<Rightarrow> ChatContentPart" where
  "text_part s = \<lparr>part_Type = ContentText, part_Text = Some s, part_ImageURL = None, part_InputAudio = None,
     part_Refusal = None, part_File = None, part_PromptCacheBreakpoint = None\<rparr>"

text \<open>Decoding the content of a message over the content it replaces: \<^verbatim>\<open>null\<close> keeps it, a string is
  one text part, anything else is decoded as a list of parts by the library.\<close>

definition ChatContent_UnmarshalJSON :: "(string \<Rightarrow> string option) \<Rightarrow> (string \<Rightarrow> ChatContentPart list option) \<Rightarrow> string \<Rightarrow> ChatContent \<Rightarrow> ChatContent option" where
  "ChatContent_UnmarshalJSON unmarshal_string unmarshal_parts b0 c =
    (let b = TrimSpace b0 in
     if b = [] \<or> b = ''null'' then Some c
     else if hd b = CHR 0x22 then map_option (\<lambda>s. [text_part s]) (unmarshal_string b)
     else unmarshal_parts b)"

record ToolFunctionCall =
  tfc_Name :: "string option"
  tfc_Arguments :: string

record ToolCustomCall =
  tcc_Input :: string
  tcc_Name :: string

record ToolCall =
  tc_Index :: "int option"
  tc_Type :: "string option"
  tc_ID :: "string option"
  tc_Function :: "ToolFunctionCall option"
  tc_Custom :: "ToolCustomCall option"

record ChatAssistantAudio =
  caa_ID :: string
  caa_ExpiresAt :: int64
  caa_Data :: string
  caa_Transcript :: string

record ChatAudioParams =
  cap_Format :: string
  cap_Voice :: string

record DiffractLLMChatMessage =
  msg_Name :: "string option"
  msg_Role :: Role
  msg_Content :: ChatContent
  msg_Refusal :: "string option"
  msg_ToolCallID :: "string option"
  msg_ToolCalls :: "ToolCall list"
  msg_Audio :: "ChatAssistantAudio option"
  msg_Reasoning :: "string option"

section \<open>Parameters\<close>

record ChatPrediction =
  pred_Type :: string
  pred_Content :: json

record ChatStreamOptions =
  so_IncludeUsage :: "bool option"
  so_IncludeObfuscation :: "bool option"

record ChatPromptCacheOptions =
  pco_Mode :: "string option"
  pco_TTL :: "string option"

record ChatToolUserLocation =
  tul_Type :: "string option"
  tul_City :: "string option"
  tul_Country :: "string option"
  tul_Region :: "string option"
  tul_Timezone :: "string option"

record ChatWebSearchOptions =
  wso_SearchContextSize :: "string option"
  wso_UserLocation :: "ChatToolUserLocation option"

type_synonym ChatToolChoiceType = string

definition ToolChoiceNone :: ChatToolChoiceType where "ToolChoiceNone = ''none''"
definition ToolChoiceAuto :: ChatToolChoiceType where "ToolChoiceAuto = ''auto''"
definition ToolChoiceRequired :: ChatToolChoiceType where "ToolChoiceRequired = ''required''"
definition ToolChoiceFunction :: ChatToolChoiceType where "ToolChoiceFunction = ''function''"
definition ToolChoiceCustom :: ChatToolChoiceType where "ToolChoiceCustom = ''custom''"
definition ToolChoiceAllowedTools :: ChatToolChoiceType where "ToolChoiceAllowedTools = ''allowed_tools''"

record ChatToolChoiceFunction =
  tcf_Name :: string

record ChatToolChoiceCustom =
  tcu_Name :: string

type_synonym ChatToolType = string

definition ToolTypeFunction :: ChatToolType where "ToolTypeFunction = ''function''"
definition ToolTypeCustom :: ChatToolType where "ToolTypeCustom = ''custom''"

record ChatToolChoiceAllowedTool =
  tat_Type :: ChatToolType
  tat_Function :: "ChatToolChoiceFunction option"
  tat_Custom :: "ChatToolChoiceCustom option"

record ChatToolChoiceAllowedTools =
  tats_Mode :: string
  tats_Tools :: "ChatToolChoiceAllowedTool list"

record ChatToolChoice =
  tch_Type :: ChatToolChoiceType
  tch_Function :: "ChatToolChoiceFunction option"
  tch_Custom :: "ChatToolChoiceCustom option"
  tch_AllowedTools :: "ChatToolChoiceAllowedTools option"

record ChatToolFunction =
  tfn_Name :: string
  tfn_Description :: "string option"
  tfn_Parameters :: string
  tfn_Strict :: "bool option"

record ChatToolCustomGrammar =
  tcg_Syntax :: string
  tcg_Definition :: string

record ChatToolCustomFormat =
  tcfm_Type :: string
  tcfm_Grammar :: "ChatToolCustomGrammar option"

record ChatToolCustom =
  tcs_Name :: string
  tcs_Description :: "string option"
  tcs_Format :: "ChatToolCustomFormat option"

record ChatTool =
  tool_Type :: ChatToolType
  tool_Function :: "ChatToolFunction option"
  tool_Custom :: "ChatToolCustom option"

record Mode =
  md_Mode :: string

record ChatModerationPolicy =
  cmp_Input :: "Mode option"
  cmp_Output :: "Mode option"

record ChatModerationRequest =
  cmr_Model :: string
  cmr_Policy :: "ChatModerationPolicy option"

record DiffractLLMChatParameters =
  cp_Store :: "bool option"
  cp_ReasoningEffort :: "string option"
  cp_Metadata :: "(string \<times> json) list option"
  cp_FrequencyPenalty :: "float64 option"
  cp_LogitBias :: "(string \<times> float64) list option"
  cp_LogProbs :: "bool option"
  cp_TopLogprobs :: "int option"
  cp_MaxCompletionTokens :: "int option"
  cp_Modalities :: "string list"
  cp_Moderation :: "ChatModerationRequest option"
  cp_N :: "int option"
  cp_ParallelToolCalls :: "bool option"
  cp_PresencePenalty :: "float64 option"
  cp_Seed :: "int64 option"
  cp_ServiceTier :: "string option"
  cp_Stop :: "string list"
  cp_Stream :: "bool option"
  cp_TopP :: "float64 option"
  cp_User :: "string option"
  cp_Prediction :: "ChatPrediction option"
  cp_Audio :: "ChatAudioParams option"
  cp_ResponseFormat :: "json option"
  cp_StreamOptions :: "ChatStreamOptions option"
  cp_Temperature :: "float64 option"
  cp_PromptCacheKey :: "string option"
  cp_PromptCacheOptions :: "ChatPromptCacheOptions option"
  cp_PromptCacheRetention :: "string option"
  cp_WebSearchOptions :: "ChatWebSearchOptions option"
  cp_SafetyIdentifier :: "string option"
  cp_ToolChoice :: "ChatToolChoice option"
  cp_Tools :: "ChatTool list"

record DiffractLLMChatCompletionRequest =
  cr_Model :: string
  cr_Messages :: "DiffractLLMChatMessage list"
  cr_Parameters :: "DiffractLLMChatParameters option"
  cr_Raw :: string

definition ChatRequest_IsStreaming :: "DiffractLLMChatCompletionRequest \<Rightarrow> bool" where
  "ChatRequest_IsStreaming r = (case cr_Parameters r of None \<Rightarrow> False | Some p \<Rightarrow> cp_Stream p = Some True)"

section \<open>Responses\<close>

record ChatLogProb =
  lp_Token :: string
  lp_LogProb :: float64
  lp_Bytes :: "int list"

record ChatContentLogProb =
  clp_Bytes :: "int list"
  clp_LogProb :: float64
  clp_Token :: string
  clp_TopLogProbs :: "ChatLogProb list"

record ChatLogProbs =
  lps_Content :: "ChatContentLogProb list"
  lps_Refusal :: "ChatContentLogProb list"

record ChatResponseChoice =
  rch_Index :: int
  rch_Message :: DiffractLLMChatMessage
  rch_FinishReason :: "FinishReason option"
  rch_LogProbs :: "ChatLogProbs option"

record ChatResponseEnvelope =
  env_ID :: string
  env_Object :: string
  env_Created :: int
  env_Model :: string
  env_ServiceTier :: "string option"
  env_SystemFingerprint :: string
  env_Metadata :: "(string \<times> json) list option"
  env_Moderation :: "json option"
  env_Usage :: "Usage option"
  env_Raw :: string

text \<open>An embedded struct is the record that is extended.\<close>

record DiffractLLMChatCompletionResponse = ChatResponseEnvelope +
  res_Choices :: "ChatResponseChoice list"

record ChatMessageDelta =
  dl_Role :: "Role option"
  dl_Content :: "string option"
  dl_Refusal :: "string option"
  dl_Reasoning :: "string option"
  dl_ToolCalls :: "ToolCall list"
  dl_Audio :: "ChatAssistantAudio option"

record ChatStreamChoice =
  sch_Index :: int
  sch_Delta :: ChatMessageDelta
  sch_FinishReason :: "FinishReason option"
  sch_LogProbs :: "ChatLogProbs option"

datatype ChatStreamEventType = StreamEventDelta | StreamEventComplete | StreamEventError

record DiffractLLMChatCompletionStreamResponse = ChatResponseEnvelope +
  ck_Type :: "ChatStreamEventType option"
  ck_Choices :: "ChatStreamChoice list"
  ck_Error :: "DiffractLLMError option"
  ck_Obfuscation :: "string option"

section \<open>Facts\<close>

text \<open>Content that is given as a JSON string and content given as a list of parts decode to the same
  kind of value, white space around it does not matter, and \<^verbatim>\<open>null\<close> or nothing keeps what was
  there.\<close>

lemma ChatContent_UnmarshalJSON_cases:
  "ChatContent_UnmarshalJSON us up (TrimSpace b) c = ChatContent_UnmarshalJSON us up b c"
  "TrimSpace b = ''null'' \<Longrightarrow> ChatContent_UnmarshalJSON us up b c = Some c"
  "TrimSpace b = CHR 0x22 # rest \<Longrightarrow> us (TrimSpace b) = Some s \<Longrightarrow>
     ChatContent_UnmarshalJSON us up b c = Some [text_part s]"
  by (simp_all add: ChatContent_UnmarshalJSON_def Let_def)

end
