(* ===== verification/Credential.thy ===== *)
theory Credential
  imports CoreTypes
begin

text \<open>
  Upstream credentials (\<^verbatim>\<open>internal/core/credential.go\<close> and \<^verbatim>\<open>azure-credential.go\<close>): the models a
  credential serves, its validity at a point in time, the deployment alias of a model and the
  protocol it speaks, and the validation of a stored credential. The error texts of \<^verbatim>\<open>fmt.Errorf\<close>
  are constructors of an error type; \<open>now\<close> is the reading of \<^verbatim>\<open>time.Now()\<close>.
\<close>

section \<open>Data\<close>

record AzureSettings =
  az_AuthMode :: string
  az_TenantID :: string
  az_ClientID :: string
  az_ClientSecret :: string
  az_Scopes :: "string list"

definition AzureAuthKeyMode :: string where "AzureAuthKeyMode = ''azure_api_key''"
definition AzureAuthServicePrincipal :: string where "AzureAuthServicePrincipal = ''azure_service_principal''"
definition AzureDefaultCredential :: string where "AzureDefaultCredential = ''azure_default_credential''"
definition AzureRouteV1 :: string where "AzureRouteV1 = ''v1''"
definition AzureRouteDeployment :: string where "AzureRouteDeployment = ''deployment''"

lemmas azure_names = AzureAuthKeyMode_def AzureAuthServicePrincipal_def AzureDefaultCredential_def
  AzureRouteV1_def AzureRouteDeployment_def

record CredentialSettings =
  cs_Azure :: "AzureSettings option"

type_synonym EndpointProtocol = string

definition ProtocolOpenAI :: EndpointProtocol where "ProtocolOpenAI = ProviderOpenAI"
definition ProtocolAnthropic :: EndpointProtocol where "ProtocolAnthropic = ProviderAnthropic"

record Alias =
  al_ModelID :: string
  al_ModelName :: string
  al_EndpointProtocol :: EndpointProtocol
  al_RouteStyle :: string
  al_APIVersion :: string

record Credential =
  c_ID :: string
  c_Provider :: Provider
  c_Name :: string
  c_APIKey :: string
  c_Enabled :: bool
  c_ExpiryAt :: "time option"
  c_AllowedModels :: "string list"
  c_BlockedModels :: "string list"
  c_Endpoint :: string
  c_Aliases :: "(string \<times> Alias) list"
  c_Settings :: CredentialSettings

datatype credential_error =
    AzureKeyModeExtras | AzurePrincipalIncomplete | AzureManagedSecret | AzureManagedTenant
  | AzureUnknownAuthMode string
  | SettingsOnOtherProvider Provider | TooManySettings
  | AliasDeploymentRequired | AliasUnknownProtocol string | AliasRouteStyleOpenAIOnly
  | AliasAPIVersionRequired | AliasUnknownRouteStyle string
  | ProviderRequired | ProviderNotSupported Provider | EndpointRequired | AllowedModelRequired
  | EmptyAllowedModel | AliasInvalid string credential_error | AzureSettingsRequired

section \<open>Azure settings\<close>

definition AzureSettings_Validate :: "AzureSettings \<Rightarrow> credential_error option" where
  "AzureSettings_Validate azure =
    (if az_AuthMode azure = AzureAuthKeyMode then
       (if az_TenantID azure \<noteq> [] \<or> az_ClientID azure \<noteq> [] \<or> az_ClientSecret azure \<noteq> []
        then Some AzureKeyModeExtras else None)
     else if az_AuthMode azure = AzureAuthServicePrincipal then
       (if az_TenantID azure = [] \<or> az_ClientID azure = [] \<or> az_ClientSecret azure = []
        then Some AzurePrincipalIncomplete else None)
     else if az_AuthMode azure = AzureDefaultCredential then
       (if az_ClientSecret azure \<noteq> [] then Some AzureManagedSecret
        else if az_TenantID azure \<noteq> [] then Some AzureManagedTenant else None)
     else Some (AzureUnknownAuthMode (az_AuthMode azure)))"

definition CredentialSettings_IsEmpty :: "CredentialSettings \<Rightarrow> bool" where
  "CredentialSettings_IsEmpty cs \<longleftrightarrow> cs_Azure cs = None"

definition CredentialSettings_Validate :: "CredentialSettings \<Rightarrow> Provider \<Rightarrow> credential_error option" where
  "CredentialSettings_Validate cs provider =
    (let (check, err) = (case cs_Azure cs of
           Some azure \<Rightarrow>
             (1 :: int, if provider \<noteq> ProviderAzure then Some (SettingsOnOtherProvider provider)
                        else AzureSettings_Validate azure)
         | None \<Rightarrow> (0, None))
     in case err of Some e \<Rightarrow> Some e | None \<Rightarrow> if check > 1 then Some TooManySettings else None)"

section \<open>Aliases\<close>

definition protocolNameHints :: "(EndpointProtocol \<times> string) list" where
  "protocolNameHints = [(ProtocolAnthropic, ''claude''), (ProtocolAnthropic, ''anthropic.'')]"

fun protocol_scan :: "string list \<Rightarrow> EndpointProtocol" where
  "protocol_scan [] = ProtocolOpenAI"
| "protocol_scan (candidate # rest) =
     (if candidate = [] then protocol_scan rest
      else case List.find (\<lambda>hint. Contains (ToLower candidate) (snd hint)) protocolNameHints of
        Some hint \<Rightarrow> fst hint
      | None \<Rightarrow> protocol_scan rest)"

definition Alias_Protocol :: "Alias option \<Rightarrow> string \<Rightarrow> EndpointProtocol" where
  "Alias_Protocol a requested = (case a of
     None \<Rightarrow> ProtocolOpenAI
   | Some al \<Rightarrow> if al_EndpointProtocol al \<noteq> [] then al_EndpointProtocol al
       else protocol_scan [al_ModelName al, al_ModelID al, requested])"

definition Alias_Validate :: "Alias \<Rightarrow> credential_error option" where
  "Alias_Validate a =
    (if al_ModelID a = [] then Some AliasDeploymentRequired
     else if al_EndpointProtocol a \<notin> {[], ProtocolOpenAI, ProtocolAnthropic}
       then Some (AliasUnknownProtocol (al_EndpointProtocol a))
     else if al_RouteStyle a \<in> {[], AzureRouteV1} then None
     else if al_RouteStyle a = AzureRouteDeployment then
       (if al_EndpointProtocol a = ProtocolAnthropic then Some AliasRouteStyleOpenAIOnly
        else if al_APIVersion a = [] then Some AliasAPIVersionRequired
        else None)
     else Some (AliasUnknownRouteStyle (al_RouteStyle a)))"

section \<open>Credentials\<close>

definition star :: string where "star = ''*''"

definition CheckModel :: "Credential option \<Rightarrow> string \<Rightarrow> bool" where
  "CheckModel c model = (case c of None \<Rightarrow> False | Some cred \<Rightarrow>
     if model = [] then False
     else if star \<in> set (c_BlockedModels cred) \<or> model \<in> set (c_BlockedModels cred) then False
     else star \<in> set (c_AllowedModels cred) \<or> model \<in> set (c_AllowedModels cred))"

definition CheckValidity :: "time \<Rightarrow> Credential option \<Rightarrow> bool" where
  "CheckValidity now c = (case c of None \<Rightarrow> False | Some cred \<Rightarrow>
     c_Enabled cred \<and> (case c_ExpiryAt cred of None \<Rightarrow> True | Some t \<Rightarrow> t > now))"

definition plain_alias :: "string \<Rightarrow> Alias" where
  "plain_alias model = \<lparr>al_ModelID = model, al_ModelName = [], al_EndpointProtocol = [],
     al_RouteStyle = [], al_APIVersion = []\<rparr>"

definition CheckModelAlias :: "Credential option \<Rightarrow> string \<Rightarrow> Alias" where
  "CheckModelAlias c model = (case c of None \<Rightarrow> plain_alias model | Some cred \<Rightarrow>
     case map_of (c_Aliases cred) model of Some alias \<Rightarrow> alias | None \<Rightarrow> plain_alias model)"

fun validate_aliases :: "(string \<times> Alias) list \<Rightarrow> credential_error option" where
  "validate_aliases [] = None"
| "validate_aliases ((model, alias) # rest) = (case Alias_Validate alias of
     Some e \<Rightarrow> Some (AliasInvalid model e) | None \<Rightarrow> validate_aliases rest)"

definition Credential_Validate :: "Credential \<Rightarrow> credential_error option" where
  "Credential_Validate cred =
    (if c_Provider cred = [] then Some ProviderRequired
     else if \<not> IsKnownProvider (c_Provider cred) then Some (ProviderNotSupported (c_Provider cred))
     else if c_Endpoint cred = [] then Some EndpointRequired
     else if c_AllowedModels cred = [] then Some AllowedModelRequired
     else if [] \<in> set (c_AllowedModels cred) then Some EmptyAllowedModel
     else case validate_aliases (c_Aliases cred) of Some e \<Rightarrow> Some e
     | None \<Rightarrow>
         if c_Provider cred = ProviderAzure \<and> cs_Azure (c_Settings cred) = None then Some AzureSettingsRequired
         else if \<not> CredentialSettings_IsEmpty (c_Settings cred)
           then CredentialSettings_Validate (c_Settings cred) (c_Provider cred)
         else None)"

section \<open>Facts\<close>

lemma validate_aliases_None: "validate_aliases as = None \<longleftrightarrow> (\<forall>(m, a) \<in> set as. Alias_Validate a = None)"
  by (induction as rule: validate_aliases.induct) (auto split: option.splits)

lemma protocol_scan_cases: "protocol_scan cs \<in> {ProtocolOpenAI, ProtocolAnthropic}"
  by (induction cs) (auto split: option.splits dest!: find_SomeD simp: protocolNameHints_def)

lemma Alias_Validate_ok:
  assumes "Alias_Validate a = None"
  shows "al_ModelID a \<noteq> []" "al_EndpointProtocol a \<in> {[], ProtocolOpenAI, ProtocolAnthropic}"
    "al_RouteStyle a = AzureRouteDeployment \<Longrightarrow> al_APIVersion a \<noteq> [] \<and> al_EndpointProtocol a \<noteq> ProtocolAnthropic"
  using assms by (auto simp: Alias_Validate_def azure_names split: if_splits)

lemma Credential_Validate_provider:
  "Credential_Validate c = None \<Longrightarrow> IsKnownProvider (c_Provider c) \<and> c_Endpoint c \<noteq> [] \<and> c_AllowedModels c \<noteq> []
    \<and> [] \<notin> set (c_AllowedModels c) \<and> validate_aliases (c_Aliases c) = None"
  by (auto simp: Credential_Validate_def split: if_splits option.splits)

lemma Credential_Validate_azure:
  assumes "Credential_Validate c = None"
  shows "c_Provider c = ProviderAzure \<longleftrightarrow> cs_Azure (c_Settings c) \<noteq> None"
    and "cs_Azure (c_Settings c) = Some az \<Longrightarrow> AzureSettings_Validate az = None"
  using assms
  by (auto simp: Credential_Validate_def CredentialSettings_Validate_def CredentialSettings_IsEmpty_def
      split: if_splits option.splits)

lemma AzureSettings_Validate_secret:
  "AzureSettings_Validate az = None \<Longrightarrow> az_ClientSecret az \<noteq> [] \<Longrightarrow> az_AuthMode az = AzureAuthServicePrincipal"
  by (auto simp: AzureSettings_Validate_def split: if_splits)

text \<open>
  The alias under which a validated credential serves a model always names a deployment and
  speaks one of the two protocols the gateway can translate to; the per-deployment Azure route is
  only used with an API version and never for the Anthropic protocol that was asked for explicitly.
\<close>

theorem CheckModelAlias_usable:
  assumes "Credential_Validate cred = None" "model \<noteq> []"
  shows "al_ModelID (CheckModelAlias (Some cred) model) \<noteq> []
    \<and> Alias_Protocol (Some (CheckModelAlias (Some cred) model)) requested \<in> {ProtocolOpenAI, ProtocolAnthropic}
    \<and> (al_RouteStyle (CheckModelAlias (Some cred) model) = AzureRouteDeployment \<longrightarrow>
         al_APIVersion (CheckModelAlias (Some cred) model) \<noteq> []
         \<and> al_EndpointProtocol (CheckModelAlias (Some cred) model) \<noteq> ProtocolAnthropic)"
proof (cases "map_of (c_Aliases cred) model")
  case None
  then show ?thesis
    using assms(2) protocol_scan_cases [of "[[], model, requested]"]
    by (auto simp: CheckModelAlias_def plain_alias_def Alias_Protocol_def azure_names)
next
  case (Some a)
  then have "(model, a) \<in> set (c_Aliases cred)" by (rule map_of_SomeD)
  then have ok: "Alias_Validate a = None"
    using Credential_Validate_provider [OF assms(1)] by (auto simp: validate_aliases_None)
  show ?thesis
    using Some Alias_Validate_ok [OF ok] protocol_scan_cases [of "[al_ModelName a, al_ModelID a, requested]"]
    by (auto simp: CheckModelAlias_def Alias_Protocol_def)
qed

definition example_credential :: Credential where
  "example_credential = \<lparr>c_ID = ''c1'', c_Provider = ''openai'', c_Name = ''main'', c_APIKey = ''k'',
     c_Enabled = True, c_ExpiryAt = None, c_AllowedModels = [''gpt-4o''], c_BlockedModels = [],
     c_Endpoint = ''https://api.openai.com'', c_Aliases = [(''gpt-4o'', (plain_alias ''dep-1'')\<lparr>al_ModelName := ''Claude-3''\<rparr>)],
     c_Settings = \<lparr>cs_Azure = None\<rparr>\<rparr>"

lemma example_credential_valid: "Credential_Validate example_credential = None"
  by (simp add: example_credential_def Credential_Validate_def IsKnownProvider_def supportedProviders_def
      provider_names Alias_Validate_def plain_alias_def CredentialSettings_IsEmpty_def)

theorem CheckModelAlias_usable_witness:
  "Alias_Protocol (Some (CheckModelAlias (Some example_credential) ''gpt-4o'')) ''gpt-4o''
     \<in> {ProtocolOpenAI, ProtocolAnthropic}"
  using CheckModelAlias_usable [of example_credential "''gpt-4o''" "''gpt-4o''"] example_credential_valid by simp

end
