(* ===== verification/VirtualKey.thy ===== *)
theory VirtualKey
  imports CoreTypes Float64
begin

text \<open>
  Virtual keys (\<^verbatim>\<open>internal/core/virtualkey.go\<close>): the routing mode, the per-provider model access
  lists, their compilation from the stored form and the access decision for a model. Weights are
  \<^verbatim>\<open>float32\<close> in the source, whose values are among those of \<^verbatim>\<open>float64\<close>; the error texts are
  constructors of an error type.
\<close>

section \<open>Data\<close>

datatype VKMode = VKDirect | VKWeighted

fun VKMode_String :: "VKMode \<Rightarrow> string" where
  "VKMode_String VKDirect = ''direct''"
| "VKMode_String VKWeighted = ''weighted''"

definition ParseVKMode :: "string \<Rightarrow> VKMode option" where
  "ParseVKMode value = (if value = ''direct'' then Some VKDirect
     else if value = ''weighted'' then Some VKWeighted else None)"

interpretation vk_mode: wire_enum VKMode_String ParseVKMode Some
  by unfold_locales (case_tac x, simp_all add: ParseVKMode_def)

record ProviderConfig =
  pcfg_Provider :: Provider
  pcfg_AllowedModels :: "string list"
  pcfg_BlockedModels :: "string list"
  pcfg_Weight :: float64
  pcfg_runtimeAllowedModels :: "string set"
  pcfg_runtimeBlockedModels :: "string set"
  pcfg_allowAll :: bool

record VirtualKey =
  vk_ID :: string
  vk_Key :: string
  vk_ClientID :: string
  vk_BudgetID :: string
  vk_IsActive :: bool
  vk_ExpiresAt :: "time option"
  vk_Mode :: VKMode
  vk_LoadBalancer :: LBKind
  vk_ProviderConfigs :: "ProviderConfig list"

datatype vk_error = VKRequired | ConfigRequired | DirectNeedsOne | ProviderEmpty | DuplicateProvider Provider
  | BadWeight Provider | EmptyBlockedModel Provider | BlocksEveryModel Provider | EmptyModel Provider
  | NoAllowedModel Provider | WeightsNotOne float64 | LBNotImplemented string

section \<open>Compilation\<close>

definition IsModelAllowed :: "ProviderConfig option \<Rightarrow> CatalogKey \<Rightarrow> bool" where
  "IsModelAllowed cfg key = (case cfg of None \<Rightarrow> False | Some config \<Rightarrow>
     if ck_Provider key \<noteq> pcfg_Provider config \<or> ck_ModelName key = [] then False
     else if ck_ModelName key \<in> pcfg_runtimeBlockedModels config then False
     else if pcfg_allowAll config then True
     else ck_ModelName key \<in> pcfg_runtimeAllowedModels config)"

fun compileBlocked :: "ProviderConfig \<Rightarrow> string list \<Rightarrow> vk_error + ProviderConfig" where
  "compileBlocked config [] = Inr config"
| "compileBlocked config (rawModel # rest) = (let model = TrimSpace rawModel in
     if model = [] then Inl (EmptyBlockedModel (pcfg_Provider config))
     else if model = ''*'' then Inl (BlocksEveryModel (pcfg_Provider config))
     else if model \<in> pcfg_runtimeBlockedModels config then compileBlocked config rest
     else compileBlocked (config\<lparr>pcfg_runtimeBlockedModels := insert model (pcfg_runtimeBlockedModels config),
            pcfg_BlockedModels := pcfg_BlockedModels config @ [model]\<rparr>) rest)"

fun compileAllowed :: "ProviderConfig \<Rightarrow> string list \<Rightarrow> vk_error + ProviderConfig" where
  "compileAllowed config [] = Inr config"
| "compileAllowed config0 (rawModel # rest) = (let model = TrimSpace rawModel in
     if model = [] then Inl (EmptyModel (pcfg_Provider config0))
     else let config = (if model = ''*'' then config0\<lparr>pcfg_allowAll := True\<rparr> else config0) in
       if model \<in> pcfg_runtimeAllowedModels config then compileAllowed config rest
       else compileAllowed (config\<lparr>pcfg_runtimeAllowedModels := insert model (pcfg_runtimeAllowedModels config),
              pcfg_AllowedModels := pcfg_AllowedModels config @ [model]\<rparr>) rest)"

definition bad_weight :: "float64 \<Rightarrow> bool" where
  "bad_weight w \<longleftrightarrow> flt w (Fin 0) \<or> flt (Fin 1) w \<or> w = NaN \<or> w = PInf \<or> w = NInf"

definition fresh_config :: "Provider \<Rightarrow> float64 \<Rightarrow> ProviderConfig" where
  "fresh_config provider weight = \<lparr>pcfg_Provider = provider, pcfg_AllowedModels = [],
     pcfg_BlockedModels = [], pcfg_Weight = weight, pcfg_runtimeAllowedModels = {},
     pcfg_runtimeBlockedModels = {}, pcfg_allowAll = False\<rparr>"

text \<open>The loop body's access lists: the blocked list first, then the allowed list.\<close>

definition compileModels :: "ProviderConfig \<Rightarrow> ProviderConfig \<Rightarrow> vk_error + ProviderConfig" where
  "compileModels config stored =
     (case compileBlocked config (pcfg_BlockedModels stored) of Inl e \<Rightarrow> Inl e
      | Inr config1 \<Rightarrow> (case compileAllowed config1 (pcfg_AllowedModels stored) of Inl e \<Rightarrow> Inl e
        | Inr config2 \<Rightarrow> if pcfg_AllowedModels config2 = [] then Inl (NoAllowedModel (pcfg_Provider config))
            else Inr config2))"

fun compileLoop :: "VKMode \<Rightarrow> ProviderConfig list \<Rightarrow> Provider list \<Rightarrow> float64 \<Rightarrow> ProviderConfig list
    \<Rightarrow> vk_error + (ProviderConfig list \<times> float64)" where
  "compileLoop mode [] providers totalWeight runtimeConfigs = Inr (runtimeConfigs, totalWeight)"
| "compileLoop mode (stored # rest) providers totalWeight runtimeConfigs =
    (let provider = TrimSpace (pcfg_Provider stored) in
     if provider = [] then Inl ProviderEmpty
     else if provider \<in> set providers then Inl (DuplicateProvider provider)
     else if mode = VKWeighted \<and> bad_weight (pcfg_Weight stored) then Inl (BadWeight provider)
     else let weight = (if mode = VKDirect then Fin 1 else pcfg_Weight stored);
              total = (if mode = VKDirect then totalWeight else fadd totalWeight (pcfg_Weight stored))
       in case compileModels (fresh_config provider weight) stored of Inl e \<Rightarrow> Inl e
          | Inr config \<Rightarrow> compileLoop mode rest (provider # providers) total (runtimeConfigs @ [config]))"

fun fabs :: "float64 \<Rightarrow> float64" where
  "fabs (Fin x) = Fin \<bar>x\<bar>"
| "fabs NaN = NaN"
| "fabs _ = PInf"

definition weight_eps :: float64 where
  "weight_eps = round64 (1 / 1000000)"

definition CompileProviderConfigs :: "VKMode \<Rightarrow> ProviderConfig list \<Rightarrow> vk_error + ProviderConfig list" where
  "CompileProviderConfigs mode configs =
    (if configs = [] then Inl ConfigRequired
     else if mode = VKDirect \<and> length configs \<noteq> 1 then Inl DirectNeedsOne
     else case compileLoop mode configs [] (Fin 0) [] of Inl e \<Rightarrow> Inl e
       | Inr (runtimeConfigs, totalWeight) \<Rightarrow>
           if mode = VKWeighted \<and> flt weight_eps (fabs (fsub totalWeight (Fin 1)))
           then Inl (WeightsNotOne totalWeight) else Inr runtimeConfigs)"

section \<open>Access decisions\<close>

definition VirtualKey_Validate :: "VirtualKey option \<Rightarrow> vk_error option" where
  "VirtualKey_Validate v = (case v of None \<Rightarrow> Some VKRequired | Some vk \<Rightarrow>
     if \<not> LBKind_Implemented (vk_LoadBalancer vk) then
       (let name = LBKind_String (vk_LoadBalancer vk) in
        Some (LBNotImplemented (if name = [] then ''unknown'' else name)))
     else if vk_ProviderConfigs vk = [] then Some ConfigRequired
     else None)"

definition VirtualKey_ProviderConfig :: "VirtualKey \<Rightarrow> Provider \<Rightarrow> ProviderConfig option" where
  "VirtualKey_ProviderConfig vk provider = List.find (\<lambda>cfg. pcfg_Provider cfg = provider) (vk_ProviderConfigs vk)"

definition IsModelKeyAllowed :: "VirtualKey \<Rightarrow> CatalogKey \<Rightarrow> bool" where
  "IsModelKeyAllowed vk key =
    (if ck_Provider key \<noteq> [] then IsModelAllowed (VirtualKey_ProviderConfig vk (ck_Provider key)) key
     else list_ex (\<lambda>cfg. IsModelAllowed (Some cfg) (key\<lparr>ck_Provider := pcfg_Provider cfg\<rparr>)) (vk_ProviderConfigs vk))"

section \<open>Compiled configurations\<close>

text \<open>
  What compilation produces from a stored configuration: names trimmed, duplicates dropped, the
  run-time sets equal to the lists.
\<close>

definition normal_models :: "string list \<Rightarrow> string list" where
  "normal_models ms = dedup [] (map TrimSpace ms)"

definition compiled_config :: "VKMode \<Rightarrow> ProviderConfig \<Rightarrow> ProviderConfig" where
  "compiled_config mode stored = \<lparr>
     pcfg_Provider = TrimSpace (pcfg_Provider stored),
     pcfg_AllowedModels = normal_models (pcfg_AllowedModels stored),
     pcfg_BlockedModels = normal_models (pcfg_BlockedModels stored),
     pcfg_Weight = (if mode = VKDirect then Fin 1 else pcfg_Weight stored),
     pcfg_runtimeAllowedModels = TrimSpace ` set (pcfg_AllowedModels stored),
     pcfg_runtimeBlockedModels = TrimSpace ` set (pcfg_BlockedModels stored),
     pcfg_allowAll = (''*'' \<in> TrimSpace ` set (pcfg_AllowedModels stored))\<rparr>"

definition models_ok :: "ProviderConfig \<Rightarrow> bool" where
  "models_ok stored \<longleftrightarrow> [] \<notin> TrimSpace ` set (pcfg_BlockedModels stored)
     \<and> ''*'' \<notin> TrimSpace ` set (pcfg_BlockedModels stored)
     \<and> [] \<notin> TrimSpace ` set (pcfg_AllowedModels stored) \<and> pcfg_AllowedModels stored \<noteq> []"

definition weights_ok :: "VKMode \<Rightarrow> ProviderConfig list \<Rightarrow> bool" where
  "weights_ok mode configs \<longleftrightarrow> mode = VKDirect \<or>
     (list_all (\<lambda>c. \<not> bad_weight (pcfg_Weight c)) configs
      \<and> \<not> flt weight_eps (fabs (fsub (foldl (\<lambda>t c. fadd t (pcfg_Weight c)) (Fin 0) configs) (Fin 1))))"

definition configs_ok :: "VKMode \<Rightarrow> ProviderConfig list \<Rightarrow> bool" where
  "configs_ok mode configs \<longleftrightarrow> configs \<noteq> [] \<and> (mode = VKDirect \<longrightarrow> length configs = 1)
     \<and> list_all (\<lambda>c. TrimSpace (pcfg_Provider c) \<noteq> []) configs
     \<and> distinct (map (\<lambda>c. TrimSpace (pcfg_Provider c)) configs)
     \<and> list_all models_ok configs \<and> weights_ok mode configs"

lemma dedup_seen_set: "set a = set b \<Longrightarrow> dedup a xs = dedup b xs"
  by (induction a xs arbitrary: b rule: dedup.induct) auto

lemma compileBlocked_eq:
  assumes "pcfg_runtimeBlockedModels config = set seen"
  shows "compileBlocked config ms =
    (if [] \<notin> TrimSpace ` set ms \<and> ''*'' \<notin> TrimSpace ` set ms
     then Inr (config\<lparr>pcfg_runtimeBlockedModels := set seen \<union> TrimSpace ` set ms,
       pcfg_BlockedModels := pcfg_BlockedModels config @ dedup seen (map TrimSpace ms)\<rparr>)
     else compileBlocked config ms)"
  using assms
proof (induction ms arbitrary: config seen)
  case Nil
  then show ?case by simp
next
  case (Cons m ms)
  let ?m = "TrimSpace m"
  show ?case
  proof (cases "?m \<in> set seen")
    case True
    with Cons.prems Cons.IH [OF Cons.prems] show ?thesis by (auto simp: Let_def insert_absorb)
  next
    case False
    let ?c = "config\<lparr>pcfg_runtimeBlockedModels := insert ?m (set seen), pcfg_BlockedModels := pcfg_BlockedModels config @ [?m]\<rparr>"
    have "pcfg_runtimeBlockedModels ?c = set (?m # seen)" by simp
    note IH = Cons.IH [OF this]
    show ?thesis using False Cons.prems IH by (auto simp: Let_def)
  qed
qed

lemma compileBlocked_err: "[] \<in> TrimSpace ` set ms \<or> ''*'' \<in> TrimSpace ` set ms \<Longrightarrow> \<exists>e. compileBlocked config ms = Inl e"
  by (induction ms arbitrary: config) (auto simp: Let_def)

lemma compileAllowed_eq:
  assumes "pcfg_runtimeAllowedModels config = set seen"
  shows "compileAllowed config ms =
    (if [] \<notin> TrimSpace ` set ms
     then Inr (config\<lparr>pcfg_runtimeAllowedModels := set seen \<union> TrimSpace ` set ms,
       pcfg_AllowedModels := pcfg_AllowedModels config @ dedup seen (map TrimSpace ms),
       pcfg_allowAll := pcfg_allowAll config \<or> ''*'' \<in> TrimSpace ` set ms\<rparr>)
     else compileAllowed config ms)"
  using assms
proof (induction ms arbitrary: config seen)
  case Nil
  then show ?case by simp
next
  case (Cons m ms)
  let ?m = "TrimSpace m"
  let ?a = "if ?m = ''*'' then config\<lparr>pcfg_allowAll := True\<rparr> else config"
  have a: "pcfg_runtimeAllowedModels ?a = set seen" "pcfg_AllowedModels ?a = pcfg_AllowedModels config"
    "pcfg_allowAll ?a = (pcfg_allowAll config \<or> ?m = ''*'')"
    using Cons.prems by auto
  show ?case
  proof (cases "?m \<in> set seen")
    case True
    with a Cons.IH [OF a(1)] show ?thesis by (auto simp: Let_def insert_absorb)
  next
    case False
    let ?c = "?a\<lparr>pcfg_runtimeAllowedModels := insert ?m (set seen), pcfg_AllowedModels := pcfg_AllowedModels config @ [?m]\<rparr>"
    have "pcfg_runtimeAllowedModels ?c = set (?m # seen)" by simp
    note IH = Cons.IH [OF this]
    show ?thesis using False a IH by (auto simp: Let_def)
  qed
qed

lemma compileAllowed_err: "[] \<in> TrimSpace ` set ms \<Longrightarrow> \<exists>e. compileAllowed config ms = Inl e"
  by (induction ms arbitrary: config) (auto simp: Let_def)

lemma compileModels_ok:
  assumes "models_ok stored"
  shows "compileModels (fresh_config (TrimSpace (pcfg_Provider stored)) (if mode = VKDirect then Fin 1 else pcfg_Weight stored)) stored
    = Inr (compiled_config mode stored)"
proof -
  let ?p = "TrimSpace (pcfg_Provider stored)" and ?w = "if mode = VKDirect then Fin 1 else pcfg_Weight stored"
  let ?c = "(fresh_config ?p ?w)\<lparr>pcfg_runtimeBlockedModels := TrimSpace ` set (pcfg_BlockedModels stored),
    pcfg_BlockedModels := normal_models (pcfg_BlockedModels stored)\<rparr>"
  have b: "compileBlocked (fresh_config ?p ?w) (pcfg_BlockedModels stored) = Inr ?c"
    using assms compileBlocked_eq [of "fresh_config ?p ?w" "[]" "pcfg_BlockedModels stored"]
    by (simp add: models_ok_def fresh_config_def normal_models_def del: compileBlocked.simps)
  have ne: "dedup [] (map TrimSpace (pcfg_AllowedModels stored)) \<noteq> []"
    using assms by (simp add: models_ok_def dedup_Nil_iff)
  have "compileAllowed ?c (pcfg_AllowedModels stored) = Inr (compiled_config mode stored)"
    using assms compileAllowed_eq [of ?c "[]" "pcfg_AllowedModels stored"]
    by (simp add: models_ok_def fresh_config_def normal_models_def compiled_config_def del: compileAllowed.simps)
  with b ne show ?thesis
    by (simp add: compileModels_def compiled_config_def normal_models_def del: if_image_distrib)
qed

lemma compileModels_err: "\<not> models_ok stored \<Longrightarrow> \<exists>e. compileModels (fresh_config p w) stored = Inl e"
proof -
  assume "\<not> models_ok stored"
  then consider "[] \<in> TrimSpace ` set (pcfg_BlockedModels stored) \<or> ''*'' \<in> TrimSpace ` set (pcfg_BlockedModels stored)"
    | "[] \<in> TrimSpace ` set (pcfg_AllowedModels stored)" | "pcfg_AllowedModels stored = []"
    "[] \<notin> TrimSpace ` set (pcfg_BlockedModels stored)" "''*'' \<notin> TrimSpace ` set (pcfg_BlockedModels stored)"
    by (auto simp: models_ok_def)
  then show ?thesis
  proof cases
    case 1
    from compileBlocked_err [OF 1, of "fresh_config p w"] show ?thesis by (auto simp: compileModels_def)
  next
    case 2
    note err = compileAllowed_err [OF 2]
    show ?thesis
    proof (cases "compileBlocked (fresh_config p w) (pcfg_BlockedModels stored)")
      case (Inr c)
      then show ?thesis using err [of c] by (auto simp: compileModels_def)
    qed (simp add: compileModels_def)
  next
    case 3
    then show ?thesis
      using compileBlocked_eq [of "fresh_config p w" "[]" "pcfg_BlockedModels stored"]
      by (simp add: compileModels_def fresh_config_def)
  qed
qed

lemma compileLoop_ok:
  assumes "list_all (\<lambda>c. TrimSpace (pcfg_Provider c) \<noteq> []) cs"
    "distinct (map (\<lambda>c. TrimSpace (pcfg_Provider c)) cs)"
    "set (map (\<lambda>c. TrimSpace (pcfg_Provider c)) cs) \<inter> set ps = {}"
    "list_all models_ok cs" "mode = VKWeighted \<longrightarrow> list_all (\<lambda>c. \<not> bad_weight (pcfg_Weight c)) cs"
  shows "compileLoop mode cs ps t rs = Inr (rs @ map (compiled_config mode) cs,
     if mode = VKDirect then t else foldl (\<lambda>t c. fadd t (pcfg_Weight c)) t cs)"
  using assms
proof (induction cs arbitrary: ps t rs)
  case Nil
  then show ?case by simp
next
  case (Cons c cs)
  show ?case using Cons by (auto simp: Let_def compileModels_ok simp del: fadd.simps)
qed

lemma compileLoop_err:
  assumes "\<not> (list_all (\<lambda>c. TrimSpace (pcfg_Provider c) \<noteq> []) cs
    \<and> distinct (map (\<lambda>c. TrimSpace (pcfg_Provider c)) cs)
    \<and> set (map (\<lambda>c. TrimSpace (pcfg_Provider c)) cs) \<inter> set ps = {}
    \<and> list_all models_ok cs \<and> (mode = VKWeighted \<longrightarrow> list_all (\<lambda>c. \<not> bad_weight (pcfg_Weight c)) cs))"
  shows "\<exists>e. compileLoop mode cs ps t rs = Inl e"
  using assms
proof (induction cs arbitrary: ps t rs)
  case Nil
  then show ?case by simp
next
  case (Cons c cs)
  let ?p = "TrimSpace (pcfg_Provider c)"
  show ?case
  proof (cases "?p = [] \<or> ?p \<in> set ps \<or> (mode = VKWeighted \<and> bad_weight (pcfg_Weight c)) \<or> \<not> models_ok c")
    case True
    let ?w = "if mode = VKDirect then Fin 1 else pcfg_Weight c"
    have "models_ok c \<or> (\<exists>e. compileModels (fresh_config ?p ?w) c = Inl e)"
      using compileModels_err [of c ?p ?w] by blast
    with True show ?thesis by (auto simp: Let_def)
  next
    case False
    then have ok: "models_ok c" and "\<not> (list_all (\<lambda>c. TrimSpace (pcfg_Provider c) \<noteq> []) cs
      \<and> distinct (map (\<lambda>c. TrimSpace (pcfg_Provider c)) cs)
      \<and> set (map (\<lambda>c. TrimSpace (pcfg_Provider c)) cs) \<inter> set (?p # ps) = {}
      \<and> list_all models_ok cs \<and> (mode = VKWeighted \<longrightarrow> list_all (\<lambda>c. \<not> bad_weight (pcfg_Weight c)) cs))"
      using Cons.prems by auto
    from Cons.IH [OF this(2)] show ?thesis
      using False compileModels_ok [OF ok] by (auto simp: Let_def simp del: fadd.simps)
  qed
qed

lemma CompileProviderConfigs_eq:
  "configs_ok mode configs \<Longrightarrow> CompileProviderConfigs mode configs = Inr (map (compiled_config mode) configs)"
  by (cases mode) (auto simp: configs_ok_def CompileProviderConfigs_def weights_ok_def compileLoop_ok)

lemma CompileProviderConfigs_err:
  assumes "\<not> configs_ok mode configs"
  shows "\<exists>e. CompileProviderConfigs mode configs = Inl e"
proof (cases "list_all (\<lambda>c. TrimSpace (pcfg_Provider c) \<noteq> []) configs
    \<and> distinct (map (\<lambda>c. TrimSpace (pcfg_Provider c)) configs)
    \<and> list_all models_ok configs \<and> (mode = VKWeighted \<longrightarrow> list_all (\<lambda>c. \<not> bad_weight (pcfg_Weight c)) configs)")
  case True
  then show ?thesis using assms
    by (cases mode) (auto simp: configs_ok_def CompileProviderConfigs_def weights_ok_def compileLoop_ok)
next
  case False
  then have "\<exists>e. compileLoop mode configs [] (Fin 0) [] = Inl e" by (intro compileLoop_err) auto
  then show ?thesis by (auto simp: CompileProviderConfigs_def)
qed

section \<open>Properties\<close>

text \<open>
  Compilation of the provider configurations of a virtual key accepts exactly the well-formed
  ones (at least one, exactly one in direct mode, distinct non-empty trimmed providers, no empty
  model, no blocked wildcard, some allowed model, and in weighted mode weights in [0, 1] whose
  floating point sum is within a millionth of one), and then returns, in order, each configuration
  with trimmed names, duplicates dropped and run-time sets equal to its lists.
\<close>

theorem CompileProviderConfigs_spec:
  "if configs_ok mode configs
   then CompileProviderConfigs mode configs = Inr (map (compiled_config mode) configs)
   else \<exists>e. CompileProviderConfigs mode configs = Inl e"
  using CompileProviderConfigs_eq CompileProviderConfigs_err by auto

lemma TrimSpace_image_dedup: "TrimSpace ` set (normal_models ms) = TrimSpace ` set ms"
  by (simp add: normal_models_def set_dedup image_image)

lemma dedup_distinct_id: "distinct xs \<Longrightarrow> set xs \<inter> set seen = {} \<Longrightarrow> dedup seen xs = xs"
  by (induction xs arbitrary: seen) auto

lemma normal_models_idem [simp]: "normal_models (normal_models ms) = normal_models ms"
proof -
  let ?d = "dedup [] (map TrimSpace ms)"
  have "\<And>x. x \<in> set ?d \<Longrightarrow> TrimSpace x = x" by (auto simp: set_dedup)
  then have "map TrimSpace ?d = ?d" by (simp add: map_idI)
  then show ?thesis by (simp add: normal_models_def dedup_distinct_id distinct_dedup)
qed

lemma compiled_config_idem: "compiled_config mode (compiled_config mode c) = compiled_config mode c"
proof -
  have "pcfg_AllowedModels (compiled_config mode c) = normal_models (pcfg_AllowedModels c)"
    "pcfg_BlockedModels (compiled_config mode c) = normal_models (pcfg_BlockedModels c)"
    by (simp_all add: compiled_config_def)
  then show ?thesis
    unfolding compiled_config_def [of mode "compiled_config mode c"]
    by (simp add: TrimSpace_image_dedup) (simp add: compiled_config_def)
qed

lemma models_ok_compiled: "models_ok (compiled_config mode c) = models_ok c"
proof -
  have "normal_models ms = [] \<longleftrightarrow> ms = []" for ms by (simp add: normal_models_def dedup_Nil_iff)
  then show ?thesis by (simp add: models_ok_def compiled_config_def TrimSpace_image_dedup)
qed

lemma configs_ok_compiled:
  assumes "configs_ok mode cs"
  shows "configs_ok mode (map (compiled_config mode) cs)"
proof -
  have w: "pcfg_Weight (compiled_config VKWeighted c) = pcfg_Weight c" for c
    by (simp add: compiled_config_def)
  have p: "pcfg_Provider (compiled_config m c) = TrimSpace (pcfg_Provider c)" for m c
    by (simp add: compiled_config_def)
  show ?thesis
    using assms
    by (cases mode)
      (simp_all add: configs_ok_def weights_ok_def list.pred_map comp_def models_ok_compiled p w foldl_map)
qed

text \<open>
  Compilation is idempotent: what it returns compiles to itself, so storing the compiled
  configurations and loading them again gives the same run-time configurations.
\<close>

theorem CompileProviderConfigs_idempotent:
  assumes "CompileProviderConfigs mode configs = Inr rs"
  shows "CompileProviderConfigs mode rs = Inr rs"
proof -
  have ok: "configs_ok mode configs"
    using assms CompileProviderConfigs_err [of mode configs] by auto
  with assms have rs: "rs = map (compiled_config mode) configs" by (simp add: CompileProviderConfigs_eq)
  then show ?thesis
    using CompileProviderConfigs_eq [OF configs_ok_compiled [OF ok]]
    by (simp add: comp_def compiled_config_idem)
qed

definition example_config :: ProviderConfig where
  "example_config = (fresh_config '' openai '' (Fin 0))\<lparr>pcfg_AllowedModels := [''gpt-4o'', '' *'', ''gpt-4o ''],
     pcfg_BlockedModels := [''o1'']\<rparr>"

lemma example_config_ok: "configs_ok VKDirect [example_config]"
  by (simp add: configs_ok_def weights_ok_def models_ok_def example_config_def fresh_config_def
      TrimSpace_def is_space_def)

theorem CompileProviderConfigs_idempotent_witness:
  "CompileProviderConfigs VKDirect [compiled_config VKDirect example_config]
     = Inr [compiled_config VKDirect example_config]"
  by (rule CompileProviderConfigs_idempotent [of VKDirect "[example_config]"])
    (simp add: CompileProviderConfigs_eq example_config_ok)

lemma find_map_distinct:
  "distinct (map f xs) \<Longrightarrow> x \<in> set xs \<Longrightarrow> List.find (\<lambda>y. f y = f x) xs = Some x"
  by (induction xs) auto

text \<open>
  The access decision of a compiled virtual key for a provider-qualified model is the one the
  stored lists describe: the provider has a configuration, the model is not blocked, and either
  the wildcard or the model itself is allowed. A block always wins over the wildcard.
\<close>

theorem IsModelKeyAllowed_stored:
  assumes "CompileProviderConfigs mode configs = Inr (vk_ProviderConfigs vk)"
    and "stored \<in> set configs" and "ck_Provider key = TrimSpace (pcfg_Provider stored)"
  shows "IsModelKeyAllowed vk key \<longleftrightarrow> ck_ModelName key \<noteq> []
    \<and> ck_ModelName key \<notin> TrimSpace ` set (pcfg_BlockedModels stored)
    \<and> (''*'' \<in> TrimSpace ` set (pcfg_AllowedModels stored)
       \<or> ck_ModelName key \<in> TrimSpace ` set (pcfg_AllowedModels stored))"
proof -
  have ok: "configs_ok mode configs"
    using assms(1) CompileProviderConfigs_err [of mode configs] by auto
  with assms(1) have vk: "vk_ProviderConfigs vk = map (compiled_config mode) configs"
    by (simp add: CompileProviderConfigs_eq)
  have p: "pcfg_Provider (compiled_config mode c) = TrimSpace (pcfg_Provider c)" for c
    by (simp add: compiled_config_def)
  have "List.find (\<lambda>cfg. pcfg_Provider cfg = pcfg_Provider (compiled_config mode stored))
      (map (compiled_config mode) configs) = Some (compiled_config mode stored)"
    using ok assms(2) by (intro find_map_distinct) (simp_all add: configs_ok_def comp_def p)
  then have "VirtualKey_ProviderConfig vk (ck_Provider key) = Some (compiled_config mode stored)"
    by (simp add: VirtualKey_ProviderConfig_def vk assms(3) p)
  moreover have "ck_Provider key \<noteq> []" using ok assms(2,3) by (simp add: configs_ok_def list_all_iff)
  ultimately show ?thesis
    by (auto simp: IsModelKeyAllowed_def IsModelAllowed_def compiled_config_def assms(3))
qed

definition example_vk :: VirtualKey where
  "example_vk = \<lparr>vk_ID = ''vk1'', vk_Key = [], vk_ClientID = ''c'', vk_BudgetID = ''b'', vk_IsActive = True,
     vk_ExpiresAt = None, vk_Mode = VKDirect, vk_LoadBalancer = LBRoundRobin,
     vk_ProviderConfigs = [compiled_config VKDirect example_config]\<rparr>"

theorem IsModelKeyAllowed_stored_witness:
  "\<not> IsModelKeyAllowed example_vk \<lparr>ck_Provider = ''openai'', ck_ModelName = ''o1'', ck_ModelType = ModelTypeChat\<rparr>"
proof -
  have "CompileProviderConfigs VKDirect [example_config] = Inr (vk_ProviderConfigs example_vk)"
    using CompileProviderConfigs_eq [OF example_config_ok] by (simp add: example_vk_def)
  from IsModelKeyAllowed_stored [OF this, of example_config] show ?thesis
    by (simp add: example_config_def fresh_config_def TrimSpace_def is_space_def)
qed

end
