(* ===== verification/Context.thy ===== *)
theory Context
  imports Errors Credential VirtualKey Pricing
begin

text \<open>
  The request context (\<^verbatim>\<open>internal/core/diffractcontext.go\<close>) and the hook log it carries
  (\<^verbatim>\<open>internal/core/hooks.go\<close>): the fields a request accumulates on its way through the gateway, the
  response writing operations, the metadata map, and the pool that recycles contexts.

  An \<^verbatim>\<open>http.ResponseWriter\<close> is its header map, the status line once sent, the bytes sent, and the
  number of bytes the connection still takes before writes fail. A metadata value is a string.
\<close>

section \<open>Hook log\<close>

datatype HookStatus = HookOK | HookRejected | HookFailed

fun HookStatus_String :: "HookStatus \<Rightarrow> string" where
  "HookStatus_String HookOK = ''ok''"
| "HookStatus_String HookRejected = ''rejected''"
| "HookStatus_String HookFailed = ''failed''"

definition maxHooks :: nat where "maxHooks = 5"

record HookResult =
  hr_Name :: string
  hr_Status :: HookStatus
  hr_Duration :: duration
  hr_Error :: string

definition HookResult_zero :: HookResult where
  "HookResult_zero = \<lparr>hr_Name = [], hr_Status = HookOK, hr_Duration = 0, hr_Error = []\<rparr>"

record HookLog =
  PreCallResults :: "HookResult list"
  PreProviderResults :: "HookResult list"
  PostProviderResults :: "HookResult list"
  PostCallResults :: "HookResult list"
  PreCallCount :: nat
  PreProviderCount :: nat
  PostProviderCount :: nat
  PostCallCount :: nat
  PreCallTotal :: duration
  PreProviderTotal :: duration
  PostProviderTotal :: duration
  PostCallTotal :: duration

definition HookLog_zero :: HookLog where
  "HookLog_zero = \<lparr>PreCallResults = replicate maxHooks HookResult_zero,
     PreProviderResults = replicate maxHooks HookResult_zero,
     PostProviderResults = replicate maxHooks HookResult_zero,
     PostCallResults = replicate maxHooks HookResult_zero,
     PreCallCount = 0, PreProviderCount = 0, PostProviderCount = 0, PostCallCount = 0,
     PreCallTotal = 0, PreProviderTotal = 0, PostProviderTotal = 0, PostCallTotal = 0\<rparr>"

definition HookLog_reset :: "HookLog \<Rightarrow> HookLog" where
  "HookLog_reset hl = hl\<lparr>PreCallCount := 0, PreProviderCount := 0, PostProviderCount := 0,
     PostCallCount := 0, PreCallTotal := 0, PreProviderTotal := 0, PostProviderTotal := 0,
     PostCallTotal := 0\<rparr>"

section \<open>Requests and responses\<close>

record HttpRequest =
  req_Method :: string
  req_Path :: string
  req_Header :: "(string \<times> string) list"
  req_Body :: string
  req_ContentLength :: int64

record ResponseWriter =
  w_Header :: "(string \<times> string) list"
  w_Status :: "int option"
  w_Body :: string
  w_Flushed :: nat
  w_Room :: "nat option"

text \<open>\<^verbatim>\<open>http.Header\<close>: the case of a name does not matter; \<^verbatim>\<open>Get\<close> returns the first value under it.\<close>

definition Header_Set :: "string \<Rightarrow> string \<Rightarrow> (string \<times> string) list \<Rightarrow> (string \<times> string) list" where
  "Header_Set k v h = (k, v) # filter (\<lambda>kv. ToLower (fst kv) \<noteq> ToLower k) h"

definition Header_Get :: "string \<Rightarrow> (string \<times> string) list \<Rightarrow> string" where
  "Header_Get name h = (case List.find (\<lambda>kv. ToLower (fst kv) = ToLower name) h of None \<Rightarrow> [] | Some kv \<Rightarrow> snd kv)"

definition Header_Del :: "string \<Rightarrow> (string \<times> string) list \<Rightarrow> (string \<times> string) list" where
  "Header_Del name h = filter (\<lambda>kv. ToLower (fst kv) \<noteq> ToLower name) h"

text \<open>\<^verbatim>\<open>Write\<close> sends the status line 200 if none was sent, takes what the connection still accepts,
  and reports the number of bytes taken and whether all were.\<close>

definition Writer_Write :: "ResponseWriter \<Rightarrow> string \<Rightarrow> ResponseWriter \<times> nat \<times> bool" where
  "Writer_Write w p =
    (let n = (case w_Room w of None \<Rightarrow> length p | Some r \<Rightarrow> min r (length p)) in
     (w\<lparr>w_Status := Some (case w_Status w of Some s \<Rightarrow> s | None \<Rightarrow> 200),
        w_Body := w_Body w @ take n p,
        w_Room := map_option (\<lambda>r. r - n) (w_Room w)\<rparr>, n, n = length p))"

definition Writer_WriteHeader :: "ResponseWriter \<Rightarrow> int \<Rightarrow> ResponseWriter" where
  "Writer_WriteHeader w code = (case w_Status w of Some _ \<Rightarrow> w | None \<Rightarrow> w\<lparr>w_Status := Some code\<rparr>)"

section \<open>The context\<close>

datatype Stage = StageAuth | StageReadBody | StageParse | StageAdmission | StageRouting
  | StageUpstream | StageFirstToken

fun Stage_index :: "Stage \<Rightarrow> nat" where
  "Stage_index StageAuth = 0"
| "Stage_index StageReadBody = 1"
| "Stage_index StageParse = 2"
| "Stage_index StageAdmission = 3"
| "Stage_index StageRouting = 4"
| "Stage_index StageUpstream = 5"
| "Stage_index StageFirstToken = 6"

definition NumStages :: nat where "NumStages = 7"

definition StageNames :: "string list" where
  "StageNames = [''auth'', ''read_body'', ''parse'', ''admission'', ''routing'', ''upstream'', ''first_token'']"

record DiffractLLMContext =
  rc_ctx :: "nat option"
  rc_Request :: "HttpRequest option"
  rc_RequestID :: string
  rc_BodyBytes :: string
  rc_SDKProvider :: Provider
  rc_Modelkey :: CatalogKey
  rc_RequestKind :: "RequestKind option"
  rc_Writer :: "ResponseWriter option"
  rc_metadata :: "string \<rightharpoonup> string"
  rc_aborted :: bool
  rc_HookLog :: HookLog
  rc_ClientID :: string
  rc_BudgetRef :: string
  rc_VirtualKeyID :: string
  rc_VirtualKeyPolicy :: "VirtualKey option"
  rc_AuthFrozen :: bool
  rc_RequestedProvider :: Provider
  rc_RequestedModel :: string
  rc_SelectedCredential :: "Credential option"
  rc_UpstreamStatus :: int
  rc_UpstreamAttempts :: int
  rc_TTFB :: duration
  rc_UpstreamModel :: string
  rc_RequestCompleted :: bool
  rc_ResponseStatus :: int
  rc_ResponseBytes :: nat
  rc_ResponseBody :: "string option"
  rc_Error :: "DiffractLLMError option"
  rc_Usage :: "Usage option"
  rc_Cost :: float64
  rc_Pricing :: "Pricing option"
  rc_StreamChunks :: int
  rc_StreamFinishReason :: string
  rc_StreamAborted :: bool
  rc_StartedAt :: time
  rc_Marks :: "duration list"

definition CatalogKey_zero :: CatalogKey where
  "CatalogKey_zero = \<lparr>ck_Provider = [], ck_ModelName = [], ck_ModelType = ModelTypeUnknown\<rparr>"

definition DiffractLLMContext_zero :: DiffractLLMContext where
  "DiffractLLMContext_zero = \<lparr>rc_ctx = None, rc_Request = None, rc_RequestID = [], rc_BodyBytes = [],
     rc_SDKProvider = [], rc_Modelkey = CatalogKey_zero, rc_RequestKind = None, rc_Writer = None,
     rc_metadata = Map.empty, rc_aborted = False, rc_HookLog = HookLog_zero, rc_ClientID = [],
     rc_BudgetRef = [], rc_VirtualKeyID = [], rc_VirtualKeyPolicy = None, rc_AuthFrozen = False,
     rc_RequestedProvider = [], rc_RequestedModel = [], rc_SelectedCredential = None,
     rc_UpstreamStatus = 0, rc_UpstreamAttempts = 0, rc_TTFB = 0, rc_UpstreamModel = [],
     rc_RequestCompleted = False, rc_ResponseStatus = 0, rc_ResponseBytes = 0, rc_ResponseBody = None,
     rc_Error = None, rc_Usage = None, rc_Cost = Fin 0, rc_Pricing = None, rc_StreamChunks = 0,
     rc_StreamFinishReason = [], rc_StreamAborted = False, rc_StartedAt = 0,
     rc_Marks = replicate NumStages 0\<rparr>"

definition Mark :: "time \<Rightarrow> Stage \<Rightarrow> DiffractLLMContext \<Rightarrow> DiffractLLMContext" where
  "Mark now s rc = rc\<lparr>rc_Marks := (rc_Marks rc)[Stage_index s := now - rc_StartedAt rc]\<rparr>"

definition UpstreamHeaders :: "(string \<times> string) list" where
  "UpstreamHeaders = [(''x-request-id'', ''upstream.x-request-id''),
     (''apim-request-id'', ''upstream.apim-request-id''),
     (''openai-processing-ms'', ''upstream.openai-processing-ms''),
     (''x-ratelimit-remaining-requests'', ''upstream.x-ratelimit-remaining-requests''),
     (''x-ratelimit-remaining-tokens'', ''upstream.x-ratelimit-remaining-tokens''),
     (''x-ratelimit-reset-requests'', ''upstream.x-ratelimit-reset-requests''),
     (''retry-after'', ''upstream.retry-after'')]"

text \<open>\<^verbatim>\<open>Set\<close> refuses an existing key (the error is \<^const>\<open>None\<close>); \<^verbatim>\<open>Overwrite\<close> does not.\<close>

definition Context_Set :: "string \<Rightarrow> string \<Rightarrow> DiffractLLMContext \<Rightarrow> DiffractLLMContext option" where
  "Context_Set key value rc = (case rc_metadata rc key of
     Some _ \<Rightarrow> None | None \<Rightarrow> Some (rc\<lparr>rc_metadata := (rc_metadata rc)(key \<mapsto> value)\<rparr>))"

definition Context_Get :: "string \<Rightarrow> DiffractLLMContext \<Rightarrow> string option" where
  "Context_Get key rc = rc_metadata rc key"

definition Context_Overwrite :: "string \<Rightarrow> string \<Rightarrow> DiffractLLMContext \<Rightarrow> DiffractLLMContext" where
  "Context_Overwrite key value rc = rc\<lparr>rc_metadata := (rc_metadata rc)(key \<mapsto> value)\<rparr>"

definition IsAborted :: "DiffractLLMContext \<Rightarrow> bool" where
  "IsAborted rc = rc_aborted rc"

definition Abort :: "DiffractLLMContext \<Rightarrow> DiffractLLMContext" where
  "Abort rc = rc\<lparr>rc_aborted := True\<rparr>"

text \<open>The operations on the writer are only reached while the context has one; without a writer
  the Go code panics, here the context is left unchanged.\<close>

definition with_writer :: "(ResponseWriter \<Rightarrow> ResponseWriter) \<Rightarrow> DiffractLLMContext \<Rightarrow> DiffractLLMContext" where
  "with_writer f rc = rc\<lparr>rc_Writer := map_option f (rc_Writer rc)\<rparr>"

definition Context_Write :: "string \<Rightarrow> DiffractLLMContext \<Rightarrow> DiffractLLMContext \<times> bool" where
  "Context_Write p rc = (case rc_Writer rc of None \<Rightarrow> (rc, False)
   | Some w \<Rightarrow> (case Writer_Write w p of (w', n, good) \<Rightarrow>
       (rc\<lparr>rc_Writer := Some w', rc_ResponseBytes := rc_ResponseBytes rc + n\<rparr>, good)))"

definition SetHeader :: "string \<Rightarrow> string \<Rightarrow> DiffractLLMContext \<Rightarrow> DiffractLLMContext" where
  "SetHeader key value = with_writer (\<lambda>w. w\<lparr>w_Header := Header_Set key value (w_Header w)\<rparr>)"

definition Flush :: "DiffractLLMContext \<Rightarrow> DiffractLLMContext" where
  "Flush = with_writer (\<lambda>w. w\<lparr>w_Flushed := length (w_Body w)\<rparr>)"

text \<open>The third-party encoder of \<^verbatim>\<open>JSON\<close> is the argument \<open>marshal\<close>; it may fail.\<close>

definition Context_JSON :: "('a \<Rightarrow> string option) \<Rightarrow> int \<Rightarrow> 'a \<Rightarrow> DiffractLLMContext \<Rightarrow> DiffractLLMContext" where
  "Context_JSON marshal code obj rc = (case marshal obj of None \<Rightarrow> rc
   | Some data \<Rightarrow>
       let rc1 = rc\<lparr>rc_ResponseBody := Some data\<rparr>;
           rc2 = SetHeader ''Content-Type'' ''application/json; charset=utf-8'' rc1;
           rc3 = with_writer (\<lambda>w. Writer_WriteHeader w code) rc2;
           rc4 = fst (Context_Write data rc3)
       in rc4\<lparr>rc_aborted := True\<rparr>)"

definition newline :: char where "newline = char_of (10 :: nat)"

definition sse_frame :: "string \<Rightarrow> string \<Rightarrow> string" where
  "sse_frame event body =
     (if event \<noteq> [] then ''event: '' @ event @ [newline] else []) @ ''data: '' @ body @ [newline, newline]"

definition WriteSSE :: "string \<Rightarrow> string \<Rightarrow> DiffractLLMContext \<Rightarrow> DiffractLLMContext \<times> bool" where
  "WriteSSE event body rc = (case Context_Write (sse_frame event body) rc of (rc', good) \<Rightarrow>
     if good then (Flush rc', True) else (rc', False))"

definition WriteData :: "int \<Rightarrow> string \<Rightarrow> string \<Rightarrow> DiffractLLMContext \<Rightarrow> DiffractLLMContext" where
  "WriteData code contentType data rc =
     fst (Context_Write data (with_writer (\<lambda>w. Writer_WriteHeader w code)
       (SetHeader ''Content-Type'' contentType rc)))"

definition Context_reset :: "DiffractLLMContext \<Rightarrow> DiffractLLMContext" where
  "Context_reset rc = rc\<lparr>rc_ctx := None, rc_Request := None, rc_RequestID := [], rc_BodyBytes := [],
     rc_SDKProvider := [], rc_Modelkey := CatalogKey_zero, rc_RequestKind := None, rc_Writer := None,
     rc_aborted := False,
     rc_ClientID := [], rc_BudgetRef := [], rc_VirtualKeyID := [], rc_VirtualKeyPolicy := None,
     rc_RequestedProvider := [], rc_RequestedModel := [], rc_SelectedCredential := None,
     rc_AuthFrozen := False, rc_UpstreamStatus := 0, rc_UpstreamAttempts := 0, rc_TTFB := 0,
     rc_UpstreamModel := [],
     rc_RequestCompleted := False, rc_ResponseStatus := 0, rc_ResponseBytes := 0,
     rc_ResponseBody := None, rc_Error := None, rc_Usage := None, rc_Cost := Fin 0,
     rc_Pricing := None, rc_StreamChunks := 0, rc_StreamFinishReason := [],
     rc_StreamAborted := False, rc_StartedAt := 0, rc_Marks := replicate NumStages 0,
     rc_HookLog := HookLog_reset (rc_HookLog rc),
     rc_metadata := Map.empty\<rparr>"

section \<open>The pool\<close>

text \<open>A \<^verbatim>\<open>sync.Pool\<close> holds released contexts; \<^verbatim>\<open>Get\<close> returns any of them (the choice is an argument)
  or a new one.\<close>

type_synonym ContextPool = "DiffractLLMContext list"

definition Pool_Acquire :: "nat option \<Rightarrow> nat \<Rightarrow> HttpRequest \<Rightarrow> ResponseWriter \<Rightarrow> ContextPool
    \<Rightarrow> DiffractLLMContext \<times> ContextPool" where
  "Pool_Acquire choice ctx req w pool =
    (let (rc, rest) = (case choice of
           Some i \<Rightarrow> if i < length pool then (pool ! i, take i pool @ drop (Suc i) pool)
             else (DiffractLLMContext_zero, pool)
         | None \<Rightarrow> (DiffractLLMContext_zero, pool))
     in (rc\<lparr>rc_ctx := Some ctx, rc_Request := Some req, rc_Writer := Some w\<rparr>, rest))"

definition Pool_Release :: "DiffractLLMContext \<Rightarrow> ContextPool \<Rightarrow> ContextPool" where
  "Pool_Release rc pool = Context_reset rc # pool"

section \<open>Facts\<close>

text \<open>A recycled context: the zero value, but for the result slots of the hook log, which are
  beyond its counters.\<close>

definition clean :: "DiffractLLMContext \<Rightarrow> bool" where
  "clean rc \<longleftrightarrow> rc = DiffractLLMContext_zero\<lparr>rc_HookLog := rc_HookLog rc\<rparr>
     \<and> HookLog_reset (rc_HookLog rc) = rc_HookLog rc"

lemma HookLog_reset_idem [simp]: "HookLog_reset (HookLog_reset hl) = HookLog_reset hl"
  by (simp add: HookLog_reset_def)

lemma clean_reset [wf_intro]: "clean (Context_reset rc)"
  by (simp add: clean_def Context_reset_def DiffractLLMContext_zero_def)

lemma clean_zero [wf_intro]: "clean DiffractLLMContext_zero"
  by (simp add: clean_def HookLog_reset_def DiffractLLMContext_zero_def HookLog_zero_def)

text \<open>A run of the pool: any interleaving of acquisitions and releases, where the holder of an
  acquired context may do anything to it before releasing it.\<close>

inductive pool_run :: "ContextPool \<Rightarrow> bool" where
  pool_start: "pool_run []"
| pool_acquire: "pool_run pool \<Longrightarrow> pool_run (snd (Pool_Acquire choice ctx req w pool))"
| pool_release: "pool_run pool \<Longrightarrow> pool_run (Pool_Release rc pool)"
| pool_evict: "pool_run pool \<Longrightarrow> set pool' \<subseteq> set pool \<Longrightarrow> pool_run pool'"

lemma pool_run_clean: "pool_run pool \<Longrightarrow> list_all clean pool"
proof (induction rule: pool_run.induct)
  case (pool_acquire pool choice ctx req w)
  then show ?case
    by (auto simp: Pool_Acquire_def list_all_iff split: option.splits dest: in_set_takeD in_set_dropD)
next
  case (pool_release pool rc)
  then show ?case by (simp add: Pool_Release_def clean_reset)
qed (auto simp: list_all_iff)

lemma Pool_Acquire_clean:
  assumes "list_all clean pool"
  shows "\<exists>hl. fst (Pool_Acquire choice ctx req w pool)
      = DiffractLLMContext_zero\<lparr>rc_HookLog := hl, rc_ctx := Some ctx, rc_Request := Some req, rc_Writer := Some w\<rparr>
    \<and> HookLog_reset hl = hl"
proof -
  have "clean (case choice of Some i \<Rightarrow> if i < length pool then pool ! i else DiffractLLMContext_zero
      | None \<Rightarrow> DiffractLLMContext_zero)" (is "clean ?rc")
    using assms by (auto simp: list_all_length wf_intro split: option.splits)
  moreover have "fst (Pool_Acquire choice ctx req w pool) = ?rc\<lparr>rc_ctx := Some ctx, rc_Request := Some req, rc_Writer := Some w\<rparr>"
    by (auto simp: Pool_Acquire_def split: option.splits)
  ultimately show ?thesis
    unfolding clean_def by (intro exI [of _ "rc_HookLog ?rc"]) (metis (no_types, lifting))
qed


definition example_request :: HttpRequest where
  "example_request = \<lparr>req_Method = ''POST'', req_Path = ''/v1/chat/completions'', req_Header = [],
     req_Body = [], req_ContentLength = 0\<rparr>"

definition example_writer :: ResponseWriter where
  "example_writer = \<lparr>w_Header = [], w_Status = None, w_Body = [], w_Flushed = 0, w_Room = None\<rparr>"


text \<open>Bytes accounting: what the response counters say is what was handed to the connection.\<close>

lemma Context_Write_bytes:
  "rc_Writer rc = Some w \<Longrightarrow> length (w_Body w) = rc_ResponseBytes rc \<Longrightarrow>
   \<exists>w'. rc_Writer (fst (Context_Write p rc)) = Some w' \<and>
     length (w_Body w') = rc_ResponseBytes (fst (Context_Write p rc))"
  by (auto simp: Context_Write_def Writer_Write_def Let_def split: option.splits)

lemma Context_Set_once:
  "Context_Set k v rc = Some rc' \<Longrightarrow> Context_Get k rc' = Some v \<and> Context_Set k v' rc' = None"
  by (auto simp: Context_Set_def Context_Get_def split: option.splits)

end
