(* ===== verification/Config.thy ===== *)
theory Config
  imports Float64
begin

text \<open>
  The configuration of the gateway (\<^verbatim>\<open>configs/serverconfig.go\<close>): its sections, the defaults, the
  conversion of durations and the validation that everything downstream relies on. Reading and
  merging the file is the configuration library's; the model starts from the decoded values.
  Durations are in nanoseconds and sizes of machine integers 64 bits.
\<close>

section \<open>Sections\<close>

definition Second :: duration where "Second = 1000000000"

definition MinSyncInterval :: duration where "MinSyncInterval = 30 * Second"

record ServerConfig =
  sv_Port :: int
  sv_MaxBodySize :: int
  sv_ConfigSource :: string
  sv_DBPath :: string
  sv_MockEnabled :: bool
  sv_AesPasskey :: string
  sv_TrustedProxies :: "string list"

record UpstreamConfig =
  up_MaxIdleConns :: int
  up_MaxConnsPerHost :: int
  up_MaxIdleConnsPerHost :: int
  up_IdleConnTimeout :: duration
  up_DialTimeout :: duration
  up_KeepAlive :: duration
  up_TLSHandshakeTimeout :: duration
  up_ResponseHeaderTimeout :: duration
  up_RequestTimeout :: duration
  up_StreamIdleTimeout :: duration
  up_MaxRetries :: int
  up_RetryBackoff :: duration
  up_MaxResponseBytesKB :: int
  up_WriteBufferSize :: int
  up_ReadBufferSize :: int
  up_DisableCompression :: bool

definition UpstreamConfig_MaxResponseBytes :: "UpstreamConfig \<Rightarrow> int64" where
  "UpstreamConfig_MaxResponseBytes u = wrap64 (up_MaxResponseBytesKB u * 2 ^ 10)"

record ModelCatalogConfig =
  mcat_SourceURL :: string
  mcat_SyncInterval :: duration

definition PayloadModeNone :: string where "PayloadModeNone = ''none''"
definition PayloadModeErrorsOnly :: string where "PayloadModeErrorsOnly = ''errors_only''"
definition PayloadModeFull :: string where "PayloadModeFull = ''full''"

record MetricsEngineConfig =
  mec_Enabled :: bool
  mec_DSN :: string
  mec_BufferCapacity :: int
  mec_FlushInterval :: duration
  mec_PruneInterval :: duration
  mec_EventsDays :: int
  mec_PayloadsDays :: int
  mec_QueryTimeout :: duration
  mec_MaxPage :: int
  mec_MaxWindow :: duration
  mec_PayloadMode :: string
  mec_PayloadMaxKB :: int

record GatewayConfig =
  gc_ServerConfig :: "ServerConfig option"
  gc_Upstream :: UpstreamConfig
  gc_ModelCatalog :: "ModelCatalogConfig option"
  gc_MetricsEngine :: "MetricsEngineConfig option"

section \<open>Durations\<close>

text \<open>What the decoder hands to the hook, by the kind of the value; other kinds are passed on.\<close>

datatype config_value = CString string | CInt int64 | CUint int | CFloat float64 | COther

text \<open>The standard parser of duration texts is the argument \<open>parse\<close>; a float beyond the range of
  \<^verbatim>\<open>int64\<close> converts to an unspecified value, here the least one, as on amd64.\<close>

definition float_to_int64 :: "float64 \<Rightarrow> int64" where
  "float_to_int64 x = (case x of Fin r \<Rightarrow>
     (let t = (if r < 0 then - \<lfloor>- r\<rfloor> else \<lfloor>r\<rfloor>) in if in_int64 t then t else min_int64) | _ \<Rightarrow> min_int64)"

definition durationHook :: "(string \<Rightarrow> duration option) \<Rightarrow> config_value \<Rightarrow> duration option + config_value" where
  "durationHook parse v = (case v of
     CString s \<Rightarrow> Inl (parse s)
   | CInt n \<Rightarrow> Inl (Some (wrap64 (n * Second)))
   | CUint n \<Rightarrow> Inl (Some (wrap64 (wrap64 n * Second)))
   | CFloat x \<Rightarrow> Inl (Some (float_to_int64 (fmul x (float_of_int Second))))
   | COther \<Rightarrow> Inr v)"

section \<open>Validation\<close>

datatype config_error = ServerMissing | BadPort int | NoDBPath | BadMaxBodySize int
  | IdleUnreachable int int | NotPositive string | NegativeRetries int
  | NoDSN | BadIntervals | BadDays | PayloadsOutliveEvents int int | BadPages | BadPayloadMode string | BadPayloadMaxKB
  | IntervalTooShort string | NoSourceURL

definition ServerConfig_Validate :: "ServerConfig \<Rightarrow> config_error option" where
  "ServerConfig_Validate s = (if sv_Port s \<le> 0 \<or> sv_Port s > 65535 then Some (BadPort (sv_Port s))
     else if sv_DBPath s = [] then Some NoDBPath
     else if sv_MaxBodySize s \<le> 0 then Some (BadMaxBodySize (sv_MaxBodySize s))
     else None)"

text \<open>The two loops of the source over named values: the first that is not positive.\<close>

definition first_not_positive :: "(string \<times> int) list \<Rightarrow> config_error option" where
  "first_not_positive fs = map_option (\<lambda>f. NotPositive (fst f)) (List.find (\<lambda>f. snd f \<le> 0) fs)"

definition upstream_counts :: "UpstreamConfig \<Rightarrow> (string \<times> int) list" where
  "upstream_counts u = [(''max_idle_conns'', up_MaxIdleConns u), (''max_conns_per_host'', up_MaxConnsPerHost u),
     (''max_idle_conns_per_host'', up_MaxIdleConnsPerHost u), (''max_response_bytes'', up_MaxResponseBytesKB u),
     (''write_buffer_size'', up_WriteBufferSize u), (''read_buffer_size'', up_ReadBufferSize u)]"

definition upstream_durations :: "UpstreamConfig \<Rightarrow> (string \<times> duration) list" where
  "upstream_durations u = [(''idle_conn_timeout'', up_IdleConnTimeout u), (''dial_timeout'', up_DialTimeout u),
     (''keep_alive'', up_KeepAlive u), (''tls_handshake_timeout'', up_TLSHandshakeTimeout u),
     (''response_header_timeout'', up_ResponseHeaderTimeout u), (''request_timeout'', up_RequestTimeout u),
     (''stream_idle_timeout'', up_StreamIdleTimeout u), (''retry_backoff'', up_RetryBackoff u)]"

definition UpstreamConfig_Validate :: "UpstreamConfig \<Rightarrow> config_error option" where
  "UpstreamConfig_Validate u =
    (if up_MaxConnsPerHost u > 0 \<and> up_MaxIdleConnsPerHost u > up_MaxConnsPerHost u
     then Some (IdleUnreachable (up_MaxIdleConnsPerHost u) (up_MaxConnsPerHost u))
     else case first_not_positive (upstream_counts u) of Some e \<Rightarrow> Some e
     | None \<Rightarrow> if up_MaxRetries u < 0 then Some (NegativeRetries (up_MaxRetries u))
         else first_not_positive (upstream_durations u))"

definition MetricsEngineConfig_Validate :: "MetricsEngineConfig \<Rightarrow> config_error option" where
  "MetricsEngineConfig_Validate m = (if \<not> mec_Enabled m then None
     else if mec_DSN m = [] then Some NoDSN
     else if mec_BufferCapacity m \<le> 0 then Some (NotPositive ''buffer_capacity'')
     else if mec_FlushInterval m \<le> 0 \<or> mec_PruneInterval m \<le> 0 \<or> mec_QueryTimeout m \<le> 0 then Some BadIntervals
     else if mec_EventsDays m \<le> 0 \<or> mec_PayloadsDays m \<le> 0 then Some BadDays
     else if mec_PayloadsDays m > mec_EventsDays m then Some (PayloadsOutliveEvents (mec_PayloadsDays m) (mec_EventsDays m))
     else if mec_MaxPage m \<le> 0 \<or> mec_MaxWindow m \<le> 0 then Some BadPages
     else if mec_PayloadMode m \<noteq> [] \<and> mec_PayloadMode m \<noteq> PayloadModeNone \<and> mec_PayloadMode m \<noteq> PayloadModeErrorsOnly
        \<and> mec_PayloadMode m \<noteq> PayloadModeFull then Some (BadPayloadMode (mec_PayloadMode m))
     else if mec_PayloadMode m \<noteq> [] \<and> mec_PayloadMode m \<noteq> PayloadModeNone \<and> mec_PayloadMaxKB m \<le> 0 then Some BadPayloadMaxKB
     else None)"

definition checkInterval :: "string \<Rightarrow> duration \<Rightarrow> config_error option" where
  "checkInterval name d = (if d \<le> 0 then Some (NotPositive name)
     else if d < MinSyncInterval then Some (IntervalTooShort name) else None)"

definition ModelCatalogConfig_Validate :: "ModelCatalogConfig \<Rightarrow> config_error option" where
  "ModelCatalogConfig_Validate m = (case checkInterval ''sync_interval'' (mcat_SyncInterval m) of Some e \<Rightarrow> Some e
   | None \<Rightarrow> if mcat_SourceURL m = [] then Some NoSourceURL else None)"

definition GatewayConfig_Validate :: "GatewayConfig \<Rightarrow> config_error option" where
  "GatewayConfig_Validate c = (case gc_ServerConfig c of None \<Rightarrow> Some ServerMissing
   | Some s \<Rightarrow> (case ServerConfig_Validate s of Some e \<Rightarrow> Some e
     | None \<Rightarrow> (case UpstreamConfig_Validate (gc_Upstream c) of Some e \<Rightarrow> Some e
       | None \<Rightarrow> (case (case gc_ModelCatalog c of None \<Rightarrow> None | Some m \<Rightarrow> ModelCatalogConfig_Validate m) of Some e \<Rightarrow> Some e
         | None \<Rightarrow> (case gc_MetricsEngine c of None \<Rightarrow> None | Some m \<Rightarrow> MetricsEngineConfig_Validate m)))))"

section \<open>Defaults\<close>

text \<open>What an absent configuration file decodes to.\<close>

definition default_upstream :: UpstreamConfig where
  "default_upstream = \<lparr>up_MaxIdleConns = 1000, up_MaxConnsPerHost = 256, up_MaxIdleConnsPerHost = 256,
     up_IdleConnTimeout = 90 * Second, up_DialTimeout = 5 * Second, up_KeepAlive = 30 * Second,
     up_TLSHandshakeTimeout = 10 * Second, up_ResponseHeaderTimeout = 30 * Second, up_RequestTimeout = 60 * Second,
     up_StreamIdleTimeout = 60 * Second, up_MaxRetries = 0, up_RetryBackoff = 250000000, up_MaxResponseBytesKB = 32768,
     up_WriteBufferSize = 65536, up_ReadBufferSize = 65536, up_DisableCompression = True\<rparr>"

definition default_config :: GatewayConfig where
  "default_config = \<lparr>gc_ServerConfig = Some \<lparr>sv_Port = 8080, sv_MaxBodySize = 32768, sv_ConfigSource = ''yaml'',
       sv_DBPath = ''./data/diffractllm.db'', sv_MockEnabled = False, sv_AesPasskey = [], sv_TrustedProxies = []\<rparr>,
     gc_Upstream = default_upstream,
     gc_ModelCatalog = Some \<lparr>mcat_SourceURL = ''https://getbifrost.ai/datasheet'', mcat_SyncInterval = 300 * Second\<rparr>,
     gc_MetricsEngine = Some \<lparr>mec_Enabled = True, mec_DSN = ''./data/diffractllm-metrics.duckdb'', mec_BufferCapacity = 5000,
       mec_FlushInterval = 5 * Second, mec_PruneInterval = 86400 * Second, mec_EventsDays = 90, mec_PayloadsDays = 7,
       mec_QueryTimeout = 5 * Second, mec_MaxPage = 200, mec_MaxWindow = 7776000 * Second, mec_PayloadMode = [],
       mec_PayloadMaxKB = 0\<rparr>\<rparr>"

section \<open>Facts\<close>

lemma first_not_positive_None: "first_not_positive fs = None \<longleftrightarrow> (\<forall>f \<in> set fs. 0 < snd f)"
  by (force simp: first_not_positive_def find_None_iff_all)

lemma first_error_None [simp]: "(case x of None \<Rightarrow> y | Some e \<Rightarrow> Some e) = None \<longleftrightarrow> x = None \<and> y = None"
  by (cases x) simp_all

lemma UpstreamConfig_Validate_None:
  "UpstreamConfig_Validate u = None \<longleftrightarrow> up_MaxIdleConnsPerHost u \<le> up_MaxConnsPerHost u \<and> 0 \<le> up_MaxRetries u
     \<and> (\<forall>f \<in> set (upstream_counts u @ upstream_durations u). 0 < snd f)"
  using first_not_positive_None [of "upstream_counts u"] first_not_positive_None [of "upstream_durations u"]
  by (auto simp: UpstreamConfig_Validate_def upstream_counts_def)

text \<open>
  A configuration is accepted exactly when every value the gateway divides by, waits for or
  sizes a buffer with is positive and the limits are consistent; in particular the built-in
  defaults are accepted.
\<close>

theorem GatewayConfig_Validate_spec:
  "(GatewayConfig_Validate c = None \<longleftrightarrow>
     (case gc_ServerConfig c of None \<Rightarrow> False
      | Some s \<Rightarrow> sv_Port s \<in> {1..65535} \<and> sv_DBPath s \<noteq> [] \<and> 0 < sv_MaxBodySize s)
   \<and> up_MaxIdleConnsPerHost (gc_Upstream c) \<le> up_MaxConnsPerHost (gc_Upstream c) \<and> 0 \<le> up_MaxRetries (gc_Upstream c)
   \<and> list_all (\<lambda>f. 0 < snd f) (upstream_counts (gc_Upstream c) @ upstream_durations (gc_Upstream c))
   \<and> (case gc_ModelCatalog c of None \<Rightarrow> True | Some m \<Rightarrow> MinSyncInterval \<le> mcat_SyncInterval m \<and> mcat_SourceURL m \<noteq> [])
   \<and> (case gc_MetricsEngine c of None \<Rightarrow> True | Some m \<Rightarrow> MetricsEngineConfig_Validate m = None))
   \<and> GatewayConfig_Validate default_config = None"
proof -
  have "GatewayConfig_Validate default_config = None"
    by (simp add: default_config_def default_upstream_def GatewayConfig_Validate_def ServerConfig_Validate_def
        UpstreamConfig_Validate_def first_not_positive_def upstream_counts_def upstream_durations_def Second_def
        ModelCatalogConfig_Validate_def checkInterval_def MinSyncInterval_def MetricsEngineConfig_Validate_def)
  moreover have s: "ServerConfig_Validate s = None \<longleftrightarrow> sv_Port s \<in> {1..65535} \<and> sv_DBPath s \<noteq> [] \<and> 0 < sv_MaxBodySize s" for s
    by (auto simp: ServerConfig_Validate_def)
  moreover have m: "ModelCatalogConfig_Validate m = None \<longleftrightarrow> MinSyncInterval \<le> mcat_SyncInterval m \<and> mcat_SourceURL m \<noteq> []" for m
    by (auto simp: ModelCatalogConfig_Validate_def checkInterval_def MinSyncInterval_def Second_def split: option.splits)
  moreover have "GatewayConfig_Validate c = None \<longleftrightarrow>
     (case gc_ServerConfig c of None \<Rightarrow> False | Some s \<Rightarrow> ServerConfig_Validate s = None)
   \<and> UpstreamConfig_Validate (gc_Upstream c) = None
   \<and> (case gc_ModelCatalog c of None \<Rightarrow> True | Some m \<Rightarrow> ModelCatalogConfig_Validate m = None)
   \<and> (case gc_MetricsEngine c of None \<Rightarrow> True | Some m \<Rightarrow> MetricsEngineConfig_Validate m = None)"
    by (simp add: GatewayConfig_Validate_def split: option.split)
  ultimately show ?thesis
    by (cases "gc_ServerConfig c"; cases "gc_ModelCatalog c") (simp_all add: UpstreamConfig_Validate_None s m list_all_iff)
qed

text \<open>
  A size in kilobytes that passes validation can still overflow when it is converted to bytes, to
  a limit of zero bytes.
\<close>

theorem max_response_bytes_overflow:
  "\<exists>u. UpstreamConfig_Validate u = None \<and> UpstreamConfig_MaxResponseBytes u = 0"
  by (rule exI [of _ "default_upstream\<lparr>up_MaxResponseBytesKB := 2 ^ 54\<rparr>"])
    (simp add: UpstreamConfig_Validate_None upstream_counts_def upstream_durations_def default_upstream_def Second_def
      UpstreamConfig_MaxResponseBytes_def wrap64_def)

end
