(* ===== verification/Transport.thy ===== *)
theory Transport
  imports Context Config
begin

text \<open>
  The upstream transport (\<^verbatim>\<open>internal/dataplane/transport.go\<close>): which addresses may be dialled, the
  client of a provider, the request with its retries, and the two wrappers of a response body. The
  network is an argument: for every attempt, what the client answers and whether the wait before
  the next attempt completed.
\<close>

section \<open>Addresses\<close>

text \<open>An IPv4 address is its four bytes, an IPv6 address its eight groups of 16 bits; the predicates
  are those of \<^verbatim>\<open>netip.Addr\<close>.\<close>

datatype ip = V4 nat nat nat nat | V6 "nat list"

fun Unmap :: "ip \<Rightarrow> ip" where
  "Unmap (V4 a b c d) = V4 a b c d"
| "Unmap (V6 gs) = (if length gs = 8 \<and> take 6 gs = [0, 0, 0, 0, 0, 65535]
     then V4 (gs ! 6 div 256) (gs ! 6 mod 256) (gs ! 7 div 256) (gs ! 7 mod 256) else V6 gs)"

fun IsLoopback :: "ip \<Rightarrow> bool" where
  "IsLoopback (V4 a b c d) = (a = 127)"
| "IsLoopback (V6 gs) = (gs = [0, 0, 0, 0, 0, 0, 0, 1])"

fun IsPrivate :: "ip \<Rightarrow> bool" where
  "IsPrivate (V4 a b c d) = (a = 10 \<or> (a = 172 \<and> b div 16 = 1) \<or> (a = 192 \<and> b = 168))"
| "IsPrivate (V6 gs) = (hd gs div 512 = 126)"

fun IsLinkLocalUnicast :: "ip \<Rightarrow> bool" where
  "IsLinkLocalUnicast (V4 a b c d) = (a = 169 \<and> b = 254)"
| "IsLinkLocalUnicast (V6 gs) = (hd gs div 64 = 1018)"

fun IsLinkLocalMulticast :: "ip \<Rightarrow> bool" where
  "IsLinkLocalMulticast (V4 a b c d) = (a = 224 \<and> b = 0 \<and> c = 0)"
| "IsLinkLocalMulticast (V6 gs) = (hd gs div 256 = 255 \<and> hd gs mod 16 = 2)"

fun IsInterfaceLocalMulticast :: "ip \<Rightarrow> bool" where
  "IsInterfaceLocalMulticast (V4 a b c d) = False"
| "IsInterfaceLocalMulticast (V6 gs) = (hd gs div 256 = 255 \<and> hd gs mod 16 = 1)"

fun IsMulticast :: "ip \<Rightarrow> bool" where
  "IsMulticast (V4 a b c d) = (a div 16 = 14)"
| "IsMulticast (V6 gs) = (hd gs div 256 = 255)"

fun IsUnspecified :: "ip \<Rightarrow> bool" where
  "IsUnspecified (V4 a b c d) = (a = 0 \<and> b = 0 \<and> c = 0 \<and> d = 0)"
| "IsUnspecified (V6 gs) = (gs = [0, 0, 0, 0, 0, 0, 0, 0])"

definition isBlockedIP :: "ip \<Rightarrow> bool" where
  "isBlockedIP ip0 = (let ip = Unmap ip0 in
     IsLoopback ip \<or> IsPrivate ip \<or> IsLinkLocalUnicast ip \<or> IsLinkLocalMulticast ip \<or>
     IsInterfaceLocalMulticast ip \<or> IsMulticast ip \<or> IsUnspecified ip)"

text \<open>The address a dialler is about to connect to, as the standard library splits and parses it.\<close>

datatype dial_address = BadHostPort | UnresolvedHost | ResolvedIP ip

definition guardedControl :: "bool \<Rightarrow> dial_address \<Rightarrow> bool" where
  "guardedControl allowPrivate address = (if allowPrivate then True
     else case address of BadHostPort \<Rightarrow> False | UnresolvedHost \<Rightarrow> False | ResolvedIP ip \<Rightarrow> \<not> isBlockedIP ip)"

text \<open>Dialling through a proxy: the resolved addresses in order, and which of them the proxy connects
  to. The result is the address connected to and the ones that were tried.\<close>

fun proxy_dial_loop :: "(ip \<Rightarrow> bool) \<Rightarrow> ip list \<Rightarrow> ip option \<times> ip list" where
  "proxy_dial_loop connects [] = (None, [])"
| "proxy_dial_loop connects (ip # ips) =
    (if isBlockedIP ip then proxy_dial_loop connects ips
     else if connects ip then (Some ip, [ip])
     else case proxy_dial_loop connects ips of (r, tried) \<Rightarrow> (r, ip # tried))"

datatype dial_target = ByName | ByAddress ip

definition guardedProxyDial :: "bool \<Rightarrow> (ip \<Rightarrow> bool) \<Rightarrow> ip list option \<Rightarrow> dial_target option \<times> ip list" where
  "guardedProxyDial allowPrivate connects looked_up = (if allowPrivate then (Some ByName, [])
     else case looked_up of None \<Rightarrow> (None, [])
       | Some ips \<Rightarrow> (case proxy_dial_loop connects ips of (r, tried) \<Rightarrow> (map_option ByAddress r, tried)))"

section \<open>Clients\<close>

definition compareConfig :: "int \<Rightarrow> int option \<Rightarrow> int" where
  "compareConfig base override = (case override of None \<Rightarrow> base | Some v \<Rightarrow> if v > 0 then v else base)"

text \<open>How a client reaches the upstream: with the guarded dialler, through a proxy that resolves the
  target itself, or through a SOCKS5 proxy that is handed addresses.\<close>

datatype dial_mode = DialDirect bool | DialViaProxy | DialViaSocks bool

record HttpClient =
  hc_MaxIdleConns :: int
  hc_MaxConnsPerHost :: int
  hc_MaxIdleConnsPerHost :: int
  hc_ResponseHeaderTimeout :: duration
  hc_InsecureSkipVerify :: bool
  hc_Dial :: dial_mode
  hc_FollowRedirects :: bool

datatype client_error = BadProxyURL | SocksFailed | UnknownProxyType string

text \<open>Whether the proxy address can be used is the answer of the libraries that parse it.\<close>

definition applyProxy :: "(string \<Rightarrow> bool) \<Rightarrow> (string \<Rightarrow> bool) \<Rightarrow> ProxyConfig option \<Rightarrow> bool \<Rightarrow> dial_mode \<Rightarrow> client_error + dial_mode" where
  "applyProxy url_ok socks_ok proxyConfig allowPrivateNetwork current = (case proxyConfig of None \<Rightarrow> Inr current
   | Some pc \<Rightarrow>
       if pc_Type pc = ''environment'' then Inr DialViaProxy
       else if pc_Type pc = ''http'' then (if url_ok (pc_URL pc) then Inr DialViaProxy else Inl BadProxyURL)
       else if pc_Type pc = ''socks5'' then (if socks_ok (pc_URL pc) then Inr (DialViaSocks allowPrivateNetwork) else Inl SocksFailed)
       else Inl (UnknownProxyType (pc_Type pc)))"

definition newClient :: "(string \<Rightarrow> bool) \<Rightarrow> (string \<Rightarrow> bool) \<Rightarrow> UpstreamConfig \<Rightarrow> Upstream \<Rightarrow> client_error + HttpClient" where
  "newClient url_ok socks_ok defaultConfig upstream =
    (let net = u_Network upstream;
         maxConns = compareConfig (up_MaxConnsPerHost defaultConfig) (MaxConnsPerHost net)
     in case applyProxy url_ok socks_ok (u_Proxy upstream) (AllowPrivateNetwork net) (DialDirect (AllowPrivateNetwork net)) of
          Inl e \<Rightarrow> Inl e
        | Inr mode \<Rightarrow> Inr \<lparr>hc_MaxIdleConns = up_MaxIdleConns defaultConfig, hc_MaxConnsPerHost = maxConns,
            hc_MaxIdleConnsPerHost = maxConns, hc_ResponseHeaderTimeout = up_ResponseHeaderTimeout defaultConfig,
            hc_InsecureSkipVerify = InsecureSkipVerify net, hc_Dial = mode, hc_FollowRedirects = False\<rparr>)"

record providerTransport =
  pt_client :: HttpClient
  pt_upstream :: Upstream

type_synonym providerClientMap = "Provider \<rightharpoonup> providerTransport"

record DiffractLLMTransport =
  dt_providers :: "providerClientMap option"
  dt_defaultConfig :: UpstreamConfig

text \<open>The configured providers are an association list in the order the loop visits them.\<close>

definition buildProviders :: "(string \<Rightarrow> bool) \<Rightarrow> (string \<Rightarrow> bool) \<Rightarrow> UpstreamConfig \<Rightarrow> (Provider \<times> Upstream) list \<Rightarrow> providerClientMap" where
  "buildProviders url_ok socks_ok defaultConfig ups =
     foldl (\<lambda>m (provider, upstream). case newClient url_ok socks_ok defaultConfig upstream of Inl _ \<Rightarrow> m
       | Inr client \<Rightarrow> m(provider \<mapsto> \<lparr>pt_client = client, pt_upstream = upstream\<rparr>)) Map.empty ups"

definition NewTransport :: "(string \<Rightarrow> bool) \<Rightarrow> (string \<Rightarrow> bool) \<Rightarrow> UpstreamConfig \<Rightarrow> (Provider \<times> Upstream) list \<Rightarrow> DiffractLLMTransport" where
  "NewTransport url_ok socks_ok defaultConfig ups =
     \<lparr>dt_providers = Some (buildProviders url_ok socks_ok defaultConfig ups), dt_defaultConfig = defaultConfig\<rparr>"

text \<open>The clients whose idle connections are closed: those of the old table that the new one does not
  hold. A rebuilt client is a new object, so the ones held again are those that were kept.\<close>

definition closeDropped :: "providerClientMap option \<Rightarrow> Provider list \<Rightarrow> Provider \<Rightarrow> bool" where
  "closeDropped old kept provider = (case old of None \<Rightarrow> False | Some m \<Rightarrow> m provider \<noteq> None \<and> provider \<notin> set kept)"

definition replace_step :: "providerClientMap \<Rightarrow> providerClientMap option \<Rightarrow> providerClientMap \<times> Provider list \<Rightarrow> Provider \<times> Upstream
    \<Rightarrow> providerClientMap \<times> Provider list" where
  "replace_step built old acc entry = (case acc of (nxt, failed) \<Rightarrow>
     let provider = fst entry in
     if built provider \<noteq> None then (nxt, failed)
     else (case old of None \<Rightarrow> nxt | Some m \<Rightarrow> (case m provider of None \<Rightarrow> nxt | Some existing \<Rightarrow> nxt(provider \<mapsto> existing)),
           failed @ [provider]))"

definition Transport_Replace :: "(string \<Rightarrow> bool) \<Rightarrow> (string \<Rightarrow> bool) \<Rightarrow> (Provider \<times> Upstream) list \<Rightarrow> DiffractLLMTransport
    \<Rightarrow> DiffractLLMTransport \<times> Provider list \<times> (Provider \<Rightarrow> bool)" where
  "Transport_Replace url_ok socks_ok ups t =
    (let built = buildProviders url_ok socks_ok (dt_defaultConfig t) ups;
         (nxt, failed) = foldl (replace_step built (dt_providers t)) (built, []) ups
     in (t\<lparr>dt_providers := Some nxt\<rparr>, failed, closeDropped (dt_providers t) failed))"

definition EffectiveNetwork :: "DiffractLLMTransport \<Rightarrow> NetworkConfig \<Rightarrow> NetworkConfig" where
  "EffectiveNetwork t stored =
    (let cfg = dt_defaultConfig t;
         retries = (case MaxRetries stored of Some r \<Rightarrow> if r > 0 then r else up_MaxRetries cfg | None \<Rightarrow> up_MaxRetries cfg);
         backoff = (case RetryBackoff stored of Some b \<Rightarrow> if b > 0 then b else up_RetryBackoff cfg | None \<Rightarrow> up_RetryBackoff cfg)
     in stored\<lparr>RequestTimeout := Some (compareConfig (up_RequestTimeout cfg) (RequestTimeout stored)),
          StreamIdleTimeout := Some (compareConfig (up_StreamIdleTimeout cfg) (StreamIdleTimeout stored)),
          MaxConnsPerHost := Some (compareConfig (up_MaxConnsPerHost cfg) (MaxConnsPerHost stored)),
          MaxResponseBytes := (if MaxResponseBytes stored = 0 then UpstreamConfig_MaxResponseBytes cfg else MaxResponseBytes stored),
          MaxRetries := Some retries, RetryBackoff := Some backoff,
          RetryAmbiguousStatus := Some (RetryAmbiguousStatus stored = Some True)\<rparr>)"

section \<open>Headers\<close>

definition reserved_names :: "string list" where
  "reserved_names = [''authorization'', ''api-key'', ''x-api-key'', ''x-goog-api-key'', ''content-type'', ''content-length'',
     ''host'', ''connection'', ''proxy-connection'', ''keep-alive'', ''proxy-authenticate'', ''proxy-authorization'',
     ''te'', ''trailer'', ''transfer-encoding'', ''upgrade'']"

definition reservedHeader :: "string \<Rightarrow> bool" where
  "reservedHeader name \<longleftrightarrow> ToLower (TrimSpace name) \<in> set reserved_names"

text \<open>\<^verbatim>\<open>strings.FieldsFunc\<close> on commas and blanks.\<close>

fun fields_acc :: "string \<Rightarrow> string \<Rightarrow> string list" where
  "fields_acc cur [] = (if cur = [] then [] else [cur])"
| "fields_acc cur (c # cs) = (if c = CHR '','' \<or> c = CHR '' '' then (if cur = [] then fields_acc [] cs else cur # fields_acc [] cs)
     else fields_acc (cur @ [c]) cs)"

definition hop_headers :: "string list" where
  "hop_headers = [''Connection'', ''Proxy-Connection'', ''Keep-Alive'', ''Proxy-Authenticate'', ''Proxy-Authorization'',
     ''Te'', ''Trailer'', ''Transfer-Encoding'', ''Upgrade'']"

definition removeHopHeaders :: "(string \<times> string) list \<Rightarrow> (string \<times> string) list" where
  "removeHopHeaders h =
    (let conn = Header_Get ''Connection'' h;
         h1 = (if conn \<noteq> [] then foldl (\<lambda>h name. Header_Del name h) h (fields_acc [] conn) else h)
     in foldl (\<lambda>h name. Header_Del name h) h1 hop_headers)"

definition captureResponseHeaders :: "(string \<times> string) list \<Rightarrow> DiffractLLMContext \<Rightarrow> DiffractLLMContext" where
  "captureResponseHeaders h rctx = foldl (\<lambda>rc (name, key).
     let v = Header_Get name h in if v \<noteq> [] then Context_Overwrite key v rc else rc) rctx UpstreamHeaders"

section \<open>Requests\<close>

record TransportRequest =
  tq_Method :: string
  tq_URL :: string
  tq_Body :: string
  tq_Headers :: "(string \<times> string) list"
  tq_IsStreaming :: bool

definition request_headers :: "(string \<times> string) list \<Rightarrow> (string \<times> string) list \<Rightarrow> (string \<times> string) list" where
  "request_headers custom own =
    (let h = foldl (\<lambda>h (k, v). if reservedHeader k then h else Header_Set k v h) [] custom
     in foldl (\<lambda>h (k, v). Header_Set k v h) h own)"

datatype body_wrapper = StreamTimeoutBody duration | LimitedBody int64

text \<open>Besides the fields of the source, whether the context of the request is still live when the
  result is returned: the deferred cancel of a request with a timeout has run by then.\<close>

record TransportResult =
  tr_Status :: int
  tr_Header :: "(string \<times> string) list"
  tr_Body :: body_wrapper
  tr_TTFB :: duration
  tr_Attempts :: nat
  tr_ContextLive :: bool

definition retrySafe :: "int \<Rightarrow> bool" where
  "retrySafe status \<longleftrightarrow> status = 408 \<or> status = 429"

definition retryAmbiguous :: "int \<Rightarrow> bool" where
  "retryAmbiguous status \<longleftrightarrow> status = 502 \<or> status = 503 \<or> status = 504"

definition retryable :: "int \<Rightarrow> bool \<Rightarrow> bool" where
  "retryable status allowAmbiguous \<longleftrightarrow> retrySafe status \<or> (allowAmbiguous \<and> retryAmbiguous status)"

definition retryAfter :: "(string \<times> string) list \<Rightarrow> duration \<Rightarrow> nat \<Rightarrow> duration" where
  "retryAfter h base attempt =
    (let v = Header_Get ''Retry-After'' h;
         expo = wrap64 (base * wrap64 (2 ^ (attempt - 1)))
     in if v \<noteq> [] then (case Atoi v of Some secs \<Rightarrow> if secs > 0 then wrap64 (secs * Second) else expo | None \<Rightarrow> expo)
        else expo)"

datatype do_result = DoError string bool | DoResponse int "(string \<times> string) list"

text \<open>
  The network: for the headers sent and each attempt what \<^verbatim>\<open>Do\<close> returns (with an error, whether the context had ended),
  the time to the first byte, the clock, and whether a wait of the given length completed before
  the context ended.
\<close>

record network_env =
  en_do :: "(string \<times> string) list \<Rightarrow> nat \<Rightarrow> do_result"
  en_ttfb :: "nat \<Rightarrow> duration"
  en_clock :: "nat \<Rightarrow> time"
  en_sleep :: "nat \<Rightarrow> duration \<Rightarrow> bool"

record serve_settings =
  ss_provider :: Provider
  ss_safeURL :: string
  ss_headers :: "(string \<times> string) list"
  ss_maxAttempts :: nat
  ss_backoff :: duration
  ss_allowAmbiguous :: bool
  ss_wrapper :: body_wrapper
  ss_ContextLive :: bool

text \<open>The loop over the attempts; \<open>left\<close> counts the attempts that remain.\<close>

fun attempt_loop :: "network_env \<Rightarrow> serve_settings \<Rightarrow> nat \<Rightarrow> nat \<Rightarrow> DiffractLLMContext
    \<Rightarrow> DiffractLLMContext \<times> (DiffractLLMError option + TransportResult)" where
  "attempt_loop env st attempt 0 rctx = (rctx, Inl None)"
| "attempt_loop env st attempt (Suc left) rctx =
    (let rctx1 = rctx\<lparr>rc_UpstreamAttempts := int attempt\<rparr> in
     case en_do env (ss_headers st) attempt of
       DoError err ended \<Rightarrow>
         if ended then (rctx1, Inl (Some (NewUpstreamTimeout (ss_provider st) (ss_safeURL st) (Some err))))
         else let lastErr = NewUpstreamUnavailable (ss_provider st) (ss_safeURL st) (Some err) in
           if left > 0 \<and> en_sleep env attempt (ss_backoff st) then attempt_loop env st (Suc attempt) left rctx1
           else (rctx1, Inl (Some lastErr))
     | DoResponse status h \<Rightarrow>
         let rctx2 = rctx1\<lparr>rc_UpstreamStatus := status\<rparr> in
         if retryable status (ss_allowAmbiguous st) \<and> left > 0 then
           (if en_sleep env attempt (retryAfter h (ss_backoff st) attempt) then attempt_loop env st (Suc attempt) left rctx2
            else (rctx2, Inl (Some (NewUpstreamError (ss_provider st) (ss_safeURL st) status ''retry aborted'' None))))
         else let rctx3 = captureResponseHeaders h (Mark (en_clock env attempt) StageUpstream (rctx2\<lparr>rc_TTFB := en_ttfb env attempt\<rparr>))
           in (rctx3, Inr \<lparr>tr_Status = status, tr_Header = removeHopHeaders h, tr_Body = ss_wrapper st,
                 tr_TTFB = en_ttfb env attempt, tr_Attempts = attempt, tr_ContextLive = ss_ContextLive st\<rparr>))"

definition serve_settings_of :: "UpstreamConfig \<Rightarrow> (string \<Rightarrow> string) \<Rightarrow> Provider \<Rightarrow> Upstream \<Rightarrow> TransportRequest \<Rightarrow> serve_settings" where
  "serve_settings_of cfg sanitize provider upstream req =
    (let net = u_Network upstream in
     \<lparr>ss_provider = provider, ss_safeURL = sanitize (tq_URL req), ss_headers = request_headers (Headers net) (tq_Headers req),
      ss_maxAttempts = nat (1 + (case MaxRetries net of Some r \<Rightarrow> if r > 0 then r else up_MaxRetries cfg | None \<Rightarrow> up_MaxRetries cfg)),
      ss_backoff = (case RetryBackoff net of Some b \<Rightarrow> if b > 0 then b else up_RetryBackoff cfg | None \<Rightarrow> up_RetryBackoff cfg),
      ss_allowAmbiguous = (RetryAmbiguousStatus net = Some True),
      ss_wrapper = (if tq_IsStreaming req then StreamTimeoutBody (compareConfig (up_StreamIdleTimeout cfg) (StreamIdleTimeout net))
        else LimitedBody (compareConfig (UpstreamConfig_MaxResponseBytes cfg) (Some (MaxResponseBytes net)))),
      ss_ContextLive = (tq_IsStreaming req \<or> \<not> compareConfig (up_RequestTimeout cfg) (RequestTimeout net) > 0)\<rparr>)"

text \<open>\<open>sanitize\<close> removes the credentials and the query of a URL with the library's parser; \<open>builds\<close>
  is the error of the library when it does not accept the method or the URL.\<close>

definition Transport_ServeHTTP :: "(string \<Rightarrow> string) \<Rightarrow> (TransportRequest \<Rightarrow> string option) \<Rightarrow> network_env \<Rightarrow> DiffractLLMTransport
    \<Rightarrow> TransportRequest \<Rightarrow> DiffractLLMContext \<Rightarrow> DiffractLLMContext \<times> (DiffractLLMError option + TransportResult)" where
  "Transport_ServeHTTP sanitize builds env t req rctx =
    (let provider = ck_Provider (rc_Modelkey rctx) in
     case dt_providers t of
       None \<Rightarrow> (rctx, Inl (Some (NewInternalError ''transport'' (''no providers found for the request - '' @ provider) None)))
     | Some pt \<Rightarrow> (case pt provider of
         None \<Rightarrow> (rctx, Inl (Some (NewInternalError ''transport'' (''no client for provider '' @ provider) None)))
       | Some p \<Rightarrow>
           let st = serve_settings_of (dt_defaultConfig t) sanitize provider (pt_upstream p) req in
           if ss_maxAttempts st > 0 \<and> builds req \<noteq> None
           then (rctx\<lparr>rc_UpstreamAttempts := 1\<rparr>, Inl (Some (NewInternalError ''transport'' ''building request'' (builds req))))
           else attempt_loop env st 1 (ss_maxAttempts st) rctx))"

section \<open>Bodies\<close>

text \<open>A limited body over the bytes that the upstream still has to send. A read is given the size of
  the buffer and how many bytes the connection has ready.\<close>

datatype body_error = EOF | ErrResponseTooLarge | ErrStreamIdle | ErrOther

record limitedBody =
  lb_data :: string
  lb_remaining :: int64

definition newLimitedBody :: "string \<Rightarrow> int64 \<Rightarrow> limitedBody" where
  "newLimitedBody data limit = \<lparr>lb_data = data, lb_remaining = wrap64 (limit + 1)\<rparr>"

definition limitedBody_Read :: "nat \<Rightarrow> nat \<Rightarrow> limitedBody \<Rightarrow> string \<times> body_error option \<times> limitedBody" where
  "limitedBody_Read buffer ready b =
    (if lb_remaining b \<le> 0 then ([], Some ErrResponseTooLarge, b)
     else let len = (if int buffer > lb_remaining b then nat (lb_remaining b) else buffer);
              n = min (min len ready) (length (lb_data b));
              out = take n (lb_data b);
              err = (if lb_data b = [] then Some EOF else None);
              b1 = b\<lparr>lb_data := drop n (lb_data b), lb_remaining := lb_remaining b - int n\<rparr>
       in if lb_remaining b1 \<le> 0 then (out, Some ErrResponseTooLarge, b1) else (out, err, b1))"

text \<open>Reading to the end, as \<^verbatim>\<open>io.ReadAll\<close> does, with the buffer and ready sizes of each read; \<^const>\<open>None\<close>
  when the list of reads ends first.\<close>

fun read_all :: "(nat \<times> nat) list \<Rightarrow> limitedBody \<Rightarrow> (string \<times> body_error) option" where
  "read_all [] b = None"
| "read_all ((buffer, ready) # reads) b = (case limitedBody_Read buffer ready b of
     (out, Some e, b1) \<Rightarrow> Some (out, e)
   | (out, None, b1) \<Rightarrow> map_option (\<lambda>(rest, e). (out @ rest, e)) (read_all reads b1))"

text \<open>A stream body: the timer fires when nothing arrived for the timeout.\<close>

record streamTimeoutBody =
  sb_stalled :: bool
  sb_closed :: bool
  sb_resets :: nat

definition stream_timer_fires :: "streamTimeoutBody \<Rightarrow> streamTimeoutBody" where
  "stream_timer_fires b = b\<lparr>sb_stalled := True, sb_closed := True\<rparr>"

definition streamTimeoutBody_Read :: "nat \<Rightarrow> body_error option \<Rightarrow> streamTimeoutBody \<Rightarrow> body_error option \<times> streamTimeoutBody" where
  "streamTimeoutBody_Read n err b =
    (let b1 = (if n > 0 then b\<lparr>sb_resets := Suc (sb_resets b)\<rparr> else b)
     in (if err \<noteq> None \<and> sb_stalled b then Some ErrStreamIdle else err, b1))"

text \<open>What a failed attempt looks like: the connection failed while the context was live, or the
  answer may be retried.\<close>

definition retried :: "bool \<Rightarrow> do_result \<Rightarrow> bool" where
  "retried amb r = (case r of DoError _ ended \<Rightarrow> \<not> ended | DoResponse status _ \<Rightarrow> retryable status amb)"

section \<open>An example\<close>

text \<open>One provider that may be tried three times; the first attempt is answered 429, the second 200.\<close>

definition example_upstream :: Upstream where
  "example_upstream = \<lparr>u_Provider = ''openai'', u_Network = \<lparr>BaseURL = ''https://api.openai.com'', Headers = [(''X-Team'', ''a'')],
     RequestTimeout = None, MaxRetries = Some 2, RetryBackoff = None, MaxConnsPerHost = None, InsecureSkipVerify = False,
     AllowPrivateNetwork = False, RetryAmbiguousStatus = None, MaxResponseBytes = 0, StreamIdleTimeout = None\<rparr>, u_Proxy = None\<rparr>"

definition example_client :: HttpClient where
  "example_client = \<lparr>hc_MaxIdleConns = 0, hc_MaxConnsPerHost = 0, hc_MaxIdleConnsPerHost = 0, hc_ResponseHeaderTimeout = 0,
     hc_InsecureSkipVerify = False, hc_Dial = DialDirect False, hc_FollowRedirects = False\<rparr>"

definition example_transport :: DiffractLLMTransport where
  "example_transport = \<lparr>dt_providers = Some [''openai'' \<mapsto> \<lparr>pt_client = example_client, pt_upstream = example_upstream\<rparr>],
     dt_defaultConfig = default_upstream\<rparr>"

definition example_call :: TransportRequest where
  "example_call = \<lparr>tq_Method = ''POST'', tq_URL = ''https://api.openai.com/v1/chat/completions'', tq_Body = ''{}'',
     tq_Headers = [(''Authorization'', ''Bearer x'')], tq_IsStreaming = False\<rparr>"

definition example_env :: network_env where
  "example_env = \<lparr>en_do = \<lambda>h a. if a = 1 then DoResponse 429 [] else DoResponse 200 [(''Connection'', ''close'')],
     en_ttfb = \<lambda>_. 5, en_clock = \<lambda>_. 0, en_sleep = \<lambda>_ _. True\<rparr>"

definition example_context :: DiffractLLMContext where
  "example_context = DiffractLLMContext_zero\<lparr>rc_Modelkey := (rc_Modelkey DiffractLLMContext_zero)\<lparr>ck_Provider := ''openai''\<rparr>\<rparr>"

definition example_result :: TransportResult where
  "example_result = \<lparr>tr_Status = 200, tr_Header = [], tr_Body = LimitedBody 33554432, tr_TTFB = 5, tr_Attempts = 2, tr_ContextLive = False\<rparr>"

section \<open>Retries\<close>

lemma captureResponseHeaders_keeps:
  "rc_UpstreamAttempts (captureResponseHeaders h rctx) = rc_UpstreamAttempts rctx"
proof -
  have "rc_UpstreamAttempts (foldl (\<lambda>rc (name, key). let v = Header_Get name h in if v \<noteq> [] then Context_Overwrite key v rc else rc) rctx xs)
      = rc_UpstreamAttempts rctx" for xs
    by (induction xs arbitrary: rctx) (auto simp: Let_def Context_Overwrite_def)
  then show ?thesis by (simp add: captureResponseHeaders_def)
qed

lemma attempt_loop_result:
  assumes "attempt_loop env st a n rctx = (rctx', Inr res)"
  shows "a \<le> tr_Attempts res \<and> tr_Attempts res < a + n \<and> rc_UpstreamAttempts rctx' = int (tr_Attempts res)
    \<and> (\<forall>j. a \<le> j \<and> j < tr_Attempts res \<longrightarrow> retried (ss_allowAmbiguous st) (en_do env (ss_headers st) j))
    \<and> (\<exists>h. en_do env (ss_headers st) (tr_Attempts res) = DoResponse (tr_Status res) h \<and> tr_Header res = removeHopHeaders h)
    \<and> (retryable (tr_Status res) (ss_allowAmbiguous st) \<longrightarrow> Suc (tr_Attempts res) = a + n)
    \<and> tr_Body res = ss_wrapper st \<and> tr_ContextLive res = ss_ContextLive st"
  using assms
proof (induction n arbitrary: a rctx)
  case (Suc n)
  have step: "retried (ss_allowAmbiguous st) (en_do env (ss_headers st) j)"
    if "a \<le> j" "j < k" "retried (ss_allowAmbiguous st) (en_do env (ss_headers st) a)"
      "\<forall>j. Suc a \<le> j \<and> j < k \<longrightarrow> retried (ss_allowAmbiguous st) (en_do env (ss_headers st) j)" for j k
    using that by (cases "j = a") auto
  show ?case
  proof (cases "en_do env (ss_headers st) a")
    case (DoError err ended)
    then have "attempt_loop env st (Suc a) n (rctx\<lparr>rc_UpstreamAttempts := int a\<rparr>) = (rctx', Inr res)" "\<not> ended"
      using Suc.prems by (auto simp: Let_def split: if_splits)
    moreover from this(2) DoError have "retried (ss_allowAmbiguous st) (en_do env (ss_headers st) a)" by (simp add: retried_def)
    ultimately show ?thesis using Suc.IH [of "Suc a" "rctx\<lparr>rc_UpstreamAttempts := int a\<rparr>"] by (auto intro: step)
  next
    case (DoResponse status h)
    show ?thesis
    proof (cases "retryable status (ss_allowAmbiguous st) \<and> n > 0")
      case True
      then have "attempt_loop env st (Suc a) n (rctx\<lparr>rc_UpstreamAttempts := int a, rc_UpstreamStatus := status\<rparr>) = (rctx', Inr res)"
        using Suc.prems DoResponse by (auto simp: Let_def split: if_splits)
      moreover from DoResponse True have "retried (ss_allowAmbiguous st) (en_do env (ss_headers st) a)" by (simp add: retried_def)
      ultimately show ?thesis
        using Suc.IH [of "Suc a" "rctx\<lparr>rc_UpstreamAttempts := int a, rc_UpstreamStatus := status\<rparr>"] by (auto intro: step)
    next
      case False
      then show ?thesis using Suc.prems DoResponse
        by (auto simp: Let_def captureResponseHeaders_keeps Mark_def)
    qed
  qed
qed simp

lemma attempt_loop_error:
  assumes "attempt_loop env st a n rctx = (rctx', Inl e)" "0 < n"
  shows "\<exists>err j. e = Some err \<and> a \<le> j \<and> j < a + n \<and> rc_UpstreamAttempts rctx' = int j
    \<and> IsProvider err \<and> e_Provider err = ss_provider st \<and> e_BackendURL err = ss_safeURL st"
  using assms
proof (induction n arbitrary: a rctx)
  case (Suc n)
  have later: ?case if "attempt_loop env st (Suc a) n r = (rctx', Inl e)" "0 < n" for r
  proof -
    from Suc.IH [OF that] obtain err j where "e = Some err" "Suc a \<le> j" "j < Suc a + n" "rc_UpstreamAttempts rctx' = int j"
      "IsProvider err" "e_Provider err = ss_provider st" "e_BackendURL err = ss_safeURL st" by blast
    then show ?thesis by (intro exI [of _ err] exI [of _ j]) simp
  qed
  note errs = NewUpstreamTimeout_def NewUpstreamUnavailable_def NewUpstreamError_def IsProvider_def
  show ?case
  proof (cases "en_do env (ss_headers st) a")
    case (DoError err ended)
    then show ?thesis using Suc.prems later by (auto simp: Let_def errs split: if_splits)
  next
    case (DoResponse status h)
    then show ?thesis using Suc.prems later by (auto simp: Let_def errs split: if_splits)
  qed
qed simp

lemma ServeHTTP_loop:
  assumes "Transport_ServeHTTP sanitize builds env t req rctx = (rctx', Inr res)"
  obtains pt p where "dt_providers t = Some pt" "pt (ck_Provider (rc_Modelkey rctx)) = Some p"
    "attempt_loop env (serve_settings_of (dt_defaultConfig t) sanitize (ck_Provider (rc_Modelkey rctx)) (pt_upstream p) req) 1
      (ss_maxAttempts (serve_settings_of (dt_defaultConfig t) sanitize (ck_Provider (rc_Modelkey rctx)) (pt_upstream p) req)) rctx = (rctx', Inr res)"
  using assms by (auto simp: Transport_ServeHTTP_def Let_def split: option.splits if_splits)

text \<open>
  C13: A request answered by the transport was tried at most one time more than the configured retries.
  Every earlier attempt failed to connect or got a status that may be retried, the returned
  answer is that of the last attempt with the hop-by-hop headers removed, it has a status that may be
  retried only when no attempt was left, and the context counts the attempts.
\<close>

theorem ServeHTTP_attempts:
  assumes "Transport_ServeHTTP sanitize builds env t req rctx = (rctx', Inr res)"
  shows "\<exists>pt p st. dt_providers t = Some pt \<and> pt (ck_Provider (rc_Modelkey rctx)) = Some p
    \<and> st = serve_settings_of (dt_defaultConfig t) sanitize (ck_Provider (rc_Modelkey rctx)) (pt_upstream p) req
    \<and> 1 \<le> tr_Attempts res \<and> tr_Attempts res \<le> ss_maxAttempts st \<and> rc_UpstreamAttempts rctx' = int (tr_Attempts res)
    \<and> (\<forall>j. 1 \<le> j \<and> j < tr_Attempts res \<longrightarrow> retried (ss_allowAmbiguous st) (en_do env (ss_headers st) j))
    \<and> (\<exists>h. en_do env (ss_headers st) (tr_Attempts res) = DoResponse (tr_Status res) h \<and> tr_Header res = removeHopHeaders h)
    \<and> (retryable (tr_Status res) (ss_allowAmbiguous st) \<longrightarrow> tr_Attempts res = ss_maxAttempts st)"
proof -
  obtain pt p where pt: "dt_providers t = Some pt" "pt (ck_Provider (rc_Modelkey rctx)) = Some p"
    and loop: "attempt_loop env (serve_settings_of (dt_defaultConfig t) sanitize (ck_Provider (rc_Modelkey rctx)) (pt_upstream p) req) 1
      (ss_maxAttempts (serve_settings_of (dt_defaultConfig t) sanitize (ck_Provider (rc_Modelkey rctx)) (pt_upstream p) req)) rctx = (rctx', Inr res)"
    by (rule ServeHTTP_loop [OF assms])
  from attempt_loop_result [OF loop] pt show ?thesis by fastforce
qed

text \<open>
  When no retry count is negative, a failed request always carries an error: an internal one when the
  provider has no client or the request cannot be built, otherwise one of the provider with the
  sanitized URL.
\<close>

theorem ServeHTTP_error:
  assumes "Transport_ServeHTTP sanitize builds env t req rctx = (rctx', Inl e)" "0 \<le> up_MaxRetries (dt_defaultConfig t)"
  shows "\<exists>err. e = Some err \<and> (IsGateway err \<and> e_StatusCode err = 500
    \<or> IsProvider err \<and> e_Provider err = ck_Provider (rc_Modelkey rctx) \<and> e_BackendURL err = sanitize (tq_URL req)
      \<and> 1 \<le> rc_UpstreamAttempts rctx')"
proof -
  have internal: "IsGateway (NewInternalError c m i) \<and> e_StatusCode (NewInternalError c m i) = 500" for c m i
    by (simp add: IsGateway_def NewInternalError_def)
  show ?thesis
  proof (cases "dt_providers t")
    case None
    with assms show ?thesis by (auto simp: Transport_ServeHTTP_def internal)
  next
    case (Some pt)
    show ?thesis
    proof (cases "pt (ck_Provider (rc_Modelkey rctx))")
      case None
      with assms Some show ?thesis by (auto simp: Transport_ServeHTTP_def internal)
    next
      case (Some p)
      let ?st = "serve_settings_of (dt_defaultConfig t) sanitize (ck_Provider (rc_Modelkey rctx)) (pt_upstream p) req"
      have pos: "0 < ss_maxAttempts ?st" using assms(2) by (auto simp: serve_settings_of_def Let_def split: option.split)
      show ?thesis
      proof (cases "builds req")
        case None
        with assms pos Some \<open>dt_providers t = Some pt\<close> have "attempt_loop env ?st 1 (ss_maxAttempts ?st) rctx = (rctx', Inl e)"
          by (simp add: Transport_ServeHTTP_def Let_def)
        from attempt_loop_error [OF this pos] show ?thesis by (auto simp: serve_settings_of_def Let_def)
      next
        case (Some err)
        with assms pos \<open>dt_providers t = Some pt\<close> \<open>pt (ck_Provider (rc_Modelkey rctx)) = Some p\<close>
        show ?thesis by (auto simp: Transport_ServeHTTP_def Let_def internal)
      qed
    qed
  qed
qed

theorem ServeHTTP_attempts_witness:
  "\<exists>pt p st. dt_providers example_transport = Some pt \<and> pt ''openai'' = Some p
    \<and> st = serve_settings_of default_upstream id ''openai'' example_upstream example_call
    \<and> retried (ss_allowAmbiguous st) (en_do example_env (ss_headers st) 1)
    \<and> tr_Attempts example_result = 2 \<and> 2 \<le> ss_maxAttempts st"
proof -
  let ?run = "Transport_ServeHTTP id (\<lambda>_. None) example_env example_transport example_call example_context"
  have "snd ?run = Inr example_result" by code_simp
  then have run: "?run = (fst ?run, Inr example_result)" by (simp add: prod_eq_iff)
  have two: "tr_Attempts example_result = 2" "ck_Provider (rc_Modelkey example_context) = ''openai''"
    "dt_defaultConfig example_transport = default_upstream" by code_simp+
  have p: "\<forall>pt. dt_providers example_transport = Some pt \<longrightarrow> pt_upstream (the (pt ''openai'')) = example_upstream"
    by (simp add: example_transport_def)
  from ServeHTTP_attempts [OF run] two p show ?thesis by fastforce
qed

theorem ServeHTTP_error_witness:
  "\<exists>err. snd (Transport_ServeHTTP id (\<lambda>_. None) (example_env\<lparr>en_do := \<lambda>h a. DoError ''refused'' False\<rparr>) example_transport
       example_call example_context) = Inl (Some err) \<and> IsProvider err \<and> e_Provider err = ''openai''"
proof -
  let ?env = "example_env\<lparr>en_do := \<lambda>h a. DoError ''refused'' False\<rparr>"
  let ?run = "Transport_ServeHTTP id (\<lambda>_. None) ?env example_transport example_call example_context"
  have facts: "isl (snd ?run)" "0 \<le> up_MaxRetries (dt_defaultConfig example_transport)"
    "ck_Provider (rc_Modelkey example_context) = ''openai''"
    "case_option True (\<lambda>e. e_StatusCode e \<noteq> 500) (projl (snd ?run))" by code_simp+
  obtain rc e where run: "?run = (rc, Inl e)" using facts(1) by (cases ?run) (auto simp: isl_def)
  from ServeHTTP_error [OF run facts(2)] obtain err where "e = Some err" "IsProvider err \<and> e_Provider err = ''openai''"
    using facts(3, 4) unfolding run by fastforce
  then show ?thesis unfolding run by simp
qed

lemma Header_Get_Set: "Header_Get n (Header_Set k v h) = (if ToLower n = ToLower k then v else Header_Get n h)"
proof -
  have "List.find P (filter Q h) = List.find P h" if "\<forall>x. P x \<longrightarrow> Q x" for P Q and h :: "(string \<times> string) list"
    using that by (induction h) auto
  from this [of "\<lambda>kv. ToLower (fst kv) = ToLower n" "\<lambda>kv. ToLower (fst kv) \<noteq> ToLower k"]
  show ?thesis by (auto simp: Header_Get_def Header_Set_def)
qed

lemma set_headers_get:
  "Header_Get n (foldl (\<lambda>h (k, v). Header_Set k v h) h own)
    = (case List.find (\<lambda>kv. ToLower (fst kv) = ToLower n) (rev own) of Some kv \<Rightarrow> snd kv | None \<Rightarrow> Header_Get n h)"
  by (induction own rule: rev_induct) (auto simp: Header_Get_Set)

lemma is_space_lower: "is_space (lower_char c) = is_space c"
proof (cases "65 \<le> (of_char c :: nat) \<and> (of_char c :: nat) \<le> 90")
  case True
  then have "(of_char (lower_char c) :: nat) = of_char c + 32" by (simp add: lower_char_def)
  with True show ?thesis by (auto simp: is_space_def)
qed (auto simp: lower_char_def Let_def)

lemma ToLower_TrimSpace: "ToLower (TrimSpace s) = TrimSpace (ToLower s)"
  by (simp add: ToLower_def TrimSpace_def dropWhile_map rev_map comp_def is_space_lower)

lemma reservedHeader_cong: "ToLower n = ToLower k \<Longrightarrow> reservedHeader n = reservedHeader k"
  by (simp add: reservedHeader_def ToLower_TrimSpace)

lemma custom_headers_get:
  assumes "reservedHeader n"
  shows "Header_Get n (foldl (\<lambda>h (k, v). if reservedHeader k then h else Header_Set k v h) h custom) = Header_Get n h"
proof (induction custom rule: rev_induct)
  case (snoc kv custom)
  then show ?case using assms reservedHeader_cong [of n "fst kv"]
    by (auto simp: Header_Get_Set split: prod.splits)
qed simp

text \<open>
  A header name that the gateway reserves reaches the upstream only with the value the provider's
  code gave it, whatever the operator configured for the provider; the provider's own headers are all sent,
  the later one winning when two have the same name.
\<close>

theorem request_headers_reserved:
  "(case List.find (\<lambda>kv. ToLower (fst kv) = ToLower n) (rev own) of
      Some kv \<Rightarrow> Header_Get n (request_headers custom own) = snd kv
    | None \<Rightarrow> (if reservedHeader n then Header_Get n (request_headers custom own) = []
        else Header_Get n (request_headers custom own) = Header_Get n (request_headers custom [])))"
proof -
  have "Header_Get n [] = []" by (simp add: Header_Get_def)
  then show ?thesis
    by (auto simp: request_headers_def Let_def set_headers_get custom_headers_get split: option.split)
qed

text \<open>
  The headers handed on are exactly those received whose name is neither a hop-by-hop header nor
  listed in the \<^verbatim>\<open>Connection\<close> header, in their order and compared without case.
\<close>

theorem removeHopHeaders_spec:
  "removeHopHeaders h = filter (\<lambda>(k, v). ToLower k \<notin> ToLower ` set hop_headers
     \<and> ToLower k \<notin> ToLower ` set (fields_acc [] (Header_Get ''Connection'' h))) h"
proof -
  have del: "foldl (\<lambda>h name. Header_Del name h) h ns = filter (\<lambda>kv. ToLower (fst kv) \<notin> ToLower ` set ns) h" for ns h
    by (induction ns arbitrary: h) (auto simp: Header_Del_def intro: filter_cong)
  show ?thesis unfolding removeHopHeaders_def Let_def
    by (auto simp: del intro!: filter_cong)
qed

section \<open>Addresses that are dialled\<close>

text \<open>
  The IPv4 addresses the gateway does not connect to are exactly those of the loopback, private,
  link-local, multicast and unspecified ranges, and writing such an address as an IPv4-mapped IPv6 address
  changes nothing.
\<close>

theorem isBlockedIP_V4:
  "(isBlockedIP (V4 a b c d) \<longleftrightarrow> a = 127 \<or> a = 10 \<or> (a = 172 \<and> 16 \<le> b \<and> b \<le> 31) \<or> (a = 192 \<and> b = 168)
     \<or> (a = 169 \<and> b = 254) \<or> (224 \<le> a \<and> a \<le> 239) \<or> (a = 0 \<and> b = 0 \<and> c = 0 \<and> d = 0))
   \<and> (a < 256 \<and> b < 256 \<and> c < 256 \<and> d < 256 \<longrightarrow>
      isBlockedIP (V6 [0, 0, 0, 0, 0, 65535, a * 256 + b, c * 256 + d]) = isBlockedIP (V4 a b c d))"
proof -
  have "a div 16 = 14 \<longleftrightarrow> 224 \<le> a \<and> a \<le> 239" "b div 16 = 1 \<longleftrightarrow> 16 \<le> b \<and> b \<le> 31" by auto
  then show ?thesis by (auto simp: isBlockedIP_def Let_def)
qed

theorem isBlockedIP_V4_witness:
  "isBlockedIP (V6 [0, 0, 0, 0, 0, 65535, 127 * 256 + 0, 0 * 256 + 1]) = isBlockedIP (V4 127 0 0 1)"
  using isBlockedIP_V4 [of 127 0 0 1] by simp

lemma proxy_dial_loop_tried:
  "proxy_dial_loop connects ips = (r, tried) \<Longrightarrow> set tried \<subseteq> Set.filter (\<lambda>ip. \<not> isBlockedIP ip) (set ips)
    \<and> (case r of Some ip \<Rightarrow> ip \<in> set tried \<and> connects ip | None \<Rightarrow> tried = filter (\<lambda>ip. \<not> isBlockedIP ip) ips)"
proof (induction ips arbitrary: r tried)
  case (Cons ip ips)
  obtain r1 tried1 where rest: "proxy_dial_loop connects ips = (r1, tried1)" by fastforce
  from Cons.IH [OF rest] Cons.prems rest show ?case
    by (cases r1) (auto split: if_splits)
qed auto



section \<open>Configuration in force\<close>

text \<open>
  The network settings shown to the operator are the ones a request is served with: attempts, backoff,
  ambiguous statuses, the body limits and the timeout, for a configuration whose response limit is not
  negative.
\<close>

theorem EffectiveNetwork_agrees:
  assumes "0 \<le> MaxResponseBytes (u_Network up)"
  shows "let eff = EffectiveNetwork t (u_Network up); st = serve_settings_of (dt_defaultConfig t) sanitize provider up req in
    MaxRetries eff \<noteq> None \<and> ss_maxAttempts st = nat (1 + the (MaxRetries eff)) \<and> RetryBackoff eff = Some (ss_backoff st)
    \<and> RetryAmbiguousStatus eff = Some (ss_allowAmbiguous st)
    \<and> ss_wrapper st = (if tq_IsStreaming req then StreamTimeoutBody (the (StreamIdleTimeout eff)) else LimitedBody (MaxResponseBytes eff))
    \<and> ss_ContextLive st = (tq_IsStreaming req \<or> the (RequestTimeout eff) \<le> 0)
    \<and> serve_settings_of (dt_defaultConfig t) sanitize provider (up\<lparr>u_Network := eff\<rparr>) req = st"
  using assms
  by (auto simp: EffectiveNetwork_def serve_settings_of_def compareConfig_def Let_def split: option.split)

theorem EffectiveNetwork_agrees_witness:
  "ss_wrapper (serve_settings_of default_upstream id ''openai'' example_upstream example_call)
    = LimitedBody (MaxResponseBytes (EffectiveNetwork example_transport (u_Network example_upstream)))"
  using EffectiveNetwork_agrees [of example_upstream example_transport id "''openai''" example_call]
  by (simp add: example_upstream_def example_call_def example_transport_def Let_def)

lemma retries_zero_is_default:
  "serve_settings_of cfg sanitize provider (up\<lparr>u_Network := (u_Network up)\<lparr>MaxRetries := Some 0\<rparr>\<rparr>) req
    = serve_settings_of cfg sanitize provider (up\<lparr>u_Network := (u_Network up)\<lparr>MaxRetries := None\<rparr>\<rparr>) req"
  by (simp add: serve_settings_of_def Let_def)

text \<open>
  With a request timeout in force, the context of every answer to a request that is not streamed has
  already been cancelled when the answer is handed to the code that reads its body.
\<close>

theorem ServeHTTP_result_cancelled:
  assumes "Transport_ServeHTTP sanitize builds env t req rctx = (rctx', Inr res)"
    "\<not> tq_IsStreaming req" "0 < up_RequestTimeout (dt_defaultConfig t)"
  shows "\<not> tr_ContextLive res"
proof -
  obtain pt p where "dt_providers t = Some pt" "pt (ck_Provider (rc_Modelkey rctx)) = Some p"
    and loop: "attempt_loop env (serve_settings_of (dt_defaultConfig t) sanitize (ck_Provider (rc_Modelkey rctx)) (pt_upstream p) req) 1
      (ss_maxAttempts (serve_settings_of (dt_defaultConfig t) sanitize (ck_Provider (rc_Modelkey rctx)) (pt_upstream p) req)) rctx = (rctx', Inr res)"
    by (rule ServeHTTP_loop [OF assms(1)])
  from attempt_loop_result [OF loop] assms(2, 3) show ?thesis
    by (auto simp: serve_settings_of_def compareConfig_def Let_def split: option.splits if_splits)
qed

theorem ServeHTTP_result_cancelled_witness: "\<not> tr_ContextLive example_result"
proof -
  let ?run = "Transport_ServeHTTP id (\<lambda>_. None) example_env example_transport example_call example_context"
  have facts: "snd ?run = Inr example_result" "\<not> tq_IsStreaming example_call" "0 < up_RequestTimeout (dt_defaultConfig example_transport)"
    by code_simp+
  from facts(1) have "?run = (fst ?run, Inr example_result)" by (simp add: prod_eq_iff)
  from ServeHTTP_result_cancelled [OF this facts(2, 3)] show ?thesis .
qed

section \<open>Replacing the clients\<close>

lemma buildProviders_entry:
  "distinct (map fst ups) \<Longrightarrow> buildProviders url_ok socks_ok cfg ups = (\<lambda>provider. case map_of ups provider of None \<Rightarrow> None
    | Some up \<Rightarrow> (case newClient url_ok socks_ok cfg up of Inl _ \<Rightarrow> None | Inr client \<Rightarrow> Some \<lparr>pt_client = client, pt_upstream = up\<rparr>))"
proof (induction ups rule: rev_induct)
  case (snoc pu ups)
  obtain p up where pu: "pu = (p, up)" by fastforce
  with snoc.prems have "map_of ups p = None" by (simp add: map_of_eq_None_iff)
  with snoc pu show ?case
    by (auto simp: buildProviders_def map_add_def fun_eq_iff split: sum.splits option.splits)
qed (simp add: buildProviders_def)

lemma replace_fold:
  "foldl (replace_step built old) (built, []) ups = (nxt, failed) \<Longrightarrow>
    failed = filter (\<lambda>p. built p = None) (map fst ups)
    \<and> nxt provider = (if provider \<in> fst ` set ups \<and> built provider = None
        then (case old of None \<Rightarrow> None | Some m \<Rightarrow> m provider) else built provider)"
proof (induction ups arbitrary: nxt failed rule: rev_induct)
  case (snoc pu ups)
  obtain n f where f: "foldl (replace_step built old) (built, []) ups = (n, f)" by fastforce
  have step: "replace_step built old (n, f) pu = (nxt, failed)" using snoc.prems f by simp
  from snoc.IH [OF f] show ?case
  proof (cases "built (fst pu)")
    case None
    with step snoc.IH [OF f] show ?thesis
      by (cases "fst pu = provider"; cases old) (force simp: replace_step_def Let_def split: option.splits)+
  next
    case (Some x)
    with step snoc.IH [OF f] show ?thesis by (cases "fst pu = provider") (auto simp: replace_step_def Let_def)
  qed
qed simp

text \<open>
  Replacing the configuration: every configured provider whose client can be built gets the new
  client, one whose client cannot be built keeps the client it had and is reported, every other
  client is dropped and its idle connections are closed.
\<close>

theorem Replace_keeps_working_clients:
  assumes "distinct (map fst ups)" "Transport_Replace url_ok socks_ok ups t = (t', failed, gone)"
  shows "\<exists>nxt. dt_providers t' = Some nxt \<and> dt_defaultConfig t' = dt_defaultConfig t
    \<and> (case map_of ups provider of None \<Rightarrow> nxt provider = None \<and> provider \<notin> set failed
       | Some up \<Rightarrow> (case newClient url_ok socks_ok (dt_defaultConfig t) up of
           Inr client \<Rightarrow> nxt provider = Some \<lparr>pt_client = client, pt_upstream = up\<rparr> \<and> provider \<notin> set failed
         | Inl _ \<Rightarrow> nxt provider = (case dt_providers t of None \<Rightarrow> None | Some m \<Rightarrow> m provider) \<and> provider \<in> set failed))
    \<and> gone provider = ((case dt_providers t of None \<Rightarrow> False | Some m \<Rightarrow> m provider \<noteq> None) \<and> provider \<notin> set failed)"
proof -
  let ?built = "buildProviders url_ok socks_ok (dt_defaultConfig t) ups"
  obtain nxt where fold: "foldl (replace_step ?built (dt_providers t)) (?built, []) ups = (nxt, failed)"
    and t': "t' = t\<lparr>dt_providers := Some nxt\<rparr>" "gone = closeDropped (dt_providers t) failed"
    using assms(2) by (auto simp: Transport_Replace_def Let_def split: prod.splits)
  note spec = replace_fold [OF fold, of provider]
  have mem: "provider \<in> set failed \<longleftrightarrow> map_of ups provider \<noteq> None \<and> ?built provider = None"
    and dom: "provider \<in> fst ` set ups \<longleftrightarrow> map_of ups provider \<noteq> None"
    using spec by (auto simp: map_of_eq_None_iff)
  note entry = fun_cong [OF buildProviders_entry [OF assms(1)], of url_ok socks_ok "dt_defaultConfig t" provider]
  show ?thesis
    by (cases "map_of ups provider"; cases "newClient url_ok socks_ok (dt_defaultConfig t) (the (map_of ups provider))")
      (use spec mem dom entry in \<open>auto simp: t' closeDropped_def split: option.splits\<close>)
qed

theorem Replace_keeps_working_clients_witness:
  "dt_providers (fst (Transport_Replace (\<lambda>_. True) (\<lambda>_. True)
       [(''openai'', example_upstream\<lparr>u_Proxy := Some \<lparr>pc_Type = ''ftp'', pc_URL = [], pc_Username = [], pc_Password = []\<rparr>\<rparr>)] example_transport))
    = dt_providers example_transport"
proof -
  let ?ups = "[(''openai'', example_upstream\<lparr>u_Proxy := Some \<lparr>pc_Type = ''ftp'', pc_URL = [], pc_Username = [], pc_Password = []\<rparr>\<rparr>)]"
  obtain t' failed gone where r: "Transport_Replace (\<lambda>_. True) (\<lambda>_. True) ?ups example_transport = (t', failed, gone)"
    by (cases "Transport_Replace (\<lambda>_. True) (\<lambda>_. True) ?ups example_transport")
  have entry: "\<exists>nxt. dt_providers t' = Some nxt \<and> nxt provider = (if provider = ''openai''
      then Some \<lparr>pt_client = example_client, pt_upstream = example_upstream\<rparr> else None)" for provider
    using Replace_keeps_working_clients [OF _ r, of provider]
    by (auto simp: newClient_def applyProxy_def Let_def example_transport_def split: if_splits)
  then obtain nxt where nxt: "dt_providers t' = Some nxt" by blast
  have "nxt = [''openai'' \<mapsto> \<lparr>pt_client = example_client, pt_upstream = example_upstream\<rparr>]"
    using entry nxt by (intro ext) auto
  with nxt show ?thesis unfolding r by (simp add: example_transport_def)
qed

section \<open>Response bodies\<close>

lemma read_all_limited:
  assumes "length data < length reads" "0 < cap" "\<forall>(buffer, ready) \<in> set reads. 0 < buffer \<and> 0 < ready"
  shows "read_all reads \<lparr>lb_data = data, lb_remaining = cap\<rparr>
    = Some (if int (length data) < cap then (data, EOF) else (take (nat cap) data, ErrResponseTooLarge))"
  using assms
proof (induction reads arbitrary: data cap)
  case (Cons br reads)
  obtain buffer ready where br: "br = (buffer, ready)" "0 < buffer" "0 < ready" using Cons.prems(3) by (cases br) auto
  define n where "n = min (min (if int buffer > cap then nat cap else buffer) ready) (length data)"
  show ?case
  proof (cases "data = []")
    case True
    then show ?thesis using br Cons.prems(2) by (simp add: limitedBody_Read_def Let_def)
  next
    case False
    then have n: "0 < n" "int n \<le> cap" "n \<le> length data" using br Cons.prems(2) by (auto simp: n_def)
    have read: "limitedBody_Read buffer ready \<lparr>lb_data = data, lb_remaining = cap\<rparr>
        = (take n data, if cap \<le> int n then Some ErrResponseTooLarge else None, \<lparr>lb_data = drop n data, lb_remaining = cap - int n\<rparr>)"
      using False Cons.prems(2) by (cases "cap < int buffer") (auto simp: limitedBody_Read_def n_def Let_def)
    show ?thesis
    proof (cases "cap \<le> int n")
      case True
      with n have "n = nat cap" "nat cap \<le> length data" by auto
      then show ?thesis using br True read by simp
    next
      case less: False
      have "read_all reads \<lparr>lb_data = drop n data, lb_remaining = cap - int n\<rparr>
        = Some (if int (length (drop n data)) < cap - int n then (drop n data, EOF)
            else (take (nat (cap - int n)) (drop n data), ErrResponseTooLarge))"
        using Cons.prems less n by (intro Cons.IH) auto
      moreover have "nat cap = n + nat (cap - int n)" using less by simp
      then have "take n data @ take (nat (cap - int n)) (drop n data) = take (nat cap) data"
        by (simp only: take_add)
      moreover have "int (length (drop n data)) < cap - int n \<longleftrightarrow> int (length data) < cap" using n(3) by auto
      ultimately show ?thesis using br(1) less read by (cases "int (length data) < cap") simp_all
    qed
  qed
qed simp



end
