(* ===== verification/OpenAI.thy ===== *)
theory OpenAI
  imports ChatTypes Credential Transport
begin

text \<open>
  The OpenAI provider (\<^verbatim>\<open>internal/providers/openai\<close>): the wire types with their conversions to and
  from the gateway's own, errors, the unary call and the reader of an event stream. The JSON library
  is an argument: its encoder may fail, its decoders may reject.
\<close>

section \<open>Wire types\<close>

record OpenAIChatCompletionRequest =
  oreq_Model :: string
  oreq_Messages :: "DiffractLLMChatMessage list"
  oreq_MaxTokens :: "int option"
  oreq_Parameters :: DiffractLLMChatParameters

definition OpenAIRequest_IsStreaming :: "OpenAIChatCompletionRequest \<Rightarrow> bool" where
  "OpenAIRequest_IsStreaming r \<longleftrightarrow> cp_Stream (oreq_Parameters r) = Some True"

record openAIChatPromptTokensDetails =
  pd_CachedTokens :: int64
  pd_CacheWriteTokens :: int64
  pd_AudioTokens :: int64
  pd_ImageTokens :: int64
  pd_TextTokens :: int64

record openAIChatCompletionTokensDetails =
  cd_ReasoningTokens :: int64
  cd_AudioTokens :: int64
  cd_TextTokens :: int64
  cd_AcceptedPredictionTokens :: int64
  cd_RejectedPredictionTokens :: int64

record OpenAIChatCompletionUsage =
  ou_PromptTokens :: int64
  ou_CompletionTokens :: int64
  ou_TotalTokens :: int64
  ou_PromptTokensDetails :: "openAIChatPromptTokensDetails option"
  ou_CompletionTokensDetails :: "openAIChatCompletionTokensDetails option"

text \<open>The member \<open>Usage\<close> of the outer struct hides the one of the embedded response.\<close>

record OpenAIChatCompletionResponse =
  ores_Response :: DiffractLLMChatCompletionResponse
  ores_Usage :: "OpenAIChatCompletionUsage option"

record OpenAIChatCompletionStreamResponse =
  osr_Response :: DiffractLLMChatCompletionStreamResponse
  osr_Usage :: "OpenAIChatCompletionUsage option"

section \<open>Conversions\<close>

definition ToDMChatCompletionUsage :: "OpenAIChatCompletionUsage option \<Rightarrow> Usage option" where
  "ToDMChatCompletionUsage ou = (case ou of None \<Rightarrow> None | Some u \<Rightarrow>
     let out0 = Usage_zero\<lparr>InputTokens := ou_PromptTokens u, OutputTokens := ou_CompletionTokens u\<rparr>;
         out1 = (case ou_PromptTokensDetails u of None \<Rightarrow> out0 | Some d \<Rightarrow>
           out0\<lparr>CachedInputTokens := pd_CachedTokens d, InputAudioTokens := pd_AudioTokens d,
             InputImageTokens := pd_ImageTokens d, CacheCreationTokens := pd_CacheWriteTokens d\<rparr>);
         out2 = (case ou_CompletionTokensDetails u of None \<Rightarrow> out1 | Some d \<Rightarrow>
           out1\<lparr>ReasoningTokens := cd_ReasoningTokens d, OutputAudioTokens := cd_AudioTokens d,
             AcceptedPredictionTokens := cd_AcceptedPredictionTokens d, RejectedPredictionTokens := cd_RejectedPredictionTokens d\<rparr>)
     in Some (out2\<lparr>TotalTokens := ou_TotalTokens u\<rparr>))"

definition ToOpenAIChatCompletionUsage :: "Usage option \<Rightarrow> OpenAIChatCompletionUsage option" where
  "ToOpenAIChatCompletionUsage usage = (case usage of None \<Rightarrow> None | Some u \<Rightarrow>
     Some \<lparr>ou_PromptTokens = InputTokens u, ou_CompletionTokens = OutputTokens u,
       ou_TotalTokens = (if TotalTokens u = 0 then wrap64 (InputTokens u + OutputTokens u) else TotalTokens u),
       ou_PromptTokensDetails =
         (if CachedInputTokens u > 0 \<or> CacheCreationTokens u > 0 \<or> InputAudioTokens u > 0 \<or> InputImageTokens u > 0
          then Some \<lparr>pd_CachedTokens = CachedInputTokens u, pd_CacheWriteTokens = CacheCreationTokens u,
            pd_AudioTokens = InputAudioTokens u, pd_ImageTokens = InputImageTokens u, pd_TextTokens = 0\<rparr> else None),
       ou_CompletionTokensDetails =
         (if ReasoningTokens u > 0 \<or> OutputAudioTokens u > 0 \<or> AcceptedPredictionTokens u > 0 \<or> RejectedPredictionTokens u > 0
          then Some \<lparr>cd_ReasoningTokens = ReasoningTokens u, cd_AudioTokens = OutputAudioTokens u, cd_TextTokens = 0,
            cd_AcceptedPredictionTokens = AcceptedPredictionTokens u, cd_RejectedPredictionTokens = RejectedPredictionTokens u\<rparr> else None)\<rparr>)"

definition ToDMChatCompletionRequest :: "OpenAIChatCompletionRequest \<Rightarrow> DiffractLLMContext
    \<Rightarrow> DiffractLLMContext \<times> DiffractLLMChatCompletionRequest" where
  "ToDMChatCompletionRequest r rctx = (rctx\<lparr>rc_RequestedModel := oreq_Model r\<rparr>,
     \<lparr>cr_Model = oreq_Model r, cr_Messages = oreq_Messages r, cr_Parameters = Some (oreq_Parameters r), cr_Raw = rc_BodyBytes rctx\<rparr>)"

definition ChatParameters_zero :: DiffractLLMChatParameters where
  "ChatParameters_zero = \<lparr>cp_Store = None, cp_ReasoningEffort = None, cp_Metadata = None, cp_FrequencyPenalty = None,
     cp_LogitBias = None, cp_LogProbs = None, cp_TopLogprobs = None, cp_MaxCompletionTokens = None, cp_Modalities = [],
     cp_Moderation = None, cp_N = None, cp_ParallelToolCalls = None, cp_PresencePenalty = None, cp_Seed = None,
     cp_ServiceTier = None, cp_Stop = [], cp_Stream = None, cp_TopP = None, cp_User = None, cp_Prediction = None,
     cp_Audio = None, cp_ResponseFormat = None, cp_StreamOptions = None, cp_Temperature = None, cp_PromptCacheKey = None,
     cp_PromptCacheOptions = None, cp_PromptCacheRetention = None, cp_WebSearchOptions = None, cp_SafetyIdentifier = None,
     cp_ToolChoice = None, cp_Tools = []\<rparr>"

definition ToOpenAIChatCompletionRequest :: "DiffractLLMChatCompletionRequest \<Rightarrow> string \<Rightarrow> OpenAIChatCompletionRequest" where
  "ToOpenAIChatCompletionRequest req model =
     \<lparr>oreq_Model = (if model = [] then cr_Model req else model), oreq_Messages = cr_Messages req, oreq_MaxTokens = None,
      oreq_Parameters = (case cr_Parameters req of Some p \<Rightarrow> p | None \<Rightarrow> ChatParameters_zero)\<rparr>"

definition ToDMChatCompletionResponse :: "OpenAIChatCompletionResponse \<Rightarrow> DiffractLLMChatCompletionResponse" where
  "ToDMChatCompletionResponse r = (ores_Response r)\<lparr>env_Usage := ToDMChatCompletionUsage (ores_Usage r)\<rparr>"

definition ToOpenAIChatCompletionResponse :: "DiffractLLMChatCompletionResponse option \<Rightarrow> OpenAIChatCompletionResponse option" where
  "ToOpenAIChatCompletionResponse res = map_option (\<lambda>r. \<lparr>ores_Response = r, ores_Usage = ToOpenAIChatCompletionUsage (env_Usage r)\<rparr>) res"

definition objectChatCompletionChunk :: string where "objectChatCompletionChunk = ''chat.completion.chunk''"

definition streamEventType :: "OpenAIChatCompletionStreamResponse \<Rightarrow> ChatStreamEventType" where
  "streamEventType c =
    (if env_Object (osr_Response c) \<noteq> objectChatCompletionChunk then StreamEventError
     else if ck_Choices (osr_Response c) = [] \<and> osr_Usage c \<noteq> None then StreamEventComplete
     else StreamEventDelta)"

definition ToDMChatCompletionStreamResponse :: "OpenAIChatCompletionStreamResponse \<Rightarrow> DiffractLLMChatCompletionStreamResponse" where
  "ToDMChatCompletionStreamResponse c =
     (osr_Response c)\<lparr>env_Usage := ToDMChatCompletionUsage (osr_Usage c), ck_Type := Some (streamEventType c)\<rparr>"

definition ToOpenAIChatCompletionStreamResponse :: "DiffractLLMChatCompletionStreamResponse option \<Rightarrow> OpenAIChatCompletionStreamResponse option" where
  "ToOpenAIChatCompletionStreamResponse c = map_option (\<lambda>c. \<lparr>osr_Response = c, osr_Usage = ToOpenAIChatCompletionUsage (env_Usage c)\<rparr>) c"

text \<open>The JSON library, on the types of this provider.\<close>

record OpenAIErrorBody =
  oe_Message :: string
  oe_Type :: string
  oe_Code :: string
  oe_Param :: string
  oe_InnerError :: string

record json_codec =
  jc_marshal_request :: "OpenAIChatCompletionRequest \<Rightarrow> string option"
  jc_unmarshal_response :: "string \<Rightarrow> OpenAIChatCompletionResponse option"
  jc_unmarshal_chunk :: "string \<Rightarrow> OpenAIChatCompletionStreamResponse option"
  jc_unmarshal_error :: "string \<Rightarrow> OpenAIErrorBody option"

text \<open>
  The body sent upstream. A streamed request asks for the usage: the options of the request are shared
  with the wire value, so an option that is present is changed in the request as well. The result
  holds the request as it is left.
\<close>

definition with_include_usage :: "ChatStreamOptions option \<Rightarrow> ChatStreamOptions" where
  "with_include_usage so = (case so of
     None \<Rightarrow> \<lparr>so_IncludeUsage = Some True, so_IncludeObfuscation = None\<rparr>
   | Some o1 \<Rightarrow> o1\<lparr>so_IncludeUsage := Some True\<rparr>)"

definition chat_wire :: "DiffractLLMChatCompletionRequest \<Rightarrow> string \<Rightarrow> bool \<Rightarrow> OpenAIChatCompletionRequest" where
  "chat_wire req model stream =
    (let wire = ToOpenAIChatCompletionRequest req model; p = oreq_Parameters wire
     in if stream then wire\<lparr>oreq_Parameters := p\<lparr>cp_Stream := Some True, cp_StreamOptions := Some (with_include_usage (cp_StreamOptions p))\<rparr>\<rparr>
        else wire)"

definition BuildChatCompletionPayload :: "json_codec \<Rightarrow> DiffractLLMChatCompletionRequest option \<Rightarrow> string \<Rightarrow> bool
    \<Rightarrow> DiffractLLMError + string \<times> DiffractLLMChatCompletionRequest" where
  "BuildChatCompletionPayload jc request model stream = (case request of
     None \<Rightarrow> Inl (NewInvalidRequestBody ''chat request is required'' None)
   | Some req \<Rightarrow>
       let shared = (if stream then map_option (\<lambda>p. p\<lparr>cp_StreamOptions := map_option (\<lambda>o1. with_include_usage (Some o1)) (cp_StreamOptions p)\<rparr>)
             (cr_Parameters req) else cr_Parameters req)
       in case jc_marshal_request jc (chat_wire req model stream) of
            None \<Rightarrow> Inl (NewInternalError ''openai'' ''marshalling chat request'' (Some ''marshal''))
          | Some body \<Rightarrow> Inr (body, req\<lparr>cr_Parameters := shared\<rparr>))"

section \<open>Errors\<close>

definition ToOpenAIError :: "DiffractLLMError option \<Rightarrow> OpenAIErrorBody option" where
  "ToOpenAIError err = map_option (\<lambda>e.
     \<lparr>oe_Message = e_Message e,
      oe_Type = (if e_ProviderErrorType e \<noteq> [] then e_ProviderErrorType e else e_Type e),
      oe_Code = (if e_ProviderErrorCode e \<noteq> [] then e_ProviderErrorCode e else ErrorCode_String (e_Code e)),
      oe_Param = (case e_Parameter e of Some p \<Rightarrow> p | None \<Rightarrow> []),
      oe_InnerError = e_ProviderErrorDetail e\<rparr>) err"

definition ParseError :: "json_codec \<Rightarrow> Provider \<Rightarrow> string \<Rightarrow> int \<Rightarrow> string \<Rightarrow> DiffractLLMError" where
  "ParseError jc provider safeURL status body =
    (let e = jc_unmarshal_error jc body;
         msg = (case e of Some x \<Rightarrow> if oe_Message x \<noteq> [] then oe_Message x else body | None \<Rightarrow> body);
         out = (NewUpstreamError provider safeURL status msg None)\<lparr>e_Message := msg\<rparr>
     in case e of None \<Rightarrow> out
        | Some x \<Rightarrow> out\<lparr>e_ProviderErrorType := oe_Type x, e_ProviderErrorCode := oe_Code x,
            e_Parameter := (if oe_Param x \<noteq> [] then Some (oe_Param x) else e_Parameter out),
            e_ProviderErrorDetail := (if oe_InnerError x \<noteq> [] \<and> oe_InnerError x \<noteq> ''null'' then oe_InnerError x
              else e_ProviderErrorDetail out)\<rparr>)"

section \<open>The connection\<close>

text \<open>
  What the upstream sends on the attempt that was answered: the bytes of the body with the sizes of
  the reads that fetch them, how the body ends (\<^const>\<open>None\<close> at its end, otherwise the error of the
  read), and how many stream events were handed over before the request was cancelled.
\<close>

record upstream_link =
  ul_sanitize :: "string \<Rightarrow> string"
  ul_builds :: "TransportRequest \<Rightarrow> string option"
  ul_env :: network_env
  ul_data :: "nat \<Rightarrow> string"
  ul_reads :: "nat \<Rightarrow> (nat \<times> nat) list"
  ul_end :: "nat \<Rightarrow> body_error option"
  ul_cancel :: "nat option"

record ChatCompletionConfig =
  cc_Provider :: Provider
  cc_URL :: string
  cc_Model :: string
  cc_Request :: "DiffractLLMChatCompletionRequest option"
  cc_Headers :: "(string \<times> string) list"

text \<open>The result of a provider call; \<^const>\<open>None\<close> is the panic of the program on a nil result.\<close>

type_synonym 'a call_result = "(DiffractLLMError + 'a) option"

text \<open>Reading a unary body to its end through the size limit.\<close>

definition read_body :: "upstream_link \<Rightarrow> TransportResult \<Rightarrow> string option" where
  "read_body link res = (case tr_Body res of
     StreamTimeoutBody d \<Rightarrow> None
   | LimitedBody limit \<Rightarrow> (if ul_end link (tr_Attempts res) \<noteq> None then None
       else case read_all (ul_reads link (tr_Attempts res)) (newLimitedBody (ul_data link (tr_Attempts res)) limit) of
         Some (data, EOF) \<Rightarrow> Some data | _ \<Rightarrow> None))"

definition chat_call :: "ChatCompletionConfig \<Rightarrow> string \<Rightarrow> bool \<Rightarrow> TransportRequest" where
  "chat_call cfg body stream = \<lparr>tq_Method = ''POST'', tq_URL = cc_URL cfg, tq_Body = body, tq_Headers = cc_Headers cfg, tq_IsStreaming = stream\<rparr>"

definition HandleChatCompletion :: "json_codec \<Rightarrow> upstream_link \<Rightarrow> DiffractLLMTransport \<Rightarrow> ChatCompletionConfig
    \<Rightarrow> DiffractLLMContext \<Rightarrow> DiffractLLMContext \<times> DiffractLLMChatCompletionResponse call_result" where
  "HandleChatCompletion jc link transport cfg rctx =
    (let safeURL = ul_sanitize link (cc_URL cfg) in
     case BuildChatCompletionPayload jc (cc_Request cfg) (cc_Model cfg) False of
       Inl derr \<Rightarrow> (rctx, Some (Inl derr))
     | Inr (body, _) \<Rightarrow>
         (case Transport_ServeHTTP (ul_sanitize link) (ul_builds link) (ul_env link) transport (chat_call cfg body False) rctx of
            (rctx1, Inl (Some derr)) \<Rightarrow> (rctx1, Some (Inl derr))
          | (rctx1, Inl None) \<Rightarrow> (rctx1, None)
          | (rctx1, Inr result) \<Rightarrow>
              (case read_body link result of
                 None \<Rightarrow> (rctx1, Some (Inl (NewUpstreamError (cc_Provider cfg) safeURL 502 ''reading response'' (Some ''read''))))
               | Some respBody \<Rightarrow>
                   if tr_Status result \<noteq> 200 then (rctx1, Some (Inl (ParseError jc (cc_Provider cfg) safeURL (tr_Status result) respBody)))
                   else case jc_unmarshal_response jc respBody of
                     None \<Rightarrow> (rctx1, Some (Inl (NewUpstreamError (cc_Provider cfg) safeURL 502 ''unmarshalling response'' (Some ''unmarshal''))))
                   | Some wire \<Rightarrow> (rctx1, Some (Inr (ToDMChatCompletionResponse
                       (wire\<lparr>ores_Response := (ores_Response wire)\<lparr>env_Raw := respBody\<rparr>\<rparr>)))))))"

section \<open>Event streams\<close>

text \<open>\<^verbatim>\<open>bufio.Scanner\<close>: the lines of the data, without their ends, up to the first that is too long for
  the buffer of 1 MiB; the flag says that there was one.\<close>

definition maxStreamLine :: nat where "maxStreamLine = 1048576"

definition drop_cr :: "string \<Rightarrow> string" where
  "drop_cr line = (if line \<noteq> [] \<and> last line = CHR 0x0D then butlast line else line)"

fun scan_lines :: "string \<Rightarrow> string \<Rightarrow> string list \<times> bool" where
  "scan_lines cur [] = (if cur = [] then ([], False) else ([drop_cr cur], False))"
| "scan_lines cur (c # cs) = (if c = newline then (case scan_lines [] cs of (ls, long) \<Rightarrow> (drop_cr cur # ls, long))
     else if length cur + 1 \<ge> maxStreamLine then ([], True)
     else scan_lines (cur @ [c]) cs)"

text \<open>\<^verbatim>\<open>bytes.TrimPrefix\<close>\<close>

definition TrimPrefix :: "string \<Rightarrow> string \<Rightarrow> string" where
  "TrimPrefix s p = (if HasPrefix s p then drop (length p) s else s)"

datatype stream_frame = FrameSkip | FrameDone | FrameError DiffractLLMError | FrameChunk DiffractLLMChatCompletionStreamResponse

definition stream_frame_of :: "json_codec \<Rightarrow> Provider \<Rightarrow> string \<Rightarrow> bool \<Rightarrow> string \<Rightarrow> stream_frame" where
  "stream_frame_of jc provider safeURL passthrough raw =
    (let line = TrimSpace raw in
     if line = [] \<or> hd line = CHR '':'' then FrameSkip
     else if \<not> HasPrefix line ''data:'' then FrameSkip
     else let delta = TrimSpace (TrimPrefix line ''data:'') in
       if delta = [] then FrameSkip
       else if delta = ''[DONE]'' then FrameDone
       else case jc_unmarshal_chunk jc delta of
         None \<Rightarrow> FrameError (NewUpstreamError provider safeURL 502 ''invalid OpenAI SSE data frame'' (Some ''unmarshal''))
       | Some wire \<Rightarrow>
           let r = osr_Response wire in
           if env_Object r \<noteq> objectChatCompletionChunk then
             (if env_Object r = [] \<and> ck_Choices r = [] \<and> ck_Error r = None then FrameSkip
              else FrameError (ParseError jc provider safeURL 502 delta))
           else let chunk = ToDMChatCompletionStreamResponse wire
             in FrameChunk (if passthrough then chunk\<lparr>env_Raw := delta\<rparr> else chunk))"

datatype stream_end = StreamClosed | StreamStopped DiffractLLMError | StreamExhausted

fun stream_loop :: "(string \<Rightarrow> stream_frame) \<Rightarrow> string list \<Rightarrow> DiffractLLMChatCompletionStreamResponse list \<times> stream_end" where
  "stream_loop frame [] = ([], StreamExhausted)"
| "stream_loop frame (line # lines) = (case frame line of
     FrameSkip \<Rightarrow> stream_loop frame lines
   | FrameDone \<Rightarrow> ([], StreamClosed)
   | FrameError e \<Rightarrow> ([], StreamStopped e)
   | FrameChunk c \<Rightarrow> (case stream_loop frame lines of (cs, e) \<Rightarrow> (c # cs, e)))"

definition StreamResponse_zero :: DiffractLLMChatCompletionStreamResponse where
  "StreamResponse_zero = \<lparr>env_ID = [], env_Object = [], env_Created = 0, env_Model = [], env_ServiceTier = None,
     env_SystemFingerprint = [], env_Metadata = None, env_Moderation = None, env_Usage = None, env_Raw = [],
     ck_Type = None, ck_Choices = [], ck_Error = None, ck_Obfuscation = None\<rparr>"

definition error_chunk :: "DiffractLLMError \<Rightarrow> DiffractLLMChatCompletionStreamResponse" where
  "error_chunk e = StreamResponse_zero\<lparr>ck_Type := Some StreamEventError, ck_Error := Some e\<rparr>"

text \<open>Everything the reader sends on the channel when the request is not cancelled.\<close>

definition stream_events :: "json_codec \<Rightarrow> Provider \<Rightarrow> string \<Rightarrow> bool \<Rightarrow> string \<Rightarrow> body_error option
    \<Rightarrow> DiffractLLMChatCompletionStreamResponse list" where
  "stream_events jc provider safeURL passthrough data ending =
    (case scan_lines [] data of (ls, long) \<Rightarrow>
     (case stream_loop (stream_frame_of jc provider safeURL passthrough) ls of
        (cs, StreamClosed) \<Rightarrow> cs
      | (cs, StreamStopped e) \<Rightarrow> cs @ [error_chunk e]
      | (cs, StreamExhausted) \<Rightarrow> cs @ [error_chunk
           (if long then NewUpstreamUnavailable provider safeURL (Some ''token too long'')
            else case ending of
              None \<Rightarrow> NewUpstreamUnavailable provider safeURL (Some ''stream ended before [DONE]'')
            | Some ErrStreamIdle \<Rightarrow> NewUpstreamTimeout provider safeURL (Some ''idle'')
            | Some _ \<Rightarrow> NewUpstreamUnavailable provider safeURL (Some ''read''))]))"

definition maxProviderErrorBodyBytes :: nat where "maxProviderErrorBodyBytes = 1048576"

definition readProviderErrorBody :: "string \<Rightarrow> body_error option \<Rightarrow> string option" where
  "readProviderErrorBody data ending =
    (let got = take (maxProviderErrorBodyBytes + 1) data in
     if length data < maxProviderErrorBodyBytes + 1 \<and> ending \<noteq> None then None
     else if length got > maxProviderErrorBodyBytes then None else Some got)"

definition HandleChatCompletionStream :: "json_codec \<Rightarrow> upstream_link \<Rightarrow> DiffractLLMTransport \<Rightarrow> ChatCompletionConfig
    \<Rightarrow> DiffractLLMContext \<Rightarrow> DiffractLLMContext \<times> DiffractLLMChatCompletionStreamResponse list call_result" where
  "HandleChatCompletionStream jc link transport cfg rctx =
    (let safeURL = ul_sanitize link (cc_URL cfg) in
     case BuildChatCompletionPayload jc (cc_Request cfg) (cc_Model cfg) True of
       Inl derr \<Rightarrow> (rctx, Some (Inl derr))
     | Inr (body, _) \<Rightarrow>
         (case Transport_ServeHTTP (ul_sanitize link) (ul_builds link) (ul_env link) transport (chat_call cfg body True) rctx of
            (rctx1, Inl (Some derr)) \<Rightarrow> (rctx1, Some (Inl derr))
          | (rctx1, Inl None) \<Rightarrow> (rctx1, None)
          | (rctx1, Inr result) \<Rightarrow>
              let data = ul_data link (tr_Attempts result); ending = ul_end link (tr_Attempts result) in
              if tr_Status result \<noteq> 200 then
                (case readProviderErrorBody data ending of
                   None \<Rightarrow> (rctx1, Some (Inl (NewUpstreamError (cc_Provider cfg) safeURL (tr_Status result)
                      ''reading streaming error response'' (Some ''read''))))
                 | Some respBody \<Rightarrow> (rctx1, Some (Inl (ParseError jc (cc_Provider cfg) safeURL (tr_Status result) respBody))))
              else let sent = stream_events jc (cc_Provider cfg) safeURL (rc_SDKProvider rctx1 = ProviderOpenAI) data ending
                in (rctx1, Some (Inr (case ul_cancel link of None \<Rightarrow> sent | Some n \<Rightarrow> take n sent)))))"

section \<open>The provider\<close>

definition PathFor :: "RequestKind \<Rightarrow> string option" where
  "PathFor kind = (if kind = ChatRequest then Some ''/v1/chat/completions'' else None)"

definition ProviderHeaders :: "bool \<Rightarrow> (string \<times> string) list" where
  "ProviderHeaders stream = [(''Content-Type'', ''application/json'')] @
     (if stream then [(''Accept'', ''text/event-stream''), (''Cache-Control'', ''no-cache'')] else [])"

text \<open>\<^verbatim>\<open>strings.TrimRight\<close> of slashes.\<close>

definition trim_slashes :: "string \<Rightarrow> string" where
  "trim_slashes s = rev (dropWhile (\<lambda>c. c = CHR ''/'') (rev s))"

definition OpenAI_endpoint :: "Credential \<Rightarrow> RequestKind \<Rightarrow> string + string" where
  "OpenAI_endpoint cred kind =
    (if c_Endpoint cred = [] then Inl ''endpoint is required''
     else case PathFor kind of None \<Rightarrow> Inl ''unsupported request kind''
       | Some path \<Rightarrow> Inr (trim_slashes (c_Endpoint cred) @ path))"

definition OpenAI_AuthInjection :: "Credential \<Rightarrow> (string \<times> string) list \<Rightarrow> string + (string \<times> string) list" where
  "OpenAI_AuthInjection cred headers = (if c_APIKey cred = [] then Inl ''missing api key''
     else Inr (headers @ [(''Authorization'', ''Bearer '' @ c_APIKey cred)]))"

definition OpenAI_chatConfig :: "(string \<Rightarrow> string) \<Rightarrow> DiffractLLMChatCompletionRequest option \<Rightarrow> Credential option \<Rightarrow> bool
    \<Rightarrow> DiffractLLMContext \<Rightarrow> DiffractLLMContext \<times> (DiffractLLMError + ChatCompletionConfig)" where
  "OpenAI_chatConfig sanitize req credential stream rctx = (case req of
     None \<Rightarrow> (rctx, Inl (NewInvalidRequestBody ''chat request is required'' None))
   | Some _ \<Rightarrow> (case credential of
       None \<Rightarrow> (rctx, Inl (NewInternalError ''openai'' ''credential is required'' None))
     | Some cred \<Rightarrow>
         let model = CheckModelAlias credential (ck_ModelName (rc_Modelkey rctx)) in
         case OpenAI_endpoint cred ChatRequest of
           Inl err \<Rightarrow> (rctx, Inl (NewInternalError ''openai'' ''building url'' (Some err)))
         | Inr url \<Rightarrow> (case OpenAI_AuthInjection cred (ProviderHeaders stream) of
             Inl err \<Rightarrow> (rctx, Inl (NewUpstreamAuth ''openai'' (sanitize url) err))
           | Inr headers \<Rightarrow> (rctx\<lparr>rc_UpstreamModel := al_ModelID model\<rparr>,
               Inr \<lparr>cc_Provider = ProviderOpenAI, cc_URL = url, cc_Model = al_ModelID model, cc_Request = req, cc_Headers = headers\<rparr>))))"

definition OpenAI_ChatCompletion :: "json_codec \<Rightarrow> upstream_link \<Rightarrow> DiffractLLMTransport \<Rightarrow> DiffractLLMChatCompletionRequest option
    \<Rightarrow> Credential option \<Rightarrow> DiffractLLMContext \<Rightarrow> DiffractLLMContext \<times> DiffractLLMChatCompletionResponse call_result" where
  "OpenAI_ChatCompletion jc link transport req cred rctx =
    (case OpenAI_chatConfig (ul_sanitize link) req cred False rctx of
       (rctx1, Inl derr) \<Rightarrow> (rctx1, Some (Inl derr))
     | (rctx1, Inr cfg) \<Rightarrow> HandleChatCompletion jc link transport cfg rctx1)"

definition OpenAI_ChatCompletionStream :: "json_codec \<Rightarrow> upstream_link \<Rightarrow> DiffractLLMTransport \<Rightarrow> DiffractLLMChatCompletionRequest option
    \<Rightarrow> Credential option \<Rightarrow> DiffractLLMContext \<Rightarrow> DiffractLLMContext \<times> DiffractLLMChatCompletionStreamResponse list call_result" where
  "OpenAI_ChatCompletionStream jc link transport req cred rctx =
    (case OpenAI_chatConfig (ul_sanitize link) req cred True rctx of
       (rctx1, Inl derr) \<Rightarrow> (rctx1, Some (Inl derr))
     | (rctx1, Inr cfg) \<Rightarrow> HandleChatCompletionStream jc link transport cfg rctx1)"

section \<open>Conversions keep their content\<close>

definition nonneg_counts :: "OpenAIChatCompletionUsage \<Rightarrow> bool" where
  "nonneg_counts u \<longleftrightarrow>
     (case ou_PromptTokensDetails u of None \<Rightarrow> True | Some d \<Rightarrow> 0 \<le> pd_CachedTokens d \<and> 0 \<le> pd_CacheWriteTokens d
        \<and> 0 \<le> pd_AudioTokens d \<and> 0 \<le> pd_ImageTokens d)
   \<and> (case ou_CompletionTokensDetails u of None \<Rightarrow> True | Some d \<Rightarrow> 0 \<le> cd_ReasoningTokens d \<and> 0 \<le> cd_AudioTokens d
        \<and> 0 \<le> cd_AcceptedPredictionTokens d \<and> 0 \<le> cd_RejectedPredictionTokens d)
   \<and> (ou_TotalTokens u = 0 \<longrightarrow> wrap64 (ou_PromptTokens u + ou_CompletionTokens u) = 0)"

text \<open>
  Token counts survive the gateway: what an upstream reports, converted to the gateway's usage, sent to
  the client in the wire format and read again, is the same usage.
\<close>

theorem usage_round_trip:
  assumes "nonneg_counts u"
  shows "ToDMChatCompletionUsage (ToOpenAIChatCompletionUsage (ToDMChatCompletionUsage (Some u))) = ToDMChatCompletionUsage (Some u)"
  using assms
  by (cases "ou_PromptTokensDetails u"; cases "ou_CompletionTokensDetails u")
    (auto simp: ToDMChatCompletionUsage_def ToOpenAIChatCompletionUsage_def nonneg_counts_def Usage_zero_def Let_def)

definition example_wire_usage :: OpenAIChatCompletionUsage where
  "example_wire_usage = \<lparr>ou_PromptTokens = 12, ou_CompletionTokens = 30, ou_TotalTokens = 42,
     ou_PromptTokensDetails = Some \<lparr>pd_CachedTokens = 4, pd_CacheWriteTokens = 0, pd_AudioTokens = 0, pd_ImageTokens = 0, pd_TextTokens = 8\<rparr>,
     ou_CompletionTokensDetails = None\<rparr>"

theorem usage_round_trip_witness:
  "ToDMChatCompletionUsage (ToOpenAIChatCompletionUsage (ToDMChatCompletionUsage (Some example_wire_usage)))
    = ToDMChatCompletionUsage (Some example_wire_usage)"
  by (rule usage_round_trip) (simp add: nonneg_counts_def example_wire_usage_def)

text \<open>
  Whatever service tier a request asks for and a response reports, the usage it is billed by is that of
  the standard tier.
\<close>

theorem usage_always_standard_tier:
  "pred_option (\<lambda>us. Tier us = TierStandard \<and> CacheLongTTL us = False) (ToDMChatCompletionUsage u)"
  by (cases u) (auto simp: ToDMChatCompletionUsage_def Usage_zero_def Let_def split: option.split)


section \<open>Streams are read back\<close>

lemma stream_loop_shape:
  "FrameChunk ` set (fst (stream_loop frame ls)) \<subseteq> frame ` set ls
    \<and> (case snd (stream_loop frame ls) of StreamClosed \<Rightarrow> FrameDone \<in> frame ` set ls
       | StreamStopped err \<Rightarrow> FrameError err \<in> frame ` set ls
       | StreamExhausted \<Rightarrow> FrameDone \<notin> frame ` set ls \<and> FrameError err0 \<notin> frame ` set ls
           \<and> map FrameChunk (fst (stream_loop frame ls)) = filter (\<lambda>f. f \<noteq> FrameSkip) (map frame ls))"
proof (induction ls)
  case (Cons l ls)
  obtain cs e where r: "stream_loop frame ls = (cs, e)" by fastforce
  show ?case
  proof (cases "frame l")
    case (FrameChunk c)
    with Cons.IH r show ?thesis by (cases e) auto
  qed (use Cons.IH r in \<open>cases e; auto\<close>)+
qed simp

lemma stream_frame_chunk_type:
  "stream_frame_of jc provider safeURL pt l = FrameChunk c \<Longrightarrow> ck_Type c \<noteq> Some StreamEventError"
  by (auto simp: stream_frame_of_def Let_def ToDMChatCompletionStreamResponse_def streamEventType_def
      split: if_splits option.splits)

lemmas upstream_error_defs = NewUpstreamError_def NewUpstreamUnavailable_def NewUpstreamTimeout_def

lemma ParseError_provider: "IsProvider (ParseError jc provider safeURL status body) \<and> e_StatusCode (ParseError jc provider safeURL status body) = status"
  by (auto simp: ParseError_def Let_def IsProvider_def NewUpstreamError_def split: option.split)

lemma stream_frame_error_provider:
  "stream_frame_of jc provider safeURL pt l = FrameError e \<Longrightarrow> IsProvider e \<and> e_StatusCode e = 502"
  using ParseError_provider
  by (auto simp: stream_frame_of_def Let_def NewUpstreamError_def IsProvider_def split: if_splits option.splits)

lemma stream_events_shape:
  "\<exists>cs tail. stream_events jc provider safeURL pt data ending = cs @ tail
     \<and> list_all (\<lambda>c. ck_Type c \<noteq> Some StreamEventError) cs
     \<and> (tail = [] \<and> FrameDone \<in> stream_frame_of jc provider safeURL pt ` set (fst (scan_lines [] data))
        \<or> (\<exists>e. tail = [error_chunk e] \<and> IsProvider e))"
proof -
  let ?f = "stream_frame_of jc provider safeURL pt"
  obtain ls long where sc: "scan_lines [] data = (ls, long)" by fastforce
  obtain cs e where lp: "stream_loop ?f ls = (cs, e)" by fastforce
  note shape = stream_loop_shape [of ?f ls DiffractLLMError_zero, unfolded lp fst_conv snd_conv]
  have cs: "list_all (\<lambda>c. ck_Type c \<noteq> Some StreamEventError) cs"
    using shape by (auto simp: list_all_iff dest!: stream_frame_chunk_type [OF sym])
  have broken: ?thesis if "stream_events jc provider safeURL pt data ending = cs @ [error_chunk err]" "IsProvider err" for err
    using that cs by blast
  show ?thesis
  proof (cases e)
    case StreamClosed
    with cs shape show ?thesis by (auto simp: stream_events_def sc lp)
  next
    case (StreamStopped err)
    with shape have "FrameError err \<in> ?f ` set ls" by simp
    then obtain l where "?f l = FrameError err" by (metis imageE)
    from stream_frame_error_provider [OF this] have "IsProvider err" by simp
    with StreamStopped show ?thesis by (intro broken) (simp_all add: stream_events_def sc lp)
  next
    case StreamExhausted
    have "IsProvider (if long then NewUpstreamUnavailable provider safeURL (Some ''token too long'')
            else case ending of
              None \<Rightarrow> NewUpstreamUnavailable provider safeURL (Some ''stream ended before [DONE]'')
            | Some ErrStreamIdle \<Rightarrow> NewUpstreamTimeout provider safeURL (Some ''idle'')
            | Some _ \<Rightarrow> NewUpstreamUnavailable provider safeURL (Some ''read''))"
      by (auto simp: IsProvider_def upstream_error_defs split: option.split body_error.split)
    with StreamExhausted show ?thesis by (intro broken) (simp_all add: stream_events_def sc lp)
  qed
qed

text \<open>
  C15: What the reader of an event stream hands over: chunks of the stream, and then either nothing, when
  the upstream sent its end marker, or exactly one error of the provider. A stream that breaks off, is
  idle too long, has a line that is too long or a frame that cannot be read never looks complete.
\<close>

theorem truncated_stream_reported:
  "\<exists>cs tail. stream_events jc provider safeURL pt data ending = cs @ tail
     \<and> list_all (\<lambda>c. ck_Type c \<noteq> Some StreamEventError) cs
     \<and> (tail = [] \<and> FrameDone \<in> stream_frame_of jc provider safeURL pt ` set (fst (scan_lines [] data))
        \<or> (\<exists>e. tail = [error_chunk e] \<and> IsProvider e))"
  by (rule stream_events_shape)

lemma scan_lines_line:
  "newline \<notin> set l \<Longrightarrow> length cur + length l < maxStreamLine \<Longrightarrow>
    scan_lines cur (l @ newline # rest) = (case scan_lines [] rest of (ls, long) \<Rightarrow> (drop_cr (cur @ l) # ls, long))"
  by (induction l arbitrary: cur) auto

text \<open>A payload that fits on a line of its own: not empty, without line breaks, no white space at its ends.\<close>

definition line_payload :: "string \<Rightarrow> bool" where
  "line_payload p \<longleftrightarrow> p \<noteq> [] \<and> newline \<notin> set p \<and> \<not> is_space (hd p) \<and> \<not> is_space (last p) \<and> length p + 6 < maxStreamLine"

lemma line_payload_trim: "line_payload p \<Longrightarrow> TrimSpace p = p" "line_payload p \<Longrightarrow> drop_cr p = p"
  "line_payload p \<Longrightarrow> line_payload (q @ p) \<Longrightarrow> drop_cr (q @ p) = q @ p"
proof -
  have cr: "is_space (CHR 0x0D)" by (simp add: is_space_def)
  show "TrimSpace p = p" if "line_payload p"
  proof -
    have "dropWhile is_space p = p" using that by (cases p) (auto simp: line_payload_def)
    moreover have "dropWhile is_space (rev p) = rev p" using that by (cases p rule: rev_cases) (auto simp: line_payload_def)
    ultimately show ?thesis by (simp add: TrimSpace_def)
  qed
  show "drop_cr p = p" if "line_payload p" for p using that cr by (auto simp: drop_cr_def line_payload_def)
  then show "line_payload p \<Longrightarrow> line_payload (q @ p) \<Longrightarrow> drop_cr (q @ p) = q @ p" by blast
qed

lemma scan_sse_frames:
  assumes "line_payload p"
  shows "scan_lines [] (sse_frame [] p @ rest) = (case scan_lines [] rest of (ls, long) \<Rightarrow> ((''data: '' @ p) # [] # ls, long))"
proof -
  have nl: "newline \<notin> set ''data: ''" by code_simp
  have "drop_cr (''data: '' @ p) = ''data: '' @ p"
    using assms by (auto simp: drop_cr_def line_payload_def is_space_def)
  moreover have "scan_lines [] ((''data: '' @ p) @ newline # newline # rest)
      = (case scan_lines [] (newline # rest) of (ls, long) \<Rightarrow> (drop_cr ([] @ ''data: '' @ p) # ls, long))"
    using assms nl by (intro scan_lines_line) (auto simp: line_payload_def)
  ultimately show ?thesis by (simp add: sse_frame_def drop_cr_def split: prod.split)
qed

lemma stream_frame_payload:
  assumes "line_payload p"
  shows "stream_frame_of jc provider safeURL pt (''data: '' @ p) =
    (if p = ''[DONE]'' then FrameDone
     else case jc_unmarshal_chunk jc p of
         None \<Rightarrow> FrameError (NewUpstreamError provider safeURL 502 ''invalid OpenAI SSE data frame'' (Some ''unmarshal''))
       | Some wire \<Rightarrow>
           if env_Object (osr_Response wire) \<noteq> objectChatCompletionChunk then
             (if env_Object (osr_Response wire) = [] \<and> ck_Choices (osr_Response wire) = [] \<and> ck_Error (osr_Response wire) = None then FrameSkip
              else FrameError (ParseError jc provider safeURL 502 p))
           else FrameChunk (if pt then (ToDMChatCompletionStreamResponse wire)\<lparr>env_Raw := p\<rparr> else ToDMChatCompletionStreamResponse wire))"
proof -
  have "dropWhile is_space (rev (''data: '' @ p)) = rev (''data: '' @ p)"
    using assms by (cases p rule: rev_cases) (auto simp: line_payload_def)
  then have t: "TrimSpace (''data: '' @ p) = ''data: '' @ p" by (simp add: TrimSpace_def is_space_def)
  have "dropWhile is_space (CHR '' '' # p) = p" using assms by (cases p) (auto simp: line_payload_def is_space_def)
  moreover have "dropWhile is_space (rev p) = rev p" using assms by (cases p rule: rev_cases) (auto simp: line_payload_def)
  ultimately have "TrimSpace (CHR '' '' # p) = p" by (simp add: TrimSpace_def)
  then have delta: "TrimSpace (TrimPrefix (''data: '' @ p) ''data:'') = p" by (simp add: TrimPrefix_def HasPrefix_def)
  have start: "''data: '' @ p \<noteq> []" "hd (''data: '' @ p) \<noteq> CHR '':''" "HasPrefix (''data: '' @ p) ''data:''" "p \<noteq> []"
    using assms by (simp_all add: HasPrefix_def line_payload_def)
  show ?thesis unfolding stream_frame_of_def Let_def t delta
    by (simp only: start simp_thms if_True if_False)
qed

lemma DONE_payload: "line_payload ''[DONE]''"
proof -
  have "newline \<notin> set ''[DONE]''" "\<not> is_space (CHR ''['')" "\<not> is_space (CHR '']'')" by code_simp+
  then show ?thesis by (simp add: line_payload_def maxStreamLine_def)
qed

lemma stream_skip_blank: "stream_frame_of jc provider safeURL pt [] = FrameSkip"
  by (simp add: stream_frame_of_def TrimSpace_Nil)

lemma stream_events_payloads:
  assumes "\<forall>p \<in> set ps. line_payload p \<and> p \<noteq> ''[DONE]''
    \<and> (\<exists>wire. jc_unmarshal_chunk jc p = Some wire \<and> env_Object (osr_Response wire) = objectChatCompletionChunk)"
  shows "stream_events jc provider safeURL False (concat (map (sse_frame []) ps) @ sse_frame [] ''[DONE]'') ending
    = map (\<lambda>p. ToDMChatCompletionStreamResponse (the (jc_unmarshal_chunk jc p))) ps"
proof -
  let ?f = "stream_frame_of jc provider safeURL False"
  let ?data = "\<lambda>ps. concat (map (sse_frame []) ps) @ sse_frame [] ''[DONE]''"
  have done_frame: "?f (''data: '' @ ''[DONE]'') = FrameDone" by (simp only: stream_frame_payload [OF DONE_payload] if_True simp_thms)
  have "\<exists>long. scan_lines [] (?data ps) = (concat (map (\<lambda>p. [''data: '' @ p, []]) (ps @ [''[DONE]''])), long)
      \<and> stream_loop ?f (concat (map (\<lambda>p. [''data: '' @ p, []]) (ps @ [''[DONE]''])))
          = (map (\<lambda>p. ToDMChatCompletionStreamResponse (the (jc_unmarshal_chunk jc p))) ps, StreamClosed)"
    using assms
  proof (induction ps)
    case Nil
    show ?case using scan_sse_frames [OF DONE_payload, of "[]"] done_frame by auto
  next
    case (Cons p ps)
    then obtain wire where p: "line_payload p" "p \<noteq> ''[DONE]''" "jc_unmarshal_chunk jc p = Some wire"
      "env_Object (osr_Response wire) = objectChatCompletionChunk" by auto
    have "?f (''data: '' @ p) = FrameChunk (ToDMChatCompletionStreamResponse wire)"
      using p by (simp only: stream_frame_payload [OF p(1)]) simp
    moreover have "scan_lines [] (?data (p # ps)) = (case scan_lines [] (?data ps) of (ls, long) \<Rightarrow> ((''data: '' @ p) # [] # ls, long))"
      using scan_sse_frames [OF p(1), of "?data ps"] by simp
    ultimately show ?case using Cons.IH Cons.prems p(3) stream_skip_blank [of jc provider safeURL False] by auto
  qed
  then show ?thesis by (auto simp: stream_events_def)
qed


definition example_codec :: json_codec where
  "example_codec = \<lparr>jc_marshal_request = \<lambda>r. Some (oreq_Model r), jc_unmarshal_response = \<lambda>_. None,
     jc_unmarshal_chunk = \<lambda>p. Some \<lparr>osr_Response = StreamResponse_zero\<lparr>env_ID := p, env_Object := objectChatCompletionChunk\<rparr>, osr_Usage = None\<rparr>,
     jc_unmarshal_error = \<lambda>_. None\<rparr>"


section \<open>Calls\<close>

text \<open>A call to the upstream changes only what the context records about the upstream.\<close>

definition upstream_only :: "DiffractLLMContext \<Rightarrow> DiffractLLMContext \<Rightarrow> bool" where
  "upstream_only rc rc' \<longleftrightarrow> rc' = rc\<lparr>rc_UpstreamStatus := rc_UpstreamStatus rc', rc_UpstreamAttempts := rc_UpstreamAttempts rc',
     rc_TTFB := rc_TTFB rc', rc_UpstreamModel := rc_UpstreamModel rc', rc_Marks := rc_Marks rc', rc_metadata := rc_metadata rc'\<rparr>"

lemma upstream_only_refl: "upstream_only rc rc"
  by (simp add: upstream_only_def)

lemma upstream_only_trans: "upstream_only a b \<Longrightarrow> upstream_only b c \<Longrightarrow> upstream_only a c"
  by (cases a; cases b; cases c) (simp add: upstream_only_def)

lemma upstream_only_updates:
  "upstream_only rc (rc\<lparr>rc_UpstreamStatus := s\<rparr>)" "upstream_only rc (rc\<lparr>rc_UpstreamAttempts := n\<rparr>)" "upstream_only rc (rc\<lparr>rc_TTFB := d\<rparr>)"
  "upstream_only rc (rc\<lparr>rc_UpstreamModel := m\<rparr>)" "upstream_only rc (rc\<lparr>rc_metadata := x\<rparr>)" "upstream_only rc (Mark now st rc)"
  by (cases rc; simp add: upstream_only_def Mark_def)+

lemma upstream_only_capture: "upstream_only rc (captureResponseHeaders h rc)"
proof -
  have "upstream_only rc (foldl (\<lambda>rc (name, key). let v = Header_Get name h in if v \<noteq> [] then Context_Overwrite key v rc else rc) rc xs)" for xs
    by (induction xs rule: rev_induct)
      (auto simp: Let_def Context_Overwrite_def upstream_only_refl intro: upstream_only_trans upstream_only_updates split: prod.split)
  then show ?thesis by (simp add: captureResponseHeaders_def)
qed

lemma attempt_loop_upstream_only: "upstream_only rctx (fst (attempt_loop env st a n rctx))"
proof (induction n arbitrary: a rctx)
  case (Suc n)
  let ?r1 = "rctx\<lparr>rc_UpstreamAttempts := int a\<rparr>"
  have r1: "upstream_only rctx ?r1" by (rule upstream_only_updates)
  have r2: "upstream_only rctx (?r1\<lparr>rc_UpstreamStatus := s\<rparr>)" for s by (rule upstream_only_trans [OF r1 upstream_only_updates(1)])
  have r3: "upstream_only rctx (captureResponseHeaders h (Mark now StageUpstream (?r1\<lparr>rc_UpstreamStatus := s, rc_TTFB := d\<rparr>)))" for h now s d
    using upstream_only_trans [OF r2 upstream_only_updates(3)]
    by (intro upstream_only_trans [OF _ upstream_only_capture] upstream_only_trans [OF _ upstream_only_updates(6)])
  from r1 r2 r3 upstream_only_trans [OF r1 Suc.IH] upstream_only_trans [OF r2 Suc.IH]
  show ?case by (simp add: Let_def split: do_result.split)
qed (simp add: upstream_only_refl)

lemma ServeHTTP_upstream_only: "upstream_only rctx (fst (Transport_ServeHTTP sanitize builds env t req rctx))"
  using attempt_loop_upstream_only upstream_only_updates(2)
  by (auto simp: Transport_ServeHTTP_def Let_def upstream_only_refl split: option.split)

lemma ServeHTTP_not_nil:
  assumes "0 \<le> up_MaxRetries (dt_defaultConfig t)"
  shows "snd (Transport_ServeHTTP sanitize builds env t req rctx) \<noteq> Inl None"
proof -
  have pos: "0 < ss_maxAttempts (serve_settings_of (dt_defaultConfig t) sanitize provider up req)" for provider up
    using assms by (auto simp: serve_settings_of_def Let_def split: option.split)
  have "snd (attempt_loop env st a n rctx) \<noteq> Inl None" if "0 < n" for st a n
    using attempt_loop_error [of env st a n rctx "fst (attempt_loop env st a n rctx)" None] that by (metis option.distinct(1) prod.collapse)
  with pos show ?thesis by (auto simp: Transport_ServeHTTP_def Let_def split: option.split)
qed

lemma HandleChatCompletion_upstream_only: "upstream_only rctx (fst (HandleChatCompletion jc link transport cfg rctx))"
  using ServeHTTP_upstream_only [of rctx "ul_sanitize link" "ul_builds link" "ul_env link" transport]
  by (auto simp: HandleChatCompletion_def Let_def upstream_only_refl split: sum.split prod.split option.split) (metis fst_conv)+

lemma HandleChatCompletionStream_upstream_only: "upstream_only rctx (fst (HandleChatCompletionStream jc link transport cfg rctx))"
  using ServeHTTP_upstream_only [of rctx "ul_sanitize link" "ul_builds link" "ul_env link" transport]
  by (auto simp: HandleChatCompletionStream_def Let_def upstream_only_refl split: sum.split prod.split option.split) (metis fst_conv)+

lemma HandleChatCompletion_returns:
  "0 \<le> up_MaxRetries (dt_defaultConfig transport) \<Longrightarrow> snd (HandleChatCompletion jc link transport cfg rctx) \<noteq> None"
  using ServeHTTP_not_nil [of transport "ul_sanitize link" "ul_builds link" "ul_env link" _ rctx]
  by (auto simp: HandleChatCompletion_def Let_def split: sum.split prod.split option.split) (metis snd_conv)+

lemma HandleChatCompletionStream_returns:
  "0 \<le> up_MaxRetries (dt_defaultConfig transport) \<Longrightarrow> snd (HandleChatCompletionStream jc link transport cfg rctx) \<noteq> None"
  using ServeHTTP_not_nil [of transport "ul_sanitize link" "ul_builds link" "ul_env link" _ rctx]
  by (auto simp: HandleChatCompletionStream_def Let_def split: sum.split prod.split option.split) (metis snd_conv)+

lemma attempt_loop_status:
  "attempt_loop env st a n rctx = (rctx', Inr res) \<Longrightarrow> rc_UpstreamStatus rctx' = tr_Status res"
proof (induction n arbitrary: a rctx)
  case (Suc n)
  have "rc_UpstreamStatus (captureResponseHeaders h rc) = rc_UpstreamStatus rc" for h rc
  proof -
    have "rc_UpstreamStatus (foldl (\<lambda>rc (name, key). let v = Header_Get name h in if v \<noteq> [] then Context_Overwrite key v rc else rc) rc xs)
      = rc_UpstreamStatus rc" for xs
      by (induction xs arbitrary: rc) (auto simp: Let_def Context_Overwrite_def)
    then show ?thesis by (simp add: captureResponseHeaders_def)
  qed
  with Suc show ?case by (auto simp: Let_def Mark_def split: do_result.splits if_splits)
qed simp

lemma ServeHTTP_status:
  assumes "Transport_ServeHTTP sanitize builds env t req rctx = (rctx', Inr res)"
  shows "rc_UpstreamStatus rctx' = tr_Status res"
  using assms attempt_loop_status by (auto simp: Transport_ServeHTTP_def Let_def split: option.splits if_splits)

lemma HandleChatCompletion_answer:
  assumes "HandleChatCompletion jc link transport cfg rctx = (rctx', Some (Inr res))"
  shows "rc_UpstreamStatus rctx' = 200 \<and> (\<exists>wire. jc_unmarshal_response jc (env_Raw res) = Some wire
    \<and> env_Usage res = ToDMChatCompletionUsage (ores_Usage wire) \<and> res_Choices res = res_Choices (ores_Response wire))"
  using assms ServeHTTP_status
  by (auto simp: HandleChatCompletion_def ToDMChatCompletionResponse_def Let_def split: sum.splits prod.splits option.splits if_splits)

text \<open>A call through the configuration step of a provider.\<close>

definition chat_with :: "(DiffractLLMChatCompletionRequest option \<Rightarrow> Credential option \<Rightarrow> bool \<Rightarrow> DiffractLLMContext
    \<Rightarrow> DiffractLLMContext \<times> (DiffractLLMError + ChatCompletionConfig)) \<Rightarrow> json_codec \<Rightarrow> upstream_link \<Rightarrow> DiffractLLMTransport
    \<Rightarrow> DiffractLLMChatCompletionRequest option \<Rightarrow> Credential option \<Rightarrow> DiffractLLMContext
    \<Rightarrow> DiffractLLMContext \<times> DiffractLLMChatCompletionResponse call_result" where
  "chat_with config jc link transport req cred rctx = (case config req cred False rctx of
       (rctx1, Inl derr) \<Rightarrow> (rctx1, Some (Inl derr))
     | (rctx1, Inr cfg) \<Rightarrow> HandleChatCompletion jc link transport cfg rctx1)"

definition stream_with :: "(DiffractLLMChatCompletionRequest option \<Rightarrow> Credential option \<Rightarrow> bool \<Rightarrow> DiffractLLMContext
    \<Rightarrow> DiffractLLMContext \<times> (DiffractLLMError + ChatCompletionConfig)) \<Rightarrow> json_codec \<Rightarrow> upstream_link \<Rightarrow> DiffractLLMTransport
    \<Rightarrow> DiffractLLMChatCompletionRequest option \<Rightarrow> Credential option \<Rightarrow> DiffractLLMContext
    \<Rightarrow> DiffractLLMContext \<times> DiffractLLMChatCompletionStreamResponse list call_result" where
  "stream_with config jc link transport req cred rctx = (case config req cred True rctx of
       (rctx1, Inl derr) \<Rightarrow> (rctx1, Some (Inl derr))
     | (rctx1, Inr cfg) \<Rightarrow> HandleChatCompletionStream jc link transport cfg rctx1)"

text \<open>
  The contract of a provider that talks the OpenAI protocol: how it turns a request and a credential
  into the call it makes. Whatever fails before the call leaves the context alone, and a call that is made
  carries the request it was given and records the model that is asked for.
\<close>

locale chat_provider =
  fixes config :: "DiffractLLMChatCompletionRequest option \<Rightarrow> Credential option \<Rightarrow> bool \<Rightarrow> DiffractLLMContext
    \<Rightarrow> DiffractLLMContext \<times> (DiffractLLMError + ChatCompletionConfig)"
  assumes config_error: "config req cred stream rctx = (rctx', Inl e) \<Longrightarrow> rctx' = rctx \<and> 400 \<le> e_StatusCode e"
    and config_call: "config req cred stream rctx = (rctx', Inr cfg) \<Longrightarrow>
      rctx' = rctx\<lparr>rc_UpstreamModel := cc_Model cfg\<rparr> \<and> cc_Request cfg = req \<and> req \<noteq> None
      \<and> cc_Model cfg = al_ModelID (CheckModelAlias cred (ck_ModelName (rc_Modelkey rctx)))"
begin

lemma config_upstream_only: "upstream_only rctx (fst (config req cred stream rctx))"
proof (cases "config req cred stream rctx")
  case (Pair r x)
  then show ?thesis
    by (cases x) (auto dest: config_error config_call simp: upstream_only_refl intro: upstream_only_updates(4))
qed

lemma chat_upstream_only: "upstream_only rctx (fst (chat_with config jc link transport req cred rctx))"
proof (cases "config req cred False rctx")
  case (Pair r x)
  with config_upstream_only [of rctx req cred False] have r: "upstream_only rctx r" by simp
  from upstream_only_trans [OF r HandleChatCompletion_upstream_only] r Pair show ?thesis
    by (cases x) (simp_all add: chat_with_def)
qed

lemma stream_upstream_only: "upstream_only rctx (fst (stream_with config jc link transport req cred rctx))"
proof (cases "config req cred True rctx")
  case (Pair r x)
  with config_upstream_only [of rctx req cred True] have r: "upstream_only rctx r" by simp
  from upstream_only_trans [OF r HandleChatCompletionStream_upstream_only] r Pair show ?thesis
    by (cases x) (simp_all add: stream_with_def)
qed

lemma chat_returns: "0 \<le> up_MaxRetries (dt_defaultConfig transport) \<Longrightarrow> snd (chat_with config jc link transport req cred rctx) \<noteq> None"
  using HandleChatCompletion_returns [of transport jc link] by (simp add: chat_with_def split: prod.split sum.split)

lemma stream_returns: "0 \<le> up_MaxRetries (dt_defaultConfig transport) \<Longrightarrow> snd (stream_with config jc link transport req cred rctx) \<noteq> None"
  using HandleChatCompletionStream_returns [of transport jc link] by (simp add: stream_with_def split: prod.split sum.split)

lemma chat_answer:
  assumes "chat_with config jc link transport req cred rctx = (rctx', Some (Inr res))"
  shows "rc_UpstreamStatus rctx' = 200 \<and> (\<exists>wire. jc_unmarshal_response jc (env_Raw res) = Some wire
    \<and> env_Usage res = ToDMChatCompletionUsage (ores_Usage wire) \<and> res_Choices res = res_Choices (ores_Response wire))"
  using assms HandleChatCompletion_answer [of jc link transport]
  by (auto simp: chat_with_def split: prod.splits sum.splits)

end

lemma OpenAI_calls:
  "OpenAI_ChatCompletion jc link = chat_with (OpenAI_chatConfig (ul_sanitize link)) jc link"
  "OpenAI_ChatCompletionStream jc link = stream_with (OpenAI_chatConfig (ul_sanitize link)) jc link"
  by (simp_all add: fun_eq_iff OpenAI_ChatCompletion_def OpenAI_ChatCompletionStream_def chat_with_def stream_with_def)

interpretation openai: chat_provider "OpenAI_chatConfig sanitize" for sanitize
proof unfold_locales
  fix req cred stream rctx rctx' e
  assume "OpenAI_chatConfig sanitize req cred stream rctx = (rctx', Inl e)"
  then show "rctx' = rctx \<and> 400 \<le> e_StatusCode e"
    by (auto simp: OpenAI_chatConfig_def Let_def NewInvalidRequestBody_def NewInternalError_def NewUpstreamAuth_def
        split: option.splits sum.splits)
next
  fix req cred stream rctx rctx' cfg
  assume "OpenAI_chatConfig sanitize req cred stream rctx = (rctx', Inr cfg)"
  then show "rctx' = rctx\<lparr>rc_UpstreamModel := cc_Model cfg\<rparr> \<and> cc_Request cfg = req \<and> req \<noteq> None
      \<and> cc_Model cfg = al_ModelID (CheckModelAlias cred (ck_ModelName (rc_Modelkey rctx)))"
    by (auto simp: OpenAI_chatConfig_def Let_def split: option.splits sum.splits)
qed

end
