(* ===== verification/KeyFormat.thy ===== *)
theory KeyFormat
  imports CoreTypes
begin

text \<open>
  Virtual key strings (\<^verbatim>\<open>internal/core/virtualkey-format.go\<close>): base 62 digits, the CRC-32 checksum
  of \<^verbatim>\<open>hash/crc32\<close>, the SHA-256 digest of \<^verbatim>\<open>crypto/sha256\<close>, the generation of a key from 14
  random bytes and the offline validation of a presented key. Bytes are characters; the random
  source is an argument, \<^const>\<open>None\<close> when reading it fails.
\<close>

section \<open>Base 62\<close>

definition base62Chars :: string where
  "base62Chars = ''0123456789ABCDEFGHIJKLMNOPQRSTUVWXYZabcdefghijklmnopqrstuvwxyz''"

fun base62_loop :: "nat \<Rightarrow> nat \<Rightarrow> string \<Rightarrow> string" where
  "base62_loop n 0 result = result"
| "base62_loop n (Suc k) result = base62_loop (n div 62) k (result @ [base62Chars ! (n mod 62)])"

definition base62Encode :: "nat \<Rightarrow> nat \<Rightarrow> string" where
  "base62Encode n len = rev (base62_loop n len [])"

definition isBase62Char :: "char \<Rightarrow> bool" where
  "isBase62Char c = (let n = (of_char c :: nat) in
     (48 \<le> n \<and> n \<le> 57) \<or> (65 \<le> n \<and> n \<le> 90) \<or> (97 \<le> n \<and> n \<le> 122))"

section \<open>Checksum and digest\<close>

definition crc_bit :: "32 word \<Rightarrow> 32 word" where
  "crc_bit c = (if bit c 0 then drop_bit 1 c XOR 0xEDB88320 else drop_bit 1 c)"

definition crc_byte :: "32 word \<Rightarrow> char \<Rightarrow> 32 word" where
  "crc_byte c b = (crc_bit ^^ 8) (c XOR of_char b)"

definition ChecksumIEEE :: "string \<Rightarrow> 32 word" where
  "ChecksumIEEE s = NOT (foldl crc_byte 0xFFFFFFFF s)"

text \<open>The constants of SHA-256 are the first 32 bits of the fractional parts of the cube roots of the
  first 64 primes and of the square roots of the first eight; integer roots are found bit by bit.\<close>

fun root_bits :: "nat \<Rightarrow> nat \<Rightarrow> int \<Rightarrow> int \<Rightarrow> int" where
  "root_bits e 0 n r = r"
| "root_bits e (Suc b) n r = root_bits e b n (if (r + 2 ^ b) ^ e \<le> n then r + 2 ^ b else r)"

definition root_fraction :: "nat \<Rightarrow> nat \<Rightarrow> 32 word" where
  "root_fraction e p = word_of_int (root_bits e 40 (int p * 2 ^ (32 * e)) 0)"

definition small_primes :: "nat list" where
  "small_primes = filter (\<lambda>p. list_all (\<lambda>d. p mod d \<noteq> 0) [2..<p]) [2..<312]"

definition sha_k :: "32 word list" where
  "sha_k = map (root_fraction 3) small_primes"

definition sha_init :: "32 word list" where
  "sha_init = map (root_fraction 2) (take 8 small_primes)"

definition rotr :: "nat \<Rightarrow> 32 word \<Rightarrow> 32 word" where
  "rotr n x = drop_bit n x OR push_bit (32 - n) x"

definition sha_pad :: "string \<Rightarrow> string" where
  "sha_pad s = (let n = length s; z = (119 - n mod 64) mod 64 in
     s @ [char_of (128 :: nat)] @ replicate z (char_of (0 :: nat))
       @ map (\<lambda>i. char_of ((8 * n div 256 ^ (7 - i)) mod 256)) [0..<8])"

fun words_of :: "string \<Rightarrow> 32 word list" where
  "words_of (a # b # c # d # rest) =
     (push_bit 24 (of_char a) OR push_bit 16 (of_char b) OR push_bit 8 (of_char c) OR of_char d) # words_of rest"
| "words_of _ = []"

definition sha_sched_step :: "32 word list \<Rightarrow> nat \<Rightarrow> 32 word list" where
  "sha_sched_step w i =
     (let s0 = rotr 7 (w ! (i - 15)) XOR rotr 18 (w ! (i - 15)) XOR drop_bit 3 (w ! (i - 15));
          s1 = rotr 17 (w ! (i - 2)) XOR rotr 19 (w ! (i - 2)) XOR drop_bit 10 (w ! (i - 2))
      in w @ [w ! (i - 16) + s0 + w ! (i - 7) + s1])"

definition sha_round :: "32 word list \<Rightarrow> 32 word \<times> 32 word \<Rightarrow> 32 word list" where
  "sha_round v kw = (case v of [a, b, c, d, e, f, g, h] \<Rightarrow>
     (let s1 = rotr 6 e XOR rotr 11 e XOR rotr 25 e;
          ch = (e AND f) XOR (NOT e AND g);
          t1 = h + s1 + ch + fst kw + snd kw;
          s0 = rotr 2 a XOR rotr 13 a XOR rotr 22 a;
          maj = (a AND b) XOR (a AND c) XOR (b AND c)
      in [t1 + s0 + maj, a, b, c, d + t1, e, f, g]) | _ \<Rightarrow> v)"

definition sha_block :: "32 word list \<Rightarrow> 32 word list \<Rightarrow> 32 word list" where
  "sha_block h m = map2 (+) h (foldl sha_round h (zip sha_k (foldl sha_sched_step m [16..<64])))"

fun chunks16 :: "nat \<Rightarrow> 'a list \<Rightarrow> 'a list list" where
  "chunks16 0 xs = []"
| "chunks16 (Suc k) xs = take 16 xs # chunks16 k (drop 16 xs)"

definition Sum256_words :: "string \<Rightarrow> 32 word list" where
  "Sum256_words s = (let w = words_of (sha_pad s) in foldl sha_block sha_init (chunks16 (length w div 16) w))"

definition hex_word :: "32 word \<Rightarrow> string" where
  "hex_word w = map (\<lambda>i. hex_digit (unat (drop_bit (28 - 4 * i) w AND 15))) [0..<8]"

text \<open>\<^verbatim>\<open>hex.EncodeToString\<close> of the digest.\<close>

definition sha256_hex :: "string \<Rightarrow> string" where
  "sha256_hex s = concat (map hex_word (Sum256_words s))"

section \<open>Keys\<close>

definition dkPrefix :: string where "dkPrefix = ''dk-''"
definition dkTotalLen :: nat where "dkTotalLen = 25"
definition dkPayloadLen :: nat where "dkPayloadLen = 18"
definition dkChecksumLen :: nat where "dkChecksumLen = 4"
definition dkChecksumMod :: nat where "dkChecksumMod = 62 * 62 * 62 * 62"

lemmas dk_defs = dkPrefix_def dkTotalLen_def dkPayloadLen_def dkChecksumLen_def dkChecksumMod_def

text \<open>\<^verbatim>\<open>big.Int.SetBytes\<close>: big-endian.\<close>

definition SetBytes :: "string \<Rightarrow> nat" where
  "SetBytes raw = foldl (\<lambda>n b. n * 256 + of_char b) 0 raw"

definition dk_checksum :: "string \<Rightarrow> string" where
  "dk_checksum prefixPart = base62Encode (unat (ChecksumIEEE prefixPart) mod dkChecksumMod) dkChecksumLen"

definition GenerateVirtualKey :: "string option \<Rightarrow> (string \<times> string \<times> string) option" where
  "GenerateVirtualKey source = (case source of None \<Rightarrow> None | Some raw \<Rightarrow>
     let payload = base62Encode (SetBytes raw) dkPayloadLen;
         prefixPart = dkPrefix @ payload;
         apikey = prefixPart @ dk_checksum prefixPart;
         prefix = take 11 apikey
     in Some (apikey, sha256_hex apikey, prefix))"

definition ValidateKeySignature :: "string \<Rightarrow> bool" where
  "ValidateKeySignature apiKey =
     (if length apiKey \<noteq> dkTotalLen then False
      else if take (length dkPrefix) apiKey \<noteq> dkPrefix then False
      else if \<not> list_all isBase62Char (drop (length dkPrefix) apiKey) then False
      else let payload = take (length dkPrefix + dkPayloadLen) apiKey in
        drop (length dkPrefix + dkPayloadLen) apiKey = dk_checksum payload)"

section \<open>Facts\<close>

lemma length_base62_loop: "length (base62_loop n k r) = k + length r"
  by (induction n k r rule: base62_loop.induct) simp_all

lemma length_base62Encode [simp]: "length (base62Encode n k) = k"
  by (simp add: base62Encode_def length_base62_loop)

lemma base62Chars_ok: "i < 62 \<Longrightarrow> isBase62Char (base62Chars ! i)"
proof -
  have "list_all isBase62Char base62Chars" by (simp add: base62Chars_def isBase62Char_def)
  moreover have "length base62Chars = 62" by (simp add: base62Chars_def)
  ultimately show "i < 62 \<Longrightarrow> isBase62Char (base62Chars ! i)" by (simp add: list_all_length)
qed

lemma base62_loop_chars:
  "list_all isBase62Char r \<Longrightarrow> list_all isBase62Char (base62_loop n k r)"
  by (induction n k r rule: base62_loop.induct) (simp_all add: base62Chars_ok)

lemma base62Encode_chars [simp]: "list_all isBase62Char (base62Encode n k)"
  using base62_loop_chars [of "[]" n k] by (simp add: base62Encode_def list_all_iff)

text \<open>The digits denote the number modulo \<open>62 ^ k\<close>.\<close>

definition base62_value :: "string \<Rightarrow> nat" where
  "base62_value s = foldl (\<lambda>n c. 62 * n + (LEAST i. base62Chars ! i = c \<and> i < 62)) 0 s"

lemma distinct_base62Chars: "distinct base62Chars"
  by (simp add: base62Chars_def)

lemma base62_digit: "i < 62 \<Longrightarrow> (LEAST j. base62Chars ! j = base62Chars ! i \<and> j < 62) = i"
proof (rule Least_equality)
  fix j assume i: "i < 62" and "base62Chars ! j = base62Chars ! i \<and> j < 62"
  then have "j = i"
    using nth_eq_iff_index_eq [OF distinct_base62Chars, of j i] by (simp add: base62Chars_def)
  then show "i \<le> j" by simp
qed simp

lemma base62_loop_append: "base62_loop n k r = r @ base62_loop n k []"
  by (induction k arbitrary: n r) (simp, metis append.assoc append_Nil base62_loop.simps(2))

lemma base62_value_Encode: "base62_value (base62Encode n k) = n mod 62 ^ k"
proof (induction k arbitrary: n)
  case 0
  then show ?case by (simp add: base62Encode_def base62_value_def)
next
  case (Suc k)
  have "base62Encode n (Suc k) = base62Encode (n div 62) k @ [base62Chars ! (n mod 62)]"
    by (simp add: base62Encode_def) (subst base62_loop_append, simp)
  then have "base62_value (base62Encode n (Suc k)) = 62 * (n div 62 mod 62 ^ k) + n mod 62"
    using Suc [of "n div 62"] by (simp add: base62_value_def base62_digit)
  then show ?case by (simp add: mod_mult2_eq)
qed

lemma ValidateKeySignature_iff:
  "ValidateKeySignature k \<longleftrightarrow> (\<exists>payload. length payload = dkPayloadLen \<and> list_all isBase62Char payload
     \<and> k = dkPrefix @ payload @ dk_checksum (dkPrefix @ payload))" (is "_ \<longleftrightarrow> (\<exists>p. ?R p)")
proof
  assume v: "ValidateKeySignature k"
  let ?p = "take dkPayloadLen (drop (length dkPrefix) k)"
  have len: "length k = dkTotalLen" and pre: "take (length dkPrefix) k = dkPrefix"
    and ch: "list_all isBase62Char (drop (length dkPrefix) k)"
    and ck: "drop (length dkPrefix + dkPayloadLen) k = dk_checksum (take (length dkPrefix + dkPayloadLen) k)"
    using v by (auto simp: ValidateKeySignature_def Let_def split: if_splits)
  have t: "take (length dkPrefix + dkPayloadLen) k = dkPrefix @ ?p"
    using pre by (simp add: take_add)
  have "k = take (length dkPrefix + dkPayloadLen) k @ drop (length dkPrefix + dkPayloadLen) k" by simp
  also have "\<dots> = dkPrefix @ ?p @ dk_checksum (dkPrefix @ ?p)" unfolding ck unfolding t by simp
  finally have "k = dkPrefix @ ?p @ dk_checksum (dkPrefix @ ?p)" .
  moreover have "list_all isBase62Char ?p" using ch by (auto simp: list_all_iff dest: in_set_takeD)
  moreover have "length ?p = dkPayloadLen" using len by (simp add: dk_defs)
  ultimately show "\<exists>p. ?R p" by blast
next
  assume "\<exists>p. ?R p"
  then show "ValidateKeySignature k"
    by (auto simp: ValidateKeySignature_def dk_checksum_def dk_defs Let_def)
qed

text \<open>
  Every generated key passes the offline validation, has 25 characters, carries its display
  prefix as its first 11 characters, and its payload denotes the random bytes modulo \<open>62 ^ 18\<close>;
  generation fails only when the random source does.
\<close>

theorem GenerateVirtualKey_valid:
  "case source of
     None \<Rightarrow> GenerateVirtualKey source = None
   | Some raw \<Rightarrow> \<exists>apikey hash prefix. GenerateVirtualKey source = Some (apikey, hash, prefix)
       \<and> ValidateKeySignature apikey \<and> length apikey = 25 \<and> prefix = take 11 apikey
       \<and> hash = sha256_hex apikey
       \<and> base62_value (take dkPayloadLen (drop (length dkPrefix) apikey)) = SetBytes raw mod 62 ^ 18"
proof (cases source)
  case None
  then show ?thesis by (simp add: GenerateVirtualKey_def)
next
  case (Some raw)
  let ?p = "base62Encode (SetBytes raw) dkPayloadLen"
  let ?k = "dkPrefix @ ?p @ dk_checksum (dkPrefix @ ?p)"
  have "ValidateKeySignature ?k" unfolding ValidateKeySignature_iff by (intro exI [of _ ?p]) simp
  moreover have "length ?k = 25" by (simp add: dk_checksum_def dk_defs)
  moreover have "base62_value (take dkPayloadLen (drop (length dkPrefix) ?k)) = SetBytes raw mod 62 ^ 18"
    by (simp add: base62_value_Encode) (simp add: dk_defs)
  ultimately show ?thesis using Some by (simp add: GenerateVirtualKey_def Let_def)
qed

text \<open>
  A valid key is determined by its 18 payload characters: two valid keys that agree on the
  prefix and payload are equal, so a key with a wrong checksum is always rejected.
\<close>

theorem ValidateKeySignature_checksum:
  assumes "ValidateKeySignature a" "ValidateKeySignature b" "take 21 a = take 21 b"
  shows "a = b"
  using assms unfolding ValidateKeySignature_iff by (auto simp: dk_defs dk_checksum_def)

definition example_key :: string where
  "example_key = dkPrefix @ replicate 18 (CHR ''0'') @ dk_checksum (dkPrefix @ replicate 18 (CHR ''0''))"

lemma example_key_valid: "ValidateKeySignature example_key"
  unfolding ValidateKeySignature_iff example_key_def
  by (intro exI [of _ "replicate 18 (CHR ''0'')"]) (simp add: dk_defs isBase62Char_def list_all_iff)

theorem ValidateKeySignature_checksum_witness:
  "ValidateKeySignature example_key \<and> \<not> ValidateKeySignature (take 21 example_key @ ''????'')"
proof (intro conjI notI)
  assume "ValidateKeySignature (take 21 example_key @ ''????'')"
  then have eq: "take 21 example_key @ ''????'' = example_key"
    using example_key_valid
    by (rule ValidateKeySignature_checksum) (simp add: example_key_def dk_defs)
  have "list_all isBase62Char (dk_checksum (take 21 example_key))" by (simp add: dk_checksum_def)
  moreover have "drop 21 example_key = dk_checksum (take 21 example_key)" by (simp add: example_key_def dk_defs)
  moreover have "drop 21 example_key = ''????''" using eq by (metis append_eq_conv_conj append_take_drop_id)
  ultimately have "isBase62Char (CHR ''?'')" by (metis list.pred_inject(2))
  then show False by (simp add: isBase62Char_def)
qed (rule example_key_valid)

end
