(* ===== verification/Azure.thy ===== *)
theory Azure
  imports OpenAI KeyFormat
begin

text \<open>
  The Azure provider (\<^verbatim>\<open>internal/providers/azure\<close>), the second implementation of the provider
  interface: authentication with its cache of token credentials, the address of a deployment, and the calls,
  which are those of the OpenAI protocol. The identity library is an argument.
\<close>

section \<open>Authentication\<close>

text \<open>The credentials the identity library builds.\<close>

datatype token_credential = ClientSecretCredential string string string | ManagedIdentityCredential string | DefaultAzureCredentialChain

record azure_identity =
  ai_build :: "token_credential \<Rightarrow> string option"
  ai_token :: "token_credential \<Rightarrow> string list \<Rightarrow> string + string"

definition DefaultAzureScope :: string where "DefaultAzureScope = ''https://cognitiveservices.azure.com/.default''"

fun join_with :: "string \<Rightarrow> string list \<Rightarrow> string" where
  "join_with sep [] = []"
| "join_with sep [x] = x"
| "join_with sep (x # y # xs) = x @ sep @ join_with sep (y # xs)"

definition credential_key :: "AzureSettings \<Rightarrow> string" where
  "credential_key s = sha256_hex (join_with [CHR 0x00] [az_AuthMode s, az_TenantID s, az_ClientID s, az_ClientSecret s,
     join_with '','' (az_Scopes s)])"

definition token_credential_of :: "AzureSettings \<Rightarrow> token_credential option" where
  "token_credential_of s =
    (if az_AuthMode s = AzureAuthServicePrincipal then Some (ClientSecretCredential (az_TenantID s) (az_ClientID s) (az_ClientSecret s))
     else if az_AuthMode s = AzureDefaultCredential then
       Some (if az_ClientID s \<noteq> [] then ManagedIdentityCredential (az_ClientID s) else DefaultAzureCredentialChain)
     else None)"

type_synonym credential_cache = "string \<rightharpoonup> token_credential"

text \<open>A credential that another request stored in the meantime is kept.\<close>

definition azureTokenCredential :: "azure_identity \<Rightarrow> AzureSettings \<Rightarrow> credential_cache \<Rightarrow> credential_cache \<times> (string + string)" where
  "azureTokenCredential ai settings cache =
    (let key = credential_key settings;
         scopes = (if az_Scopes settings \<noteq> [] then az_Scopes settings else [DefaultAzureScope]);
         fetch = (\<lambda>tokenCred. case ai_token ai tokenCred scopes of
            Inl err \<Rightarrow> Inl (''azure : acquiring entra token : '' @ err) | Inr token \<Rightarrow> Inr token)
     in case cache key of
          Some tokenCred \<Rightarrow> (cache, fetch tokenCred)
        | None \<Rightarrow> (case token_credential_of settings of
            None \<Rightarrow> (cache, Inl (''azure-provider : '' @ az_AuthMode settings @ '' unknown settings found''))
          | Some tokenCred \<Rightarrow> (case ai_build ai tokenCred of
              Some err \<Rightarrow> (cache, Inl err)
            | None \<Rightarrow> (cache(key \<mapsto> tokenCred), fetch tokenCred))))"

definition Azure_AuthInjection :: "azure_identity \<Rightarrow> Credential option \<Rightarrow> (string \<times> string) list \<Rightarrow> credential_cache
    \<Rightarrow> credential_cache \<times> (string + (string \<times> string) list)" where
  "Azure_AuthInjection ai credential headers cache = (case credential of
     None \<Rightarrow> (cache, Inl ''azure settings not found'')
   | Some cred \<Rightarrow> (case cs_Azure (c_Settings cred) of
       None \<Rightarrow> (cache, Inl ''azure settings not found'')
     | Some settings \<Rightarrow>
         if az_AuthMode settings = AzureAuthKeyMode then
           (if c_APIKey cred = [] then (cache, Inl (''azure : api key is required for '' @ az_AuthMode settings))
            else (cache, Inr (headers @ [(''api-key'', c_APIKey cred)])))
         else if az_AuthMode settings = AzureAuthServicePrincipal \<or> az_AuthMode settings = AzureDefaultCredential then
           (case azureTokenCredential ai settings cache of
              (cache1, Inl err) \<Rightarrow> (cache1, Inl err)
            | (cache1, Inr token) \<Rightarrow> (cache1, Inr (headers @ [(''Authorization'', ''Bearer '' @ token)])))
         else (cache, Inl ''unknow setting found for azure provider'')))"

section \<open>Addresses\<close>

text \<open>\<^verbatim>\<open>url.PathEscape\<close> and \<^verbatim>\<open>url.QueryEscape\<close>.\<close>

definition unreserved :: "char \<Rightarrow> bool" where
  "unreserved c \<longleftrightarrow> is_digit c \<or> (65 \<le> (of_char c :: nat) \<and> (of_char c :: nat) \<le> 90) \<or> (97 \<le> (of_char c :: nat) \<and> (of_char c :: nat) \<le> 122)
     \<or> c \<in> set ''-_.~''"

definition hex_upper :: "nat \<Rightarrow> char" where
  "hex_upper n = ''0123456789ABCDEF'' ! n"

definition percent :: "char \<Rightarrow> string" where
  "percent c = [CHR ''%'', hex_upper (of_char c div 16), hex_upper (of_char c mod 16)]"

definition PathEscape :: "string \<Rightarrow> string" where
  "PathEscape s = concat (map (\<lambda>c. if unreserved c \<or> c \<in> set ''$&+=:@'' then [c] else percent c) s)"

definition QueryEscape :: "string \<Rightarrow> string" where
  "QueryEscape s = concat (map (\<lambda>c. if unreserved c then [c] else if c = CHR '' '' then ''+'' else percent c) s)"

definition azure_url :: "Credential \<Rightarrow> Alias \<Rightarrow> string \<Rightarrow> string" where
  "azure_url cred alias path =
    (let endpoint = trim_slashes (c_Endpoint cred) in
     if al_RouteStyle alias = AzureRouteDeployment
     then endpoint @ ''/openai/deployments/'' @ PathEscape (al_ModelID alias) @ TrimPrefix path ''/v1'' @ ''?api-version='' @ QueryEscape (al_APIVersion alias)
     else endpoint @ ''/openai'' @ path)"

section \<open>Calls\<close>

definition resolveAlias :: "DiffractLLMChatCompletionRequest option \<Rightarrow> Credential option \<Rightarrow> DiffractLLMContext \<Rightarrow> DiffractLLMError + Alias" where
  "resolveAlias req credential rctx = (case req of
     None \<Rightarrow> Inl (NewInvalidRequestBody ''chat request is required'' None)
   | Some _ \<Rightarrow> (case credential of
       None \<Rightarrow> Inl (NewInternalError ''azure-provider'' ''azure credential settings are required'' None)
     | Some cred \<Rightarrow> if cs_Azure (c_Settings cred) = None
         then Inl (NewInternalError ''azure-provider'' ''azure credential settings are required'' None)
         else Inr (CheckModelAlias credential (ck_ModelName (rc_Modelkey rctx)))))"

definition unsupportedProtocol :: "EndpointProtocol \<Rightarrow> DiffractLLMError" where
  "unsupportedProtocol protocol = NewInternalError ''azure-provider'' (''protocol '' @ protocol @ '' is not supported yet'') None"

definition openaichatConfig :: "azure_identity \<Rightarrow> (string \<Rightarrow> string) \<Rightarrow> DiffractLLMChatCompletionRequest option \<Rightarrow> Credential option \<Rightarrow> Alias \<Rightarrow> bool
    \<Rightarrow> credential_cache \<Rightarrow> DiffractLLMContext \<Rightarrow> credential_cache \<times> DiffractLLMContext \<times> (DiffractLLMError + ChatCompletionConfig)" where
  "openaichatConfig ai sanitize req credential alias stream cache rctx = (case PathFor ChatRequest of
     None \<Rightarrow> (cache, rctx, Inl (NewInternalError ''azure-provider'' ''unsupported request kind chat'' None))
   | Some path \<Rightarrow>
       let requestURL = azure_url (the credential) alias path in
       (case Azure_AuthInjection ai credential (ProviderHeaders stream) cache of
          (cache1, Inl err) \<Rightarrow> (cache1, rctx, Inl (NewUpstreamAuth ''azure'' (sanitize requestURL) err))
        | (cache1, Inr headers) \<Rightarrow> (cache1, rctx\<lparr>rc_UpstreamModel := al_ModelID alias\<rparr>,
            Inr \<lparr>cc_Provider = ProviderAzure, cc_URL = requestURL, cc_Model = al_ModelID alias, cc_Request = req, cc_Headers = headers\<rparr>)))"

text \<open>The part of both calls that comes before the request is sent.\<close>

definition Azure_chatConfig :: "azure_identity \<Rightarrow> (string \<Rightarrow> string) \<Rightarrow> credential_cache \<Rightarrow> DiffractLLMChatCompletionRequest option \<Rightarrow> Credential option \<Rightarrow> bool
    \<Rightarrow> DiffractLLMContext \<Rightarrow> credential_cache \<times> DiffractLLMContext \<times> (DiffractLLMError + ChatCompletionConfig)" where
  "Azure_chatConfig ai sanitize cache req cred stream rctx = (case resolveAlias req cred rctx of
     Inl derr \<Rightarrow> (cache, rctx, Inl derr)
   | Inr alias \<Rightarrow>
       let protocol = Alias_Protocol (Some alias) (ck_ModelName (rc_Modelkey rctx)) in
       if protocol = ProtocolOpenAI then openaichatConfig ai sanitize req cred alias stream cache rctx
       else (cache, rctx, Inl (unsupportedProtocol protocol)))"

definition Azure_ChatCompletion :: "azure_identity \<Rightarrow> json_codec \<Rightarrow> upstream_link \<Rightarrow> DiffractLLMTransport \<Rightarrow> credential_cache
    \<Rightarrow> DiffractLLMChatCompletionRequest option \<Rightarrow> Credential option \<Rightarrow> DiffractLLMContext
    \<Rightarrow> credential_cache \<times> DiffractLLMContext \<times> DiffractLLMChatCompletionResponse call_result" where
  "Azure_ChatCompletion ai jc link transport cache req cred rctx = (case Azure_chatConfig ai (ul_sanitize link) cache req cred False rctx of
       (cache1, rctx1, Inl derr) \<Rightarrow> (cache1, rctx1, Some (Inl derr))
     | (cache1, rctx1, Inr cfg) \<Rightarrow> (cache1, HandleChatCompletion jc link transport cfg rctx1))"

definition Azure_ChatCompletionStream :: "azure_identity \<Rightarrow> json_codec \<Rightarrow> upstream_link \<Rightarrow> DiffractLLMTransport \<Rightarrow> credential_cache
    \<Rightarrow> DiffractLLMChatCompletionRequest option \<Rightarrow> Credential option \<Rightarrow> DiffractLLMContext
    \<Rightarrow> credential_cache \<times> DiffractLLMContext \<times> DiffractLLMChatCompletionStreamResponse list call_result" where
  "Azure_ChatCompletionStream ai jc link transport cache req cred rctx = (case Azure_chatConfig ai (ul_sanitize link) cache req cred True rctx of
       (cache1, rctx1, Inl derr) \<Rightarrow> (cache1, rctx1, Some (Inl derr))
     | (cache1, rctx1, Inr cfg) \<Rightarrow> (cache1, HandleChatCompletionStream jc link transport cfg rctx1))"

section \<open>The contract\<close>

lemma Azure_config_error:
  "Azure_chatConfig ai sanitize cache req cred stream rctx = (cache', rctx', Inl e) \<Longrightarrow> rctx' = rctx \<and> 400 \<le> e_StatusCode e"
  by (auto simp: Azure_chatConfig_def resolveAlias_def openaichatConfig_def unsupportedProtocol_def Let_def NewInvalidRequestBody_def
      NewInternalError_def NewUpstreamAuth_def split: option.splits sum.splits prod.splits if_splits)

lemma Azure_config_call:
  "Azure_chatConfig ai sanitize cache req cred stream rctx = (cache', rctx', Inr cfg) \<Longrightarrow>
    rctx' = rctx\<lparr>rc_UpstreamModel := cc_Model cfg\<rparr> \<and> cc_Request cfg = req \<and> req \<noteq> None
    \<and> cc_Model cfg = al_ModelID (CheckModelAlias cred (ck_ModelName (rc_Modelkey rctx)))"
  by (auto simp: Azure_chatConfig_def resolveAlias_def openaichatConfig_def Let_def
      split: option.splits sum.splits prod.splits if_splits)

interpretation azure: chat_provider "\<lambda>req cred stream rctx. snd (Azure_chatConfig ai sanitize cache req cred stream rctx)" for ai sanitize cache
  by unfold_locales (metis Azure_config_error prod.collapse, metis Azure_config_call prod.collapse)

lemma Azure_calls:
  "snd (Azure_ChatCompletion ai jc link transport cache req cred rctx)
    = chat_with (\<lambda>req cred stream rctx. snd (Azure_chatConfig ai (ul_sanitize link) cache req cred stream rctx)) jc link transport req cred rctx"
  "snd (Azure_ChatCompletionStream ai jc link transport cache req cred rctx)
    = stream_with (\<lambda>req cred stream rctx. snd (Azure_chatConfig ai (ul_sanitize link) cache req cred stream rctx)) jc link transport req cred rctx"
  by (simp_all add: Azure_ChatCompletion_def Azure_ChatCompletionStream_def chat_with_def stream_with_def split: prod.split sum.split)

section \<open>Properties\<close>

text \<open>Every cached credential is the one that some settings with that key ask for.\<close>

definition cache_wf :: "credential_cache \<Rightarrow> bool" where
  "cache_wf cache \<longleftrightarrow> (\<forall>key c. cache key = Some c \<longrightarrow> (\<exists>s. credential_key s = key \<and> token_credential_of s = Some c))"

text \<open>
  The cache of token credentials keeps its invariant and loses no entry, and a token always comes from
  the credential of settings with the same digest and with the scopes of this request; a failure to
  build a credential is not cached.
\<close>

theorem azureTokenCredential_cache:
  assumes "cache_wf cache" "azureTokenCredential ai s cache = (cache', r)"
  shows "cache_wf cache' \<and> cache \<subseteq>\<^sub>m cache'
    \<and> (\<forall>tok. r = Inr tok \<longrightarrow> (\<exists>s' c. credential_key s' = credential_key s \<and> token_credential_of s' = Some c
         \<and> ai_token ai c (if az_Scopes s \<noteq> [] then az_Scopes s else [DefaultAzureScope]) = Inr tok \<and> cache' (credential_key s) = Some c))
    \<and> (cache (credential_key s) = None \<and> token_credential_of s = Some c0 \<and> ai_build ai c0 \<noteq> None \<longrightarrow> cache' = cache \<and> isl r)"
proof (cases "cache (credential_key s)")
  case None
  then show ?thesis using assms
    by (auto simp: azureTokenCredential_def Let_def cache_wf_def map_le_def split: option.splits sum.splits if_splits)
next
  case (Some c)
  with assms(1) obtain s' where "credential_key s' = credential_key s" "token_credential_of s' = Some c"
    by (auto simp: cache_wf_def)
  with Some assms show ?thesis
    by (auto simp: azureTokenCredential_def Let_def split: sum.splits)
qed

definition example_identity :: azure_identity where
  "example_identity = \<lparr>ai_build = \<lambda>_. None, ai_token = \<lambda>c scopes. Inr ''token''\<rparr>"

definition example_settings :: AzureSettings where
  "example_settings = \<lparr>az_AuthMode = AzureDefaultCredential, az_TenantID = [], az_ClientID = ''app'', az_ClientSecret = [], az_Scopes = []\<rparr>"

lemma azure_modes: "AzureDefaultCredential \<noteq> AzureAuthServicePrincipal" "AzureDefaultCredential \<noteq> AzureAuthKeyMode"
  "AzureAuthServicePrincipal \<noteq> AzureAuthKeyMode"
  by (simp_all add: AzureDefaultCredential_def AzureAuthServicePrincipal_def AzureAuthKeyMode_def)

theorem azureTokenCredential_cache_witness:
  "cache_wf (fst (azureTokenCredential example_identity example_settings Map.empty))
   \<and> fst (azureTokenCredential example_identity example_settings Map.empty) (credential_key example_settings) \<noteq> None"
proof -
  have "cache_wf Map.empty" by (simp add: cache_wf_def)
  moreover have "snd (azureTokenCredential example_identity example_settings Map.empty) = Inr ''token''"
    by (simp add: azureTokenCredential_def example_settings_def example_identity_def token_credential_of_def azure_modes Let_def)
  ultimately show ?thesis
    using azureTokenCredential_cache [of Map.empty example_identity example_settings
        "fst (azureTokenCredential example_identity example_settings Map.empty)" "Inr ''token''"]
    by (auto simp: prod_eq_iff)
qed


end
