(* ===== verification/Hooks.thy ===== *)
theory Hooks
  imports Context
begin

text \<open>
  The hook engine (\<^verbatim>\<open>internal/core/hooks.go\<close>): at most five hooks per phase, run in registration
  order. Hooks before the provider call can reject the request and stop the phase; hooks after
  it can only log. An index beyond the result array of the hook log is a panic of the program.
  The time a hook takes is an argument, indexed by the position of the hook.
\<close>

section \<open>Engine\<close>

record Hook =
  h_Name :: string
  h_Execute :: "DiffractLLMContext \<Rightarrow> DiffractLLMContext \<times> DiffractLLMError option"

record HookEngine =
  preCallHooks :: "Hook list"
  preProviderHooks :: "Hook list"
  postProviderHooks :: "Hook list"
  postCallHooks :: "Hook list"

definition NewHookEngine :: HookEngine where
  "NewHookEngine = \<lparr>preCallHooks = [], preProviderHooks = [], postProviderHooks = [], postCallHooks = []\<rparr>"

definition Registered :: "HookEngine \<Rightarrow> nat" where
  "Registered he = length (preCallHooks he) + length (preProviderHooks he)
     + length (postProviderHooks he) + length (postCallHooks he)"

definition AddPreCallHook :: "Hook \<Rightarrow> HookEngine \<Rightarrow> DiffractLLMError + HookEngine" where
  "AddPreCallHook hook he =
    (if length (preCallHooks he) \<ge> maxHooks
     then Inl (NewInternalError ''hooks'' ''pre-call hook limit reached'' None)
     else Inr (he\<lparr>preCallHooks := preCallHooks he @ [hook]\<rparr>))"

definition AddPreProviderHook :: "Hook \<Rightarrow> HookEngine \<Rightarrow> DiffractLLMError + HookEngine" where
  "AddPreProviderHook hook he =
    (if length (preProviderHooks he) \<ge> maxHooks
     then Inl (NewInternalError ''hooks'' ''pre-provider hook limit reached'' None)
     else Inr (he\<lparr>preProviderHooks := preProviderHooks he @ [hook]\<rparr>))"

definition AddPostProviderHook :: "Hook \<Rightarrow> HookEngine \<Rightarrow> DiffractLLMError + HookEngine" where
  "AddPostProviderHook hook he =
    (if length (postProviderHooks he) \<ge> maxHooks
     then Inl (NewInternalError ''hooks'' ''post-provider hook limit reached'' None)
     else Inr (he\<lparr>postProviderHooks := postProviderHooks he @ [hook]\<rparr>))"

definition AddPostCallHook :: "Hook \<Rightarrow> HookEngine \<Rightarrow> DiffractLLMError + HookEngine" where
  "AddPostCallHook hook he =
    (if length (postCallHooks he) \<ge> maxHooks
     then Inl (NewInternalError ''hooks'' ''post-call hook limit reached'' None)
     else Inr (he\<lparr>postCallHooks := postCallHooks he @ [hook]\<rparr>))"

section \<open>Running a phase\<close>

text \<open>The four loops of the source differ in the fields of the log they use and in what a hook
  error means; a phase names the fields.\<close>

record phase =
  ph_results :: "HookLog \<Rightarrow> HookResult list"
  ph_results_upd :: "HookResult list \<Rightarrow> HookLog \<Rightarrow> HookLog"
  ph_count :: "HookLog \<Rightarrow> nat"
  ph_count_upd :: "nat \<Rightarrow> HookLog \<Rightarrow> HookLog"
  ph_total :: "HookLog \<Rightarrow> duration"
  ph_total_upd :: "duration \<Rightarrow> HookLog \<Rightarrow> HookLog"

definition phPreCall :: phase where
  "phPreCall = \<lparr>ph_results = PreCallResults, ph_results_upd = (\<lambda>r l. l\<lparr>PreCallResults := r\<rparr>),
     ph_count = PreCallCount, ph_count_upd = (\<lambda>n l. l\<lparr>PreCallCount := n\<rparr>),
     ph_total = PreCallTotal, ph_total_upd = (\<lambda>d l. l\<lparr>PreCallTotal := d\<rparr>)\<rparr>"

definition phPreProvider :: phase where
  "phPreProvider = \<lparr>ph_results = PreProviderResults, ph_results_upd = (\<lambda>r l. l\<lparr>PreProviderResults := r\<rparr>),
     ph_count = PreProviderCount, ph_count_upd = (\<lambda>n l. l\<lparr>PreProviderCount := n\<rparr>),
     ph_total = PreProviderTotal, ph_total_upd = (\<lambda>d l. l\<lparr>PreProviderTotal := d\<rparr>)\<rparr>"

definition phPostProvider :: phase where
  "phPostProvider = \<lparr>ph_results = PostProviderResults, ph_results_upd = (\<lambda>r l. l\<lparr>PostProviderResults := r\<rparr>),
     ph_count = PostProviderCount, ph_count_upd = (\<lambda>n l. l\<lparr>PostProviderCount := n\<rparr>),
     ph_total = PostProviderTotal, ph_total_upd = (\<lambda>d l. l\<lparr>PostProviderTotal := d\<rparr>)\<rparr>"

definition phPostCall :: phase where
  "phPostCall = \<lparr>ph_results = PostCallResults, ph_results_upd = (\<lambda>r l. l\<lparr>PostCallResults := r\<rparr>),
     ph_count = PostCallCount, ph_count_upd = (\<lambda>n l. l\<lparr>PostCallCount := n\<rparr>),
     ph_total = PostCallTotal, ph_total_upd = (\<lambda>d l. l\<lparr>PostCallTotal := d\<rparr>)\<rparr>"

lemmas phase_defs = phPreCall_def phPreProvider_def phPostProvider_def phPostCall_def

datatype hook_outcome = HookDone DiffractLLMContext "DiffractLLMError option" | HookPanic

text \<open>What one iteration writes into the result slot: the status, and the error text only when
  the hook returned an error.\<close>

definition record_hook :: "HookStatus \<Rightarrow> string \<Rightarrow> duration \<Rightarrow> DiffractLLMError option \<Rightarrow> HookResult \<Rightarrow> HookResult" where
  "record_hook on_error name elapsed err slot = (case err of
     Some e \<Rightarrow> slot\<lparr>hr_Name := name, hr_Duration := elapsed, hr_Status := on_error, hr_Error := e_Message e\<rparr>
   | None \<Rightarrow> slot\<lparr>hr_Name := name, hr_Duration := elapsed, hr_Status := HookOK\<rparr>)"

definition log_hook :: "phase \<Rightarrow> HookStatus \<Rightarrow> string \<Rightarrow> duration \<Rightarrow> DiffractLLMError option \<Rightarrow> HookLog \<Rightarrow> HookLog" where
  "log_hook ph on_error name elapsed err l =
    (let n = ph_count ph l;
         rs = (ph_results ph l)[n := record_hook on_error name elapsed err (ph_results ph l ! n)]
     in ph_total_upd ph (wrap64 (ph_total ph l + elapsed)) (ph_count_upd ph (n + 1) (ph_results_upd ph rs l)))"

fun run_rejecting :: "phase \<Rightarrow> (nat \<Rightarrow> duration) \<Rightarrow> nat \<Rightarrow> Hook list \<Rightarrow> DiffractLLMContext \<Rightarrow> hook_outcome" where
  "run_rejecting ph elapsed i [] rctx = HookDone rctx None"
| "run_rejecting ph elapsed i (hook # hooks) rctx =
    (let (rctx1, hookErr) = h_Execute hook rctx in
     if ph_count ph (rc_HookLog rctx1) \<ge> maxHooks then HookPanic
     else let rctx2 = rctx1\<lparr>rc_HookLog := log_hook ph HookRejected (h_Name hook) (elapsed i) hookErr (rc_HookLog rctx1)\<rparr>
       in case hookErr of Some e \<Rightarrow> HookDone rctx2 (Some e)
          | None \<Rightarrow> run_rejecting ph elapsed (Suc i) hooks rctx2)"

fun run_logging :: "phase \<Rightarrow> (nat \<Rightarrow> duration) \<Rightarrow> nat \<Rightarrow> Hook list \<Rightarrow> DiffractLLMContext \<Rightarrow> hook_outcome" where
  "run_logging ph elapsed i [] rctx = HookDone rctx None"
| "run_logging ph elapsed i (hook # hooks) rctx =
    (let (rctx1, hookErr) = h_Execute hook rctx in
     if ph_count ph (rc_HookLog rctx1) \<ge> maxHooks then HookPanic
     else run_logging ph elapsed (Suc i) hooks
       (rctx1\<lparr>rc_HookLog := log_hook ph HookFailed (h_Name hook) (elapsed i) hookErr (rc_HookLog rctx1)\<rparr>))"

definition RunPreCallHooks :: "HookEngine \<Rightarrow> (nat \<Rightarrow> duration) \<Rightarrow> DiffractLLMContext \<Rightarrow> hook_outcome" where
  "RunPreCallHooks he elapsed rctx = run_rejecting phPreCall elapsed 0 (preCallHooks he) rctx"

definition RunPreProviderHooks :: "HookEngine \<Rightarrow> (nat \<Rightarrow> duration) \<Rightarrow> DiffractLLMContext \<Rightarrow> hook_outcome" where
  "RunPreProviderHooks he elapsed rctx = run_rejecting phPreProvider elapsed 0 (preProviderHooks he) rctx"

definition RunPostProviderHooks :: "HookEngine \<Rightarrow> (nat \<Rightarrow> duration) \<Rightarrow> DiffractLLMContext \<Rightarrow> hook_outcome" where
  "RunPostProviderHooks he elapsed rctx = run_logging phPostProvider elapsed 0 (postProviderHooks he) rctx"

definition RunPostCallHooks :: "HookEngine \<Rightarrow> (nat \<Rightarrow> duration) \<Rightarrow> DiffractLLMContext \<Rightarrow> hook_outcome" where
  "RunPostCallHooks he elapsed rctx = run_logging phPostCall elapsed 0 (postCallHooks he) rctx"

section \<open>Facts\<close>

text \<open>A phase names a consistent group of fields of the hook log.\<close>

locale hook_phase =
  fixes ph :: phase
  assumes count_count [simp]: "ph_count ph (ph_count_upd ph n l) = n"
    and count_total [simp]: "ph_count ph (ph_total_upd ph d l) = ph_count ph l"
    and count_results [simp]: "ph_count ph (ph_results_upd ph r l) = ph_count ph l"
    and results_results [simp]: "ph_results ph (ph_results_upd ph r l) = r"
    and results_count [simp]: "ph_results ph (ph_count_upd ph n l) = ph_results ph l"
    and results_total [simp]: "ph_results ph (ph_total_upd ph d l) = ph_results ph l"
begin

lemma log_hook_count [simp]: "ph_count ph (log_hook ph st nm d err l) = Suc (ph_count ph l)"
  by (simp add: log_hook_def Let_def)

lemma log_hook_results:
  "ph_results ph (log_hook ph st nm d err l)
     = (ph_results ph l)[ph_count ph l := record_hook st nm d err (ph_results ph l ! ph_count ph l)]"
  by (simp add: log_hook_def Let_def)

lemma run_rejecting_outcome:
  assumes "\<And>h c. h \<in> set hooks \<Longrightarrow> rc_HookLog (fst (h_Execute h c)) = rc_HookLog c"
    and "ph_count ph (rc_HookLog rctx) + length hooks \<le> maxHooks"
    and "length (ph_results ph (rc_HookLog rctx)) = maxHooks"
  shows "\<exists>rctx' err k. run_rejecting ph elapsed i hooks rctx = HookDone rctx' err
    \<and> k \<le> length hooks \<and> ph_count ph (rc_HookLog rctx') = ph_count ph (rc_HookLog rctx) + k
    \<and> (err = None \<longrightarrow> k = length hooks)
    \<and> (\<forall>j < k. hr_Name (ph_results ph (rc_HookLog rctx') ! (ph_count ph (rc_HookLog rctx) + j)) = h_Name (hooks ! j)
        \<and> hr_Status (ph_results ph (rc_HookLog rctx') ! (ph_count ph (rc_HookLog rctx) + j))
            = (if err \<noteq> None \<and> Suc j = k then HookRejected else HookOK))
    \<and> (err \<noteq> None \<longrightarrow> 0 < k)
    \<and> (\<forall>j < ph_count ph (rc_HookLog rctx). ph_results ph (rc_HookLog rctx') ! j = ph_results ph (rc_HookLog rctx) ! j)"
  using assms
proof (induction hooks arbitrary: rctx i)
  case Nil
  then show ?case by auto
next
  case (Cons h hooks)
  obtain c1 e where ex: "h_Execute h rctx = (c1, e)" by force
  have l1: "rc_HookLog c1 = rc_HookLog rctx" using Cons.prems(1) [of h rctx] ex by simp
  let ?n = "ph_count ph (rc_HookLog rctx)"
  let ?l2 = "log_hook ph HookRejected (h_Name h) (elapsed i) e (rc_HookLog rctx)"
  let ?c2 = "c1\<lparr>rc_HookLog := ?l2\<rparr>"
  have n: "?n < maxHooks" using Cons.prems(2) by simp
  have slot: "ph_results ph ?l2 ! ?n = record_hook HookRejected (h_Name h) (elapsed i) e (ph_results ph (rc_HookLog rctx) ! ?n)"
    using n Cons.prems(3) by (simp add: log_hook_results)
  have keep: "\<And>j. j < ?n \<Longrightarrow> ph_results ph ?l2 ! j = ph_results ph (rc_HookLog rctx) ! j"
    by (simp add: log_hook_results)
  show ?case
  proof (cases e)
    case (Some err)
    then have "run_rejecting ph elapsed i (h # hooks) rctx = HookDone ?c2 (Some err)"
      using ex l1 n by simp
    then show ?thesis
      using Some slot keep
      by (intro exI [of _ ?c2] exI [of _ "Some err"] exI [of _ 1]) (auto simp: record_hook_def)
  next
    case None
    have "\<exists>rctx' err k. run_rejecting ph elapsed (Suc i) hooks ?c2 = HookDone rctx' err
      \<and> k \<le> length hooks \<and> ph_count ph (rc_HookLog rctx') = ph_count ph (rc_HookLog ?c2) + k
      \<and> (err = None \<longrightarrow> k = length hooks)
      \<and> (\<forall>j < k. hr_Name (ph_results ph (rc_HookLog rctx') ! (ph_count ph (rc_HookLog ?c2) + j)) = h_Name (hooks ! j)
          \<and> hr_Status (ph_results ph (rc_HookLog rctx') ! (ph_count ph (rc_HookLog ?c2) + j))
              = (if err \<noteq> None \<and> Suc j = k then HookRejected else HookOK))
      \<and> (err \<noteq> None \<longrightarrow> 0 < k)
      \<and> (\<forall>j < ph_count ph (rc_HookLog ?c2). ph_results ph (rc_HookLog rctx') ! j = ph_results ph (rc_HookLog ?c2) ! j)"
      using Cons.prems by (intro Cons.IH) (auto simp: log_hook_results)
    then obtain c' err k where IH: "run_rejecting ph elapsed (Suc i) hooks ?c2 = HookDone c' err"
      "k \<le> length hooks" "ph_count ph (rc_HookLog c') = Suc ?n + k" "err = None \<longrightarrow> k = length hooks"
      "\<And>j. j < k \<Longrightarrow> hr_Name (ph_results ph (rc_HookLog c') ! (Suc ?n + j)) = h_Name (hooks ! j)
          \<and> hr_Status (ph_results ph (rc_HookLog c') ! (Suc ?n + j)) = (if err \<noteq> None \<and> Suc j = k then HookRejected else HookOK)"
      "err \<noteq> None \<longrightarrow> 0 < k"
      "\<And>j. j < Suc ?n \<Longrightarrow> ph_results ph (rc_HookLog c') ! j = ph_results ph ?l2 ! j"
      by auto
    have run: "run_rejecting ph elapsed i (h # hooks) rctx = HookDone c' err"
      using ex l1 n None IH(1) by simp
    have first: "ph_results ph (rc_HookLog c') ! ?n = record_hook HookRejected (h_Name h) (elapsed i) None (ph_results ph (rc_HookLog rctx) ! ?n)"
      using IH(7) [of ?n] slot None by simp
    have all: "hr_Name (ph_results ph (rc_HookLog c') ! (?n + j)) = h_Name ((h # hooks) ! j)
          \<and> hr_Status (ph_results ph (rc_HookLog c') ! (?n + j)) = (if err \<noteq> None \<and> Suc j = Suc k then HookRejected else HookOK)"
      if "j < Suc k" for j
    proof (cases j)
      case 0
      then show ?thesis using first IH(6) by (auto simp: record_hook_def)
    next
      case (Suc j')
      then show ?thesis using IH(5) [of j'] that by simp
    qed
    show ?thesis
      using run IH(2,3,4,6) all keep IH(7)
      by (intro exI [of _ c'] exI [of _ err] exI [of _ "Suc k"]) auto
  qed
qed

lemma run_logging_outcome:
  assumes "\<And>h c. h \<in> set hooks \<Longrightarrow> rc_HookLog (fst (h_Execute h c)) = rc_HookLog c"
    and "ph_count ph (rc_HookLog rctx) + length hooks \<le> maxHooks"
  shows "\<exists>rctx'. run_logging ph elapsed i hooks rctx = HookDone rctx' None
    \<and> ph_count ph (rc_HookLog rctx') = ph_count ph (rc_HookLog rctx) + length hooks"
  using assms
proof (induction hooks arbitrary: rctx i)
  case Nil
  then show ?case by simp
next
  case (Cons h hooks)
  obtain c1 e where ex: "h_Execute h rctx = (c1, e)" by force
  have l1: "rc_HookLog c1 = rc_HookLog rctx" using Cons.prems(1) [of h rctx] ex by simp
  let ?c2 = "c1\<lparr>rc_HookLog := log_hook ph HookFailed (h_Name h) (elapsed i) e (rc_HookLog c1)\<rparr>"
  have "\<exists>rctx'. run_logging ph elapsed (Suc i) hooks ?c2 = HookDone rctx' None
      \<and> ph_count ph (rc_HookLog rctx') = ph_count ph (rc_HookLog ?c2) + length hooks"
    using Cons.prems l1 by (intro Cons.IH) auto
  then show ?case using ex l1 Cons.prems(2) by auto
qed

end

interpretation pre_call: hook_phase phPreCall
  by unfold_locales (simp_all add: phPreCall_def)

interpretation pre_provider: hook_phase phPreProvider
  by unfold_locales (simp_all add: phPreProvider_def)

interpretation post_provider: hook_phase phPostProvider
  by unfold_locales (simp_all add: phPostProvider_def)

interpretation post_call: hook_phase phPostCall
  by unfold_locales (simp_all add: phPostCall_def)

text \<open>Registration keeps every phase within the limit.\<close>

definition wf_engine :: "HookEngine \<Rightarrow> bool" where
  "wf_engine he \<longleftrightarrow> length (preCallHooks he) \<le> maxHooks \<and> length (preProviderHooks he) \<le> maxHooks
     \<and> length (postProviderHooks he) \<le> maxHooks \<and> length (postCallHooks he) \<le> maxHooks"

lemma wf_NewHookEngine [wf_intro]: "wf_engine NewHookEngine"
  by (simp add: wf_engine_def NewHookEngine_def)

lemma wf_add_hooks [wf_intro]:
  "wf_engine he \<Longrightarrow> AddPreCallHook h he = Inr he' \<Longrightarrow> wf_engine he'"
  "wf_engine he \<Longrightarrow> AddPreProviderHook h he = Inr he' \<Longrightarrow> wf_engine he'"
  "wf_engine he \<Longrightarrow> AddPostProviderHook h he = Inr he' \<Longrightarrow> wf_engine he'"
  "wf_engine he \<Longrightarrow> AddPostCallHook h he = Inr he' \<Longrightarrow> wf_engine he'"
  by (auto simp: wf_engine_def AddPreCallHook_def AddPreProviderHook_def AddPostProviderHook_def
      AddPostCallHook_def split: if_splits)

text \<open>
  On a context whose pre-call log is empty, the pre-call hooks of a well-formed engine run
  without panic and in order up to the first rejection: the log holds one entry per hook that ran,
  under its name, all of them accepted but the last one when an error is returned; if no error is
  returned every hook ran.
\<close>

theorem RunPreCallHooks_first_rejection:
  assumes "wf_engine he" "PreCallCount (rc_HookLog rctx) = 0"
    and "length (PreCallResults (rc_HookLog rctx)) = maxHooks"
    and "\<And>h c. h \<in> set (preCallHooks he) \<Longrightarrow> rc_HookLog (fst (h_Execute h c)) = rc_HookLog c"
  shows "\<exists>rctx' err. RunPreCallHooks he elapsed rctx = HookDone rctx' err
    \<and> PreCallCount (rc_HookLog rctx') \<le> length (preCallHooks he)
    \<and> (err = None \<longrightarrow> PreCallCount (rc_HookLog rctx') = length (preCallHooks he))
    \<and> (\<forall>j < PreCallCount (rc_HookLog rctx').
         hr_Name (PreCallResults (rc_HookLog rctx') ! j) = h_Name (preCallHooks he ! j)
         \<and> hr_Status (PreCallResults (rc_HookLog rctx') ! j)
             = (if err \<noteq> None \<and> Suc j = PreCallCount (rc_HookLog rctx') then HookRejected else HookOK))"
proof -
  have ph: "ph_count phPreCall = PreCallCount" "ph_results phPreCall = PreCallResults"
    by (simp_all add: phPreCall_def)
  have "\<exists>rctx' err k. run_rejecting phPreCall elapsed 0 (preCallHooks he) rctx = HookDone rctx' err
    \<and> k \<le> length (preCallHooks he) \<and> PreCallCount (rc_HookLog rctx') = k
    \<and> (err = None \<longrightarrow> k = length (preCallHooks he))
    \<and> (\<forall>j < k. hr_Name (PreCallResults (rc_HookLog rctx') ! j) = h_Name (preCallHooks he ! j)
        \<and> hr_Status (PreCallResults (rc_HookLog rctx') ! j) = (if err \<noteq> None \<and> Suc j = k then HookRejected else HookOK))"
    using pre_call.run_rejecting_outcome [of "preCallHooks he" rctx elapsed 0] assms
    unfolding ph wf_engine_def by (simp only: add_0_left) blast
  then show ?thesis unfolding RunPreCallHooks_def by blast
qed

definition accept_hook :: Hook where
  "accept_hook = \<lparr>h_Name = ''accept'', h_Execute = (\<lambda>c. (c, None))\<rparr>"

definition reject_hook :: Hook where
  "reject_hook = \<lparr>h_Name = ''reject'', h_Execute = (\<lambda>c. (c, Some (NewForbidden ''no'')))\<rparr>"

definition example_engine :: HookEngine where
  "example_engine = NewHookEngine\<lparr>preCallHooks := [accept_hook, reject_hook, accept_hook]\<rparr>"

theorem RunPreCallHooks_first_rejection_witness:
  "\<exists>rctx' err. RunPreCallHooks example_engine (\<lambda>_. 1) DiffractLLMContext_zero = HookDone rctx' err
     \<and> PreCallCount (rc_HookLog rctx') \<le> 3"
proof -
  have "wf_engine example_engine" by (simp add: example_engine_def wf_engine_def NewHookEngine_def maxHooks_def)
  moreover have "PreCallCount (rc_HookLog DiffractLLMContext_zero) = 0"
    "length (PreCallResults (rc_HookLog DiffractLLMContext_zero)) = maxHooks"
    by (simp_all add: DiffractLLMContext_zero_def HookLog_zero_def)
  moreover have "\<And>h c. h \<in> set (preCallHooks example_engine) \<Longrightarrow> rc_HookLog (fst (h_Execute h c)) = rc_HookLog c"
    by (auto simp: example_engine_def accept_hook_def reject_hook_def)
  moreover have "length (preCallHooks example_engine) = 3" by (simp add: example_engine_def)
  ultimately show ?thesis
    using RunPreCallHooks_first_rejection [of example_engine DiffractLLMContext_zero "\<lambda>_. 1"] by metis
qed

text \<open>
  A recycled context can report the error text of an earlier request for a hook that now
  succeeds: resetting the hook log keeps the result slots, and a successful hook sets its status
  but not its error text.
\<close>

theorem stale_hook_error:
  "\<exists>rc he rctx'. RunPreCallHooks he (\<lambda>_. 1) (Context_reset rc) = HookDone rctx' None
     \<and> hr_Status (PreCallResults (rc_HookLog rctx') ! 0) = HookOK
     \<and> hr_Error (PreCallResults (rc_HookLog rctx') ! 0) = ''Access forbidden''"
proof (intro exI conjI)
  let ?l = "HookLog_zero\<lparr>PreCallResults := [HookResult_zero\<lparr>hr_Error := ''Access forbidden''\<rparr>]\<rparr>"
  let ?rc = "DiffractLLMContext_zero\<lparr>rc_HookLog := ?l\<rparr>"
  let ?he = "NewHookEngine\<lparr>preCallHooks := [accept_hook]\<rparr>"
  let ?r = "(Context_reset ?rc)\<lparr>rc_HookLog := log_hook phPreCall HookRejected ''accept'' 1 None (HookLog_reset ?l)\<rparr>"
  show "RunPreCallHooks ?he (\<lambda>_. 1) (Context_reset ?rc) = HookDone ?r None"
    by (simp add: RunPreCallHooks_def NewHookEngine_def accept_hook_def Context_reset_def HookLog_reset_def
        phPreCall_def maxHooks_def)
  show "hr_Status (PreCallResults (rc_HookLog ?r) ! 0) = HookOK"
    "hr_Error (PreCallResults (rc_HookLog ?r) ! 0) = ''Access forbidden''"
    by (simp_all add: log_hook_def phPreCall_def record_hook_def HookLog_reset_def HookLog_zero_def HookResult_zero_def)
qed

end
