(* ===== verification/BudgetLedger.thy ===== *)
theory BudgetLedger
  imports CoreTypes
begin

text \<open>
  Budgets at run time (\<^verbatim>\<open>internal/governance/budget.go\<close>) and the two background passes that settle
  them with the database (\<^verbatim>\<open>flushBudgetUsage\<close> and \<^verbatim>\<open>trackBudgetWindow\<close> of
  \<^verbatim>\<open>internal/governance/governance.go\<close>). The sequential functions come first; the second half models
  the same code one atomic operation at a time, interleaved with requests that record usage and
  with the periodic reload of the configuration.

  The cache is an association list in the order a \<^verbatim>\<open>Range\<close> visits it. The database is outside the
  program: a pass is given the identifiers for which the two updates fail, and the rows it wrote.
\<close>

section \<open>One budget\<close>

record BudgetState =
  bs_Config :: "Budget option"
  WindowCost :: int64
  WindowReqs :: int64
  LastFlushed :: int64
  LastReqs :: int64

definition CheckBudgetUsage :: "BudgetState \<Rightarrow> bool" where
  "CheckBudgetUsage b = (case bs_Config b of None \<Rightarrow> True | Some bc \<Rightarrow>
     if b_BudgetLimit bc = 0 then True
     else if b_Enforce bc = Some False then True
     else WindowCost b < b_BudgetLimit bc)"

text \<open>\<^verbatim>\<open>time.Sub\<close> saturates at the ends of the 64-bit range.\<close>

definition time_Sub :: "time \<Rightarrow> time \<Rightarrow> duration" where
  "time_Sub a b = max min_int64 (min max_int64 (a - b))"

definition CheckBudgetWindow :: "time \<Rightarrow> BudgetState \<Rightarrow> bool" where
  "CheckBudgetWindow now b = (case bs_Config b of None \<Rightarrow> False | Some bc \<Rightarrow>
     if b_BudgetParseDuration bc \<le> 0 then False
     else time_Sub now (b_LastBudgetRefreshAt bc) \<ge> b_BudgetParseDuration bc)"

definition RecordUsage :: "int64 \<Rightarrow> BudgetState \<Rightarrow> BudgetState" where
  "RecordUsage spend b = b\<lparr>WindowCost := wrap64 (WindowCost b + spend), WindowReqs := wrap64 (WindowReqs b + 1)\<rparr>"

definition budgetResetTarget :: "Budget option \<Rightarrow> time \<Rightarrow> time option" where
  "budgetResetTarget cfg now = (case cfg of None \<Rightarrow> None | Some c \<Rightarrow>
     if b_BudgetParseDuration c \<le> 0 then None
     else let elapsed = time_Sub now (b_LastBudgetRefreshAt c) in
       if elapsed < b_BudgetParseDuration c then None
       else let windows = elapsed div b_BudgetParseDuration c
         in Some (b_LastBudgetRefreshAt c + wrap64 (windows * b_BudgetParseDuration c)))"

section \<open>The cache\<close>

type_synonym BudgetCache = "(string \<times> BudgetState) list"

definition LookupBudget :: "string \<Rightarrow> BudgetCache \<Rightarrow> BudgetState option" where
  "LookupBudget budgetID bc = map_of bc budgetID"

definition seeded :: "Budget \<Rightarrow> BudgetState" where
  "seeded budget = \<lparr>bs_Config = Some budget, WindowCost = b_TotalSpend budget, WindowReqs = b_RequestCount budget,
     LastFlushed = b_TotalSpend budget, LastReqs = b_RequestCount budget\<rparr>"

fun upsert_entry :: "Budget \<Rightarrow> BudgetCache \<Rightarrow> BudgetCache" where
  "upsert_entry budget [] = [(b_ID budget, seeded budget)]"
| "upsert_entry budget ((i, b) # rest) =
     (if i = b_ID budget then (i, b\<lparr>bs_Config := Some budget\<rparr>) # rest else (i, b) # upsert_entry budget rest)"

definition UpsertBudget :: "Budget option \<Rightarrow> BudgetCache \<Rightarrow> BudgetCache" where
  "UpsertBudget budget bc = (case budget of None \<Rightarrow> bc | Some x \<Rightarrow> upsert_entry x bc)"

definition DeleteBudget :: "string \<Rightarrow> BudgetCache \<Rightarrow> BudgetCache" where
  "DeleteBudget budgetID bc = filter (\<lambda>e. fst e \<noteq> budgetID) bc"

definition LoadBudgets :: "Budget list \<Rightarrow> BudgetCache \<Rightarrow> BudgetCache" where
  "LoadBudgets budgetData bc =
    (let bc1 = foldl (\<lambda>c b. UpsertBudget (Some b) c) bc budgetData
     in filter (\<lambda>e. fst e \<in> b_ID ` set budgetData) bc1)"

section \<open>Settling with the database\<close>

record BudgetRow =
  row_TotalCost :: int64
  row_RequestCount :: int64
  row_LastRefresh :: time

type_synonym BudgetTable = "string \<rightharpoonup> BudgetRow"

text \<open>The updates of \<^verbatim>\<open>dbstore\<close>: they touch only an existing row.\<close>

definition Store_FlushBudgetUsage :: "string \<Rightarrow> int64 \<Rightarrow> int64 \<Rightarrow> BudgetTable \<Rightarrow> BudgetTable" where
  "Store_FlushBudgetUsage budgetID totalCost totalRequests db =
     db(budgetID := map_option (\<lambda>r. r\<lparr>row_TotalCost := totalCost, row_RequestCount := totalRequests\<rparr>) (db budgetID))"

definition Store_ResetBudgetWindow :: "string \<Rightarrow> time \<Rightarrow> BudgetTable \<Rightarrow> BudgetTable" where
  "Store_ResetBudgetWindow budgetID resetTime db =
     db(budgetID := map_option (\<lambda>r. r\<lparr>row_TotalCost := 0, row_RequestCount := 0, row_LastRefresh := resetTime\<rparr>) (db budgetID))"

definition flush_one :: "(string \<Rightarrow> bool) \<Rightarrow> BudgetState \<Rightarrow> BudgetTable \<Rightarrow> BudgetState \<times> BudgetTable \<times> bool" where
  "flush_one flushFails b db = (case bs_Config b of None \<Rightarrow> (b, db, False)
   | Some cfg \<Rightarrow>
       let cost = WindowCost b; reqs = WindowReqs b in
       if cost = LastFlushed b \<and> reqs = LastReqs b then (b, db, False)
       else if flushFails (b_ID cfg) then (b, db, False)
       else (b\<lparr>LastFlushed := cost, LastReqs := reqs\<rparr>, Store_FlushBudgetUsage (b_ID cfg) cost reqs db, True))"

definition roll_one :: "(string \<Rightarrow> bool) \<Rightarrow> (string \<Rightarrow> bool) \<Rightarrow> time \<Rightarrow> BudgetState \<Rightarrow> BudgetTable
    \<Rightarrow> BudgetState \<times> BudgetTable \<times> bool" where
  "roll_one flushFails resetFails now b db = (case bs_Config b of None \<Rightarrow> (b, db, False)
   | Some cfg \<Rightarrow> (case budgetResetTarget (Some cfg) now of None \<Rightarrow> (b, db, False)
     | Some target \<Rightarrow>
         let cost = WindowCost b; reqs = WindowReqs b in
         if flushFails (b_ID cfg) then (b, db, False)
         else let db1 = Store_FlushBudgetUsage (b_ID cfg) cost reqs db in
           if resetFails (b_ID cfg) then (b, db1, False)
           else let db2 = Store_ResetBudgetWindow (b_ID cfg) target db1;
                    newCfg = cfg\<lparr>b_LastBudgetRefreshAt := target, b_TotalSpend := 0, b_RequestCount := 0\<rparr>
             in (b\<lparr>bs_Config := Some newCfg, WindowCost := wrap64 (WindowCost b - cost),
                   WindowReqs := wrap64 (WindowReqs b - reqs), LastFlushed := 0, LastReqs := 0\<rparr>, db2, True)))"

fun settle_all :: "(BudgetState \<Rightarrow> BudgetTable \<Rightarrow> BudgetState \<times> BudgetTable \<times> bool) \<Rightarrow> BudgetCache \<Rightarrow> BudgetTable
    \<Rightarrow> BudgetCache \<times> BudgetTable \<times> nat" where
  "settle_all one [] db = ([], db, 0)"
| "settle_all one ((i, b) # rest) db = (case one b db of (b', db1, done) \<Rightarrow>
     case settle_all one rest db1 of (rest', db2, n) \<Rightarrow> ((i, b') # rest', db2, if done then Suc n else n))"

definition flushBudgetUsage :: "(string \<Rightarrow> bool) \<Rightarrow> BudgetCache \<Rightarrow> BudgetTable \<Rightarrow> BudgetCache \<times> BudgetTable \<times> nat" where
  "flushBudgetUsage flushFails bc db = settle_all (flush_one flushFails) bc db"

definition trackBudgetWindow :: "(string \<Rightarrow> bool) \<Rightarrow> (string \<Rightarrow> bool) \<Rightarrow> time \<Rightarrow> BudgetCache \<Rightarrow> BudgetTable
    \<Rightarrow> BudgetCache \<times> BudgetTable \<times> nat" where
  "trackBudgetWindow flushFails resetFails now bc db = settle_all (roll_one flushFails resetFails now) bc db"

section \<open>Windows\<close>

lemma time_Sub_exact: "in_int64 (a - b) \<Longrightarrow> time_Sub a b = a - b"
  by (simp add: time_Sub_def in_int64_def)

lemma div_window: "0 < (d :: int) \<Longrightarrow> d \<le> e \<Longrightarrow> 0 < e div d \<and> e div d * d \<le> e \<and> e < e div d * d + d"
  by (smt (verit) div_mult_mod_eq pos_imp_zdiv_pos_iff pos_mod_bound pos_mod_sign)

text \<open>
  When a budget window has run out, the new window starts at the largest whole number of
  budget periods after the last refresh that is not in the future: the start is aligned, strictly
  later than the old one, and the current time lies inside the new window. Otherwise there is
  nothing to reset, and the check of the request path agrees with the background pass about it.
\<close>

theorem budgetResetTarget_window:
  assumes "b_BudgetParseDuration c = d" "0 < d" "in_int64 (now - b_LastBudgetRefreshAt c)"
  shows "(case budgetResetTarget (Some c) now of
       None \<Rightarrow> now < b_LastBudgetRefreshAt c + d
     | Some target \<Rightarrow> b_LastBudgetRefreshAt c < target \<and> target \<le> now \<and> now < target + d
         \<and> (\<exists>k > 0. target = b_LastBudgetRefreshAt c + k * d))
   \<and> CheckBudgetWindow now (b\<lparr>bs_Config := Some c\<rparr>) = (budgetResetTarget (Some c) now \<noteq> None)"
proof (cases "now - b_LastBudgetRefreshAt c < d")
  case True
  then show ?thesis using assms by (auto simp: budgetResetTarget_def time_Sub_exact CheckBudgetWindow_def)
next
  case False
  let ?e = "now - b_LastBudgetRefreshAt c"
  have w: "0 < ?e div d" "?e div d * d \<le> ?e" "?e < ?e div d * d + d"
    using div_window [of d ?e] assms(2) False by simp_all
  have "0 \<le> ?e div d * d" using w(1) assms(2) by simp
  then have "in_int64 (?e div d * d)" using w(2) assms(3) by (auto simp: in_int64_def min_int64_def)
  then have t: "budgetResetTarget (Some c) now = Some (b_LastBudgetRefreshAt c + ?e div d * d)"
    using False assms by (simp add: budgetResetTarget_def time_Sub_exact Let_def)
  have "0 < ?e div d * d" using w(1) assms(2) by simp
  moreover have "CheckBudgetWindow now (b\<lparr>bs_Config := Some c\<rparr>)"
    using False assms by (auto simp: CheckBudgetWindow_def time_Sub_exact)
  ultimately show ?thesis using t w by auto
qed

definition example_budget :: Budget where
  "example_budget = \<lparr>b_ID = ''b1'', b_Name = ''team'', b_BudgetLimit = 1000, b_BudgetUnit = ''nanodollars'',
     b_BudgetDuration = ''1d'', b_LastBudgetRefreshAt = 100, b_Enforce = None, b_TotalSpend = 0, b_RequestCount = 0,
     b_Status = [], b_CreatedAt = 0, b_UpdatedAt = 0, b_BudgetParseDuration = 10\<rparr>"

lemma example_budget_simps:
  "b_LastBudgetRefreshAt example_budget = 100" "b_BudgetParseDuration example_budget = 10"
  "b_BudgetLimit example_budget = 1000" "b_Enforce example_budget = None" "b_ID example_budget = ''b1''"
  by (simp_all add: example_budget_def)

theorem budgetResetTarget_window_witness: "budgetResetTarget (Some example_budget) 137 = Some 130"
proof -
  have "in_int64 (137 - b_LastBudgetRefreshAt example_budget)"
    by (simp add: example_budget_simps in_int64_bounds)
  note w = budgetResetTarget_window [OF example_budget_simps(2) _ this]
  show ?thesis
  proof (cases "budgetResetTarget (Some example_budget) 137")
    case (Some t)
    then obtain k where "t = 100 + k * 10" "t \<le> 137" "137 < t + 10"
      using w [of undefined] by (auto simp: example_budget_simps)
    then have "t = 130" by presburger
    with Some show ?thesis by simp
  qed (use w [of undefined] in \<open>simp add: example_budget_simps\<close>)
qed

text \<open>
  A request is admitted by its budget exactly when the budget has no limit, is explicitly not
  enforced, or has spent strictly less than its limit in the current window; hence once the spend
  of the window reaches the limit every further request is refused until the window is reset, and
  spend can exceed the limit only by requests that were admitted before.
\<close>

theorem CheckBudgetUsage_refuses:
  assumes "bs_Config b = Some c" "0 < b_BudgetLimit c" "b_Enforce c \<noteq> Some False"
    and "0 \<le> spend" "in_int64 (WindowCost b + spend)" "b_BudgetLimit c \<le> WindowCost b + spend"
  shows "\<not> CheckBudgetUsage (RecordUsage spend b) \<and> (\<forall>more \<ge> 0. in_int64 (WindowCost b + spend + more) \<longrightarrow>
      \<not> CheckBudgetUsage (RecordUsage more (RecordUsage spend b)))"
  using assms by (auto simp: CheckBudgetUsage_def RecordUsage_def)

theorem CheckBudgetUsage_refuses_witness:
  "CheckBudgetUsage (seeded example_budget) \<and> \<not> CheckBudgetUsage (RecordUsage 1000 (seeded example_budget))"
  using CheckBudgetUsage_refuses [of "seeded example_budget" example_budget 1000]
  by (simp add: seeded_def example_budget_def in_int64_bounds CheckBudgetUsage_def)

section \<open>Settling under concurrency\<close>

text \<open>
  The position of the settling goroutine inside \<^verbatim>\<open>flushBudgetUsage\<close> or \<^verbatim>\<open>trackBudgetWindow\<close>, with
  the values it has read.
\<close>

datatype settle_pc =
    Idle
  | FlushCost Budget int64 | FlushBoth Budget int64 int64 | FlushWritten int64 int64 | FlushStored int64
  | RollCost Budget time int64 | RollBoth Budget time int64 int64 | RollFlushed Budget time int64 int64
  | RollReset Budget time int64 int64 | RollConfig int64 int64 | RollSubCost int64 | RollSubReqs | RollZeroed

text \<open>
  One budget, its row in the database, and ghost counters: everything ever recorded, and what the
  row held for the windows that were closed.
\<close>

record budget_sys =
  sys_b :: BudgetState
  sys_pc :: settle_pc
  sys_row :: BudgetRow
  sys_inflight :: nat
  sys_recorded :: int
  sys_requests :: int
  sys_closed :: int
  sys_closed_reqs :: int

definition budget_init :: "Budget \<Rightarrow> budget_sys" where
  "budget_init c = \<lparr>sys_b = seeded c, sys_pc = Idle,
     sys_row = \<lparr>row_TotalCost = b_TotalSpend c, row_RequestCount = b_RequestCount c, row_LastRefresh = b_LastBudgetRefreshAt c\<rparr>,
     sys_inflight = 0, sys_recorded = b_TotalSpend c, sys_requests = b_RequestCount c,
     sys_closed = 0, sys_closed_reqs = 0\<rparr>"

text \<open>Every rule is one atomic operation of the program or of the database.\<close>

inductive budget_step :: "budget_sys \<Rightarrow> budget_sys \<Rightarrow> bool" where
  rec_cost: "budget_step s (s\<lparr>sys_b := (sys_b s)\<lparr>WindowCost := wrap64 (WindowCost (sys_b s) + spend)\<rparr>,
     sys_inflight := Suc (sys_inflight s), sys_recorded := sys_recorded s + spend\<rparr>)"
| rec_req: "sys_inflight s = Suc n \<Longrightarrow> budget_step s (s\<lparr>sys_b := (sys_b s)\<lparr>WindowReqs := wrap64 (WindowReqs (sys_b s) + 1)\<rparr>,
     sys_inflight := n, sys_requests := sys_requests s + 1\<rparr>)"
| reload: "budget_step s (s\<lparr>sys_b := (sys_b s)\<lparr>bs_Config := Some c\<rparr>\<rparr>)"
| flush_cost: "sys_pc s = Idle \<Longrightarrow> bs_Config (sys_b s) = Some c \<Longrightarrow>
     budget_step s (s\<lparr>sys_pc := FlushCost c (WindowCost (sys_b s))\<rparr>)"
| flush_reqs: "sys_pc s = FlushCost c cost \<Longrightarrow>
     budget_step s (s\<lparr>sys_pc := FlushBoth c cost (WindowReqs (sys_b s))\<rparr>)"
| flush_skip: "sys_pc s = FlushBoth c cost reqs \<Longrightarrow> cost = LastFlushed (sys_b s) \<Longrightarrow> reqs = LastReqs (sys_b s) \<Longrightarrow>
     budget_step s (s\<lparr>sys_pc := Idle\<rparr>)"
| flush_fail: "sys_pc s = FlushBoth c cost reqs \<Longrightarrow> budget_step s (s\<lparr>sys_pc := Idle\<rparr>)"
| flush_write: "sys_pc s = FlushBoth c cost reqs \<Longrightarrow>
     budget_step s (s\<lparr>sys_pc := FlushWritten cost reqs, sys_row := (sys_row s)\<lparr>row_TotalCost := cost, row_RequestCount := reqs\<rparr>\<rparr>)"
| flush_store_cost: "sys_pc s = FlushWritten cost reqs \<Longrightarrow>
     budget_step s (s\<lparr>sys_pc := FlushStored reqs, sys_b := (sys_b s)\<lparr>LastFlushed := cost\<rparr>\<rparr>)"
| flush_store_reqs: "sys_pc s = FlushStored reqs \<Longrightarrow>
     budget_step s (s\<lparr>sys_pc := Idle, sys_b := (sys_b s)\<lparr>LastReqs := reqs\<rparr>\<rparr>)"
| roll_cost: "sys_pc s = Idle \<Longrightarrow> bs_Config (sys_b s) = Some c \<Longrightarrow> budgetResetTarget (Some c) now = Some target \<Longrightarrow>
     budget_step s (s\<lparr>sys_pc := RollCost c target (WindowCost (sys_b s))\<rparr>)"
| roll_reqs: "sys_pc s = RollCost c target cost \<Longrightarrow>
     budget_step s (s\<lparr>sys_pc := RollBoth c target cost (WindowReqs (sys_b s))\<rparr>)"
| roll_flush_fail: "sys_pc s = RollBoth c target cost reqs \<Longrightarrow> budget_step s (s\<lparr>sys_pc := Idle\<rparr>)"
| roll_flush: "sys_pc s = RollBoth c target cost reqs \<Longrightarrow>
     budget_step s (s\<lparr>sys_pc := RollFlushed c target cost reqs,
       sys_row := (sys_row s)\<lparr>row_TotalCost := cost, row_RequestCount := reqs\<rparr>\<rparr>)"
| roll_reset_fail: "sys_pc s = RollFlushed c target cost reqs \<Longrightarrow> budget_step s (s\<lparr>sys_pc := Idle\<rparr>)"
| roll_reset: "sys_pc s = RollFlushed c target cost reqs \<Longrightarrow>
     budget_step s (s\<lparr>sys_pc := RollReset c target cost reqs,
       sys_closed := sys_closed s + row_TotalCost (sys_row s),
       sys_closed_reqs := sys_closed_reqs s + row_RequestCount (sys_row s),
       sys_row := \<lparr>row_TotalCost = 0, row_RequestCount = 0, row_LastRefresh = target\<rparr>\<rparr>)"
| roll_config: "sys_pc s = RollReset c target cost reqs \<Longrightarrow>
     budget_step s (s\<lparr>sys_pc := RollConfig cost reqs, sys_b := (sys_b s)\<lparr>bs_Config :=
       Some (c\<lparr>b_LastBudgetRefreshAt := target, b_TotalSpend := 0, b_RequestCount := 0\<rparr>)\<rparr>\<rparr>)"
| roll_sub_cost: "sys_pc s = RollConfig cost reqs \<Longrightarrow>
     budget_step s (s\<lparr>sys_pc := RollSubCost reqs, sys_b := (sys_b s)\<lparr>WindowCost := wrap64 (WindowCost (sys_b s) - cost)\<rparr>\<rparr>)"
| roll_sub_reqs: "sys_pc s = RollSubCost reqs \<Longrightarrow>
     budget_step s (s\<lparr>sys_pc := RollSubReqs, sys_b := (sys_b s)\<lparr>WindowReqs := wrap64 (WindowReqs (sys_b s) - reqs)\<rparr>\<rparr>)"
| roll_zero_cost: "sys_pc s = RollSubReqs \<Longrightarrow>
     budget_step s (s\<lparr>sys_pc := RollZeroed, sys_b := (sys_b s)\<lparr>LastFlushed := 0\<rparr>\<rparr>)"
| roll_zero_reqs: "sys_pc s = RollZeroed \<Longrightarrow>
     budget_step s (s\<lparr>sys_pc := Idle, sys_b := (sys_b s)\<lparr>LastReqs := 0\<rparr>\<rparr>)"

text \<open>The closed amount that has not yet been taken out of the window counters.\<close>

fun pending_cost :: "settle_pc \<Rightarrow> int" where
  "pending_cost (RollReset c t cost reqs) = cost"
| "pending_cost (RollConfig cost reqs) = cost"
| "pending_cost _ = 0"

fun pending_reqs :: "settle_pc \<Rightarrow> int" where
  "pending_reqs (RollReset c t cost reqs) = reqs"
| "pending_reqs (RollConfig cost reqs) = reqs"
| "pending_reqs (RollSubCost reqs) = reqs"
| "pending_reqs _ = 0"

definition row_agrees :: "budget_sys \<Rightarrow> bool" where
  "row_agrees s = (case sys_pc s of RollFlushed c t cost reqs \<Rightarrow>
      row_TotalCost (sys_row s) = cost \<and> row_RequestCount (sys_row s) = reqs | _ \<Rightarrow> True)"

definition ledger_inv :: "budget_sys \<Rightarrow> bool" where
  "ledger_inv s \<longleftrightarrow> row_agrees s
     \<and> WindowCost (sys_b s) = wrap64 (sys_recorded s - sys_closed s + pending_cost (sys_pc s))
     \<and> WindowReqs (sys_b s) = wrap64 (sys_requests s - sys_closed_reqs s + pending_reqs (sys_pc s))"

lemma wrap64_diff_wrap64 [simp]: "wrap64 (wrap64 x - y) = wrap64 (x - y)"
  using wrap64_wrap64_add [of x "- y"] by simp

lemma ledger_inv_step: "budget_step s s' \<Longrightarrow> ledger_inv s \<Longrightarrow> ledger_inv s'"
  by (induction rule: budget_step.induct)
    (auto simp: ledger_inv_def row_agrees_def algebra_simps split: settle_pc.splits)

lemma ledger_inv_init: "in_int64 (b_TotalSpend c) \<Longrightarrow> in_int64 (b_RequestCount c) \<Longrightarrow> ledger_inv (budget_init c)"
  by (simp add: ledger_inv_def row_agrees_def budget_init_def seeded_def)

lemma ledger_inv_steps: "budget_step\<^sup>*\<^sup>* s s' \<Longrightarrow> ledger_inv s \<Longrightarrow> ledger_inv s'"
  by (induction rule: rtranclp_induct) (auto intro: ledger_inv_step)



text \<open>The sequential pass is one of these executions: with no request in between, rolling a
  window takes the steps of the relation to the state the function computes.\<close>

lemma step_star: "budget_step s s' \<Longrightarrow> budget_step\<^sup>*\<^sup>* s' s'' \<Longrightarrow> budget_step\<^sup>*\<^sup>* s s''"
  by (rule converse_rtranclp_into_rtranclp)

lemma roll_one_steps:
  assumes "sys_pc s = Idle" "bs_Config (sys_b s) = Some c" "budgetResetTarget (Some c) now = Some target"
    and "db (b_ID c) = Some (sys_row s)"
    and "roll_one (\<lambda>_. False) (\<lambda>_. False) now (sys_b s) db = (b', db', True)"
  shows "\<exists>s'. budget_step\<^sup>*\<^sup>* s s' \<and> sys_b s' = b' \<and> db' (b_ID c) = Some (sys_row s') \<and> sys_pc s' = Idle
    \<and> sys_closed s' = sys_closed s + WindowCost (sys_b s)"
proof -
  let ?x = "WindowCost (sys_b s)" and ?r = "WindowReqs (sys_b s)"
  let ?n = "c\<lparr>b_LastBudgetRefreshAt := target, b_TotalSpend := 0, b_RequestCount := 0\<rparr>"
  have out: "b' = (sys_b s)\<lparr>bs_Config := Some ?n, WindowCost := wrap64 (?x - ?x), WindowReqs := wrap64 (?r - ?r),
      LastFlushed := 0, LastReqs := 0\<rparr>"
    "db' (b_ID c) = Some \<lparr>row_TotalCost = 0, row_RequestCount = 0, row_LastRefresh = target\<rparr>"
    using assms by (auto simp: roll_one_def Let_def Store_ResetBudgetWindow_def Store_FlushBudgetUsage_def)
  define s1 where "s1 = s\<lparr>sys_pc := RollCost c target ?x\<rparr>"
  define s2 where "s2 = s1\<lparr>sys_pc := RollBoth c target ?x ?r\<rparr>"
  define s3 where "s3 = s2\<lparr>sys_pc := RollFlushed c target ?x ?r, sys_row := (sys_row s2)\<lparr>row_TotalCost := ?x, row_RequestCount := ?r\<rparr>\<rparr>"
  define s4 where "s4 = s3\<lparr>sys_pc := RollReset c target ?x ?r, sys_closed := sys_closed s3 + row_TotalCost (sys_row s3),
       sys_closed_reqs := sys_closed_reqs s3 + row_RequestCount (sys_row s3),
       sys_row := \<lparr>row_TotalCost = 0, row_RequestCount = 0, row_LastRefresh = target\<rparr>\<rparr>"
  define s5 where "s5 = s4\<lparr>sys_pc := RollConfig ?x ?r, sys_b := (sys_b s4)\<lparr>bs_Config := Some ?n\<rparr>\<rparr>"
  define s6 where "s6 = s5\<lparr>sys_pc := RollSubCost ?r, sys_b := (sys_b s5)\<lparr>WindowCost := wrap64 (WindowCost (sys_b s5) - ?x)\<rparr>\<rparr>"
  define s7 where "s7 = s6\<lparr>sys_pc := RollSubReqs, sys_b := (sys_b s6)\<lparr>WindowReqs := wrap64 (WindowReqs (sys_b s6) - ?r)\<rparr>\<rparr>"
  define s8 where "s8 = s7\<lparr>sys_pc := RollZeroed, sys_b := (sys_b s7)\<lparr>LastFlushed := 0\<rparr>\<rparr>"
  define s9 where "s9 = s8\<lparr>sys_pc := Idle, sys_b := (sys_b s8)\<lparr>LastReqs := 0\<rparr>\<rparr>"
  note defs = s1_def s2_def s3_def s4_def s5_def s6_def s7_def s8_def s9_def
  have "budget_step s s1" unfolding s1_def using assms(1-3) by (rule roll_cost)
  moreover have "budget_step s1 s2" using roll_reqs [of s1 c target ?x] by (simp add: s1_def s2_def)
  moreover have "budget_step s2 s3" unfolding s3_def by (rule roll_flush) (simp add: s2_def)
  moreover have "budget_step s3 s4" unfolding s4_def by (rule roll_reset) (simp add: s3_def)
  moreover have "budget_step s4 s5" unfolding s5_def by (rule roll_config) (simp add: s4_def)
  moreover have "budget_step s5 s6" unfolding s6_def by (rule roll_sub_cost) (simp add: s5_def)
  moreover have "budget_step s6 s7" unfolding s7_def by (rule roll_sub_reqs) (simp add: s6_def)
  moreover have "budget_step s7 s8" unfolding s8_def by (rule roll_zero_cost) (simp add: s7_def)
  moreover have "budget_step s8 s9" unfolding s9_def by (rule roll_zero_reqs) (simp add: s8_def)
  ultimately have "budget_step\<^sup>*\<^sup>* s s9" by (meson step_star rtranclp.rtrancl_refl)
  moreover have "sys_b s9 = b' \<and> db' (b_ID c) = Some (sys_row s9) \<and> sys_pc s9 = Idle
      \<and> sys_closed s9 = sys_closed s + ?x"
    by (simp add: out defs)
  ultimately show ?thesis by blast
qed

section \<open>The cache\<close>

lemma lookup_upsert:
  "LookupBudget i (upsert_entry budget bc) = (if i = b_ID budget
     then Some (case LookupBudget i bc of None \<Rightarrow> seeded budget | Some b \<Rightarrow> b\<lparr>bs_Config := Some budget\<rparr>)
     else LookupBudget i bc)"
  by (induction budget bc rule: upsert_entry.induct) (auto simp: LookupBudget_def)

lemma lookup_filter: "LookupBudget i (filter (\<lambda>e. P (fst e)) bc) = (if P i then LookupBudget i bc else None)"
  by (induction bc) (auto simp: LookupBudget_def)

lemma lookup_upserts_other:
  "i \<notin> b_ID ` set bs \<Longrightarrow> LookupBudget i (foldl (\<lambda>c b. UpsertBudget (Some b) c) bc bs) = LookupBudget i bc"
  by (induction bs arbitrary: bc) (auto simp: UpsertBudget_def lookup_upsert)

lemma lookup_upserts:
  assumes "distinct (map b_ID bs)" "budget \<in> set bs"
  shows "LookupBudget (b_ID budget) (foldl (\<lambda>c b. UpsertBudget (Some b) c) bc bs)
    = Some (case LookupBudget (b_ID budget) bc of None \<Rightarrow> seeded budget | Some b \<Rightarrow> b\<lparr>bs_Config := Some budget\<rparr>)"
  using assms
proof (induction bs arbitrary: bc)
  case (Cons x bs)
  show ?case
  proof (cases "budget = x")
    case True
    then have "b_ID budget \<notin> b_ID ` set bs" using Cons.prems(1) by auto
    then have "LookupBudget (b_ID x) (foldl (\<lambda>c b. UpsertBudget (Some b) c) (UpsertBudget (Some x) bc) bs)
        = LookupBudget (b_ID x) (UpsertBudget (Some x) bc)"
      using True by (intro lookup_upserts_other) simp
    with True show ?thesis by (simp add: UpsertBudget_def lookup_upsert split: option.splits)
  next
    case False
    then have "b_ID budget \<noteq> b_ID x" using Cons.prems by (auto simp: image_iff)
    with False Cons show ?thesis by (simp add: UpsertBudget_def lookup_upsert)
  qed
qed simp

text \<open>
  Reloading the budgets from the database never touches the spend of a budget that is already
  being tracked: its counters are kept and only its configuration is replaced; a new budget starts
  from the stored totals; a budget that is no longer stored is dropped.
\<close>

theorem LoadBudgets_keeps_spend:
  assumes "distinct (map b_ID rows)"
  shows "(\<forall>row \<in> set rows. LookupBudget (b_ID row) (LoadBudgets rows bc) =
      Some (case LookupBudget (b_ID row) bc of None \<Rightarrow> seeded row | Some b \<Rightarrow> b\<lparr>bs_Config := Some row\<rparr>))
    \<and> (\<forall>i. i \<notin> b_ID ` set rows \<longrightarrow> LookupBudget i (LoadBudgets rows bc) = None)"
  using lookup_upserts [OF assms]
  by (auto simp: LoadBudgets_def lookup_filter [where P = "\<lambda>i. i \<in> b_ID ` set rows"])

theorem LoadBudgets_keeps_spend_witness:
  "LookupBudget ''b1'' (LoadBudgets [example_budget\<lparr>b_BudgetLimit := 5\<rparr>] [(''b1'', RecordUsage 9 (seeded example_budget))])
    = Some ((RecordUsage 9 (seeded example_budget))\<lparr>bs_Config := Some (example_budget\<lparr>b_BudgetLimit := 5\<rparr>)\<rparr>)"
  using LoadBudgets_keeps_spend [of "[example_budget\<lparr>b_BudgetLimit := 5\<rparr>]" "[(''b1'', RecordUsage 9 (seeded example_budget))]"]
  by (simp add: example_budget_def LookupBudget_def)

end
