(* ===== verification/Buffers.thy ===== *)
theory Buffers
  imports Prelude "HOL-Library.Sublist"
begin

text \<open>
  The two bounded buffers between the request path and the background writers: the usage buffer
  (\<^verbatim>\<open>internal/governance/usage.go\<close>) and the metrics events buffer
  (\<^verbatim>\<open>internal/metrics-engine/EventsBuffer.go\<close>). Every operation holds the buffer's lock, so a
  concurrent execution is a sequence of operations. The interface of a bounded buffer is a locale,
  interpreted on both.
\<close>

section \<open>Interface\<close>

datatype 'a buffer_op = BufAppend 'a | BufDrain

text \<open>A sequence of operations: what the drains returned, in order, and the final state.\<close>

fun buf_run :: "('a \<Rightarrow> 's \<Rightarrow> 's \<times> bool) \<Rightarrow> ('s \<Rightarrow> 'a list \<times> 's) \<Rightarrow> 'a buffer_op list \<Rightarrow> 's \<Rightarrow> 'a list \<times> 's" where
  "buf_run app drain [] s = ([], s)"
| "buf_run app drain (BufAppend x # ops) s = buf_run app drain ops (fst (app x s))"
| "buf_run app drain (BufDrain # ops) s =
     (case drain s of (out, s1) \<Rightarrow> case buf_run app drain ops s1 of (outs, s2) \<Rightarrow> (out @ outs, s2))"

fun appended :: "'a buffer_op list \<Rightarrow> 'a list" where
  "appended [] = []"
| "appended (BufAppend x # ops) = x # appended ops"
| "appended (BufDrain # ops) = appended ops"

locale bounded_buffer =
  fixes contents :: "'s \<Rightarrow> 'a list" and capacity :: "'s \<Rightarrow> nat" and dropped :: "'s \<Rightarrow> nat"
    and app :: "'a \<Rightarrow> 's \<Rightarrow> 's \<times> bool" and drain :: "'s \<Rightarrow> 'a list \<times> 's"
  assumes append_room: "length (contents s) < capacity s \<Longrightarrow>
      snd (app x s) \<and> contents (fst (app x s)) = contents s @ [x] \<and> dropped (fst (app x s)) = dropped s"
    and append_full: "capacity s \<le> length (contents s) \<Longrightarrow>
      \<not> snd (app x s) \<and> contents (fst (app x s)) = contents s \<and> dropped (fst (app x s)) = Suc (dropped s)"
    and append_capacity: "capacity (fst (app x s)) = capacity s"
    and drain_out: "fst (drain s) = contents s"
    and drain_empty: "contents (snd (drain s)) = [] \<and> capacity (snd (drain s)) = capacity s
      \<and> dropped (snd (drain s)) = dropped s"
begin

lemma append_bounded:
  "length (contents s) \<le> capacity s \<Longrightarrow> length (contents (fst (app x s))) \<le> capacity (fst (app x s))"
  using append_room [of s x] append_full [of s x] append_capacity [of x s]
  by (cases "length (contents s) < capacity s") auto

lemma run_bounded:
  "length (contents s) \<le> capacity s \<Longrightarrow> buf_run app drain ops s = (outs, s') \<Longrightarrow>
   length (contents s') \<le> capacity s' \<and> capacity s' = capacity s"
proof (induction ops arbitrary: s outs)
  case (Cons op ops)
  show ?case
  proof (cases op)
    case (BufAppend x)
    then show ?thesis
      using Cons.IH [of "fst (app x s)" outs] append_bounded [OF Cons.prems(1), of x] append_capacity [of x s] Cons.prems(2)
      by simp
  next
    case BufDrain
    then obtain outs2 where "buf_run app drain ops (snd (drain s)) = (outs2, s')"
      using Cons.prems(2) by (auto split: prod.splits)
    then show ?thesis using Cons.IH [of "snd (drain s)" outs2] drain_empty [of s] by simp
  qed
qed simp

text \<open>Nothing is lost silently, duplicated or reordered: what was drained followed by what is still
  buffered is a subsequence of what was appended, and the missing ones are counted.\<close>

lemma run_conserves:
  assumes "buf_run app drain ops s = (outs, s')"
  shows "subseq (outs @ contents s') (contents s @ appended ops)
    \<and> length (contents s) + length (appended ops) + dropped s = length outs + length (contents s') + dropped s'"
  using assms
proof (induction ops arbitrary: s outs)
  case Nil
  then show ?case by simp
next
  case (Cons op ops)
  show ?case
  proof (cases op)
    case (BufAppend x)
    let ?s = "fst (app x s)"
    have run: "buf_run app drain ops ?s = (outs, s')" using Cons.prems BufAppend by simp
    note IH = Cons.IH [OF run]
    show ?thesis
    proof (cases "length (contents s) < capacity s")
      case True
      from append_room [OF this, of x] IH BufAppend show ?thesis by simp
    next
      case False
      then have full: "contents ?s = contents s" "dropped ?s = Suc (dropped s)" using append_full [of s x] by auto
      have "subseq (contents s @ appended ops) (contents s @ x # appended ops)" by (intro list_emb_append_mono list_emb_Cons) simp_all
      with IH full BufAppend show ?thesis by (auto intro: subseq_order.trans)
    qed
  next
    case BufDrain
    obtain out s1 where d: "drain s = (out, s1)" by force
    obtain outs2 where run: "buf_run app drain ops s1 = (outs2, s')" and o: "outs = out @ outs2"
      using Cons.prems BufDrain d by (auto split: prod.splits)
    have "out = contents s" "contents s1 = []" "dropped s1 = dropped s"
      using d drain_out [of s] drain_empty [of s] by simp_all
    with Cons.IH [OF run] o BufDrain show ?thesis by (auto intro: list_emb_append_mono)
  qed
qed

end

section \<open>The usage buffer\<close>

record UsageRecord =
  ur_ClientID :: string
  ur_BudgetID :: string
  ur_Backend :: string
  ur_ModelID :: string
  ur_ModelName :: string
  ur_InputTokens :: int64
  ur_OutputTokens :: int64
  ur_ResponseBytes :: int
  ur_ResponseStatus :: int
  ur_Cost :: int64
  ur_RequestedAt :: time

definition DefaultUsageBufferCapacity :: nat where
  "DefaultUsageBufferCapacity = 100000"

record UsageBuffer =
  ub_records :: "UsageRecord list"
  ub_maxCapacity :: nat
  ub_dropped :: nat

definition NewUsageBuffer :: "int \<Rightarrow> UsageBuffer" where
  "NewUsageBuffer maxcapacity = \<lparr>ub_records = [],
     ub_maxCapacity = (if maxcapacity \<le> 0 then DefaultUsageBufferCapacity else nat maxcapacity), ub_dropped = 0\<rparr>"

text \<open>Besides the state, whether the record was kept.\<close>

definition UsageBuffer_Append :: "UsageRecord \<Rightarrow> UsageBuffer \<Rightarrow> UsageBuffer \<times> bool" where
  "UsageBuffer_Append r ub =
    (if length (ub_records ub) \<ge> ub_maxCapacity ub then (ub\<lparr>ub_dropped := ub_dropped ub + 1\<rparr>, False)
     else (ub\<lparr>ub_records := ub_records ub @ [r]\<rparr>, True))"

definition UsageBuffer_Drain :: "UsageBuffer \<Rightarrow> UsageRecord list \<times> UsageBuffer" where
  "UsageBuffer_Drain ub = (ub_records ub, ub\<lparr>ub_records := []\<rparr>)"

definition UsageBuffer_Len :: "UsageBuffer \<Rightarrow> nat" where
  "UsageBuffer_Len ub = length (ub_records ub)"

definition UsageBuffer_DroppedCount :: "UsageBuffer \<Rightarrow> nat" where
  "UsageBuffer_DroppedCount ub = ub_dropped ub"

interpretation usage_buffer: bounded_buffer ub_records ub_maxCapacity ub_dropped UsageBuffer_Append UsageBuffer_Drain
  by unfold_locales (simp_all add: UsageBuffer_Append_def UsageBuffer_Drain_def)

section \<open>The events buffer\<close>

definition DefaultEventsBufferCapacity :: nat where
  "DefaultEventsBufferCapacity = 5000"

record 'e EventsBuffer =
  eb_events :: "'e list"
  eb_maxCapacity :: nat
  eb_dropped :: nat

definition NewEventsBuffer :: "int \<Rightarrow> 'e EventsBuffer" where
  "NewEventsBuffer maxCapacity = \<lparr>eb_events = [],
     eb_maxCapacity = (if maxCapacity \<le> 0 then DefaultEventsBufferCapacity else nat maxCapacity), eb_dropped = 0\<rparr>"

definition EventsBuffer_Append :: "'e \<Rightarrow> 'e EventsBuffer \<Rightarrow> 'e EventsBuffer \<times> bool" where
  "EventsBuffer_Append e b =
    (if length (eb_events b) \<ge> eb_maxCapacity b then (b\<lparr>eb_dropped := eb_dropped b + 1\<rparr>, False)
     else (b\<lparr>eb_events := eb_events b @ [e]\<rparr>, True))"

definition EventsBuffer_Drain :: "'e EventsBuffer \<Rightarrow> 'e list \<times> 'e EventsBuffer" where
  "EventsBuffer_Drain b = (eb_events b, b\<lparr>eb_events := []\<rparr>)"

definition EventsBuffer_Len :: "'e EventsBuffer \<Rightarrow> nat" where
  "EventsBuffer_Len b = length (eb_events b)"

definition EventsBuffer_DroppedCount :: "'e EventsBuffer \<Rightarrow> nat" where
  "EventsBuffer_DroppedCount b = eb_dropped b"

interpretation events_buffer: bounded_buffer eb_events eb_maxCapacity eb_dropped EventsBuffer_Append EventsBuffer_Drain
  by unfold_locales (simp_all add: EventsBuffer_Append_def EventsBuffer_Drain_def)

section \<open>Properties\<close>

text \<open>
  Under any interleaving of appends and drains a new usage buffer stays within its capacity
  and accounts for every record: the drained records followed by the buffered ones are the
  appended ones in order, without duplicates or inventions, and each record that is missing was
  refused at capacity and counted as dropped.
\<close>

theorem UsageBuffer_accounts:
  assumes "buf_run UsageBuffer_Append UsageBuffer_Drain ops (NewUsageBuffer cap) = (outs, ub)"
  shows "length (ub_records ub) \<le> ub_maxCapacity ub \<and> subseq (outs @ ub_records ub) (appended ops)
    \<and> length (appended ops) = length outs + UsageBuffer_Len ub + UsageBuffer_DroppedCount ub"
  using usage_buffer.run_bounded [OF _ assms] usage_buffer.run_conserves [OF assms]
  by (simp add: NewUsageBuffer_def UsageBuffer_Len_def UsageBuffer_DroppedCount_def)

definition example_record :: UsageRecord where
  "example_record = \<lparr>ur_ClientID = ''c'', ur_BudgetID = ''b'', ur_Backend = ''openai'', ur_ModelID = ''m'',
     ur_ModelName = ''m'', ur_InputTokens = 1, ur_OutputTokens = 2, ur_ResponseBytes = 3, ur_ResponseStatus = 200,
     ur_Cost = 7, ur_RequestedAt = 0\<rparr>"

theorem UsageBuffer_accounts_witness:
  "subseq [example_record] (appended [BufAppend example_record, BufAppend (example_record\<lparr>ur_Cost := 8\<rparr>), BufDrain])"
  using UsageBuffer_accounts [of "[BufAppend example_record, BufAppend (example_record\<lparr>ur_Cost := 8\<rparr>), BufDrain]" 1
      "[example_record]" "(NewUsageBuffer 1)\<lparr>ub_dropped := 1\<rparr>"]
  by (simp add: NewUsageBuffer_def UsageBuffer_Append_def UsageBuffer_Drain_def)

end
