(* ===== verification/Catalog.thy ===== *)
theory Catalog
  imports Pricing
begin

text \<open>
  The model catalog (\<^verbatim>\<open>internal/modelcatalog\<close>): the snapshots of models, base prices and custom
  prices, the resolution of the price of a request, and the reading of the public price feed
  (\<^verbatim>\<open>pricing-source.go\<close>). Snapshots are replaced as a whole and read without a lock. The rows of the
  database are arguments (\<^const>\<open>None\<close> when the query fails); the feed enters as the sequence of its
  members, each a key and the decoded fields, since the decoding itself is done by the JSON
  library.
\<close>

section \<open>Base prices\<close>

record BasePricingSnapshot =
  bps_base :: "CatalogKey \<rightharpoonup> PricingVariant"
  bps_variants :: "CatalogKey \<rightharpoonup> PricingVariant list"

definition base_add :: "BasePricingSnapshot \<Rightarrow> PricingVariant \<Rightarrow> BasePricingSnapshot" where
  "base_add snapshot variant =
    (let key = PricingVariant_CatalogKey variant;
         replace = (case bps_base snapshot key of None \<Rightarrow> True
           | Some existing \<Rightarrow> SelectorSet_IsEmpty (pv_Selectors variant) \<and> \<not> SelectorSet_IsEmpty (pv_Selectors existing))
     in \<lparr>bps_base = (if replace then (bps_base snapshot)(key \<mapsto> variant) else bps_base snapshot),
         bps_variants = (bps_variants snapshot)(key \<mapsto> opt_or [] (bps_variants snapshot key) @ [variant])\<rparr>)"

definition newBasePricingSnapshot :: "PricingVariant list \<Rightarrow> BasePricingSnapshot" where
  "newBasePricingSnapshot rows =
    (let s = foldl base_add \<lparr>bps_base = Map.empty, bps_variants = Map.empty\<rparr> rows
     in s\<lparr>bps_variants := (\<lambda>key. case bps_variants s key of None \<Rightarrow> None
            | Some bucket \<Rightarrow> if length bucket < 2 then None else Some bucket)\<rparr>)"

definition BasePricing_find :: "BasePricingSnapshot \<Rightarrow> CatalogKey \<Rightarrow> string \<Rightarrow> PricingVariant option" where
  "BasePricing_find s key selectorKey = (case bps_variants s key of
     Some bucket \<Rightarrow> (case List.find (\<lambda>variant. SelectorSet_CanonicalKey (pv_Selectors variant) = selectorKey) bucket of
        Some variant \<Rightarrow> Some variant | None \<Rightarrow> bps_base s key)
   | None \<Rightarrow> bps_base s key)"

section \<open>Custom prices\<close>

type_synonym CustomPriceSnapshot = "CatalogKey \<rightharpoonup> CustomScopePricing"

definition CustomScopePricing_zero :: CustomScopePricing where
  "CustomScopePricing_zero = \<lparr>csp_Global = None, csp_Provider = Map.empty, csp_VirtualKey = Map.empty\<rparr>"

definition custom_scope :: "CustomPricing \<Rightarrow> CustomScopePricing \<Rightarrow> CustomScopePricing" where
  "custom_scope cp scoped = (case cp_ScopeType cp of
     ScopeGlobal \<Rightarrow> scoped\<lparr>csp_Global := Some cp\<rparr>
   | ScopeProvider \<Rightarrow> (case cp_ScopeProvider cp of
        Some p \<Rightarrow> scoped\<lparr>csp_Provider := (csp_Provider scoped)(p \<mapsto> cp)\<rparr> | None \<Rightarrow> scoped)
   | ScopeVirtualKey \<Rightarrow> (case cp_ScopeVirtualkeyID cp of
        Some v \<Rightarrow> scoped\<lparr>csp_VirtualKey := (csp_VirtualKey scoped)(v \<mapsto> cp)\<rparr> | None \<Rightarrow> scoped)
   | ScopeOther _ \<Rightarrow> scoped)"

definition custom_add :: "CustomPriceSnapshot \<Rightarrow> CustomPricing \<Rightarrow> CustomPriceSnapshot" where
  "custom_add temp cp = (let ck = CustomPricing_CustomPricingKey cp
     in temp(ck \<mapsto> custom_scope cp (opt_or CustomScopePricing_zero (temp ck))))"

definition customSnapshot :: "CustomPricing list \<Rightarrow> CustomPriceSnapshot" where
  "customSnapshot rows = foldl custom_add Map.empty rows"

section \<open>The catalog\<close>

record ModelSnapshot =
  ms_entries :: "ModelMetadata list"
  ms_metadata :: "CatalogKey \<rightharpoonup> ModelMetadata"
  ms_byProvider :: "Provider \<rightharpoonup> string set"

record ModelCatalog =
  mc_models :: "ModelSnapshot option"
  mc_basePricing :: "BasePricingSnapshot option"
  mc_customPricing :: "CustomPriceSnapshot option"

definition NewModelCatalog :: ModelCatalog where
  "NewModelCatalog = \<lparr>mc_models = None, mc_basePricing = None, mc_customPricing = None\<rparr>"

definition modelSnapshot :: "ModelMetadata list \<Rightarrow> ModelSnapshot" where
  "modelSnapshot models = \<lparr>ms_entries = models,
     ms_metadata = foldl (\<lambda>m md. m(ModelMetadata_CatalogKey md \<mapsto> md)) Map.empty models,
     ms_byProvider = foldl (\<lambda>m md. m(mm_Provider md \<mapsto> insert (mm_ModelName md) (opt_or {} (m (mm_Provider md))))) Map.empty models\<rparr>"

definition loadModels :: "ModelMetadata list option \<Rightarrow> ModelCatalog \<Rightarrow> ModelCatalog option" where
  "loadModels rows c = (case rows of None \<Rightarrow> None | Some models \<Rightarrow> Some (c\<lparr>mc_models := Some (modelSnapshot models)\<rparr>))"

definition loadBasePricing :: "PricingVariant list option \<Rightarrow> ModelCatalog \<Rightarrow> ModelCatalog option" where
  "loadBasePricing rows c = (case rows of None \<Rightarrow> None
   | Some variants \<Rightarrow> Some (c\<lparr>mc_basePricing := Some (newBasePricingSnapshot variants)\<rparr>))"

definition loadCustomPricing :: "CustomPricing list option \<Rightarrow> ModelCatalog \<Rightarrow> ModelCatalog option" where
  "loadCustomPricing rows c = (case rows of None \<Rightarrow> None
   | Some cps \<Rightarrow> Some (c\<lparr>mc_customPricing := Some (customSnapshot cps)\<rparr>))"

text \<open>Each load stores its snapshot at once, so the catalog keeps what was loaded before a later
  load failed; the flag says whether all of them succeeded.\<close>

definition loadAll :: "ModelMetadata list option \<Rightarrow> PricingVariant list option \<Rightarrow> CustomPricing list option
    \<Rightarrow> ModelCatalog \<Rightarrow> ModelCatalog \<times> bool" where
  "loadAll models variants customs c = (case loadModels models c of None \<Rightarrow> (c, False)
   | Some c1 \<Rightarrow> (case loadBasePricing variants c1 of None \<Rightarrow> (c1, False)
     | Some c2 \<Rightarrow> (case loadCustomPricing customs c2 of None \<Rightarrow> (c2, False) | Some c3 \<Rightarrow> (c3, True))))"

definition Catalog_Lookup :: "ModelCatalog \<Rightarrow> CatalogKey \<Rightarrow> ModelMetadata option" where
  "Catalog_Lookup c key = (case mc_models c of None \<Rightarrow> None | Some snap \<Rightarrow> ms_metadata snap key)"

text \<open>\<^verbatim>\<open>Len\<close> of the base snapshot is only compared with zero.\<close>

definition Catalog_Ready :: "ModelCatalog \<Rightarrow> bool" where
  "Catalog_Ready c = (case mc_models c of None \<Rightarrow> False | Some snap \<Rightarrow>
     ms_entries snap \<noteq> [] \<and> (case mc_basePricing c of None \<Rightarrow> False | Some b \<Rightarrow> bps_base b \<noteq> Map.empty))"

definition HasModel :: "ModelCatalog \<Rightarrow> Provider \<Rightarrow> string \<Rightarrow> bool" where
  "HasModel c provider modelName = (case mc_models c of None \<Rightarrow> False
   | Some snap \<Rightarrow> (case ms_byProvider snap provider of None \<Rightarrow> False | Some names \<Rightarrow> modelName \<in> names))"

definition ModelsForProvider :: "ModelCatalog \<Rightarrow> Provider \<Rightarrow> string list" where
  "ModelsForProvider c provider = (case mc_models c of None \<Rightarrow> []
   | Some snap \<Rightarrow> map mm_ModelName (filter (\<lambda>e. mm_Provider e = provider) (ms_entries snap)))"

definition Models :: "ModelCatalog \<Rightarrow> Provider \<Rightarrow> ModelMetadata list" where
  "Models c provider = (case mc_models c of None \<Rightarrow> []
   | Some snap \<Rightarrow> filter (\<lambda>e. provider = [] \<or> mm_Provider e = provider) (ms_entries snap))"

definition ModelCount :: "ModelCatalog \<Rightarrow> Provider \<Rightarrow> nat" where
  "ModelCount c provider = (case mc_models c of None \<Rightarrow> 0
   | Some snap \<Rightarrow> card (opt_or {} (ms_byProvider snap provider)))"

definition BasePrice :: "ModelCatalog \<Rightarrow> CatalogKey \<Rightarrow> Pricing option" where
  "BasePrice c key = (case mc_basePricing c of None \<Rightarrow> None
   | Some snap \<Rightarrow> map_option pv_Pricing (BasePricing_find snap key EmptySelectorKey))"

definition ResolvePrice :: "ModelCatalog \<Rightarrow> string \<Rightarrow> CatalogKey \<Rightarrow> string \<Rightarrow> Pricing option" where
  "ResolvePrice c virtualKeyID key selectorKey = (case mc_basePricing c of None \<Rightarrow> None
   | Some base \<Rightarrow> (case BasePricing_find base key selectorKey of None \<Rightarrow> None
     | Some bp \<Rightarrow> (case mc_customPricing c of None \<Rightarrow> Some (pv_Pricing bp)
       | Some custom \<Rightarrow> (case custom (CatalogKey_CustomPricingKey key) of None \<Rightarrow> Some (pv_Pricing bp)
         | Some scoped \<Rightarrow> (case csp_VirtualKey scoped virtualKeyID of
             Some vkPrice \<Rightarrow> Some (MergePricing (pv_Pricing bp) (cp_Pricing vkPrice))
           | None \<Rightarrow> (case csp_Provider scoped (ck_Provider key) of
               Some provPrice \<Rightarrow> Some (MergePricing (pv_Pricing bp) (cp_Pricing provPrice))
             | None \<Rightarrow> (case csp_Global scoped of
                 Some g \<Rightarrow> Some (MergePricing (pv_Pricing bp) (cp_Pricing g))
               | None \<Rightarrow> Some (pv_Pricing bp))))))))"

section \<open>Prices from rows\<close>

text \<open>The base price of a bucket of rows: the first one without selectors, else the first one.\<close>

definition base_of :: "PricingVariant list \<Rightarrow> PricingVariant option" where
  "base_of b = (case List.find (\<lambda>v. SelectorSet_IsEmpty (pv_Selectors v)) b of Some v \<Rightarrow> Some v
     | None \<Rightarrow> (if b = [] then None else Some (hd b)))"

definition rows_for :: "CatalogKey \<Rightarrow> PricingVariant list \<Rightarrow> PricingVariant list" where
  "rows_for key rows = filter (\<lambda>v. PricingVariant_CatalogKey v = key) rows"

definition variant_for :: "PricingVariant list \<Rightarrow> CatalogKey \<Rightarrow> string \<Rightarrow> PricingVariant option" where
  "variant_for rows key selectorKey = (let b = rows_for key rows in
     case (if length b < 2 then None else List.find (\<lambda>v. SelectorSet_CanonicalKey (pv_Selectors v) = selectorKey) b) of
       Some v \<Rightarrow> Some v | None \<Rightarrow> base_of b)"

lemma base_of_snoc:
  "base_of (b @ [v]) = (case base_of b of None \<Rightarrow> Some v
     | Some e \<Rightarrow> if SelectorSet_IsEmpty (pv_Selectors v) \<and> \<not> SelectorSet_IsEmpty (pv_Selectors e) then Some v else Some e)"
proof -
  have find_snoc: "List.find P (b @ [v]) = (case List.find P b of Some x \<Rightarrow> Some x | None \<Rightarrow> if P v then Some v else None)" for P
    by (induction b) auto
  show ?thesis
  proof (cases "List.find (\<lambda>v. SelectorSet_IsEmpty (pv_Selectors v)) b")
    case None
    then have "b \<noteq> [] \<Longrightarrow> \<not> SelectorSet_IsEmpty (pv_Selectors (hd b))" by (simp add: find_None_iff_all)
    with None show ?thesis by (simp add: base_of_def find_snoc)
  next
    case (Some x)
    then show ?thesis by (auto simp: base_of_def find_snoc dest!: find_SomeD)
  qed
qed

lemma snapshot_fold:
  "bps_base (foldl base_add \<lparr>bps_base = Map.empty, bps_variants = Map.empty\<rparr> rows) key = base_of (rows_for key rows)
   \<and> bps_variants (foldl base_add \<lparr>bps_base = Map.empty, bps_variants = Map.empty\<rparr> rows) key
     = (if rows_for key rows = [] then None else Some (rows_for key rows))"
proof (induction rows rule: rev_induct)
  case Nil
  then show ?case by (simp add: base_of_def rows_for_def)
next
  case (snoc v rows)
  let ?s = "foldl base_add \<lparr>bps_base = Map.empty, bps_variants = Map.empty\<rparr> rows"
  show ?case
  proof (cases "PricingVariant_CatalogKey v = key")
    case True
    then have "rows_for key (rows @ [v]) = rows_for key rows @ [v]" by (simp add: rows_for_def)
    with True snoc show ?thesis
      by (auto simp: base_add_def Let_def base_of_snoc split: option.splits)
  next
    case False
    then have "rows_for key (rows @ [v]) = rows_for key rows" by (simp add: rows_for_def)
    with False snoc show ?thesis by (simp add: base_add_def Let_def)
  qed
qed

lemma find_newBasePricing: "BasePricing_find (newBasePricingSnapshot rows) key sel = variant_for rows key sel"
  using snapshot_fold [of rows key]
  by (auto simp: BasePricing_find_def newBasePricingSnapshot_def Let_def variant_for_def split: option.splits)

text \<open>The last row of a list with a property, which is what overwriting a map entry keeps.\<close>

definition last_such :: "('a \<Rightarrow> bool) \<Rightarrow> 'a list \<Rightarrow> 'a option" where
  "last_such P xs = List.find P (rev xs)"

lemma last_such_snoc: "last_such P (xs @ [x]) = (if P x then Some x else last_such P xs)"
  by (simp add: last_such_def)

text \<open>The custom price that applies to a request: the latest one scoped to the virtual key, else
  to the provider, else the global one, among those of the model name and type.\<close>

definition custom_for :: "CustomPricing list \<Rightarrow> string \<Rightarrow> CatalogKey \<Rightarrow> CustomPricing option" where
  "custom_for rows virtualKeyID key =
    (let mine = filter (\<lambda>cp. cp_ModelName cp = ck_ModelName key \<and> cp_ModelType cp = ck_ModelType key) rows in
     case last_such (\<lambda>cp. cp_ScopeType cp = ScopeVirtualKey \<and> cp_ScopeVirtualkeyID cp = Some virtualKeyID) mine of
       Some cp \<Rightarrow> Some cp
     | None \<Rightarrow> (case last_such (\<lambda>cp. cp_ScopeType cp = ScopeProvider \<and> cp_ScopeProvider cp = Some (ck_Provider key)) mine of
         Some cp \<Rightarrow> Some cp
       | None \<Rightarrow> last_such (\<lambda>cp. cp_ScopeType cp = ScopeGlobal) mine))"

definition custom_rows :: "CatalogKey \<Rightarrow> CustomPricing list \<Rightarrow> CustomPricing list" where
  "custom_rows ck rows = filter (\<lambda>cp. CustomPricing_CustomPricingKey cp = ck) rows"

lemma customSnapshot_fold:
  "customSnapshot rows ck = (if custom_rows ck rows = [] then None
     else Some \<lparr>csp_Global = last_such (\<lambda>cp. cp_ScopeType cp = ScopeGlobal) (custom_rows ck rows),
       csp_Provider = (\<lambda>p. last_such (\<lambda>cp. cp_ScopeType cp = ScopeProvider \<and> cp_ScopeProvider cp = Some p) (custom_rows ck rows)),
       csp_VirtualKey = (\<lambda>v. last_such (\<lambda>cp. cp_ScopeType cp = ScopeVirtualKey \<and> cp_ScopeVirtualkeyID cp = Some v) (custom_rows ck rows))\<rparr>)"
proof (induction rows rule: rev_induct)
  case Nil
  then show ?case by (simp add: customSnapshot_def custom_rows_def)
next
  case (snoc cp rows)
  have step: "customSnapshot (rows @ [cp]) = custom_add (customSnapshot rows) cp" by (simp add: customSnapshot_def)
  show ?case
  proof (cases "CustomPricing_CustomPricingKey cp = ck")
    case True
    then have rows: "custom_rows ck (rows @ [cp]) = custom_rows ck rows @ [cp]" by (simp add: custom_rows_def)
    have old: "opt_or CustomScopePricing_zero (customSnapshot rows ck) =
      \<lparr>csp_Global = last_such (\<lambda>cp. cp_ScopeType cp = ScopeGlobal) (custom_rows ck rows),
       csp_Provider = (\<lambda>p. last_such (\<lambda>cp. cp_ScopeType cp = ScopeProvider \<and> cp_ScopeProvider cp = Some p) (custom_rows ck rows)),
       csp_VirtualKey = (\<lambda>v. last_such (\<lambda>cp. cp_ScopeType cp = ScopeVirtualKey \<and> cp_ScopeVirtualkeyID cp = Some v) (custom_rows ck rows))\<rparr>"
      using snoc by (simp add: CustomScopePricing_zero_def last_such_def)
    show ?thesis
      unfolding step using True
      by (cases "cp_ScopeType cp"; cases "cp_ScopeProvider cp"; cases "cp_ScopeVirtualkeyID cp")
        (simp_all add: custom_add_def Let_def old rows custom_scope_def last_such_snoc fun_eq_iff)
  next
    case False
    then have "custom_rows ck (rows @ [cp]) = custom_rows ck rows" by (simp add: custom_rows_def)
    with False snoc show ?thesis unfolding step by (simp add: custom_add_def Let_def)
  qed
qed

lemma custom_rows_key:
  "custom_rows (CatalogKey_CustomPricingKey key) rows
     = filter (\<lambda>cp. cp_ModelName cp = ck_ModelName key \<and> cp_ModelType cp = ck_ModelType key) rows"
  unfolding custom_rows_def
  by (rule filter_cong, rule refl, cases key) (auto simp: CatalogKey_CustomPricingKey_def CustomPricing_CustomPricingKey_def)

text \<open>
  C30: The price of a request in a loaded catalog is a function of the stored rows: the price
  variant with the requested selectors if the model has several, otherwise its base row (the first
  one without selectors, else the first), with the rates of the applicable custom price merged
  over it, a price scoped to the virtual key taking precedence over one scoped to the provider,
  and that over a global one. A model without a base row has no price.
\<close>

theorem ResolvePrice_spec:
  assumes "loadAll models (Some variants) (Some customs) c = (c', True)"
  shows "ResolvePrice c' virtualKeyID key selectorKey =
    (case variant_for variants key selectorKey of None \<Rightarrow> None
     | Some v \<Rightarrow> Some (case custom_for customs virtualKeyID key of None \<Rightarrow> pv_Pricing v
         | Some cp \<Rightarrow> MergePricing (pv_Pricing v) (cp_Pricing cp)))"
proof -
  have c': "mc_basePricing c' = Some (newBasePricingSnapshot variants)" "mc_customPricing c' = Some (customSnapshot customs)"
    using assms by (auto simp: loadAll_def loadModels_def loadBasePricing_def loadCustomPricing_def split: option.splits)
  define m where "m = custom_rows (CatalogKey_CustomPricingKey key) customs"
  have cf: "custom_for customs virtualKeyID key =
      (case last_such (\<lambda>cp. cp_ScopeType cp = ScopeVirtualKey \<and> cp_ScopeVirtualkeyID cp = Some virtualKeyID) m of
         Some cp \<Rightarrow> Some cp
       | None \<Rightarrow> (case last_such (\<lambda>cp. cp_ScopeType cp = ScopeProvider \<and> cp_ScopeProvider cp = Some (ck_Provider key)) m of
           Some cp \<Rightarrow> Some cp | None \<Rightarrow> last_such (\<lambda>cp. cp_ScopeType cp = ScopeGlobal) m))"
    unfolding custom_for_def m_def custom_rows_key Let_def by (rule refl)
  show ?thesis
  proof (cases "m = []")
    case True
    then have "customSnapshot customs (CatalogKey_CustomPricingKey key) = None" by (simp add: customSnapshot_fold m_def)
    with True show ?thesis by (simp add: ResolvePrice_def c' find_newBasePricing cf last_such_def split: option.split)
  next
    case False
    then show ?thesis
      by (simp add: ResolvePrice_def c' find_newBasePricing customSnapshot_fold cf flip: m_def split: option.split)
  qed
qed

definition example_variant :: PricingVariant where
  "example_variant = \<lparr>pv_ID = ''p1'', pv_RawKey = ''openai/m'', pv_Selectors = \<lparr>ss_Key = ''{}''\<rparr>, pv_Provider = ''openai'',
     pv_ModelType = ModelTypeChat, pv_ModelName = ''m'', pv_Pricing = example_sheet\<rparr>"

theorem ResolvePrice_spec_witness:
  "ResolvePrice (fst (loadAll (Some []) (Some [example_variant]) (Some []) NewModelCatalog)) ''vk''
     \<lparr>ck_Provider = ''openai'', ck_ModelName = ''m'', ck_ModelType = ModelTypeChat\<rparr> ''{}'' = Some example_sheet"
proof -
  obtain c' where c': "loadAll (Some []) (Some [example_variant]) (Some []) NewModelCatalog = (c', True)"
    by (simp add: loadAll_def loadModels_def loadBasePricing_def loadCustomPricing_def)
  show ?thesis
    unfolding c' fst_conv
    using ResolvePrice_spec [OF c', of "''vk''" "\<lparr>ck_Provider = ''openai'', ck_ModelName = ''m'', ck_ModelType = ModelTypeChat\<rparr>" "''{}''"]
    by (simp add: variant_for_def rows_for_def PricingVariant_CatalogKey_def example_variant_def base_of_def
        SelectorSet_IsEmpty_def SelectorSet_CanonicalKey_def EmptySelectorKey_def custom_for_def last_such_def Let_def)
qed

section \<open>Models\<close>

lemma byProvider_fold:
  "opt_or {} (foldl (\<lambda>m md. m(mm_Provider md \<mapsto> insert (mm_ModelName md) (opt_or {} (m (mm_Provider md))))) m0 models p)
   = opt_or {} (m0 p) \<union> mm_ModelName ` {md \<in> set models. mm_Provider md = p}"
  by (induction models arbitrary: m0) auto

lemma HasModel_alt: "HasModel c p n \<longleftrightarrow> (\<exists>snap. mc_models c = Some snap \<and> n \<in> opt_or {} (ms_byProvider snap p))"
  by (auto simp: HasModel_def opt_or_def split: option.splits)

text \<open>What the admission hook relies on of a model lookup: the two questions it may ask.\<close>

locale model_lookup =
  fixes Ready :: bool and Has :: "Provider \<Rightarrow> string \<Rightarrow> bool" and known :: "(Provider \<times> string) set"
  assumes has_known: "Has p n \<longleftrightarrow> (p, n) \<in> known"
    and ready_known: "Ready \<Longrightarrow> known \<noteq> {}"

interpretation catalog_lookup: model_lookup
  "Catalog_Ready (c\<lparr>mc_models := Some (modelSnapshot models)\<rparr>)" "HasModel (c\<lparr>mc_models := Some (modelSnapshot models)\<rparr>)"
  "(\<lambda>md. (mm_Provider md, mm_ModelName md)) ` set models" for c models
  by unfold_locales
    (auto simp: HasModel_alt modelSnapshot_def byProvider_fold Catalog_Ready_def)

text \<open>
  The lookup used by admission and the model lists shown to users agree: a model is known for
  a provider exactly when it is listed for it, and the number of models of a provider is the
  number of different names listed.
\<close>

theorem catalog_lists_agree:
  assumes "loadModels (Some models) c = Some c'"
  shows "(HasModel c' p n \<longleftrightarrow> n \<in> set (ModelsForProvider c' p))
    \<and> ModelCount c' p = card (set (ModelsForProvider c' p))
    \<and> (p \<noteq> [] \<longrightarrow> map mm_ModelName (Models c' p) = ModelsForProvider c' p)"
proof -
  have c': "mc_models c' = Some (modelSnapshot models)" using assms by (auto simp: loadModels_def)
  have s: "opt_or {} (ms_byProvider (modelSnapshot models) p) = mm_ModelName ` {md \<in> set models. mm_Provider md = p}"
    by (simp add: modelSnapshot_def byProvider_fold)
  have e: "ms_entries (modelSnapshot models) = models" by (simp add: modelSnapshot_def)
  show ?thesis
    by (auto simp: HasModel_alt c' s e ModelsForProvider_def ModelCount_def Models_def intro: filter_cong
        intro!: arg_cong [where f = card])
qed

theorem catalog_lists_agree_witness:
  "\<exists>c'. loadModels (Some []) NewModelCatalog = Some c' \<and> ModelCount c' ''openai'' = 0"
proof -
  obtain c' where c': "loadModels (Some []) NewModelCatalog = Some c'" by (simp add: loadModels_def)
  from catalog_lists_agree [OF this, of "''openai''" "''m''"] have "ModelCount c' ''openai'' = card (set (ModelsForProvider c' ''openai''))" by simp
  moreover have "ModelsForProvider c' ''openai'' = []" using c' by (auto simp: ModelsForProvider_def loadModels_def modelSnapshot_def)
  ultimately show ?thesis using c' by auto
qed

end
