(* ===== verification/Governance.thy ===== *)
theory Governance
  imports Hooks BudgetLedger Buffers Catalog KeyFormat Money
begin

text \<open>
  Governance (\<^verbatim>\<open>internal/governance\<close>): the virtual key cache, authentication, the admission hooks for
  model access and budgets, the hook that records usage, and the background passes that load keys
  and budgets and write the usage history. The budget cache is modelled in \<^verbatim>\<open>BudgetLedger\<close>, the
  usage buffer in \<^verbatim>\<open>Buffers\<close>, the rows read from the database are arguments.
\<close>

section \<open>The virtual key cache\<close>

type_synonym VirtualKeyMap = "string \<rightharpoonup> VirtualKey"

record VirtualkeyCache =
  vc_virtual :: "VirtualKeyMap option"
  vc_LastSync :: time

definition VirtualkeyCache_zero :: VirtualkeyCache where
  "VirtualkeyCache_zero = \<lparr>vc_virtual = None, vc_LastSync = 0\<rparr>"

definition VirtualkeyCache_Loaded :: "VirtualkeyCache option \<Rightarrow> bool" where
  "VirtualkeyCache_Loaded vk = (case vk of None \<Rightarrow> False | Some c \<Rightarrow> vc_virtual c \<noteq> None)"

definition LookupVkey :: "string \<Rightarrow> VirtualkeyCache \<Rightarrow> VirtualKey option" where
  "LookupVkey key vk = (case vc_virtual vk of None \<Rightarrow> None | Some v \<Rightarrow> v key)"

definition LoadVirtualKeys :: "time \<Rightarrow> VirtualKey list \<Rightarrow> VirtualkeyCache \<Rightarrow> VirtualkeyCache" where
  "LoadVirtualKeys now vdata vk =
     vk\<lparr>vc_virtual := Some (foldl (\<lambda>m vkey. m(vk_Key vkey \<mapsto> vkey)) Map.empty vdata), vc_LastSync := now\<rparr>"

definition VirtualkeyCache_clone :: "VirtualkeyCache \<Rightarrow> VirtualKeyMap" where
  "VirtualkeyCache_clone vk = (case vc_virtual vk of None \<Rightarrow> Map.empty | Some old \<Rightarrow> old)"

definition UpsertVirtualKey :: "VirtualKey option \<Rightarrow> VirtualkeyCache \<Rightarrow> VirtualkeyCache" where
  "UpsertVirtualKey key vk = (case key of None \<Rightarrow> vk
   | Some k \<Rightarrow> vk\<lparr>vc_virtual := Some ((VirtualkeyCache_clone vk)(vk_Key k \<mapsto> k))\<rparr>)"

text \<open>The order in which the loop visits the map is an argument: the keys of the map in that order.\<close>

definition DeleteVirtualKeyByID :: "string list \<Rightarrow> string \<Rightarrow> VirtualkeyCache \<Rightarrow> VirtualkeyCache \<times> bool" where
  "DeleteVirtualKeyByID order ident vk =
    (let old = VirtualkeyCache_clone vk in
     case List.find (\<lambda>key. case old key of None \<Rightarrow> False | Some entry \<Rightarrow> vk_ID entry = ident) order of
       None \<Rightarrow> (vk, False)
     | Some key \<Rightarrow> (vk\<lparr>vc_virtual := Some (old(key := None))\<rparr>, True))"

section \<open>Authentication\<close>

text \<open>A context taken from the pool has its request; without one the program would panic, the model
  has no header.\<close>

definition request_header :: "DiffractLLMContext \<Rightarrow> (string \<times> string) list" where
  "request_header rctx = (case rc_Request rctx of None \<Rightarrow> [] | Some r \<Rightarrow> req_Header r)"

definition extractKey :: "DiffractLLMContext \<Rightarrow> string" where
  "extractKey rctx =
    (let h = request_header rctx;
         v = TrimSpace (Header_Get ''x-diffract-key'' h)
     in if v \<noteq> [] then v
        else let auth = Header_Get ''Authorization'' h in
          if HasPrefix auth ''Bearer '' then TrimSpace (drop (length ''Bearer '') auth)
          else let anthropicKey = TrimSpace (Header_Get ''x-api-key'' h) in
            if anthropicKey \<noteq> [] then anthropicKey
            else let geminikey = TrimSpace (Header_Get ''x-goog-api-key'' h) in
              if geminikey \<noteq> [] then geminikey else [])"

record Governance =
  KeyCache :: VirtualkeyCache
  gov_BudgetCache :: BudgetCache
  gov_UsageBuffer :: UsageBuffer

definition NewGovernance :: Governance where
  "NewGovernance = \<lparr>KeyCache = VirtualkeyCache_zero, gov_BudgetCache = [], gov_UsageBuffer = NewUsageBuffer 0\<rparr>"

definition Governance_Ready :: "Governance option \<Rightarrow> bool" where
  "Governance_Ready g = (case g of None \<Rightarrow> False | Some gov \<Rightarrow> VirtualkeyCache_Loaded (Some (KeyCache gov)))"

text \<open>The dash of the first message is a plain one here.\<close>

definition ValidatevKeyAuth :: "Governance \<Rightarrow> time \<Rightarrow> DiffractLLMContext \<Rightarrow> DiffractLLMContext \<times> DiffractLLMError option" where
  "ValidatevKeyAuth g now rctx =
    (let key = extractKey rctx in
     if key = [] then (rctx, Some (NewAuthFailed
       ''missing api key - provide x-diffract-key or Authorization: Bearer <key> or x-api-key or x-goog-api-key''))
     else if \<not> ValidateKeySignature key then (rctx, Some (NewAuthFailed ''Invalid DiffractLLM API key format''))
     else case LookupVkey key (KeyCache g) of
       None \<Rightarrow> (rctx, Some (NewAuthFailed ''DiffractLLM API key not recognised''))
     | Some vk \<Rightarrow>
         if \<not> vk_IsActive vk \<or> (case vk_ExpiresAt vk of None \<Rightarrow> False | Some t \<Rightarrow> now > t)
         then (rctx, Some (NewAuthFailed ''Invalid DiffractLLM API key''))
         else (rctx\<lparr>rc_ClientID := vk_ClientID vk, rc_VirtualKeyID := vk_ID vk, rc_VirtualKeyPolicy := Some vk,
                 rc_BudgetRef := vk_BudgetID vk, rc_AuthFrozen := True\<rparr>, None))"

section \<open>Model access\<close>

text \<open>The catalog the hook is given, \<^const>\<open>None\<close> for \<^verbatim>\<open>nil\<close>.\<close>

record ModelLookup =
  ml_Ready :: bool
  ml_HasModel :: "Provider \<Rightarrow> string \<Rightarrow> bool"

definition catalogReady :: "ModelLookup option \<Rightarrow> bool" where
  "catalogReady catalog = (case catalog of None \<Rightarrow> False | Some c \<Rightarrow> ml_Ready c)"

definition catalogHasModel :: "ModelLookup option \<Rightarrow> Provider \<Rightarrow> string \<Rightarrow> bool" where
  "catalogHasModel catalog p n = (case catalog of None \<Rightarrow> False | Some c \<Rightarrow> ml_HasModel c p n)"

definition modelInCatalog :: "ModelLookup option \<Rightarrow> VirtualKey \<Rightarrow> string \<Rightarrow> bool" where
  "modelInCatalog catalog virtualKey modelName =
     list_ex (\<lambda>config. IsModelAllowed (Some config)
         \<lparr>ck_Provider = pcfg_Provider config, ck_ModelName = modelName, ck_ModelType = ModelTypeUnknown\<rparr>
       \<and> catalogHasModel catalog (pcfg_Provider config) modelName) (vk_ProviderConfigs virtualKey)"

definition kind_type :: "DiffractLLMContext \<Rightarrow> ModelType" where
  "kind_type rctx = (case rc_RequestKind rctx of None \<Rightarrow> ModelTypeUnknown | Some k \<Rightarrow> RequestKind_ModelType k)"

definition ModelAccessHook_Execute :: "ModelLookup option \<Rightarrow> DiffractLLMContext \<Rightarrow> DiffractLLMContext \<times> DiffractLLMError option" where
  "ModelAccessHook_Execute catalog rctx = (case rc_VirtualKeyPolicy rctx of
     None \<Rightarrow> (rctx, Some (NewAuthFailed ''virtual key policy is missing''))
   | Some virtualKey \<Rightarrow>
     let requested = TrimSpace (rc_RequestedModel rctx) in
     if requested = [] then (rctx, Some (NewMissingParameter ''model''))
     else case ParseModelString requested of (providerName, modelName) \<Rightarrow>
       if providerName \<noteq> [] then
         (case VirtualKey_ProviderConfig virtualKey providerName of
            None \<Rightarrow> (rctx, Some (NewForbidden (''provider '' @ providerName @ '' is not permitted for this key'')))
          | Some config \<Rightarrow>
              let requestedKey = \<lparr>ck_Provider = pcfg_Provider config, ck_ModelName = modelName, ck_ModelType = kind_type rctx\<rparr> in
              if \<not> IsModelAllowed (Some config) requestedKey
              then (rctx, Some (NewForbidden ''requested provider/model is not permitted''))
              else if catalogReady catalog \<and> \<not> catalogHasModel catalog (pcfg_Provider config) modelName
              then (rctx, Some (NewInvalidParameter ''model'' (''unknown model '' @ CatalogKey_SlashKey requestedKey)))
              else (rctx\<lparr>rc_Modelkey := requestedKey\<rparr>, None))
       else
         let requestedKey = \<lparr>ck_Provider = [], ck_ModelName = requested, ck_ModelType = kind_type rctx\<rparr> in
         if IsModelKeyAllowed virtualKey requestedKey then
           (if catalogReady catalog \<and> \<not> modelInCatalog catalog virtualKey requested
            then (rctx, Some (NewInvalidParameter ''model'' (''unknown model '' @ requested)))
            else (rctx\<lparr>rc_Modelkey := requestedKey\<rparr>, None))
         else (rctx, Some (NewForbidden ''requested model is not permitted'')))"

section \<open>Budgets\<close>

definition BudgetHook_Execute :: "BudgetCache \<Rightarrow> DiffractLLMContext \<Rightarrow> DiffractLLMContext \<times> DiffractLLMError option" where
  "BudgetHook_Execute bc rctx =
    (if rc_BudgetRef rctx = [] then (rctx, Some (NewInvalidBudget ''budget reference not set on virtual key''))
     else case LookupBudget (rc_BudgetRef rctx) bc of
       None \<Rightarrow> (rctx, Some (NewInvalidBudget (rc_BudgetRef rctx)))
     | Some budget \<Rightarrow>
         if \<not> CheckBudgetUsage budget
         then (rctx, Some (NewBudgetExceeded ''Budget exceeded for the DiffractLLM API key used''))
         else (rctx, None))"

text \<open>The recording hook changes the shared budget and the usage buffer, and never the context.
  The cache entry is a pointer: the recorded usage is visible in the cache.\<close>

fun update_entry :: "string \<Rightarrow> (BudgetState \<Rightarrow> BudgetState) \<Rightarrow> BudgetCache \<Rightarrow> BudgetCache" where
  "update_entry i f [] = []"
| "update_entry i f ((j, b) # rest) = (if i = j then (j, f b) # rest else (j, b) # update_entry i f rest)"

definition usage_record :: "DiffractLLMContext \<Rightarrow> Usage \<Rightarrow> int64 \<Rightarrow> UsageRecord" where
  "usage_record rctx usage nano = \<lparr>ur_ClientID = rc_ClientID rctx, ur_BudgetID = rc_BudgetRef rctx,
     ur_Backend = ck_Provider (rc_Modelkey rctx), ur_ModelID = rc_UpstreamModel rctx,
     ur_ModelName = ck_ModelName (rc_Modelkey rctx), ur_InputTokens = InputTokens usage,
     ur_OutputTokens = OutputTokens usage, ur_ResponseBytes = int (rc_ResponseBytes rctx),
     ur_ResponseStatus = rc_ResponseStatus rctx, ur_Cost = nano, ur_RequestedAt = rc_StartedAt rctx\<rparr>"

definition RecordHook_Execute :: "DiffractLLMContext \<Rightarrow> Governance \<Rightarrow> Governance" where
  "RecordHook_Execute rctx g = (case rc_Usage rctx of None \<Rightarrow> g
   | Some usage \<Rightarrow>
       let nano = ToNanoUSD (rc_Cost rctx);
           g1 = g\<lparr>gov_UsageBuffer := fst (UsageBuffer_Append (usage_record rctx usage nano) (gov_UsageBuffer g))\<rparr>
       in case LookupBudget (rc_BudgetRef rctx) (gov_BudgetCache g1) of None \<Rightarrow> g1
          | Some budget \<Rightarrow> g1\<lparr>gov_BudgetCache := update_entry (rc_BudgetRef rctx) (RecordUsage nano) (gov_BudgetCache g1)\<rparr>)"

section \<open>Registration\<close>

definition ModelAccessHook :: "ModelLookup option \<Rightarrow> Hook" where
  "ModelAccessHook catalog = \<lparr>h_Name = ''model-access'', h_Execute = ModelAccessHook_Execute catalog\<rparr>"

definition BudgetHook :: "BudgetCache \<Rightarrow> Hook" where
  "BudgetHook bc = \<lparr>h_Name = ''budget'', h_Execute = BudgetHook_Execute bc\<rparr>"

text \<open>On the context the recording hook does nothing; its effect on governance is
  \<open>RecordHook_Execute\<close>.\<close>

definition RecordHook :: Hook where
  "RecordHook = \<lparr>h_Name = ''record_usage'', h_Execute = (\<lambda>rctx. (rctx, None))\<rparr>"

text \<open>The errors of the three registrations are ignored.\<close>

definition keep_engine :: "HookEngine \<Rightarrow> DiffractLLMError + HookEngine \<Rightarrow> HookEngine" where
  "keep_engine old r = (case r of Inl _ \<Rightarrow> old | Inr new \<Rightarrow> new)"

definition RegisterHooks :: "HookEngine \<Rightarrow> Governance \<Rightarrow> ModelLookup option \<Rightarrow> HookEngine" where
  "RegisterHooks engine g catalog =
    (let e1 = keep_engine engine (AddPreCallHook (ModelAccessHook catalog) engine);
         e2 = keep_engine e1 (AddPreCallHook (BudgetHook (gov_BudgetCache g)) e1)
     in keep_engine e2 (AddPostProviderHook RecordHook e2))"

section \<open>Background passes\<close>

text \<open>A row of \<^verbatim>\<open>virtual_keys\<close>.\<close>

record StoreVirtualKey =
  svk_ID :: string
  svk_APIKey :: string
  svk_ClientID :: string
  svk_BudgetID :: string
  svk_Mode :: string
  svk_ProviderConfigs :: "ProviderConfig list"
  svk_LoadBalancer :: string
  svk_IsActive :: bool
  svk_ExpiresAt :: "time option"
  svk_KeyHash :: string
  svk_DisplayPrefix :: string
  svk_CreatedAt :: time
  svk_UpdatedAt :: time

datatype sync_error = SyncList | SyncMode string | SyncLoadBalancer string | SyncConfigs vk_error | SyncInvalid vk_error

definition StoreVirtualKey_ToCore :: "StoreVirtualKey \<Rightarrow> sync_error + VirtualKey" where
  "StoreVirtualKey_ToCore row = (case ParseVKMode (svk_Mode row) of None \<Rightarrow> Inl (SyncMode (svk_Mode row))
   | Some mode \<Rightarrow> (case ParseLBKind (svk_LoadBalancer row) of None \<Rightarrow> Inl (SyncLoadBalancer (svk_LoadBalancer row))
     | Some loadBalancer \<Rightarrow> (case CompileProviderConfigs mode (svk_ProviderConfigs row) of Inl e \<Rightarrow> Inl (SyncConfigs e)
       | Inr providerConfigs \<Rightarrow> Inr \<lparr>vk_ID = svk_ID row, vk_Key = svk_APIKey row, vk_ClientID = svk_ClientID row,
           vk_BudgetID = svk_BudgetID row, vk_IsActive = svk_IsActive row, vk_ExpiresAt = svk_ExpiresAt row,
           vk_Mode = mode, vk_LoadBalancer = loadBalancer, vk_ProviderConfigs = providerConfigs\<rparr>)))"

fun convert_keys :: "StoreVirtualKey list \<Rightarrow> VirtualKey list \<Rightarrow> sync_error + VirtualKey list" where
  "convert_keys [] tempVkey = Inr tempVkey"
| "convert_keys (row # rows) tempVkey = (case StoreVirtualKey_ToCore row of Inl e \<Rightarrow> Inl e
   | Inr virtualKey \<Rightarrow> (case VirtualKey_Validate (Some virtualKey) of Some e \<Rightarrow> Inl (SyncInvalid e)
     | None \<Rightarrow> convert_keys rows (tempVkey @ [virtualKey])))"

definition syncVirtualKey :: "time \<Rightarrow> StoreVirtualKey list option \<Rightarrow> Governance \<Rightarrow> Governance \<times> (sync_error + nat)" where
  "syncVirtualKey now listed g = (case listed of None \<Rightarrow> (g, Inl SyncList)
   | Some vkeydetail \<Rightarrow> (case convert_keys vkeydetail [] of Inl e \<Rightarrow> (g, Inl e)
     | Inr tempVkey \<Rightarrow> (g\<lparr>KeyCache := LoadVirtualKeys now tempVkey (KeyCache g)\<rparr>, Inr (length tempVkey))))"

text \<open>The rows of \<^verbatim>\<open>budgets\<close> come with their duration parsed by the row's \<^verbatim>\<open>AfterFind\<close>.\<close>

record StoreBudget =
  sb_ID :: string
  sb_Name :: string
  sb_BudgetLimit :: int64
  sb_BudgetUnit :: string
  sb_BudgetDuration :: string
  sb_Enforce :: bool
  sb_TotalCost :: int64
  sb_RequestCount :: int64
  sb_Status :: string
  sb_LastBudgetRefreshAt :: time
  sb_BudgetParseDuration :: duration
  sb_LastFlushedAt :: time
  sb_CreatedAt :: time
  sb_UpdatedAt :: time

definition StoreBudget_ToCore :: "StoreBudget \<Rightarrow> Budget" where
  "StoreBudget_ToCore b = \<lparr>b_ID = sb_ID b, b_Name = sb_Name b, b_BudgetLimit = sb_BudgetLimit b,
     b_BudgetUnit = sb_BudgetUnit b, b_BudgetDuration = sb_BudgetDuration b,
     b_LastBudgetRefreshAt = sb_LastBudgetRefreshAt b, b_Enforce = Some (sb_Enforce b),
     b_TotalSpend = sb_TotalCost b, b_RequestCount = sb_RequestCount b, b_Status = sb_Status b,
     b_CreatedAt = 0, b_UpdatedAt = 0, b_BudgetParseDuration = sb_BudgetParseDuration b\<rparr>"

definition syncBudget :: "StoreBudget list option \<Rightarrow> Governance \<Rightarrow> Governance \<times> nat option" where
  "syncBudget listed g = (case listed of None \<Rightarrow> (g, None)
   | Some rows \<Rightarrow> (g\<lparr>gov_BudgetCache := LoadBudgets (map StoreBudget_ToCore rows) (gov_BudgetCache g)\<rparr>, Some (length rows)))"

record StoreUsageRecord =
  su_ID :: string
  su_ClientID :: string
  su_BudgetID :: string
  su_Backend :: string
  su_ModelID :: string
  su_ModelName :: string
  su_InputTokens :: int64
  su_OutputTokens :: int64
  su_TotalTokens :: int64
  su_ResponseStatus :: int
  su_ResponseBytes :: int
  su_Cost :: int64
  su_RequestAt :: time
  su_FlushedAt :: time

definition store_record :: "string \<Rightarrow> time \<Rightarrow> UsageRecord \<Rightarrow> StoreUsageRecord" where
  "store_record uuid now r = \<lparr>su_ID = uuid, su_ClientID = ur_ClientID r, su_BudgetID = ur_BudgetID r,
     su_Backend = ur_Backend r, su_ModelID = ur_ModelID r, su_ModelName = ur_ModelName r,
     su_InputTokens = ur_InputTokens r, su_OutputTokens = ur_OutputTokens r,
     su_TotalTokens = wrap64 (ur_InputTokens r + ur_OutputTokens r), su_ResponseStatus = ur_ResponseStatus r,
     su_ResponseBytes = ur_ResponseBytes r, su_Cost = ur_Cost r, su_RequestAt = ur_RequestedAt r, su_FlushedAt = now\<rparr>"

text \<open>The identifiers and times of the rows are indexed by position; \<open>insertFails\<close> says what the
  bulk insert answers. The pass returns the rows it handed to the database and how many were
  written.\<close>

definition flushUsageHistory :: "(nat \<Rightarrow> string) \<Rightarrow> (nat \<Rightarrow> time) \<Rightarrow> bool \<Rightarrow> Governance
    \<Rightarrow> Governance \<times> StoreUsageRecord list \<times> nat" where
  "flushUsageHistory uuid clock insertFails g =
    (case UsageBuffer_Drain (gov_UsageBuffer g) of (records, ub1) \<Rightarrow>
     if records = [] then (g\<lparr>gov_UsageBuffer := ub1\<rparr>, [], 0)
     else let storeRecords = map (\<lambda>(i, r). store_record (uuid i) (clock i) r) (zip [0..<length records] records) in
       if insertFails
       then (g\<lparr>gov_UsageBuffer := foldl (\<lambda>ub r. fst (UsageBuffer_Append r ub)) ub1 records\<rparr>, [], 0)
       else (g\<lparr>gov_UsageBuffer := ub1\<rparr>, storeRecords, length records))"

section \<open>Facts about the cache and authentication\<close>

lemma foldl_last_key:
  "foldl (\<lambda>m vkey. m(vk_Key vkey \<mapsto> vkey)) m0 vdata k
     = (case List.find (\<lambda>v. vk_Key v = k) (rev vdata) of Some v \<Rightarrow> Some v | None \<Rightarrow> m0 k)"
  by (induction vdata rule: rev_induct) auto

lemma LookupVkey_Load:
  "LookupVkey k (LoadVirtualKeys now vdata vk) = List.find (\<lambda>v. vk_Key v = k) (rev vdata)"
  by (simp add: LookupVkey_def LoadVirtualKeys_def foldl_last_key split: option.splits)

lemma LookupVkey_Upsert:
  "LookupVkey k (UpsertVirtualKey (Some v) vk) = (if k = vk_Key v then Some v else LookupVkey k vk)"
  by (simp add: LookupVkey_def UpsertVirtualKey_def VirtualkeyCache_clone_def split: option.splits)

definition wf_keys :: "VirtualkeyCache \<Rightarrow> bool" where
  "wf_keys vk \<longleftrightarrow> (\<forall>k v. LookupVkey k vk = Some v \<longrightarrow> vk_Key v = k)"

lemma wf_keys_Load [wf_intro]: "wf_keys (LoadVirtualKeys now vdata vk)"
  by (auto simp: wf_keys_def LookupVkey_Load dest: find_SomeD)

lemma wf_keys_Upsert [wf_intro]: "wf_keys vk \<Longrightarrow> wf_keys (UpsertVirtualKey v vk)"
  by (cases v) (auto simp: wf_keys_def LookupVkey_Upsert UpsertVirtualKey_def [of None])

lemma LookupVkey_Delete:
  assumes "DeleteVirtualKeyByID order ident vk = (vk', found)"
  shows "if found then \<exists>key v. LookupVkey key vk = Some v \<and> vk_ID v = ident \<and>
      (\<forall>k. LookupVkey k vk' = (if k = key then None else LookupVkey k vk)) else vk' = vk"
  using assms
  by (auto simp: DeleteVirtualKeyByID_def Let_def LookupVkey_def VirtualkeyCache_clone_def
      split: option.splits dest!: find_SomeD)

lemma wf_keys_Delete [wf_intro]: "wf_keys vk \<Longrightarrow> wf_keys (fst (DeleteVirtualKeyByID order ident vk))"
proof -
  assume wf: "wf_keys vk"
  obtain vk' found where d: "DeleteVirtualKeyByID order ident vk = (vk', found)" by force
  show ?thesis
  proof (cases found)
    case True
    then obtain key where "\<forall>k. LookupVkey k vk' = (if k = key then None else LookupVkey k vk)"
      using LookupVkey_Delete [OF d] by auto
    with wf show ?thesis unfolding d fst_conv wf_keys_def by (metis option.distinct(1))
  next
    case False
    with wf show ?thesis using LookupVkey_Delete [OF d] by (simp add: d)
  qed
qed

definition usable_key :: "time \<Rightarrow> VirtualKey \<Rightarrow> bool" where
  "usable_key now vk \<longleftrightarrow> vk_IsActive vk \<and> (\<forall>t. vk_ExpiresAt vk = Some t \<longrightarrow> now \<le> t)"

definition identified :: "VirtualKey \<Rightarrow> DiffractLLMContext \<Rightarrow> DiffractLLMContext" where
  "identified vk rctx = rctx\<lparr>rc_ClientID := vk_ClientID vk, rc_VirtualKeyID := vk_ID vk,
     rc_VirtualKeyPolicy := Some vk, rc_BudgetRef := vk_BudgetID vk, rc_AuthFrozen := True\<rparr>"

lemma extractKey_trimmed: "TrimSpace (extractKey rctx) = extractKey rctx"
  by (simp add: extractKey_def Let_def)

lemma ValidateKeySignature_Nil [simp]: "\<not> ValidateKeySignature []"
  by (simp add: ValidateKeySignature_def dk_defs)

text \<open>
  C7: Authentication succeeds exactly when the key presented has a valid signature and the cache
  holds an active, unexpired virtual key for it; the context then carries that key's client,
  policy and budget. Otherwise the answer is 401 and the context is unchanged, so that no
  identity is left behind.
\<close>

theorem ValidatevKeyAuth_spec:
  "case ValidatevKeyAuth g now rctx of
     (rctx', None) \<Rightarrow> ValidateKeySignature (extractKey rctx)
       \<and> (\<exists>vk. LookupVkey (extractKey rctx) (KeyCache g) = Some vk \<and> usable_key now vk \<and> rctx' = identified vk rctx)
   | (rctx', Some e) \<Rightarrow> rctx' = rctx \<and> e_StatusCode e = 401 \<and> e_Code e = CodeAuthFailed
       \<and> \<not> (ValidateKeySignature (extractKey rctx)
           \<and> (\<exists>vk. LookupVkey (extractKey rctx) (KeyCache g) = Some vk \<and> usable_key now vk))"
  by (auto simp: ValidatevKeyAuth_def Let_def usable_key_def identified_def NewAuthFailed_def
      split: option.splits prod.splits if_splits)

lemma TrimSpace_clean: "list_all (\<lambda>c. \<not> is_space c) s \<Longrightarrow> TrimSpace s = s"
proof -
  assume s: "list_all (\<lambda>c. \<not> is_space c) s"
  then have "dropWhile is_space s = s" "dropWhile is_space (rev s) = rev s"
    by (cases s; simp; fail) (use s in \<open>cases "rev s"; auto simp: list_all_iff\<close>)
  then show ?thesis by (simp add: TrimSpace_def)
qed

lemma header_names:
  "ToLower ''X-Diffract-Key'' = ''x-diffract-key''" "ToLower ''x-diffract-key'' = ''x-diffract-key''"
  "ToLower ''Authorization'' = ''authorization''" "ToLower ''X-Api-Key'' = ''x-api-key''"
  "ToLower ''x-api-key'' = ''x-api-key''" "ToLower ''X-Goog-Api-Key'' = ''x-goog-api-key''"
  "ToLower ''x-goog-api-key'' = ''x-goog-api-key''"
  by code_simp+

text \<open>A key in any of the four places is found, when no other header is sent.\<close>

lemma extractKey_single:
  assumes "list_all (\<lambda>c. \<not> is_space c) key" "key \<noteq> []"
    and "request_header rctx \<in> {[(''X-Diffract-Key'', key)], [(''Authorization'', ''Bearer '' @ key)],
      [(''X-Api-Key'', key)], [(''X-Goog-Api-Key'', key)]}"
  shows "extractKey rctx = key"
proof -
  consider "request_header rctx = [(''X-Diffract-Key'', key)]" | "request_header rctx = [(''Authorization'', ''Bearer '' @ key)]"
    | "request_header rctx = [(''X-Api-Key'', key)]" | "request_header rctx = [(''X-Goog-Api-Key'', key)]"
    using assms(3) by blast
  then show ?thesis
    by cases (simp_all add: extractKey_def Header_Get_def header_names TrimSpace_clean [OF assms(1)] assms(2) HasPrefix_def)
qed

section \<open>Admission\<close>

text \<open>The abstract policy: some provider configuration of the key permits the model, under the
  provider the client named or, when none was named, under its own, and a catalog that is ready
  knows the model for that provider.\<close>

definition names_model :: "string \<Rightarrow> ProviderConfig \<Rightarrow> string \<Rightarrow> bool" where
  "names_model requested cfg name \<longleftrightarrow> (case ParseModelString requested of (p, n) \<Rightarrow>
     if p = [] then name = TrimSpace requested else p = pcfg_Provider cfg \<and> name = n)"

definition model_permitted :: "ModelLookup option \<Rightarrow> VirtualKey \<Rightarrow> string \<Rightarrow> bool" where
  "model_permitted catalog vk requested \<longleftrightarrow> (\<exists>cfg \<in> set (vk_ProviderConfigs vk). \<exists>name. names_model requested cfg name
     \<and> IsModelAllowed (Some cfg) \<lparr>ck_Provider = pcfg_Provider cfg, ck_ModelName = name, ck_ModelType = ModelTypeUnknown\<rparr>
     \<and> (catalogReady catalog \<longrightarrow> catalogHasModel catalog (pcfg_Provider cfg) name))"

definition requested_key :: "DiffractLLMContext \<Rightarrow> CatalogKey" where
  "requested_key rctx = (case ParseModelString (rc_RequestedModel rctx) of (p, n) \<Rightarrow>
     \<lparr>ck_Provider = p, ck_ModelName = n, ck_ModelType = kind_type rctx\<rparr>)"

definition budget_open :: "BudgetCache \<Rightarrow> string \<Rightarrow> bool" where
  "budget_open bc ref \<longleftrightarrow> ref \<noteq> [] \<and> (\<exists>b. LookupBudget ref bc = Some b \<and> CheckBudgetUsage b)"

lemma IsModelAllowed_type:
  "IsModelAllowed cfg (key\<lparr>ck_ModelType := t\<rparr>) = IsModelAllowed cfg key"
  by (simp add: IsModelAllowed_def split: option.splits)

lemma IsModelAllowed_any_type:
  "IsModelAllowed cfg \<lparr>ck_Provider = p, ck_ModelName = n, ck_ModelType = t\<rparr>
     = IsModelAllowed cfg \<lparr>ck_Provider = p, ck_ModelName = n, ck_ModelType = ModelTypeUnknown\<rparr>"
  by (simp add: IsModelAllowed_def split: option.splits)

lemma ParseModelString_trim [simp]: "ParseModelString (TrimSpace m) = ParseModelString m"
  by (simp add: ParseModelString_def)

lemma find_distinct_key:
  "distinct (map f xs) \<Longrightarrow> List.find (\<lambda>x. f x = k) xs = Some y \<longleftrightarrow> y \<in> set xs \<and> f y = k"
  by (induction xs) auto

lemma VirtualKey_ProviderConfig_iff:
  "distinct (map pcfg_Provider (vk_ProviderConfigs vk)) \<Longrightarrow>
   VirtualKey_ProviderConfig vk p = Some cfg \<longleftrightarrow> cfg \<in> set (vk_ProviderConfigs vk) \<and> pcfg_Provider cfg = p"
  by (simp add: VirtualKey_ProviderConfig_def find_distinct_key)

lemma VirtualKey_ProviderConfig_None:
  "VirtualKey_ProviderConfig vk p = None \<longleftrightarrow> (\<forall>cfg \<in> set (vk_ProviderConfigs vk). pcfg_Provider cfg \<noteq> p)"
  by (simp add: VirtualKey_ProviderConfig_def find_None_iff_all)

lemma permitted_qualified:
  assumes d: "distinct (map pcfg_Provider (vk_ProviderConfigs vk))" and p: "ParseModelString m = (p, n)" "p \<noteq> []"
  shows "model_permitted catalog vk m \<longleftrightarrow> (\<exists>cfg. VirtualKey_ProviderConfig vk p = Some cfg
     \<and> IsModelAllowed (Some cfg) \<lparr>ck_Provider = pcfg_Provider cfg, ck_ModelName = n, ck_ModelType = t\<rparr>
     \<and> (catalogReady catalog \<longrightarrow> catalogHasModel catalog (pcfg_Provider cfg) n))"
  using p unfolding model_permitted_def names_model_def IsModelAllowed_any_type [of _ _ _ t]
  by (auto simp: VirtualKey_ProviderConfig_iff [OF d])

lemma permitted_plain:
  assumes p: "ParseModelString m = ([], n)"
  shows "model_permitted catalog vk m \<longleftrightarrow>
     IsModelKeyAllowed vk \<lparr>ck_Provider = [], ck_ModelName = TrimSpace m, ck_ModelType = t\<rparr>
     \<and> (catalogReady catalog \<longrightarrow> modelInCatalog catalog vk (TrimSpace m))"
  using p unfolding model_permitted_def names_model_def IsModelKeyAllowed_def modelInCatalog_def
  by (auto simp: list_ex_iff IsModelAllowed_any_type [of _ _ _ t])

lemma ModelAccessHook_spec:
  assumes "rc_VirtualKeyPolicy rctx = Some vk" "distinct (map pcfg_Provider (vk_ProviderConfigs vk))"
  shows "case ModelAccessHook_Execute catalog rctx of
     (rctx', None) \<Rightarrow> model_permitted catalog vk (rc_RequestedModel rctx)
        \<and> rctx' = rctx\<lparr>rc_Modelkey := requested_key rctx\<rparr>
   | (rctx', Some e) \<Rightarrow> \<not> model_permitted catalog vk (rc_RequestedModel rctx) \<and> rctx' = rctx \<and> e_StatusCode e \<in> {400, 403}"
proof -
  let ?m = "rc_RequestedModel rctx"
  obtain p n where pn: "ParseModelString ?m = (p, n)" by force
  show ?thesis
  proof (cases "p = []")
    case True
    then have "n = TrimSpace ?m" using pn ParseModelString_sound [OF pn] known_provider_no_slash by auto
    moreover have "\<not> model_permitted catalog vk ?m" if "TrimSpace ?m = []"
      using that permitted_plain [of ?m n catalog vk ModelTypeUnknown] pn True
      by (auto simp: IsModelKeyAllowed_def list_ex_iff IsModelAllowed_def)
    ultimately show ?thesis
      using assms(1) pn True permitted_plain [of ?m n catalog vk "kind_type rctx"]
      by (simp add: ModelAccessHook_Execute_def Let_def NewMissingParameter_def NewInvalidParameter_def NewForbidden_def
          requested_key_def)
  next
    case False
    then have "TrimSpace ?m \<noteq> []" using ParseModelString_sound [OF pn] by auto
    show ?thesis
    proof (cases "VirtualKey_ProviderConfig vk p")
      case None
      then show ?thesis
        using assms(1) pn False \<open>TrimSpace ?m \<noteq> []\<close> permitted_qualified [OF assms(2) pn False, of catalog "kind_type rctx"]
        by (simp add: ModelAccessHook_Execute_def Let_def NewForbidden_def)
    next
      case (Some cfg)
      then have "pcfg_Provider cfg = p" by (simp add: VirtualKey_ProviderConfig_iff [OF assms(2)])
      with Some show ?thesis
        using assms(1) pn False \<open>TrimSpace ?m \<noteq> []\<close> permitted_qualified [OF assms(2) pn False, of catalog "kind_type rctx"]
        by (simp add: ModelAccessHook_Execute_def Let_def NewInvalidParameter_def NewForbidden_def requested_key_def)
    qed
  qed
qed

lemma BudgetHook_spec:
  "case BudgetHook_Execute bc rctx of
     (rctx', None) \<Rightarrow> budget_open bc (rc_BudgetRef rctx) \<and> rctx' = rctx
   | (rctx', Some e) \<Rightarrow> \<not> budget_open bc (rc_BudgetRef rctx) \<and> rctx' = rctx \<and> e_StatusCode e \<in> {400, 500}"
  by (auto simp: BudgetHook_Execute_def budget_open_def NewInvalidBudget_def NewBudgetExceeded_def
      split: option.splits if_splits)

lemma RegisterHooks_new:
  "preCallHooks (RegisterHooks NewHookEngine g catalog) = [ModelAccessHook catalog, BudgetHook (gov_BudgetCache g)]"
  "postProviderHooks (RegisterHooks NewHookEngine g catalog) = [RecordHook]"
  "preProviderHooks (RegisterHooks NewHookEngine g catalog) = []"
  "postCallHooks (RegisterHooks NewHookEngine g catalog) = []"
  by (simp_all add: RegisterHooks_def keep_engine_def AddPreCallHook_def AddPostProviderHook_def NewHookEngine_def
      maxHooks_def Let_def)

lemma pre_call_admission:
  assumes "rc_VirtualKeyPolicy rctx = Some vk" "distinct (map pcfg_Provider (vk_ProviderConfigs vk))"
    and "PreCallCount (rc_HookLog rctx) = 0"
  shows "\<exists>rctx' err. RunPreCallHooks (RegisterHooks NewHookEngine g catalog) elapsed rctx = HookDone rctx' err
    \<and> (err = None \<longleftrightarrow> model_permitted catalog vk (rc_RequestedModel rctx)
         \<and> budget_open (gov_BudgetCache g) (rc_BudgetRef rctx))
    \<and> (err = None \<longrightarrow> rc_Modelkey rctx' = requested_key rctx)
    \<and> (\<forall>e. err = Some e \<longrightarrow> e_StatusCode e \<in> {400, 403, 500})
    \<and> rc_VirtualKeyPolicy rctx' = Some vk \<and> rc_BudgetRef rctx' = rc_BudgetRef rctx"
proof -
  obtain r1 e1 where m: "ModelAccessHook_Execute catalog rctx = (r1, e1)" by force
  note spec1 = ModelAccessHook_spec [OF assms(1,2), of catalog, unfolded m]
  let ?l1 = "log_hook phPreCall HookRejected ''model-access'' (elapsed 0) e1 (rc_HookLog r1)"
  obtain r2 e2 where b: "BudgetHook_Execute (gov_BudgetCache g) (r1\<lparr>rc_HookLog := ?l1\<rparr>) = (r2, e2)" by force
  note spec2 = BudgetHook_spec [of "gov_BudgetCache g" "r1\<lparr>rc_HookLog := ?l1\<rparr>", unfolded b]
  have c1: "rc_HookLog r1 = rc_HookLog rctx" "rc_BudgetRef r1 = rc_BudgetRef rctx" "rc_VirtualKeyPolicy r1 = Some vk"
    using spec1 assms(1) by (auto split: option.splits)
  have ph: "ph_count phPreCall = PreCallCount" by (simp add: phPreCall_def)
  have n1: "PreCallCount (rc_HookLog r1) = 0" by (simp add: c1 assms(3))
  have n2: "PreCallCount ?l1 = 1" using pre_call.log_hook_count [unfolded ph] n1 by simp
  show ?thesis
  proof (cases e1)
    case (Some e)
    then show ?thesis using spec1 c1 n1
      by (auto simp: RunPreCallHooks_def RegisterHooks_new ModelAccessHook_def m ph maxHooks_def)
  next
    case None
    let ?l2 = "log_hook phPreCall HookRejected ''budget'' (elapsed 1) e2 ?l1"
    have r2: "r2 = r1\<lparr>rc_HookLog := ?l1\<rparr>" using spec2 by (auto split: option.splits)
    have "RunPreCallHooks (RegisterHooks NewHookEngine g catalog) elapsed rctx = HookDone (r2\<lparr>rc_HookLog := ?l2\<rparr>) e2"
      using b [unfolded None] r2 None n1 n2
      by (cases e2) (simp_all add: RunPreCallHooks_def RegisterHooks_new ModelAccessHook_def BudgetHook_def m ph maxHooks_def)
    then show ?thesis using None spec1 spec2 c1 r2 by (cases e2) auto
  qed
qed

text \<open>
  C5: A request of an authenticated client passes the pre-call hooks of a governed gateway exactly
  when the policy of its virtual key permits the model it names and its budget is known and not
  used up; the context is then given the key of that model. A refused request is answered with
  400, 403 or 500.
\<close>

theorem admission_spec:
  assumes "rc_VirtualKeyPolicy rctx = Some vk" "distinct (map pcfg_Provider (vk_ProviderConfigs vk))"
    and "PreCallCount (rc_HookLog rctx) = 0"
  shows "\<exists>rctx' err. RunPreCallHooks (RegisterHooks NewHookEngine g catalog) elapsed rctx = HookDone rctx' err
    \<and> (err = None \<longleftrightarrow> model_permitted catalog vk (rc_RequestedModel rctx)
         \<and> budget_open (gov_BudgetCache g) (rc_BudgetRef rctx))
    \<and> (err = None \<longrightarrow> rc_Modelkey rctx' = requested_key rctx)
    \<and> (\<forall>e. err = Some e \<longrightarrow> e_StatusCode e \<in> {400, 403, 500})
    \<and> rc_VirtualKeyPolicy rctx' = Some vk \<and> rc_BudgetRef rctx' = rc_BudgetRef rctx"
  by (rule pre_call_admission [OF assms])

definition example_governance :: Governance where
  "example_governance = NewGovernance\<lparr>gov_BudgetCache := [(''b'', \<lparr>bs_Config = None, WindowCost = 0, WindowReqs = 0,
     LastFlushed = 0, LastReqs = 0\<rparr>)]\<rparr>"

definition admitted_request :: DiffractLLMContext where
  "admitted_request = (identified example_vk DiffractLLMContext_zero)\<lparr>rc_RequestedModel := ''openai/gpt-4o'',
     rc_RequestKind := Some ChatRequest\<rparr>"

theorem admission_spec_witness:
  "\<exists>rctx'. RunPreCallHooks (RegisterHooks NewHookEngine example_governance None) (\<lambda>_. 1) admitted_request = HookDone rctx' None
     \<and> rc_Modelkey rctx' = \<lparr>ck_Provider = ''openai'', ck_ModelName = ''gpt-4o'', ck_ModelType = ModelTypeChat\<rparr>"
proof -
  have p: "ParseModelString ''openai/gpt-4o'' = (''openai'', ''gpt-4o'')" by code_simp
  have perm: "model_permitted None example_vk ''openai/gpt-4o''"
    by (auto simp: model_permitted_def names_model_def p catalogReady_def example_vk_def compiled_config_def
        example_config_def fresh_config_def IsModelAllowed_def normal_models_def TrimSpace_def is_space_def dedup.simps)
  have "budget_open (gov_BudgetCache example_governance) ''b''"
    by (simp add: budget_open_def example_governance_def LookupBudget_def CheckBudgetUsage_def)
  with perm show ?thesis
    using admission_spec [of admitted_request example_vk example_governance None "\<lambda>_. 1"]
    by (auto simp: admitted_request_def identified_def example_vk_def DiffractLLMContext_zero_def HookLog_zero_def
        requested_key_def p kind_type_def)
qed

section \<open>Recording usage\<close>

lemma LookupBudget_update:
  "LookupBudget ref (update_entry i f bc) = (if ref = i then map_option f (LookupBudget ref bc) else LookupBudget ref bc)"
  by (induction bc) (auto simp: LookupBudget_def)

text \<open>
  A request with usage is charged exactly once, in nano-dollars, to the budget it was admitted
  under, whether or not the usage buffer still has room for its record: no other budget changes,
  and the history record, kept or counted as dropped, carries the same amount.
\<close>

theorem RecordHook_charges:
  assumes "rc_Usage rctx = Some u" and "nano = ToNanoUSD (rc_Cost rctx)"
  shows "LookupBudget ref (gov_BudgetCache (RecordHook_Execute rctx g)) =
      (if ref = rc_BudgetRef rctx then map_option (RecordUsage nano) (LookupBudget ref (gov_BudgetCache g))
       else LookupBudget ref (gov_BudgetCache g))
    \<and> 0 \<le> nano
    \<and> gov_UsageBuffer (RecordHook_Execute rctx g) = (let ub = gov_UsageBuffer g in
        if length (ub_records ub) < ub_maxCapacity ub then ub\<lparr>ub_records := ub_records ub @ [usage_record rctx u nano]\<rparr>
        else ub\<lparr>ub_dropped := ub_dropped ub + 1\<rparr>)
    \<and> KeyCache (RecordHook_Execute rctx g) = KeyCache g"
  using assms
  by (auto simp: RecordHook_Execute_def Let_def LookupBudget_update UsageBuffer_Append_def ToNanoUSD_bounds
      split: option.splits)

theorem RecordHook_charges_witness:
  "WindowReqs (the (LookupBudget ''b'' (gov_BudgetCache
     (RecordHook_Execute (admitted_request\<lparr>rc_Usage := Some Usage_zero\<rparr>) example_governance)))) = 1"
  using RecordHook_charges [of "admitted_request\<lparr>rc_Usage := Some Usage_zero\<rparr>" Usage_zero _ "''b''" example_governance]
  by (simp add: admitted_request_def identified_def example_vk_def example_governance_def LookupBudget_def RecordUsage_def
      wrap64_def)

lemma append_all_fits:
  "length (ub_records ub) + length rs \<le> ub_maxCapacity ub \<Longrightarrow>
   foldl (\<lambda>ub r. fst (UsageBuffer_Append r ub)) ub rs = ub\<lparr>ub_records := ub_records ub @ rs\<rparr>"
  by (induction rs arbitrary: ub) (auto simp: UsageBuffer_Append_def)


definition example_full_governance :: Governance where
  "example_full_governance = example_governance\<lparr>gov_UsageBuffer := (NewUsageBuffer 1)\<lparr>ub_records := [example_record]\<rparr>\<rparr>"


section \<open>Loading keys\<close>

lemma CompileProviderConfigs_distinct:
  "CompileProviderConfigs mode cfgs = Inr out \<Longrightarrow> distinct (map pcfg_Provider out)"
  using CompileProviderConfigs_eq [of mode cfgs] CompileProviderConfigs_err [of mode cfgs]
  by (cases "configs_ok mode cfgs") (auto simp: configs_ok_def compiled_config_def comp_def)

lemma list_all2_setD1: "list_all2 P xs ys \<Longrightarrow> x \<in> set xs \<Longrightarrow> \<exists>y \<in> set ys. P x y"
  by (induction rule: list_all2_induct) auto

lemma list_all2_setD2: "list_all2 P xs ys \<Longrightarrow> y \<in> set ys \<Longrightarrow> \<exists>x \<in> set xs. P x y"
  by (induction rule: list_all2_induct) auto

lemma convert_keys_ok:
  "convert_keys rows acc = Inr out \<Longrightarrow> \<exists>new. out = acc @ new
     \<and> list_all2 (\<lambda>row vk. StoreVirtualKey_ToCore row = Inr vk \<and> VirtualKey_Validate (Some vk) = None) rows new"
proof (induction rows arbitrary: acc)
  case (Cons row rows)
  then obtain vk where vk: "StoreVirtualKey_ToCore row = Inr vk" "VirtualKey_Validate (Some vk) = None"
    "convert_keys rows (acc @ [vk]) = Inr out"
    by (auto split: sum.splits option.splits)
  from Cons.IH [OF vk(3)] obtain new where "out = (acc @ [vk]) @ new"
    "list_all2 (\<lambda>row vk. StoreVirtualKey_ToCore row = Inr vk \<and> VirtualKey_Validate (Some vk) = None) rows new" by blast
  then show ?case using vk by (intro exI [of _ "vk # new"]) simp
qed auto

lemma ToCore_fields:
  "StoreVirtualKey_ToCore row = Inr vk \<Longrightarrow> vk_Key vk = svk_APIKey row \<and> vk_ID vk = svk_ID row
     \<and> vk_ClientID vk = svk_ClientID row \<and> vk_BudgetID vk = svk_BudgetID row \<and> vk_IsActive vk = svk_IsActive row
     \<and> vk_ExpiresAt vk = svk_ExpiresAt row \<and> distinct (map pcfg_Provider (vk_ProviderConfigs vk))"
  by (auto simp: StoreVirtualKey_ToCore_def CompileProviderConfigs_distinct split: option.splits sum.splits)

text \<open>
  Loading the virtual keys is all or nothing. If any row cannot be compiled or validated the
  cache is left as it was; otherwise the cache holds exactly the rows that were read, each under
  its own key, with the validated policy and pairwise different providers that admission relies
  on.
\<close>

theorem syncVirtualKey_all_or_nothing:
  "case syncVirtualKey now listed g of
     (g', Inl e) \<Rightarrow> g' = g
   | (g', Inr n) \<Rightarrow> (\<exists>rows. listed = Some rows \<and> n = length rows
       \<and> (\<forall>k. LookupVkey k (KeyCache g') \<noteq> None \<longleftrightarrow> k \<in> svk_APIKey ` set rows)
       \<and> (\<forall>k vk. LookupVkey k (KeyCache g') = Some vk \<longrightarrow> (\<exists>row \<in> set rows. StoreVirtualKey_ToCore row = Inr vk)
            \<and> vk_Key vk = k \<and> VirtualKey_Validate (Some vk) = None
            \<and> distinct (map pcfg_Provider (vk_ProviderConfigs vk))))"
proof (cases listed)
  case None
  then show ?thesis by (simp add: syncVirtualKey_def)
next
  case (Some rows)
  show ?thesis
  proof (cases "convert_keys rows []")
    case (Inl e)
    with Some show ?thesis by (simp add: syncVirtualKey_def)
  next
    case (Inr out)
    from convert_keys_ok [OF Inr]
    have l: "list_all2 (\<lambda>row vk. StoreVirtualKey_ToCore row = Inr vk \<and> VirtualKey_Validate (Some vk) = None) rows out" by simp
    have from_row: "\<exists>row \<in> set rows. StoreVirtualKey_ToCore row = Inr vk \<and> VirtualKey_Validate (Some vk) = None"
      if "vk \<in> set out" for vk using list_all2_setD2 [OF l that] .
    have "map vk_Key out = map svk_APIKey rows"
      using l by (induction rows out rule: list_all2_induct) (auto dest: ToCore_fields)
    then have keys: "vk_Key ` set out = svk_APIKey ` set rows" by (metis set_map)
    let ?c = "LoadVirtualKeys now out (KeyCache g)"
    have dom: "LookupVkey k ?c \<noteq> None \<longleftrightarrow> k \<in> svk_APIKey ` set rows" for k
      by (auto simp: LookupVkey_Load find_None_iff_all simp flip: keys)
    have val: "(\<exists>row \<in> set rows. StoreVirtualKey_ToCore row = Inr vk) \<and> vk_Key vk = k
        \<and> VirtualKey_Validate (Some vk) = None \<and> distinct (map pcfg_Provider (vk_ProviderConfigs vk))"
      if "LookupVkey k ?c = Some vk" for k vk
    proof -
      from that have "vk \<in> set out" "vk_Key vk = k" using find_SomeD [OF that [unfolded LookupVkey_Load]] by simp_all
      with from_row [of vk] ToCore_fields [of _ vk] show ?thesis by blast
    qed
    have "length out = length rows" using l by (simp add: list_all2_lengthD)
    then show ?thesis using Some Inr dom val by (simp add: syncVirtualKey_def)
  qed
qed

lemma generated_signature: "GenerateVirtualKey (Some raw) = Some (apikey, hash, shown) \<Longrightarrow> ValidateKeySignature apikey"
  unfolding ValidateKeySignature_iff
  by (auto simp: GenerateVirtualKey_def Let_def intro!: exI [of _ "base62Encode (SetBytes raw) dkPayloadLen"])

lemma base62_no_space: "isBase62Char c \<Longrightarrow> \<not> is_space c"
  by (auto simp: isBase62Char_def is_space_def)

lemma signature_no_space:
  assumes "ValidateKeySignature k"
  shows "list_all (\<lambda>c. \<not> is_space c) k"
proof -
  obtain payload where p: "list_all isBase62Char payload" "k = dkPrefix @ payload @ dk_checksum (dkPrefix @ payload)"
    using assms unfolding ValidateKeySignature_iff by blast
  have "list_all isBase62Char (dk_checksum (dkPrefix @ payload))" by (simp add: dk_checksum_def)
  moreover have "list_all (\<lambda>c. \<not> is_space c) dkPrefix" by (simp add: dkPrefix_def is_space_def)
  ultimately show ?thesis using p base62_no_space by (auto simp: list_all_iff)
qed

lemma sync_lookup:
  assumes "syncVirtualKey now (Some rows) g = (g', Inr n)" "distinct (map svk_APIKey rows)" "row \<in> set rows"
  shows "\<exists>vk. LookupVkey (svk_APIKey row) (KeyCache g') = Some vk \<and> StoreVirtualKey_ToCore row = Inr vk"
proof -
  obtain out where out: "convert_keys rows [] = Inr out" "KeyCache g' = LoadVirtualKeys now out (KeyCache g)"
    using assms(1) by (auto simp: syncVirtualKey_def split: sum.splits)
  from convert_keys_ok [OF out(1)]
  have l: "list_all2 (\<lambda>row vk. StoreVirtualKey_ToCore row = Inr vk \<and> VirtualKey_Validate (Some vk) = None) rows out" by simp
  have keys: "map vk_Key out = map svk_APIKey rows"
    using l by (induction rows out rule: list_all2_induct) (auto dest: ToCore_fields)
  obtain vk where vk: "vk \<in> set out" "StoreVirtualKey_ToCore row = Inr vk"
    using list_all2_setD1 [OF l assms(3)] by blast
  have "distinct (map vk_Key (rev out))" using keys assms(2) by (simp flip: rev_map)
  then have "List.find (\<lambda>v. vk_Key v = svk_APIKey row) (rev out) = Some vk"
    using vk ToCore_fields [OF vk(2)] by (simp add: find_distinct_key)
  with vk out show ?thesis by (simp add: LookupVkey_Load)
qed

text \<open>
  A key that was generated, stored in an active row and loaded authenticates in each of the
  four header positions until it expires, as the client and budget of its row.
\<close>

theorem issued_key_authenticates:
  assumes "GenerateVirtualKey (Some raw) = Some (apikey, hash, shown)"
    and "row \<in> set rows" "svk_APIKey row = apikey" "svk_IsActive row" "\<forall>t. svk_ExpiresAt row = Some t \<longrightarrow> now \<le> t"
    and "distinct (map svk_APIKey rows)"
    and "syncVirtualKey sync_time (Some rows) g = (g', Inr n)"
    and "request_header rctx \<in> {[(''X-Diffract-Key'', apikey)], [(''Authorization'', ''Bearer '' @ apikey)],
      [(''X-Api-Key'', apikey)], [(''X-Goog-Api-Key'', apikey)]}"
  shows "\<exists>rctx'. ValidatevKeyAuth g' now rctx = (rctx', None) \<and> rc_ClientID rctx' = svk_ClientID row
    \<and> rc_VirtualKeyID rctx' = svk_ID row \<and> rc_BudgetRef rctx' = svk_BudgetID row \<and> rc_AuthFrozen rctx'"
proof -
  have sig: "ValidateKeySignature apikey" using generated_signature assms(1) by blast
  have "extractKey rctx = apikey"
    using extractKey_single [OF signature_no_space [OF sig] _ assms(8)] sig by (cases "apikey = []") auto
  moreover obtain vk where vk: "LookupVkey apikey (KeyCache g') = Some vk" "StoreVirtualKey_ToCore row = Inr vk"
    using sync_lookup [OF assms(7,6,2)] assms(3) by blast
  moreover have "usable_key now vk" using ToCore_fields [OF vk(2)] assms(4,5) by (simp add: usable_key_def)
  ultimately have "ValidatevKeyAuth g' now rctx = (identified vk rctx, None)"
    using sig by (auto simp: ValidatevKeyAuth_def Let_def usable_key_def identified_def split: option.splits)
  then show ?thesis using ToCore_fields [OF vk(2)] by (simp add: identified_def)
qed

definition issued_row :: StoreVirtualKey where
  "issued_row = \<lparr>svk_ID = ''vk1'', svk_APIKey = fst (the (GenerateVirtualKey (Some []))), svk_ClientID = ''c'',
     svk_BudgetID = ''b'', svk_Mode = ''direct'', svk_ProviderConfigs = [example_config],
     svk_LoadBalancer = ''round_robin'', svk_IsActive = True, svk_ExpiresAt = None,
     svk_KeyHash = [], svk_DisplayPrefix = [], svk_CreatedAt = 0, svk_UpdatedAt = 0\<rparr>"

definition issued_request :: DiffractLLMContext where
  "issued_request = DiffractLLMContext_zero\<lparr>rc_Request := Some \<lparr>req_Method = ''POST'', req_Path = ''/v1/chat/completions'',
     req_Header = [(''Authorization'', ''Bearer '' @ svk_APIKey issued_row)], req_Body = [], req_ContentLength = 0\<rparr>\<rparr>"

lemma issued_sync: "\<exists>g'. syncVirtualKey 0 (Some [issued_row]) NewGovernance = (g', Inr 1)"
proof -
  have "ParseVKMode ''direct'' = Some VKDirect" "ParseLBKind ''round_robin'' = Some LBRoundRobin"
    by (simp_all add: ParseVKMode_def ParseLBKind_def)
  then obtain vk where vk: "StoreVirtualKey_ToCore issued_row = Inr vk" "VirtualKey_Validate (Some vk) = None"
    using CompileProviderConfigs_eq [OF example_config_ok]
    by (simp add: StoreVirtualKey_ToCore_def issued_row_def VirtualKey_Validate_def LBKind_Implemented_def)
  show ?thesis by (simp add: syncVirtualKey_def vk)
qed

theorem issued_key_authenticates_witness:
  "\<exists>g' rctx'. syncVirtualKey 0 (Some [issued_row]) NewGovernance = (g', Inr 1)
     \<and> ValidatevKeyAuth g' 5 issued_request = (rctx', None) \<and> rc_ClientID rctx' = ''c''"
proof -
  obtain apikey hash shown where gen: "GenerateVirtualKey (Some []) = Some (apikey, hash, shown)"
    by (simp add: GenerateVirtualKey_def Let_def)
  obtain g' where sync: "syncVirtualKey 0 (Some [issued_row]) NewGovernance = (g', Inr 1)" using issued_sync by blast
  have "\<exists>rctx'. ValidatevKeyAuth g' 5 issued_request = (rctx', None) \<and> rc_ClientID rctx' = svk_ClientID issued_row
    \<and> rc_VirtualKeyID rctx' = svk_ID issued_row \<and> rc_BudgetRef rctx' = svk_BudgetID issued_row \<and> rc_AuthFrozen rctx'"
    by (rule issued_key_authenticates [OF gen _ _ _ _ _ sync])
      (simp_all add: issued_row_def issued_request_def request_header_def gen)
  then show ?thesis using sync by (auto simp: issued_row_def)
qed

theorem syncVirtualKey_all_or_nothing_witness:
  "LookupVkey (svk_APIKey issued_row) (KeyCache (fst (syncVirtualKey 0 (Some [issued_row]) NewGovernance))) \<noteq> None"
proof -
  obtain g' where sync: "syncVirtualKey 0 (Some [issued_row]) NewGovernance = (g', Inr 1)" using issued_sync by blast
  show ?thesis using syncVirtualKey_all_or_nothing [where now = 0 and listed = "Some [issued_row]" and g = NewGovernance] by (simp add: sync)
qed

end
