(* ===== verification/ProviderPlane.thy ===== *)
theory ProviderPlane
  imports Credential
begin

text \<open>
  The credential plane (\<^verbatim>\<open>internal/providerplane/plane.go\<close>): a snapshot of the credentials, grouped
  by provider, replaced as a whole under a lock by every update and read without one.
\<close>

type_synonym snapshot = "Provider \<rightharpoonup> Credential list"

text \<open>Reading a missing key of a Go map of slices gives the empty slice.\<close>

definition bucket :: "snapshot \<Rightarrow> Provider \<Rightarrow> Credential list" where
  "bucket snap p = opt_or [] (snap p)"

definition buildCredSnapshot :: "Credential list \<Rightarrow> snapshot" where
  "buildCredSnapshot credentials =
     foldl (\<lambda>snap cred. snap(c_Provider cred \<mapsto> bucket snap (c_Provider cred) @ [cred])) Map.empty credentials"

record ProviderPlane =
  credSnapshot :: "snapshot option"

definition NewProviderPlane :: "Credential list \<Rightarrow> ProviderPlane" where
  "NewProviderPlane cred = \<lparr>credSnapshot = Some (buildCredSnapshot cred)\<rparr>"

definition Plane_Candidates :: "time \<Rightarrow> ProviderPlane \<Rightarrow> CatalogKey \<Rightarrow> Credential list" where
  "Plane_Candidates now plane key = (case credSnapshot plane of None \<Rightarrow> []
   | Some snap \<Rightarrow> filter (\<lambda>cred. CheckValidity now (Some cred) \<and> CheckModel (Some cred) (ck_ModelName key))
       (bucket snap (ck_Provider key)))"

definition Plane_Credentials :: "ProviderPlane \<Rightarrow> Provider \<Rightarrow> Credential list" where
  "Plane_Credentials plane provider = (case credSnapshot plane of None \<Rightarrow> [] | Some snap \<Rightarrow> bucket snap provider)"

definition Plane_clone :: "ProviderPlane \<Rightarrow> snapshot" where
  "Plane_clone plane = (case credSnapshot plane of None \<Rightarrow> Map.empty | Some old \<Rightarrow> old)"

fun replace_cred :: "Credential \<Rightarrow> Credential list \<Rightarrow> Credential list \<times> bool" where
  "replace_cred cred [] = ([], False)"
| "replace_cred cred (existing # rest) = (case replace_cred cred rest of (replaced, found) \<Rightarrow>
     if c_ID existing = c_ID cred then (cred # replaced, True) else (existing # replaced, found))"

definition UpsertCredential :: "Credential \<Rightarrow> ProviderPlane \<Rightarrow> credential_error + ProviderPlane" where
  "UpsertCredential cred plane = (case Credential_Validate cred of Some e \<Rightarrow> Inl e
   | None \<Rightarrow>
       let snap = Plane_clone plane;
           (replaced, found) = replace_cred cred (bucket snap (c_Provider cred));
           replaced' = (if found then replaced else replaced @ [cred])
       in Inr (plane\<lparr>credSnapshot := Some (snap(c_Provider cred \<mapsto> replaced'))\<rparr>))"

datatype plane_error = ErrNoCredential

definition RemoveCredential :: "Provider \<Rightarrow> string \<Rightarrow> ProviderPlane \<Rightarrow> plane_error + ProviderPlane" where
  "RemoveCredential provider ident plane =
    (let snap = Plane_clone plane;
         kept = filter (\<lambda>existing. c_ID existing \<noteq> ident) (bucket snap provider)
     in if length kept = length (bucket snap provider) then Inl ErrNoCredential
        else Inr (plane\<lparr>credSnapshot := Some (if kept = [] then snap(provider := None) else snap(provider \<mapsto> kept))\<rparr>))"

definition Plane_Replace :: "Credential list \<Rightarrow> ProviderPlane \<Rightarrow> ProviderPlane" where
  "Plane_Replace credentials plane = plane\<lparr>credSnapshot := Some (buildCredSnapshot credentials)\<rparr>"

text \<open>The sum over the buckets does not depend on the order in which the map is visited.\<close>

definition Plane_Len :: "ProviderPlane \<Rightarrow> nat" where
  "Plane_Len plane = (case credSnapshot plane of None \<Rightarrow> 0
   | Some snap \<Rightarrow> \<Sum>p \<in> dom snap. length (bucket snap p))"

section \<open>Invariant\<close>

text \<open>Every credential is in the bucket of its provider, identifiers are unique per bucket, and
  only finitely many providers have one.\<close>

definition wf_plane :: "ProviderPlane \<Rightarrow> bool" where
  "wf_plane plane \<longleftrightarrow> finite (dom (Plane_clone plane)) \<and>
     (\<forall>p. (\<forall>c \<in> set (Plane_Credentials plane p). c_Provider c = p)
        \<and> distinct (map c_ID (Plane_Credentials plane p)))"

lemma bucket_simps [simp]:
  "bucket (snap(p \<mapsto> b)) q = (if q = p then b else bucket snap q)"
  "bucket (snap(p := None)) q = (if q = p then [] else bucket snap q)"
  "bucket Map.empty q = []"
  by (auto simp: bucket_def)

lemma Plane_Credentials_clone: "Plane_Credentials plane p = bucket (Plane_clone plane) p"
  by (simp add: Plane_Credentials_def Plane_clone_def split: option.split)

lemma Plane_clone_update [simp]: "Plane_clone (plane\<lparr>credSnapshot := Some snap\<rparr>) = snap"
  by (simp add: Plane_clone_def)

lemma Plane_Candidates_alt:
  "Plane_Candidates now plane key =
     filter (\<lambda>cred. CheckValidity now (Some cred) \<and> CheckModel (Some cred) (ck_ModelName key))
       (Plane_Credentials plane (ck_Provider key))"
  by (simp add: Plane_Candidates_def Plane_Credentials_def split: option.split)

lemma build_aux:
  "bucket (foldl (\<lambda>snap cred. snap(c_Provider cred \<mapsto> bucket snap (c_Provider cred) @ [cred])) snap cs) p
     = bucket snap p @ filter (\<lambda>c. c_Provider c = p) cs"
  by (induction cs arbitrary: snap) auto

lemma bucket_build: "bucket (buildCredSnapshot cs) p = filter (\<lambda>c. c_Provider c = p) cs"
  unfolding buildCredSnapshot_def by (subst build_aux) simp

lemma finite_build: "finite (dom (buildCredSnapshot cs))"
  unfolding buildCredSnapshot_def by (rule foldl_invariant [where I = "\<lambda>snap. finite (dom snap)"]) auto

lemma replace_cred_snd: "snd (replace_cred c b) \<longleftrightarrow> c_ID c \<in> c_ID ` set b"
  by (induction b) (auto split: prod.splits)

lemma replace_cred_fst: "fst (replace_cred c b) = map (\<lambda>x. if c_ID x = c_ID c then c else x) b"
  by (induction b) (auto split: prod.splits)

definition upserted :: "Credential \<Rightarrow> Credential list \<Rightarrow> Credential list" where
  "upserted cred b = map (\<lambda>x. if c_ID x = c_ID cred then cred else x) b
     @ (if c_ID cred \<in> c_ID ` set b then [] else [cred])"

lemma UpsertCredential_alt:
  "UpsertCredential cred plane = (case Credential_Validate cred of Some e \<Rightarrow> Inl e
   | None \<Rightarrow> Inr (plane\<lparr>credSnapshot := Some ((Plane_clone plane)(c_Provider cred \<mapsto>
       upserted cred (bucket (Plane_clone plane) (c_Provider cred))))\<rparr>))"
proof -
  let ?b = "bucket (Plane_clone plane) (c_Provider cred)"
  obtain r f where rf: "replace_cred cred ?b = (r, f)" by force
  then have "r = map (\<lambda>x. if c_ID x = c_ID cred then cred else x) ?b" "f = (c_ID cred \<in> c_ID ` set ?b)"
    using replace_cred_snd [of cred ?b] replace_cred_fst [of cred ?b] by simp_all
  then have "(if f then r else r @ [cred]) = upserted cred ?b" by (simp add: upserted_def)
  then show ?thesis by (simp add: UpsertCredential_def rf Let_def split: option.split)
qed

lemma Upsert_bucket:
  assumes "UpsertCredential cred plane = Inr plane'"
  shows "Plane_Credentials plane' p = (if p = c_Provider cred
     then upserted cred (Plane_Credentials plane p) else Plane_Credentials plane p)"
  using assms by (auto simp: UpsertCredential_alt Plane_Credentials_clone split: option.splits)

lemma Remove_bucket:
  assumes "RemoveCredential provider ident plane = Inr plane'"
  shows "Plane_Credentials plane' p = (if p = provider
     then filter (\<lambda>x. c_ID x \<noteq> ident) (Plane_Credentials plane p) else Plane_Credentials plane p)"
  using assms by (auto simp: RemoveCredential_def Plane_Credentials_clone Let_def split: if_splits)

lemma map_replace_id: "map c_ID (map (\<lambda>x. if c_ID x = c_ID c then c else x) b) = map c_ID b"
  by simp

lemma wf_NewProviderPlane [wf_intro]:
  "(\<And>p. distinct (map c_ID (filter (\<lambda>c. c_Provider c = p) cs))) \<Longrightarrow> wf_plane (NewProviderPlane cs)"
  by (auto simp: wf_plane_def Plane_Credentials_clone NewProviderPlane_def Plane_clone_def bucket_build finite_build)

lemma finite_Upsert: "UpsertCredential c plane = Inr plane' \<Longrightarrow> finite (dom (Plane_clone plane)) \<Longrightarrow> finite (dom (Plane_clone plane'))"
  by (auto simp: UpsertCredential_alt split: option.splits)

lemma finite_Remove: "RemoveCredential p i plane = Inr plane' \<Longrightarrow> finite (dom (Plane_clone plane)) \<Longrightarrow> finite (dom (Plane_clone plane'))"
  by (auto simp: RemoveCredential_def Let_def split: if_splits intro: finite_subset [of _ "dom (Plane_clone plane)"])

lemma wf_Upsert [wf_intro]:
  assumes "wf_plane plane" "UpsertCredential cred plane = Inr plane'"
  shows "wf_plane plane'"
  unfolding wf_plane_def
proof (intro conjI allI)
  show "finite (dom (Plane_clone plane'))" using finite_Upsert assms by (auto simp: wf_plane_def)
  fix p
  have w: "\<forall>c \<in> set (Plane_Credentials plane p). c_Provider c = p" "distinct (map c_ID (Plane_Credentials plane p))"
    using assms(1) by (auto simp: wf_plane_def)
  show "\<forall>c \<in> set (Plane_Credentials plane' p). c_Provider c = p"
    using w(1) by (auto simp: Upsert_bucket [OF assms(2)] upserted_def)
  show "distinct (map c_ID (Plane_Credentials plane' p))"
    using w(2) by (auto simp: Upsert_bucket [OF assms(2)] upserted_def map_replace_id simp del: map_map)
qed

lemma wf_Remove [wf_intro]:
  assumes "wf_plane plane" "RemoveCredential q i plane = Inr plane'"
  shows "wf_plane plane'"
  using assms finite_Remove [OF assms(2)]
  by (auto simp: wf_plane_def Remove_bucket [OF assms(2)] intro!: distinct_map_filter)

lemma wf_Replace [wf_intro]:
  "(\<And>p. distinct (map c_ID (filter (\<lambda>c. c_Provider c = p) cs))) \<Longrightarrow> wf_plane (Plane_Replace cs plane)"
  by (auto simp: wf_plane_def Plane_Credentials_clone Plane_Replace_def bucket_build finite_build)

section \<open>Lookup\<close>

text \<open>The plane as an abstract table: the credential stored under a provider and an identifier.\<close>

definition plane_table :: "ProviderPlane \<Rightarrow> Provider \<times> string \<rightharpoonup> Credential" where
  "plane_table plane = (\<lambda>(p, i). List.find (\<lambda>c. c_ID c = i) (Plane_Credentials plane p))"

lemma find_append: "List.find P (xs @ ys) = (case List.find P xs of Some x \<Rightarrow> Some x | None \<Rightarrow> List.find P ys)"
  by (induction xs) auto

lemma find_map_replace:
  "List.find (\<lambda>x. c_ID x = i) (map (\<lambda>x. if c_ID x = c_ID c then c else x) b)
     = (if i = c_ID c then (if c_ID c \<in> c_ID ` set b then Some c else None) else List.find (\<lambda>x. c_ID x = i) b)"
  by (induction b) auto

lemma find_upserted:
  "List.find (\<lambda>x. c_ID x = i) (upserted c b) = (if i = c_ID c then Some c else List.find (\<lambda>x. c_ID x = i) b)"
  by (auto simp: upserted_def find_append find_map_replace split: option.split)

lemma find_remove: "List.find (\<lambda>x. c_ID x = j) (filter (\<lambda>x. c_ID x \<noteq> i) b) = (if j = i then None else List.find (\<lambda>x. c_ID x = j) b)"
  by (induction b) auto

text \<open>
  C38: The credential plane implements a table keyed by provider and identifier: a valid upsert
  writes exactly the entry of the credential, removal deletes exactly one entry and fails, leaving
  the plane alone, when there is none; an invalid credential is refused with its validation error.
\<close>

theorem plane_refines_table:
  "(case Credential_Validate cred of
      Some e \<Rightarrow> UpsertCredential cred plane = Inl e
    | None \<Rightarrow> \<exists>plane'. UpsertCredential cred plane = Inr plane'
        \<and> plane_table plane' = (plane_table plane)((c_Provider cred, c_ID cred) \<mapsto> cred))
   \<and> (if plane_table plane (p, i) = None then RemoveCredential p i plane = Inl ErrNoCredential
      else \<exists>plane'. RemoveCredential p i plane = Inr plane' \<and> plane_table plane' = (plane_table plane)((p, i) := None))"
proof (intro conjI)
  show "case Credential_Validate cred of Some e \<Rightarrow> UpsertCredential cred plane = Inl e
    | None \<Rightarrow> \<exists>plane'. UpsertCredential cred plane = Inr plane'
        \<and> plane_table plane' = (plane_table plane)((c_Provider cred, c_ID cred) \<mapsto> cred)"
  proof (cases "Credential_Validate cred")
    case None
    then obtain plane' where up: "UpsertCredential cred plane = Inr plane'"
      by (auto simp: UpsertCredential_alt)
    have "plane_table plane' = (plane_table plane)((c_Provider cred, c_ID cred) \<mapsto> cred)"
      by (rule ext) (auto simp: plane_table_def Upsert_bucket [OF up] find_upserted split: if_splits)
    with None up show ?thesis by simp
  qed (simp add: UpsertCredential_def)
  show "if plane_table plane (p, i) = None then RemoveCredential p i plane = Inl ErrNoCredential
      else \<exists>plane'. RemoveCredential p i plane = Inr plane' \<and> plane_table plane' = (plane_table plane)((p, i) := None)"
  proof (cases "plane_table plane (p, i) = None")
    case True
    then have "filter (\<lambda>x. c_ID x \<noteq> i) (bucket (Plane_clone plane) p) = bucket (Plane_clone plane) p"
      by (auto simp: plane_table_def find_None_iff_all Plane_Credentials_clone intro: filter_True)
    with True show ?thesis by (simp add: RemoveCredential_def Let_def)
  next
    case False
    then have "\<exists>x \<in> set (bucket (Plane_clone plane) p). c_ID x = i"
      by (auto simp: plane_table_def Plane_Credentials_clone dest: find_SomeD)
    then have "length (filter (\<lambda>x. c_ID x \<noteq> i) (bucket (Plane_clone plane) p)) \<noteq> length (bucket (Plane_clone plane) p)"
      using length_filter_less [of _ "bucket (Plane_clone plane) p" "\<lambda>x. c_ID x \<noteq> i"] by force
    then obtain plane' where rm: "RemoveCredential p i plane = Inr plane'"
      by (simp add: RemoveCredential_def Let_def)
    have "plane_table plane' = (plane_table plane)((p, i) := None)"
      by (rule ext) (auto simp: plane_table_def Remove_bucket [OF rm] find_remove split: if_splits)
    with False rm show ?thesis by simp
  qed
qed

lemma sum_length_filter:
  "finite A \<Longrightarrow> f ` set xs \<subseteq> A \<Longrightarrow> (\<Sum>p \<in> A. length (filter (\<lambda>c. f c = p) xs)) = length xs"
proof (induction xs)
  case (Cons x xs)
  have "(\<Sum>p \<in> A. length (filter (\<lambda>c. f c = p) (x # xs)))
      = (\<Sum>p \<in> A. (if f x = p then 1 else 0) + length (filter (\<lambda>c. f c = p) xs))"
    by (intro sum.cong) auto
  also have "\<dots> = 1 + length xs" using Cons by (simp add: sum.distrib)
  finally show ?case by simp
qed simp

text \<open>
  The number of credentials the plane reports for a snapshot built from a list is the length
  of that list: grouping by provider loses and duplicates nothing.
\<close>

theorem Plane_Len_build: "Plane_Len (NewProviderPlane cs) = length cs"
proof -
  let ?s = "buildCredSnapshot cs"
  have dom: "c_Provider ` set cs \<subseteq> dom ?s"
  proof
    fix p assume "p \<in> c_Provider ` set cs"
    then have "bucket ?s p \<noteq> []" by (auto simp: bucket_build filter_empty_conv)
    then show "p \<in> dom ?s" by (cases "?s p") (auto simp: bucket_def)
  qed
  have "Plane_Len (NewProviderPlane cs) = (\<Sum>p \<in> dom ?s. length (filter (\<lambda>c. c_Provider c = p) cs))"
    by (simp add: Plane_Len_def NewProviderPlane_def bucket_build)
  also have "\<dots> = length cs" using finite_build dom by (rule sum_length_filter)
  finally show ?thesis .
qed

end
