(* ===== verification/Selection.thy ===== *)
theory Selection
  imports Context ProviderPlane
begin

text \<open>
  Credential selection (\<^verbatim>\<open>internal/dataplane/dataplane.go\<close>): the interface to the credential source,
  the round-robin selector with its per-key cursors, the weighted choice of a provider and the
  resolution of a request to a credential. The random number of \<^verbatim>\<open>rand.Float64()\<close> is the argument
  \<open>u\<close>; the only state the engine keeps is the cursors of the round-robin selector.
\<close>

section \<open>Interfaces\<close>

text \<open>What the engine relies on of a credential source: the candidates of a key belong to the
  provider of the key, are valid and serve the model.\<close>

locale credential_source =
  fixes Candidates :: "CatalogKey \<Rightarrow> Credential list" and now :: time
  assumes candidate_provider: "c \<in> set (Candidates key) \<Longrightarrow> c_Provider c = ck_Provider key"
    and candidate_valid: "c \<in> set (Candidates key) \<Longrightarrow> CheckValidity now (Some c)"
    and candidate_model: "c \<in> set (Candidates key) \<Longrightarrow> CheckModel (Some c) (ck_ModelName key)"

text \<open>What the engine relies on of a selector: it picks one of the credentials it is given, and
  picks one whenever there is one.\<close>

locale selector =
  fixes Pick :: "CatalogKey \<Rightarrow> Credential list \<Rightarrow> 's \<Rightarrow> Credential option \<times> 's"
  assumes pick_member: "fst (Pick key creds s) = Some c \<Longrightarrow> c \<in> set creds"
    and pick_some: "creds \<noteq> [] \<Longrightarrow> fst (Pick key creds s) \<noteq> None"
begin

lemma pick_empty: "fst (Pick key [] s) = None"
  using pick_member by (metis empty_iff list.set(1) not_None_eq)

lemma pick_None_iff: "fst (Pick key creds s) = None \<longleftrightarrow> creds = []"
  using pick_some pick_empty by metis

end

section \<open>Round robin\<close>

type_synonym cursors = "CatalogKey \<rightharpoonup> 64 word"

definition roundRobin_Pick :: "CatalogKey \<Rightarrow> Credential list \<Rightarrow> cursors \<Rightarrow> Credential option \<times> cursors" where
  "roundRobin_Pick key creds cs =
    (if creds = [] then (None, cs)
     else if length creds = 1 then (Some (creds ! 0), cs)
     else let temp = opt_or 0 (cs key) + 1
       in (Some (creds ! (unat temp mod length creds)), cs(key \<mapsto> temp)))"

interpretation round_robin: selector roundRobin_Pick
  by unfold_locales (auto simp: roundRobin_Pick_def Let_def split: if_splits)

section \<open>The engine\<close>

text \<open>\<^verbatim>\<open>kind\<close> looks the requested algorithm up and falls back to round robin: every algorithm runs
  the one selector that is registered.\<close>

definition selectors :: "LBKind \<rightharpoonup> (CatalogKey \<Rightarrow> Credential list \<Rightarrow> cursors \<Rightarrow> Credential option \<times> cursors)" where
  "selectors = [LBRoundRobin \<mapsto> roundRobin_Pick]"

definition engine_kind :: "LBKind \<Rightarrow> CatalogKey \<Rightarrow> Credential list \<Rightarrow> cursors \<Rightarrow> Credential option \<times> cursors" where
  "engine_kind k = (case selectors k of Some sel \<Rightarrow> sel | None \<Rightarrow> the (selectors LBRoundRobin))"

definition commit :: "DiffractLLMContext \<Rightarrow> CatalogKey \<Rightarrow> Credential \<Rightarrow> DiffractLLMContext" where
  "commit rctx key cred = rctx\<lparr>rc_Modelkey := key, rc_SelectedCredential := Some cred\<rparr>"

type_synonym resolution = "(DiffractLLMError + Credential) \<times> DiffractLLMContext \<times> cursors"

definition resolveExplicit :: "(CatalogKey \<Rightarrow> Credential list) \<Rightarrow> DiffractLLMContext \<Rightarrow> CatalogKey \<Rightarrow> VirtualKey
    \<Rightarrow> cursors \<Rightarrow> resolution" where
  "resolveExplicit Candidates rctx key vk cs =
    (if VirtualKey_ProviderConfig vk (ck_Provider key) = None then
       (Inl (NewForbidden (''provider '' @ ck_Provider key @ '' is not permitted for this key'')), rctx, cs)
     else let creds = Candidates key in
       if creds = [] then (Inl (NewNoHealthyBackends (CatalogKey_SlashKey key)), rctx, cs)
       else case engine_kind (vk_LoadBalancer vk) key creds cs of (chosen, cs') \<Rightarrow>
         (case chosen of None \<Rightarrow> (Inl (NewNoHealthyBackends (CatalogKey_SlashKey key)), rctx, cs')
          | Some cred \<Rightarrow> (Inr cred, commit rctx key cred, cs')))"

fun provider_loop :: "(Provider \<rightharpoonup> Credential list) \<Rightarrow> ProviderConfig list \<Rightarrow> float64 \<Rightarrow> Provider \<Rightarrow> Provider" where
  "provider_loop viable [] target lst = lst"
| "provider_loop viable (cfg # rest) target lst =
    (if viable (pcfg_Provider cfg) = None then provider_loop viable rest target lst
     else let target' = fsub target (pcfg_Weight cfg) in
       if flt target' (Fin 0) then pcfg_Provider cfg
       else provider_loop viable rest target' (pcfg_Provider cfg))"

definition viable_weight :: "(Provider \<rightharpoonup> Credential list) \<Rightarrow> ProviderConfig list \<Rightarrow> float64" where
  "viable_weight viable cfgs =
     foldl (\<lambda>total cfg. if viable (pcfg_Provider cfg) \<noteq> None then fadd total (pcfg_Weight cfg) else total) (Fin 0) cfgs"

definition pickProvider :: "float64 \<Rightarrow> (Provider \<rightharpoonup> Credential list) \<Rightarrow> VirtualKey \<Rightarrow> Provider" where
  "pickProvider u viable vk =
     provider_loop viable (vk_ProviderConfigs vk) (fmul u (viable_weight viable (vk_ProviderConfigs vk))) []"

definition viable_map :: "(CatalogKey \<Rightarrow> Credential list) \<Rightarrow> CatalogKey \<Rightarrow> ProviderConfig list \<Rightarrow> (Provider \<rightharpoonup> Credential list)" where
  "viable_map Candidates key cfgs =
     foldl (\<lambda>viable cfg. let creds = Candidates \<lparr>ck_Provider = pcfg_Provider cfg,
              ck_ModelName = ck_ModelName key, ck_ModelType = ck_ModelType key\<rparr>
        in if creds \<noteq> [] then viable(pcfg_Provider cfg \<mapsto> creds) else viable) Map.empty cfgs"

definition resolveWeighted :: "(CatalogKey \<Rightarrow> Credential list) \<Rightarrow> float64 \<Rightarrow> DiffractLLMContext \<Rightarrow> CatalogKey
    \<Rightarrow> VirtualKey \<Rightarrow> cursors \<Rightarrow> resolution" where
  "resolveWeighted Candidates u rctx key vk cs =
    (let viable = viable_map Candidates key (vk_ProviderConfigs vk) in
     if viable = Map.empty then (Inl (NewNoHealthyBackends (ck_ModelName key)), rctx, cs)
     else let provider = pickProvider u viable vk in
       if provider = [] then (Inl (NewNoHealthyBackends (ck_ModelName key)), rctx, cs)
       else let key' = key\<lparr>ck_Provider := provider\<rparr> in
         case engine_kind (vk_LoadBalancer vk) key' (opt_or [] (viable provider)) cs of (chosen, cs') \<Rightarrow>
           (case chosen of None \<Rightarrow> (Inl (NewNoHealthyBackends (CatalogKey_SlashKey key')), rctx, cs')
            | Some cred \<Rightarrow> (Inr cred, commit rctx key' cred, cs')))"

definition Resolve :: "(CatalogKey \<Rightarrow> Credential list) \<Rightarrow> float64 \<Rightarrow> DiffractLLMContext \<Rightarrow> cursors \<Rightarrow> resolution" where
  "Resolve Candidates u rctx cs =
    (if rc_VirtualKeyID rctx = [] then
       (Inl (NewAuthFailed ''virtual key policy missing ,contact the adminstrator''), rctx, cs)
     else case rc_VirtualKeyPolicy rctx of
       None \<Rightarrow> (Inl (NewAuthFailed ''virtual key policy missing ,contact the adminstrator''), rctx, cs)
     | Some vk \<Rightarrow>
         if vk_ProviderConfigs vk = [] then
           (Inl (NewAuthFailed ''virtual key policy provider configs are missing ,contact the adminstrator''), rctx, cs)
         else let rkey = rc_Modelkey rctx in
           if ck_ModelName rkey = [] then (Inl (NewMissingParameter ''model''), rctx, cs)
           else if ck_Provider rkey \<noteq> [] then resolveExplicit Candidates rctx rkey vk cs
           else resolveWeighted Candidates u rctx rkey vk cs)"

section \<open>Choosing a provider\<close>

lemma engine_kind_eq [simp]: "engine_kind k = roundRobin_Pick"
  by (cases k) (simp_all add: engine_kind_def selectors_def)

lemma provider_loop_viable:
  "(\<exists>cfg \<in> set cfgs. viable (pcfg_Provider cfg) \<noteq> None) \<or> viable lst \<noteq> None \<and> lst \<in> P \<Longrightarrow>
   pcfg_Provider ` set cfgs \<subseteq> P \<Longrightarrow>
   viable (provider_loop viable cfgs t lst) \<noteq> None \<and> provider_loop viable cfgs t lst \<in> P"
proof (induction cfgs arbitrary: t lst)
  case Nil
  then show ?case by simp
next
  case (Cons cfg cfgs)
  show ?case
  proof (cases "viable (pcfg_Provider cfg) = None")
    case True
    with Cons.prems Cons.IH [of lst t] show ?thesis by auto
  next
    case False
    show ?thesis
    proof (cases "flt (fsub t (pcfg_Weight cfg)) (Fin 0)")
      case True
      then show ?thesis using False Cons.prems by (auto simp: Let_def)
    next
      case nt: False
      then show ?thesis using Cons.IH [of "pcfg_Provider cfg" "fsub t (pcfg_Weight cfg)"] False Cons.prems
        by (auto simp: Let_def)
    qed
  qed
qed

lemma viable_map_aux:
  "foldl (\<lambda>viable cfg. let creds = Candidates \<lparr>ck_Provider = pcfg_Provider cfg,
        ck_ModelName = ck_ModelName key, ck_ModelType = ck_ModelType key\<rparr>
      in if creds \<noteq> [] then viable(pcfg_Provider cfg \<mapsto> creds) else viable) m cfgs p
   = (if p \<in> pcfg_Provider ` set cfgs \<and> Candidates (key\<lparr>ck_Provider := p\<rparr>) \<noteq> []
      then Some (Candidates (key\<lparr>ck_Provider := p\<rparr>)) else m p)"
proof (induction cfgs arbitrary: m)
  case Nil
  then show ?case by simp
next
  case (Cons cfg cfgs)
  have k: "key\<lparr>ck_Provider := q\<rparr> = \<lparr>ck_Provider = q, ck_ModelName = ck_ModelName key, ck_ModelType = ck_ModelType key\<rparr>" for q
    by simp
  show ?case using Cons by (auto simp: Let_def k)
qed

lemma viable_map_eq:
  "viable_map Candidates key cfgs p = (if p \<in> pcfg_Provider ` set cfgs \<and> Candidates (key\<lparr>ck_Provider := p\<rparr>) \<noteq> []
      then Some (Candidates (key\<lparr>ck_Provider := p\<rparr>)) else None)"
  unfolding viable_map_def by (subst viable_map_aux) simp

lemma pickProvider_viable:
  fixes u :: float64
  assumes "viable_map Candidates key (vk_ProviderConfigs vk) \<noteq> Map.empty"
  defines "p \<equiv> pickProvider u (viable_map Candidates key (vk_ProviderConfigs vk)) vk"
  shows "p \<in> pcfg_Provider ` set (vk_ProviderConfigs vk)" "Candidates (key\<lparr>ck_Provider := p\<rparr>) \<noteq> []"
    "viable_map Candidates key (vk_ProviderConfigs vk) p = Some (Candidates (key\<lparr>ck_Provider := p\<rparr>))"
proof -
  let ?v = "viable_map Candidates key (vk_ProviderConfigs vk)"
  obtain q where "?v q \<noteq> None" using assms(1) by (meson ext)
  then have "\<exists>cfg \<in> set (vk_ProviderConfigs vk). ?v (pcfg_Provider cfg) \<noteq> None"
    by (auto simp: viable_map_eq split: if_splits)
  then have "?v p \<noteq> None"
    unfolding p_def pickProvider_def
    using provider_loop_viable [of "vk_ProviderConfigs vk" ?v "[]" UNIV] by simp
  then show "p \<in> pcfg_Provider ` set (vk_ProviderConfigs vk)" "Candidates (key\<lparr>ck_Provider := p\<rparr>) \<noteq> []"
    "?v p = Some (Candidates (key\<lparr>ck_Provider := p\<rparr>))"
    by (auto simp: viable_map_eq split: if_splits)
qed

section \<open>Resolution\<close>

context credential_source
begin

text \<open>What a successful resolution commits to, for any credential source.\<close>

lemma resolve_sound:
  assumes "Resolve Candidates u rctx cs = (Inr cred, rctx', cs')"
  shows "\<exists>vk. rc_VirtualKeyPolicy rctx = Some vk
      \<and> ck_Provider (rc_Modelkey rctx') \<in> pcfg_Provider ` set (vk_ProviderConfigs vk)"
    and "rctx' = rctx\<lparr>rc_Modelkey := rc_Modelkey rctx\<lparr>ck_Provider := c_Provider cred\<rparr>, rc_SelectedCredential := Some cred\<rparr>"
    and "CheckValidity now (Some cred)" and "CheckModel (Some cred) (ck_ModelName (rc_Modelkey rctx))"
    and "ck_Provider (rc_Modelkey rctx) \<noteq> [] \<Longrightarrow> c_Provider cred = ck_Provider (rc_Modelkey rctx)"
proof -
  let ?key = "rc_Modelkey rctx"
  obtain vk where vk: "rc_VirtualKeyPolicy rctx = Some vk" and id: "rc_VirtualKeyID rctx \<noteq> []"
    and ne: "vk_ProviderConfigs vk \<noteq> []" and nm: "ck_ModelName ?key \<noteq> []"
    using assms by (auto simp: Resolve_def Let_def split: if_splits option.splits)
  let ?v = "viable_map Candidates ?key (vk_ProviderConfigs vk)"
  let ?p = "pickProvider u ?v vk"
  have main: "\<exists>p. p \<in> pcfg_Provider ` set (vk_ProviderConfigs vk) \<and> cred \<in> set (Candidates (?key\<lparr>ck_Provider := p\<rparr>))
      \<and> rctx' = commit rctx (?key\<lparr>ck_Provider := p\<rparr>) cred \<and> (ck_Provider ?key \<noteq> [] \<longrightarrow> p = ck_Provider ?key)"
  proof (cases "ck_Provider ?key = []")
    case True
    have r: "resolveWeighted Candidates u rctx ?key vk cs = (Inr cred, rctx', cs')"
      using assms vk id ne nm True by (simp add: Resolve_def)
    then have ne: "?v \<noteq> Map.empty" by (auto simp: resolveWeighted_def)
    note p = pickProvider_viable [OF ne, of u]
    have "fst (roundRobin_Pick (?key\<lparr>ck_Provider := ?p\<rparr>) (Candidates (?key\<lparr>ck_Provider := ?p\<rparr>)) cs) = Some cred
        \<and> rctx' = commit rctx (?key\<lparr>ck_Provider := ?p\<rparr>) cred"
      using r ne p(3) by (auto simp: resolveWeighted_def Let_def split: if_splits prod.splits option.splits)
    with p True show ?thesis using round_robin.pick_member by blast
  next
    case False
    have r: "resolveExplicit Candidates rctx ?key vk cs = (Inr cred, rctx', cs')"
      using assms vk id ne nm False by (simp add: Resolve_def)
    then have "fst (roundRobin_Pick ?key (Candidates ?key) cs) = Some cred \<and> rctx' = commit rctx ?key cred
        \<and> ck_Provider ?key \<in> pcfg_Provider ` set (vk_ProviderConfigs vk)"
      by (auto simp: resolveExplicit_def Let_def VirtualKey_ProviderConfig_def find_None_iff_all image_iff
          split: if_splits prod.splits option.splits) metis+
    then show ?thesis using round_robin.pick_member by (intro exI [of _ "ck_Provider ?key"]) auto
  qed
  then obtain p where p: "p \<in> pcfg_Provider ` set (vk_ProviderConfigs vk)"
    "cred \<in> set (Candidates (?key\<lparr>ck_Provider := p\<rparr>))" "rctx' = commit rctx (?key\<lparr>ck_Provider := p\<rparr>) cred"
    "ck_Provider ?key \<noteq> [] \<longrightarrow> p = ck_Provider ?key" by blast
  have prov: "c_Provider cred = p" using candidate_provider [OF p(2)] by simp
  show "\<exists>vk. rc_VirtualKeyPolicy rctx = Some vk \<and> ck_Provider (rc_Modelkey rctx') \<in> pcfg_Provider ` set (vk_ProviderConfigs vk)"
    using vk p(1,3) by (simp add: commit_def)
  show "rctx' = rctx\<lparr>rc_Modelkey := ?key\<lparr>ck_Provider := c_Provider cred\<rparr>, rc_SelectedCredential := Some cred\<rparr>"
    using p(3) prov by (simp add: commit_def)
  show "CheckValidity now (Some cred)" "CheckModel (Some cred) (ck_ModelName ?key)"
    using candidate_valid [OF p(2)] candidate_model [OF p(2)] by simp_all
  show "ck_Provider ?key \<noteq> [] \<Longrightarrow> c_Provider cred = ck_Provider ?key" using p(4) prov by simp
qed

end

text \<open>The credential plane is a credential source.\<close>

lemma plane_source: "wf_plane plane \<Longrightarrow> credential_source (Plane_Candidates now plane) now"
  by unfold_locales (auto simp: Plane_Candidates_alt wf_plane_def)

interpretation loaded_plane: credential_source "Plane_Candidates now (NewProviderPlane creds)" now for now creds
  by unfold_locales (auto simp: Plane_Candidates_def NewProviderPlane_def bucket_build)

text \<open>
  C12: Whatever credential the engine resolves for a request, over a well-formed credential plane:
  it belongs to a provider that the virtual key of the request has a configuration for, it is
  enabled and not expired at that moment, it serves the requested model, the provider named by the
  client is respected, and the context records exactly the choice.
\<close>

theorem Resolve_sound:
  assumes "wf_plane plane" and "Resolve (Plane_Candidates now plane) u rctx cs = (Inr cred, rctx', cs')"
  shows "(\<exists>vk. rc_VirtualKeyPolicy rctx = Some vk \<and> c_Provider cred \<in> pcfg_Provider ` set (vk_ProviderConfigs vk))
    \<and> CheckValidity now (Some cred) \<and> CheckModel (Some cred) (ck_ModelName (rc_Modelkey rctx))
    \<and> (ck_Provider (rc_Modelkey rctx) \<noteq> [] \<longrightarrow> c_Provider cred = ck_Provider (rc_Modelkey rctx))
    \<and> rctx' = rctx\<lparr>rc_Modelkey := rc_Modelkey rctx\<lparr>ck_Provider := c_Provider cred\<rparr>, rc_SelectedCredential := Some cred\<rparr>"
  using credential_source.resolve_sound [OF plane_source [OF assms(1)] assms(2)] by simp

definition example_rctx :: DiffractLLMContext where
  "example_rctx = DiffractLLMContext_zero\<lparr>rc_VirtualKeyID := ''vk1'', rc_VirtualKeyPolicy := Some example_vk,
     rc_Modelkey := \<lparr>ck_Provider = ''openai'', ck_ModelName = ''gpt-4o'', ck_ModelType = ModelTypeChat\<rparr>\<rparr>"

lemma example_plane_wf: "wf_plane (NewProviderPlane [example_credential])"
  by (rule wf_NewProviderPlane) simp

lemma example_resolve:
  "Resolve (Plane_Candidates 0 (NewProviderPlane [example_credential])) (Fin 0) example_rctx Map.empty
    = (Inr example_credential, commit example_rctx (rc_Modelkey example_rctx) example_credential, Map.empty)"
  by (simp add: Resolve_def example_rctx_def example_vk_def resolveExplicit_def VirtualKey_ProviderConfig_def
      compiled_config_def example_config_def fresh_config_def TrimSpace_def is_space_def Plane_Candidates_def
      NewProviderPlane_def bucket_build example_credential_def CheckValidity_def CheckModel_def star_def roundRobin_Pick_def Let_def)

theorem Resolve_sound_witness:
  "CheckModel (Some example_credential) ''gpt-4o'' \<and> c_Provider example_credential = ''openai''"
  using Resolve_sound [OF example_plane_wf example_resolve] by (simp add: example_rctx_def)

text \<open>
  Resolution fails with an error only, and never changes the request: whatever the error
  (missing policy, missing model, forbidden provider, no backend), the context is returned as it was.
\<close>

theorem Resolve_error_keeps_context:
  "case Resolve Candidates u rctx cs of (Inl e, rctx', cs') \<Rightarrow> rctx' = rctx \<and> e_StatusCode e \<in> {400, 401, 403, 503}
   | (Inr cred, rctx', cs') \<Rightarrow> rc_SelectedCredential rctx' = Some cred"
  by (auto simp: Resolve_def resolveExplicit_def resolveWeighted_def Let_def commit_def NewNoHealthyBackends_def
      NewForbidden_def NewAuthFailed_def NewMissingParameter_def split: option.splits prod.splits)

text \<open>
  Availability of the weighted mode: if some provider configured on the virtual key has a
  candidate credential for the model, a bare model name always resolves, for every random number
  and every weights, to one of the providers that have a candidate.
\<close>

theorem Resolve_weighted_available:
  assumes "rc_VirtualKeyID rctx \<noteq> []" "rc_VirtualKeyPolicy rctx = Some vk"
    and "ck_Provider (rc_Modelkey rctx) = []" "ck_ModelName (rc_Modelkey rctx) \<noteq> []"
    and "list_all (\<lambda>cfg. pcfg_Provider cfg \<noteq> []) (vk_ProviderConfigs vk)"
    and "cfg \<in> set (vk_ProviderConfigs vk)"
    and "Candidates (rc_Modelkey rctx\<lparr>ck_Provider := pcfg_Provider cfg\<rparr>) \<noteq> []"
  shows "\<exists>cred rctx' cs'. Resolve Candidates u rctx cs = (Inr cred, rctx', cs')
    \<and> ck_Provider (rc_Modelkey rctx') \<in> pcfg_Provider ` set (vk_ProviderConfigs vk)
    \<and> cred \<in> set (Candidates (rc_Modelkey rctx'))"
proof -
  let ?key = "rc_Modelkey rctx"
  let ?v = "viable_map Candidates ?key (vk_ProviderConfigs vk)"
  let ?p = "pickProvider u ?v vk"
  have "?v (pcfg_Provider cfg) \<noteq> None" using assms(6,7) by (simp add: viable_map_eq)
  then have ne: "?v \<noteq> Map.empty" by auto
  note p = pickProvider_viable [OF ne, of u]
  have pne: "?p \<noteq> []" using p(1) assms(5) by (auto simp: list_all_iff)
  obtain cred cs' where pick: "roundRobin_Pick (?key\<lparr>ck_Provider := ?p\<rparr>) (Candidates (?key\<lparr>ck_Provider := ?p\<rparr>)) cs = (Some cred, cs')"
    using round_robin.pick_some [OF p(2)] by (metis not_None_eq prod.exhaust_sel)
  have "vk_ProviderConfigs vk \<noteq> []" using assms(6) by auto
  then have "Resolve Candidates u rctx cs = (Inr cred, commit rctx (?key\<lparr>ck_Provider := ?p\<rparr>) cred, cs')"
    using assms(1-4) ne pne p(3) pick by (simp add: Resolve_def resolveWeighted_def Let_def)
  moreover have "cred \<in> set (Candidates (?key\<lparr>ck_Provider := ?p\<rparr>))"
    by (rule round_robin.pick_member [of "?key\<lparr>ck_Provider := ?p\<rparr>" _ cs]) (simp add: pick)
  ultimately show ?thesis using p(1) by (auto simp: commit_def)
qed

definition example_bare :: DiffractLLMContext where
  "example_bare = example_rctx\<lparr>rc_Modelkey := \<lparr>ck_Provider = [], ck_ModelName = ''gpt-4o'', ck_ModelType = ModelTypeChat\<rparr>\<rparr>"

theorem Resolve_weighted_available_witness:
  "\<exists>cred rctx' cs'. Resolve (Plane_Candidates 0 (NewProviderPlane [example_credential])) (Fin (1 / 2)) example_bare Map.empty
     = (Inr cred, rctx', cs')"
  using Resolve_weighted_available [of example_bare example_vk "compiled_config VKDirect example_config"
      "Plane_Candidates 0 (NewProviderPlane [example_credential])" "Fin (1 / 2)" Map.empty]
  by (simp add: example_bare_def example_rctx_def example_vk_def compiled_config_def example_config_def
      fresh_config_def TrimSpace_def is_space_def Plane_Candidates_def NewProviderPlane_def bucket_build
      example_credential_def CheckValidity_def CheckModel_def star_def) blast

section \<open>Fairness\<close>

text \<open>The answers of the selector to a sequence of requests, each a key and its candidates.\<close>

fun rr_trace :: "(CatalogKey \<times> Credential list) list \<Rightarrow> cursors \<Rightarrow> (CatalogKey \<times> Credential option) list" where
  "rr_trace [] cs = []"
| "rr_trace ((key, creds) # calls) cs =
     (case roundRobin_Pick key creds cs of (c, cs') \<Rightarrow> (key, c) # rr_trace calls cs')"

lemma roundRobin_Pick_eq:
  "creds \<noteq> [] \<Longrightarrow> fst (roundRobin_Pick key creds cs) = Some (creds ! (unat (opt_or 0 (cs key) + 1) mod length creds))"
  by (auto simp: roundRobin_Pick_def Let_def)

lemma roundRobin_Pick_cursor:
  "1 < length creds \<Longrightarrow> snd (roundRobin_Pick key creds cs) = cs(key \<mapsto> opt_or 0 (cs key) + 1)"
  by (auto simp: roundRobin_Pick_def Let_def)

lemma roundRobin_Pick_other: "key' \<noteq> key \<Longrightarrow> snd (roundRobin_Pick key' creds cs) key = cs key"
  by (auto simp: roundRobin_Pick_def Let_def)

lemma unat_Suc64: "Suc (unat x) < 2 ^ 64 \<Longrightarrow> unat (x + 1 :: 64 word) = Suc (unat x)"
proof -
  assume "Suc (unat x) < 2 ^ 64"
  then have "unat x + unat (1 :: 64 word) < 2 ^ LENGTH(64)" by simp
  then show "unat (x + 1 :: 64 word) = Suc (unat x)" by (subst unat_add_lem [THEN iffD1]) simp_all
qed

lemma rr_trace_key:
  assumes "\<And>c. (key, c) \<in> set calls \<Longrightarrow> c = creds" "1 < length creds"
    and "unat (opt_or 0 (cs key)) + length (filter (\<lambda>c. fst c = key) calls) < 2 ^ 64"
  shows "map snd (filter (\<lambda>r. fst r = key) (rr_trace calls cs)) =
    map (\<lambda>i. Some (creds ! ((unat (opt_or 0 (cs key)) + 1 + i) mod length creds)))
      [0..<length (filter (\<lambda>c. fst c = key) calls)]"
  using assms
proof (induction calls arbitrary: cs)
  case Nil
  then show ?case by simp
next
  case (Cons call calls)
  obtain k cr where call: "call = (k, cr)" by force
  let ?s = "snd (roundRobin_Pick k cr cs)"
  have tr: "rr_trace (call # calls) cs = (k, fst (roundRobin_Pick k cr cs)) # rr_trace calls ?s"
    by (simp add: call split: prod.split)
  show ?case
  proof (cases "k = key")
    case True
    then have cr: "cr = creds" using Cons.prems(1) call by auto
    have u: "unat (opt_or 0 (?s key)) = Suc (unat (opt_or 0 (cs key)))"
      using True cr Cons.prems(2,3) call by (simp add: roundRobin_Pick_cursor unat_Suc64)
    have IH: "map snd (filter (\<lambda>r. fst r = key) (rr_trace calls ?s)) =
      map (\<lambda>i. Some (creds ! ((unat (opt_or 0 (?s key)) + 1 + i) mod length creds))) [0..<length (filter (\<lambda>c. fst c = key) calls)]"
      using Cons.prems True cr call u by (intro Cons.IH) auto
    have first: "fst (roundRobin_Pick k cr cs) = Some (creds ! ((unat (opt_or 0 (cs key)) + 1 + 0) mod length creds))"
      using True cr Cons.prems(2,3) call by (subst roundRobin_Pick_eq) (auto simp: unat_Suc64)
    show ?thesis
      unfolding tr using True first IH u call by (simp add: map_upt_Suc del: upt_Suc)
  next
    case False
    have "?s key = cs key" using False by (rule roundRobin_Pick_other)
    moreover have "map snd (filter (\<lambda>r. fst r = key) (rr_trace calls ?s)) =
      map (\<lambda>i. Some (creds ! ((unat (opt_or 0 (?s key)) + 1 + i) mod length creds))) [0..<length (filter (\<lambda>c. fst c = key) calls)]"
      using Cons.prems False call \<open>?s key = cs key\<close> by (intro Cons.IH) auto
    ultimately show ?thesis unfolding tr using False call by simp
  qed
qed

lemma mset_rotate_eq: "mset (rotate m xs) = mset xs"
proof (induction m)
  case (Suc m)
  have "mset (rotate1 ys) = mset ys" for ys :: "'a list" by (cases ys) simp_all
  with Suc show ?case by simp
qed simp

lemma rotate_as_map: "map (\<lambda>i. xs ! ((m + i) mod length xs)) [0..<length xs] = rotate m xs"
  by (rule nth_equalityI) (simp_all add: nth_rotate)

text \<open>
  C39: Round robin is fair for every catalog key, whatever happens on other keys in between: among
  any run of requests in which a key occurs as often as it has candidates, each of its candidates
  is chosen exactly once (as long as the 64-bit cursor of the key does not wrap around in the run).
\<close>

theorem round_robin_fair:
  assumes "\<And>c. (key, c) \<in> set calls \<Longrightarrow> c = creds" "1 < length creds"
    and "length (filter (\<lambda>c. fst c = key) calls) = length creds"
    and "unat (opt_or 0 (cs key)) + length creds < 2 ^ 64"
  shows "mset (map snd (filter (\<lambda>r. fst r = key) (rr_trace calls cs))) = mset (map Some creds)"
proof -
  let ?m = "unat (opt_or 0 (cs key)) + 1"
  have "map snd (filter (\<lambda>r. fst r = key) (rr_trace calls cs)) = map Some (rotate ?m creds)"
    using rr_trace_key [of key calls creds cs] assms by (simp flip: rotate_as_map)
  then show ?thesis by (simp add: mset_rotate_eq del: rotate_Suc One_nat_def add_Suc_right)
qed

definition example_key_a :: CatalogKey where
  "example_key_a = \<lparr>ck_Provider = ''openai'', ck_ModelName = ''m'', ck_ModelType = ModelTypeChat\<rparr>"

definition example_key_b :: CatalogKey where
  "example_key_b = \<lparr>ck_Provider = ''azure'', ck_ModelName = ''m'', ck_ModelType = ModelTypeChat\<rparr>"

theorem round_robin_fair_witness:
  "mset (map snd (filter (\<lambda>r. fst r = example_key_a) (rr_trace
      [(example_key_a, [example_credential, example_credential\<lparr>c_ID := ''c2''\<rparr>]), (example_key_b, [example_credential]),
       (example_key_a, [example_credential, example_credential\<lparr>c_ID := ''c2''\<rparr>])] Map.empty)))
    = mset (map Some [example_credential, example_credential\<lparr>c_ID := ''c2''\<rparr>])"
  by (rule round_robin_fair) (auto simp: example_key_a_def example_key_b_def)

section \<open>A gap in the weighted mode\<close>

definition gap_vk :: VirtualKey where
  "gap_vk = example_vk\<lparr>vk_Mode := VKWeighted, vk_ProviderConfigs :=
     [(compiled_config VKDirect example_config)\<lparr>pcfg_Weight := Fin (1 / 2)\<rparr>,
      \<lparr>pcfg_Provider = ''azure'', pcfg_AllowedModels = [''gpt-35''], pcfg_BlockedModels = [''gpt-4o''],
       pcfg_Weight = Fin (1 / 2), pcfg_runtimeAllowedModels = {''gpt-35''},
       pcfg_runtimeBlockedModels = {''gpt-4o''}, pcfg_allowAll = False\<rparr>]\<rparr>"

definition gap_credential :: Credential where
  "gap_credential = example_credential\<lparr>c_ID := ''c9'', c_Provider := ''azure'', c_AllowedModels := [''*'']\<rparr>"

text \<open>
  In weighted mode a bare model name can be routed to a provider whose configuration on the
  virtual key blocks that model: the admission check only asks whether some configuration allows
  it, and the selection only asks which providers have a credential.
\<close>

theorem weighted_ignores_block_list:
  "\<exists>vk rctx plane cred rctx' cs' cfg.
     wf_plane plane \<and> rc_VirtualKeyPolicy rctx = Some vk \<and> IsModelKeyAllowed vk (rc_Modelkey rctx)
     \<and> Resolve (Plane_Candidates 0 plane) (Fin 0) rctx Map.empty = (Inr cred, rctx', cs')
     \<and> VirtualKey_ProviderConfig vk (c_Provider cred) = Some cfg
     \<and> ck_ModelName (rc_Modelkey rctx') \<in> pcfg_runtimeBlockedModels cfg
     \<and> \<not> IsModelKeyAllowed vk (rc_Modelkey rctx')"
proof (intro exI conjI)
  let ?rctx = "example_bare\<lparr>rc_VirtualKeyPolicy := Some gap_vk\<rparr>"
  let ?key = "\<lparr>ck_Provider = ''azure'', ck_ModelName = ''gpt-4o'', ck_ModelType = ModelTypeChat\<rparr>"
  let ?cfg = "\<lparr>pcfg_Provider = ''azure'', pcfg_AllowedModels = [''gpt-35''], pcfg_BlockedModels = [''gpt-4o''],
       pcfg_Weight = Fin (1 / 2), pcfg_runtimeAllowedModels = {''gpt-35''},
       pcfg_runtimeBlockedModels = {''gpt-4o''}, pcfg_allowAll = False\<rparr>"
  let ?plane = "NewProviderPlane [gap_credential]"
  note defs = gap_vk_def example_vk_def compiled_config_def example_config_def fresh_config_def
    TrimSpace_def is_space_def example_bare_def example_rctx_def
  show "wf_plane ?plane" by (rule wf_NewProviderPlane) simp
  show "rc_VirtualKeyPolicy ?rctx = Some gap_vk" by simp
  show "IsModelKeyAllowed gap_vk (rc_Modelkey ?rctx)"
    by (simp add: IsModelKeyAllowed_def IsModelAllowed_def defs)
  have cand: "Plane_Candidates 0 ?plane k = (if ck_Provider k = ''azure'' \<and> ck_ModelName k \<noteq> [] then [gap_credential] else [])" for k
    by (auto simp: Plane_Candidates_def NewProviderPlane_def bucket_build gap_credential_def example_credential_def
        CheckValidity_def CheckModel_def star_def)
  have v: "viable_map (Plane_Candidates 0 ?plane) (rc_Modelkey ?rctx) (vk_ProviderConfigs gap_vk) = [''azure'' \<mapsto> [gap_credential]]"
    by (rule ext) (auto simp: viable_map_eq cand defs)
  have p: "pickProvider (Fin 0) [''azure'' \<mapsto> [gap_credential]] gap_vk = ''azure''"
    by (simp add: pickProvider_def defs Let_def)
  show "Resolve (Plane_Candidates 0 ?plane) (Fin 0) ?rctx Map.empty = (Inr gap_credential, commit ?rctx ?key gap_credential, Map.empty)"
    using v p by (simp add: Resolve_def resolveWeighted_def example_bare_def example_rctx_def Let_def
        roundRobin_Pick_def) (simp add: gap_vk_def)
  show "VirtualKey_ProviderConfig gap_vk (c_Provider gap_credential) = Some ?cfg"
    by (simp add: VirtualKey_ProviderConfig_def gap_credential_def defs)
  show "ck_ModelName (rc_Modelkey (commit ?rctx ?key gap_credential)) \<in> pcfg_runtimeBlockedModels ?cfg"
    by (simp add: commit_def)
  show "\<not> IsModelKeyAllowed gap_vk (rc_Modelkey (commit ?rctx ?key gap_credential))"
    by (simp add: commit_def IsModelKeyAllowed_def IsModelAllowed_def VirtualKey_ProviderConfig_def defs)
qed

end
