(* ===== verification/Metrics.thy ===== *)
theory Metrics
  imports Hooks Buffers Money BudgetLedger Config
begin

text \<open>
  The metrics engine (\<^verbatim>\<open>internal/metrics-engine\<close>): the event made of a finished request
  (\<^verbatim>\<open>events.go\<close>, \<^verbatim>\<open>event-pool.go\<close>), its way through the events buffer and the retried batch to the store
  (\<^verbatim>\<open>metrics-engine.go\<close>), the payload capture, and the checks of the read queries. The store, the
  clock and the identifiers are arguments. A released event is zeroed before it goes back to the
  pool, so that an acquired one is always the zero event.
\<close>

section \<open>Events\<close>

definition SchemaVersion :: int where "SchemaVersion = 1"

definition KindLLM :: string where "KindLLM = ''llm''"

datatype Result = ResultOK | ResultRejected | ResultUpstreamError | ResultGatewayError | ResultClientAbort

fun Result_String :: "Result \<Rightarrow> string" where
  "Result_String ResultOK = ''ok''"
| "Result_String ResultRejected = ''rejected''"
| "Result_String ResultUpstreamError = ''upstream_error''"
| "Result_String ResultGatewayError = ''gateway_error''"
| "Result_String ResultClientAbort = ''client_abort''"

datatype PayloadState = PayloadUnset | PayloadNone | PayloadReady | PayloadTruncated | PayloadDropped

record EventGovernance =
  eg_ClientID :: string
  eg_VirtualKeyID :: string
  eg_BudgetID :: string

record Outcome =
  oc_Result :: "Result option"
  oc_HTTPStatus :: int
  oc_UpstreamHTTPStatus :: int
  oc_ErrorCode :: string
  oc_ErrorCategory :: string
  oc_ErrorMessage :: string

record TimingStage =
  ts_Name :: string
  ts_StartUS :: int64
  ts_EndUS :: int64
  ts_DurationUS :: int64

record Timing =
  tm_Start :: time
  tm_TotalUS :: int64
  tm_TTFBUS :: int64
  tm_TTFTUS :: int64
  tm_Stages :: "TimingStage list"

record LLM =
  llm_RequestedModel :: string
  llm_Provider :: string
  llm_Model :: string
  llm_UpstreamModel :: string
  llm_Stream :: bool
  llm_Usage :: "Usage option"
  llm_Pricing :: "Pricing option"
  llm_FinishReason :: string

record Payload =
  pl_ClientRequest :: "string option"
  pl_ClientResponse :: "string option"

record Routing =
  rt_Mode :: VKMode
  rt_CredentialID :: string
  rt_CredentialName :: string
  rt_AttemptCount :: int

record Event =
  ev_SchemaVersion :: int
  ev_ID :: string
  ev_RequestID :: string
  ev_Kind :: string
  ev_RequestKind :: "RequestKind option"
  ev_RequestEndpoint :: string
  ev_CostNanoUSD :: int64
  ev_Governance :: EventGovernance
  ev_Outcome :: Outcome
  ev_Timing :: Timing
  ev_Routing :: "Routing option"
  ev_LLM :: "LLM option"
  ev_Headers :: "(string \<times> string) list"
  ev_PayloadState :: PayloadState
  ev_Payload :: "Payload option"

definition Event_zero :: Event where
  "Event_zero = \<lparr>ev_SchemaVersion = 0, ev_ID = [], ev_RequestID = [], ev_Kind = [], ev_RequestKind = None,
     ev_RequestEndpoint = [], ev_CostNanoUSD = 0,
     ev_Governance = \<lparr>eg_ClientID = [], eg_VirtualKeyID = [], eg_BudgetID = []\<rparr>,
     ev_Outcome = \<lparr>oc_Result = None, oc_HTTPStatus = 0, oc_UpstreamHTTPStatus = 0, oc_ErrorCode = [],
       oc_ErrorCategory = [], oc_ErrorMessage = []\<rparr>,
     ev_Timing = \<lparr>tm_Start = 0, tm_TotalUS = 0, tm_TTFBUS = 0, tm_TTFTUS = 0, tm_Stages = []\<rparr>,
     ev_Routing = None, ev_LLM = None, ev_Headers = [], ev_PayloadState = PayloadUnset, ev_Payload = None\<rparr>"

definition acquireEvent :: Event where
  "acquireEvent = Event_zero"

section \<open>Filling an event\<close>

definition classify :: "DiffractLLMContext \<Rightarrow> Result" where
  "classify rctx =
    (if rc_StreamAborted rctx then ResultClientAbort
     else case rc_Error rctx of
       None \<Rightarrow> if rc_RequestCompleted rctx then ResultOK else ResultGatewayError
     | Some e \<Rightarrow> if IsClient e then ResultRejected else if IsProvider e then ResultUpstreamError else ResultGatewayError)"

text \<open>\<^verbatim>\<open>Duration.Microseconds\<close>: integer division, truncated towards zero.\<close>

definition Microseconds :: "duration \<Rightarrow> int64" where
  "Microseconds d = (if d < 0 then - (- d div 1000) else d div 1000)"

definition span :: "string \<Rightarrow> duration \<Rightarrow> duration \<Rightarrow> TimingStage" where
  "span name start stop = \<lparr>ts_Name = name, ts_StartUS = Microseconds start, ts_EndUS = Microseconds stop,
     ts_DurationUS = Microseconds (wrap64 (stop - start))\<rparr>"

text \<open>The loop over the marks: the spans and the end of the last one.\<close>

fun stage_loop :: "(string \<times> duration) list \<Rightarrow> duration \<Rightarrow> TimingStage list \<times> duration" where
  "stage_loop [] prev = ([], prev)"
| "stage_loop ((name, stop) # rest) prev =
     (if stop = 0 then stage_loop rest prev
      else case stage_loop rest stop of (out, lst) \<Rightarrow> (span name prev stop # out, lst))"

definition stages :: "duration list \<Rightarrow> duration \<Rightarrow> TimingStage list" where
  "stages marks tot = (case stage_loop (zip StageNames marks) 0 of (out, prev) \<Rightarrow>
     if out \<noteq> [] \<and> tot > prev then out @ [span ''response'' prev tot] else out)"

definition event_headers :: "DiffractLLMContext \<Rightarrow> (string \<times> string) list" where
  "event_headers rctx = foldl (\<lambda>hs (name, key). case Context_Get key rctx of None \<Rightarrow> hs | Some v \<Rightarrow> hs @ [(name, v)])
     [] UpstreamHeaders"

definition Event_fill :: "string \<Rightarrow> time \<Rightarrow> DiffractLLMContext \<Rightarrow> Event \<Rightarrow> Event" where
  "Event_fill uuid now rctx e =
    (let tot = time_Sub now (rc_StartedAt rctx);
         outcome = \<lparr>oc_Result = Some (classify rctx), oc_HTTPStatus = rc_ResponseStatus rctx,
           oc_UpstreamHTTPStatus = rc_UpstreamStatus rctx, oc_ErrorCode = [], oc_ErrorCategory = [], oc_ErrorMessage = []\<rparr>;
         outcome1 = (case rc_Error rctx of None \<Rightarrow> outcome | Some err \<Rightarrow>
           outcome\<lparr>oc_ErrorCode := ErrorCode_String (e_Code err), oc_ErrorCategory := ErrorCategory_String (e_ErrorCategory err),
             oc_ErrorMessage := e_Message err\<rparr>)
     in e\<lparr>ev_SchemaVersion := SchemaVersion, ev_ID := uuid, ev_RequestID := rc_RequestID rctx, ev_Kind := KindLLM,
          ev_RequestKind := rc_RequestKind rctx,
          ev_RequestEndpoint := (case rc_Request rctx of None \<Rightarrow> ev_RequestEndpoint e | Some r \<Rightarrow> req_Path r),
          ev_CostNanoUSD := ToNanoUSD (rc_Cost rctx),
          ev_Governance := \<lparr>eg_ClientID = rc_ClientID rctx, eg_VirtualKeyID = rc_VirtualKeyID rctx, eg_BudgetID = rc_BudgetRef rctx\<rparr>,
          ev_Outcome := outcome1,
          ev_Timing := \<lparr>tm_Start = rc_StartedAt rctx, tm_TotalUS = Microseconds tot, tm_TTFBUS = Microseconds (rc_TTFB rctx),
            tm_TTFTUS = Microseconds (rc_Marks rctx ! Stage_index StageFirstToken), tm_Stages = stages (rc_Marks rctx) tot\<rparr>,
          ev_Routing := (case rc_SelectedCredential rctx of None \<Rightarrow> ev_Routing e | Some cred \<Rightarrow>
            Some \<lparr>rt_Mode = (case rc_VirtualKeyPolicy rctx of None \<Rightarrow> VKDirect | Some vk \<Rightarrow> vk_Mode vk),
              rt_CredentialID = c_ID cred, rt_CredentialName = c_Name cred, rt_AttemptCount = rc_UpstreamAttempts rctx\<rparr>),
          ev_Headers := ev_Headers e @ event_headers rctx,
          ev_LLM := Some \<lparr>llm_RequestedModel = rc_RequestedModel rctx, llm_Provider = ck_Provider (rc_Modelkey rctx),
            llm_Model = ck_ModelName (rc_Modelkey rctx), llm_UpstreamModel = rc_UpstreamModel rctx,
            llm_Stream = (rc_StreamChunks rctx > 0 \<or> rc_StreamAborted rctx \<or> rc_StreamFinishReason rctx \<noteq> []),
            llm_Usage = rc_Usage rctx, llm_Pricing = rc_Pricing rctx, llm_FinishReason = rc_StreamFinishReason rctx\<rparr>,
          ev_PayloadState := PayloadNone\<rparr>)"

section \<open>Payloads\<close>

text \<open>Validation makes the size positive whenever payloads are captured; a negative limit would panic
  in the program and is zero here.\<close>

definition clip :: "string option \<Rightarrow> nat \<Rightarrow> string option \<times> bool" where
  "clip b limit = (case b of None \<Rightarrow> (None, False) | Some s \<Rightarrow>
     if s = [] then (None, False)
     else if length s > limit then (Some (take limit s), True)
     else (Some s, False))"

definition capturePayload :: "MetricsEngineConfig \<Rightarrow> DiffractLLMContext \<Rightarrow> Event \<Rightarrow> Event" where
  "capturePayload cfg rctx e =
    (if mec_PayloadMode cfg = PayloadModeFull \<or>
        (mec_PayloadMode cfg = PayloadModeErrorsOnly
         \<and> oc_Result (ev_Outcome e) \<noteq> Some ResultOK \<and> oc_Result (ev_Outcome e) \<noteq> Some ResultClientAbort)
     then let limit = nat (mec_PayloadMaxKB cfg * 1024);
              (req, reqCut) = clip (Some (rc_BodyBytes rctx)) limit;
              (res, resCut) = clip (rc_ResponseBody rctx) limit
       in if req = None \<and> res = None then e
          else e\<lparr>ev_Payload := Some \<lparr>pl_ClientRequest = req, pl_ClientResponse = res\<rparr>,
                 ev_PayloadState := (if reqCut \<or> resCut then PayloadTruncated else PayloadReady)\<rparr>
     else e)"

section \<open>The engine\<close>

definition maxWriteAttempts :: nat where "maxWriteAttempts = 3"

record MetricsEngine =
  me_buffer :: "Event EventsBuffer"
  me_config :: MetricsEngineConfig
  me_retry :: "Event list"
  me_attempts :: nat
  me_lost :: nat

definition NewMetricsEngine :: "MetricsEngineConfig \<Rightarrow> MetricsEngine" where
  "NewMetricsEngine cfg = \<lparr>me_buffer = NewEventsBuffer (mec_BufferCapacity cfg), me_config = cfg, me_retry = [],
     me_attempts = 0, me_lost = 0\<rparr>"

text \<open>Besides the engine, whether the flush job is triggered. A context whose start time was never
  set (the zero time, here 0) makes no event.\<close>

definition AddEvent :: "string \<Rightarrow> time \<Rightarrow> DiffractLLMContext \<Rightarrow> MetricsEngine \<Rightarrow> MetricsEngine \<times> bool" where
  "AddEvent uuid now rctx m = (if rc_StartedAt rctx = 0 then (m, False)
     else let e = capturePayload (me_config m) rctx (Event_fill uuid now rctx acquireEvent)
       in case EventsBuffer_Append e (me_buffer m) of
            (b, False) \<Rightarrow> (m\<lparr>me_buffer := b\<rparr>, False)
          | (b, True) \<Rightarrow> (m\<lparr>me_buffer := b\<rparr>, EventsBuffer_Len b \<ge> eb_maxCapacity b div 2))"

datatype flush_result = FlushNothing | FlushWritten nat | FlushRetrying nat | FlushLost nat

text \<open>\<open>writeFails\<close> is the answer of the store to the batch; the batch that was written is returned.\<close>

definition Metrics_flush :: "bool \<Rightarrow> MetricsEngine \<Rightarrow> MetricsEngine \<times> Event list \<times> flush_result" where
  "Metrics_flush writeFails m =
    (case EventsBuffer_Drain (me_buffer m) of (drained, b) \<Rightarrow>
     let events = me_retry m @ drained; m1 = m\<lparr>me_buffer := b, me_retry := []\<rparr> in
     if events = [] then (m1, [], FlushNothing)
     else if writeFails then
       (let m2 = m1\<lparr>me_attempts := Suc (me_attempts m1)\<rparr> in
        if me_attempts m2 < maxWriteAttempts then (m2\<lparr>me_retry := events\<rparr>, [], FlushRetrying (length events))
        else (m2\<lparr>me_attempts := 0, me_lost := me_lost m2 + length events\<rparr>, [], FlushLost (length events)))
     else (m1\<lparr>me_attempts := 0\<rparr>, events, FlushWritten (length events)))"

section \<open>Read queries\<close>

definition minRange :: duration where "minRange = 3600000000000"

definition checkRange :: "MetricsEngineConfig \<Rightarrow> time \<Rightarrow> time \<Rightarrow> bool" where
  "checkRange cfg from_t to_t = (if time_Sub to_t from_t < minRange then False
     else if time_Sub to_t from_t > mec_MaxWindow cfg then False else True)"

definition bucketFor :: "duration \<Rightarrow> duration" where
  "bucketFor r = (let hour = 3600000000000; day = 24 * hour in
     if r \<ge> 365 * day then 30 * day
     else if r \<ge> 90 * day then 7 * day
     else if r \<ge> 30 * day then 3 * day
     else if r \<ge> 7 * day then day
     else if r \<ge> 3 * day then 8 * hour
     else if r \<ge> day then hour
     else if r \<ge> 2 * hour then 600000000000
     else 60000000000)"

definition maxTopLimit :: int where "maxTopLimit = 50"

text \<open>The queries pass their checked arguments on to the store, which is an argument.\<close>

definition GetRequestSummaryByTime :: "(time \<Rightarrow> time \<Rightarrow> duration \<Rightarrow> 'r) \<Rightarrow> MetricsEngineConfig \<Rightarrow> time \<Rightarrow> time \<Rightarrow> 'r option" where
  "GetRequestSummaryByTime store cfg from_t to_t = (if \<not> checkRange cfg from_t to_t then None
     else Some (store from_t to_t (bucketFor (time_Sub to_t from_t))))"

definition GetRequestLogsByTime :: "(time \<Rightarrow> time \<Rightarrow> int \<Rightarrow> int \<Rightarrow> 'r) \<Rightarrow> MetricsEngineConfig \<Rightarrow> time \<Rightarrow> time \<Rightarrow> int \<Rightarrow> int \<Rightarrow> 'r option" where
  "GetRequestLogsByTime store cfg from_t to_t offset limit = (if \<not> checkRange cfg from_t to_t then None
     else if offset < 0 \<or> limit < 1 \<or> limit > mec_MaxPage cfg then None
     else Some (store from_t to_t offset limit))"

definition GetTopVirtualKeys :: "(time \<Rightarrow> time \<Rightarrow> int \<Rightarrow> 'r) \<Rightarrow> MetricsEngineConfig \<Rightarrow> time \<Rightarrow> time \<Rightarrow> int \<Rightarrow> 'r option" where
  "GetTopVirtualKeys store cfg from_t to_t limit = (if \<not> checkRange cfg from_t to_t then None
     else if limit < 1 \<or> limit > maxTopLimit then None else Some (store from_t to_t limit))"

definition GetBudgetSpendByTime :: "(string \<Rightarrow> time \<Rightarrow> time \<Rightarrow> duration \<Rightarrow> 'r) \<Rightarrow> MetricsEngineConfig \<Rightarrow> string \<Rightarrow> time \<Rightarrow> time \<Rightarrow> 'r option" where
  "GetBudgetSpendByTime store cfg budgetID from_t to_t = (if budgetID = [] then None
     else if \<not> checkRange cfg from_t to_t then None
     else Some (store budgetID from_t to_t (bucketFor (time_Sub to_t from_t))))"

section \<open>The hook\<close>

text \<open>Its effect on the engine is \<open>AddEvent\<close>.\<close>

definition EventHook :: Hook where
  "EventHook = \<lparr>h_Name = ''metrics_event'', h_Execute = (\<lambda>rctx. (rctx, None))\<rparr>"

definition Metrics_RegisterHooks :: "HookEngine \<Rightarrow> DiffractLLMError + HookEngine" where
  "Metrics_RegisterHooks engine = AddPostCallHook EventHook engine"

section \<open>Accounting for events\<close>

datatype metrics_op = OpAdd string time DiffractLLMContext | OpFlush bool

fun metrics_run :: "metrics_op list \<Rightarrow> MetricsEngine \<Rightarrow> Event list \<times> MetricsEngine" where
  "metrics_run [] m = ([], m)"
| "metrics_run (OpAdd uuid now rctx # ops) m = metrics_run ops (fst (AddEvent uuid now rctx m))"
| "metrics_run (OpFlush writeFails # ops) m = (case Metrics_flush writeFails m of (m1, written, _) \<Rightarrow>
     case metrics_run ops m1 of (rest, m2) \<Rightarrow> (written @ rest, m2))"

text \<open>The events that the requests of a run make.\<close>

fun events_made :: "MetricsEngineConfig \<Rightarrow> metrics_op list \<Rightarrow> Event list" where
  "events_made cfg [] = []"
| "events_made cfg (OpAdd uuid now rctx # ops) = (if rc_StartedAt rctx = 0 then events_made cfg ops
     else capturePayload cfg rctx (Event_fill uuid now rctx acquireEvent) # events_made cfg ops)"
| "events_made cfg (OpFlush writeFails # ops) = events_made cfg ops"

definition me_pending :: "MetricsEngine \<Rightarrow> Event list" where
  "me_pending m = me_retry m @ eb_events (me_buffer m)"

definition me_missing :: "MetricsEngine \<Rightarrow> nat" where
  "me_missing m = eb_dropped (me_buffer m) + me_lost m"

definition wf_engine_state :: "MetricsEngine \<Rightarrow> bool" where
  "wf_engine_state m \<longleftrightarrow> length (eb_events (me_buffer m)) \<le> eb_maxCapacity (me_buffer m)
     \<and> me_attempts m < maxWriteAttempts \<and> (me_attempts m = 0 \<longleftrightarrow> me_retry m = [])"

lemma subseq_left: "subseq xs ys \<Longrightarrow> subseq (zs @ xs) (zs @ ys)"
  by (rule list_emb_append_mono) simp_all

lemma subseq_right: "subseq xs ys \<Longrightarrow> subseq (xs @ zs) (ys @ zs)"
  by (rule list_emb_append_mono) simp_all

lemma AddEvent_effect:
  assumes "AddEvent uuid now rctx m = (m', trig)"
  defines "new \<equiv> events_made (me_config m) [OpAdd uuid now rctx]"
  shows "me_config m' = me_config m \<and> (wf_engine_state m \<longrightarrow> wf_engine_state m')
    \<and> subseq (me_pending m') (me_pending m @ new)
    \<and> length (me_pending m) + length new + me_missing m = length (me_pending m') + me_missing m'"
  using assms
  by (auto simp: AddEvent_def Let_def EventsBuffer_Append_def me_pending_def me_missing_def wf_engine_state_def
      split: if_splits intro: subseq_rev_drop_many)

lemma flush_effect:
  assumes "Metrics_flush writeFails m = (m', written, res)"
  shows "me_config m' = me_config m \<and> (wf_engine_state m \<longrightarrow> wf_engine_state m')
    \<and> subseq (written @ me_pending m') (me_pending m)
    \<and> length (me_pending m) + me_missing m = length written + length (me_pending m') + me_missing m'"
  using assms
  by (auto simp: Metrics_flush_def Let_def EventsBuffer_Drain_def me_pending_def me_missing_def wf_engine_state_def
      maxWriteAttempts_def split: if_splits)

lemma metrics_run_accounts:
  assumes "metrics_run ops m = (written, m')"
  shows "me_config m' = me_config m \<and> (wf_engine_state m \<longrightarrow> wf_engine_state m')
    \<and> subseq (written @ me_pending m') (me_pending m @ events_made (me_config m) ops)
    \<and> length (me_pending m) + length (events_made (me_config m) ops) + me_missing m
        = length written + length (me_pending m') + me_missing m'"
  using assms
proof (induction ops m arbitrary: written rule: metrics_run.induct)
  case (1 m)
  then show ?case by simp
next
  case (2 uuid now rctx ops m)
  obtain m1 tr where a: "AddEvent uuid now rctx m = (m1, tr)" by force
  note eff = AddEvent_effect [OF a]
  have IH: "me_config m' = me_config m1 \<and> (wf_engine_state m1 \<longrightarrow> wf_engine_state m')
    \<and> subseq (written @ me_pending m') (me_pending m1 @ events_made (me_config m1) ops)
    \<and> length (me_pending m1) + length (events_made (me_config m1) ops) + me_missing m1
        = length written + length (me_pending m') + me_missing m'"
    using 2 a by simp
  have "subseq (me_pending m1 @ events_made (me_config m) ops)
      ((me_pending m @ events_made (me_config m) [OpAdd uuid now rctx]) @ events_made (me_config m) ops)"
    using eff by (intro subseq_right) simp
  with IH eff show ?case by (auto intro: subseq_order.trans split: if_splits)
next
  case (3 fails ops m)
  obtain m1 w1 res where f: "Metrics_flush fails m = (m1, w1, res)" by (metis prod_cases3)
  obtain w2 where r: "metrics_run ops m1 = (w2, m')" "written = w1 @ w2" using 3(2) f by (auto split: prod.splits)
  note eff = flush_effect [OF f]
  have IH: "me_config m' = me_config m1 \<and> (wf_engine_state m1 \<longrightarrow> wf_engine_state m')
    \<and> subseq (w2 @ me_pending m') (me_pending m1 @ events_made (me_config m1) ops)
    \<and> length (me_pending m1) + length (events_made (me_config m1) ops) + me_missing m1
        = length w2 + length (me_pending m') + me_missing m'"
    using 3(1) [OF _ _ r(1)] f by simp
  have "subseq (w1 @ w2 @ me_pending m') (w1 @ me_pending m1 @ events_made (me_config m) ops)"
    using IH eff by (intro subseq_left) simp
  moreover have "subseq ((w1 @ me_pending m1) @ events_made (me_config m) ops) (me_pending m @ events_made (me_config m) ops)"
    using eff by (intro subseq_right) simp
  ultimately have "subseq (written @ me_pending m') (me_pending m @ events_made (me_config m) ops)"
    unfolding r(2) append_assoc by (rule subseq_order.trans)
  then show ?case using IH eff r(2) by auto
qed

lemma wf_NewMetricsEngine: "wf_engine_state (NewMetricsEngine cfg)"
  by (simp add: wf_engine_state_def NewMetricsEngine_def NewEventsBuffer_def maxWriteAttempts_def)


definition example_metrics_config :: MetricsEngineConfig where
  "example_metrics_config = (the (gc_MetricsEngine default_config))\<lparr>mec_BufferCapacity := 1, mec_PayloadMode := ''none'',
     mec_PayloadMaxKB := 1\<rparr>"

definition example_ops :: "metrics_op list" where
  "example_ops = (let r = DiffractLLMContext_zero\<lparr>rc_StartedAt := 5\<rparr> in [OpAdd ''e1'' 7 r, OpAdd ''e2'' 8 r, OpFlush False])"


text \<open>
  The batch of the third attempt is given up as a whole: events that reached the buffer after the
  second failure are lost after a single attempt to write them.
\<close>

theorem late_events_lost:
  assumes "me_attempts m = 2" "e \<in> set (eb_events (me_buffer m))"
  shows "\<exists>m' n. Metrics_flush True m = (m', [], FlushLost n) \<and> me_pending m' = []
    \<and> me_lost m' = me_lost m + length (me_retry m) + length (eb_events (me_buffer m))"
  using assms by (auto simp: Metrics_flush_def Let_def EventsBuffer_Drain_def maxWriteAttempts_def me_pending_def)

section \<open>Timing, payloads and queries\<close>

text \<open>The spans follow one another from one time to another without a gap.\<close>

fun tiles :: "duration \<Rightarrow> TimingStage list \<Rightarrow> duration \<Rightarrow> bool" where
  "tiles a [] b = (a = b)"
| "tiles a (s # ss) b = (ts_StartUS s = Microseconds a \<and> (\<exists>m. ts_EndUS s = Microseconds m \<and> tiles m ss b))"

definition last_mark :: "duration list \<Rightarrow> duration" where
  "last_mark marks = (case filter (\<lambda>m. m \<noteq> 0) marks of [] \<Rightarrow> 0 | ms \<Rightarrow> last ms)"

lemma tiles_append: "tiles a xs b \<Longrightarrow> tiles b ys c \<Longrightarrow> tiles a (xs @ ys) c"
  by (induction xs arbitrary: a) auto

lemma stage_loop_tiles:
  "stage_loop nms prev = (out, lst) \<Longrightarrow> tiles prev out lst
    \<and> map ts_Name out = map fst (filter (\<lambda>nm. snd nm \<noteq> 0) nms)
    \<and> lst = (case filter (\<lambda>m. m \<noteq> 0) (map snd nms) of [] \<Rightarrow> prev | ms \<Rightarrow> last ms)"
proof (induction nms arbitrary: prev out lst)
  case (Cons nm nms)
  obtain name stop where nm: "nm = (name, stop)" by force
  show ?case
  proof (cases "stop = 0")
    case True
    then show ?thesis using Cons nm by simp
  next
    case False
    obtain out1 lst1 where r: "stage_loop nms stop = (out1, lst1)" by force
    have "out = span name prev stop # out1" "lst = lst1" using Cons.prems nm False r by auto
    then show ?thesis using Cons.IH [OF r] nm False
      by (auto simp: span_def split: list.splits)
  qed
qed simp

text \<open>
  The stages of an event tile the request: the first starts at zero, each starts where the one
  before ended, they are the stages that were marked, in order, and the last ends at the end of
  the request or, if that is later, at the last mark.
\<close>

theorem stages_tile_request:
  assumes "length marks = NumStages" "stages marks tot \<noteq> []"
  shows "tiles 0 (stages marks tot) (max tot (last_mark marks))
    \<and> (\<exists>tail. map ts_Name (stages marks tot) = map fst (filter (\<lambda>nm. snd nm \<noteq> 0) (zip StageNames marks)) @ tail
         \<and> tail = (if tot > last_mark marks then [''response''] else []))"
proof -
  obtain out prev where r: "stage_loop (zip StageNames marks) 0 = (out, prev)" by force
  have "map snd (zip StageNames marks) = marks"
    using assms(1) by (simp add: StageNames_def NumStages_def)
  with stage_loop_tiles [OF r] have t: "tiles 0 out prev" "prev = last_mark marks"
    "map ts_Name out = map fst (filter (\<lambda>nm. snd nm \<noteq> 0) (zip StageNames marks))"
    by (auto simp: last_mark_def split: list.splits)
  have ne: "out \<noteq> []" using assms(2) r by (auto simp: stages_def)
  show ?thesis
  proof (cases "tot > prev")
    case True
    then have "stages marks tot = out @ [span ''response'' prev tot]" using r ne by (simp add: stages_def)
    moreover have "tiles prev [span ''response'' prev tot] tot" by (auto simp: span_def)
    ultimately show ?thesis using t True tiles_append [OF t(1)] by (simp add: max_def span_def)
  next
    case False
    then show ?thesis using t r by (simp add: stages_def max_def)
  qed
qed

theorem stages_tile_request_witness:
  "tiles 0 (stages [2000, 0, 5000, 0, 0, 9000, 0] 12000) 12000"
proof -
  let ?m = "[2000, 0, 5000, 0, 0, 9000, 0]"
  have "length ?m = NumStages" "stages ?m 12000 \<noteq> []" "last_mark ?m = 9000"
    by (simp_all add: NumStages_def stages_def StageNames_def last_mark_def)
  with stages_tile_request [of ?m 12000] show ?thesis by (simp del: tiles.simps)
qed

text \<open>
  A query over an accepted range of less than a year is answered in 7 to 144 buckets.
\<close>

theorem bucketFor_count:
  assumes "checkRange cfg from_t to_t" "to_t - from_t < 365 * 24 * 3600000000000"
  shows "7 \<le> (to_t - from_t) div bucketFor (to_t - from_t) \<and> (to_t - from_t) div bucketFor (to_t - from_t) \<le> 144
    \<and> to_t - from_t \<le> mec_MaxWindow cfg"
proof -
  let ?r = "to_t - from_t"
  have "minRange \<le> time_Sub to_t from_t" "time_Sub to_t from_t \<le> mec_MaxWindow cfg"
    using assms(1) by (auto simp: checkRange_def split: if_splits)
  moreover have "time_Sub to_t from_t = ?r"
    using calculation(1) assms(2) by (auto simp: time_Sub_def minRange_def min_int64_def max_int64_def split: if_splits)
  ultimately have r: "3600000000000 \<le> ?r" "?r \<le> mec_MaxWindow cfg" by (simp_all add: minRange_def)
  have "7 \<le> x div bucketFor x \<and> x div bucketFor x \<le> 144"
    if "3600000000000 \<le> x" "x < 365 * 24 * 3600000000000" for x
    using that by (auto simp: bucketFor_def Let_def)
  with r assms(2) show ?thesis by blast
qed

theorem bucketFor_count_witness:
  "7 \<le> (7200000000000 :: int) div bucketFor 7200000000000 \<and> (7200000000000 :: int) div bucketFor 7200000000000 \<le> 144"
  using bucketFor_count [of example_metrics_config 0 7200000000000]
  by (simp add: checkRange_def example_metrics_config_def default_config_def Second_def time_Sub_def minRange_def min_int64_def max_int64_def)

lemma clip_spec:
  "clip b limit = (c, cutoff) \<Longrightarrow> (case c of None \<Rightarrow> (b = None \<or> b = Some []) \<and> \<not> cutoff
     | Some s \<Rightarrow> \<exists>body. b = Some body \<and> body \<noteq> [] \<and> s = take limit body \<and> length s \<le> limit \<and> (cutoff \<longleftrightarrow> s \<noteq> body))"
  by (auto simp: clip_def split: option.splits if_splits)

text \<open>
  Payload capture obeys its mode and its size: nothing is captured in any other mode than full
  and errors-only, in errors-only mode nothing of a successful or abandoned request, a captured
  body is a prefix of the real one of at most the configured size, and the event is marked as
  truncated exactly when something was cut.
\<close>

theorem capturePayload_bounded:
  assumes "ev_Payload e = None"
  shows "case ev_Payload (capturePayload cfg rctx e) of
     None \<Rightarrow> capturePayload cfg rctx e = e
   | Some p \<Rightarrow> (mec_PayloadMode cfg = PayloadModeFull \<or> mec_PayloadMode cfg = PayloadModeErrorsOnly
         \<and> oc_Result (ev_Outcome e) \<notin> {Some ResultOK, Some ResultClientAbort})
      \<and> opt_or [] (pl_ClientRequest p) = take (nat (mec_PayloadMaxKB cfg * 1024)) (rc_BodyBytes rctx)
      \<and> opt_or [] (pl_ClientResponse p) = take (nat (mec_PayloadMaxKB cfg * 1024)) (opt_or [] (rc_ResponseBody rctx))
      \<and> ev_PayloadState (capturePayload cfg rctx e) =
         (if opt_or [] (pl_ClientRequest p) = rc_BodyBytes rctx
             \<and> opt_or [] (pl_ClientResponse p) = opt_or [] (rc_ResponseBody rctx)
          then PayloadReady else PayloadTruncated)"
proof -
  let ?limit = "nat (mec_PayloadMaxKB cfg * 1024)"
  obtain req rcut where q: "clip (Some (rc_BodyBytes rctx)) ?limit = (req, rcut)" by force
  obtain res scut where p: "clip (rc_ResponseBody rctx) ?limit = (res, scut)" by force
  have q1: "opt_or [] req = take ?limit (rc_BodyBytes rctx)" "rcut \<longleftrightarrow> opt_or [] req \<noteq> rc_BodyBytes rctx"
    using clip_spec [OF q] by (auto split: option.splits)
  have p1: "opt_or [] res = take ?limit (opt_or [] (rc_ResponseBody rctx))" "scut \<longleftrightarrow> opt_or [] res \<noteq> opt_or [] (rc_ResponseBody rctx)"
    using clip_spec [OF p] by (auto split: option.splits)
  show ?thesis
    using assms q p q1 p1 by (auto simp: capturePayload_def Let_def)
qed

theorem capturePayload_bounded_witness:
  "ev_PayloadState (capturePayload (example_metrics_config\<lparr>mec_PayloadMode := ''full''\<rparr>)
     (DiffractLLMContext_zero\<lparr>rc_BodyBytes := ''hi''\<rparr>) Event_zero) = PayloadReady"
  using capturePayload_bounded [of Event_zero "example_metrics_config\<lparr>mec_PayloadMode := ''full''\<rparr>"
      "DiffractLLMContext_zero\<lparr>rc_BodyBytes := ''hi''\<rparr>"]
  by (simp add: capturePayload_def clip_def example_metrics_config_def default_config_def Second_def PayloadModeFull_def Event_zero_def
      DiffractLLMContext_zero_def)

end
