(* ===== verification/Server.thy ===== *)
theory Server
  imports Azure Governance Selection Catalog Metrics
begin

text \<open>
  The request path of the server (\<^verbatim>\<open>internal/server/handlers.go\<close>, \<^verbatim>\<open>chat.go\<close>, \<^verbatim>\<open>utils.go\<close>,
  \<^verbatim>\<open>internal/providers\<close>): the registry of providers, the route descriptors, reading a body, the
  admission of a request, the unary and the streamed answer, and the handler that composes them with the
  components of the other theories. A panic of the program is the value \<^const>\<open>None\<close>.
\<close>

section \<open>Providers\<close>

record ProviderImpl =
  pv_ProviderName :: Provider
  pv_ChatCompletion :: "DiffractLLMChatCompletionRequest option \<Rightarrow> Credential option \<Rightarrow> DiffractLLMContext
    \<Rightarrow> DiffractLLMContext \<times> DiffractLLMChatCompletionResponse call_result"
  pv_ChatCompletionStream :: "DiffractLLMChatCompletionRequest option \<Rightarrow> Credential option \<Rightarrow> DiffractLLMContext
    \<Rightarrow> DiffractLLMContext \<times> DiffractLLMChatCompletionStreamResponse option list call_result"

definition OpenAIProvider :: "json_codec \<Rightarrow> upstream_link \<Rightarrow> DiffractLLMTransport \<Rightarrow> ProviderImpl" where
  "OpenAIProvider jc link transport = \<lparr>pv_ProviderName = ProviderOpenAI,
     pv_ChatCompletion = OpenAI_ChatCompletion jc link transport,
     pv_ChatCompletionStream = (\<lambda>req cred rctx. map_prod id (map_option (map_sum id (map Some))) (OpenAI_ChatCompletionStream jc link transport req cred rctx))\<rparr>"

text \<open>The Azure provider with the credential cache it has at the time of the call.\<close>

definition AzureProvider :: "azure_identity \<Rightarrow> credential_cache \<Rightarrow> json_codec \<Rightarrow> upstream_link \<Rightarrow> DiffractLLMTransport \<Rightarrow> ProviderImpl" where
  "AzureProvider ai cache jc link transport = \<lparr>pv_ProviderName = ProviderAzure,
     pv_ChatCompletion = (\<lambda>req cred rctx. snd (Azure_ChatCompletion ai jc link transport cache req cred rctx)),
     pv_ChatCompletionStream = (\<lambda>req cred rctx. map_prod id (map_option (map_sum id (map Some)))
       (snd (Azure_ChatCompletionStream ai jc link transport cache req cred rctx)))\<rparr>"

text \<open>The registry: one entry per provider name.\<close>

type_synonym ProviderInstance = "(Provider \<times> ProviderImpl) list"

definition NewProviderInstance :: ProviderInstance where "NewProviderInstance = []"

definition Register :: "ProviderImpl \<Rightarrow> ProviderInstance \<Rightarrow> ProviderInstance" where
  "Register p inst = (pv_ProviderName p, p) # filter (\<lambda>e. fst e \<noteq> pv_ProviderName p) inst"

definition Registry_Has :: "ProviderInstance \<Rightarrow> Provider \<Rightarrow> bool" where
  "Registry_Has inst provider \<longleftrightarrow> map_of inst provider \<noteq> None"

definition Registry_Providers :: "ProviderInstance \<Rightarrow> Provider list" where
  "Registry_Providers inst = sort (map fst inst)"

definition Registry_Len :: "ProviderInstance \<Rightarrow> nat" where
  "Registry_Len inst = length inst"

definition Registry_Get :: "ProviderInstance \<Rightarrow> Provider \<Rightarrow> DiffractLLMError + ProviderImpl" where
  "Registry_Get inst provider = (case map_of inst provider of
     None \<Rightarrow> Inl (NewInternalError ''provider'' (''provider '' @ provider @ '' is not registered'') None)
   | Some p \<Rightarrow> Inr p)"

text \<open>The registry as the gateway fills it when it starts.\<close>

definition gateway_registry :: "azure_identity \<Rightarrow> credential_cache \<Rightarrow> json_codec \<Rightarrow> upstream_link \<Rightarrow> DiffractLLMTransport \<Rightarrow> ProviderInstance" where
  "gateway_registry ai cache jc link transport =
     Register (AzureProvider ai cache jc link transport) (Register (OpenAIProvider jc link transport) NewProviderInstance)"

section \<open>Routes\<close>

record RouteDescriptor =
  rd_SDK :: Provider
  rd_Method :: string
  rd_Path :: string
  rd_RequestKind :: RequestKind
  rd_ToDiffract :: "OpenAIChatCompletionRequest \<Rightarrow> DiffractLLMContext \<Rightarrow> DiffractLLMContext \<times> DiffractLLMChatCompletionRequest"
  rd_FromDiffract :: "DiffractLLMChatCompletionResponse \<Rightarrow> OpenAIChatCompletionResponse option"
  rd_FromDiffractStream :: "DiffractLLMChatCompletionStreamResponse \<Rightarrow> string \<times> OpenAIChatCompletionStreamResponse option"
  rd_FromDiffractError :: "DiffractLLMError option \<Rightarrow> string \<times> OpenAIErrorBody option"
  rd_StreamDone :: "string \<times> string"
  rd_AddToRoute :: bool

definition OpenAIDescriptors :: "RouteDescriptor list" where
  "OpenAIDescriptors = [\<lparr>rd_SDK = ProviderOpenAI, rd_Method = ''POST'', rd_Path = ''/v1/chat/completions'', rd_RequestKind = ChatRequest,
     rd_ToDiffract = ToDMChatCompletionRequest,
     rd_FromDiffract = (\<lambda>res. ToOpenAIChatCompletionResponse (Some res)),
     rd_FromDiffractStream = (\<lambda>chunk. ([], ToOpenAIChatCompletionStreamResponse (Some chunk))),
     rd_FromDiffractError = (\<lambda>err. ([], ToOpenAIError err)),
     rd_StreamDone = ([], ''[DONE]''), rd_AddToRoute = True\<rparr>]"

section \<open>Answering\<close>

text \<open>The JSON library on what the server writes and reads.\<close>

record server_codec =
  sc_unmarshal_request :: "string \<Rightarrow> OpenAIChatCompletionRequest option"
  sc_marshal_response :: "OpenAIChatCompletionResponse option \<Rightarrow> string option"
  sc_marshal_chunk :: "OpenAIChatCompletionStreamResponse option \<Rightarrow> string option"
  sc_marshal_error :: "OpenAIErrorBody option \<Rightarrow> string option"

definition statusClientClosed :: int where "statusClientClosed = 499"

definition price :: "Pricing option \<Rightarrow> DiffractLLMContext \<Rightarrow> DiffractLLMContext" where
  "price pricing rctx = (case rc_Usage rctx of None \<Rightarrow> rctx | Some usage \<Rightarrow> (case pricing of None \<Rightarrow> rctx
     | Some p \<Rightarrow> rctx\<lparr>rc_Cost := FromNanoUSD (ToNanoUSD (CalculateCost p usage))\<rparr>))"

definition writeSSE :: "('a \<Rightarrow> string option) \<Rightarrow> string \<Rightarrow> 'a \<Rightarrow> DiffractLLMContext \<Rightarrow> DiffractLLMContext \<times> bool" where
  "writeSSE marshal event payload rctx = (case marshal payload of None \<Rightarrow> (rctx, False) | Some body \<Rightarrow> WriteSSE event body rctx)"

definition writeErr :: "server_codec \<Rightarrow> RouteDescriptor \<Rightarrow> DiffractLLMError \<Rightarrow> DiffractLLMContext \<Rightarrow> DiffractLLMContext" where
  "writeErr sc desc err rctx =
     Context_JSON (sc_marshal_error sc) (e_StatusCode err) (snd (rd_FromDiffractError desc (Some err)))
       (rctx\<lparr>rc_ResponseStatus := e_StatusCode err, rc_Error := Some err\<rparr>)"

definition stream_aborted :: "DiffractLLMContext \<Rightarrow> DiffractLLMContext" where
  "stream_aborted rctx = rctx\<lparr>rc_StreamAborted := True, rc_ResponseStatus := statusClientClosed\<rparr>"

text \<open>The usage and the finish reason a chunk leaves in the context.\<close>

definition note_chunk :: "time \<Rightarrow> DiffractLLMChatCompletionStreamResponse \<Rightarrow> DiffractLLMContext \<Rightarrow> DiffractLLMContext" where
  "note_chunk now chunk rctx =
    (let r1 = (case env_Usage chunk of None \<Rightarrow> rctx | Some usage \<Rightarrow>
           (case rc_Usage rctx of None \<Rightarrow> rctx\<lparr>rc_Usage := Some usage\<rparr>
            | Some old \<Rightarrow> if OutputTokens usage \<ge> OutputTokens old then rctx\<lparr>rc_Usage := Some usage\<rparr> else rctx));
         r2 = (case ck_Choices chunk of [] \<Rightarrow> r1 | ch # _ \<Rightarrow> (case sch_FinishReason ch of None \<Rightarrow> r1 | Some f \<Rightarrow> r1\<lparr>rc_StreamFinishReason := f\<rparr>));
         r3 = (if rc_StreamChunks r2 = 0 then Mark now StageFirstToken r2 else r2)
     in r3\<lparr>rc_StreamChunks := rc_StreamChunks r3 + 1\<rparr>)"

datatype stream_result = StreamDrained DiffractLLMContext | StreamEnded DiffractLLMContext | StreamPanic

text \<open>The loop over the chunks: \<open>gone i\<close> says that the client was seen to be gone before the chunk \<open>i\<close>.
  A chunk is \<^const>\<open>None\<close> for \<^verbatim>\<open>nil\<close>. The loop runs to the end of the channel or ends the answer.\<close>

fun relay_chunks :: "server_codec \<Rightarrow> RouteDescriptor \<Rightarrow> time \<Rightarrow> (nat \<Rightarrow> bool) \<Rightarrow> nat \<Rightarrow> DiffractLLMChatCompletionStreamResponse option list
    \<Rightarrow> DiffractLLMContext \<Rightarrow> stream_result" where
  "relay_chunks sc desc now gone i [] rctx = StreamDrained rctx"
| "relay_chunks sc desc now gone i (c # cs) rctx =
    (if gone i then StreamEnded (stream_aborted rctx)
     else case c of
       None \<Rightarrow> relay_chunks sc desc now gone (Suc i) cs rctx
     | Some chunk \<Rightarrow>
         if ck_Type chunk = Some StreamEventError then
           (case ck_Error chunk of None \<Rightarrow> StreamPanic
            | Some err \<Rightarrow>
                let (event, payload) = rd_FromDiffractError desc (Some err)
                in StreamEnded ((fst (writeSSE (sc_marshal_error sc) event payload rctx))
                     \<lparr>rc_Error := Some err, rc_ResponseStatus := e_StatusCode err\<rparr>))
         else let rctx1 = note_chunk now chunk rctx;
                  (event, payload) = rd_FromDiffractStream desc chunk
           in case writeSSE (sc_marshal_chunk sc) event payload rctx1 of
                (rctx2, True) \<Rightarrow> relay_chunks sc desc now gone (Suc i) cs rctx2
              | (rctx2, False) \<Rightarrow> StreamEnded (stream_aborted rctx2))"

text \<open>What the client and the clock do during one answer.\<close>

record answer_env =
  an_flusher :: bool
  an_gone :: "nat \<Rightarrow> bool"
  an_gone_end :: bool
  an_clock :: "Stage \<Rightarrow> time"

definition begin_stream :: "DiffractLLMContext \<Rightarrow> DiffractLLMContext" where
  "begin_stream rctx =
    (let r1 = SetHeader ''Content-Type'' ''text/event-stream'' rctx;
         r2 = SetHeader ''Cache-Control'' ''no-cache'' r1;
         r3 = SetHeader ''Connection'' ''keep-alive'' r2;
         r4 = SetHeader ''X-Accel-Buffering'' ''no'' r3;
         r5 = with_writer (\<lambda>w. Writer_WriteHeader w 200) r4
     in Flush (r5\<lparr>rc_ResponseStatus := 200\<rparr>))"

definition finish_stream :: "RouteDescriptor \<Rightarrow> answer_env \<Rightarrow> Pricing option \<Rightarrow> DiffractLLMContext \<Rightarrow> DiffractLLMContext" where
  "finish_stream desc an pricing rctx =
    (if an_gone_end an then price pricing (stream_aborted rctx)
     else case rd_StreamDone desc of (event, payload) \<Rightarrow>
       (case WriteSSE event payload rctx of
          (rctx1, False) \<Rightarrow> price pricing (stream_aborted rctx1)
        | (rctx1, True) \<Rightarrow> price pricing (rctx1\<lparr>rc_RequestCompleted := True\<rparr>)))"

definition chatCompletion :: "server_codec \<Rightarrow> RouteDescriptor \<Rightarrow> answer_env \<Rightarrow> ProviderImpl \<Rightarrow> Credential \<Rightarrow> Pricing option
    \<Rightarrow> DiffractLLMChatCompletionRequest \<Rightarrow> DiffractLLMContext \<Rightarrow> DiffractLLMContext option" where
  "chatCompletion sc desc an prov cred pricing req rctx =
    (if ChatRequest_IsStreaming req then
       (if \<not> an_flusher an then Some (writeErr sc desc (NewInternalError ''server-handler'' ''client does not support streaming'' None) rctx)
        else case pv_ChatCompletionStream prov (Some req) (Some cred) rctx of
          (rctx1, None) \<Rightarrow> None
        | (rctx1, Some (Inl err)) \<Rightarrow> Some (writeErr sc desc err rctx1)
        | (rctx1, Some (Inr chunks)) \<Rightarrow>
            (case relay_chunks sc desc (an_clock an StageFirstToken) (an_gone an) 0 chunks (begin_stream rctx1) of
               StreamPanic \<Rightarrow> None
             | StreamEnded rctx2 \<Rightarrow> Some (price pricing rctx2)
             | StreamDrained rctx2 \<Rightarrow> Some (finish_stream desc an pricing rctx2)))
     else case pv_ChatCompletion prov (Some req) (Some cred) rctx of
          (rctx1, None) \<Rightarrow> None
        | (rctx1, Some (Inl err)) \<Rightarrow> Some (writeErr sc desc err rctx1)
        | (rctx1, Some (Inr upstreamRes)) \<Rightarrow>
            let rctx2 = price pricing (rctx1\<lparr>rc_Usage := env_Usage upstreamRes\<rparr>);
                rctx3 = Context_JSON (sc_marshal_response sc) 200 (rd_FromDiffract desc upstreamRes) (rctx2\<lparr>rc_ResponseStatus := 200\<rparr>)
            in Some (rctx3\<lparr>rc_RequestCompleted := True\<rparr>))"

section \<open>Reading a body\<close>

text \<open>\<open>broken\<close> says that reading the body failed.\<close>

definition readBody :: "ServerConfig \<Rightarrow> bool \<Rightarrow> HttpRequest \<Rightarrow> DiffractLLMError + string" where
  "readBody cfg broken req =
    (let maxBody = wrap64 (sv_MaxBodySize cfg * 2 ^ 10) in
     if req_ContentLength req > maxBody then Inl (NewPayloadTooLarge maxBody)
     else if broken then Inl (NewInvalidRequestBody ''reading body'' (Some ''read''))
     else let buf = take (nat maxBody) (req_Body req) in
       if int (length buf) \<ge> maxBody \<and> drop (nat maxBody) (req_Body req) \<noteq> [] then Inl (NewPayloadTooLarge maxBody)
       else Inr buf)"

section \<open>The handler\<close>

record server =
  srv_config :: ServerConfig
  srv_governance :: Governance
  srv_plane :: ProviderPlane
  srv_cursors :: cursors
  srv_catalog :: ModelCatalog
  srv_registry :: ProviderInstance
  srv_pool :: ContextPool
  srv_metrics :: "MetricsEngine option"

text \<open>What the outside world answers while a request is handled.\<close>

record request_env =
  re_choice :: "nat option"
  re_ctx :: nat
  re_broken :: bool
  re_now :: time
  re_draw :: float64
  re_elapsed :: "nat \<Rightarrow> duration"
  re_uuid :: string
  re_answer :: answer_env

definition model_lookup :: "ModelCatalog \<Rightarrow> ModelLookup" where
  "model_lookup c = \<lparr>ml_Ready = Catalog_Ready c, ml_HasModel = HasModel c\<rparr>"

definition hook_engine :: "server \<Rightarrow> HookEngine" where
  "hook_engine s = (let he = RegisterHooks NewHookEngine (srv_governance s) (Some (model_lookup (srv_catalog s)))
     in if srv_metrics s = None then he else keep_engine he (Metrics_RegisterHooks he))"

record prepared =
  prep_cred :: Credential
  prep_pricing :: Pricing
  prep_provider :: ProviderImpl
  prep_request :: DiffractLLMChatCompletionRequest

text \<open>Everything before the provider is called; an error is answered and ends the request.\<close>

definition prepare :: "server_codec \<Rightarrow> RouteDescriptor \<Rightarrow> request_env \<Rightarrow> server \<Rightarrow> DiffractLLMContext
    \<Rightarrow> (DiffractLLMContext \<times> cursors \<times> (DiffractLLMError + prepared)) option" where
  "prepare sc desc re s rctx0 =
    (let clk = an_clock (re_answer re); cur = srv_cursors s; he = hook_engine s in
     case ValidatevKeyAuth (srv_governance s) (re_now re) rctx0 of
       (r1, Some authErr) \<Rightarrow> Some (r1, cur, Inl authErr)
     | (r1, None) \<Rightarrow>
        let r2 = Mark (clk StageAuth) StageAuth r1 in
        (case rc_Request r2 of None \<Rightarrow> None | Some httpReq \<Rightarrow>
        (case readBody (srv_config s) (re_broken re) httpReq of
          Inl err \<Rightarrow> Some (r2, cur, Inl err)
        | Inr body \<Rightarrow>
          let r3 = Mark (clk StageReadBody) StageReadBody (r2\<lparr>rc_BodyBytes := body\<rparr>) in
          (case sc_unmarshal_request sc body of
             None \<Rightarrow> Some (r3, cur, Inl (NewInvalidRequestBody ''parsing request'' (Some ''unmarshal'')))
           | Some payload \<Rightarrow> (case rd_ToDiffract desc payload r3 of (r4, dfRequest) \<Rightarrow>
             (case RunPreCallHooks he (re_elapsed re) (Mark (clk StageParse) StageParse r4) of
                HookPanic \<Rightarrow> None
              | HookDone r5 (Some err) \<Rightarrow> Some (r5, cur, Inl err)
              | HookDone r5 None \<Rightarrow>
                (case Resolve (Plane_Candidates (re_now re) (srv_plane s)) (re_draw re) (Mark (clk StageAdmission) StageAdmission r5) cur of
                   (Inl err, r6, cur1) \<Rightarrow> Some (r6, cur1, Inl err)
                 | (Inr cred, r6, cur1) \<Rightarrow>
                   (case ResolvePrice (srv_catalog s) (rc_VirtualKeyID r6) (rc_Modelkey r6) EmptySelectorKey of
                      None \<Rightarrow> Some (r6, cur1, Inl (NewUnpricedModel (rc_Modelkey r6)))
                    | Some pricing \<Rightarrow>
                      let r7 = r6\<lparr>rc_Pricing := Some pricing\<rparr> in
                      (case Registry_Get (srv_registry s) (ck_Provider (rc_Modelkey r7)) of
                         Inl dErr \<Rightarrow> Some (r7, cur1, Inl dErr)
                       | Inr prov \<Rightarrow>
                         (case RunPreProviderHooks he (re_elapsed re) r7 of
                            HookPanic \<Rightarrow> None
                          | HookDone r8 (Some err) \<Rightarrow> Some (r8, cur1, Inl err)
                          | HookDone r8 None \<Rightarrow> Some (Mark (clk StageRouting) StageRouting r8, cur1,
                              Inr \<lparr>prep_cred = cred, prep_pricing = pricing, prep_provider = prov, prep_request = dfRequest\<rparr>)))))))))))"

text \<open>The call of the provider with the deferred hooks after it: besides the context, what they do to governance.\<close>

definition serve_prepared :: "server_codec \<Rightarrow> RouteDescriptor \<Rightarrow> request_env \<Rightarrow> server \<Rightarrow> prepared \<Rightarrow> DiffractLLMContext
    \<Rightarrow> (DiffractLLMContext \<times> Governance) option" where
  "serve_prepared sc desc re s prep rctx =
    (case (if rd_RequestKind desc = ChatRequest
           then chatCompletion sc desc (re_answer re) (prep_provider prep) (prep_cred prep) (Some (prep_pricing prep)) (prep_request prep) rctx
           else Some (writeErr sc desc (NewInternalError ''server handler'' ''unknown request kind'' None) rctx)) of
       None \<Rightarrow> None
     | Some r1 \<Rightarrow> (case RunPostProviderHooks (hook_engine s) (re_elapsed re) r1 of
           HookPanic \<Rightarrow> None
         | HookDone r2 _ \<Rightarrow> Some (r2, RecordHook_Execute r1 (srv_governance s))))"

definition GenericRequestHandler :: "server_codec \<Rightarrow> RouteDescriptor \<Rightarrow> request_env \<Rightarrow> HttpRequest \<Rightarrow> ResponseWriter \<Rightarrow> server
    \<Rightarrow> (DiffractLLMContext \<times> server) option" where
  "GenericRequestHandler sc desc re req w s =
    (case Pool_Acquire (re_choice re) (re_ctx re) req w (srv_pool s) of (rctx0, pool) \<Rightarrow>
     let rctx1 = rctx0\<lparr>rc_RequestID := Header_Get ''X-Request-ID'' (w_Header w), rc_SDKProvider := rd_SDK desc,
           rc_RequestKind := Some (rd_RequestKind desc), rc_StartedAt := re_now re\<rparr>
     in case (case prepare sc desc re s rctx1 of
          None \<Rightarrow> None
        | Some (r, cur, Inl err) \<Rightarrow> Some (writeErr sc desc err r, cur, srv_governance s)
        | Some (r, cur, Inr prep) \<Rightarrow> map_option (\<lambda>(r2, g). (r2, cur, g)) (serve_prepared sc desc re s prep r)) of
          None \<Rightarrow> None
        | Some (r, cur, g) \<Rightarrow> (case RunPostCallHooks (hook_engine s) (re_elapsed re) r of
            HookPanic \<Rightarrow> None
          | HookDone r2 _ \<Rightarrow> Some (r2, s\<lparr>srv_cursors := cur, srv_governance := g, srv_pool := Pool_Release r2 pool,
              srv_metrics := map_option (\<lambda>m. fst (AddEvent (re_uuid re) (re_now re) r m)) (srv_metrics s)\<rparr>)))"

end
