(* ===== verification/RequestPath.thy ===== *)
theory RequestPath
  imports Server
begin

text \<open>
  What the request path of \<^verbatim>\<open>internal/server\<close> guarantees: a provider is called only for an admitted request,
  every request is answered, a request is charged once to the budget of its key, and a stream recorded as completed was complete.
  The last section runs the handler on a concrete request.
\<close>

section \<open>What an answer leaves alone\<close>

text \<open>The parts of the context that say whose request it is and what it is charged to.\<close>

definition same_request :: "DiffractLLMContext \<Rightarrow> DiffractLLMContext \<Rightarrow> bool" where
  "same_request rc rc' \<longleftrightarrow> rc_BudgetRef rc' = rc_BudgetRef rc \<and> rc_VirtualKeyID rc' = rc_VirtualKeyID rc \<and> rc_ClientID rc' = rc_ClientID rc
     \<and> rc_VirtualKeyPolicy rc' = rc_VirtualKeyPolicy rc \<and> rc_Modelkey rc' = rc_Modelkey rc \<and> rc_HookLog rc' = rc_HookLog rc
     \<and> rc_Pricing rc' = rc_Pricing rc \<and> rc_StartedAt rc' = rc_StartedAt rc \<and> rc_RequestedModel rc' = rc_RequestedModel rc"

lemma same_request_refl [simp]: "same_request rc rc"
  by (simp add: same_request_def)

lemma same_request_trans: "same_request a b \<Longrightarrow> same_request b c \<Longrightarrow> same_request a c"
  by (simp add: same_request_def)

lemma upstream_only_same:
  assumes "upstream_only a b"
  shows "same_request a b" "rc_Usage b = rc_Usage a" "rc_Cost b = rc_Cost a" "rc_Writer b = rc_Writer a"
    "rc_RequestCompleted b = rc_RequestCompleted a" "rc_StreamAborted b = rc_StreamAborted a" "rc_SDKProvider b = rc_SDKProvider a"
  using assms by (cases a; cases b; simp add: upstream_only_def same_request_def)+

lemma Context_Write_frame:
  assumes "Context_Write p rc = (rc', good)"
  shows "same_request rc rc'" "rc_Usage rc' = rc_Usage rc" "rc_Cost rc' = rc_Cost rc" "rc_RequestCompleted rc' = rc_RequestCompleted rc"
    "rc_Error rc' = rc_Error rc" "rc_ResponseStatus rc' = rc_ResponseStatus rc" "rc_StreamAborted rc' = rc_StreamAborted rc"
    "good \<Longrightarrow> \<exists>w w'. rc_Writer rc = Some w \<and> rc_Writer rc' = Some w' \<and> w_Body w' = w_Body w @ p"
  using assms by (auto simp: Context_Write_def Writer_Write_def Let_def same_request_def split: option.splits)

lemma WriteSSE_frame:
  assumes "WriteSSE event body rc = (rc', good)"
  shows "same_request rc rc'" "rc_Usage rc' = rc_Usage rc" "rc_Cost rc' = rc_Cost rc" "rc_RequestCompleted rc' = rc_RequestCompleted rc"
    "rc_Error rc' = rc_Error rc" "rc_ResponseStatus rc' = rc_ResponseStatus rc" "rc_StreamAborted rc' = rc_StreamAborted rc"
    "good \<Longrightarrow> \<exists>w w'. rc_Writer rc = Some w \<and> rc_Writer rc' = Some w' \<and> w_Body w' = w_Body w @ sse_frame event body"
proof -
  obtain r1 g where c: "Context_Write (sse_frame event body) rc = (r1, g)" by fastforce
  have r: "rc' = (if g then Flush r1 else r1)" "good = g" using assms c by (auto simp: WriteSSE_def split: if_splits)
  note f = Context_Write_frame [OF c]
  show "same_request rc rc'" "rc_Usage rc' = rc_Usage rc" "rc_Cost rc' = rc_Cost rc" "rc_RequestCompleted rc' = rc_RequestCompleted rc"
    "rc_Error rc' = rc_Error rc" "rc_ResponseStatus rc' = rc_ResponseStatus rc" "rc_StreamAborted rc' = rc_StreamAborted rc"
    using f r by (auto simp: Flush_def with_writer_def same_request_def)
  show "\<exists>w w'. rc_Writer rc = Some w \<and> rc_Writer rc' = Some w' \<and> w_Body w' = w_Body w @ sse_frame event body" if good
    using f(8) that r by (auto simp: Flush_def with_writer_def)
qed

lemma writeSSE_frame:
  assumes "writeSSE marshal event payload rc = (rc', good)"
  shows "same_request rc rc'" "rc_Usage rc' = rc_Usage rc" "rc_Cost rc' = rc_Cost rc" "rc_RequestCompleted rc' = rc_RequestCompleted rc"
    "rc_StreamAborted rc' = rc_StreamAborted rc"
    "good \<Longrightarrow> \<exists>w w' body. marshal payload = Some body \<and> rc_Writer rc = Some w \<and> rc_Writer rc' = Some w' \<and> w_Body w' = w_Body w @ sse_frame event body"
  using assms WriteSSE_frame [of event _ rc rc' good] by (auto simp: writeSSE_def split: option.splits)

lemma Context_JSON_frame:
  "same_request rc (Context_JSON marshal code obj rc)" "rc_Usage (Context_JSON marshal code obj rc) = rc_Usage rc"
  "rc_Cost (Context_JSON marshal code obj rc) = rc_Cost rc" "rc_RequestCompleted (Context_JSON marshal code obj rc) = rc_RequestCompleted rc"
  "rc_Error (Context_JSON marshal code obj rc) = rc_Error rc" "rc_ResponseStatus (Context_JSON marshal code obj rc) = rc_ResponseStatus rc"
proof -
  have "same_request rc (Context_JSON marshal code obj rc) \<and> rc_Usage (Context_JSON marshal code obj rc) = rc_Usage rc
    \<and> rc_Cost (Context_JSON marshal code obj rc) = rc_Cost rc \<and> rc_RequestCompleted (Context_JSON marshal code obj rc) = rc_RequestCompleted rc
    \<and> rc_Error (Context_JSON marshal code obj rc) = rc_Error rc \<and> rc_ResponseStatus (Context_JSON marshal code obj rc) = rc_ResponseStatus rc"
    by (cases "rc_Writer rc") (simp_all add: Context_JSON_def SetHeader_def with_writer_def Context_Write_def Writer_Write_def Let_def
        same_request_def split: option.split)
  then show "same_request rc (Context_JSON marshal code obj rc)" "rc_Usage (Context_JSON marshal code obj rc) = rc_Usage rc"
    "rc_Cost (Context_JSON marshal code obj rc) = rc_Cost rc" "rc_RequestCompleted (Context_JSON marshal code obj rc) = rc_RequestCompleted rc"
    "rc_Error (Context_JSON marshal code obj rc) = rc_Error rc" "rc_ResponseStatus (Context_JSON marshal code obj rc) = rc_ResponseStatus rc" by simp_all
qed

lemma writeErr_frame:
  "same_request rc (writeErr sc desc err rc)" "rc_Usage (writeErr sc desc err rc) = rc_Usage rc"
  "rc_RequestCompleted (writeErr sc desc err rc) = rc_RequestCompleted rc"
  "rc_Error (writeErr sc desc err rc) = Some err" "rc_ResponseStatus (writeErr sc desc err rc) = e_StatusCode err"
  by (unfold writeErr_def, rule same_request_trans [OF _ Context_JSON_frame(1)])
    (simp_all add: Context_JSON_frame same_request_def)

lemma price_frame:
  "same_request rc (price p rc)" "rc_Usage (price p rc) = rc_Usage rc" "rc_Writer (price p rc) = rc_Writer rc"
  "rc_RequestCompleted (price p rc) = rc_RequestCompleted rc" "rc_StreamAborted (price p rc) = rc_StreamAborted rc"
  by (simp_all add: price_def same_request_def split: option.split)

lemma note_chunk_frame:
  "same_request rc (note_chunk now c rc)" "rc_Cost (note_chunk now c rc) = rc_Cost rc" "rc_Writer (note_chunk now c rc) = rc_Writer rc"
  "rc_RequestCompleted (note_chunk now c rc) = rc_RequestCompleted rc" "rc_StreamAborted (note_chunk now c rc) = rc_StreamAborted rc"
  "rc_StreamChunks (note_chunk now c rc) = rc_StreamChunks rc + 1"
  by (auto simp: note_chunk_def Mark_def same_request_def Let_def split: option.split list.split)

lemma begin_stream_frame:
  "same_request rc (begin_stream rc)" "rc_Usage (begin_stream rc) = rc_Usage rc" "rc_Cost (begin_stream rc) = rc_Cost rc"
  "rc_RequestCompleted (begin_stream rc) = rc_RequestCompleted rc" "rc_StreamAborted (begin_stream rc) = rc_StreamAborted rc"
  "map_option w_Body (rc_Writer (begin_stream rc)) = map_option w_Body (rc_Writer rc)"
  by (auto simp: begin_stream_def SetHeader_def Flush_def with_writer_def Writer_WriteHeader_def same_request_def Let_def
      option.map_comp comp_def split: option.splits intro!: option.map_cong0)

section \<open>Streams\<close>

text \<open>The usage of a stream: the last report that does not fall behind in output tokens.\<close>

definition usage_step :: "Usage option \<Rightarrow> DiffractLLMChatCompletionStreamResponse \<Rightarrow> Usage option" where
  "usage_step old c = (case env_Usage c of None \<Rightarrow> old | Some u \<Rightarrow> (case old of None \<Rightarrow> Some u
     | Some v \<Rightarrow> if OutputTokens u \<ge> OutputTokens v then Some u else old))"

fun somes :: "'a option list \<Rightarrow> 'a list" where
  "somes [] = []"
| "somes (None # xs) = somes xs"
| "somes (Some x # xs) = x # somes xs"

definition chunk_frame :: "server_codec \<Rightarrow> RouteDescriptor \<Rightarrow> DiffractLLMChatCompletionStreamResponse \<Rightarrow> string" where
  "chunk_frame sc desc c = sse_frame (fst (rd_FromDiffractStream desc c)) (the (sc_marshal_chunk sc (snd (rd_FromDiffractStream desc c))))"

lemma note_chunk_usage: "rc_Usage (note_chunk now c rc) = usage_step (rc_Usage rc) c"
  by (auto simp: note_chunk_def usage_step_def Mark_def Let_def split: option.split list.split)

lemma stream_aborted_frame: "same_request rc (stream_aborted rc)" "rc_Usage (stream_aborted rc) = rc_Usage rc"
  "rc_Cost (stream_aborted rc) = rc_Cost rc" "rc_RequestCompleted (stream_aborted rc) = rc_RequestCompleted rc"
  by (simp_all add: stream_aborted_def same_request_def)

lemma relay_drained:
  "relay_chunks sc desc now gone i cs rc = StreamDrained r \<Longrightarrow>
    same_request rc r \<and> rc_RequestCompleted r = rc_RequestCompleted rc \<and> rc_StreamAborted r = rc_StreamAborted rc
    \<and> list_all (\<lambda>c. ck_Type c \<noteq> Some StreamEventError) (somes cs)
    \<and> rc_Usage r = foldl usage_step (rc_Usage rc) (somes cs)
    \<and> (\<forall>w. rc_Writer rc = Some w \<longrightarrow> (\<exists>w'. rc_Writer r = Some w'
         \<and> w_Body w' = w_Body w @ concat (map (chunk_frame sc desc) (somes cs))))"
proof (induction cs arbitrary: i rc)
  case (Cons c cs)
  show ?case
  proof (cases c)
    case None
    with Cons show ?thesis by (auto split: if_splits)
  next
    case (Some chunk)
    let ?r1 = "note_chunk now chunk rc"
    obtain event payload where fd: "rd_FromDiffractStream desc chunk = (event, payload)" by fastforce
    obtain r2 good where ws: "writeSSE (sc_marshal_chunk sc) event payload ?r1 = (r2, good)" by fastforce
    from Cons.prems Some fd ws have good: "good" "ck_Type chunk \<noteq> Some StreamEventError"
      and rec: "relay_chunks sc desc now gone (Suc i) cs r2 = StreamDrained r"
      by (auto simp: Let_def split: if_splits option.splits bool.splits prod.splits)
    note f = writeSSE_frame [OF ws]
    have sr: "same_request rc r2" by (rule same_request_trans [OF note_chunk_frame(1) f(1)])
    from f(6) [OF good(1)] fd have w: "\<forall>w. rc_Writer rc = Some w \<longrightarrow> (\<exists>w2. rc_Writer r2 = Some w2 \<and> w_Body w2 = w_Body w @ chunk_frame sc desc chunk)"
      by (auto simp: chunk_frame_def note_chunk_frame)
    show ?thesis using Cons.IH [OF rec] sr w f(2-5) good(2) Some
      by (auto simp: note_chunk_frame note_chunk_usage intro: same_request_trans)
  qed
qed simp

lemma relay_ended:
  "relay_chunks sc desc now gone i cs rc = StreamEnded r \<Longrightarrow>
    same_request rc r \<and> rc_RequestCompleted r = rc_RequestCompleted rc
    \<and> (\<exists>k. rc_Usage r = foldl usage_step (rc_Usage rc) (take k (somes cs)))"
proof (induction cs arbitrary: i rc)
  case (Cons c cs)
  show ?case
  proof (cases "gone i")
    case True
    with Cons.prems show ?thesis by (auto simp: stream_aborted_frame intro: exI [of _ 0])
  next
    case False
    show ?thesis
    proof (cases c)
      case None
      with Cons False show ?thesis by auto
    next
      case (Some chunk)
      let ?r1 = "note_chunk now chunk rc"
      obtain event payload where fd: "rd_FromDiffractStream desc chunk = (event, payload)" by fastforce
      obtain r2 good where ws: "writeSSE (sc_marshal_chunk sc) event payload ?r1 = (r2, good)" by fastforce
      note f = writeSSE_frame [OF ws]
      have sr: "same_request rc r2" by (rule same_request_trans [OF note_chunk_frame(1) f(1)])
      consider (err) "ck_Type chunk = Some StreamEventError" | (bad) "ck_Type chunk \<noteq> Some StreamEventError" "\<not> good"
        | (good) "ck_Type chunk \<noteq> Some StreamEventError" good by blast
      then show ?thesis
      proof cases
        case err
        obtain ev pl where fe: "rd_FromDiffractError desc (ck_Error chunk) = (ev, pl)" by fastforce
        obtain r3 g3 where ws3: "writeSSE (sc_marshal_error sc) ev pl rc = (r3, g3)" by fastforce
        from Cons.prems Some False err fe ws3
        have r: "r = r3\<lparr>rc_Error := ck_Error chunk, rc_ResponseStatus := rc_ResponseStatus r\<rparr>"
          by (auto simp: Let_def split: option.splits)
        have "same_request r3 r" "rc_Usage r = rc_Usage r3" "rc_RequestCompleted r = rc_RequestCompleted r3"
          by (subst r, simp add: same_request_def)+
        with writeSSE_frame [OF ws3] show ?thesis by (auto intro: same_request_trans exI [of _ 0])
      next
        case bad
        with Cons.prems Some False fd ws have r: "r = stream_aborted r2" by (simp add: Let_def)
        have "same_request rc r" unfolding r by (rule same_request_trans [OF sr stream_aborted_frame(1)])
        with r f(2-4) Some show ?thesis
          by (auto simp: stream_aborted_frame note_chunk_frame note_chunk_usage intro!: exI [of _ 1])
      next
        case good
        with Cons.prems Some False fd ws have rec: "relay_chunks sc desc now gone (Suc i) cs r2 = StreamEnded r" by (simp add: Let_def)
        from Cons.IH [OF rec] obtain k where "rc_Usage r = foldl usage_step (rc_Usage r2) (take k (somes cs))" by blast
        with Cons.IH [OF rec] sr f(2-4) Some show ?thesis
          by (auto simp: note_chunk_frame note_chunk_usage intro: same_request_trans intro!: exI [of _ "Suc k"])
      qed
    qed
  qed
qed simp

section \<open>Billing\<close>

text \<open>What the server relies on of a provider: a call changes only what the context records about the upstream.\<close>

locale served_provider =
  fixes prov :: ProviderImpl
  assumes chat_frame: "upstream_only rctx (fst (pv_ChatCompletion prov req cred rctx))"
    and stream_frame: "upstream_only rctx (fst (pv_ChatCompletionStream prov req cred rctx))"
begin

text \<open>However an answer ends, the context is that of the same request and a usage it reports is priced.\<close>

lemma chatCompletion_billing:
  assumes "rc_Usage rctx = None" "chatCompletion sc desc an prov cred (Some p) req rctx = Some r"
  shows "same_request rctx r \<and> (\<forall>u. rc_Usage r = Some u \<longrightarrow> rc_Cost r = FromNanoUSD (ToNanoUSD (CalculateCost p u)))"
proof -
  have priced: "same_request rctx (price (Some p) x) \<and> (\<forall>u. rc_Usage (price (Some p) x) = Some u \<longrightarrow>
      rc_Cost (price (Some p) x) = FromNanoUSD (ToNanoUSD (CalculateCost p u)))" if "same_request rctx x" for x
    using same_request_trans [OF that price_frame(1)] by (auto simp: price_def split: option.splits)
  have failed: "same_request rctx (writeErr sc desc e x) \<and> (\<forall>u. rc_Usage (writeErr sc desc e x) = Some u \<longrightarrow>
      rc_Cost (writeErr sc desc e x) = FromNanoUSD (ToNanoUSD (CalculateCost p u)))" if "upstream_only rctx x" for e x
    using upstream_only_same(2) [OF that] same_request_trans [OF upstream_only_same(1) [OF that] writeErr_frame(1)] assms(1)
    by (simp add: writeErr_frame)
  show ?thesis
  proof (cases "ChatRequest_IsStreaming req")
    case True
    obtain r1 x where call: "pv_ChatCompletionStream prov (Some req) (Some cred) rctx = (r1, x)" by fastforce
    have f: "upstream_only rctx r1" using stream_frame [of rctx "Some req" "Some cred"] call by simp
    note r1 = same_request_trans [OF upstream_only_same(1) [OF f] begin_stream_frame(1)]
    show ?thesis
    proof (cases "an_flusher an")
      case False
      with assms(2) True failed [OF upstream_only_refl] show ?thesis by (auto simp: chatCompletion_def)
    next
      case flush: True
      show ?thesis
      proof (cases "\<exists>chunks. x = Some (Inr chunks)")
        case False
        with assms(2) True flush call failed [OF f] show ?thesis by (auto simp: chatCompletion_def split: option.splits sum.splits)
      next
        case inr: True
        then obtain chunks where x: "x = Some (Inr chunks)" by blast
        let ?rel = "relay_chunks sc desc (an_clock an StageFirstToken) (an_gone an) 0 chunks (begin_stream r1)"
        show ?thesis
        proof (cases ?rel)
          case (StreamDrained r2)
          then have r: "r = finish_stream desc an (Some p) r2" using assms(2) True flush call x by (simp add: chatCompletion_def)
          have r2: "same_request rctx r2" using relay_drained [OF StreamDrained] r1 by (blast intro: same_request_trans)
          obtain r3 g where ws: "WriteSSE (fst (rd_StreamDone desc)) (snd (rd_StreamDone desc)) r2 = (r3, g)" by fastforce
          have "same_request rctx r3" by (rule same_request_trans [OF r2 WriteSSE_frame(1) [OF ws]])
          then have "same_request rctx (stream_aborted r3)" "same_request rctx (r3\<lparr>rc_RequestCompleted := True\<rparr>)"
            "same_request rctx (stream_aborted r2)"
            using r2 by (auto simp: same_request_def stream_aborted_def)
          from this [THEN priced] ws r show ?thesis
            by (cases g; cases "an_gone_end an") (simp_all add: finish_stream_def split: prod.splits)
        next
          case (StreamEnded r2)
          then have r: "r = price (Some p) r2" using assms(2) True flush call x by (simp add: chatCompletion_def)
          have "same_request rctx r2" using relay_ended [OF StreamEnded] r1 by (blast intro: same_request_trans)
          from priced [OF this] r show ?thesis by simp
        next
          case StreamPanic
          with assms(2) True flush call x show ?thesis by (simp add: chatCompletion_def)
        qed
      qed
    qed
  next
    case False
    obtain r1 x where call: "pv_ChatCompletion prov (Some req) (Some cred) rctx = (r1, x)" by fastforce
    have f: "upstream_only rctx r1" using chat_frame [of rctx "Some req" "Some cred"] call by simp
    show ?thesis
    proof (cases "\<exists>res. x = Some (Inr res)")
      case inr: True
      then obtain res where x: "x = Some (Inr res)" by blast
      let ?r2 = "price (Some p) (r1\<lparr>rc_Usage := env_Usage res\<rparr>)"
      let ?r3 = "Context_JSON (sc_marshal_response sc) 200 (rd_FromDiffract desc res) (?r2\<lparr>rc_ResponseStatus := 200\<rparr>)"
      have r: "r = ?r3\<lparr>rc_RequestCompleted := True\<rparr>" using assms(2) False call x by (simp add: chatCompletion_def Let_def)
      have "same_request rctx (r1\<lparr>rc_Usage := env_Usage res\<rparr>)" using upstream_only_same(1) [OF f] by (simp add: same_request_def)
      note p = priced [OF this]
      then have "same_request rctx (?r2\<lparr>rc_ResponseStatus := 200\<rparr>)" by (simp add: same_request_def)
      from same_request_trans [OF this Context_JSON_frame(1)] have "same_request rctx ?r3" .
      with p r show ?thesis by (simp add: Context_JSON_frame) (simp add: same_request_def)
    next
      case False2: False
      with assms(2) False call failed [OF f] show ?thesis by (auto simp: chatCompletion_def split: option.splits sum.splits)
    qed
  qed
qed

end

interpretation openai_served: served_provider "OpenAIProvider jc link transport" for jc link transport
  by unfold_locales (simp_all add: OpenAIProvider_def OpenAI_calls openai.chat_upstream_only openai.stream_upstream_only)

interpretation azure_served: served_provider "AzureProvider ai cache jc link transport" for ai cache jc link transport
  by unfold_locales (simp_all add: AzureProvider_def Azure_calls azure.chat_upstream_only azure.stream_upstream_only)

section \<open>The phases of a request\<close>

lemma hook_engine_phases:
  "preCallHooks (hook_engine s) = [ModelAccessHook (Some (model_lookup (srv_catalog s))), BudgetHook (gov_BudgetCache (srv_governance s))]"
  "preProviderHooks (hook_engine s) = []" "postProviderHooks (hook_engine s) = [RecordHook]"
  "postCallHooks (hook_engine s) = (if srv_metrics s = None then [] else [EventHook])"
  by (simp_all add: hook_engine_def Let_def RegisterHooks_new keep_engine_def Metrics_RegisterHooks_def AddPostCallHook_def maxHooks_def)

lemma hook_engine_pre_call:
  "RunPreCallHooks (hook_engine s) = RunPreCallHooks (RegisterHooks NewHookEngine (srv_governance s) (Some (model_lookup (srv_catalog s))))"
  by (simp add: fun_eq_iff RunPreCallHooks_def hook_engine_phases RegisterHooks_new)

text \<open>The hooks before the provider change the model key and the hook log only.\<close>

definition admission_only :: "DiffractLLMContext \<Rightarrow> DiffractLLMContext \<Rightarrow> bool" where
  "admission_only rc rc' \<longleftrightarrow> rc' = rc\<lparr>rc_Modelkey := rc_Modelkey rc', rc_HookLog := rc_HookLog rc'\<rparr>"

lemma admission_only_refl: "admission_only rc rc"
  by (simp add: admission_only_def)

lemma admission_only_trans: "admission_only a b \<Longrightarrow> admission_only b c \<Longrightarrow> admission_only a c"
  by (cases a; cases b; cases c) (simp add: admission_only_def)

lemma admission_only_log: "admission_only rc (rc\<lparr>rc_HookLog := l\<rparr>)"
  by (cases rc) (simp add: admission_only_def)

lemma admission_only_key: "admission_only rc (rc\<lparr>rc_Modelkey := k\<rparr>)"
  by (cases rc) (simp add: admission_only_def)

lemma run_rejecting_frame:
  assumes "\<And>h c. h \<in> set hooks \<Longrightarrow> admission_only c (fst (h_Execute h c))"
  shows "run_rejecting ph el i hooks rc = HookDone r e \<Longrightarrow> admission_only rc r"
  using assms
proof (induction hooks arbitrary: i rc)
  case (Cons h hooks)
  obtain c1 x where ex: "h_Execute h rc = (c1, x)" by fastforce
  let ?c2 = "c1\<lparr>rc_HookLog := log_hook ph HookRejected (h_Name h) (el i) x (rc_HookLog c1)\<rparr>"
  have c2: "admission_only rc ?c2"
    using Cons.prems(2) [of h rc] ex by (intro admission_only_trans [OF _ admission_only_log]) simp
  show ?case
  proof (cases x)
    case None
    with Cons.prems(1) ex have "run_rejecting ph el (Suc i) hooks ?c2 = HookDone r e" by (auto simp: Let_def split: if_splits)
    from Cons.IH [OF this] Cons.prems(2) have "admission_only ?c2 r" by simp
    with c2 show ?thesis by (rule admission_only_trans)
  next
    case (Some err)
    with Cons.prems(1) ex c2 show ?thesis by (auto simp: Let_def split: if_splits)
  qed
qed (simp add: admission_only_refl)

lemma run_logging_frame:
  assumes "\<And>h c. h \<in> set hooks \<Longrightarrow> admission_only c (fst (h_Execute h c))"
  shows "run_logging ph el i hooks rc = HookDone r e \<Longrightarrow> admission_only rc r"
  using assms
proof (induction hooks arbitrary: i rc)
  case (Cons h hooks)
  obtain c1 x where ex: "h_Execute h rc = (c1, x)" by fastforce
  let ?c2 = "c1\<lparr>rc_HookLog := log_hook ph HookFailed (h_Name h) (el i) x (rc_HookLog c1)\<rparr>"
  have c2: "admission_only rc ?c2"
    using Cons.prems(2) [of h rc] ex by (intro admission_only_trans [OF _ admission_only_log]) simp
  from Cons.prems(1) ex have "run_logging ph el (Suc i) hooks ?c2 = HookDone r e" by (auto simp: Let_def split: if_splits)
  from Cons.IH [OF this] Cons.prems(2) have "admission_only ?c2 r" by simp
  with c2 show ?case by (rule admission_only_trans)
qed (simp add: admission_only_refl)

lemma pre_call_frame:
  "RunPreCallHooks (hook_engine s) el rc = HookDone r e \<Longrightarrow> admission_only rc r"
  unfolding RunPreCallHooks_def
proof (erule run_rejecting_frame [rotated])
  fix h and c :: DiffractLLMContext
  assume "h \<in> set (preCallHooks (hook_engine s))"
  then consider "h = ModelAccessHook (Some (model_lookup (srv_catalog s)))" | "h = BudgetHook (gov_BudgetCache (srv_governance s))"
    by (auto simp: hook_engine_phases)
  then show "admission_only c (fst (h_Execute h c))"
    by cases (auto simp: ModelAccessHook_def BudgetHook_def ModelAccessHook_Execute_def BudgetHook_Execute_def admission_only_refl
        admission_only_key Let_def split: option.split prod.split)
qed

lemma post_frames:
  "RunPostProviderHooks (hook_engine s) el rc = HookDone r e \<Longrightarrow> admission_only rc r"
  "RunPostCallHooks (hook_engine s) el rc = HookDone r e \<Longrightarrow> admission_only rc r"
  "RunPreProviderHooks (hook_engine s) el rc = HookDone rc None"
proof -
  have quiet: "admission_only c (fst (h_Execute RecordHook c))" "admission_only c (fst (h_Execute EventHook c))" for c
    by (simp_all add: RecordHook_def EventHook_def admission_only_refl)
  show "admission_only rc r" if "RunPostProviderHooks (hook_engine s) el rc = HookDone r e"
    using that unfolding RunPostProviderHooks_def by (rule run_logging_frame [rotated]) (simp add: hook_engine_phases quiet)
  show "admission_only rc r" if "RunPostCallHooks (hook_engine s) el rc = HookDone r e"
    using that unfolding RunPostCallHooks_def by (rule run_logging_frame [rotated]) (simp add: hook_engine_phases quiet split: if_splits)
  show "RunPreProviderHooks (hook_engine s) el rc = HookDone rc None"
    by (simp add: RunPreProviderHooks_def hook_engine_phases)
qed

lemma prepare_steps:
  assumes "prepare sc desc re s rctx = Some (r, cur, Inr prep)"
  obtains r1 httpReq body payload r5 r6 where
    "ValidatevKeyAuth (srv_governance s) (re_now re) rctx = (r1, None)"
    "rc_Request r1 = Some httpReq" "readBody (srv_config s) (re_broken re) httpReq = Inr body"
    "sc_unmarshal_request sc body = Some payload"
    "RunPreCallHooks (hook_engine s) (re_elapsed re) (Mark (an_clock (re_answer re) StageParse) StageParse
       (fst (rd_ToDiffract desc payload (Mark (an_clock (re_answer re) StageReadBody) StageReadBody
         ((Mark (an_clock (re_answer re) StageAuth) StageAuth r1)\<lparr>rc_BodyBytes := body\<rparr>))))) = HookDone r5 None"
    "Resolve (Plane_Candidates (re_now re) (srv_plane s)) (re_draw re) (Mark (an_clock (re_answer re) StageAdmission) StageAdmission r5)
       (srv_cursors s) = (Inr (prep_cred prep), r6, cur)"
    "ResolvePrice (srv_catalog s) (rc_VirtualKeyID r6) (rc_Modelkey r6) EmptySelectorKey = Some (prep_pricing prep)"
    "Registry_Get (srv_registry s) (ck_Provider (rc_Modelkey r6)) = Inr (prep_provider prep)"
    "r = Mark (an_clock (re_answer re) StageRouting) StageRouting (r6\<lparr>rc_Pricing := Some (prep_pricing prep)\<rparr>)"
    "prep_request prep = snd (rd_ToDiffract desc payload (Mark (an_clock (re_answer re) StageReadBody) StageReadBody
         ((Mark (an_clock (re_answer re) StageAuth) StageAuth r1)\<lparr>rc_BodyBytes := body\<rparr>)))"
  using assms
  by (auto simp: prepare_def Let_def post_frames(3) Mark_def split: prod.splits option.splits sum.splits hook_outcome.splits)

lemma chat_descriptor:
  assumes "desc \<in> set OpenAIDescriptors"
  shows "rd_RequestKind desc = ChatRequest" "rd_ToDiffract desc = ToDMChatCompletionRequest" "rd_StreamDone desc = ([], ''[DONE]'')"
    "rd_FromDiffractError desc = (\<lambda>err. ([], ToOpenAIError err))"
    "rd_FromDiffractStream desc = (\<lambda>c. ([], ToOpenAIChatCompletionStreamResponse (Some c)))"
  using assms by (simp_all add: OpenAIDescriptors_def)

text \<open>The policies in the key cache name each provider once, as compiled ones do.\<close>

definition wf_policies :: "Governance \<Rightarrow> bool" where
  "wf_policies g \<longleftrightarrow> (\<forall>k vk. LookupVkey k (KeyCache g) = Some vk \<longrightarrow> distinct (map pcfg_Provider (vk_ProviderConfigs vk)))"

lemma auth_passed:
  assumes "ValidatevKeyAuth g now rctx = (r1, None)"
  obtains vk where "ValidateKeySignature (extractKey rctx)" "LookupVkey (extractKey rctx) (KeyCache g) = Some vk"
    "usable_key now vk" "r1 = identified vk rctx"
  using assms by (auto simp: ValidatevKeyAuth_def Let_def usable_key_def identified_def split: option.splits if_splits)

lemma readBody_bound:
  "readBody cfg broken req = Inr body \<Longrightarrow> body = req_Body req \<or> wrap64 (sv_MaxBodySize cfg * 2 ^ 10) < 0 \<and> body = []"
  by (auto simp: readBody_def Let_def split: if_splits)

text \<open>
  C2: A provider is called for a request only when all of this holds: the request carries a well-formed key
  that is known, active and not expired; the key permits the model; its budget is open; the body was
  read within the configured size; the credential is valid, serves the model, belongs to the provider of the request and
  that provider is configured on the key; the model has a price for this key; and the provider is
  registered. The request is then charged to the budget of that key.
\<close>

theorem provider_called_only_when_admitted:
  assumes prep: "prepare sc desc re s rctx = Some (r, cur, Inr prep)" and desc: "desc \<in> set OpenAIDescriptors"
    and pol: "wf_policies (srv_governance s)" and plane: "wf_plane (srv_plane s)" and log: "PreCallCount (rc_HookLog rctx) = 0"
  shows "\<exists>vk httpReq. ValidateKeySignature (extractKey rctx) \<and> LookupVkey (extractKey rctx) (KeyCache (srv_governance s)) = Some vk
    \<and> usable_key (re_now re) vk \<and> rc_BudgetRef r = vk_BudgetID vk \<and> rc_VirtualKeyID r = vk_ID vk
    \<and> rc_Request rctx = Some httpReq \<and> readBody (srv_config s) (re_broken re) httpReq = Inr (rc_BodyBytes r)
    \<and> model_permitted (Some (model_lookup (srv_catalog s))) vk (rc_RequestedModel r)
    \<and> budget_open (gov_BudgetCache (srv_governance s)) (vk_BudgetID vk)
    \<and> CheckValidity (re_now re) (Some (prep_cred prep)) \<and> CheckModel (Some (prep_cred prep)) (ck_ModelName (rc_Modelkey r))
    \<and> c_Provider (prep_cred prep) = ck_Provider (rc_Modelkey r) \<and> c_Provider (prep_cred prep) \<in> pcfg_Provider ` set (vk_ProviderConfigs vk)
    \<and> ResolvePrice (srv_catalog s) (vk_ID vk) (rc_Modelkey r) EmptySelectorKey = Some (prep_pricing prep)
    \<and> Registry_Get (srv_registry s) (c_Provider (prep_cred prep)) = Inr (prep_provider prep)"
proof -
  obtain r1 httpReq body payload r5 r6 where
    auth: "ValidatevKeyAuth (srv_governance s) (re_now re) rctx = (r1, None)"
    and req: "rc_Request r1 = Some httpReq" "readBody (srv_config s) (re_broken re) httpReq = Inr body"
    and pre: "RunPreCallHooks (hook_engine s) (re_elapsed re) (Mark (an_clock (re_answer re) StageParse) StageParse
       (fst (rd_ToDiffract desc payload (Mark (an_clock (re_answer re) StageReadBody) StageReadBody
         ((Mark (an_clock (re_answer re) StageAuth) StageAuth r1)\<lparr>rc_BodyBytes := body\<rparr>))))) = HookDone r5 None"
    and res: "Resolve (Plane_Candidates (re_now re) (srv_plane s)) (re_draw re) (Mark (an_clock (re_answer re) StageAdmission) StageAdmission r5)
       (srv_cursors s) = (Inr (prep_cred prep), r6, cur)"
    and pr: "ResolvePrice (srv_catalog s) (rc_VirtualKeyID r6) (rc_Modelkey r6) EmptySelectorKey = Some (prep_pricing prep)"
    and reg: "Registry_Get (srv_registry s) (ck_Provider (rc_Modelkey r6)) = Inr (prep_provider prep)"
    and r: "r = Mark (an_clock (re_answer re) StageRouting) StageRouting (r6\<lparr>rc_Pricing := Some (prep_pricing prep)\<rparr>)"
    using prepare_steps [OF prep] by metis
  obtain vk where vk: "ValidateKeySignature (extractKey rctx)" "LookupVkey (extractKey rctx) (KeyCache (srv_governance s)) = Some vk"
    "usable_key (re_now re) vk" "r1 = identified vk rctx" by (rule auth_passed [OF auth])
  let ?r4 = "Mark (an_clock (re_answer re) StageParse) StageParse
       (fst (rd_ToDiffract desc payload (Mark (an_clock (re_answer re) StageReadBody) StageReadBody
         ((Mark (an_clock (re_answer re) StageAuth) StageAuth r1)\<lparr>rc_BodyBytes := body\<rparr>))))"
  have r4: "rc_VirtualKeyPolicy ?r4 = Some vk" "rc_BudgetRef ?r4 = vk_BudgetID vk" "rc_VirtualKeyID ?r4 = vk_ID vk"
    "PreCallCount (rc_HookLog ?r4) = 0" "rc_BodyBytes ?r4 = body"
    by (simp_all add: chat_descriptor [OF desc] ToDMChatCompletionRequest_def Mark_def vk(4) identified_def log)
  have "distinct (map pcfg_Provider (vk_ProviderConfigs vk))" using pol vk(2) by (auto simp: wf_policies_def)
  from pre_call_admission [OF r4(1) this r4(4), of "srv_governance s" "Some (model_lookup (srv_catalog s))" "re_elapsed re"] pre
  have adm: "model_permitted (Some (model_lookup (srv_catalog s))) vk (rc_RequestedModel ?r4)"
    "budget_open (gov_BudgetCache (srv_governance s)) (vk_BudgetID vk)"
    by (auto simp: hook_engine_pre_call r4(2))
  note f = pre_call_frame [OF pre, unfolded admission_only_def]
  have r5: "rc_VirtualKeyPolicy r5 = Some vk" "rc_BudgetRef r5 = vk_BudgetID vk" "rc_VirtualKeyID r5 = vk_ID vk"
    "rc_RequestedModel r5 = rc_RequestedModel ?r4" "rc_BodyBytes r5 = body"
    using r4 by (subst f, simp)+
  from credential_source.resolve_sound [OF plane_source [OF plane] res] r5
  have cred: "c_Provider (prep_cred prep) \<in> pcfg_Provider ` set (vk_ProviderConfigs vk)" "CheckValidity (re_now re) (Some (prep_cred prep))"
    "CheckModel (Some (prep_cred prep)) (ck_ModelName (rc_Modelkey r5))"
    "r6 = (Mark (an_clock (re_answer re) StageAdmission) StageAdmission r5)
      \<lparr>rc_Modelkey := (rc_Modelkey r5)\<lparr>ck_Provider := c_Provider (prep_cred prep)\<rparr>, rc_SelectedCredential := Some (prep_cred prep)\<rparr>"
    by (auto simp: Mark_def)
  have "rc_Request rctx = Some httpReq" using req(1) vk(4) by (simp add: identified_def)
  moreover have "rc_Modelkey r = (rc_Modelkey r5)\<lparr>ck_Provider := c_Provider (prep_cred prep)\<rparr>" "rc_VirtualKeyID r6 = vk_ID vk" "rc_Modelkey r6 = rc_Modelkey r"
    "rc_BudgetRef r = vk_BudgetID vk" "rc_VirtualKeyID r = vk_ID vk" "rc_RequestedModel r = rc_RequestedModel ?r4" "rc_BodyBytes r = body"
    using cred(4) r r5 by (simp_all add: Mark_def)
  ultimately show ?thesis using vk adm cred pr reg req by (intro exI [of _ vk] exI [of _ httpReq]) simp
qed

section \<open>Every request is answered\<close>

text \<open>A provider that never makes the program panic: it returns, and an error event carries its error.\<close>

definition chunks_ok :: "DiffractLLMChatCompletionStreamResponse option list \<Rightarrow> bool" where
  "chunks_ok cs \<longleftrightarrow> list_all (\<lambda>c. ck_Type c = Some StreamEventError \<longrightarrow> ck_Error c \<noteq> None) (somes cs)"

definition provider_returns :: "ProviderImpl \<Rightarrow> bool" where
  "provider_returns prov \<longleftrightarrow> (\<forall>req cred rctx. snd (pv_ChatCompletion prov req cred rctx) \<noteq> None
     \<and> (case snd (pv_ChatCompletionStream prov req cred rctx) of None \<Rightarrow> False | Some (Inl _) \<Rightarrow> True | Some (Inr cs) \<Rightarrow> chunks_ok cs))"

lemma somes_map_Some [simp]: "somes (map Some xs) = xs"
  by (induction xs) auto

lemma stream_events_ok:
  "list_all (\<lambda>c. ck_Type c = Some StreamEventError \<longrightarrow> ck_Error c \<noteq> None) (stream_events jc provider safeURL pt data ending)"
  using stream_events_shape [of jc provider safeURL pt data ending]
  by (auto simp: list_all_iff error_chunk_def)

lemma HandleChatCompletionStream_chunks:
  "snd (HandleChatCompletionStream jc link transport cfg rctx) = Some (Inr cs) \<Longrightarrow>
    list_all (\<lambda>c. ck_Type c = Some StreamEventError \<longrightarrow> ck_Error c \<noteq> None) cs"
  using stream_events_ok
  by (auto simp: HandleChatCompletionStream_def Let_def list_all_iff split: sum.splits prod.splits option.splits if_splits dest: in_set_takeD)

lemma stream_with_returns:
  assumes "snd (stream_with config jc link transport req cred rctx) \<noteq> None"
  shows "case map_option (map_sum id (map Some)) (snd (stream_with config jc link transport req cred rctx)) of
    None \<Rightarrow> False | Some (Inl _) \<Rightarrow> True | Some (Inr cs) \<Rightarrow> chunks_ok cs"
proof -
  have chunks: "list_all (\<lambda>c. ck_Type c = Some StreamEventError \<longrightarrow> ck_Error c \<noteq> None) cs"
    if "snd (stream_with config jc link transport req cred rctx) = Some (Inr cs)" for cs
    using that HandleChatCompletionStream_chunks [of jc link transport] by (simp add: stream_with_def split: prod.splits sum.splits)
  obtain y where y: "snd (stream_with config jc link transport req cred rctx) = Some y" using assms by auto
  show ?thesis
  proof (cases y)
    case (Inr cs)
    with y chunks [of cs] show ?thesis by (simp add: chunks_ok_def)
  qed (simp add: y)
qed

lemma providers_return:
  assumes "0 \<le> up_MaxRetries (dt_defaultConfig transport)"
  shows "provider_returns (OpenAIProvider jc link transport)" "provider_returns (AzureProvider ai cache jc link transport)"
  unfolding provider_returns_def OpenAIProvider_def AzureProvider_def
  using stream_with_returns [OF openai.stream_returns [OF assms]] stream_with_returns [OF azure.stream_returns [OF assms]]
    openai.chat_returns [OF assms] azure.chat_returns [OF assms]
  by (simp_all add: OpenAI_calls Azure_calls)

lemma relay_no_panic: "chunks_ok cs \<Longrightarrow> relay_chunks sc desc now gone i cs rc \<noteq> StreamPanic"
proof (induction cs arbitrary: i rc)
  case (Cons c cs)
  show ?case
  proof (cases c)
    case None
    with Cons show ?thesis by (auto simp: chunks_ok_def)
  next
    case (Some chunk)
    with Cons show ?thesis by (auto simp: chunks_ok_def Let_def split: prod.splits bool.splits)
  qed
qed simp

lemma chatCompletion_returns:
  assumes "provider_returns prov"
  shows "chatCompletion sc desc an prov cred pricing req rctx \<noteq> None"
proof -
  obtain r1 x where s1: "pv_ChatCompletionStream prov (Some req) (Some cred) rctx = (r1, x)" by fastforce
  obtain r2 y where s2: "pv_ChatCompletion prov (Some req) (Some cred) rctx = (r2, y)" by fastforce
  have "y \<noteq> None" "case x of None \<Rightarrow> False | Some (Inl _) \<Rightarrow> True | Some (Inr cs) \<Rightarrow> chunks_ok cs"
    using assms s1 s2 unfolding provider_returns_def by (metis snd_conv)+
  then show ?thesis
    by (auto simp: chatCompletion_def s1 s2 Let_def relay_no_panic split: option.split sum.split stream_result.split)
qed

lemma pre_call_counts:
  assumes "\<And>h c. h \<in> set hooks \<Longrightarrow> rc_HookLog (fst (h_Execute h c)) = rc_HookLog c"
  shows "run_rejecting phPreCall el i hooks rc = HookDone r e \<Longrightarrow>
    PostProviderCount (rc_HookLog r) = PostProviderCount (rc_HookLog rc) \<and> PostCallCount (rc_HookLog r) = PostCallCount (rc_HookLog rc)"
  using assms
proof (induction hooks arbitrary: i rc)
  case (Cons h hooks)
  obtain c1 x where ex: "h_Execute h rc = (c1, x)" by fastforce
  have l: "rc_HookLog c1 = rc_HookLog rc" using Cons.prems(2) [of h rc] ex by simp
  have log: "PostProviderCount (log_hook phPreCall a b c d l) = PostProviderCount l" "PostCallCount (log_hook phPreCall a b c d l) = PostCallCount l" for a b c d l
    by (simp_all add: log_hook_def phPreCall_def Let_def)
  show ?case using Cons.prems(1) ex Cons.IH [OF _ Cons.prems(2)] by (auto simp: Let_def l log split: if_splits option.splits)
qed simp

lemma run_logging_returns:
  assumes "ph_count ph (rc_HookLog rc) = 0" "length hooks \<le> 1" "\<And>h c. h \<in> set hooks \<Longrightarrow> fst (h_Execute h c) = c"
  shows "\<exists>r e. run_logging ph el i hooks rc = HookDone r e"
proof (cases hooks)
  case (Cons h hs)
  with assms(2) have "hs = []" by simp
  moreover obtain x where "h_Execute h rc = (rc, x)" using assms(3) [of h rc] Cons by (metis list.set_intros(1) prod.collapse)
  ultimately show ?thesis using Cons assms(1) by (simp add: maxHooks_def)
qed simp

lemma Resolve_frame:
  assumes "Resolve Candidates u rctx cs = (x, r, cs')"
  shows "rc_HookLog r = rc_HookLog rctx \<and> rc_Usage r = rc_Usage rctx \<and> rc_StartedAt r = rc_StartedAt rctx
    \<and> rc_BudgetRef r = rc_BudgetRef rctx"
  using assms by (auto simp: Resolve_def resolveExplicit_def resolveWeighted_def Let_def commit_def
      split: option.splits prod.splits if_splits)

text \<open>What the steps before the provider keep: the counters of the later hook phases and the absence of a usage.\<close>

definition kept :: "DiffractLLMContext \<Rightarrow> DiffractLLMContext \<Rightarrow> bool" where
  "kept rc r \<longleftrightarrow> PostProviderCount (rc_HookLog r) = PostProviderCount (rc_HookLog rc) \<and> PostCallCount (rc_HookLog r) = PostCallCount (rc_HookLog rc)
     \<and> rc_Usage r = rc_Usage rc \<and> rc_StartedAt r = rc_StartedAt rc"

lemma prepare_returns:
  assumes desc: "desc \<in> set OpenAIDescriptors" and pol: "wf_policies (srv_governance s)"
    and log: "PreCallCount (rc_HookLog rctx) = 0" and req: "rc_Request rctx = Some httpReq"
  shows "\<exists>r cur x. prepare sc desc re s rctx = Some (r, cur, x) \<and> kept rctx r"
proof -
  obtain r1 a where auth: "ValidatevKeyAuth (srv_governance s) (re_now re) rctx = (r1, a)" by fastforce
  show ?thesis
  proof (cases a)
    case (Some err)
    with auth have "r1 = rctx" by (auto simp: ValidatevKeyAuth_def Let_def split: option.splits if_splits)
    with Some auth show ?thesis by (auto simp: prepare_def Let_def kept_def)
  next
    case None
    then obtain vk where vk: "LookupVkey (extractKey rctx) (KeyCache (srv_governance s)) = Some vk" "r1 = identified vk rctx"
      using auth auth_passed by metis
    let ?clk = "an_clock (re_answer re)"
    let ?r2 = "Mark (?clk StageAuth) StageAuth r1"
    have r2: "rc_Request ?r2 = Some httpReq" using req vk(2) by (simp add: Mark_def identified_def)
    have k2: "kept rctx ?r2" by (simp add: vk(2) kept_def Mark_def identified_def)
    show ?thesis
    proof (cases "readBody (srv_config s) (re_broken re) httpReq")
      case (Inl err)
      with auth None r2 k2 show ?thesis by (auto simp: prepare_def Let_def)
    next
      case (Inr body)
      let ?r3 = "Mark (?clk StageReadBody) StageReadBody (?r2\<lparr>rc_BodyBytes := body\<rparr>)"
      have k3: "kept rctx ?r3" using k2 by (simp add: kept_def Mark_def)
      show ?thesis
      proof (cases "sc_unmarshal_request sc body")
        case None2: None
        with auth None r2 Inr k3 show ?thesis by (auto simp: prepare_def Let_def)
      next
        case (Some payload)
        let ?r4 = "Mark (?clk StageParse) StageParse (fst (rd_ToDiffract desc payload ?r3))"
        have r4: "rc_VirtualKeyPolicy ?r4 = Some vk" "PreCallCount (rc_HookLog ?r4) = 0" and k4: "kept rctx ?r4"
          using k3 by (simp_all add: chat_descriptor [OF desc] ToDMChatCompletionRequest_def Mark_def vk(2) identified_def log kept_def)
        have "distinct (map pcfg_Provider (vk_ProviderConfigs vk))" using pol vk(1) by (auto simp: wf_policies_def)
        from pre_call_admission [OF r4(1) this r4(2), of "srv_governance s" "Some (model_lookup (srv_catalog s))" "re_elapsed re"]
        obtain r5 e where pre: "RunPreCallHooks (hook_engine s) (re_elapsed re) ?r4 = HookDone r5 e" by (auto simp: hook_engine_pre_call)
        have quiet: "rc_HookLog (fst (h_Execute h c)) = rc_HookLog c"
          if "h \<in> set [ModelAccessHook (Some (model_lookup (srv_catalog s))), BudgetHook (gov_BudgetCache (srv_governance s))]" for h c
          using that by (auto simp: ModelAccessHook_def BudgetHook_def ModelAccessHook_Execute_def BudgetHook_Execute_def
              Let_def split: option.split prod.split)
        have "rc_Usage r5 = rc_Usage ?r4" "rc_StartedAt r5 = rc_StartedAt ?r4"
          by (subst pre_call_frame [OF pre, unfolded admission_only_def], simp)+
        with pre_call_counts [OF quiet pre [unfolded RunPreCallHooks_def hook_engine_phases]]
        have "kept ?r4 r5" by (simp add: kept_def)
        then have k5: "kept rctx r5" using k4 by (simp add: kept_def)
        obtain x6 r6 cur where res: "Resolve (Plane_Candidates (re_now re) (srv_plane s)) (re_draw re)
          (Mark (?clk StageAdmission) StageAdmission r5) (srv_cursors s) = (x6, r6, cur)" by (metis prod_cases3)
        have k6: "kept rctx r6" using Resolve_frame [OF res] k5 by (simp add: kept_def Mark_def)
        then have k7: "kept rctx (r6\<lparr>rc_Pricing := p\<rparr>)" "kept rctx (Mark t StageRouting (r6\<lparr>rc_Pricing := p\<rparr>))" for p t
          by (simp_all add: kept_def Mark_def)
        from auth None r2 Inr Some pre res k5 k6 k7 show ?thesis
          by (cases e; cases x6) (auto simp: prepare_def Let_def post_frames(3) split: prod.split option.split sum.split)
      qed
    qed
  qed
qed

text \<open>The state of a server between two requests.\<close>

definition server_wf :: "server \<Rightarrow> bool" where
  "server_wf s \<longleftrightarrow> wf_policies (srv_governance s) \<and> list_all clean (srv_pool s)
     \<and> (\<exists>ai cache jc link transport. srv_registry s = gateway_registry ai cache jc link transport
          \<and> 0 \<le> up_MaxRetries (dt_defaultConfig transport))"

lemma registry_provider:
  assumes "Registry_Get (gateway_registry ai cache jc link transport) p = Inr prov"
  shows "prov = OpenAIProvider jc link transport \<or> prov = AzureProvider ai cache jc link transport"
  using assms
  by (auto simp: Registry_Get_def gateway_registry_def Register_def NewProviderInstance_def OpenAIProvider_def AzureProvider_def
      split: option.splits if_splits)

definition started :: "RouteDescriptor \<Rightarrow> request_env \<Rightarrow> ResponseWriter \<Rightarrow> DiffractLLMContext \<Rightarrow> DiffractLLMContext" where
  "started desc re w rctx0 = rctx0\<lparr>rc_RequestID := Header_Get ''X-Request-ID'' (w_Header w), rc_SDKProvider := rd_SDK desc,
     rc_RequestKind := Some (rd_RequestKind desc), rc_StartedAt := re_now re\<rparr>"

lemma started_fresh:
  assumes "list_all clean pool"
  shows "PreCallCount (rc_HookLog (started desc re w (fst (Pool_Acquire ch ctx req w pool)))) = 0"
    "PostProviderCount (rc_HookLog (started desc re w (fst (Pool_Acquire ch ctx req w pool)))) = 0"
    "PostCallCount (rc_HookLog (started desc re w (fst (Pool_Acquire ch ctx req w pool)))) = 0"
    "rc_Request (started desc re w (fst (Pool_Acquire ch ctx req w pool))) = Some req"
    "rc_Usage (started desc re w (fst (Pool_Acquire ch ctx req w pool))) = None"
    "extractKey (started desc re w (fst (Pool_Acquire ch ctx req w pool))) = extractKey (DiffractLLMContext_zero\<lparr>rc_Request := Some req\<rparr>)"
proof -
  obtain hl where hl: "fst (Pool_Acquire ch ctx req w pool)
      = DiffractLLMContext_zero\<lparr>rc_HookLog := hl, rc_ctx := Some ctx, rc_Request := Some req, rc_Writer := Some w\<rparr>" "HookLog_reset hl = hl"
    using Pool_Acquire_clean [OF assms] by blast
  have "PreCallCount hl = 0" "PostProviderCount hl = 0" "PostCallCount hl = 0"
    by (subst hl(2) [symmetric], simp add: HookLog_reset_def)+
  then show "PreCallCount (rc_HookLog (started desc re w (fst (Pool_Acquire ch ctx req w pool)))) = 0"
    "PostProviderCount (rc_HookLog (started desc re w (fst (Pool_Acquire ch ctx req w pool)))) = 0"
    "PostCallCount (rc_HookLog (started desc re w (fst (Pool_Acquire ch ctx req w pool)))) = 0"
    by (simp_all add: hl started_def)
  show "rc_Request (started desc re w (fst (Pool_Acquire ch ctx req w pool))) = Some req"
    "rc_Usage (started desc re w (fst (Pool_Acquire ch ctx req w pool))) = None"
    "extractKey (started desc re w (fst (Pool_Acquire ch ctx req w pool))) = extractKey (DiffractLLMContext_zero\<lparr>rc_Request := Some req\<rparr>)"
    by (simp_all add: hl started_def DiffractLLMContext_zero_def extractKey_def request_header_def)
qed

lemma Pool_Acquire_rest: "list_all clean pool \<Longrightarrow> list_all clean (snd (Pool_Acquire ch ctx req w pool))"
  by (auto simp: Pool_Acquire_def list_all_iff split: option.splits dest: in_set_takeD in_set_dropD)

lemma RecordHook_keys: "KeyCache (RecordHook_Execute rctx g) = KeyCache g"
  by (auto simp: RecordHook_Execute_def Let_def split: option.splits)

lemma post_provider_returns:
  assumes "PostProviderCount (rc_HookLog r) = 0" "PostCallCount (rc_HookLog r) = 0"
  shows "\<exists>r2 e. RunPostProviderHooks (hook_engine s) el r = HookDone r2 e \<and> PostCallCount (rc_HookLog r2) = 0"
  using assms
  by (simp add: RunPostProviderHooks_def hook_engine_phases RecordHook_def maxHooks_def phPostProvider_def log_hook_def Let_def)

lemma post_call_returns:
  assumes "PostCallCount (rc_HookLog r) = 0"
  shows "\<exists>r2 e. RunPostCallHooks (hook_engine s) el r = HookDone r2 e"
  unfolding RunPostCallHooks_def
  by (rule run_logging_returns) (use assms in \<open>auto simp: hook_engine_phases phPostCall_def EventHook_def split: if_splits\<close>)

lemma serve_prepared_returns:
  assumes "provider_returns (prep_provider prep)" "served_provider (prep_provider prep)" "rc_Usage r = None"
    "PostProviderCount (rc_HookLog r) = 0" "PostCallCount (rc_HookLog r) = 0"
  shows "\<exists>r2 g. serve_prepared sc desc re s prep r = Some (r2, g) \<and> PostCallCount (rc_HookLog r2) = 0 \<and> KeyCache g = KeyCache (srv_governance s)"
proof -
  let ?c = "if rd_RequestKind desc = ChatRequest
       then chatCompletion sc desc (re_answer re) (prep_provider prep) (prep_cred prep) (Some (prep_pricing prep)) (prep_request prep) r
       else Some (writeErr sc desc (NewInternalError ''server handler'' ''unknown request kind'' None) r)"
  obtain r1 where r1: "?c = Some r1" using chatCompletion_returns [OF assms(1)] by fastforce
  have "same_request r r1"
    using r1 served_provider.chatCompletion_billing [OF assms(2,3)] writeErr_frame(1) by (auto split: if_splits)
  then have "rc_HookLog r1 = rc_HookLog r" by (simp add: same_request_def)
  then obtain r2 e where "RunPostProviderHooks (hook_engine s) (re_elapsed re) r1 = HookDone r2 e" "PostCallCount (rc_HookLog r2) = 0"
    using post_provider_returns [of r1] assms(4,5) by fastforce
  then show ?thesis using r1 by (auto simp: serve_prepared_def RecordHook_keys)
qed

lemma handler_progress:
  assumes wf: "server_wf s" and desc: "desc \<in> set OpenAIDescriptors"
  shows "\<exists>rctx s'. GenericRequestHandler sc desc re req w s = Some (rctx, s') \<and> server_wf s' \<and> srv_registry s' = srv_registry s"
proof -
  obtain ai cache jc link transport where reg: "srv_registry s = gateway_registry ai cache jc link transport"
    "0 \<le> up_MaxRetries (dt_defaultConfig transport)" using wf by (auto simp: server_wf_def)
  have pol: "wf_policies (srv_governance s)" and pool: "list_all clean (srv_pool s)" using wf by (auto simp: server_wf_def)
  obtain rctx0 rest where acq: "Pool_Acquire (re_choice re) (re_ctx re) req w (srv_pool s) = (rctx0, rest)" by fastforce
  note fresh = started_fresh [OF pool, of desc re w "re_choice re" "re_ctx re" req, unfolded acq fst_conv]
  have rest: "list_all clean rest" using Pool_Acquire_rest [OF pool, of "re_choice re" "re_ctx re" req w] acq by simp
  obtain r cur x where prep: "prepare sc desc re s (started desc re w rctx0) = Some (r, cur, x)" "kept (started desc re w rctx0) r"
    using prepare_returns [OF desc pol fresh(1) fresh(4)] by blast
  let ?served = "case x of Inl err \<Rightarrow> Some (writeErr sc desc err r, cur, srv_governance s)
    | Inr prep \<Rightarrow> map_option (\<lambda>(r2, g). (r2, cur, g)) (serve_prepared sc desc re s prep r)"
  have "\<exists>r2 g. ?served = Some (r2, cur, g) \<and> PostCallCount (rc_HookLog r2) = 0 \<and> KeyCache g = KeyCache (srv_governance s)"
  proof (cases x)
    case (Inl err)
    have "rc_HookLog (writeErr sc desc err r) = rc_HookLog r" using writeErr_frame(1) [of r] by (simp add: same_request_def)
    with Inl prep(2) fresh show ?thesis by (simp add: kept_def)
  next
    case (Inr p)
    from prep(1) Inr have "Registry_Get (srv_registry s) (ck_Provider (rc_Modelkey r)) = Inr (prep_provider p)"
      by (auto elim!: prepare_steps simp: Mark_def)
    then have "prep_provider p = OpenAIProvider jc link transport \<or> prep_provider p = AzureProvider ai cache jc link transport"
      using registry_provider reg(1) by metis
    then have "provider_returns (prep_provider p)" "served_provider (prep_provider p)"
      using providers_return [OF reg(2)] openai_served.served_provider_axioms azure_served.served_provider_axioms by auto
    from serve_prepared_returns [OF this] prep(2) fresh Inr show ?thesis by (fastforce simp: kept_def)
  qed
  then obtain r2 g where served: "?served = Some (r2, cur, g)" "PostCallCount (rc_HookLog r2) = 0" "KeyCache g = KeyCache (srv_governance s)" by blast
  obtain r3 e where post: "RunPostCallHooks (hook_engine s) (re_elapsed re) r2 = HookDone r3 e" using post_call_returns [OF served(2)] by blast
  let ?s' = "s\<lparr>srv_cursors := cur, srv_governance := g, srv_pool := Pool_Release r3 rest,
     srv_metrics := map_option (\<lambda>m. fst (AddEvent (re_uuid re) (re_now re) r2 m)) (srv_metrics s)\<rparr>"
  have "GenericRequestHandler sc desc re req w s = Some (r3, ?s')"
    using acq prep(1) served(1) post by (cases x) (simp_all add: GenericRequestHandler_def started_def Let_def)
  moreover have "server_wf ?s'"
    using pol rest wf served(3) by (simp add: server_wf_def wf_policies_def Pool_Release_def clean_reset)
  ultimately show ?thesis by fastforce
qed


section \<open>What a request costs\<close>

lemma prepare_budget:
  assumes "prepare sc desc re s rctx = Some (r, cur, Inr prep)" and desc: "desc \<in> set OpenAIDescriptors"
  shows "\<exists>vk. LookupVkey (extractKey rctx) (KeyCache (srv_governance s)) = Some vk \<and> usable_key (re_now re) vk \<and> rc_BudgetRef r = vk_BudgetID vk"
  using assms(1)
proof (rule prepare_steps)
  fix r1 httpReq body payload r5 r6
  assume auth: "ValidatevKeyAuth (srv_governance s) (re_now re) rctx = (r1, None)"
    and pre: "RunPreCallHooks (hook_engine s) (re_elapsed re) (Mark (an_clock (re_answer re) StageParse) StageParse
       (fst (rd_ToDiffract desc payload (Mark (an_clock (re_answer re) StageReadBody) StageReadBody
         ((Mark (an_clock (re_answer re) StageAuth) StageAuth r1)\<lparr>rc_BodyBytes := body\<rparr>))))) = HookDone r5 None"
    and res: "Resolve (Plane_Candidates (re_now re) (srv_plane s)) (re_draw re) (Mark (an_clock (re_answer re) StageAdmission) StageAdmission r5)
       (srv_cursors s) = (Inr (prep_cred prep), r6, cur)"
    and r: "r = Mark (an_clock (re_answer re) StageRouting) StageRouting (r6\<lparr>rc_Pricing := Some (prep_pricing prep)\<rparr>)"
  obtain vk where vk: "LookupVkey (extractKey rctx) (KeyCache (srv_governance s)) = Some vk" "usable_key (re_now re) vk" "r1 = identified vk rctx"
    by (rule auth_passed [OF auth])
  have "rc_BudgetRef r5 = vk_BudgetID vk"
    by (subst pre_call_frame [OF pre, unfolded admission_only_def])
      (simp add: chat_descriptor [OF desc] ToDMChatCompletionRequest_def Mark_def vk(3) identified_def)
  with Resolve_frame [OF res] r vk show ?thesis by (auto simp: Mark_def)
qed

lemma record_charge:
  "rc_Usage rctx = None \<Longrightarrow> RecordHook_Execute rctx g = g"
  "rc_Usage rctx = Some u \<Longrightarrow> LookupBudget ref (gov_BudgetCache (RecordHook_Execute rctx g)) =
     (if ref = rc_BudgetRef rctx then map_option (RecordUsage (ToNanoUSD (rc_Cost rctx))) (LookupBudget ref (gov_BudgetCache g))
      else LookupBudget ref (gov_BudgetCache g))"
  by (auto simp: RecordHook_Execute_def Let_def LookupBudget_update split: option.splits)

lemma admission_only_money:
  assumes "admission_only a b"
  shows "rc_Usage b = rc_Usage a" "rc_Pricing b = rc_Pricing a" "rc_BudgetRef b = rc_BudgetRef a" "rc_Cost b = rc_Cost a"
    "rc_VirtualKeyID b = rc_VirtualKeyID a"
  using assms by (cases a; cases b; simp add: admission_only_def)+

text \<open>
  C1: What a handled request costs. Without a reported usage nothing is charged at all: governance is exactly as before.
  With one, the budget of the key that authenticated the request, and no other, is charged once, with the price
  of that usage under the price sheet that was resolved for the key and the model, rounded to nano-dollars;
  up to 2^50 nano-dollars the way over the floating point cost of the context loses nothing.
\<close>

theorem request_charged_once:
  assumes wf: "server_wf s" and desc: "desc \<in> set OpenAIDescriptors"
    and run: "GenericRequestHandler sc desc re req w s = Some (rctx, s')"
  shows "case rc_Usage rctx of None \<Rightarrow> srv_governance s' = srv_governance s
    | Some u \<Rightarrow> \<exists>vk p. LookupVkey (extractKey (DiffractLLMContext_zero\<lparr>rc_Request := Some req\<rparr>)) (KeyCache (srv_governance s)) = Some vk
        \<and> usable_key (re_now re) vk \<and> rc_Pricing rctx = Some p
        \<and> rc_Cost rctx = FromNanoUSD (ToNanoUSD (CalculateCost p u))
        \<and> (ToNanoUSD (CalculateCost p u) \<le> 2 ^ 50 \<longrightarrow> ToNanoUSD (rc_Cost rctx) = ToNanoUSD (CalculateCost p u))
        \<and> LookupBudget ref (gov_BudgetCache (srv_governance s')) = (if ref = vk_BudgetID vk
              then map_option (RecordUsage (ToNanoUSD (rc_Cost rctx))) (LookupBudget ref (gov_BudgetCache (srv_governance s)))
              else LookupBudget ref (gov_BudgetCache (srv_governance s)))"
proof -
  have pool: "list_all clean (srv_pool s)" using wf by (simp add: server_wf_def)
  obtain ai cache jc link transport where reg: "srv_registry s = gateway_registry ai cache jc link transport" using wf by (auto simp: server_wf_def)
  obtain rctx0 rest where acq: "Pool_Acquire (re_choice re) (re_ctx re) req w (srv_pool s) = (rctx0, rest)" by fastforce
  note fresh = started_fresh [OF pool, of desc re w "re_choice re" "re_ctx re" req, unfolded acq fst_conv]
  have pol: "wf_policies (srv_governance s)" using wf by (simp add: server_wf_def)
  obtain r cur x where prep: "prepare sc desc re s (started desc re w rctx0) = Some (r, cur, x)" "kept (started desc re w rctx0) r"
    using prepare_returns [OF desc pol fresh(1) fresh(4)] by blast
  have none: "rc_Usage r = None" using prep(2) fresh(5) by (simp add: kept_def)
  show ?thesis
  proof (cases x)
    case (Inl err)
    obtain e where post: "RunPostCallHooks (hook_engine s) (re_elapsed re) (writeErr sc desc err r) = HookDone rctx e"
      and g: "srv_governance s' = srv_governance s"
      using run acq prep(1) Inl by (auto simp: GenericRequestHandler_def started_def Let_def split: hook_outcome.splits)
    from admission_only_money(1) [OF post_frames(2) [OF post]] none have "rc_Usage rctx = None" by (simp add: writeErr_frame)
    with g show ?thesis by simp
  next
    case (Inr p)
    then obtain r1 r2 e2 e where call: "chatCompletion sc desc (re_answer re) (prep_provider p) (prep_cred p) (Some (prep_pricing p)) (prep_request p) r = Some r1"
      and pp: "RunPostProviderHooks (hook_engine s) (re_elapsed re) r1 = HookDone r2 e2"
      and pc: "RunPostCallHooks (hook_engine s) (re_elapsed re) r2 = HookDone rctx e"
      and g: "srv_governance s' = RecordHook_Execute r1 (srv_governance s)"
      using run acq prep(1) chat_descriptor(1) [OF desc]
      by (auto simp: GenericRequestHandler_def serve_prepared_def started_def Let_def split: hook_outcome.splits option.splits)
    note money = admission_only_money [OF post_frames(1) [OF pp]] admission_only_money [OF post_frames(2) [OF pc]]
    from prep(1) Inr have steps: "Registry_Get (srv_registry s) (ck_Provider (rc_Modelkey r)) = Inr (prep_provider p)"
      "rc_Pricing r = Some (prep_pricing p)"
      by (auto elim!: prepare_steps simp: Mark_def)
    from steps(1) have "prep_provider p = OpenAIProvider jc link transport \<or> prep_provider p = AzureProvider ai cache jc link transport"
      using registry_provider reg by metis
    then have "served_provider (prep_provider p)"
      using openai_served.served_provider_axioms azure_served.served_provider_axioms by auto
    from served_provider.chatCompletion_billing [OF this none call]
    have bill: "same_request r r1" "\<forall>u. rc_Usage r1 = Some u \<longrightarrow> rc_Cost r1 = FromNanoUSD (ToNanoUSD (CalculateCost (prep_pricing p) u))" by auto
    obtain vk where vk: "LookupVkey (extractKey (started desc re w rctx0)) (KeyCache (srv_governance s)) = Some vk" "usable_key (re_now re) vk"
      "rc_BudgetRef r = vk_BudgetID vk"
      using prepare_budget [OF prep(1) [unfolded Inr] desc] by blast
    show ?thesis
    proof (cases "rc_Usage r1")
      case None
      then show ?thesis using money g record_charge(1) [OF None] by simp
    next
      case (Some u)
      have "rc_Pricing rctx = Some (prep_pricing p)" "rc_BudgetRef r1 = vk_BudgetID vk"
        using money bill(1) steps(2) vk(3) by (simp_all add: same_request_def)
      moreover have "rc_Cost r1 = FromNanoUSD (ToNanoUSD (CalculateCost (prep_pricing p) u))" using bill(2) Some by simp
      moreover have "ToNanoUSD (rc_Cost r1) = ToNanoUSD (CalculateCost (prep_pricing p) u)"
        if "ToNanoUSD (CalculateCost (prep_pricing p) u) \<le> 2 ^ 50"
        using bill(2) Some that NanoUSD_round_trip [of "ToNanoUSD (CalculateCost (prep_pricing p) u)"] ToNanoUSD_bounds by simp
      ultimately show ?thesis using vk Some money g record_charge(2) [OF Some, of ref "srv_governance s"] fresh(6) by auto
    qed
  qed
qed

section \<open>Complete streams\<close>

lemma HandleChatCompletionStream_events:
  "snd (HandleChatCompletionStream jc link transport cfg rctx) = Some (Inr cs) \<Longrightarrow> ul_cancel link = None \<Longrightarrow>
    \<exists>url pt n. cs = stream_events jc (cc_Provider cfg) url pt (ul_data link n) (ul_end link n)"
  by (auto simp: HandleChatCompletionStream_def Let_def split: sum.splits prod.splits option.splits if_splits)

lemma stream_with_events:
  "snd (stream_with config jc link transport req cred rctx) = Some (Inr cs) \<Longrightarrow> ul_cancel link = None \<Longrightarrow>
    \<exists>prov url pt n. cs = stream_events jc prov url pt (ul_data link n) (ul_end link n)"
  using HandleChatCompletionStream_events [of jc link transport] by (fastforce simp: stream_with_def split: prod.splits sum.splits)

lemma completed_stream:
  assumes "ChatRequest_IsStreaming req" "chatCompletion sc desc an prov cred pricing req rctx = Some r"
    "\<not> rc_RequestCompleted rctx" "rc_RequestCompleted r" "rc_Writer rctx = Some w"
    "served_provider prov" "rd_StreamDone desc = ([], ''[DONE]'')"
  shows "\<exists>chunks w'. snd (pv_ChatCompletionStream prov (Some req) (Some cred) rctx) = Some (Inr chunks) \<and> \<not> an_gone_end an
    \<and> list_all (\<lambda>c. ck_Type c \<noteq> Some StreamEventError) (somes chunks) \<and> rc_Writer r = Some w'
    \<and> w_Body w' = w_Body w @ concat (map (chunk_frame sc desc) (somes chunks)) @ sse_frame [] ''[DONE]''
    \<and> rc_Usage r = foldl usage_step (rc_Usage rctx) (somes chunks)"
proof -
  obtain r1 x where call: "pv_ChatCompletionStream prov (Some req) (Some cred) rctx = (r1, x)" by fastforce
  have f: "upstream_only rctx r1" using served_provider.stream_frame [OF assms(6), of rctx "Some req" "Some cred"] call by simp
  have r1: "\<not> rc_RequestCompleted (begin_stream r1)" "map_option w_Body (rc_Writer (begin_stream r1)) = Some (w_Body w)"
    "rc_Usage (begin_stream r1) = rc_Usage rctx"
    using upstream_only_same [OF f] assms(3,5) by (simp_all add: begin_stream_frame)
  let ?rel = "\<lambda>chunks. relay_chunks sc desc (an_clock an StageFirstToken) (an_gone an) 0 chunks (begin_stream r1)"
  have nc: "\<not> rc_RequestCompleted (writeErr sc desc e r1)" "\<not> rc_RequestCompleted (writeErr sc desc e rctx)" for e
    using upstream_only_same [OF f] assms(3) by (simp_all add: writeErr_frame)
  obtain chunks r2 where c: "x = Some (Inr chunks)" "?rel chunks = StreamDrained r2" "r = finish_stream desc an pricing r2"
  proof -
    have "\<exists>chunks r2. x = Some (Inr chunks) \<and> ?rel chunks = StreamDrained r2 \<and> r = finish_stream desc an pricing r2"
      using assms(1,2,4) call nc r1(1) relay_ended [of sc desc "an_clock an StageFirstToken" "an_gone an" 0 _ "begin_stream r1"]
      by (auto simp: chatCompletion_def price_frame split: if_splits option.splits sum.splits stream_result.splits)
    then show thesis using that by blast
  qed
  note d = relay_drained [OF c(2)]
  have nr2: "\<not> rc_RequestCompleted r2" using d r1(1) by simp
  obtain r3 g where ws: "WriteSSE [] ''[DONE]'' r2 = (r3, g)" by fastforce
  have fin: "\<not> an_gone_end an" g "r = price pricing (r3\<lparr>rc_RequestCompleted := True\<rparr>)"
    using c(3) assms(4,7) ws nr2 WriteSSE_frame(4) [OF ws]
    by (auto simp: finish_stream_def price_frame stream_aborted_frame split: if_splits bool.splits)
  obtain wb where wb: "rc_Writer (begin_stream r1) = Some wb" "w_Body wb = w_Body w" using r1(2) by auto
  then obtain w2 where w2: "rc_Writer r2 = Some w2" "w_Body w2 = w_Body w @ concat (map (chunk_frame sc desc) (somes chunks))" using d by auto
  then obtain w3 where w3: "rc_Writer r3 = Some w3" "w_Body w3 = w_Body w2 @ sse_frame [] ''[DONE]''" using WriteSSE_frame(8) [OF ws fin(2)] by auto
  have "rc_Writer r = Some w3" "rc_Usage r = rc_Usage r2" using fin(3) w3 WriteSSE_frame(2) [OF ws] by (simp_all add: price_frame)
  with c call d w2 w3 fin(1) r1(3) show ?thesis by auto
qed

text \<open>
  C4: A stream that is recorded as completed was complete: the upstream sent its end marker, every chunk the provider handed
  over was written to the client as one event, in order and followed by the end marker, none of them was an
  error, and the usage is the one the chunks report. The provider stops early only when the client is gone.
\<close>

theorem completed_stream_was_complete:
  assumes "ChatRequest_IsStreaming req" "chatCompletion sc desc an (OpenAIProvider jc link transport) cred pricing req rctx = Some r"
    and "\<not> rc_RequestCompleted rctx" "rc_RequestCompleted r" "rc_Writer rctx = Some w" "desc \<in> set OpenAIDescriptors"
    and "ul_cancel link \<noteq> None \<longrightarrow> an_gone_end an"
  shows "\<exists>chunks w' prov url pt n. rc_Writer r = Some w'
    \<and> w_Body w' = w_Body w @ concat (map (chunk_frame sc desc) chunks) @ sse_frame [] ''[DONE]''
    \<and> chunks = stream_events jc prov url pt (ul_data link n) (ul_end link n)
    \<and> FrameDone \<in> stream_frame_of jc prov url pt ` set (fst (scan_lines [] (ul_data link n)))
    \<and> list_all (\<lambda>c. ck_Type c \<noteq> Some StreamEventError) chunks
    \<and> rc_Usage r = foldl usage_step (rc_Usage rctx) chunks"
proof -
  from completed_stream [OF assms(1-5) openai_served.served_provider_axioms chat_descriptor(3) [OF assms(6)]]
  obtain ochunks w' where c: "snd (pv_ChatCompletionStream (OpenAIProvider jc link transport) (Some req) (Some cred) rctx) = Some (Inr ochunks)"
    "\<not> an_gone_end an" "list_all (\<lambda>c. ck_Type c \<noteq> Some StreamEventError) (somes ochunks)" "rc_Writer r = Some w'"
    "w_Body w' = w_Body w @ concat (map (chunk_frame sc desc) (somes ochunks)) @ sse_frame [] ''[DONE]''"
    "rc_Usage r = foldl usage_step (rc_Usage rctx) (somes ochunks)" by blast
  let ?call = "stream_with (OpenAI_chatConfig (ul_sanitize link)) jc link transport (Some req) (Some cred) rctx"
  obtain chunks where call: "snd ?call = Some (Inr chunks)" "ochunks = map Some chunks"
    using c(1) by (cases "snd ?call"; cases "the (snd ?call)") (auto simp: OpenAIProvider_def OpenAI_calls)
  from stream_with_events [OF call(1)] c(2) assms(7)
  obtain prov url pt n where ev: "chunks = stream_events jc prov url pt (ul_data link n) (ul_end link n)" by auto
  have "FrameDone \<in> stream_frame_of jc prov url pt ` set (fst (scan_lines [] (ul_data link n)))"
    using stream_events_shape [of jc prov url pt "ul_data link n" "ul_end link n"] c(3) call(2)
    by (auto simp: ev [symmetric] error_chunk_def)
  with c call ev show ?thesis
    by (intro exI [of _ chunks] exI [of _ w'] exI [of _ prov] exI [of _ url] exI [of _ pt] exI [of _ n]) simp
qed

section \<open>An example\<close>

definition example_http_request :: HttpRequest where
  "example_http_request = \<lparr>req_Method = ''POST'', req_Path = ''/openai/v1/chat/completions'',
     req_Header = [(''Authorization'', ''Bearer '' @ example_key)], req_Body = ''{}'', req_ContentLength = 2\<rparr>"

definition example_server_config :: ServerConfig where
  "example_server_config = the (gc_ServerConfig default_config)"

definition example_server_codec :: server_codec where
  "example_server_codec = \<lparr>sc_unmarshal_request = \<lambda>_. Some \<lparr>oreq_Model = ''openai/gpt-4o'', oreq_Messages = [], oreq_MaxTokens = Some 5,
       oreq_Parameters = ChatParameters_zero\<rparr>,
     sc_marshal_response = \<lambda>_. Some ''{}'', sc_marshal_chunk = \<lambda>_. Some ''{}'', sc_marshal_error = \<lambda>_. Some ''{}''\<rparr>"

definition example_reply :: OpenAIChatCompletionResponse where
  "example_reply = \<lparr>ores_Response = \<lparr>env_ID = ''r'', env_Object = ''chat.completion'', env_Created = 0, env_Model = ''gpt-4o'',
     env_ServiceTier = None, env_SystemFingerprint = [], env_Metadata = None, env_Moderation = None, env_Usage = None, env_Raw = [],
     res_Choices = []\<rparr>, ores_Usage = Some example_wire_usage\<rparr>"

definition example_link :: upstream_link where
  "example_link = \<lparr>ul_sanitize = id, ul_builds = \<lambda>_. None, ul_env = example_env, ul_data = \<lambda>_. ''ok'', ul_reads = \<lambda>_. [(9, 9), (9, 9), (9, 9)],
     ul_end = \<lambda>_. None, ul_cancel = None\<rparr>"

definition example_registry :: ProviderInstance where
  "example_registry = gateway_registry example_identity (\<lambda>_. None) (example_codec\<lparr>jc_unmarshal_response := \<lambda>_. Some example_reply\<rparr>) example_link example_transport"

definition example_catalog :: ModelCatalog where
  "example_catalog = NewModelCatalog\<lparr>mc_basePricing := Some (newBasePricingSnapshot [example_variant\<lparr>pv_ModelName := ''gpt-4o''\<rparr>])\<rparr>"

definition example_server :: server where
  "example_server = \<lparr>srv_config = example_server_config,
     srv_governance = example_governance\<lparr>KeyCache := LoadVirtualKeys 0 [example_vk\<lparr>vk_Key := example_key\<rparr>] VirtualkeyCache_zero,
       gov_UsageBuffer := NewUsageBuffer 4\<rparr>,
     srv_plane = NewProviderPlane [example_credential], srv_cursors = Map.empty, srv_catalog = example_catalog,
     srv_registry = example_registry, srv_pool = [], srv_metrics = None\<rparr>"

definition example_answer_env :: answer_env where
  "example_answer_env = \<lparr>an_flusher = True, an_gone = \<lambda>_. False, an_gone_end = False, an_clock = \<lambda>_. 7\<rparr>"

definition example_request_env :: request_env where
  "example_request_env = \<lparr>re_choice = None, re_ctx = 1, re_broken = False, re_now = 5, re_draw = Fin 0, re_elapsed = \<lambda>_. 1, re_uuid = ''e'',
     re_answer = example_answer_env\<rparr>"

definition example_policy :: VirtualKey where
  "example_policy = example_vk\<lparr>vk_Key := example_key\<rparr>"

lemma example_parts:
  "srv_config example_server = example_server_config" "srv_plane example_server = NewProviderPlane [example_credential]"
  "srv_cursors example_server = Map.empty" "srv_catalog example_server = example_catalog" "srv_registry example_server = example_registry"
  "srv_pool example_server = []"
  "re_broken example_request_env = False" "re_now example_request_env = 5" "re_draw example_request_env = Fin 0"
  "re_elapsed example_request_env = (\<lambda>_. 1)" "re_answer example_request_env = example_answer_env" "an_clock example_answer_env = (\<lambda>_. 7)"
  "sc_unmarshal_request example_server_codec body = Some \<lparr>oreq_Model = ''openai/gpt-4o'', oreq_Messages = [], oreq_MaxTokens = Some 5,
     oreq_Parameters = ChatParameters_zero\<rparr>"
  by (simp_all add: example_server_def example_request_env_def example_answer_env_def example_server_codec_def)

lemma example_desc: "hd OpenAIDescriptors \<in> set OpenAIDescriptors"
  by (simp add: OpenAIDescriptors_def)

lemma example_policies_wf: "wf_policies (srv_governance example_server)"
  by (simp add: example_server_def wf_policies_def LookupVkey_def LoadVirtualKeys_def example_governance_def example_vk_def)

lemma example_server_wf: "server_wf example_server"
proof -
  have "0 \<le> up_MaxRetries (dt_defaultConfig example_transport)" by (simp add: example_transport_def default_upstream_def)
  moreover have "srv_pool example_server = []" "srv_registry example_server = example_registry" by (simp_all add: example_server_def)
  ultimately show ?thesis
    unfolding server_wf_def using example_policies_wf example_registry_def by auto metis
qed

lemma example_key_nonempty: "example_key \<noteq> []"
  using example_key_valid by auto

lemma example_key_extracted:
  assumes "rc_Request rctx = Some example_http_request"
  shows "extractKey rctx = example_key"
proof (rule extractKey_single)
  have "list_all isBase62Char cs \<Longrightarrow> list_all (\<lambda>c. \<not> is_space c) cs" for cs
    by (auto simp: list_all_iff isBase62Char_def is_space_def)
  moreover have "list_all isBase62Char (dk_checksum x)" for x by (simp add: dk_checksum_def)
  ultimately have "list_all (\<lambda>c. \<not> is_space c) (dk_checksum x)" for x by blast
  moreover have "list_all (\<lambda>c. \<not> is_space c) (dkPrefix @ replicate 18 (CHR ''0''))" by code_simp
  ultimately show "list_all (\<lambda>c. \<not> is_space c) example_key" by (simp add: example_key_def)
  show "example_key \<noteq> []" by (rule example_key_nonempty)
qed (simp add: request_header_def assms example_http_request_def)

lemma example_auth:
  assumes "rc_Request rctx = Some example_http_request"
  shows "ValidatevKeyAuth (srv_governance example_server) 5 rctx = (identified example_policy rctx, None)"
  using example_key_valid example_key_nonempty
  by (simp add: ValidatevKeyAuth_def example_key_extracted [OF assms] example_server_def LookupVkey_def LoadVirtualKeys_def identified_def
      example_policy_def example_vk_def Let_def)

lemma example_permitted:
  "model_permitted (Some (model_lookup example_catalog)) example_policy ''openai/gpt-4o''"
  "budget_open (gov_BudgetCache (srv_governance example_server)) ''b''"
proof -
  have p: "ParseModelString ''openai/gpt-4o'' = (''openai'', ''gpt-4o'')" by code_simp
  show "model_permitted (Some (model_lookup example_catalog)) example_policy ''openai/gpt-4o''"
    by (auto simp: model_permitted_def names_model_def p catalogReady_def model_lookup_def Catalog_Ready_def example_catalog_def
        NewModelCatalog_def example_policy_def example_vk_def compiled_config_def
        example_config_def fresh_config_def IsModelAllowed_def normal_models_def TrimSpace_def is_space_def dedup.simps)
  show "budget_open (gov_BudgetCache (srv_governance example_server)) ''b''"
    by (simp add: budget_open_def example_server_def example_governance_def LookupBudget_def CheckBudgetUsage_def)
qed

lemma example_price:
  "ResolvePrice example_catalog v \<lparr>ck_Provider = ''openai'', ck_ModelName = ''gpt-4o'', ck_ModelType = ModelTypeChat\<rparr> EmptySelectorKey = Some example_sheet"
  by (simp add: ResolvePrice_def example_catalog_def NewModelCatalog_def find_newBasePricing variant_for_def rows_for_def
      PricingVariant_CatalogKey_def example_variant_def base_of_def SelectorSet_IsEmpty_def SelectorSet_CanonicalKey_def EmptySelectorKey_def)

lemma example_body: "readBody example_server_config False example_http_request = Inr ''{}''"
  by (simp add: readBody_def example_server_config_def default_config_def example_http_request_def wrap64_def Let_def)

lemma example_resolved:
  assumes "rc_VirtualKeyID rctx = ''vk1''" "rc_VirtualKeyPolicy rctx = Some example_policy"
    "rc_Modelkey rctx = \<lparr>ck_Provider = ''openai'', ck_ModelName = ''gpt-4o'', ck_ModelType = ModelTypeChat\<rparr>"
  shows "Resolve (Plane_Candidates 5 (NewProviderPlane [example_credential])) u rctx cs
    = (Inr example_credential, commit rctx (rc_Modelkey rctx) example_credential, cs)"
  using assms
  by (simp add: Resolve_def example_policy_def example_vk_def resolveExplicit_def VirtualKey_ProviderConfig_def
      compiled_config_def example_config_def fresh_config_def TrimSpace_def is_space_def Plane_Candidates_def
      NewProviderPlane_def bucket_build example_credential_def CheckValidity_def CheckModel_def star_def roundRobin_Pick_def Let_def)

lemma example_admitted:
  assumes "rc_VirtualKeyPolicy r = Some example_policy" "PreCallCount (rc_HookLog r) = 0" "rc_RequestedModel r = ''openai/gpt-4o''"
    "rc_BudgetRef r = ''b''" "rc_RequestKind r = Some ChatRequest" "rc_VirtualKeyID r = ''vk1''"
  obtains r5 where "RunPreCallHooks (hook_engine example_server) el r = HookDone r5 None"
    "rc_Modelkey r5 = \<lparr>ck_Provider = ''openai'', ck_ModelName = ''gpt-4o'', ck_ModelType = ModelTypeChat\<rparr>"
    "rc_VirtualKeyPolicy r5 = Some example_policy" "rc_VirtualKeyID r5 = ''vk1''"
proof -
  have p: "ParseModelString ''openai/gpt-4o'' = (''openai'', ''gpt-4o'')" by code_simp
  have "distinct (map pcfg_Provider (vk_ProviderConfigs example_policy))" by (simp add: example_policy_def example_vk_def)
  from pre_call_admission [OF assms(1) this assms(2), of "srv_governance example_server" "Some (model_lookup example_catalog)" el]
  obtain r5 where r5: "RunPreCallHooks (hook_engine example_server) el r = HookDone r5 None" "rc_Modelkey r5 = requested_key r"
    "rc_VirtualKeyPolicy r5 = Some example_policy"
    using example_permitted by (auto simp: assms hook_engine_pre_call example_server_def)
  moreover have "rc_VirtualKeyID r5 = ''vk1''"
    using assms(6) by (subst pre_call_frame [OF r5(1), unfolded admission_only_def]) simp
  ultimately show thesis using that by (simp add: requested_key_def p kind_type_def assms)
qed

lemma prepare_admitted:
  assumes "ValidatevKeyAuth (srv_governance s) (re_now re) rctx = (r1, None)" "rc_Request r1 = Some httpReq"
    "readBody (srv_config s) (re_broken re) httpReq = Inr body" "sc_unmarshal_request sc body = Some payload"
    "rd_ToDiffract desc payload (Mark (an_clock (re_answer re) StageReadBody) StageReadBody
       ((Mark (an_clock (re_answer re) StageAuth) StageAuth r1)\<lparr>rc_BodyBytes := body\<rparr>)) = (r4, dfRequest)"
    "RunPreCallHooks (hook_engine s) (re_elapsed re) (Mark (an_clock (re_answer re) StageParse) StageParse r4) = HookDone r5 None"
    "Resolve (Plane_Candidates (re_now re) (srv_plane s)) (re_draw re) (Mark (an_clock (re_answer re) StageAdmission) StageAdmission r5)
       (srv_cursors s) = (Inr cred, r6, cur)"
    "ResolvePrice (srv_catalog s) (rc_VirtualKeyID r6) (rc_Modelkey r6) EmptySelectorKey = Some pricing"
    "Registry_Get (srv_registry s) (ck_Provider (rc_Modelkey r6)) = Inr prov"
  shows "prepare sc desc re s rctx = Some (Mark (an_clock (re_answer re) StageRouting) StageRouting (r6\<lparr>rc_Pricing := Some pricing\<rparr>), cur,
    Inr \<lparr>prep_cred = cred, prep_pricing = pricing, prep_provider = prov, prep_request = dfRequest\<rparr>)"
proof -
  have "rc_Request (Mark (an_clock (re_answer re) StageAuth) StageAuth r1) = Some httpReq" using assms(2) by (simp add: Mark_def)
  with assms show ?thesis by (simp add: prepare_def Let_def post_frames(3))
qed

lemma example_prepare:
  assumes "rc_Request rctx = Some example_http_request" "rc_RequestKind rctx = Some ChatRequest" "PreCallCount (rc_HookLog rctx) = 0"
  shows "\<exists>r prep. prepare example_server_codec (hd OpenAIDescriptors) example_request_env example_server rctx = Some (r, Map.empty, Inr prep)
    \<and> rc_Modelkey r = \<lparr>ck_Provider = ''openai'', ck_ModelName = ''gpt-4o'', ck_ModelType = ModelTypeChat\<rparr>
    \<and> prep_cred prep = example_credential \<and> prep_pricing prep = example_sheet
    \<and> prep_provider prep = OpenAIProvider (example_codec\<lparr>jc_unmarshal_response := \<lambda>_. Some example_reply\<rparr>) example_link example_transport
    \<and> cr_Parameters (prep_request prep) = Some ChatParameters_zero"
proof -
  let ?d = "hd OpenAIDescriptors" let ?clk = "\<lambda>_. 7 :: time"
  let ?key = "\<lparr>ck_Provider = ''openai'', ck_ModelName = ''gpt-4o'', ck_ModelType = ModelTypeChat\<rparr>"
  have d: "rd_ToDiffract ?d = ToDMChatCompletionRequest" by (rule chat_descriptor(2) [OF example_desc])
  let ?payload = "\<lparr>oreq_Model = ''openai/gpt-4o'', oreq_Messages = [], oreq_MaxTokens = Some 5, oreq_Parameters = ChatParameters_zero\<rparr>"
  let ?r3 = "Mark 7 StageReadBody ((Mark 7 StageAuth (identified example_policy rctx))\<lparr>rc_BodyBytes := ''{}''\<rparr>)"
  let ?r4 = "Mark 7 StageParse (fst (ToDMChatCompletionRequest ?payload ?r3))"
  have r4: "rc_VirtualKeyPolicy ?r4 = Some example_policy" "PreCallCount (rc_HookLog ?r4) = 0" "rc_RequestedModel ?r4 = ''openai/gpt-4o''"
    "rc_BudgetRef ?r4 = ''b''" "rc_RequestKind ?r4 = Some ChatRequest" "rc_VirtualKeyID ?r4 = ''vk1''"
    using assms by (simp_all add: Mark_def identified_def ToDMChatCompletionRequest_def example_policy_def example_vk_def)
  obtain r5 where r5: "RunPreCallHooks (hook_engine example_server) (\<lambda>_. 1) ?r4 = HookDone r5 None" "rc_Modelkey r5 = ?key"
    "rc_VirtualKeyPolicy r5 = Some example_policy" "rc_VirtualKeyID r5 = ''vk1''"
    by (rule example_admitted [OF r4])
  have res: "Resolve (Plane_Candidates 5 (NewProviderPlane [example_credential])) (Fin 0) (Mark 7 StageAdmission r5) Map.empty
    = (Inr example_credential, commit (Mark 7 StageAdmission r5) ?key example_credential, Map.empty)"
    using example_resolved [of "Mark 7 StageAdmission r5"] r5(2-4) by (simp add: Mark_def)
  have reg: "Registry_Get example_registry ''openai'' = Inr (OpenAIProvider (example_codec\<lparr>jc_unmarshal_response := \<lambda>_. Some example_reply\<rparr>) example_link example_transport)"
    by (simp add: Registry_Get_def example_registry_def gateway_registry_def Register_def NewProviderInstance_def OpenAIProvider_def AzureProvider_def
        ProviderOpenAI_def ProviderAzure_def)
  let ?r6 = "commit (Mark 7 StageAdmission r5) ?key example_credential"
  have k: "rc_Modelkey (Mark t st (?r6\<lparr>rc_Pricing := p\<rparr>)) = ?key" "rc_Modelkey ?r6 = ?key" for t st p by (simp_all add: Mark_def commit_def)
  let ?r = "Mark 7 StageRouting (?r6\<lparr>rc_Pricing := Some example_sheet\<rparr>)"
  let ?prep = "\<lparr>prep_cred = example_credential, prep_pricing = example_sheet,
    prep_provider = OpenAIProvider (example_codec\<lparr>jc_unmarshal_response := \<lambda>_. Some example_reply\<rparr>) example_link example_transport,
    prep_request = snd (ToDMChatCompletionRequest ?payload ?r3)\<rparr>"
  have "prepare example_server_codec ?d example_request_env example_server rctx = Some (?r, Map.empty, Inr ?prep)"
    using prepare_admitted [of example_server example_request_env rctx "identified example_policy rctx" example_http_request "''{}''"
        example_server_codec ?payload ?d "fst (ToDMChatCompletionRequest ?payload ?r3)" "snd (ToDMChatCompletionRequest ?payload ?r3)" r5
        example_credential ?r6 Map.empty example_sheet] example_auth [OF assms(1)] assms(1) r5(1) res reg k(2)
    by (simp add: example_parts d example_body example_price identified_def)
  then show ?thesis using k(1) by (intro exI [of _ ?r] exI [of _ ?prep]) (simp add: ToDMChatCompletionRequest_def)
qed

lemma attempt_loop_answer: "snd (attempt_loop env st i n rctx) = snd (attempt_loop env st i n rctx')"
  by (induction n arbitrary: i rctx rctx') (auto simp: Let_def split: do_result.split)

lemma ServeHTTP_answer:
  "ck_Provider (rc_Modelkey rctx) = ck_Provider (rc_Modelkey rctx') \<Longrightarrow>
    snd (Transport_ServeHTTP sanitize builds env t req rctx) = snd (Transport_ServeHTTP sanitize builds env t req rctx')"
  by (auto simp: Transport_ServeHTTP_def Let_def attempt_loop_answer [of env _ _ _ rctx rctx'] split: option.split)

lemma example_served:
  obtains result where "snd (Transport_ServeHTTP (ul_sanitize example_link) (ul_builds example_link) (ul_env example_link) example_transport
      req example_context) = Inr result" "tr_Status result = 200" "tq_IsStreaming req \<or> result = example_result"
proof -
  let ?st = "serve_settings_of default_upstream id ''openai'' example_upstream req"
  let ?result = "\<lparr>tr_Status = 200, tr_Header = [], tr_Body = ss_wrapper ?st, tr_TTFB = 5, tr_Attempts = 2, tr_ContextLive = ss_ContextLive ?st\<rparr>"
  have "compareConfig (UpstreamConfig_MaxResponseBytes default_upstream) (Some (MaxResponseBytes (u_Network example_upstream))) = 33554432"
    "compareConfig (up_RequestTimeout default_upstream) (RequestTimeout (u_Network example_upstream)) > 0" by code_simp+
  then have plain: "tq_IsStreaming req \<or> ?result = example_result"
    by (simp add: serve_settings_of_def example_result_def Let_def)
  have st: "ss_maxAttempts ?st = Suc (Suc (Suc 0))" "ss_allowAmbiguous ?st = False"
    by (simp_all add: serve_settings_of_def Let_def example_upstream_def)
  have env: "en_do example_env h (Suc 0) = DoResponse 429 []" "en_do example_env h (Suc (Suc 0)) = DoResponse 200 [(''Connection'', ''close'')]"
    "en_sleep example_env a d" "en_ttfb example_env a = 5" for h a d by (simp_all add: example_env_def)
  have "retrySafe 429" "\<not> retrySafe 200" "removeHopHeaders [(''Connection'', ''close'')] = []" by code_simp+
  then have "snd (attempt_loop example_env ?st 1 (Suc (Suc (Suc 0))) example_context) = Inr ?result"
    using st by (simp add: env retryable_def Let_def)
  moreover have "ul_env example_link = example_env" "ul_sanitize example_link = id" "ul_builds example_link = (\<lambda>_. None)"
    "dt_defaultConfig example_transport = default_upstream" "ck_Provider (rc_Modelkey example_context) = ''openai''"
    by (simp_all add: example_link_def example_transport_def example_context_def)
  ultimately have "snd (Transport_ServeHTTP (ul_sanitize example_link) (ul_builds example_link) (ul_env example_link) example_transport
      req example_context) = Inr ?result"
    using st(1) by (simp add: Transport_ServeHTTP_def Let_def del: attempt_loop.simps) (simp add: example_transport_def del: attempt_loop.simps)
  then show thesis using that plain by simp
qed

lemma example_answer:
  assumes "rc_Modelkey rctx = \<lparr>ck_Provider = ''openai'', ck_ModelName = ''gpt-4o'', ck_ModelType = ModelTypeChat\<rparr>"
  shows "\<exists>r1 res. pv_ChatCompletion (OpenAIProvider (example_codec\<lparr>jc_unmarshal_response := \<lambda>_. Some example_reply\<rparr>) example_link example_transport)
      (Some req) (Some example_credential) rctx = (r1, Some (Inr res)) \<and> env_Usage res = ToDMChatCompletionUsage (Some example_wire_usage)"
proof -
  let ?jc = "example_codec\<lparr>jc_unmarshal_response := \<lambda>_. Some example_reply\<rparr>"
  obtain rctx1 cfg where cfg: "OpenAI_chatConfig (ul_sanitize example_link) (Some req) (Some example_credential) False rctx = (rctx1, Inr cfg)"
    "rc_Modelkey rctx1 = rc_Modelkey rctx" "cc_Request cfg = Some req"
    by (auto simp: OpenAI_chatConfig_def OpenAI_endpoint_def OpenAI_AuthInjection_def example_credential_def PathFor_def Let_def)
  obtain body where body: "BuildChatCompletionPayload ?jc (cc_Request cfg) (cc_Model cfg) False = Inr (body, req)"
    by (simp add: BuildChatCompletionPayload_def cfg(3) example_codec_def)
  let ?serve = "Transport_ServeHTTP (ul_sanitize example_link) (ul_builds example_link) (ul_env example_link) example_transport"
  have "snd (?serve (chat_call cfg body False) rctx1) = snd (?serve (chat_call cfg body False) example_context)"
    by (rule ServeHTTP_answer) (simp add: cfg assms example_context_def)
  also have "\<dots> = Inr example_result"
    using example_served [of "chat_call cfg body False"] by (auto simp: chat_call_def)
  finally obtain rctx2 where serve: "?serve (chat_call cfg body False) rctx1 = (rctx2, Inr example_result)" by (metis prod.collapse)
  have "read_body example_link example_result = Some ''ok''" by code_simp
  moreover have "tr_Status example_result = 200" by code_simp
  ultimately have "HandleChatCompletion ?jc example_link example_transport cfg rctx1 =
    (rctx2, Some (Inr (ToDMChatCompletionResponse (example_reply\<lparr>ores_Response := (ores_Response example_reply)\<lparr>env_Raw := ''ok''\<rparr>\<rparr>))))"
    using body serve by (simp add: HandleChatCompletion_def Let_def)
  then show ?thesis using cfg(1)
    by (simp add: OpenAIProvider_def OpenAI_ChatCompletion_def ToDMChatCompletionResponse_def example_reply_def)
qed

lemma example_run:
  "\<exists>rctx s' u. GenericRequestHandler example_server_codec (hd OpenAIDescriptors) example_request_env example_http_request example_writer example_server
      = Some (rctx, s') \<and> rc_Usage rctx = Some u \<and> InputTokens u = 12 \<and> OutputTokens u = 30"
proof -
  let ?d = "hd OpenAIDescriptors"
  obtain rctx0 rest where acq: "Pool_Acquire (re_choice example_request_env) (re_ctx example_request_env) example_http_request example_writer
    (srv_pool example_server) = (rctx0, rest)" by fastforce
  have pool: "list_all clean (srv_pool example_server)" by (simp add: example_parts)
  note fresh = started_fresh [OF pool, of ?d example_request_env example_writer "re_choice example_request_env" "re_ctx example_request_env"
      example_http_request, unfolded acq fst_conv]
  obtain r prep where prep: "prepare example_server_codec ?d example_request_env example_server (started ?d example_request_env example_writer rctx0)
      = Some (r, Map.empty, Inr prep)"
    "rc_Modelkey r = \<lparr>ck_Provider = ''openai'', ck_ModelName = ''gpt-4o'', ck_ModelType = ModelTypeChat\<rparr>"
    "prep_cred prep = example_credential" "prep_provider prep = OpenAIProvider (example_codec\<lparr>jc_unmarshal_response := \<lambda>_. Some example_reply\<rparr>) example_link example_transport"
    "cr_Parameters (prep_request prep) = Some ChatParameters_zero"
    using example_prepare [OF fresh(4) _ fresh(1)] chat_descriptor(1) [OF example_desc] by (auto simp: started_def)
  obtain rctx s' where run: "GenericRequestHandler example_server_codec ?d example_request_env example_http_request example_writer example_server
    = Some (rctx, s')" using handler_progress [OF example_server_wf example_desc] by blast
  have plain: "\<not> ChatRequest_IsStreaming (prep_request prep)" by (simp add: ChatRequest_IsStreaming_def prep(5) ChatParameters_zero_def)
  obtain r1 res where call: "pv_ChatCompletion (prep_provider prep) (Some (prep_request prep)) (Some example_credential) r = (r1, Some (Inr res))"
    "env_Usage res = ToDMChatCompletionUsage (Some example_wire_usage)" using example_answer [OF prep(2)] prep(4) by metis
  obtain rc where rc: "chatCompletion example_server_codec ?d (re_answer example_request_env) (prep_provider prep) (prep_cred prep)
      (Some (prep_pricing prep)) (prep_request prep) r = Some rc" "rc_Usage rc = env_Usage res"
    using plain call(1) by (simp add: chatCompletion_def prep(3) Let_def Context_JSON_frame price_frame)
  obtain r2 e2 e where "RunPostProviderHooks (hook_engine example_server) (re_elapsed example_request_env) rc = HookDone r2 e2"
    "RunPostCallHooks (hook_engine example_server) (re_elapsed example_request_env) r2 = HookDone rctx e"
    using run acq prep(1) rc(1) chat_descriptor(1) [OF example_desc]
    by (auto simp: GenericRequestHandler_def serve_prepared_def started_def Let_def split: hook_outcome.splits option.splits)
  then have "rc_Usage rctx = ToDMChatCompletionUsage (Some example_wire_usage)"
    using admission_only_money(1) post_frames(1,2) rc(2) call(2) by metis
  then show ?thesis using run by (auto simp: ToDMChatCompletionUsage_def example_wire_usage_def Let_def)
qed


theorem request_charged_once_witness:
  "\<exists>rctx s'. GenericRequestHandler example_server_codec (hd OpenAIDescriptors) example_request_env example_http_request example_writer example_server
     = Some (rctx, s')
   \<and> LookupBudget ''b'' (gov_BudgetCache (srv_governance s')) = map_option (RecordUsage (ToNanoUSD (rc_Cost rctx)))
       (LookupBudget ''b'' (gov_BudgetCache (srv_governance example_server)))"
proof -
  obtain rctx s' u where run: "GenericRequestHandler example_server_codec (hd OpenAIDescriptors) example_request_env example_http_request
    example_writer example_server = Some (rctx, s')" "rc_Usage rctx = Some u" using example_run by blast
  have req: "rc_Request (DiffractLLMContext_zero\<lparr>rc_Request := Some example_http_request\<rparr>) = Some example_http_request" by simp
  have key: "LookupVkey example_key (KeyCache (srv_governance example_server)) = Some example_policy"
    by (simp add: example_server_def LookupVkey_def LoadVirtualKeys_def example_policy_def)
  have "vk_BudgetID example_policy = ''b''" by (simp add: example_policy_def example_vk_def)
  with run(1) key request_charged_once [OF example_server_wf example_desc run(1), of "''b''", unfolded run(2) example_key_extracted [OF req]]
  show ?thesis by auto
qed

definition example_started :: DiffractLLMContext where
  "example_started = DiffractLLMContext_zero\<lparr>rc_Request := Some example_http_request, rc_Writer := Some example_writer,
     rc_RequestKind := Some ChatRequest, rc_StartedAt := 5\<rparr>"

theorem provider_called_only_when_admitted_witness:
  "\<exists>r prep. prepare example_server_codec (hd OpenAIDescriptors) example_request_env example_server example_started = Some (r, Map.empty, Inr prep)
     \<and> rc_BudgetRef r = ''b'' \<and> c_Provider (prep_cred prep) = ck_Provider (rc_Modelkey r)
     \<and> Registry_Get (srv_registry example_server) (c_Provider (prep_cred prep)) = Inr (prep_provider prep)"
proof -
  have st: "rc_Request example_started = Some example_http_request" "rc_RequestKind example_started = Some ChatRequest"
    "PreCallCount (rc_HookLog example_started) = 0"
    by (simp_all add: example_started_def DiffractLLMContext_zero_def HookLog_zero_def)
  obtain r prep where prep: "prepare example_server_codec (hd OpenAIDescriptors) example_request_env example_server example_started = Some (r, Map.empty, Inr prep)"
    using example_prepare [OF st] by blast
  have key: "LookupVkey example_key (KeyCache (srv_governance example_server)) = Some example_policy"
    by (simp add: example_server_def LookupVkey_def LoadVirtualKeys_def example_policy_def)
  have "vk_BudgetID example_policy = ''b''" by (simp add: example_policy_def example_vk_def)
  with prep provider_called_only_when_admitted [OF prep example_desc example_policies_wf _ st(3)] example_plane_wf key
  show ?thesis by (auto simp: example_parts example_key_extracted [OF st(1)])
qed

text \<open>A client that takes everything receives the whole stream.\<close>

definition writer_open :: "DiffractLLMContext \<Rightarrow> bool" where
  "writer_open rc \<longleftrightarrow> pred_option (\<lambda>w. w_Room w = None) (rc_Writer rc) \<and> rc_Writer rc \<noteq> None"

lemma WriteSSE_open: "writer_open rc \<Longrightarrow> \<exists>r. WriteSSE event body rc = (r, True) \<and> writer_open r"
  by (auto simp: writer_open_def WriteSSE_def Context_Write_def Writer_Write_def Flush_def with_writer_def Let_def)

lemma relay_complete:
  assumes "\<And>i. \<not> gone i" "\<And>c. sc_marshal_chunk sc c \<noteq> None"
  shows "list_all (\<lambda>c. ck_Type c \<noteq> Some StreamEventError) (somes cs) \<Longrightarrow> writer_open rc \<Longrightarrow>
    \<exists>r. relay_chunks sc desc now gone i cs rc = StreamDrained r \<and> writer_open r"
proof (induction cs arbitrary: i rc)
  case (Cons c cs)
  show ?case
  proof (cases c)
    case None
    with Cons assms(1) show ?thesis by simp
  next
    case (Some chunk)
    obtain event payload where fd: "rd_FromDiffractStream desc chunk = (event, payload)" by fastforce
    obtain body where body: "sc_marshal_chunk sc payload = Some body" using assms(2) by blast
    have "writer_open (note_chunk now chunk rc)" using Cons.prems(2) by (simp add: writer_open_def note_chunk_frame)
    from WriteSSE_open [OF this, of event body] obtain r where r: "WriteSSE event body (note_chunk now chunk rc) = (r, True)" "writer_open r" by blast
    then show ?thesis using Cons.IH [OF _ r(2), of "Suc i"] Cons.prems(1) Some fd body assms(1) by (simp add: writeSSE_def Let_def)
  qed
qed simp

definition example_stream_link :: upstream_link where
  "example_stream_link = example_link\<lparr>ul_data := \<lambda>_. concat (map (sse_frame []) [''a'', ''b'']) @ sse_frame [] ''[DONE]''\<rparr>"

definition example_stream_request :: DiffractLLMChatCompletionRequest where
  "example_stream_request = \<lparr>cr_Model = ''openai/gpt-4o'', cr_Messages = [], cr_Parameters = Some (ChatParameters_zero\<lparr>cp_Stream := Some True\<rparr>), cr_Raw = []\<rparr>"

definition example_stream_context :: DiffractLLMContext where
  "example_stream_context = DiffractLLMContext_zero\<lparr>rc_Writer := Some example_writer,
     rc_Modelkey := \<lparr>ck_Provider = ''openai'', ck_ModelName = ''gpt-4o'', ck_ModelType = ModelTypeChat\<rparr>\<rparr>"

lemma example_stream_chunks:
  "\<exists>r1 chunks. pv_ChatCompletionStream (OpenAIProvider example_codec example_stream_link example_transport) (Some example_stream_request)
      (Some example_credential) example_stream_context = (r1, Some (Inr (map Some chunks)))
    \<and> map env_ID chunks = [''a'', ''b''] \<and> map ck_Type chunks = [Some StreamEventDelta, Some StreamEventDelta]"
proof -
  obtain rctx1 cfg where cfg: "OpenAI_chatConfig (ul_sanitize example_stream_link) (Some example_stream_request) (Some example_credential) True example_stream_context = (rctx1, Inr cfg)"
    "rc_Modelkey rctx1 = rc_Modelkey example_stream_context" "cc_Request cfg = Some example_stream_request"
    by (auto simp: OpenAI_chatConfig_def OpenAI_endpoint_def OpenAI_AuthInjection_def example_credential_def PathFor_def Let_def)
  obtain body req' where body: "BuildChatCompletionPayload example_codec (cc_Request cfg) (cc_Model cfg) True = Inr (body, req')"
    by (simp add: BuildChatCompletionPayload_def cfg(3) example_codec_def Let_def)
  let ?serve = "Transport_ServeHTTP (ul_sanitize example_stream_link) (ul_builds example_stream_link) (ul_env example_stream_link) example_transport"
  have links: "ul_sanitize example_stream_link = ul_sanitize example_link" "ul_builds example_stream_link = ul_builds example_link"
    "ul_env example_stream_link = ul_env example_link" by (simp_all add: example_stream_link_def)
  have "snd (?serve (chat_call cfg body True) rctx1) = snd (?serve (chat_call cfg body True) example_context)"
    by (rule ServeHTTP_answer) (simp add: cfg example_stream_context_def example_context_def)
  then obtain rctx2 result where serve: "?serve (chat_call cfg body True) rctx1 = (rctx2, Inr result)" "tr_Status result = 200"
    using example_served [of "chat_call cfg body True"] unfolding links by (metis prod.collapse)
  have "rc_SDKProvider rctx1 = rc_SDKProvider example_stream_context"
    using cfg(1) by (auto simp: OpenAI_chatConfig_def Let_def split: sum.splits)
  moreover have "upstream_only rctx1 rctx2" using ServeHTTP_upstream_only serve(1) by (metis fst_conv)
  ultimately have sdk: "rc_SDKProvider rctx2 \<noteq> ProviderOpenAI"
    using upstream_only_same(7) by (simp add: example_stream_context_def DiffractLLMContext_zero_def ProviderOpenAI_def)
  have "newline \<notin> set ''ab''" "\<not> is_space (CHR ''a'')" "\<not> is_space (CHR ''b'')" by code_simp+
  then have p: "line_payload ''a''" "line_payload ''b''" by (simp_all add: line_payload_def maxStreamLine_def)
  let ?chunks = "stream_events example_codec (cc_Provider cfg) (ul_sanitize example_stream_link (cc_URL cfg)) False
     (concat (map (sse_frame []) [''a'', ''b'']) @ sse_frame [] ''[DONE]'') (ul_end example_stream_link (tr_Attempts result))"
  have "?chunks = map (\<lambda>p. ToDMChatCompletionStreamResponse (the (jc_unmarshal_chunk example_codec p))) [''a'', ''b'']"
    by (rule stream_events_payloads) (use p in \<open>auto simp: example_codec_def\<close>)
  then have "map env_ID ?chunks = [''a'', ''b'']" "map ck_Type ?chunks = [Some StreamEventDelta, Some StreamEventDelta]"
    by (simp_all add: example_codec_def ToDMChatCompletionStreamResponse_def streamEventType_def)
  moreover have "HandleChatCompletionStream example_codec example_stream_link example_transport cfg rctx1 = (rctx2, Some (Inr ?chunks))"
    using body serve sdk by (simp add: HandleChatCompletionStream_def Let_def) (simp add: example_stream_link_def example_link_def)
  ultimately show ?thesis using cfg(1) by (intro exI [of _ rctx2] exI [of _ ?chunks]) (simp add: OpenAIProvider_def OpenAI_ChatCompletionStream_def)
qed

theorem completed_stream_was_complete_witness:
  "\<exists>r w' chunks. chatCompletion example_server_codec (hd OpenAIDescriptors) example_answer_env (OpenAIProvider example_codec example_stream_link example_transport)
      example_credential None example_stream_request example_stream_context = Some r \<and> rc_Writer r = Some w'
    \<and> w_Body w' = concat (map (chunk_frame example_server_codec (hd OpenAIDescriptors)) chunks) @ sse_frame [] ''[DONE]''"
proof -
  let ?prov = "OpenAIProvider example_codec example_stream_link example_transport" and ?d = "hd OpenAIDescriptors"
  have str: "ChatRequest_IsStreaming example_stream_request" by (simp add: ChatRequest_IsStreaming_def example_stream_request_def)
  have ctx: "\<not> rc_RequestCompleted example_stream_context" "rc_Writer example_stream_context = Some example_writer" "w_Body example_writer = []"
    "w_Room example_writer = None" by (simp_all add: example_stream_context_def DiffractLLMContext_zero_def example_writer_def)
  obtain r1 chunks where call: "pv_ChatCompletionStream ?prov (Some example_stream_request) (Some example_credential) example_stream_context
      = (r1, Some (Inr (map Some chunks)))" "map ck_Type chunks = [Some StreamEventDelta, Some StreamEventDelta]"
    using example_stream_chunks by metis
  have "list_all (\<lambda>t. t \<noteq> Some StreamEventError) (map ck_Type chunks)" by (simp add: call(2))
  then have ok: "list_all (\<lambda>c. ck_Type c \<noteq> Some StreamEventError) (somes (map Some chunks))" by (simp add: list_all_iff)
  have "rc_Writer r1 = Some example_writer"
    using upstream_only_same(4) [OF openai_served.stream_frame] call(1) ctx(2) by (metis fst_conv)
  then have "writer_open (begin_stream r1)"
    using ctx(4) by (simp add: writer_open_def begin_stream_def SetHeader_def Flush_def with_writer_def Writer_WriteHeader_def Let_def split: option.split)
  from relay_complete [OF _ _ ok this, of "\<lambda>_. False" example_server_codec ?d 7 0]
  obtain r2 where r2: "relay_chunks example_server_codec ?d 7 (\<lambda>_. False) 0 (map Some chunks) (begin_stream r1) = StreamDrained r2" "writer_open r2"
    by (auto simp: example_server_codec_def)
  from WriteSSE_open [OF r2(2)] obtain r3 where r3: "WriteSSE [] ''[DONE]'' r2 = (r3, True)" by blast
  let ?r = "r3\<lparr>rc_RequestCompleted := True\<rparr>"
  have an: "an_flusher example_answer_env" "an_gone example_answer_env = (\<lambda>_. False)" "\<not> an_gone_end example_answer_env"
    "an_clock example_answer_env = (\<lambda>_. 7)" by (simp_all add: example_answer_env_def)
  have run: "chatCompletion example_server_codec ?d example_answer_env ?prov example_credential None example_stream_request example_stream_context = Some ?r"
    using str call(1) r2(1) r3 chat_descriptor(3) [OF example_desc]
    by (simp add: chatCompletion_def an finish_stream_def price_def split: option.split)
  have "ul_cancel example_stream_link = None" by (simp add: example_stream_link_def example_link_def)
  with completed_stream_was_complete [OF str run ctx(1) _ ctx(2) example_desc] run ctx(3) show ?thesis by (simp, blast)
qed

end
