(* ===== verification/Duration.thy ===== *)
theory Duration
  imports Float64
begin

text \<open>
  Durations as text (\<^verbatim>\<open>internal/core/utils.go\<close>): the standard library's \<^verbatim>\<open>time.ParseDuration\<close> and the
  gateway's extension with days, weeks, months and years, in which budget windows are written.
\<close>

section \<open>The standard parser\<close>

definition digit_value :: "char \<Rightarrow> int" where
  "digit_value c = int (of_char c) - 48"

fun leadingInt :: "int \<Rightarrow> string \<Rightarrow> (int \<times> string) option" where
  "leadingInt x [] = Some (x, [])"
| "leadingInt x (c # cs) = (if \<not> is_digit c then Some (x, c # cs)
     else if x > 2 ^ 63 div 10 then None
     else let y = x * 10 + digit_value c in if y > 2 ^ 63 then None else leadingInt y cs)"

text \<open>The scale, a power of ten of at most nineteen digits, is exact in \<^verbatim>\<open>float64\<close>.\<close>

fun leadingFraction :: "int \<Rightarrow> int \<Rightarrow> bool \<Rightarrow> string \<Rightarrow> int \<times> int \<times> string" where
  "leadingFraction x scale overflow [] = (x, scale, [])"
| "leadingFraction x scale overflow (c # cs) = (if \<not> is_digit c then (x, scale, c # cs)
     else if overflow then leadingFraction x scale True cs
     else if x > (2 ^ 63 - 1) div 10 then leadingFraction x scale True cs
     else let y = x * 10 + digit_value c in
       if y > 2 ^ 63 then leadingFraction x scale True cs else leadingFraction y (scale * 10) False cs)"

definition unitMap :: "(string \<times> int) list" where
  "unitMap = [(''ns'', 1), (''us'', 1000), ([char_of (194 :: nat), char_of (181 :: nat), CHR ''s''], 1000),
     ([char_of (206 :: nat), char_of (188 :: nat), CHR ''s''], 1000), (''ms'', 1000000), (''s'', 1000000000),
     (''m'', 60000000000), (''h'', 3600000000000)]"

definition unit_char :: "char \<Rightarrow> bool" where
  "unit_char c \<longleftrightarrow> c \<noteq> CHR ''.'' \<and> \<not> is_digit c"

definition fraction_ns :: "int \<Rightarrow> int \<Rightarrow> int \<Rightarrow> int" where
  "fraction_ns f unit scale =
     (case fmul (float_of_int f) (fdiv_const (float_of_int unit) (of_int scale)) of
        Fin x \<Rightarrow> \<lfloor>x\<rfloor> | _ \<Rightarrow> 0)"

text \<open>One number with its unit: its nanoseconds and the rest of the text.\<close>

definition duration_step :: "string \<Rightarrow> (int \<times> string) option" where
  "duration_step s =
    (if s = [] \<or> \<not> (hd s = CHR ''.'' \<or> is_digit (hd s)) then None
     else case leadingInt 0 s of None \<Rightarrow> None
     | Some (v, s1) \<Rightarrow>
       let pre = (length s1 \<noteq> length s);
           (f, scale, s2) = (if s1 \<noteq> [] \<and> hd s1 = CHR ''.'' then leadingFraction 0 1 False (tl s1) else (0, 1, s1));
           post = (s1 \<noteq> [] \<and> hd s1 = CHR ''.'' \<and> length s2 \<noteq> length (tl s1))
       in if \<not> pre \<and> \<not> post then None
          else let u = takeWhile unit_char s2; s3 = dropWhile unit_char s2 in
            if u = [] then None
            else case map_of unitMap u of None \<Rightarrow> None
              | Some unit \<Rightarrow>
                  if v > 2 ^ 63 div unit then None
                  else let v1 = v * unit + (if f > 0 then fraction_ns f unit scale else 0) in
                    if v1 > 2 ^ 63 then None else Some (v1, s3))"

lemma leadingInt_shorter: "leadingInt x s = Some (v, r) \<Longrightarrow> length r \<le> length s"
  by (induction x s rule: leadingInt.induct) (auto simp: Let_def split: if_splits)

lemma leadingFraction_shorter: "leadingFraction x sc ov s = (f, sc', r) \<Longrightarrow> length r \<le> length s"
  by (induction x sc ov s rule: leadingFraction.induct) (auto simp: Let_def split: if_splits)

lemma duration_step_shorter: "duration_step s = Some (v, r) \<Longrightarrow> length r < length s"
proof -
  assume st: "duration_step s = Some (v, r)"
  obtain v0 s1 where s1: "leadingInt 0 s = Some (v0, s1)" "length s1 \<le> length s"
    using st leadingInt_shorter by (fastforce simp: duration_step_def split: if_splits option.splits prod.splits)
  obtain f sc s2 where s2: "(if s1 \<noteq> [] \<and> hd s1 = CHR ''.'' then leadingFraction 0 1 False (tl s1) else (0, 1, s1)) = (f, sc, s2)"
    by (metis prod_cases3)
  have "length s2 \<le> length s1"
    using s2 leadingFraction_shorter [of 0 1 False "tl s1" f sc s2] by (auto split: if_splits)
  moreover have "takeWhile unit_char s2 \<noteq> []" "r = dropWhile unit_char s2"
    using st s1 s2 by (auto simp: duration_step_def Let_def split: if_splits option.splits)
  moreover have "length (takeWhile unit_char s2) + length (dropWhile unit_char s2) = length s2"
    by (metis length_append takeWhile_dropWhile_id)
  ultimately show ?thesis using s1(2) by (cases "takeWhile unit_char s2") auto
qed

function duration_loop :: "int \<Rightarrow> string \<Rightarrow> int option" where
  "duration_loop d s = (if s = [] then Some d
     else case duration_step s of None \<Rightarrow> None
       | Some (v, rest) \<Rightarrow> let d' = (d + v) mod 2 ^ 64 in if d' > 2 ^ 63 then None else duration_loop d' rest)"
  by pat_completeness auto
termination by (relation "measure (length \<circ> snd)") (auto dest: duration_step_shorter)

declare duration_loop.simps [simp del]

definition time_ParseDuration :: "string \<Rightarrow> duration option" where
  "time_ParseDuration orig =
    (let neg = (orig \<noteq> [] \<and> hd orig = CHR ''-'');
         s = (if orig \<noteq> [] \<and> (hd orig = CHR ''-'' \<or> hd orig = CHR ''+'') then tl orig else orig)
     in if s = ''0'' then Some 0
        else if s = [] then None
        else case duration_loop 0 s of None \<Rightarrow> None
          | Some d \<Rightarrow> if neg then Some (wrap64 (- d)) else if d > 2 ^ 63 - 1 then None else Some d)"

section \<open>Days, weeks, months and years\<close>

text \<open>The empty text is a panic of the program: the last byte does not exist.\<close>

datatype duration_result = DurOK duration | DurErr | DurPanic

definition scaled :: "string \<Rightarrow> int list \<Rightarrow> duration_result" where
  "scaled number factors = (case time_ParseDuration (number @ ''h'') of
     Some d \<Rightarrow> DurOK (foldl (\<lambda>x k. wrap64 (x * k)) d factors) | None \<Rightarrow> DurErr)"

definition ParseDuration :: "string \<Rightarrow> duration_result" where
  "ParseDuration text =
    (if text = [] then DurPanic
     else let frequency = lower_char (last text) in
       if frequency = CHR ''d'' then scaled (butlast text) [24]
       else if frequency = CHR ''w'' then scaled (butlast text) [24, 7]
       else if frequency = CHR ''m'' then scaled (butlast text) [24, 30]
       else if frequency = CHR ''y'' then scaled (butlast text) [24, 365]
       else case time_ParseDuration text of Some d \<Rightarrow> DurOK d | None \<Rightarrow> DurErr)"

section \<open>Whole numbers\<close>

lemma digit_char: "k < 10 \<Longrightarrow> is_digit (char_of (48 + k)) \<and> digit_value (char_of (48 + k)) = int k"
  by (auto simp: is_digit_def digit_value_def of_char_of)

text \<open>Reading the decimal digits of a number gives the number, or fails beyond \<open>2 ^ 63\<close>.\<close>

lemma leadingInt_digits:
  "0 \<le> x \<Longrightarrow> leadingInt x (nat_digits n @ rest) =
    (if x * 10 ^ length (nat_digits n) + int n \<le> 2 ^ 63
     then leadingInt (x * 10 ^ length (nat_digits n) + int n) rest else None)"
proof (induction n arbitrary: rest rule: nat_digits.induct)
  case (1 n)
  show ?case
  proof (cases "n < 10")
    case True
    then have dg: "nat_digits n = [char_of (48 + n)]" by (simp add: nat_digits.simps)
    show ?thesis using 1(2) dg digit_char [OF True] by (auto simp: Let_def)
  next
    case False
    let ?p = "nat_digits (n div 10)" and ?k = "n mod 10"
    have dg: "nat_digits n = ?p @ [char_of (48 + ?k)]" using False by (simp add: nat_digits.simps [of n])
    let ?y = "x * 10 ^ length ?p + int (n div 10)"
    have n: "int n = int (n div 10) * 10 + int ?k" by presburger
    have val: "x * 10 ^ length (nat_digits n) + int n = ?y * 10 + int ?k" by (simp add: dg n algebra_simps)
    have "leadingInt x (nat_digits n @ rest) = leadingInt x (?p @ char_of (48 + ?k) # rest)" by (simp add: dg)
    also have "\<dots> = (if ?y \<le> 2 ^ 63 then leadingInt ?y (char_of (48 + ?k) # rest) else None)"
      by (rule 1(1) [OF False 1(2)])
    also have "\<dots> = (if ?y * 10 + int ?k \<le> 2 ^ 63 then leadingInt (?y * 10 + int ?k) rest else None)"
      using digit_char [of ?k] by (auto simp: Let_def)
    finally show ?thesis by (simp only: val)
  qed
qed

lemma nat_digits_not_Nil [simp]: "nat_digits n \<noteq> []"
  by (subst nat_digits.simps) simp

lemma hd_nat_digits: "is_digit (hd (nat_digits n))"
proof (induction n rule: nat_digits.induct)
  case (1 n)
  then show ?case using digit_char [of n] by (subst nat_digits.simps) (auto simp: hd_append)
qed

lemma not_digit_h [simp]: "\<not> is_digit (CHR ''h'')"
  by (simp add: is_digit_def)

lemma duration_step_hours:
  "duration_step (nat_digits n @ ''h'') = (if int n \<le> 2562047 then Some (int n * 3600000000000, []) else None)"
  using hd_nat_digits [of n]
  by (simp add: duration_step_def leadingInt_digits unit_char_def unitMap_def)

lemma time_ParseDuration_hours:
  "time_ParseDuration (nat_digits n @ ''h'') = (if int n \<le> 2562047 then Some (int n * 3600000000000) else None)"
proof -
  let ?s = "nat_digits n @ ''h''"
  have "hd ?s \<noteq> CHR ''-''" "hd ?s \<noteq> CHR ''+''" using hd_nat_digits [of n] by (auto simp: is_digit_def)
  moreover have "?s \<noteq> ''0''" using arg_cong [of ?s "''0''" last] by auto
  moreover have "duration_loop 0 ?s = (if int n \<le> 2562047 then Some (int n * 3600000000000) else None)"
    by (simp add: duration_loop.simps [of 0 ?s] duration_step_hours duration_loop.simps [of _ "[]"] Let_def)
  ultimately show ?thesis by (simp add: time_ParseDuration_def)
qed

lemma wrap64_mod: "wrap64 x mod 2 ^ 64 = x mod 2 ^ 64"
  by (simp add: wrap64_def mod_simps)

lemma wrap64_cong: "x mod 2 ^ 64 = y mod 2 ^ 64 \<Longrightarrow> wrap64 x = wrap64 y"
  unfolding wrap64_def by (metis mod_add_left_eq)

lemma wrap64_wrap64_mult: "wrap64 (wrap64 a * b) = wrap64 (a * b)"
  by (rule wrap64_cong) (metis wrap64_mod mod_mult_left_eq)

lemma exact_hours: "0 \<le> x \<Longrightarrow> x \<le> 2562047 \<Longrightarrow> wrap64 (x * 3600000000000) = x * 3600000000000"
  by (intro wrap64_id in_int64_bounds) simp_all

definition unit_hours :: "(char \<times> int) list" where
  "unit_hours = [(CHR ''d'', 24), (CHR ''w'', 168), (CHR ''m'', 720), (CHR ''y'', 8760)]"

text \<open>
  A whole number of days, weeks, months (of 30 days) or years (of 365 days) is accepted up to
  2562047 and refused above, and is that many hours in nanoseconds, exactly as long as the
  product fits into 64 bits and wrapped around otherwise.
\<close>

theorem ParseDuration_whole:
  assumes "map_of unit_hours c = Some k"
  shows "ParseDuration (nat_digits n @ [c]) =
    (if n \<le> 2562047 then DurOK (wrap64 (int n * k * 3600000000000)) else DurErr)
    \<and> (int n * k \<le> 2562047 \<longrightarrow> wrap64 (int n * k * 3600000000000) = int n * k * 3600000000000)"
proof -
  consider "c = CHR ''d''" "k = 24" | "c = CHR ''w''" "k = 168" | "c = CHR ''m''" "k = 720" | "c = CHR ''y''" "k = 8760"
    using assms by (auto simp: unit_hours_def split: if_splits)
  then have "ParseDuration (nat_digits n @ [c]) =
    (if n \<le> 2562047 then DurOK (wrap64 (int n * k * 3600000000000)) else DurErr)"
    by cases (simp_all add: ParseDuration_def scaled_def time_ParseDuration_hours lower_char_def wrap64_wrap64_mult mult.assoc)
  moreover have "wrap64 (int n * k * 3600000000000) = int n * k * 3600000000000" if "int n * k \<le> 2562047"
  proof -
    have "0 \<le> int n * k" using assms by (auto simp: unit_hours_def split: if_splits)
    then show ?thesis using that exact_hours by blast
  qed
  ultimately show ?thesis by blast
qed

theorem ParseDuration_whole_witness: "ParseDuration (nat_digits 30 @ ''d'') = DurOK 2592000000000000"
  using ParseDuration_whole [of "CHR ''d''" 24 30] by (simp add: unit_hours_def)

text \<open>
  The extension changes the meaning of texts the standard parser accepts, and its products
  wrap around: thirty minutes are read as thirty months, an hour and thirty minutes as thirty-one
  months, 585 years as three weeks and 300 years as a negative duration.
\<close>

theorem ParseDuration_surprises:
  "ParseDuration ''30m'' = DurOK (30 * 720 * 3600000000000) \<and> time_ParseDuration ''30m'' = Some 1800000000000
   \<and> ParseDuration ''1h30m'' = DurOK (31 * 720 * 3600000000000) \<and> time_ParseDuration ''1h30m'' = Some 5400000000000
   \<and> ParseDuration ''585y'' = DurOK 1815926290448384 \<and> ParseDuration ''300y'' = DurOK (- 8985944073709551616)"
  by code_simp

end
