(* ===== verification/Secrets.thy ===== *)
theory Secrets
  imports Prelude
begin

text \<open>
  How secrets are kept in the database (\<^verbatim>\<open>internal/dbstore/utils.go\<close>): a value is sealed with AES-GCM under the
  configured key and a random nonce, and stored as the base64 text of the nonce and the sealed value.
  The base64 coding of the standard library is modelled; the cipher is an argument.
\<close>

section \<open>Base64\<close>

definition b64_alphabet :: string where
  "b64_alphabet = ''ABCDEFGHIJKLMNOPQRSTUVWXYZabcdefghijklmnopqrstuvwxyz0123456789+/''"

definition b64_char :: "nat \<Rightarrow> char" where "b64_char n = b64_alphabet ! n"

definition b64_value :: "char \<Rightarrow> nat option" where
  "b64_value c = (let i = length (takeWhile (\<lambda>x. x \<noteq> c) b64_alphabet) in if i < 64 then Some i else None)"

fun b64_encode :: "nat list \<Rightarrow> string" where
  "b64_encode [] = []"
| "b64_encode [a] = [b64_char (a div 4), b64_char (a mod 4 * 16), CHR ''='', CHR ''='']"
| "b64_encode [a, b] = [b64_char (a div 4), b64_char (a mod 4 * 16 + b div 16), b64_char (b mod 16 * 4), CHR ''='']"
| "b64_encode (a # b # c # rest) = [b64_char (a div 4), b64_char (a mod 4 * 16 + b div 16), b64_char (b mod 16 * 4 + c div 64),
     b64_char (c mod 64)] @ b64_encode rest"

text \<open>Padding is required, allowed at the end only, and the unused bits before it are not looked at.\<close>

fun b64_decode :: "string \<Rightarrow> nat list option" where
  "b64_decode [] = Some []"
| "b64_decode (w # x # y # z # rest) = (case (b64_value w, b64_value x) of
     (Some a, Some b) \<Rightarrow>
       if y = CHR ''='' then (if z = CHR ''='' \<and> rest = [] then Some [a * 4 + b div 16] else None)
       else (case b64_value y of None \<Rightarrow> None | Some c \<Rightarrow>
         if z = CHR ''='' then (if rest = [] then Some [a * 4 + b div 16, b mod 16 * 16 + c div 4] else None)
         else (case b64_value z of None \<Rightarrow> None | Some d \<Rightarrow>
           map_option (\<lambda>t. [a * 4 + b div 16, b mod 16 * 16 + c div 4, c mod 4 * 64 + d] @ t) (b64_decode rest)))
   | _ \<Rightarrow> None)"
| "b64_decode _ = None"

definition EncodeToString :: "string \<Rightarrow> string" where
  "EncodeToString s = b64_encode (map of_char s)"

text \<open>Line ends are skipped by the decoder.\<close>

definition DecodeString :: "string \<Rightarrow> string option" where
  "DecodeString s = map_option (map char_of) (b64_decode (filter (\<lambda>c. c \<noteq> CHR 0x0A \<and> c \<noteq> CHR 0x0D) s))"

lemma b64_value_char: "n < 64 \<Longrightarrow> b64_value (b64_char n) = Some n"
proof -
  have "list_all (\<lambda>n. b64_value (b64_char n) = Some n) [0..<64]" by code_simp
  then show "n < 64 \<Longrightarrow> b64_value (b64_char n) = Some n" by (simp add: list_all_iff)
qed

lemma b64_char_plain: "n < 64 \<Longrightarrow> b64_char n \<noteq> CHR ''='' \<and> b64_char n \<noteq> CHR 0x0A \<and> b64_char n \<noteq> CHR 0x0D"
proof -
  have "list_all (\<lambda>n. b64_char n \<noteq> CHR ''='' \<and> b64_char n \<noteq> CHR 0x0A \<and> b64_char n \<noteq> CHR 0x0D) [0..<64]" by code_simp
  then show "n < 64 \<Longrightarrow> b64_char n \<noteq> CHR ''='' \<and> b64_char n \<noteq> CHR 0x0A \<and> b64_char n \<noteq> CHR 0x0D" by (simp add: list_all_iff)
qed

lemma sextets:
  fixes a b c :: nat
  assumes "a < 256" "b < 256" "c < 256"
  shows "a div 4 < 64" "a mod 4 * 16 < 64" "a mod 4 * 16 + b div 16 < 64" "b mod 16 * 4 < 64" "b mod 16 * 4 + c div 64 < 64" "c mod 64 < 64"
    "a div 4 * 4 + (a mod 4 * 16) div 16 = a" "a div 4 * 4 + (a mod 4 * 16 + b div 16) div 16 = a"
    "(a mod 4 * 16 + b div 16) mod 16 * 16 + (b mod 16 * 4) div 4 = b"
    "(a mod 4 * 16 + b div 16) mod 16 * 16 + (b mod 16 * 4 + c div 64) div 4 = b"
    "(b mod 16 * 4 + c div 64) mod 4 * 64 + c mod 64 = c"
proof -
  have a: "a div 4 < 64" "a mod 4 < 4" and b: "b div 16 < 16" "b mod 16 < 16" and c: "c div 64 < 4" "c mod 64 < 64"
    using assms by auto
  then have q: "(a mod 4 * 16 + b div 16) div 16 = a mod 4" "(a mod 4 * 16 + b div 16) mod 16 = b div 16"
    "(b mod 16 * 4 + c div 64) div 4 = b mod 16" "(b mod 16 * 4 + c div 64) mod 4 = c div 64" by simp_all
  show "a div 4 < 64" "a mod 4 * 16 < 64" "a mod 4 * 16 + b div 16 < 64" "b mod 16 * 4 < 64" "b mod 16 * 4 + c div 64 < 64" "c mod 64 < 64"
    using a b c by linarith+
  show "a div 4 * 4 + (a mod 4 * 16) div 16 = a" "a div 4 * 4 + (a mod 4 * 16 + b div 16) div 16 = a"
    "(a mod 4 * 16 + b div 16) mod 16 * 16 + (b mod 16 * 4) div 4 = b"
    "(a mod 4 * 16 + b div 16) mod 16 * 16 + (b mod 16 * 4 + c div 64) div 4 = b"
    "(b mod 16 * 4 + c div 64) mod 4 * 64 + c mod 64 = c"
    by (simp_all only: q nonzero_mult_div_cancel_right div_mult_mod_eq numeral_eq_iff num.simps not_False_eq_True zero_neq_numeral [symmetric])
qed

lemma decode_group:
  assumes "p < 64" "q < 64" "r < 64" "t < 64"
  shows "b64_decode (b64_char p # b64_char q # b64_char r # b64_char t # rest)
      = map_option ((@) [p * 4 + q div 16, q mod 16 * 16 + r div 4, r mod 4 * 64 + t]) (b64_decode rest)"
    "b64_decode [b64_char p, b64_char q, b64_char r, CHR ''='' ] = Some [p * 4 + q div 16, q mod 16 * 16 + r div 4]"
    "b64_decode [b64_char p, b64_char q, CHR ''='', CHR ''=''] = Some [p * 4 + q div 16]"
  using assms by (simp_all add: b64_value_char b64_char_plain)

lemma b64_round: "list_all (\<lambda>n. n < 256) bs \<Longrightarrow> b64_decode (b64_encode bs) = Some bs"
proof (induction bs rule: b64_encode.induct)
  case (2 a)
  then have "a < 256" by simp
  note x = sextets [OF this, of 0 0]
  show ?case by (simp add: decode_group(3) [OF x(1) x(2) x(1) x(1)] x(7) del: b64_decode.simps)
next
  case (3 a b)
  then have "a < 256" "b < 256" by simp_all
  note x = sextets [OF this, of 0]
  show ?case by (simp only: b64_encode.simps decode_group(2) [OF x(1) x(3) x(4) x(1)] x)
next
  case (4 a b c rest)
  then have "a < 256" "b < 256" "c < 256" and rest: "b64_decode (b64_encode rest) = Some rest" by simp_all
  note x = sextets [OF this(1-3)]
  show ?case
    by (simp only: b64_encode.simps append_Cons append_Nil decode_group(1) [OF x(1) x(3) x(5) x(6)] x rest option.map)
qed simp

definition breaks_none :: "string \<Rightarrow> bool" where
  "breaks_none s \<longleftrightarrow> list_all (\<lambda>c. c \<noteq> CHR 0x0A \<and> c \<noteq> CHR 0x0D) s"

lemma breaks_none_simps:
  "breaks_none []" "breaks_none (c # s) \<longleftrightarrow> c \<noteq> CHR 0x0A \<and> c \<noteq> CHR 0x0D \<and> breaks_none s"
  by (simp_all add: breaks_none_def)

lemma b64_no_breaks: "list_all (\<lambda>n. n < 256) bs \<Longrightarrow> breaks_none (b64_encode bs)"
proof (induction bs rule: b64_encode.induct)
  case (2 a)
  then have "a < 256" by simp
  note x = sextets [OF this, of 0 0]
  show ?case by (simp add: breaks_none_simps b64_char_plain [OF x(1)] b64_char_plain [OF x(2)])
next
  case (3 a b)
  then have "a < 256" "b < 256" by simp_all
  note x = sextets [OF this, of 0]
  show ?case by (simp add: breaks_none_simps b64_char_plain [OF x(1)] b64_char_plain [OF x(3)] b64_char_plain [OF x(4)])
next
  case (4 a b c rest)
  then have "a < 256" "b < 256" "c < 256" and rest: "breaks_none (b64_encode rest)" by simp_all
  note x = sextets [OF this(1-3)]
  show ?case
    by (simp add: breaks_none_simps rest b64_char_plain [OF x(1)] b64_char_plain [OF x(3)] b64_char_plain [OF x(5)] b64_char_plain [OF x(6)])
qed (simp add: breaks_none_simps)

lemma bytes_small: "list_all (\<lambda>n. n < 256) (map of_char s :: nat list)"
  by (simp add: list_all_iff)

lemma DecodeString_Encode: "DecodeString (EncodeToString s) = Some s"
proof -
  have "filter (\<lambda>c. c \<noteq> CHR 0x0A \<and> c \<noteq> CHR 0x0D) (EncodeToString s) = EncodeToString s"
    using b64_no_breaks [OF bytes_small, of s] by (simp add: EncodeToString_def breaks_none_def filter_id_conv list_all_iff)
  then show ?thesis by (simp add: DecodeString_def EncodeToString_def b64_round [OF bytes_small] comp_def)
qed

lemma encode_empty: "EncodeToString s = [] \<longleftrightarrow> s = []"
  by (cases "map of_char s :: nat list" rule: b64_encode.cases) (auto simp: EncodeToString_def)

section \<open>Sealing\<close>

text \<open>AES-GCM: seal and open under a key and a nonce.\<close>

record gcm_cipher =
  gcm_Seal :: "string \<Rightarrow> string \<Rightarrow> string \<Rightarrow> string"
  gcm_Open :: "string \<Rightarrow> string \<Rightarrow> string \<Rightarrow> string option"

definition NonceSize :: nat where "NonceSize = 12"

text \<open>\<^verbatim>\<open>aes.NewCipher\<close> accepts keys of 16, 24 and 32 bytes.\<close>

definition cipher_key_ok :: "string \<Rightarrow> bool" where
  "cipher_key_ok passkey \<longleftrightarrow> length passkey \<in> {16, 24, 32}"

text \<open>The nonce is what the random source gave, \<^const>\<open>None\<close> when it failed.\<close>

definition encryptKey :: "gcm_cipher \<Rightarrow> string option \<Rightarrow> string \<Rightarrow> string \<Rightarrow> string option" where
  "encryptKey gcm nonce apiKey passkey = (if \<not> cipher_key_ok passkey then None
     else case nonce of None \<Rightarrow> None | Some n \<Rightarrow> Some (EncodeToString (n @ gcm_Seal gcm passkey n apiKey)))"

definition decryptKey :: "gcm_cipher \<Rightarrow> string \<Rightarrow> string \<Rightarrow> string option" where
  "decryptKey gcm encrypted passkey = (case DecodeString encrypted of None \<Rightarrow> None
   | Some data \<Rightarrow> if \<not> cipher_key_ok passkey then None
     else if length data < NonceSize then None
     else gcm_Open gcm passkey (take NonceSize data) (drop NonceSize data))"

definition optKey :: "string \<Rightarrow> string option" where
  "optKey k = (if k = [] then None else Some k)"

definition deref :: "string option \<Rightarrow> string" where
  "deref s = (case s of None \<Rightarrow> [] | Some k \<Rightarrow> k)"

definition SecretMask :: string where "SecretMask = ''*********''"

lemma deref_optKey [simp]: "deref (optKey k) = k"
  by (simp add: deref_def optKey_def)

text \<open>
  What the stored secrets rely on of the cipher: what was sealed under a key and a nonce opens under them.
\<close>

locale sealing =
  fixes gcm :: gcm_cipher
  assumes open_seal: "gcm_Open gcm k n (gcm_Seal gcm k n p) = Some p"
begin

text \<open>A secret that was stored is read back exactly, whatever the nonce.\<close>

lemma decrypt_encrypt:
  assumes "encryptKey gcm nonce apiKey passkey = Some stored" "\<And>n. nonce = Some n \<Longrightarrow> length n = NonceSize"
  shows "decryptKey gcm stored passkey = Some apiKey"
  using assms by (auto simp: encryptKey_def decryptKey_def DecodeString_Encode open_seal split: if_splits option.splits)

end

text \<open>A cipher to compute with, which only separates the nonce from the text.\<close>

definition plain_gcm :: gcm_cipher where
  "plain_gcm = \<lparr>gcm_Seal = \<lambda>k n p. ''x'' @ p, gcm_Open = \<lambda>k n c. case c of [] \<Rightarrow> None | x # p \<Rightarrow> if x = CHR ''x'' then Some p else None\<rparr>"

interpretation plain: sealing plain_gcm
  by unfold_locales (simp add: plain_gcm_def)

text \<open>
  A secret that is encrypted before it is stored is read back unchanged, whichever key, nonce and text, when the cipher opens
  what it sealed; without a usable key or a nonce nothing is stored.
\<close>

theorem stored_secret_round_trip:
  assumes "\<forall>k n p. gcm_Open gcm k n (gcm_Seal gcm k n p) = Some p" "length n = NonceSize"
  shows "if cipher_key_ok passkey
    then \<exists>stored. encryptKey gcm (Some n) apiKey passkey = Some stored \<and> decryptKey gcm stored passkey = Some apiKey
    else encryptKey gcm (Some n) apiKey passkey = None"
proof -
  have s: "sealing gcm" by (rule sealing.intro) (simp add: assms(1))
  show ?thesis
  proof (cases "cipher_key_ok passkey")
    case True
    then obtain stored where e: "encryptKey gcm (Some n) apiKey passkey = Some stored" by (simp add: encryptKey_def)
    from sealing.decrypt_encrypt [OF s e] assms(2) have "decryptKey gcm stored passkey = Some apiKey" by simp
    with True e show ?thesis by simp
  qed (simp add: encryptKey_def)
qed

theorem stored_secret_round_trip_witness:
  "\<exists>stored. encryptKey plain_gcm (Some ''nonce-nonce-'') ''dk-1'' ''0123456789abcdef'' = Some stored
     \<and> decryptKey plain_gcm stored ''0123456789abcdef'' = Some ''dk-1''"
proof -
  have "\<forall>k n p. gcm_Open plain_gcm k n (gcm_Seal plain_gcm k n p) = Some p" by (simp add: plain.open_seal)
  from stored_secret_round_trip [OF this, of "''nonce-nonce-''" "''0123456789abcdef''"] show ?thesis
    by (simp add: NonceSize_def cipher_key_ok_def)
qed

end
