(* ===== verification/KeyStore.thy ===== *)
theory KeyStore
  imports Governance Duration Secrets
begin

text \<open>
  Virtual keys and budgets in the database (\<^verbatim>\<open>internal/dbstore/virtualkeys.go\<close>, \<^verbatim>\<open>budget.go\<close>): the tables are
  lists of rows, an operation is a function from tables to tables with its result, and a transaction either does all it has
  to or leaves the tables as they are. The key column holds the sealed key, as the row hooks of the code leave it.
\<close>

section \<open>Tables\<close>

record KeyTables =
  kt_keys :: "StoreVirtualKey list"
  kt_budgets :: "StoreBudget list"

text \<open>
  What an operation gets from outside: the cipher with its configured key and nonce, the clock, the identifier
  and the random bytes it draws, and whether a read before it changes anything, the statements that change something
  and the read after them succeed.
\<close>

record store_env =
  se_gcm :: gcm_cipher
  se_passkey :: string
  se_nonce :: "string option"
  se_now :: time
  se_uuid :: string
  se_random :: "string option"
  se_read :: bool
  se_tx :: bool
  se_reload :: bool

datatype store_error = ErrDatabase | ErrNotFound string | ErrDecrypt | ErrEncrypt | ErrGenerate | ErrBudgetBound string | ErrRevoked string
  | ErrModeRequired | ErrBalancerRequired | ErrBadMode string | ErrBadBalancer string | ErrConfigs vk_error | ErrUnique
  | ErrLimit int64 | ErrDurationRequired | ErrDuration string

definition StoreVirtualKey_BeforeSave :: "store_env \<Rightarrow> StoreVirtualKey \<Rightarrow> store_error + StoreVirtualKey" where
  "StoreVirtualKey_BeforeSave env key = (case encryptKey (se_gcm env) (se_nonce env) (svk_APIKey key) (se_passkey env) of
     None \<Rightarrow> Inl ErrEncrypt | Some apiKey \<Rightarrow> Inr (key\<lparr>svk_APIKey := apiKey\<rparr>))"

definition StoreVirtualKey_AfterFind :: "store_env \<Rightarrow> bool \<Rightarrow> StoreVirtualKey \<Rightarrow> store_error + StoreVirtualKey" where
  "StoreVirtualKey_AfterFind env masked key = (if svk_APIKey key = [] then Inr key
     else if masked then Inr (key\<lparr>svk_APIKey := SecretMask\<rparr>)
     else case decryptKey (se_gcm env) (svk_APIKey key) (se_passkey env) of
       None \<Rightarrow> Inl ErrDecrypt | Some apiKey \<Rightarrow> Inr (key\<lparr>svk_APIKey := apiKey\<rparr>))"

definition StoreBudget_AfterFind :: "StoreBudget \<Rightarrow> store_error + StoreBudget" where
  "StoreBudget_AfterFind b = (if sb_BudgetDuration b = [] then Inr (b\<lparr>sb_BudgetParseDuration := 0\<rparr>)
     else case ParseDuration (sb_BudgetDuration b) of
       DurOK d \<Rightarrow> Inr (b\<lparr>sb_BudgetParseDuration := d\<rparr>) | _ \<Rightarrow> Inl (ErrDuration (sb_BudgetDuration b)))"

text \<open>A query for one row with its hook, and one for all rows: the first hook that fails is the error of the query.\<close>

definition key_row :: "store_env \<Rightarrow> bool \<Rightarrow> string \<Rightarrow> KeyTables \<Rightarrow> store_error + StoreVirtualKey" where
  "key_row env masked ident t = (case List.find (\<lambda>r. svk_ID r = ident) (kt_keys t) of
     None \<Rightarrow> Inl (ErrNotFound ident) | Some row \<Rightarrow> StoreVirtualKey_AfterFind env masked row)"

definition budget_row :: "string \<Rightarrow> KeyTables \<Rightarrow> store_error + StoreBudget" where
  "budget_row ident t = (case List.find (\<lambda>b. sb_ID b = ident) (kt_budgets t) of
     None \<Rightarrow> Inl (ErrNotFound ident) | Some b \<Rightarrow> StoreBudget_AfterFind b)"

fun all_rows :: "('a \<Rightarrow> store_error + 'b) \<Rightarrow> 'a list \<Rightarrow> store_error + 'b list" where
  "all_rows hook [] = Inr []"
| "all_rows hook (r # rs) = (case hook r of Inl e \<Rightarrow> Inl e | Inr x \<Rightarrow> map_sum id ((#) x) (all_rows hook rs))"

definition set_key :: "string \<Rightarrow> (StoreVirtualKey \<Rightarrow> StoreVirtualKey) \<Rightarrow> KeyTables \<Rightarrow> KeyTables" where
  "set_key ident f t = t\<lparr>kt_keys := map (\<lambda>r. if svk_ID r = ident then f r else r) (kt_keys t)\<rparr>"

definition set_budget :: "string \<Rightarrow> (StoreBudget \<Rightarrow> StoreBudget) \<Rightarrow> KeyTables \<Rightarrow> KeyTables" where
  "set_budget ident f t = t\<lparr>kt_budgets := map (\<lambda>b. if sb_ID b = ident then f b else b) (kt_budgets t)\<rparr>"

definition set_budget_status :: "time \<Rightarrow> string \<Rightarrow> string \<Rightarrow> KeyTables \<Rightarrow> KeyTables" where
  "set_budget_status now ident status = set_budget ident (\<lambda>b. b\<lparr>sb_Status := status, sb_UpdatedAt := now\<rparr>)"

definition set_key_active :: "time \<Rightarrow> string \<Rightarrow> bool \<Rightarrow> KeyTables \<Rightarrow> KeyTables" where
  "set_key_active now ident active = set_key ident (\<lambda>r. r\<lparr>svk_IsActive := active, svk_UpdatedAt := now\<rparr>)"

section \<open>Virtual keys\<close>

definition GetVirtualKey :: "store_env \<Rightarrow> string \<Rightarrow> KeyTables \<Rightarrow> store_error + StoreVirtualKey" where
  "GetVirtualKey env ident t = (if \<not> se_reload env then Inl ErrDatabase else key_row env False ident t)"

definition GetVirtualKeyRedacted :: "store_env \<Rightarrow> string \<Rightarrow> KeyTables \<Rightarrow> store_error + StoreVirtualKey" where
  "GetVirtualKeyRedacted env ident t = (if \<not> se_reload env then Inl ErrDatabase else key_row env True ident t)"

definition ListVirtualKeys :: "store_env \<Rightarrow> KeyTables \<Rightarrow> store_error + StoreVirtualKey list" where
  "ListVirtualKeys env t = (if \<not> se_reload env then Inl ErrDatabase else all_rows (StoreVirtualKey_AfterFind env False) (kt_keys t))"

definition ListActiveVirtualKeys :: "store_env \<Rightarrow> KeyTables \<Rightarrow> store_error + StoreVirtualKey list" where
  "ListActiveVirtualKeys env t = (if \<not> se_reload env then Inl ErrDatabase
     else all_rows (StoreVirtualKey_AfterFind env False) (filter svk_IsActive (kt_keys t)))"

text \<open>The listing for display does not read the key column; active keys come first.\<close>

definition ListVirtualKeysWithoutKeys :: "store_env \<Rightarrow> KeyTables \<Rightarrow> store_error + StoreVirtualKey list" where
  "ListVirtualKeysWithoutKeys env t = (if \<not> se_reload env then Inl ErrDatabase
     else let rows = filter svk_IsActive (kt_keys t) @ filter (\<lambda>r. \<not> svk_IsActive r) (kt_keys t)
       in all_rows (StoreVirtualKey_AfterFind env False) (map (\<lambda>r. r\<lparr>svk_APIKey := []\<rparr>) rows))"

text \<open>Updating a row through its model runs the hook on it, whose failure is the error of the update.\<close>

definition SetVirtualKeyActive :: "store_env \<Rightarrow> string \<Rightarrow> bool \<Rightarrow> KeyTables \<Rightarrow> KeyTables \<times> (store_error + StoreVirtualKey)" where
  "SetVirtualKeyActive env ident active t =
    (if \<not> se_tx env then (t, Inl ErrDatabase)
     else case key_row env False ident t of Inl e \<Rightarrow> (t, Inl e)
     | Inr key \<Rightarrow>
         if svk_IsActive key = active then (t, GetVirtualKey env ident t)
         else if active \<and> list_ex (\<lambda>r. svk_BudgetID r = svk_BudgetID key \<and> svk_IsActive r \<and> svk_ID r \<noteq> ident) (kt_keys t)
         then (t, Inl (ErrBudgetBound (svk_BudgetID key)))
         else case StoreVirtualKey_BeforeSave env key of Inl e \<Rightarrow> (t, Inl e)
         | Inr _ \<Rightarrow>
             let t1 = set_budget_status (se_now env) (svk_BudgetID key) (if active then ''bound'' else ''released'')
               (set_key_active (se_now env) ident active t)
             in (t1, GetVirtualKey env ident t1))"

definition RevokeVirtualKey :: "store_env \<Rightarrow> string \<Rightarrow> KeyTables \<Rightarrow> KeyTables \<times> store_error option" where
  "RevokeVirtualKey env ident t =
    (if \<not> se_tx env then (t, Some ErrDatabase)
     else case key_row env False ident t of Inl e \<Rightarrow> (t, Some e)
     | Inr key \<Rightarrow> (case StoreVirtualKey_BeforeSave env key of Inl e \<Rightarrow> (t, Some e)
       | Inr _ \<Rightarrow> (set_budget_status (se_now env) (svk_BudgetID key) ''released'' (set_key_active (se_now env) ident False t), None)))"

definition DeleteVirtualKey :: "store_env \<Rightarrow> string \<Rightarrow> KeyTables \<Rightarrow> KeyTables \<times> store_error option" where
  "DeleteVirtualKey env ident t =
    (if \<not> se_tx env then (t, Some ErrDatabase)
     else case key_row env False ident t of Inl e \<Rightarrow> (t, Some e)
     | Inr key \<Rightarrow> (set_budget_status (se_now env) (svk_BudgetID key) ''released''
         (t\<lparr>kt_keys := filter (\<lambda>r. svk_ID r \<noteq> ident) (kt_keys t)\<rparr>), None))"

text \<open>Saving a row: all its columns, the key sealed, unless the hash is taken by another row.\<close>

definition save_key :: "store_env \<Rightarrow> StoreVirtualKey \<Rightarrow> KeyTables \<Rightarrow> store_error + KeyTables" where
  "save_key env key t = (case StoreVirtualKey_BeforeSave env key of Inl e \<Rightarrow> Inl e
   | Inr stored \<Rightarrow>
       if list_ex (\<lambda>r. svk_KeyHash r = svk_KeyHash key \<and> svk_ID r \<noteq> svk_ID key) (kt_keys t) then Inl ErrUnique
       else Inr (set_key (svk_ID key) (\<lambda>_. stored\<lparr>svk_UpdatedAt := se_now env\<rparr>) t))"

definition RotateVirtualKey :: "store_env \<Rightarrow> string \<Rightarrow> KeyTables \<Rightarrow> KeyTables \<times> (store_error + StoreVirtualKey \<times> string)" where
  "RotateVirtualKey env ident t =
    (case GenerateVirtualKey (se_random env) of None \<Rightarrow> (t, Inl ErrGenerate)
     | Some (apiKey, hash, shown) \<Rightarrow>
       if \<not> se_tx env then (t, Inl ErrDatabase)
       else case key_row env False ident t of Inl e \<Rightarrow> (t, Inl e)
       | Inr key \<Rightarrow>
           if \<not> svk_IsActive key then (t, Inl (ErrRevoked ident))
           else case save_key env (key\<lparr>svk_APIKey := apiKey, svk_KeyHash := hash, svk_DisplayPrefix := shown\<rparr>) t of
             Inl e \<Rightarrow> (t, Inl e)
           | Inr t1 \<Rightarrow> (t1, map_sum id (\<lambda>row. (row, apiKey)) (GetVirtualKey env ident t1)))"

record UpdateVirtualKeyRoutingRequest =
  ur_Mode :: "VKMode option"
  ur_ProviderConfigs :: "ProviderConfig list option"
  ur_LoadBalancer :: "LBKind option"

text \<open>A direct key has one configuration; its weight is stored as 1.\<close>

definition direct_weight :: "VKMode \<Rightarrow> ProviderConfig list \<Rightarrow> ProviderConfig list" where
  "direct_weight mode configs = (if mode = VKDirect then configs[0 := (hd configs)\<lparr>pcfg_Weight := Fin 1\<rparr>] else configs)"

definition routed :: "UpdateVirtualKeyRoutingRequest \<Rightarrow> StoreVirtualKey \<Rightarrow> StoreVirtualKey" where
  "routed request key = key\<lparr>svk_Mode := (case ur_Mode request of None \<Rightarrow> svk_Mode key | Some m \<Rightarrow> VKMode_String m),
     svk_ProviderConfigs := (case ur_ProviderConfigs request of None \<Rightarrow> svk_ProviderConfigs key | Some cs \<Rightarrow> cs),
     svk_LoadBalancer := (case ur_LoadBalancer request of None \<Rightarrow> svk_LoadBalancer key | Some lb \<Rightarrow> LBKind_String lb)\<rparr>"

definition UpdateVirtualKeyRouting :: "store_env \<Rightarrow> string \<Rightarrow> UpdateVirtualKeyRoutingRequest \<Rightarrow> KeyTables
    \<Rightarrow> KeyTables \<times> (store_error + StoreVirtualKey)" where
  "UpdateVirtualKeyRouting env keyID request t =
    (if \<not> se_tx env then (t, Inl ErrDatabase)
     else case key_row env False keyID t of Inl e \<Rightarrow> (t, Inl e)
     | Inr found \<Rightarrow>
         let key = routed request found in
         (case ParseVKMode (svk_Mode key) of None \<Rightarrow> (t, Inl (ErrBadMode (svk_Mode key)))
          | Some mode \<Rightarrow> (case CompileProviderConfigs mode (svk_ProviderConfigs key) of Inl e \<Rightarrow> (t, Inl (ErrConfigs e))
            | Inr _ \<Rightarrow>
                let key1 = key\<lparr>svk_ProviderConfigs := direct_weight mode (svk_ProviderConfigs key)\<rparr> in
                (case ParseLBKind (svk_LoadBalancer key1) of None \<Rightarrow> (t, Inl (ErrBadBalancer (svk_LoadBalancer key1)))
                 | Some _ \<Rightarrow> (case save_key env key1 t of Inl e \<Rightarrow> (t, Inl e)
                   | Inr t1 \<Rightarrow> (t1, GetVirtualKey env keyID t1))))))"

record VirtualKeyRequest =
  vq_ClientID :: string
  vq_BudgetID :: string
  vq_ExpiresAt :: "time option"
  vq_Mode :: "VKMode option"
  vq_LoadBalancer :: "LBKind option"
  vq_ProviderConfigs :: "ProviderConfig list"

definition new_key :: "store_env \<Rightarrow> VirtualKeyRequest \<Rightarrow> VKMode \<Rightarrow> LBKind \<Rightarrow> string \<times> string \<times> string \<Rightarrow> StoreVirtualKey" where
  "new_key env payload mode lb = (\<lambda>(apiKey, hash, shown). \<lparr>svk_ID = se_uuid env, svk_APIKey = apiKey, svk_ClientID = vq_ClientID payload,
     svk_BudgetID = vq_BudgetID payload, svk_Mode = VKMode_String mode,
     svk_ProviderConfigs = direct_weight mode (vq_ProviderConfigs payload),
     svk_LoadBalancer = LBKind_String lb, svk_IsActive = True, svk_ExpiresAt = vq_ExpiresAt payload,
     svk_KeyHash = hash, svk_DisplayPrefix = shown, svk_CreatedAt = se_now env, svk_UpdatedAt = se_now env\<rparr>)"

definition insert_key :: "store_env \<Rightarrow> StoreVirtualKey \<Rightarrow> KeyTables \<Rightarrow> store_error + KeyTables" where
  "insert_key env key t = (case StoreVirtualKey_BeforeSave env key of Inl e \<Rightarrow> Inl e
   | Inr stored \<Rightarrow>
       if list_ex (\<lambda>r. svk_ID r = svk_ID key \<or> svk_KeyHash r = svk_KeyHash key) (kt_keys t) then Inl ErrUnique
       else Inr (t\<lparr>kt_keys := kt_keys t @ [stored]\<rparr>))"

definition CreateVirtualKeyTx :: "store_env \<Rightarrow> VirtualKeyRequest \<Rightarrow> KeyTables \<Rightarrow> KeyTables \<times> (store_error + StoreVirtualKey \<times> string)" where
  "CreateVirtualKeyTx env payload t =
    (case vq_Mode payload of None \<Rightarrow> (t, Inl ErrModeRequired)
     | Some mode \<Rightarrow> (case vq_LoadBalancer payload of None \<Rightarrow> (t, Inl ErrBalancerRequired)
       | Some lb \<Rightarrow> (case CompileProviderConfigs mode (vq_ProviderConfigs payload) of Inl e \<Rightarrow> (t, Inl (ErrConfigs e))
         | Inr _ \<Rightarrow> (case GenerateVirtualKey (se_random env) of None \<Rightarrow> (t, Inl ErrGenerate)
           | Some gen \<Rightarrow>
             if \<not> se_tx env then (t, Inl ErrDatabase)
             else case budget_row (vq_BudgetID payload) t of Inl e \<Rightarrow> (t, Inl e)
             | Inr budget \<Rightarrow>
                 if sb_Status budget = ''bound'' then (t, Inl (ErrBudgetBound (vq_BudgetID payload)))
                 else case insert_key env (new_key env payload mode lb gen) (set_budget_status (se_now env) (sb_ID budget) ''bound'' t) of
                   Inl e \<Rightarrow> (t, Inl e)
                 | Inr t1 \<Rightarrow> (t1, map_sum id (\<lambda>row. (row, fst gen)) (GetVirtualKey env (se_uuid env) t1))))))"

record VirtualKeyResponse =
  vr_ID :: string
  vr_DisplayPrefix :: string
  vr_ClientID :: string
  vr_BudgetID :: string
  vr_Mode :: VKMode
  vr_LoadBalancer :: LBKind
  vr_ProviderConfigs :: "ProviderConfig list"
  vr_IsActive :: bool
  vr_ExpiresAt :: time
  vr_CreatedAt :: time
  vr_UpdatedAt :: time

definition StoreVirtualKey_ToResponse :: "StoreVirtualKey \<Rightarrow> store_error + VirtualKeyResponse" where
  "StoreVirtualKey_ToResponse key = (case ParseVKMode (svk_Mode key) of None \<Rightarrow> Inl (ErrBadMode (svk_Mode key))
   | Some mode \<Rightarrow> (case ParseLBKind (svk_LoadBalancer key) of None \<Rightarrow> Inl (ErrBadBalancer (svk_LoadBalancer key))
     | Some loadBalancer \<Rightarrow> Inr \<lparr>vr_ID = svk_ID key, vr_DisplayPrefix = svk_DisplayPrefix key, vr_ClientID = svk_ClientID key,
         vr_BudgetID = svk_BudgetID key, vr_Mode = mode, vr_LoadBalancer = loadBalancer, vr_ProviderConfigs = svk_ProviderConfigs key,
         vr_IsActive = svk_IsActive key, vr_ExpiresAt = (case svk_ExpiresAt key of None \<Rightarrow> 0 | Some e \<Rightarrow> e),
         vr_CreatedAt = svk_CreatedAt key, vr_UpdatedAt = svk_UpdatedAt key\<rparr>))"

section \<open>Budgets\<close>

definition GetBudget :: "store_env \<Rightarrow> string \<Rightarrow> KeyTables \<Rightarrow> store_error + StoreBudget" where
  "GetBudget env budgetID t = (if \<not> se_reload env then Inl ErrDatabase else budget_row budgetID t)"

definition ListBudgets :: "store_env \<Rightarrow> KeyTables \<Rightarrow> store_error + StoreBudget list" where
  "ListBudgets env t = (if \<not> se_reload env then Inl ErrDatabase else all_rows StoreBudget_AfterFind (kt_budgets t))"

definition BudgetUnitNanoUSD :: string where "BudgetUnitNanoUSD = ''nanodollars''"

definition new_budget :: "store_env \<Rightarrow> Budget \<Rightarrow> StoreBudget" where
  "new_budget env b = \<lparr>sb_ID = se_uuid env, sb_Name = b_Name b, sb_BudgetLimit = b_BudgetLimit b,
     sb_BudgetUnit = (if b_BudgetUnit b = [] then BudgetUnitNanoUSD else b_BudgetUnit b), sb_BudgetDuration = b_BudgetDuration b,
     sb_Enforce = (case b_Enforce b of None \<Rightarrow> True | Some e \<Rightarrow> e), sb_TotalCost = 0, sb_RequestCount = 0, sb_Status = ''unbound'',
     sb_LastBudgetRefreshAt = (if b_LastBudgetRefreshAt b = 0 then se_now env else b_LastBudgetRefreshAt b), sb_BudgetParseDuration = 0,
     sb_LastFlushedAt = 0, sb_CreatedAt = se_now env, sb_UpdatedAt = se_now env\<rparr>"

definition CreateBudget :: "store_env \<Rightarrow> Budget \<Rightarrow> KeyTables \<Rightarrow> KeyTables \<times> (store_error + StoreBudget)" where
  "CreateBudget env b t =
    (if b_BudgetLimit b \<le> 0 then (t, Inl (ErrLimit (b_BudgetLimit b)))
     else if b_BudgetDuration b = [] then (t, Inl ErrDurationRequired)
     else case ParseDuration (b_BudgetDuration b) of
       DurOK _ \<Rightarrow>
         if \<not> se_tx env then (t, Inl ErrDatabase)
         else if list_ex (\<lambda>r. sb_ID r = se_uuid env \<or> sb_Name r = b_Name b) (kt_budgets t) then (t, Inl ErrUnique)
         else (t\<lparr>kt_budgets := kt_budgets t @ [new_budget env b]\<rparr>, Inr (new_budget env b))
     | _ \<Rightarrow> (t, Inl (ErrDuration (b_BudgetDuration b))))"

text \<open>The columns that an update sets: a limit of 0, an empty duration and an absent flag leave them.\<close>

definition budget_updates :: "Budget \<Rightarrow> StoreBudget \<Rightarrow> StoreBudget" where
  "budget_updates b r = r\<lparr>sb_BudgetLimit := (if b_BudgetLimit b \<noteq> 0 then b_BudgetLimit b else sb_BudgetLimit r),
     sb_BudgetDuration := (if b_BudgetDuration b \<noteq> [] then b_BudgetDuration b else sb_BudgetDuration r),
     sb_Enforce := (case b_Enforce b of None \<Rightarrow> sb_Enforce r | Some e \<Rightarrow> e)\<rparr>"

definition UpdateBudget :: "store_env \<Rightarrow> string \<Rightarrow> Budget \<Rightarrow> KeyTables \<Rightarrow> KeyTables \<times> (store_error + StoreBudget)" where
  "UpdateBudget env budgetID b t =
    (case (if \<not> se_read env then Inl ErrDatabase else budget_row budgetID t) of Inl e \<Rightarrow> (t, Inl e)
     | Inr existing \<Rightarrow>
         if b_BudgetDuration b \<noteq> [] \<and> sb_BudgetDuration existing \<noteq> b_BudgetDuration b
            \<and> (case ParseDuration (b_BudgetDuration b) of DurOK _ \<Rightarrow> False | _ \<Rightarrow> True)
         then (t, Inl (ErrDuration (b_BudgetDuration b)))
         else if (b_BudgetLimit b = 0 \<or> sb_BudgetLimit existing = b_BudgetLimit b)
            \<and> (b_BudgetDuration b = [] \<or> sb_BudgetDuration existing = b_BudgetDuration b)
            \<and> (b_Enforce b = None \<or> b_Enforce b = Some (sb_Enforce existing))
         then (t, Inr existing)
         else if \<not> se_tx env then (t, Inl ErrDatabase)
         else let t1 = set_budget budgetID (\<lambda>r. (budget_updates b r)\<lparr>sb_UpdatedAt := se_now env\<rparr>) t
           in (t1, GetBudget env budgetID t1))"

definition UpdateBudgetEnforce :: "store_env \<Rightarrow> string \<Rightarrow> bool \<Rightarrow> KeyTables \<Rightarrow> KeyTables \<times> store_error option" where
  "UpdateBudgetEnforce env budgetID enforce t =
    (if \<not> se_tx env then (t, Some ErrDatabase)
     else if \<not> list_ex (\<lambda>b. sb_ID b = budgetID) (kt_budgets t) then (t, Some (ErrNotFound budgetID))
     else (set_budget budgetID (\<lambda>r. r\<lparr>sb_Enforce := enforce, sb_UpdatedAt := se_now env\<rparr>) t, None))"

definition DeleteBudget :: "store_env \<Rightarrow> string \<Rightarrow> KeyTables \<Rightarrow> KeyTables \<times> store_error option" where
  "DeleteBudget env budgetID t = (case (if \<not> se_read env then Inl ErrDatabase else budget_row budgetID t) of Inl e \<Rightarrow> (t, Some e)
   | Inr b \<Rightarrow>
       if sb_Status b = ''bound'' then (t, Some (ErrBudgetBound budgetID))
       else if \<not> se_tx env then (t, Some ErrDatabase)
       else (t\<lparr>kt_budgets := filter (\<lambda>r. sb_ID r \<noteq> budgetID) (kt_budgets t)\<rparr>, None))"

definition FlushBudgetUsage :: "store_env \<Rightarrow> string \<Rightarrow> int64 \<Rightarrow> int64 \<Rightarrow> KeyTables \<Rightarrow> KeyTables \<times> store_error option" where
  "FlushBudgetUsage env budgetID totalCost totalRequests t = (if \<not> se_tx env then (t, Some ErrDatabase)
     else (set_budget budgetID (\<lambda>r. r\<lparr>sb_TotalCost := totalCost, sb_RequestCount := totalRequests, sb_LastFlushedAt := se_now env\<rparr>) t, None))"

definition ResetBudgetWindow :: "store_env \<Rightarrow> string \<Rightarrow> time \<Rightarrow> KeyTables \<Rightarrow> KeyTables \<times> store_error option" where
  "ResetBudgetWindow env budgetID resetTime t = (if \<not> se_tx env then (t, Some ErrDatabase)
     else (set_budget budgetID (\<lambda>r. r\<lparr>sb_TotalCost := 0, sb_RequestCount := 0, sb_LastBudgetRefreshAt := resetTime\<rparr>) t, None))"

section \<open>Reading\<close>

lemma key_row_found:
  assumes "key_row env masked ident t = Inr key"
  obtains row where "row \<in> set (kt_keys t)" "svk_ID row = ident" "StoreVirtualKey_AfterFind env masked row = Inr key"
    "key = row\<lparr>svk_APIKey := svk_APIKey key\<rparr>"
proof -
  from assms obtain row where row: "List.find (\<lambda>r. svk_ID r = ident) (kt_keys t) = Some row" "StoreVirtualKey_AfterFind env masked row = Inr key"
    by (auto simp: key_row_def split: option.splits)
  from row(2) have "key = row\<lparr>svk_APIKey := svk_APIKey key\<rparr>"
    by (auto simp: StoreVirtualKey_AfterFind_def split: if_splits option.splits)
  with row show thesis using that find_SomeD [OF row(1)] by blast
qed

lemma budget_row_found:
  assumes "budget_row ident t = Inr b"
  obtains row where "row \<in> set (kt_budgets t)" "sb_ID row = ident" "b = row\<lparr>sb_BudgetParseDuration := sb_BudgetParseDuration b\<rparr>"
proof -
  from assms obtain row where row: "List.find (\<lambda>r. sb_ID r = ident) (kt_budgets t) = Some row" "StoreBudget_AfterFind row = Inr b"
    by (auto simp: budget_row_def split: option.splits)
  from row(2) have "b = row\<lparr>sb_BudgetParseDuration := sb_BudgetParseDuration b\<rparr>"
    by (auto simp: StoreBudget_AfterFind_def split: if_splits duration_result.splits)
  with row show thesis using that find_SomeD [OF row(1)] by blast
qed

section \<open>The operations together\<close>

text \<open>The operations of the store, and the tables after one of them.\<close>

datatype key_op = OpCreateKey VirtualKeyRequest | OpSetActive string bool | OpRevoke string | OpDelete string | OpRotate string
  | OpRouting string UpdateVirtualKeyRoutingRequest | OpCreateBudget Budget | OpUpdateBudget string Budget | OpEnforce string bool
  | OpDeleteBudget string | OpFlush string int64 int64 | OpReset string time

fun apply_op :: "store_env \<Rightarrow> key_op \<Rightarrow> KeyTables \<Rightarrow> KeyTables" where
  "apply_op env (OpCreateKey payload) t = fst (CreateVirtualKeyTx env payload t)"
| "apply_op env (OpSetActive ident active) t = fst (SetVirtualKeyActive env ident active t)"
| "apply_op env (OpRevoke ident) t = fst (RevokeVirtualKey env ident t)"
| "apply_op env (OpDelete ident) t = fst (DeleteVirtualKey env ident t)"
| "apply_op env (OpRotate ident) t = fst (RotateVirtualKey env ident t)"
| "apply_op env (OpRouting ident request) t = fst (UpdateVirtualKeyRouting env ident request t)"
| "apply_op env (OpCreateBudget b) t = fst (CreateBudget env b t)"
| "apply_op env (OpUpdateBudget ident b) t = fst (UpdateBudget env ident b t)"
| "apply_op env (OpEnforce ident e) t = fst (UpdateBudgetEnforce env ident e t)"
| "apply_op env (OpDeleteBudget ident) t = fst (DeleteBudget env ident t)"
| "apply_op env (OpFlush ident c n) t = fst (FlushBudgetUsage env ident c n t)"
| "apply_op env (OpReset ident time) t = fst (ResetBudgetWindow env ident time t)"

end
