(* ===== verification/CredentialStore.thy ===== *)
theory CredentialStore
  imports KeyStore ProviderPlane
begin

text \<open>
  Providers and upstream credentials in the database (\<^verbatim>\<open>internal/dbstore/provider.go\<close>, \<^verbatim>\<open>credentials.go\<close>, \<^verbatim>\<open>seed.go\<close>,
  \<^verbatim>\<open>dbsource.go\<close>): rows with their sealing hooks, the operations on them and what the gateway loads from them.
\<close>

section \<open>Rows\<close>

record StoreProvider =
  sp_ID :: string
  sp_Name :: string
  sp_IsConfigured :: bool
  sp_Network :: NetworkConfig
  sp_Proxy :: "ProxyConfig option"
  sp_AdapterEnabled :: bool
  sp_ModelCount :: int

record StoreCredential =
  sc_ID :: string
  sc_ProviderID :: string
  sc_Provider :: StoreProvider
  sc_Name :: string
  sc_APIKey :: "string option"
  sc_Enabled :: bool
  sc_ExpiryAt :: "time option"
  sc_AllowedModels :: "string list"
  sc_BlockedModels :: "string list"
  sc_Endpoint :: string
  sc_Aliases :: "(string \<times> Alias) list"
  sc_AzureAuthMode :: "string option"
  sc_AzureTenantID :: "string option"
  sc_AzureClientID :: "string option"
  sc_AzureClientSecret :: "string option"
  sc_AzureScopes :: "string list"
  sc_CreatedAt :: time
  sc_UpdatedAt :: time

record ProviderTables =
  pt_providers :: "StoreProvider list"
  pt_credentials :: "StoreCredential list"

text \<open>
  Beside what the key store gets from outside: the nonce of the second secret of a row, the identifiers that several new rows
  draw, and what the database library stores on creation in a column with a default, from the default and the given value.
\<close>

record credential_env = store_env +
  ce_nonce2 :: "string option"
  ce_uuids :: "nat \<Rightarrow> string"
  ce_default :: "bool \<Rightarrow> bool \<Rightarrow> bool"

datatype credential_store_error = CSDatabase | CSNotFound string | CSDecrypt | CSEncrypt | CSInvalid credential_error

text \<open>The two secrets of a row, one after the other; the first failure is the error.\<close>

definition seal_two :: "credential_env \<Rightarrow> (string option \<times> string option) \<Rightarrow> (string option \<times> string option) option" where
  "seal_two env = (\<lambda>(a, b).
     case (case a of None \<Rightarrow> Some None | Some s \<Rightarrow> map_option Some (encryptKey (se_gcm env) (se_nonce env) s (se_passkey env))) of
       None \<Rightarrow> None
     | Some a' \<Rightarrow> (case (case b of None \<Rightarrow> Some None | Some s \<Rightarrow> map_option Some (encryptKey (se_gcm env) (ce_nonce2 env) s (se_passkey env))) of
         None \<Rightarrow> None
       | Some b' \<Rightarrow> Some (a', b')))"

definition open_secret :: "credential_env \<Rightarrow> bool \<Rightarrow> string option \<Rightarrow> string option option" where
  "open_secret env masked s = (case s of None \<Rightarrow> Some None
     | Some c \<Rightarrow> if masked then Some (Some SecretMask) else map_option Some (decryptKey (se_gcm env) c (se_passkey env)))"

definition open_two :: "credential_env \<Rightarrow> bool \<Rightarrow> (string option \<times> string option) \<Rightarrow> (string option \<times> string option) option" where
  "open_two env masked = (\<lambda>(a, b). case open_secret env masked a of None \<Rightarrow> None
     | Some a' \<Rightarrow> (case open_secret env masked b of None \<Rightarrow> None | Some b' \<Rightarrow> Some (a', b')))"

text \<open>The secrets of a provider are those of its proxy; empty ones are left alone.\<close>

definition StoreProvider_secrets :: "ProxyConfig \<Rightarrow> string option \<times> string option" where
  "StoreProvider_secrets proxy = (optKey (pc_Username proxy), optKey (pc_Password proxy))"

definition with_proxy_secrets :: "ProxyConfig \<Rightarrow> string option \<times> string option \<Rightarrow> ProxyConfig" where
  "with_proxy_secrets proxy = (\<lambda>(u, p). proxy\<lparr>pc_Username := deref u, pc_Password := deref p\<rparr>)"

definition StoreProvider_BeforeSave :: "credential_env \<Rightarrow> StoreProvider \<Rightarrow> credential_store_error + StoreProvider" where
  "StoreProvider_BeforeSave env s = (case sp_Proxy s of None \<Rightarrow> Inr s
   | Some proxy \<Rightarrow> (case seal_two env (StoreProvider_secrets proxy) of None \<Rightarrow> Inl CSEncrypt
     | Some x \<Rightarrow> Inr (s\<lparr>sp_Proxy := Some (with_proxy_secrets proxy x)\<rparr>)))"

definition StoreProvider_AfterFind :: "credential_env \<Rightarrow> bool \<Rightarrow> StoreProvider \<Rightarrow> credential_store_error + StoreProvider" where
  "StoreProvider_AfterFind env masked s = (case sp_Proxy s of None \<Rightarrow> Inr s
   | Some proxy \<Rightarrow> (case open_two env masked (StoreProvider_secrets proxy) of None \<Rightarrow> Inl CSDecrypt
     | Some x \<Rightarrow> Inr (s\<lparr>sp_Proxy := Some (with_proxy_secrets proxy x)\<rparr>)))"

definition StoreProvider_ToUpstream :: "StoreProvider \<Rightarrow> Upstream" where
  "StoreProvider_ToUpstream s = \<lparr>u_Provider = sp_Name s, u_Network = sp_Network s, u_Proxy = sp_Proxy s\<rparr>"

definition StoreCredential_secrets :: "StoreCredential \<Rightarrow> string option \<times> string option" where
  "StoreCredential_secrets s = (sc_APIKey s, sc_AzureClientSecret s)"

definition with_secrets :: "StoreCredential \<Rightarrow> string option \<times> string option \<Rightarrow> StoreCredential" where
  "with_secrets s = (\<lambda>(a, b). s\<lparr>sc_APIKey := a, sc_AzureClientSecret := b\<rparr>)"

definition StoreCredential_BeforeSave :: "credential_env \<Rightarrow> StoreCredential \<Rightarrow> credential_store_error + StoreCredential" where
  "StoreCredential_BeforeSave env s = (case seal_two env (StoreCredential_secrets s) of None \<Rightarrow> Inl CSEncrypt
   | Some x \<Rightarrow> Inr (with_secrets s x))"

definition StoreCredential_AfterFind :: "credential_env \<Rightarrow> bool \<Rightarrow> StoreCredential \<Rightarrow> credential_store_error + StoreCredential" where
  "StoreCredential_AfterFind env masked s = (case open_two env masked (StoreCredential_secrets s) of None \<Rightarrow> Inl CSDecrypt
   | Some x \<Rightarrow> Inr (with_secrets s x))"

definition StoreCredential_ToCore :: "StoreCredential \<Rightarrow> Credential" where
  "StoreCredential_ToCore s = \<lparr>c_ID = sc_ID s, c_Provider = sp_Name (sc_Provider s), c_Name = sc_Name s, c_APIKey = deref (sc_APIKey s),
     c_Enabled = sc_Enabled s, c_ExpiryAt = sc_ExpiryAt s, c_AllowedModels = sc_AllowedModels s, c_BlockedModels = sc_BlockedModels s,
     c_Endpoint = sc_Endpoint s, c_Aliases = sc_Aliases s,
     c_Settings = \<lparr>cs_Azure = (if sp_Name (sc_Provider s) = ProviderAzure \<and> sc_AzureAuthMode s \<noteq> None
       then Some \<lparr>az_AuthMode = deref (sc_AzureAuthMode s), az_TenantID = deref (sc_AzureTenantID s), az_ClientID = deref (sc_AzureClientID s),
         az_ClientSecret = deref (sc_AzureClientSecret s), az_Scopes = sc_AzureScopes s\<rparr> else None)\<rparr>\<rparr>"

definition empty_network :: NetworkConfig where
  "empty_network = \<lparr>BaseURL = [], Headers = [], RequestTimeout = None, MaxRetries = None, RetryBackoff = None, MaxConnsPerHost = None,
     InsecureSkipVerify = False, AllowPrivateNetwork = False, RetryAmbiguousStatus = None, MaxResponseBytes = 0, StreamIdleTimeout = None\<rparr>"

definition zero_provider :: StoreProvider where
  "zero_provider = \<lparr>sp_ID = [], sp_Name = [], sp_IsConfigured = False, sp_Network = empty_network, sp_Proxy = None,
     sp_AdapterEnabled = False, sp_ModelCount = 0\<rparr>"

definition applyAzureSettings :: "StoreCredential \<Rightarrow> Credential \<Rightarrow> StoreCredential" where
  "applyAzureSettings row cred = (case cs_Azure (c_Settings cred) of None \<Rightarrow> row
   | Some azure \<Rightarrow> row\<lparr>sc_AzureAuthMode := optKey (az_AuthMode azure), sc_AzureTenantID := optKey (az_TenantID azure),
       sc_AzureClientID := optKey (az_ClientID azure), sc_AzureClientSecret := optKey (az_ClientSecret azure), sc_AzureScopes := az_Scopes azure\<rparr>)"

definition newStoreCredential :: "string \<Rightarrow> Credential \<Rightarrow> string \<Rightarrow> time \<Rightarrow> StoreCredential" where
  "newStoreCredential uuid cred providerID now = applyAzureSettings
     \<lparr>sc_ID = uuid, sc_ProviderID = providerID, sc_Provider = zero_provider, sc_Name = c_Name cred, sc_APIKey = optKey (c_APIKey cred),
      sc_Enabled = c_Enabled cred, sc_ExpiryAt = c_ExpiryAt cred, sc_AllowedModels = c_AllowedModels cred, sc_BlockedModels = c_BlockedModels cred,
      sc_Endpoint = c_Endpoint cred, sc_Aliases = c_Aliases cred, sc_AzureAuthMode = None, sc_AzureTenantID = None, sc_AzureClientID = None,
      sc_AzureClientSecret = None, sc_AzureScopes = [], sc_CreatedAt = now, sc_UpdatedAt = now\<rparr> cred"

section \<open>Providers\<close>

text \<open>A query that returns rows runs the hook on each of them.\<close>

fun each_row :: "('a \<Rightarrow> credential_store_error + 'b) \<Rightarrow> 'a list \<Rightarrow> credential_store_error + 'b list" where
  "each_row hook [] = Inr []"
| "each_row hook (r # rs) = (case hook r of Inl e \<Rightarrow> Inl e | Inr x \<Rightarrow> map_sum id ((#) x) (each_row hook rs))"

definition provider_row :: "credential_env \<Rightarrow> bool \<Rightarrow> Provider \<Rightarrow> ProviderTables \<Rightarrow> credential_store_error + StoreProvider" where
  "provider_row env masked name t = (case List.find (\<lambda>p. sp_Name p = name) (pt_providers t) of
     None \<Rightarrow> Inl (CSNotFound name) | Some p \<Rightarrow> StoreProvider_AfterFind env masked p)"

definition ListProviders :: "credential_env \<Rightarrow> ProviderTables \<Rightarrow> credential_store_error + StoreProvider list" where
  "ListProviders env t = (if \<not> se_reload env then Inl CSDatabase else each_row (StoreProvider_AfterFind env False) (pt_providers t))"

definition ListProvidersRedacted :: "credential_env \<Rightarrow> ProviderTables \<Rightarrow> credential_store_error + StoreProvider list" where
  "ListProvidersRedacted env t = (if \<not> se_reload env then Inl CSDatabase else each_row (StoreProvider_AfterFind env True) (pt_providers t))"

definition GetProvider :: "credential_env \<Rightarrow> Provider \<Rightarrow> ProviderTables \<Rightarrow> credential_store_error + StoreProvider" where
  "GetProvider env name t = (if \<not> se_reload env then Inl CSDatabase else provider_row env False name t)"

definition GetProviderRedacted :: "credential_env \<Rightarrow> Provider \<Rightarrow> ProviderTables \<Rightarrow> credential_store_error + StoreProvider" where
  "GetProviderRedacted env name t = (if \<not> se_reload env then Inl CSDatabase else provider_row env True name t)"

text \<open>The query of \<^verbatim>\<open>resolveProvider\<close> inside a transaction.\<close>

definition resolveProvider :: "credential_env \<Rightarrow> Provider \<Rightarrow> ProviderTables \<Rightarrow> credential_store_error + StoreProvider" where
  "resolveProvider env provider t = provider_row env False provider t"

definition set_provider :: "string \<Rightarrow> (StoreProvider \<Rightarrow> StoreProvider) \<Rightarrow> ProviderTables \<Rightarrow> ProviderTables" where
  "set_provider ident f t = t\<lparr>pt_providers := map (\<lambda>p. if sp_ID p = ident then f p else p) (pt_providers t)\<rparr>"

definition UpdateProviderConfig :: "credential_env \<Rightarrow> Provider \<Rightarrow> NetworkConfig \<Rightarrow> ProxyConfig option \<Rightarrow> ProviderTables
    \<Rightarrow> ProviderTables \<times> credential_store_error option" where
  "UpdateProviderConfig env provider network proxy t =
    (if \<not> se_tx env then (t, Some CSDatabase)
     else case resolveProvider env provider t of Inl e \<Rightarrow> (t, Some e)
     | Inr row \<Rightarrow> (case StoreProvider_BeforeSave env (row\<lparr>sp_Network := network, sp_Proxy := proxy, sp_IsConfigured := True\<rparr>) of
         Inl e \<Rightarrow> (t, Some e)
       | Inr stored \<Rightarrow> (set_provider (sp_ID row) (\<lambda>p. p\<lparr>sp_Network := sp_Network stored, sp_Proxy := sp_Proxy stored, sp_IsConfigured := True\<rparr>) t,
           None)))"

text \<open>
  Rows for the names that are not empty, the first of each; a name that the table has is left alone by the conflict clause.
\<close>

fun new_names :: "Provider list \<Rightarrow> Provider set \<Rightarrow> Provider list" where
  "new_names [] seen = []"
| "new_names (name # names) seen = (if name = [] \<or> name \<in> seen then new_names names seen else name # new_names names (insert name seen))"

definition UpsertProviders :: "credential_env \<Rightarrow> Provider list \<Rightarrow> ProviderTables \<Rightarrow> ProviderTables \<times> credential_store_error option" where
  "UpsertProviders env names t =
    (let rows = map (\<lambda>(i, name). zero_provider\<lparr>sp_ID := ce_uuids env i, sp_Name := name\<rparr>)
           (List.enumerate 0 (new_names names {})) in
     if rows = [] then (t, None)
     else if \<not> se_tx env then (t, Some CSDatabase)
     else (t\<lparr>pt_providers := pt_providers t @ filter (\<lambda>r. sp_Name r \<notin> sp_Name ` set (pt_providers t)) rows\<rparr>, None))"

definition seedProviders :: "credential_env \<Rightarrow> ProviderTables \<Rightarrow> ProviderTables \<times> credential_store_error option" where
  "seedProviders env t = UpsertProviders env SupportedProviders t"

definition ProviderIDs :: "credential_env \<Rightarrow> ProviderTables \<Rightarrow> credential_store_error + (Provider \<rightharpoonup> string)" where
  "ProviderIDs env t = (case ListProviders env t of Inl e \<Rightarrow> Inl e
     | Inr providers \<Rightarrow> Inr (foldl (\<lambda>ids p. ids(sp_Name p \<mapsto> sp_ID p)) Map.empty providers))"

section \<open>Credentials\<close>

text \<open>A row with the provider it refers to; a reference to no row leaves the zero value.\<close>

definition load_credential :: "credential_env \<Rightarrow> bool \<Rightarrow> ProviderTables \<Rightarrow> StoreCredential \<Rightarrow> credential_store_error + StoreCredential" where
  "load_credential env masked t row =
    (case (case List.find (\<lambda>p. sp_ID p = sc_ProviderID row) (pt_providers t) of
        None \<Rightarrow> Inr zero_provider | Some p \<Rightarrow> StoreProvider_AfterFind env masked p) of
       Inl e \<Rightarrow> Inl e
     | Inr p \<Rightarrow> StoreCredential_AfterFind env masked (row\<lparr>sc_Provider := p\<rparr>))"

definition credential_row :: "credential_env \<Rightarrow> bool \<Rightarrow> string \<Rightarrow> ProviderTables \<Rightarrow> credential_store_error + StoreCredential" where
  "credential_row env masked ident t = (case List.find (\<lambda>r. sc_ID r = ident) (pt_credentials t) of
     None \<Rightarrow> Inl (CSNotFound ident) | Some r \<Rightarrow> load_credential env masked t r)"

definition GetCredential :: "credential_env \<Rightarrow> string \<Rightarrow> ProviderTables \<Rightarrow> credential_store_error + StoreCredential" where
  "GetCredential env ident t = (if \<not> se_reload env then Inl CSDatabase else credential_row env False ident t)"

definition GetCredentialRedacted :: "credential_env \<Rightarrow> string \<Rightarrow> ProviderTables \<Rightarrow> credential_store_error + StoreCredential" where
  "GetCredentialRedacted env ident t = (if \<not> se_reload env then Inl CSDatabase else credential_row env True ident t)"

definition ListCredentials :: "credential_env \<Rightarrow> ProviderTables \<Rightarrow> credential_store_error + StoreCredential list" where
  "ListCredentials env t = (if \<not> se_reload env then Inl CSDatabase else each_row (load_credential env False t) (pt_credentials t))"

text \<open>The rows that the join with the providers of a name keeps.\<close>

definition of_provider :: "Provider \<Rightarrow> ProviderTables \<Rightarrow> StoreCredential list" where
  "of_provider provider t = filter (\<lambda>r. list_ex (\<lambda>p. sp_ID p = sc_ProviderID r \<and> sp_Name p = provider) (pt_providers t)) (pt_credentials t)"

definition ListCredentialsByProvider :: "credential_env \<Rightarrow> Provider \<Rightarrow> ProviderTables \<Rightarrow> credential_store_error + StoreCredential list" where
  "ListCredentialsByProvider env provider t = (if \<not> se_reload env then Inl CSDatabase
     else each_row (load_credential env False t) (of_provider provider t))"

definition ListCredentialsByProviderRedacted :: "credential_env \<Rightarrow> Provider \<Rightarrow> ProviderTables \<Rightarrow> credential_store_error + StoreCredential list" where
  "ListCredentialsByProviderRedacted env provider t = (if \<not> se_reload env then Inl CSDatabase
     else each_row (load_credential env True t) (of_provider provider t))"

definition CreateCredential :: "credential_env \<Rightarrow> Credential \<Rightarrow> ProviderTables \<Rightarrow> ProviderTables \<times> (credential_store_error + StoreCredential)" where
  "CreateCredential env cred t = (case Credential_Validate cred of Some e \<Rightarrow> (t, Inl (CSInvalid e))
   | None \<Rightarrow>
       if \<not> se_tx env then (t, Inl CSDatabase)
       else case resolveProvider env (c_Provider cred) t of Inl e \<Rightarrow> (t, Inl e)
       | Inr provider \<Rightarrow>
           (case StoreCredential_BeforeSave env (newStoreCredential (se_uuid env) cred (sp_ID provider) (se_now env)) of Inl e \<Rightarrow> (t, Inl e)
            | Inr stored \<Rightarrow>
                if list_ex (\<lambda>r. sc_ID r = se_uuid env) (pt_credentials t) then (t, Inl CSDatabase)
                else let t1 = t\<lparr>pt_credentials := pt_credentials t @ [stored\<lparr>sc_Enabled := ce_default env True (sc_Enabled stored)\<rparr>]\<rparr>
                  in (t1, GetCredential env (se_uuid env) t1)))"

record UpdateCredentialRequest =
  uc_Name :: "string option"
  uc_APIKey :: "string option"
  uc_Enabled :: "bool option"
  uc_ExpiryAt :: "time option"
  uc_AllowedModels :: "string list option"
  uc_BlockedModels :: "string list option"
  uc_Endpoint :: "string option"
  uc_Aliases :: "(string \<times> Alias) list option"
  uc_Settings :: "CredentialSettings option"

definition UpdateCredentialRequest_applyTo :: "UpdateCredentialRequest \<Rightarrow> Credential \<Rightarrow> Credential" where
  "UpdateCredentialRequest_applyTo r cred = cred\<lparr>c_Name := opt_or (c_Name cred) (uc_Name r),
     c_Enabled := opt_or (c_Enabled cred) (uc_Enabled r),
     c_ExpiryAt := (case uc_ExpiryAt r of None \<Rightarrow> c_ExpiryAt cred | Some e \<Rightarrow> Some e),
     c_AllowedModels := opt_or (c_AllowedModels cred) (uc_AllowedModels r),
     c_BlockedModels := opt_or (c_BlockedModels cred) (uc_BlockedModels r),
     c_Endpoint := opt_or (c_Endpoint cred) (uc_Endpoint r),
     c_Aliases := opt_or (c_Aliases cred) (uc_Aliases r),
     c_APIKey := (case uc_APIKey r of None \<Rightarrow> c_APIKey cred | Some k \<Rightarrow> if k \<noteq> [] \<and> k \<noteq> SecretMask then k else c_APIKey cred),
     c_Settings := (case uc_Settings r of None \<Rightarrow> c_Settings cred | Some settings \<Rightarrow> (case cs_Azure settings of None \<Rightarrow> c_Settings cred
       | Some azure \<Rightarrow> (c_Settings cred)\<lparr>cs_Azure := Some (if az_ClientSecret azure = [] \<or> az_ClientSecret azure = SecretMask
           then (case cs_Azure (c_Settings cred) of None \<Rightarrow> azure | Some old \<Rightarrow> azure\<lparr>az_ClientSecret := az_ClientSecret old\<rparr>)
           else azure)\<rparr>))\<rparr>"

text \<open>The columns that an update writes: all but the identifiers and the time of creation.\<close>

definition updated_columns :: "StoreCredential \<Rightarrow> StoreCredential \<Rightarrow> StoreCredential" where
  "updated_columns next r = next\<lparr>sc_ID := sc_ID r, sc_ProviderID := sc_ProviderID r, sc_Provider := sc_Provider r, sc_CreatedAt := sc_CreatedAt r\<rparr>"

definition UpdateCredential :: "credential_env \<Rightarrow> string \<Rightarrow> UpdateCredentialRequest \<Rightarrow> ProviderTables
    \<Rightarrow> ProviderTables \<times> (credential_store_error + StoreCredential)" where
  "UpdateCredential env ident req t =
    (if \<not> se_tx env then (t, Inl CSDatabase)
     else case credential_row env False ident t of Inl e \<Rightarrow> (t, Inl e)
     | Inr existing \<Rightarrow>
         let candidate = UpdateCredentialRequest_applyTo req (StoreCredential_ToCore existing) in
         (case Credential_Validate candidate of Some e \<Rightarrow> (t, Inl (CSInvalid e))
          | None \<Rightarrow> (case StoreCredential_BeforeSave env (newStoreCredential (sc_ID existing) candidate (sc_ProviderID existing) (se_now env)) of
              Inl e \<Rightarrow> (t, Inl e)
            | Inr next \<Rightarrow>
                let t1 = t\<lparr>pt_credentials := map (\<lambda>r. if sc_ID r = sc_ID existing then updated_columns next r else r) (pt_credentials t)\<rparr>
                in (t1, GetCredential env ident t1))))"

definition DeleteCredential :: "credential_env \<Rightarrow> string \<Rightarrow> ProviderTables \<Rightarrow> ProviderTables \<times> credential_store_error option" where
  "DeleteCredential env ident t =
    (if \<not> se_tx env then (t, Some CSDatabase)
     else if \<not> list_ex (\<lambda>r. sc_ID r = ident) (pt_credentials t) then (t, Some (CSNotFound ident))
     else (t\<lparr>pt_credentials := filter (\<lambda>r. sc_ID r \<noteq> ident) (pt_credentials t)\<rparr>, None))"

text \<open>What the gateway starts from: an upstream per provider and every credential.\<close>

definition DBSource_Load :: "credential_env \<Rightarrow> ProviderTables \<Rightarrow> credential_store_error + Upstream list \<times> Credential list" where
  "DBSource_Load env t = (case ListProviders env t of Inl e \<Rightarrow> Inl e
   | Inr providers \<Rightarrow> (case ListCredentials env t of Inl e \<Rightarrow> Inl e
     | Inr credentials \<Rightarrow> Inr (map StoreProvider_ToUpstream providers, map StoreCredential_ToCore credentials)))"

end
