(* ===== verification/CredentialLife.thy ===== *)
theory CredentialLife
  imports CredentialStore
begin

text \<open>
  What the stored providers and credentials promise: a credential reads back as it was given, an update changes what the request
  names and keeps the secrets it masks, reads for display hide secrets, and the gateway always starts from valid credentials.
\<close>

section \<open>Secrets\<close>

definition nonces_ok :: "credential_env \<Rightarrow> bool" where
  "nonces_ok env \<longleftrightarrow> (\<forall>n. se_nonce env = Some n \<longrightarrow> length n = NonceSize) \<and> (\<forall>n. ce_nonce2 env = Some n \<longrightarrow> length n = NonceSize)"

definition same_key :: "credential_env \<Rightarrow> credential_env \<Rightarrow> bool" where
  "same_key env env' \<longleftrightarrow> se_gcm env = se_gcm env' \<and> se_passkey env = se_passkey env'"

lemma open_two_key: "same_key env env' \<Longrightarrow> open_two env masked x = open_two env' masked x"
  by (auto simp: same_key_def open_two_def open_secret_def split: prod.splits option.splits)

context sealing
begin

lemma open_seal_two:
  assumes "se_gcm env = gcm" "nonces_ok env" "seal_two env x = Some y"
  shows "open_two env False y = Some x"
proof -
  have d: "decryptKey gcm c (se_passkey env) = Some s" if "encryptKey gcm nonce s (se_passkey env) = Some c"
    "nonce = se_nonce env \<or> nonce = ce_nonce2 env" for nonce s c
    using decrypt_encrypt [OF that(1)] that(2) assms(2) by (auto simp: nonces_ok_def)
  show ?thesis using assms(1,3) d
    by (auto simp: seal_two_def open_two_def open_secret_def split: prod.splits option.splits)
qed

lemma sealed_nonempty: "nonces_ok env \<Longrightarrow> encryptKey g (se_nonce env) s key = Some c \<or> encryptKey g (ce_nonce2 env) s key = Some c \<Longrightarrow> c \<noteq> []"
  by (auto simp: encryptKey_def nonces_ok_def NonceSize_def encode_empty split: if_splits option.splits)

lemma open_stored_credential:
  assumes "se_gcm env = gcm" "nonces_ok env" "StoreCredential_BeforeSave env s = Inr stored"
  shows "StoreCredential_AfterFind env False stored = Inr s"
  using assms open_seal_two [OF assms(1,2), of "StoreCredential_secrets s"]
  by (auto simp: StoreCredential_BeforeSave_def StoreCredential_AfterFind_def StoreCredential_secrets_def with_secrets_def
      split: option.splits prod.splits)

end

section \<open>Credentials as rows\<close>

lemma deref_None [simp]: "deref None = []"
  by (simp add: deref_def)

lemma optKey_None: "optKey k = None \<longleftrightarrow> k = []"
  by (simp add: optKey_def)

lemma azure_mode: "AzureSettings_Validate az = None \<Longrightarrow> az_AuthMode az \<noteq> []"
  by (auto simp: AzureSettings_Validate_def azure_names split: if_splits)

text \<open>A valid credential is what its row says, under the identifier of the row.\<close>

lemma ToCore_newStore:
  assumes "Credential_Validate cred = None" "sp_Name p = c_Provider cred"
  shows "StoreCredential_ToCore ((newStoreCredential uuid cred pid now)\<lparr>sc_Provider := p\<rparr>) = cred\<lparr>c_ID := uuid\<rparr>"
proof (cases "cs_Azure (c_Settings cred)")
  case None
  with Credential_Validate_azure(1) [OF assms(1)] have "c_Provider cred \<noteq> ProviderAzure" by simp
  moreover have "c_Settings cred = \<lparr>cs_Azure = None\<rparr>" using None by (cases "c_Settings cred") simp
  ultimately show ?thesis using None assms(2)
    by (cases cred) (simp add: newStoreCredential_def applyAzureSettings_def StoreCredential_ToCore_def)
next
  case (Some az)
  with Credential_Validate_azure [OF assms(1)] have p: "c_Provider cred = ProviderAzure" and ok: "AzureSettings_Validate az = None" by auto
  moreover have "c_Settings cred = \<lparr>cs_Azure = Some az\<rparr>" using Some by (cases "c_Settings cred") simp
  ultimately show ?thesis using Some assms(2) azure_mode [OF ok]
    by (cases cred, cases az) (simp add: newStoreCredential_def applyAzureSettings_def StoreCredential_ToCore_def optKey_None)
qed

lemma hook_name: "StoreProvider_AfterFind env masked p = Inr q \<Longrightarrow> sp_Name q = sp_Name p \<and> sp_ID q = sp_ID p"
  by (auto simp: StoreProvider_AfterFind_def split: option.splits)

lemma hook_provider: "StoreCredential_AfterFind env masked s = Inr x \<Longrightarrow> x = with_secrets s (sc_APIKey x, sc_AzureClientSecret x)"
  by (auto simp: StoreCredential_AfterFind_def with_secrets_def split: option.splits)

lemma provider_row_found:
  assumes "provider_row env masked name t = Inr q"
  obtains p where "p \<in> set (pt_providers t)" "sp_Name p = name" "StoreProvider_AfterFind env masked p = Inr q"
  using assms by (auto simp: provider_row_def dest: find_SomeD split: option.splits)

lemma credential_row_found:
  assumes "credential_row env masked ident t = Inr x"
  obtains r where "List.find (\<lambda>r. sc_ID r = ident) (pt_credentials t) = Some r" "load_credential env masked t r = Inr x"
  using assms by (auto simp: credential_row_def split: option.splits)

text \<open>The provider that a row refers to.\<close>

definition provider_of :: "ProviderTables \<Rightarrow> StoreCredential \<Rightarrow> Provider" where
  "provider_of t r = (case List.find (\<lambda>p. sp_ID p = sc_ProviderID r) (pt_providers t) of None \<Rightarrow> [] | Some p \<Rightarrow> sp_Name p)"

lemma load_fields:
  assumes "load_credential env masked t r = Inr x"
  shows "sp_Name (sc_Provider x) = provider_of t r" "sc_ID x = sc_ID r" "sc_ProviderID x = sc_ProviderID r" "sc_CreatedAt x = sc_CreatedAt r"
  using assms
  by (auto simp: load_credential_def provider_of_def zero_provider_def StoreCredential_AfterFind_def with_secrets_def
      dest: hook_name split: sum.splits option.splits)

lemma new_fields:
  "sc_ID (newStoreCredential uuid cred pid now) = uuid" "sc_ProviderID (newStoreCredential uuid cred pid now) = pid"
  "sc_Enabled (newStoreCredential uuid cred pid now) = c_Enabled cred" "sc_CreatedAt (newStoreCredential uuid cred pid now) = now"
  by (simp_all add: newStoreCredential_def applyAzureSettings_def split: option.split)

text \<open>A stored row loads again as it was, with the provider it refers to.\<close>

context sealing
begin

lemma load_sealed:
  assumes "se_gcm env = gcm" "nonces_ok env" "StoreCredential_BeforeSave env s = Inr stored"
    and "List.find (\<lambda>p. sp_ID p = sc_ProviderID s) (pt_providers t) = Some p" "StoreProvider_AfterFind env False p = Inr q"
    and "r = stored\<lparr>sc_Provider := p0, sc_CreatedAt := c, sc_Enabled := e\<rparr>"
  shows "load_credential env False t r = Inr (s\<lparr>sc_Provider := q, sc_CreatedAt := c, sc_Enabled := e\<rparr>)"
proof -
  obtain y where y: "seal_two env (StoreCredential_secrets s) = Some y" "stored = with_secrets s y"
    using assms(3) by (auto simp: StoreCredential_BeforeSave_def split: option.splits)
  have o: "open_two env False y = Some (StoreCredential_secrets s)" by (rule open_seal_two [OF assms(1,2) y(1)])
  have r: "StoreCredential_secrets (r\<lparr>sc_Provider := q\<rparr>) = y" "sc_ProviderID r = sc_ProviderID s"
    "with_secrets (r\<lparr>sc_Provider := q\<rparr>) (StoreCredential_secrets s) = s\<lparr>sc_Provider := q, sc_CreatedAt := c, sc_Enabled := e\<rparr>"
    by (simp_all add: assms(6) y(2) StoreCredential_secrets_def with_secrets_def split: prod.split)
  show ?thesis by (simp add: load_credential_def StoreCredential_AfterFind_def r o assms(4,5))
qed

lemma created_row:
  assumes "se_gcm env = gcm" "nonces_ok env" "Credential_Validate cred = None" "resolveProvider env (c_Provider cred) t = Inr q"
    and "StoreCredential_BeforeSave env (newStoreCredential uuid cred (sp_ID q) now) = Inr stored" "distinct (map sp_ID (pt_providers t))"
    and "pt_providers t1 = pt_providers t"
  obtains x where "load_credential env False t1 (stored\<lparr>sc_Enabled := e\<rparr>) = Inr x" "StoreCredential_ToCore x = cred\<lparr>c_ID := uuid, c_Enabled := e\<rparr>"
    "sc_ID stored = uuid"
proof -
  obtain p where p: "p \<in> set (pt_providers t)" "sp_Name p = c_Provider cred" "StoreProvider_AfterFind env False p = Inr q"
    using assms(4) unfolding resolveProvider_def by (rule provider_row_found)
  have q: "sp_Name q = c_Provider cred" "sp_ID q = sp_ID p" using hook_name [OF p(3)] p(2) by auto
  have f: "List.find (\<lambda>p. sp_ID p = sc_ProviderID (newStoreCredential uuid cred (sp_ID q) now)) (pt_providers t1) = Some p"
    using find_map_distinct [OF assms(6) p(1)] by (simp add: new_fields q(2) assms(7))
  obtain y where y: "stored = with_secrets (newStoreCredential uuid cred (sp_ID q) now) y"
    using assms(5) by (auto simp: StoreCredential_BeforeSave_def split: option.splits)
  have st: "stored\<lparr>sc_Enabled := e\<rparr> = stored\<lparr>sc_Provider := sc_Provider stored, sc_CreatedAt := now, sc_Enabled := e\<rparr>" "sc_ID stored = uuid"
    by (auto simp: y with_secrets_def new_fields split: prod.split)
  let ?s = "newStoreCredential uuid cred (sp_ID q) now"
  have "load_credential env False t1 (stored\<lparr>sc_Enabled := e\<rparr>) = Inr (?s\<lparr>sc_Provider := q, sc_CreatedAt := now, sc_Enabled := e\<rparr>)"
    by (rule load_sealed [OF assms(1,2,5) f p(3) st(1)])
  moreover have "StoreCredential_ToCore (?s\<lparr>sc_Provider := q, sc_CreatedAt := now, sc_Enabled := e\<rparr>)
      = (StoreCredential_ToCore (?s\<lparr>sc_Provider := q\<rparr>))\<lparr>c_Enabled := e\<rparr>"
    by (simp add: StoreCredential_ToCore_def)
  ultimately show thesis using that st(2) ToCore_newStore [OF assms(3) q(1)] by simp
qed

lemma updated_row:
  assumes "se_gcm env = gcm" "nonces_ok env" "load_credential env False t r = Inr old"
    and "candidate = UpdateCredentialRequest_applyTo req (StoreCredential_ToCore old)" "Credential_Validate candidate = None"
    and "StoreCredential_BeforeSave env (newStoreCredential (sc_ID old) candidate (sc_ProviderID old) now) = Inr next" "pt_providers t1 = pt_providers t"
  obtains x where "load_credential env False t1 (updated_columns next r) = Inr x" "StoreCredential_ToCore x = candidate"
proof -
  let ?s = "newStoreCredential (sc_ID old) candidate (sc_ProviderID old) now"
  have cand: "c_Provider candidate = provider_of t r" "c_ID candidate = sc_ID r"
    using load_fields [OF assms(3)] by (simp_all add: assms(4) UpdateCredentialRequest_applyTo_def StoreCredential_ToCore_def)
  have "provider_of t r \<noteq> []" using assms(5) cand(1) by (auto simp: Credential_Validate_def)
  then obtain p where p: "List.find (\<lambda>p. sp_ID p = sc_ProviderID r) (pt_providers t) = Some p" "sp_Name p = provider_of t r"
    by (auto simp: provider_of_def split: option.splits)
  obtain q where q: "StoreProvider_AfterFind env False p = Inr q" using assms(3) p(1) by (auto simp: load_credential_def split: sum.splits)
  obtain y where y: "next = with_secrets ?s y"
    using assms(6) by (auto simp: StoreCredential_BeforeSave_def split: option.splits)
  have u: "updated_columns next r = next\<lparr>sc_Provider := sc_Provider r, sc_CreatedAt := sc_CreatedAt r, sc_Enabled := c_Enabled candidate\<rparr>"
    using load_fields [OF assms(3)] by (auto simp: updated_columns_def y with_secrets_def new_fields split: prod.split)
  have "List.find (\<lambda>p. sp_ID p = sc_ProviderID ?s) (pt_providers t1) = Some p"
    using p(1) load_fields(3) [OF assms(3)] by (simp add: new_fields assms(7))
  from load_sealed [OF assms(1,2,6) this q u] have
    "load_credential env False t1 (updated_columns next r) = Inr (?s\<lparr>sc_Provider := q, sc_CreatedAt := sc_CreatedAt r, sc_Enabled := c_Enabled candidate\<rparr>)" .
  moreover have "StoreCredential_ToCore (?s\<lparr>sc_Provider := q, sc_CreatedAt := sc_CreatedAt r, sc_Enabled := c_Enabled candidate\<rparr>)
      = StoreCredential_ToCore (?s\<lparr>sc_Provider := q\<rparr>)"
    by (simp add: StoreCredential_ToCore_def new_fields)
  moreover have "\<dots> = candidate"
    using ToCore_newStore [OF assms(5), of q] hook_name [OF q] p(2) cand load_fields(2) [OF assms(3)] by simp
  ultimately show thesis using that by simp
qed

end

section \<open>Creating and updating\<close>

lemma find_map:
  "(\<And>r. f (g r) = f r) \<Longrightarrow> List.find (\<lambda>r. f r = i) (map (\<lambda>r. if f r = j then g r else r) rs)
     = map_option (\<lambda>r. if f r = j then g r else r) (List.find (\<lambda>r. f r = i) rs)"
  by (induction rs) auto

lemma filter_map_update:
  "(\<And>r. f (g r) = f r) \<Longrightarrow> filter (\<lambda>r. f r \<noteq> i) (map (\<lambda>r. if f r = i then g r else r) rs) = filter (\<lambda>r. f r \<noteq> i) rs"
  by (induction rs) auto


lemma created_credential:
  assumes "\<forall>k n p. gcm_Open (se_gcm env) k n (gcm_Seal (se_gcm env) k n p) = Some p" "nonces_ok env"
    and "distinct (map sp_ID (pt_providers t))" "CreateCredential env cred t = (t1, Inr row)"
  shows "StoreCredential_ToCore row = cred\<lparr>c_ID := se_uuid env, c_Enabled := ce_default env True (c_Enabled cred)\<rparr>
    \<and> Credential_Validate cred = None \<and> GetCredential env (se_uuid env) t1 = Inr row"
proof -
  have s: "sealing (se_gcm env)" by (rule sealing.intro) (simp add: assms(1))
  from assms(4) obtain q stored where v: "Credential_Validate cred = None" and q: "resolveProvider env (c_Provider cred) t = Inr q"
    and st: "StoreCredential_BeforeSave env (newStoreCredential (se_uuid env) cred (sp_ID q) (se_now env)) = Inr stored"
    and new: "\<And>r. r \<in> set (pt_credentials t) \<Longrightarrow> sc_ID r \<noteq> se_uuid env"
    and t1: "t1 = t\<lparr>pt_credentials := pt_credentials t @ [stored\<lparr>sc_Enabled := ce_default env True (sc_Enabled stored)\<rparr>]\<rparr>"
    and row: "GetCredential env (se_uuid env) t1 = Inr row"
    by (auto simp: CreateCredential_def Let_def list_ex_iff split: option.splits if_splits sum.splits)
  have en: "sc_Enabled stored = c_Enabled cred"
    using st by (auto simp: StoreCredential_BeforeSave_def with_secrets_def new_fields split: option.splits prod.splits)
  obtain x where x: "load_credential env False t1 (stored\<lparr>sc_Enabled := ce_default env True (c_Enabled cred)\<rparr>) = Inr x"
    "StoreCredential_ToCore x = cred\<lparr>c_ID := se_uuid env, c_Enabled := ce_default env True (c_Enabled cred)\<rparr>" "sc_ID stored = se_uuid env"
    using sealing.created_row [OF s refl assms(2) v q st assms(3), of t1] t1 by auto
  have "List.find (\<lambda>r. sc_ID r = se_uuid env) (pt_credentials t) = None" using new by (auto simp: find_None_iff)
  then have "GetCredential env (se_uuid env) t1 = Inr x"
    using x(1,3) row by (auto simp: GetCredential_def credential_row_def t1 en find_append split: if_splits)
  with row x(2) v show ?thesis by simp
qed

text \<open>
  A credential that was created reads back as it was given, under its new identifier, with the flag that the library stores for
  the column's default.
\<close>

theorem created_credential_reads_back:
  assumes "\<forall>k n p. gcm_Open (se_gcm env) k n (gcm_Seal (se_gcm env) k n p) = Some p" "nonces_ok env"
    and "distinct (map sp_ID (pt_providers t))" "CreateCredential env cred t = (t1, Inr row)"
  shows "StoreCredential_ToCore row = cred\<lparr>c_ID := se_uuid env, c_Enabled := ce_default env True (c_Enabled cred)\<rparr>
    \<and> Credential_Validate cred = None \<and> GetCredential env (se_uuid env) t1 = Inr row"
  by (rule created_credential [OF assms])

text \<open>A library that stores a column's default for the zero value stores a credential that is created disabled as an enabled one.\<close>

theorem disabled_credential_created_enabled:
  assumes "\<forall>k n p. gcm_Open (se_gcm env) k n (gcm_Seal (se_gcm env) k n p) = Some p" "nonces_ok env"
    and "distinct (map sp_ID (pt_providers t))" "CreateCredential env cred t = (t1, Inr row)" "\<not> c_Enabled cred"
    and default: "\<forall>d. ce_default env d False = d"
  shows "c_Enabled (StoreCredential_ToCore row)"
  using created_credential [OF assms(1-4)] default assms(5) by simp


text \<open>
  A stored client secret cannot be left behind: whatever the request, an update to another way of authentication is refused, because
  a request without a secret takes over the stored one and a mode other than the service principal rejects any.
\<close>

theorem principal_mode_sticky:
  assumes "credential_row env False ident t = Inr old" "cs_Azure (c_Settings (StoreCredential_ToCore old)) = Some az" "az_ClientSecret az \<noteq> []"
    and "uc_Settings req = Some \<lparr>cs_Azure = Some az'\<rparr>" "az_AuthMode az' \<noteq> AzureAuthServicePrincipal"
  shows "fst (UpdateCredential env ident req t) = t \<and> (\<exists>e. snd (UpdateCredential env ident req t) = Inl e)"
proof -
  let ?c = "UpdateCredentialRequest_applyTo req (StoreCredential_ToCore old)"
  have "Credential_Validate ?c \<noteq> None"
  proof
    assume v: "Credential_Validate ?c = None"
    obtain az1 where az1: "cs_Azure (c_Settings ?c) = Some az1" "az_ClientSecret az1 \<noteq> []" "az_AuthMode az1 = az_AuthMode az'"
      using assms(2-4) by (auto simp: UpdateCredentialRequest_applyTo_def split: if_splits)
    from Credential_Validate_azure(2) [OF v az1(1)] AzureSettings_Validate_secret az1(2,3) assms(5) show False by auto
  qed
  then show ?thesis using assms(1) by (auto simp: UpdateCredential_def Let_def split: option.splits)
qed

section \<open>Display\<close>

text \<open>Reads for display show the mask or nothing for every secret of a credential and of a proxy.\<close>

definition hidden :: "string option \<Rightarrow> bool" where
  "hidden s \<longleftrightarrow> s \<in> {None, Some SecretMask}"

lemma masked_hidden: "open_two env True x = Some (a, b) \<Longrightarrow> hidden a \<and> hidden b"
  by (auto simp: open_two_def open_secret_def hidden_def split: prod.splits option.splits)

definition proxy_hidden :: "StoreProvider \<Rightarrow> bool" where
  "proxy_hidden p = (case sp_Proxy p of None \<Rightarrow> True | Some x \<Rightarrow> pc_Username x \<in> {[], SecretMask} \<and> pc_Password x \<in> {[], SecretMask})"

lemma provider_hook_hidden: "StoreProvider_AfterFind env True p = Inr q \<Longrightarrow> proxy_hidden q"
  by (auto simp: StoreProvider_AfterFind_def proxy_hidden_def with_proxy_secrets_def deref_def hidden_def
      dest!: masked_hidden split: option.splits prod.splits)

lemma load_hidden: "load_credential env True t r = Inr x \<Longrightarrow> hidden (sc_APIKey x) \<and> hidden (sc_AzureClientSecret x) \<and> proxy_hidden (sc_Provider x)"
  by (auto simp: load_credential_def StoreCredential_AfterFind_def with_secrets_def zero_provider_def proxy_hidden_def
      dest!: masked_hidden split: option.splits sum.splits prod.splits dest: provider_hook_hidden)

lemma each_row_found: "each_row hook rs = Inr xs \<Longrightarrow> list_all2 (\<lambda>r x. hook r = Inr x) rs xs"
proof (induction rs arbitrary: xs)
  case (Cons r rs)
  then obtain x ys where "hook r = Inr x" "each_row hook rs = Inr ys" "xs = x # ys"
    by (cases "each_row hook rs") (auto split: sum.splits)
  with Cons.IH show ?case by simp
qed simp

theorem display_reads_hide_secrets:
  "(case ListCredentialsByProviderRedacted env provider t of Inl _ \<Rightarrow> True
    | Inr rows \<Rightarrow> list_all (\<lambda>x. hidden (sc_APIKey x) \<and> hidden (sc_AzureClientSecret x) \<and> proxy_hidden (sc_Provider x)) rows)
   \<and> (case GetCredentialRedacted env ident t of Inl _ \<Rightarrow> True
    | Inr x \<Rightarrow> hidden (sc_APIKey x) \<and> hidden (sc_AzureClientSecret x) \<and> proxy_hidden (sc_Provider x))
   \<and> (case ListProvidersRedacted env t of Inl _ \<Rightarrow> True | Inr ps \<Rightarrow> list_all proxy_hidden ps)
   \<and> (case GetProviderRedacted env provider t of Inl _ \<Rightarrow> True | Inr p \<Rightarrow> proxy_hidden p)"
proof (intro conjI)
  show "case GetCredentialRedacted env ident t of Inl _ \<Rightarrow> True
    | Inr x \<Rightarrow> hidden (sc_APIKey x) \<and> hidden (sc_AzureClientSecret x) \<and> proxy_hidden (sc_Provider x)"
    by (auto simp: GetCredentialRedacted_def credential_row_def split: sum.splits if_splits option.splits dest: load_hidden)
  show "case ListProvidersRedacted env t of Inl _ \<Rightarrow> True | Inr ps \<Rightarrow> list_all proxy_hidden ps"
    by (auto simp: ListProvidersRedacted_def list_all_iff split: sum.splits if_splits dest!: each_row_found list_all2_setD2 dest: provider_hook_hidden)
  show "case GetProviderRedacted env provider t of Inl _ \<Rightarrow> True | Inr p \<Rightarrow> proxy_hidden p"
    by (auto simp: GetProviderRedacted_def provider_row_def split: sum.splits if_splits option.splits dest: provider_hook_hidden)
  show "case ListCredentialsByProviderRedacted env provider t of Inl _ \<Rightarrow> True
    | Inr rows \<Rightarrow> list_all (\<lambda>x. hidden (sc_APIKey x) \<and> hidden (sc_AzureClientSecret x) \<and> proxy_hidden (sc_Provider x)) rows"
    by (auto simp: ListCredentialsByProviderRedacted_def list_all_iff split: sum.splits if_splits dest!: each_row_found list_all2_setD2 dest: load_hidden)
qed

section \<open>What the gateway starts from\<close>

datatype provider_op = PCreate Credential | PUpdate string UpdateCredentialRequest | PDelete string
  | PConfig Provider NetworkConfig "ProxyConfig option" | PUpsert "Provider list"

fun provider_step :: "credential_env \<Rightarrow> provider_op \<Rightarrow> ProviderTables \<Rightarrow> ProviderTables" where
  "provider_step env (PCreate cred) t = fst (CreateCredential env cred t)"
| "provider_step env (PUpdate ident req) t = fst (UpdateCredential env ident req t)"
| "provider_step env (PDelete ident) t = fst (DeleteCredential env ident t)"
| "provider_step env (PConfig p network proxy) t = fst (UpdateProviderConfig env p network proxy t)"
| "provider_step env (PUpsert names) t = fst (UpsertProviders env names t)"

text \<open>Every row opens under the key, names and identifiers are unique, and every credential is valid.\<close>

definition opens :: "credential_env \<Rightarrow> StoreProvider \<Rightarrow> bool" where
  "opens env p \<longleftrightarrow> (\<exists>q. StoreProvider_AfterFind env False p = Inr q)"

definition good_row :: "credential_env \<Rightarrow> ProviderTables \<Rightarrow> StoreCredential \<Rightarrow> bool" where
  "good_row env t r \<longleftrightarrow> (\<exists>x. load_credential env False t r = Inr x \<and> Credential_Validate (StoreCredential_ToCore x) = None)"

definition rows_ok :: "credential_env \<Rightarrow> ProviderTables \<Rightarrow> bool" where
  "rows_ok env t \<longleftrightarrow> distinct (map sp_ID (pt_providers t)) \<and> distinct (map sp_Name (pt_providers t)) \<and> distinct (map sc_ID (pt_credentials t))
     \<and> list_all (opens env) (pt_providers t) \<and> list_all (good_row env t) (pt_credentials t)"

lemma hooks_key:
  assumes "same_key env env'"
  shows "StoreProvider_AfterFind env = StoreProvider_AfterFind env'" "load_credential env = load_credential env'"
proof -
  have o: "open_two env = open_two env'" using open_two_key [OF assms] by (intro ext) blast
  show p: "StoreProvider_AfterFind env = StoreProvider_AfterFind env'" by (intro ext) (unfold StoreProvider_AfterFind_def o, rule refl)
  show "load_credential env = load_credential env'" by (intro ext) (unfold load_credential_def StoreCredential_AfterFind_def p o, rule refl)
qed

lemma rows_ok_key: "same_key env env' \<Longrightarrow> rows_ok env = rows_ok env'"
  by (intro ext) (unfold rows_ok_def good_row_def [abs_def] opens_def [abs_def] hooks_key, rule refl)

lemma good_row_tables:
  assumes "good_row env t r" "List.find (\<lambda>p. sp_ID p = sc_ProviderID r) (pt_providers t') = Some p'" "sp_Name p' = provider_of t r" "opens env p'"
  shows "good_row env t' r"
proof -
  obtain x where x: "load_credential env False t r = Inr x" "Credential_Validate (StoreCredential_ToCore x) = None"
    using assms(1) by (auto simp: good_row_def)
  obtain q where q: "StoreProvider_AfterFind env False p' = Inr q" using assms(4) by (auto simp: opens_def)
  obtain y where y: "open_two env False (StoreCredential_secrets r) = Some y" "x = with_secrets (r\<lparr>sc_Provider := sc_Provider x\<rparr>) y"
    using x(1) by (auto simp: load_credential_def StoreCredential_AfterFind_def StoreCredential_secrets_def with_secrets_def
        split: sum.splits option.splits prod.splits)
  have l: "load_credential env False t' r = Inr (with_secrets (r\<lparr>sc_Provider := q\<rparr>) y)"
    using y(1) by (simp add: load_credential_def assms(2) q StoreCredential_AfterFind_def StoreCredential_secrets_def)
  have n: "sp_Name q = sp_Name (sc_Provider x)" using hook_name [OF q] assms(3) load_fields(1) [OF x(1)] by simp
  have "StoreCredential_ToCore (with_secrets (r\<lparr>sc_Provider := q\<rparr>) y) = StoreCredential_ToCore x"
    by (subst y(2)) (simp add: StoreCredential_ToCore_def with_secrets_def n split: prod.split)
  with l x(2) show ?thesis by (auto simp: good_row_def)
qed

lemma good_row_provider:
  assumes "good_row env t r"
  obtains p where "List.find (\<lambda>p. sp_ID p = sc_ProviderID r) (pt_providers t) = Some p" "sp_Name p = provider_of t r"
proof -
  obtain x where x: "load_credential env False t r = Inr x" "Credential_Validate (StoreCredential_ToCore x) = None"
    using assms by (auto simp: good_row_def)
  have "provider_of t r \<noteq> []" using x(2) load_fields(1) [OF x(1)] by (auto simp: Credential_Validate_def StoreCredential_ToCore_def)
  then show thesis using that by (auto simp: provider_of_def split: option.splits)
qed

lemma Validate_same: "Credential_Validate (cred\<lparr>c_ID := i, c_Enabled := e\<rparr>) = Credential_Validate cred"
  by (simp add: Credential_Validate_def cong: if_cong option.case_cong)

lemma rows_ok_keep:
  assumes "rows_ok env t" "distinct (map sc_ID cs)" "\<And>r. r \<in> set cs \<Longrightarrow> good_row env (t\<lparr>pt_credentials := cs\<rparr>) r"
  shows "rows_ok env (t\<lparr>pt_credentials := cs\<rparr>)"
  using assms by (auto simp: rows_ok_def list_all_iff)

lemma good_row_credentials: "good_row env (t\<lparr>pt_credentials := cs\<rparr>) r = good_row env t r"
  by (simp add: good_row_def load_credential_def)

lemma rows_ok_delete: "rows_ok env t \<Longrightarrow> rows_ok env (fst (DeleteCredential env ident t))"
  by (auto simp: DeleteCredential_def good_row_credentials rows_ok_def list_all_iff distinct_map_filter intro!: rows_ok_keep)

lemma rows_ok_upsert:
  assumes "rows_ok env t" "inj (ce_uuids env)" "range (ce_uuids env) \<inter> sp_ID ` set (pt_providers t) = {}"
  shows "rows_ok env (fst (UpsertProviders env names t))"
proof (cases "fst (UpsertProviders env names t) = t")
  case False
  define rows where "rows = map (\<lambda>(i, name). zero_provider\<lparr>sp_ID := ce_uuids env i, sp_Name := name\<rparr>) (List.enumerate 0 (new_names names {}))"
  define new where "new = filter (\<lambda>r. sp_Name r \<notin> sp_Name ` set (pt_providers t)) rows"
  have t1: "fst (UpsertProviders env names t) = t\<lparr>pt_providers := pt_providers t @ new\<rparr>"
    using False by (auto simp: UpsertProviders_def Let_def rows_def new_def split: if_splits)
  have dn: "distinct (new_names ns seen) \<and> set (new_names ns seen) \<inter> seen = {}" for ns seen by (induction ns seen rule: new_names.induct) auto
  have names: "map sp_Name rows = new_names names {}" by (simp add: rows_def comp_def case_prod_beta)
  have ids: "map sp_ID rows = map (ce_uuids env) [0..<length (new_names names {})]"
  proof -
    have "sp_ID ((\<lambda>(i, name). zero_provider\<lparr>sp_ID := ce_uuids env i, sp_Name := name\<rparr>) x) = ce_uuids env (fst x)" for x
      by (simp add: case_prod_beta)
    then have "map sp_ID rows = map (ce_uuids env) (map fst (List.enumerate 0 (new_names names {})))" by (simp only: rows_def map_map comp_def)
    then show ?thesis by (simp only: map_fst_enumerate) simp
  qed
  have "distinct (map sp_ID rows)" using assms(2) by (simp add: ids distinct_map inj_on_def)
  moreover have "distinct (map sp_Name rows)" using dn [of names "{}"] by (simp add: names)
  ultimately have d: "distinct (map sp_ID new)" "distinct (map sp_Name new)" by (simp_all add: new_def distinct_map_filter)
  have fresh: "sp_ID ` set new \<inter> sp_ID ` set (pt_providers t) = {}" "sp_Name ` set new \<inter> sp_Name ` set (pt_providers t) = {}"
  proof -
    have "sp_ID r \<in> range (ce_uuids env)" if "r \<in> set new" for r using that by (auto simp: new_def rows_def)
    then show "sp_ID ` set new \<inter> sp_ID ` set (pt_providers t) = {}" using assms(3) by blast
    show "sp_Name ` set new \<inter> sp_Name ` set (pt_providers t) = {}" by (auto simp: new_def)
  qed
  have op: "list_all (opens env) new"
    by (auto simp: new_def rows_def list_all_iff opens_def StoreProvider_AfterFind_def zero_provider_def)
  have "good_row env (t\<lparr>pt_providers := pt_providers t @ new\<rparr>) r" if good: "good_row env t r" for r
  proof -
    obtain p where p: "List.find (\<lambda>p. sp_ID p = sc_ProviderID r) (pt_providers t) = Some p" "sp_Name p = provider_of t r"
      using good by (rule good_row_provider)
    have "opens env p" using assms(1) find_SomeD [OF p(1)] by (auto simp: rows_ok_def list_all_iff)
    with p show ?thesis by (intro good_row_tables [OF good, of _ p]) (simp_all add: find_append)
  qed
  then show ?thesis using assms(1) d fresh op by (auto simp: t1 rows_ok_def list_all_iff)
qed (simp add: assms)

context sealing
begin

lemma rows_ok_create:
  assumes "se_gcm env = gcm" "nonces_ok env" "rows_ok env t"
  shows "rows_ok env (fst (CreateCredential env cred t))"
proof (cases "fst (CreateCredential env cred t) = t")
  case False
  then obtain q stored where v: "Credential_Validate cred = None" and q: "resolveProvider env (c_Provider cred) t = Inr q"
    and st: "StoreCredential_BeforeSave env (newStoreCredential (se_uuid env) cred (sp_ID q) (se_now env)) = Inr stored"
    and new: "\<And>r. r \<in> set (pt_credentials t) \<Longrightarrow> sc_ID r \<noteq> se_uuid env"
    and t1: "fst (CreateCredential env cred t) = t\<lparr>pt_credentials := pt_credentials t @ [stored\<lparr>sc_Enabled := ce_default env True (sc_Enabled stored)\<rparr>]\<rparr>"
    by (auto simp: CreateCredential_def Let_def list_ex_iff split: option.splits if_splits sum.splits)
  have d: "distinct (map sp_ID (pt_providers t))" using assms(3) by (simp add: rows_ok_def)
  obtain x where x: "load_credential env False t (stored\<lparr>sc_Enabled := ce_default env True (sc_Enabled stored)\<rparr>) = Inr x"
    "StoreCredential_ToCore x = cred\<lparr>c_ID := se_uuid env, c_Enabled := ce_default env True (sc_Enabled stored)\<rparr>" "sc_ID stored = se_uuid env"
    by (rule created_row [OF assms(1,2) v q st d refl])
  have "good_row env t (stored\<lparr>sc_Enabled := ce_default env True (sc_Enabled stored)\<rparr>)"
    using x v by (auto simp: good_row_def Validate_same)
  moreover have "se_uuid env \<notin> sc_ID ` set (pt_credentials t)" using new by (metis imageE)
  ultimately show ?thesis unfolding t1 using assms(3) x(3)
    by (intro rows_ok_keep [OF assms(3)]) (auto simp: rows_ok_def list_all_iff good_row_credentials)
qed (simp add: assms)

lemma rows_ok_update:
  assumes "se_gcm env = gcm" "nonces_ok env" "rows_ok env t"
  shows "rows_ok env (fst (UpdateCredential env ident req t))"
proof (cases "fst (UpdateCredential env ident req t) = t")
  case False
  define cand where "cand old = UpdateCredentialRequest_applyTo req (StoreCredential_ToCore old)" for old
  from False obtain old nxt where old: "credential_row env False ident t = Inr old" and v: "Credential_Validate (cand old) = None"
    and st: "StoreCredential_BeforeSave env (newStoreCredential (sc_ID old) (cand old) (sc_ProviderID old) (se_now env)) = Inr nxt"
    and t1: "fst (UpdateCredential env ident req t)
      = t\<lparr>pt_credentials := map (\<lambda>r. if sc_ID r = sc_ID old then updated_columns nxt r else r) (pt_credentials t)\<rparr>"
    by (auto simp: UpdateCredential_def Let_def cand_def split: option.splits if_splits sum.splits)
  from old obtain r where r: "List.find (\<lambda>r. sc_ID r = ident) (pt_credentials t) = Some r" "load_credential env False t r = Inr old"
    by (rule credential_row_found)
  have id: "sc_ID old = sc_ID r" "r \<in> set (pt_credentials t)" using load_fields(2) [OF r(2)] find_SomeD [OF r(1)] by auto
  obtain x where x: "load_credential env False t (updated_columns nxt r) = Inr x" "StoreCredential_ToCore x = cand old"
    by (rule updated_row [OF assms(1,2) r(2) cand_def v st refl])
  have only: "r' = r" if "r' \<in> set (pt_credentials t)" "sc_ID r' = sc_ID r" for r'
    using assms(3) that id(2) by (auto simp: rows_ok_def distinct_map inj_on_def)
  have u: "sc_ID (updated_columns nxt r') = sc_ID r'" for r' by (simp add: updated_columns_def)
  have "good_row env t (updated_columns nxt r)" using x v by (auto simp: good_row_def)
  then show ?thesis unfolding t1 using assms(3) only id(1) u
    by (intro rows_ok_keep [OF assms(3)]) (auto simp: rows_ok_def list_all_iff good_row_credentials comp_def if_distrib cong: if_cong)
qed (simp add: assms)

lemma proxy_opens:
  assumes "se_gcm env = gcm" "nonces_ok env" "StoreProvider_BeforeSave env s = Inr stored" "sp_Proxy p = sp_Proxy stored"
  shows "opens env p"
proof (cases "sp_Proxy s")
  case None
  with assms(3,4) show ?thesis by (auto simp: StoreProvider_BeforeSave_def opens_def StoreProvider_AfterFind_def)
next
  case (Some proxy)
  with assms(3) obtain y where y: "seal_two env (StoreProvider_secrets proxy) = Some y" "sp_Proxy stored = Some (with_proxy_secrets proxy y)"
    by (auto simp: StoreProvider_BeforeSave_def split: option.splits)
  have "StoreProvider_secrets (with_proxy_secrets proxy y) = y"
    using y(1) sealed_nonempty [OF assms(2)]
    by (auto simp: StoreProvider_secrets_def with_proxy_secrets_def seal_two_def optKey_def deref_def split: prod.splits option.splits if_splits)
  with open_seal_two [OF assms(1,2) y(1)] assms(4) y(2) show ?thesis by (simp add: opens_def StoreProvider_AfterFind_def)
qed

lemma rows_ok_config:
  assumes "se_gcm env = gcm" "nonces_ok env" "rows_ok env t"
  shows "rows_ok env (fst (UpdateProviderConfig env provider network proxy t))"
proof (cases "fst (UpdateProviderConfig env provider network proxy t) = t")
  case False
  define upd where "upd stored p = p\<lparr>sp_Network := sp_Network stored, sp_Proxy := sp_Proxy stored, sp_IsConfigured := True\<rparr>" for stored p :: StoreProvider
  from False obtain row stored where
    st: "StoreProvider_BeforeSave env (row\<lparr>sp_Network := network, sp_Proxy := proxy, sp_IsConfigured := True\<rparr>) = Inr stored"
    and t1: "fst (UpdateProviderConfig env provider network proxy t) = set_provider (sp_ID row) (upd stored) t"
    by (auto simp: UpdateProviderConfig_def upd_def [abs_def] split: if_splits sum.splits)
  let ?f = "\<lambda>p. if sp_ID p = sp_ID row then upd stored p else p"
  have same: "sp_ID (?f p) = sp_ID p" "sp_Name (?f p) = sp_Name p" for p by (simp_all add: upd_def)
  have op: "opens env (?f p)" if "opens env p" for p
    using that proxy_opens [OF assms(1,2) st, of "upd stored p"] by (simp add: upd_def)
  have maps: "map sp_ID (map ?f ps) = map sp_ID ps" "map sp_Name (map ?f ps) = map sp_Name ps" for ps by (simp_all add: comp_def same)
  have "good_row env (set_provider (sp_ID row) (upd stored) t) r" if good: "good_row env t r" for r
  proof -
    obtain p where p: "List.find (\<lambda>p. sp_ID p = sc_ProviderID r) (pt_providers t) = Some p" "sp_Name p = provider_of t r"
      using good by (rule good_row_provider)
    have "opens env p" using assms(3) find_SomeD [OF p(1)] by (auto simp: rows_ok_def list_all_iff)
    have "List.find (\<lambda>p. sp_ID p = sc_ProviderID r) (map ?f (pt_providers t)) = Some (?f p)"
      using p(1) by (subst find_map) (simp_all add: upd_def)
    then show ?thesis using op [OF \<open>opens env p\<close>] p(2) by (intro good_row_tables [OF good]) (simp_all add: set_provider_def same)
  qed
  moreover have "map sp_ID (pt_providers (set_provider (sp_ID row) (upd stored) t)) = map sp_ID (pt_providers t)"
    "map sp_Name (pt_providers (set_provider (sp_ID row) (upd stored) t)) = map sp_Name (pt_providers t)"
    "pt_credentials (set_provider (sp_ID row) (upd stored) t) = pt_credentials t"
    using maps [of "pt_providers t"] by (simp_all add: set_provider_def)
  moreover have "list_all (opens env) (pt_providers (set_provider (sp_ID row) (upd stored) t))"
  proof -
    have "list_all (\<lambda>p. opens env (?f p)) (pt_providers t)" using assms(3) op by (auto simp only: rows_ok_def list_all_iff)
    then show ?thesis by (simp add: set_provider_def list.pred_map comp_def)
  qed
  ultimately show ?thesis unfolding t1 using assms(3) by (auto simp: rows_ok_def list_all_iff)
qed (simp add: assms)

end

section \<open>Reachable tables\<close>

text \<open>
  The tables under one key of the cipher: each operation draws its own nonces, times and identifiers, those of new providers
  different from each other and from the ones in use.
\<close>

definition step_env :: "credential_env \<Rightarrow> credential_env \<Rightarrow> provider_op \<Rightarrow> ProviderTables \<Rightarrow> bool" where
  "step_env env env' op t \<longleftrightarrow> same_key env env' \<and> nonces_ok env'
     \<and> (case op of PUpsert _ \<Rightarrow> inj (ce_uuids env') \<and> range (ce_uuids env') \<inter> sp_ID ` set (pt_providers t) = {} | _ \<Rightarrow> True)"

inductive stored_in :: "credential_env \<Rightarrow> ProviderTables \<Rightarrow> bool" for env where
  empty: "stored_in env \<lparr>pt_providers = [], pt_credentials = []\<rparr>"
| step: "stored_in env t \<Longrightarrow> step_env env env' op t \<Longrightarrow> stored_in env (provider_step env' op t)"

context sealing
begin

lemma rows_ok_step:
  assumes "se_gcm env = gcm" "rows_ok env t" "step_env env env' op t"
  shows "rows_ok env (provider_step env' op t)"
proof -
  have k: "rows_ok env' = rows_ok env" "se_gcm env' = gcm" "nonces_ok env'"
    using assms rows_ok_key [of env env'] by (auto simp: step_env_def same_key_def)
  have ok: "rows_ok env' t" using assms(2) k(1) by simp
  have "rows_ok env' (provider_step env' op t)"
  proof (cases op)
    case (PUpsert names)
    with ok assms(3) show ?thesis by (simp add: rows_ok_upsert step_env_def)
  qed (use ok k(2,3) in \<open>simp_all add: rows_ok_create rows_ok_update rows_ok_delete rows_ok_config\<close>)
  then show ?thesis using k(1) by simp
qed

lemma stored_rows_ok: "stored_in env t \<Longrightarrow> se_gcm env = gcm \<Longrightarrow> rows_ok env t"
  by (induction rule: stored_in.induct) (simp_all add: rows_ok_step, simp add: rows_ok_def)

end

lemma each_row_total: "list_all (\<lambda>r. \<exists>x. hook r = Inr x) rs \<Longrightarrow> \<exists>xs. each_row hook rs = Inr xs"
  by (induction rs) auto

text \<open>
  C22: Whatever operations the tables went through, the gateway can load them: every row opens, every credential is valid and has its own
  identifier, every provider has one upstream, and every credential belongs to one of them.
\<close>

theorem stored_credentials_load:
  assumes "\<forall>k n p. gcm_Open (se_gcm env) k n (gcm_Seal (se_gcm env) k n p) = Some p" "stored_in env t" "se_reload env"
  shows "\<exists>upstreams creds. DBSource_Load env t = Inr (upstreams, creds) \<and> list_all (\<lambda>c. Credential_Validate c = None) creds
    \<and> distinct (map c_ID creds) \<and> distinct (map u_Provider upstreams) \<and> c_Provider ` set creds \<subseteq> u_Provider ` set upstreams"
proof -
  have s: "sealing (se_gcm env)" by (rule sealing.intro) (simp add: assms(1))
  have ok: "rows_ok env t" using sealing.stored_rows_ok [OF s assms(2)] by simp
  obtain ps where ps: "each_row (StoreProvider_AfterFind env False) (pt_providers t) = Inr ps"
    using ok each_row_total [of "StoreProvider_AfterFind env False" "pt_providers t"] by (auto simp: rows_ok_def opens_def list_all_iff)
  obtain xs where xs: "each_row (load_credential env False t) (pt_credentials t) = Inr xs"
  proof -
    have "list_all (\<lambda>r. \<exists>x. load_credential env False t r = Inr x) (pt_credentials t)"
      using ok by (auto simp: rows_ok_def good_row_def list_all_iff)
    then show ?thesis using each_row_total that by blast
  qed
  have lp: "list_all2 (\<lambda>p q. StoreProvider_AfterFind env False p = Inr q) (pt_providers t) ps" by (rule each_row_found [OF ps])
  have lx: "list_all2 (\<lambda>r x. load_credential env False t r = Inr x) (pt_credentials t) xs" by (rule each_row_found [OF xs])
  have names: "map sp_Name ps = map sp_Name (pt_providers t)" using lp by (induction rule: list_all2_induct) (auto dest: hook_name)
  have ids: "map sc_ID xs = map sc_ID (pt_credentials t)" using lx by (induction rule: list_all2_induct) (auto dest: load_fields(2))
  have valid: "Credential_Validate (StoreCredential_ToCore x) = None" if "x \<in> set xs" for x
    using list_all2_setD2 [OF lx that] ok by (fastforce simp: rows_ok_def list_all_iff good_row_def)
  have "sp_Name (sc_Provider x) \<in> sp_Name ` set (pt_providers t)" if x: "x \<in> set xs" for x
  proof -
    obtain r where r: "r \<in> set (pt_credentials t)" "load_credential env False t r = Inr x" using list_all2_setD2 [OF lx x] by blast
    with ok have "good_row env t r" by (simp add: rows_ok_def list_all_iff)
    then obtain p where "List.find (\<lambda>p. sp_ID p = sc_ProviderID r) (pt_providers t) = Some p" "sp_Name p = provider_of t r"
      by (rule good_row_provider)
    then show ?thesis using load_fields(1) [OF r(2)] by (force dest!: find_SomeD)
  qed
  moreover have "set (map sp_Name ps) = set (map sp_Name (pt_providers t))" by (simp only: names)
  ultimately have sub: "c_Provider ` set (map StoreCredential_ToCore xs) \<subseteq> u_Provider ` set (map StoreProvider_ToUpstream ps)"
    by (auto simp: StoreCredential_ToCore_def StoreProvider_ToUpstream_def image_image)
  have d: "distinct (map c_ID (map StoreCredential_ToCore xs))" "distinct (map u_Provider (map StoreProvider_ToUpstream ps))"
    using ok ids names by (simp_all add: rows_ok_def comp_def StoreCredential_ToCore_def StoreProvider_ToUpstream_def)
  have "DBSource_Load env t = Inr (map StoreProvider_ToUpstream ps, map StoreCredential_ToCore xs)"
    using ps xs assms(3) by (simp add: DBSource_Load_def ListProviders_def ListCredentials_def)
  moreover have "list_all (\<lambda>c. Credential_Validate c = None) (map StoreCredential_ToCore xs)" using valid by (simp add: list_all_iff)
  ultimately show ?thesis using sub d by blast
qed

section \<open>Examples\<close>

definition cred_env :: credential_env where
  "cred_env = \<lparr>se_gcm = plain_gcm, se_passkey = ''0123456789abcdef'', se_nonce = Some ''nonce-nonce-'', se_now = 5, se_uuid = ''c1'',
     se_random = None, se_read = True, se_tx = True, se_reload = True, ce_nonce2 = Some ''other-nonce-'', ce_uuids = (\<lambda>i. replicate i (CHR ''p'')),
     ce_default = (\<lambda>d v. if v then v else d)\<rparr>"

lemma cred_env_ok:
  "\<forall>k n p. gcm_Open (se_gcm cred_env) k n (gcm_Seal (se_gcm cred_env) k n p) = Some p" "nonces_ok cred_env" "inj (ce_uuids cred_env)"
  "se_reload cred_env" "se_tx cred_env" "se_uuid cred_env = ''c1''" "cipher_key_ok (se_passkey cred_env)"
  "se_nonce cred_env = Some ''nonce-nonce-''" "ce_nonce2 cred_env = Some ''other-nonce-''"
  by (simp_all add: cred_env_def plain.open_seal nonces_ok_def NonceSize_def cipher_key_ok_def inj_def replicate_eq_replicate)

lemma seal_two_total:
  "cipher_key_ok (se_passkey env) \<Longrightarrow> se_nonce env = Some n \<Longrightarrow> ce_nonce2 env = Some m \<Longrightarrow> \<exists>y. seal_two env x = Some y"
  by (cases x) (auto simp: seal_two_def encryptKey_def split: option.split)

definition seeded_tables :: ProviderTables where
  "seeded_tables = provider_step cred_env (PUpsert [ProviderOpenAI, [], ProviderOpenAI]) \<lparr>pt_providers = [], pt_credentials = []\<rparr>"

definition one_credential :: ProviderTables where
  "one_credential = provider_step cred_env (PCreate example_credential) seeded_tables"

lemma seeded_tables_eq: "seeded_tables = \<lparr>pt_providers = [zero_provider\<lparr>sp_ID := [], sp_Name := ProviderOpenAI\<rparr>], pt_credentials = []\<rparr>"
  by (simp add: seeded_tables_def UpsertProviders_def cred_env_def provider_names)

lemma one_credential_created: "\<exists>row. CreateCredential cred_env example_credential seeded_tables = (one_credential, Inr row)"
proof -
  define p where "p = zero_provider\<lparr>sp_ID := [], sp_Name := ProviderOpenAI\<rparr>"
  have p: "sp_ID p = []" "sp_Name p = ProviderOpenAI" "StoreProvider_AfterFind cred_env False p = Inr p"
    by (simp_all add: p_def StoreProvider_AfterFind_def zero_provider_def)
  have t: "seeded_tables = \<lparr>pt_providers = [p], pt_credentials = []\<rparr>" by (simp add: seeded_tables_eq p_def)
  have e: "pt_credentials seeded_tables = []" by (simp add: t)
  have q: "resolveProvider cred_env (c_Provider example_credential) seeded_tables = Inr p"
    by (simp add: resolveProvider_def provider_row_def t p example_credential_def provider_names)
  let ?new = "newStoreCredential ''c1'' example_credential [] (se_now cred_env)"
  obtain y where "seal_two cred_env (StoreCredential_secrets ?new) = Some y"
    using seal_two_total [OF cred_env_ok(7,8,9)] by blast
  then obtain stored where st: "StoreCredential_BeforeSave cred_env ?new = Inr stored" by (simp add: StoreCredential_BeforeSave_def)
  let ?t1 = "seeded_tables\<lparr>pt_credentials := [stored\<lparr>sc_Enabled := ce_default cred_env True (sc_Enabled stored)\<rparr>]\<rparr>"
  have c: "CreateCredential cred_env example_credential seeded_tables = (?t1, GetCredential cred_env ''c1'' ?t1)"
    using st by (simp add: CreateCredential_def example_credential_valid cred_env_ok q p e Let_def)
  have st': "StoreCredential_BeforeSave cred_env (newStoreCredential ''c1'' example_credential (sp_ID p) (se_now cred_env)) = Inr stored"
    using st by (simp add: p)
  have d: "distinct (map sp_ID (pt_providers seeded_tables))" by (simp add: t)
  have g: "se_gcm cred_env = plain_gcm" by (simp add: cred_env_def)
  obtain x where "load_credential cred_env False ?t1 (stored\<lparr>sc_Enabled := ce_default cred_env True (sc_Enabled stored)\<rparr>) = Inr x"
    "sc_ID stored = ''c1''"
    by (rule plain.created_row [OF g cred_env_ok(2) example_credential_valid q st' d, of ?t1]) simp_all
  then have "GetCredential cred_env ''c1'' ?t1 = Inr x" by (simp add: GetCredential_def credential_row_def cred_env_ok)
  with c show ?thesis by (simp add: one_credential_def)
qed

theorem created_credential_reads_back_witness:
  "\<exists>row. CreateCredential cred_env example_credential seeded_tables = (one_credential, Inr row)
     \<and> StoreCredential_ToCore row = example_credential"
proof -
  obtain row where c: "CreateCredential cred_env example_credential seeded_tables = (one_credential, Inr row)"
    using one_credential_created by blast
  have d: "distinct (map sp_ID (pt_providers seeded_tables))" by (simp add: seeded_tables_eq)
  from created_credential_reads_back [OF cred_env_ok(1,2) d c] c show ?thesis
    by (simp add: cred_env_def example_credential_def)
qed

lemma one_credential_stored: "stored_in cred_env one_credential"
  unfolding one_credential_def seeded_tables_def
  by (intro stored_in.intros) (use cred_env_ok in \<open>simp_all add: step_env_def same_key_def\<close>)

theorem stored_credentials_load_witness:
  "\<exists>upstreams creds. DBSource_Load cred_env one_credential = Inr (upstreams, creds) \<and> list_all (\<lambda>c. Credential_Validate c = None) creds"
  using stored_credentials_load [OF cred_env_ok(1) one_credential_stored cred_env_ok(4)] by blast

definition rename_request :: UpdateCredentialRequest where
  "rename_request = \<lparr>uc_Name = Some ''renamed'', uc_APIKey = Some SecretMask, uc_Enabled = None, uc_ExpiryAt = None, uc_AllowedModels = None,
     uc_BlockedModels = None, uc_Endpoint = None, uc_Aliases = None, uc_Settings = None\<rparr>"

lemma renamed: "UpdateCredentialRequest_applyTo rename_request example_credential = example_credential\<lparr>c_Name := ''renamed''\<rparr>"
  by (simp add: UpdateCredentialRequest_applyTo_def rename_request_def example_credential_def)

lemma renamed_valid: "Credential_Validate (example_credential\<lparr>c_Name := ''renamed''\<rparr>) = None"
proof -
  have "Credential_Validate (c\<lparr>c_Name := n\<rparr>) = Credential_Validate c" for c n
    by (simp add: Credential_Validate_def cong: if_cong option.case_cong)
  then show ?thesis by (simp add: example_credential_valid)
qed

lemma credential_renamed:
  "\<exists>t1 row. UpdateCredential cred_env ''c1'' rename_request one_credential = (t1, Inr row)"
proof -
  obtain old where c: "CreateCredential cred_env example_credential seeded_tables = (one_credential, Inr old)"
    using one_credential_created by blast
  have d: "distinct (map sp_ID (pt_providers seeded_tables))" by (simp add: seeded_tables_eq)
  from created_credential [OF cred_env_ok(1,2) d c] have core: "StoreCredential_ToCore old = example_credential"
    and row: "credential_row cred_env False ''c1'' one_credential = Inr old"
    by (simp_all add: cred_env_def example_credential_def GetCredential_def)
  from row obtain r where r: "List.find (\<lambda>r. sc_ID r = ''c1'') (pt_credentials one_credential) = Some r"
    "load_credential cred_env False one_credential r = Inr old" by (rule credential_row_found)
  have id: "sc_ID old = ''c1''" "sc_ID r = ''c1''" using load_fields(2) [OF r(2)] find_SomeD [OF r(1)] by auto
  let ?cand = "UpdateCredentialRequest_applyTo rename_request (StoreCredential_ToCore old)"
  have v: "Credential_Validate ?cand = None" by (simp add: core renamed renamed_valid)
  obtain y where "seal_two cred_env (StoreCredential_secrets (newStoreCredential (sc_ID old) ?cand (sc_ProviderID old) (se_now cred_env))) = Some y"
    using seal_two_total [OF cred_env_ok(7,8,9)] by blast
  then obtain nxt where st: "StoreCredential_BeforeSave cred_env (newStoreCredential (sc_ID old) ?cand (sc_ProviderID old) (se_now cred_env)) = Inr nxt"
    by (simp add: StoreCredential_BeforeSave_def)
  let ?t1 = "one_credential\<lparr>pt_credentials := map (\<lambda>r. if sc_ID r = sc_ID old then updated_columns nxt r else r) (pt_credentials one_credential)\<rparr>"
  have u: "UpdateCredential cred_env ''c1'' rename_request one_credential = (?t1, GetCredential cred_env ''c1'' ?t1)"
    by (simp add: UpdateCredential_def cred_env_ok row v st Let_def)
  have g: "se_gcm cred_env = plain_gcm" by (simp add: cred_env_def)
  obtain x where x: "load_credential cred_env False ?t1 (updated_columns nxt r) = Inr x"
    by (rule plain.updated_row [OF g cred_env_ok(2) r(2) refl v st, of ?t1]) simp_all
  have "List.find (\<lambda>r. sc_ID r = ''c1'') (pt_credentials ?t1) = Some (updated_columns nxt r)"
    using r(1) id by (simp add: find_map updated_columns_def)
  then have "GetCredential cred_env ''c1'' ?t1 = Inr x" using x by (simp add: GetCredential_def credential_row_def cred_env_ok)
  with u show ?thesis by simp
qed


end
