(* ===== verification/PriceFeed.thy ===== *)
theory PriceFeed
  imports Catalog
begin

text \<open>
  The public price feed (\<^verbatim>\<open>internal/modelcatalog/pricing-source.go\<close>): from the decoded members of the
  feed to model metadata and price variants. The key of a member encodes the provider and, for
  image models, the size, the steps and the quality that select a price.
\<close>

section \<open>Markers\<close>

text \<open>The regular expressions \<^verbatim>\<open>^(\d+|max)-x-(\d+|max)$\<close> and \<^verbatim>\<open>^(\d+|max)-steps$\<close>. Neither
  alternative contains a dash, so the first dash ends the first group.\<close>

definition dim_group :: "string \<Rightarrow> bool" where
  "dim_group s \<longleftrightarrow> (s \<noteq> [] \<and> list_all is_digit s) \<or> s = ''max''"

definition dash :: char where "dash = CHR ''-''"

definition sizeMarker :: "string \<Rightarrow> (string \<times> string) option" where
  "sizeMarker s = (case Cut s dash of (w, rest, found) \<Rightarrow>
     if found \<and> dim_group w \<and> HasPrefix rest ''x-'' \<and> dim_group (drop 2 rest) then Some (w, drop 2 rest) else None)"

definition stepsMarker :: "string \<Rightarrow> string option" where
  "stepsMarker s = (case Cut s dash of (w, rest, found) \<Rightarrow>
     if found \<and> dim_group w \<and> rest = ''steps'' then Some w else None)"

definition qualityMarkers :: "string list" where
  "qualityMarkers = [''low'', ''medium'', ''high'', ''standard'', ''hd'', ''auto'']"

definition providerAliases :: "(string \<times> Provider) list" where
  "providerAliases = [(''azure_text'', ''azure''), (''fireworks_ai-embedding-models'', ''fireworks_ai''),
     (''text-completion-openai'', ''openai''), (''text-completion-inception'', ''inception''),
     (''amazon_nova'', ''amazon-nova'')]"

definition isQualityMarker :: "string list \<Rightarrow> bool" where
  "isQualityMarker parts = (if length parts < 3 then False
     else if parts ! 0 \<notin> set qualityMarkers then False
     else sizeMarker (parts ! 1) \<noteq> None)"

section \<open>Rows\<close>

record SearchContext =
  sc_Low :: "float64 option"
  sc_Medium :: "float64 option"
  sc_High :: "float64 option"

record SourceSchema =
  diffracModelType :: ModelType
  diffractProvider :: Provider
  diffractSelectorSet :: SelectorSet
  diffractCapabilities :: Capability
  diffractModelName :: string
  diffractRawKey :: string
  src_Mode :: string
  src_Provider :: string
  src_BaseModel :: string
  src_MaxInputTokens :: int
  src_MaxOutputTokens :: int
  src_MaxTokens :: int
  src_LongContextThreshold :: int
  src_SearchContext :: "SearchContext option"
  SupportsFunctionCalling :: "bool option"
  SupportsParallelFunctionCalling :: "bool option"
  SupportsToolChoice :: "bool option"
  SupportsReasoning :: "bool option"
  SupportsVision :: "bool option"
  SupportsImageInput :: "bool option"
  SupportsAudioInput :: "bool option"
  SupportsAudioOutput :: "bool option"
  SupportsPDFInput :: "bool option"
  SupportsVideoInput :: "bool option"
  SupportsPromptCaching :: "bool option"
  SupportsResponseSchema :: "bool option"
  SupportsSystemMessages :: "bool option"
  SupportsNativeStreaming :: "bool option"
  SupportsWebSearch :: "bool option"
  SupportsComputerUse :: "bool option"
  SupportsAssistantPrefill :: "bool option"
  SupportsEmbeddingImageInput :: "bool option"
  src_Pricing :: Pricing

definition capability_flags :: "SourceSchema \<Rightarrow> (bool option \<times> Capability) list" where
  "capability_flags s = [
     (SupportsFunctionCalling s, CapFunctionCalling),
     (SupportsParallelFunctionCalling s, CapParallelToolCalls),
     (SupportsToolChoice s, CapToolChoice),
     (SupportsReasoning s, CapReasoning),
     (SupportsVision s, CapVision),
     (SupportsImageInput s, CapImageInput),
     (SupportsAudioInput s, CapAudioInput),
     (SupportsAudioOutput s, CapAudioOutput),
     (SupportsPDFInput s, CapPDFInput),
     (SupportsVideoInput s, CapVideoInput),
     (SupportsPromptCaching s, CapPromptCaching),
     (SupportsResponseSchema s, CapResponseSchema),
     (SupportsSystemMessages s, CapSystemMessages),
     (SupportsNativeStreaming s, CapStreaming),
     (SupportsWebSearch s, CapWebSearch),
     (SupportsComputerUse s, CapComputerUse),
     (SupportsAssistantPrefill s, CapAssistantPrefill),
     (SupportsEmbeddingImageInput s, CapEmbeddingImageInput)]"

definition SourceSchema_capabilities :: "SourceSchema \<Rightarrow> Capability" where
  "SourceSchema_capabilities s =
     foldl (\<lambda>capability (flag, b). if flag = Some True then capability OR b else capability) 0 (capability_flags s)"

datatype feed_error = ErrControlRow | ErrDecode | ErrNoProvider | ErrToken
  | ErrDuplicateSize string | ErrDuplicateSteps string | ErrDuplicateQuality string
  | ErrEmptyModelName string | ErrSelectors string

text \<open>\<^verbatim>\<open>UnmarshalJSON\<close> after the library has decoded the fields into \<open>aux\<close> (\<^const>\<open>None\<close> when it could
  not).\<close>

definition UnmarshalJSON :: "SourceSchema option \<Rightarrow> feed_error + SourceSchema" where
  "UnmarshalJSON decoded = (case decoded of None \<Rightarrow> Inl ErrDecode | Some aux0 \<Rightarrow>
     if TrimSpace (src_Mode aux0) = [] then Inl ErrControlRow
     else let modeltype = ParseModelType (src_Mode aux0) in
       if modeltype = ModelTypeUnknown then Inl ErrControlRow
       else let rawProvider = TrimSpace (src_Provider aux0) in
         if rawProvider = [] then Inl ErrNoProvider
         else let provider = (case map_of providerAliases rawProvider of Some a \<Rightarrow> a | None \<Rightarrow> rawProvider);
                  aux1 = aux0\<lparr>diffracModelType := modeltype, diffractProvider := provider\<rparr>;
                  aux2 = (case src_SearchContext aux1 of None \<Rightarrow> aux1
                    | Some sc \<Rightarrow> aux1\<lparr>src_Pricing := (src_Pricing aux1)\<lparr>SearchContextCostPerQueryHigh := sc_High sc,
                        SearchContextCostPerQueryLow := sc_Low sc, SearchContextCostPerQueryMedium := sc_Medium sc\<rparr>\<rparr>)
           in Inr (aux2\<lparr>diffractCapabilities := SourceSchema_capabilities aux2\<rparr>))"

section \<open>Keys\<close>

fun walk_markers :: "string \<Rightarrow> string list \<Rightarrow> (string \<times> string) list \<Rightarrow> bool
    \<Rightarrow> feed_error + (string list \<times> (string \<times> string) list \<times> bool)" where
  "walk_markers raw (head # next_part # rest) values consumed =
    (let parts = head # next_part # rest in
     case sizeMarker head of
       Some (w, h) \<Rightarrow> if map_of values ''size'' \<noteq> None then Inl (ErrDuplicateSize raw)
         else walk_markers raw (next_part # rest) ((''size'', w @ ''x'' @ h) # values) True
     | None \<Rightarrow> (case stepsMarker head of
         Some n \<Rightarrow> if map_of values ''steps'' \<noteq> None then Inl (ErrDuplicateSteps raw)
           else walk_markers raw (next_part # rest) ((''steps'', n) # values) True
       | None \<Rightarrow> if isQualityMarker parts then
             (if map_of values ''quality'' \<noteq> None then Inl (ErrDuplicateQuality raw)
              else walk_markers raw (next_part # rest) ((''quality'', head) # values) True)
           else Inr (parts, values, consumed)))"
| "walk_markers raw parts values consumed = Inr (parts, values, consumed)"

definition parse_row :: "string \<Rightarrow> SourceSchema \<Rightarrow> feed_error + SourceSchema" where
  "parse_row rawModelKey schema0 =
    (let schema = schema0\<lparr>diffractRawKey := rawModelKey\<rparr>;
         parts0 = Split rawModelKey slash;
         parts1 = (if length parts0 > 1 \<and> (parts0 ! 0 = src_Provider schema \<or> parts0 ! 0 = diffractProvider schema)
                   then tl parts0 else parts0)
     in case (if diffracModelType schema = ModelTypeImageGeneration then walk_markers rawModelKey parts1 [] False
              else Inr (parts1, [], False)) of
          Inl e \<Rightarrow> Inl e
        | Inr (parts2, values, consumed) \<Rightarrow>
            let parts3 = (if consumed \<and> length parts2 \<ge> 2 \<and> parts2 ! 0 = diffractProvider schema then tl parts2 else parts2);
                modelName = Join parts3 ''/''
            in if modelName = [] then Inl (ErrEmptyModelName rawModelKey)
               else (case NewSelectorSet values of None \<Rightarrow> Inl (ErrSelectors rawModelKey)
                 | Some selectors \<Rightarrow> Inr (schema\<lparr>diffractSelectorSet := selectors, diffractModelName := modelName\<rparr>)))"

text \<open>The loop over the members: rows, number of members read, number of skipped control rows.\<close>

fun modelParser :: "(string \<times> SourceSchema option) list \<Rightarrow> SourceSchema list \<Rightarrow> nat \<Rightarrow> nat
    \<Rightarrow> feed_error + (SourceSchema list \<times> nat \<times> nat)" where
  "modelParser [] results tot unknown = Inr (results, tot, unknown)"
| "modelParser ((rawModelKey, decoded) # rest) results tot unknown =
    (case UnmarshalJSON decoded of
       Inl ErrControlRow \<Rightarrow> modelParser rest results (Suc tot) (Suc unknown)
     | Inl e \<Rightarrow> Inl e
     | Inr schema \<Rightarrow> (case parse_row rawModelKey schema of Inl e \<Rightarrow> Inl e
        | Inr row \<Rightarrow> modelParser rest (results @ [row]) (Suc tot) unknown))"

section \<open>Building the catalog\<close>

record CatalogSource =
  ModelsCatalog :: "ModelMetadata list"
  PricingCatalog :: "PricingVariant list"
  TotalModels :: nat
  TotalUnknown :: nat
  TotalSourceCount :: nat

definition row_key :: "SourceSchema \<Rightarrow> CatalogKey" where
  "row_key row = \<lparr>ck_Provider = diffractProvider row, ck_ModelName = diffractModelName row, ck_ModelType = diffracModelType row\<rparr>"

definition row_model :: "SourceSchema \<Rightarrow> ModelMetadata" where
  "row_model row = \<lparr>mm_ID = [], mm_Provider = diffractProvider row, mm_ModelType = diffracModelType row,
     mm_ModelName = diffractModelName row, mm_BaseModel = src_BaseModel row, mm_Capability = diffractCapabilities row,
     mm_Limits = \<lparr>ContextWindow = src_MaxTokens row, MaxInputTokens = src_MaxInputTokens row,
       MaxOutputTokens = src_MaxOutputTokens row, LongContextThreshold = src_LongContextThreshold row\<rparr>,
     mm_SourceRawKey = diffractRawKey row\<rparr>"

definition row_variant :: "SourceSchema \<Rightarrow> PricingVariant" where
  "row_variant row = \<lparr>pv_ID = [], pv_RawKey = diffractRawKey row, pv_Selectors = diffractSelectorSet row,
     pv_Provider = diffractProvider row, pv_ModelType = diffracModelType row, pv_ModelName = diffractModelName row,
     pv_Pricing = src_Pricing row\<rparr>"

fun build_loop :: "SourceSchema list \<Rightarrow> CatalogKey list \<Rightarrow> CatalogSource \<Rightarrow> CatalogSource" where
  "build_loop [] seen c = c"
| "build_loop (row # rows) seen c =
    (let (seen1, c1) = (if row_key row \<in> set seen then (seen, c)
           else (row_key row # seen, c\<lparr>ModelsCatalog := ModelsCatalog c @ [row_model row]\<rparr>))
     in build_loop rows seen1 (c1\<lparr>PricingCatalog := PricingCatalog c1 @ [row_variant row]\<rparr>))"

definition CatalogSource_build :: "SourceSchema list \<Rightarrow> CatalogSource \<Rightarrow> CatalogSource" where
  "CatalogSource_build rows c =
    (let c1 = build_loop rows [] (c\<lparr>ModelsCatalog := [], PricingCatalog := []\<rparr>)
     in c1\<lparr>TotalModels := length (ModelsCatalog c1)\<rparr>)"

definition maxFeedInBytes :: int64 where
  "maxFeedInBytes = 33554432"

text \<open>\<^verbatim>\<open>Fetch\<close>: the HTTP status, the number of bytes read and the members of the body come from the
  network.\<close>

datatype fetch_error = FetchStatus int | FetchTooLarge | FetchParse feed_error

definition CatalogSource_Fetch :: "int \<Rightarrow> int64 \<Rightarrow> (string \<times> SourceSchema option) list \<Rightarrow> CatalogSource
    \<Rightarrow> fetch_error + CatalogSource" where
  "CatalogSource_Fetch status feed_bytes members c =
    (if status \<noteq> 200 then Inl (FetchStatus status)
     else if feed_bytes > maxFeedInBytes then Inl FetchTooLarge
     else case modelParser members [] 0 0 of Inl e \<Rightarrow> Inl (FetchParse e)
       | Inr (rows, tot, unknown) \<Rightarrow>
           Inr (CatalogSource_build rows (c\<lparr>TotalSourceCount := TotalSourceCount c + tot, TotalUnknown := TotalUnknown c + unknown\<rparr>)))"

section \<open>Facts\<close>

lemma parse_row_name: "parse_row raw schema = Inr row \<Longrightarrow> diffractModelName row \<noteq> [] \<and> diffractRawKey row = raw
   \<and> diffractProvider row = diffractProvider schema \<and> diffracModelType row = diffracModelType schema"
  by (auto simp: parse_row_def Let_def split: sum.splits prod.splits if_splits option.splits)

lemma alias_nonempty: "map_of providerAliases p = Some a \<Longrightarrow> a \<noteq> []"
  by (auto simp: providerAliases_def split: if_splits)

lemma UnmarshalJSON_ok:
  "UnmarshalJSON d = Inr s \<Longrightarrow> diffractProvider s \<noteq> [] \<and> diffracModelType s \<noteq> ModelTypeUnknown"
  by (auto simp: UnmarshalJSON_def Let_def dest!: alias_nonempty split: option.splits if_splits)

lemma modelParser_counts:
  "modelParser members results tot unknown = Inr (rows, tot_out, unk_out) \<Longrightarrow>
   tot_out = tot + length members \<and> length rows + unk_out = length results + unknown + length members
   \<and> (\<exists>new. rows = results @ new \<and> list_all (\<lambda>r. diffractModelName r \<noteq> [] \<and> diffractProvider r \<noteq> []
        \<and> diffracModelType r \<noteq> ModelTypeUnknown) new)"
proof (induction members results tot unknown rule: modelParser.induct)
  case (2 raw decoded rest results tot unknown)
  show ?case
  proof (cases "UnmarshalJSON decoded")
    case (Inl e)
    then show ?thesis using 2 by (cases e) auto
  next
    case (Inr schema)
    then obtain row where row: "parse_row raw schema = Inr row"
      "modelParser rest (results @ [row]) (Suc tot) unknown = Inr (rows, tot_out, unk_out)"
      using 2(3) by (auto split: sum.splits)
    have "diffractModelName row \<noteq> [] \<and> diffractProvider row \<noteq> [] \<and> diffracModelType row \<noteq> ModelTypeUnknown"
      using parse_row_name [OF row(1)] UnmarshalJSON_ok [OF Inr] by simp
    moreover from 2(2) [OF Inr row] obtain new where "rows = (results @ [row]) @ new"
      "list_all (\<lambda>r. diffractModelName r \<noteq> [] \<and> diffractProvider r \<noteq> [] \<and> diffracModelType r \<noteq> ModelTypeUnknown) new"
      "tot_out = Suc tot + length rest" "length rows + unk_out = length (results @ [row]) + unknown + length rest"
      by auto
    ultimately show ?thesis by (auto intro!: exI [of _ "row # new"])
  qed
qed auto

lemma build_loop_pricing: "PricingCatalog (build_loop rows seen c) = PricingCatalog c @ map row_variant rows"
  by (induction rows seen c rule: build_loop.induct) (auto simp: Let_def)

lemma row_model_key [simp]: "ModelMetadata_CatalogKey (row_model row) = row_key row"
  by (simp add: ModelMetadata_CatalogKey_def row_model_def row_key_def)

lemma row_variant_key [simp]: "PricingVariant_CatalogKey (row_variant row) = row_key row"
  by (simp add: PricingVariant_CatalogKey_def row_variant_def row_key_def)

lemma build_loop_models:
  "map ModelMetadata_CatalogKey (ModelsCatalog (build_loop rows seen c))
     = map ModelMetadata_CatalogKey (ModelsCatalog c) @ dedup seen (map row_key rows)"
  by (induction rows seen c rule: build_loop.induct) (auto simp: Let_def)

text \<open>
  C40: Reading the feed accounts for every member: each becomes one priced row or is counted as
  unknown, no price row is lost in the catalog, every model of the catalog is listed exactly once
  and is one that has a price, and every row has a provider, a model name and a known type.
\<close>

theorem CatalogSource_Fetch_accounts:
  assumes "CatalogSource_Fetch status feed_bytes members c = Inr c'"
    and "TotalSourceCount c = 0" "TotalUnknown c = 0"
  shows "TotalSourceCount c' = length members
    \<and> length (PricingCatalog c') + TotalUnknown c' = length members
    \<and> distinct (map ModelMetadata_CatalogKey (ModelsCatalog c'))
    \<and> ModelMetadata_CatalogKey ` set (ModelsCatalog c') = PricingVariant_CatalogKey ` set (PricingCatalog c')
    \<and> TotalModels c' = length (ModelsCatalog c')
    \<and> list_all (\<lambda>v. pv_Provider v \<noteq> [] \<and> pv_ModelName v \<noteq> [] \<and> pv_ModelType v \<noteq> ModelTypeUnknown) (PricingCatalog c')"
proof -
  obtain rows tot unknown where p: "modelParser members [] 0 0 = Inr (rows, tot, unknown)"
    and c': "c' = CatalogSource_build rows (c\<lparr>TotalSourceCount := tot, TotalUnknown := unknown\<rparr>)"
    using assms by (auto simp: CatalogSource_Fetch_def split: if_splits sum.splits)
  note counts = modelParser_counts [OF p]
  let ?b = "build_loop rows [] (c\<lparr>TotalSourceCount := tot, TotalUnknown := unknown, ModelsCatalog := [], PricingCatalog := []\<rparr>)"
  have keep: "TotalSourceCount (build_loop rs seen x) = TotalSourceCount x \<and> TotalUnknown (build_loop rs seen x) = TotalUnknown x" for rs seen x
    by (induction rs seen x rule: build_loop.induct) (auto simp: Let_def)
  have pr: "PricingCatalog c' = map row_variant rows" by (simp add: c' CatalogSource_build_def Let_def build_loop_pricing)
  have md: "map ModelMetadata_CatalogKey (ModelsCatalog c') = dedup [] (map row_key rows)"
    by (simp add: c' CatalogSource_build_def Let_def build_loop_models)
  have "ModelMetadata_CatalogKey ` set (ModelsCatalog c') = set (dedup [] (map row_key rows))"
    by (simp flip: md)
  then have "ModelMetadata_CatalogKey ` set (ModelsCatalog c') = PricingVariant_CatalogKey ` set (PricingCatalog c')"
    by (simp add: pr set_dedup image_image)
  moreover have "TotalSourceCount c' = tot" "TotalUnknown c' = unknown" "TotalModels c' = length (ModelsCatalog c')"
    by (simp_all add: c' CatalogSource_build_def Let_def keep)
  moreover have "distinct (map ModelMetadata_CatalogKey (ModelsCatalog c'))" by (simp add: md distinct_dedup)
  moreover have "list_all (\<lambda>v. pv_Provider v \<noteq> [] \<and> pv_ModelName v \<noteq> [] \<and> pv_ModelType v \<noteq> ModelTypeUnknown) (PricingCatalog c')"
    using counts by (auto simp: pr list_all_iff row_variant_def)
  ultimately show ?thesis using counts by (simp add: pr)
qed

definition CatalogSource_zero :: CatalogSource where
  "CatalogSource_zero = \<lparr>ModelsCatalog = [], PricingCatalog = [], TotalModels = 0, TotalUnknown = 0, TotalSourceCount = 0\<rparr>"

text \<open>A member without a mode, as the feed's sample specification row.\<close>

definition sample_spec :: SourceSchema where
  "sample_spec = \<lparr>diffracModelType = ModelTypeUnknown, diffractProvider = [], diffractSelectorSet = \<lparr>ss_Key = EmptySelectorKey\<rparr>,
     diffractCapabilities = 0, diffractModelName = [], diffractRawKey = [], src_Mode = [], src_Provider = [],
     src_BaseModel = [], src_MaxInputTokens = 0, src_MaxOutputTokens = 0, src_MaxTokens = 0,
     src_LongContextThreshold = 0, src_SearchContext = None, SupportsFunctionCalling = None,
     SupportsParallelFunctionCalling = None, SupportsToolChoice = None, SupportsReasoning = None,
     SupportsVision = None, SupportsImageInput = None, SupportsAudioInput = None, SupportsAudioOutput = None,
     SupportsPDFInput = None, SupportsVideoInput = None, SupportsPromptCaching = None,
     SupportsResponseSchema = None, SupportsSystemMessages = None, SupportsNativeStreaming = None,
     SupportsWebSearch = None, SupportsComputerUse = None, SupportsAssistantPrefill = None,
     SupportsEmbeddingImageInput = None, src_Pricing = Pricing_zero\<rparr>"

theorem CatalogSource_Fetch_accounts_witness:
  "\<exists>c'. CatalogSource_Fetch 200 10 [(''sample_spec'', Some sample_spec)] CatalogSource_zero = Inr c'
     \<and> length (PricingCatalog c') + TotalUnknown c' = 1"
proof -
  obtain c' where c': "CatalogSource_Fetch 200 10 [(''sample_spec'', Some sample_spec)] CatalogSource_zero = Inr c'"
    by (simp add: CatalogSource_Fetch_def maxFeedInBytes_def UnmarshalJSON_def sample_spec_def TrimSpace_def)
  show ?thesis using c' CatalogSource_Fetch_accounts [OF c'] by (simp add: CatalogSource_zero_def)
qed

end
