(* ===== verification/CatalogStore.thy ===== *)
theory CatalogStore
  imports CredentialLife PriceFeed
begin

text \<open>
  Models, prices and usage in the database (\<^verbatim>\<open>internal/dbstore/model_metadata.go\<close>, \<^verbatim>\<open>pricing.go\<close>, \<^verbatim>\<open>usage.go\<close>) and the copy
  of the public feed into them (\<^verbatim>\<open>syncCatalog\<close> of \<^verbatim>\<open>internal/modelcatalog/modelcatalog.go\<close>). The providers that the rows refer to
  are those of the provider tables; columns that the library stores as JSON hold the value itself.
\<close>

section \<open>Rows\<close>

record StoreModelMetadata =
  sm_ID :: string
  sm_ProviderID :: string
  sm_Provider :: StoreProvider
  sm_ModelName :: string
  sm_ModelType :: string
  sm_BaseModel :: string
  sm_Capabilities :: "string list"
  sm_ContextWindow :: int
  sm_MaxInputTokens :: int
  sm_MaxOutputTokens :: int
  sm_LongContextThreshold :: int
  sm_SourceRawKey :: string
  sm_CreatedAt :: time
  sm_UpdatedAt :: time

definition StoreModelMetadata_ToCore :: "StoreModelMetadata \<Rightarrow> ModelMetadata" where
  "StoreModelMetadata_ToCore s = \<lparr>mm_ID = sm_ID s, mm_Provider = sp_Name (sm_Provider s), mm_ModelType = ParseModelType (sm_ModelType s),
     mm_ModelName = sm_ModelName s, mm_BaseModel = sm_BaseModel s, mm_Capability = ParseCapabilityStrings (sm_Capabilities s),
     mm_Limits = \<lparr>ContextWindow = sm_ContextWindow s, MaxInputTokens = sm_MaxInputTokens s, MaxOutputTokens = sm_MaxOutputTokens s,
       LongContextThreshold = sm_LongContextThreshold s\<rparr>,
     mm_SourceRawKey = sm_SourceRawKey s\<rparr>"

definition newStoreModelMetadata :: "string \<Rightarrow> ModelMetadata \<Rightarrow> string \<Rightarrow> time \<Rightarrow> StoreModelMetadata" where
  "newStoreModelMetadata uuid md providerID now = \<lparr>sm_ID = uuid, sm_ProviderID = providerID, sm_Provider = zero_provider,
     sm_ModelName = mm_ModelName md, sm_ModelType = ModelType_String (mm_ModelType md), sm_BaseModel = mm_BaseModel md,
     sm_Capabilities = Capability_String (mm_Capability md), sm_ContextWindow = ContextWindow (mm_Limits md),
     sm_MaxInputTokens = MaxInputTokens (mm_Limits md), sm_MaxOutputTokens = MaxOutputTokens (mm_Limits md),
     sm_LongContextThreshold = LongContextThreshold (mm_Limits md), sm_SourceRawKey = mm_SourceRawKey md,
     sm_CreatedAt = now, sm_UpdatedAt = now\<rparr>"

record StoreModelPricing =
  smp_ID :: string
  smp_RawKey :: string
  smp_ProviderID :: string
  smp_Provider :: StoreProvider
  smp_ModelName :: string
  smp_SelectorKey :: string
  smp_ModelType :: string
  smp_Pricing :: Pricing
  smp_HeadlineInputCostPerToken :: "float64 option"
  smp_HeadlineOutputCostPerToken :: "float64 option"
  smp_CreatedAt :: time
  smp_UpdatedAt :: time

definition StoreModelPricing_ToCore :: "StoreModelPricing \<Rightarrow> PricingVariant" where
  "StoreModelPricing_ToCore s = \<lparr>pv_ID = smp_ID s, pv_RawKey = smp_RawKey s, pv_Selectors = \<lparr>ss_Key = smp_SelectorKey s\<rparr>,
     pv_Provider = sp_Name (smp_Provider s), pv_ModelType = ParseModelType (smp_ModelType s), pv_ModelName = smp_ModelName s,
     pv_Pricing = smp_Pricing s\<rparr>"

definition newStoreModelPricing :: "string \<Rightarrow> PricingVariant \<Rightarrow> string \<Rightarrow> time \<Rightarrow> StoreModelPricing" where
  "newStoreModelPricing uuid variant providerID now = \<lparr>smp_ID = uuid, smp_RawKey = pv_RawKey variant, smp_ProviderID = providerID,
     smp_Provider = zero_provider, smp_ModelName = pv_ModelName variant, smp_SelectorKey = SelectorSet_CanonicalKey (pv_Selectors variant),
     smp_ModelType = ModelType_String (pv_ModelType variant), smp_Pricing = pv_Pricing variant,
     smp_HeadlineInputCostPerToken = InputCostPerToken (pv_Pricing variant),
     smp_HeadlineOutputCostPerToken = OutputCostPerToken (pv_Pricing variant), smp_CreatedAt = now, smp_UpdatedAt = now\<rparr>"

record StoreCustomModelPricing =
  sk_ID :: string
  sk_Name :: string
  sk_ModelName :: string
  sk_ModelType :: string
  sk_ScopeType :: ScopeType
  sk_ScopeVirtualkeyID :: "string option"
  sk_ScopeProviderID :: "string option"
  sk_ScopeProvider :: "StoreProvider option"
  sk_ScopeRef :: string
  sk_Pricing :: Pricing
  sk_CreatedAt :: time
  sk_UpdatedAt :: time

datatype catalog_store_error = KSDatabase | KSNotFound string | KSProvider credential_store_error | KSProviderRequired | KSKeyRequired
  | KSInvalidScope ScopeType | KSInvalidType string | KSNoBasePrice string string | KSUnique

definition StoreCustomModelPricing_BeforeSave :: "StoreCustomModelPricing \<Rightarrow> catalog_store_error + StoreCustomModelPricing" where
  "StoreCustomModelPricing_BeforeSave s = (case sk_ScopeType s of
     ScopeProvider \<Rightarrow> (case sk_ScopeProviderID s of None \<Rightarrow> Inl KSProviderRequired | Some i \<Rightarrow> Inr (s\<lparr>sk_ScopeRef := i\<rparr>))
   | ScopeVirtualKey \<Rightarrow> (case sk_ScopeVirtualkeyID s of None \<Rightarrow> Inl KSKeyRequired | Some i \<Rightarrow> Inr (s\<lparr>sk_ScopeRef := i\<rparr>))
   | ScopeGlobal \<Rightarrow> Inr (s\<lparr>sk_ScopeRef := []\<rparr>)
   | ScopeOther _ \<Rightarrow> Inl (KSInvalidScope (sk_ScopeType s)))"

definition StoreCustomModelPricing_ToCore :: "StoreCustomModelPricing \<Rightarrow> CustomPricing" where
  "StoreCustomModelPricing_ToCore s = \<lparr>cp_ID = sk_ID s, cp_Name = sk_Name s, cp_ModelName = sk_ModelName s,
     cp_ModelType = ParseModelType (sk_ModelType s), cp_Pricing = sk_Pricing s, cp_ScopeType = sk_ScopeType s,
     cp_ScopeVirtualkeyID = sk_ScopeVirtualkeyID s, cp_ScopeProvider = map_option sp_Name (sk_ScopeProvider s),
     cp_CreatedAt = 0, cp_UpdatedAt = 0\<rparr>"

record CatalogTables =
  ct_metadata :: "StoreModelMetadata list"
  ct_pricing :: "StoreModelPricing list"
  ct_custom :: "StoreCustomModelPricing list"
  ct_usage :: "StoreUsageRecord list"

section \<open>Reading\<close>

text \<open>The provider of a row, opened by its own hook; a reference to no row leaves the zero value.\<close>

definition row_provider :: "credential_env \<Rightarrow> ProviderTables \<Rightarrow> string \<Rightarrow> catalog_store_error + StoreProvider" where
  "row_provider env p pid = (case List.find (\<lambda>x. sp_ID x = pid) (pt_providers p) of None \<Rightarrow> Inr zero_provider
   | Some x \<Rightarrow> map_sum KSProvider id (StoreProvider_AfterFind env False x))"

definition load_metadata :: "credential_env \<Rightarrow> ProviderTables \<Rightarrow> StoreModelMetadata \<Rightarrow> catalog_store_error + StoreModelMetadata" where
  "load_metadata env p r = map_sum id (\<lambda>x. r\<lparr>sm_Provider := x\<rparr>) (row_provider env p (sm_ProviderID r))"

definition load_pricing :: "credential_env \<Rightarrow> ProviderTables \<Rightarrow> StoreModelPricing \<Rightarrow> catalog_store_error + StoreModelPricing" where
  "load_pricing env p r = map_sum id (\<lambda>x. r\<lparr>smp_Provider := x\<rparr>) (row_provider env p (smp_ProviderID r))"

definition load_custom :: "credential_env \<Rightarrow> ProviderTables \<Rightarrow> StoreCustomModelPricing \<Rightarrow> catalog_store_error + StoreCustomModelPricing" where
  "load_custom env p r = (case sk_ScopeProviderID r of None \<Rightarrow> Inr (r\<lparr>sk_ScopeProvider := None\<rparr>)
   | Some pid \<Rightarrow> (case List.find (\<lambda>x. sp_ID x = pid) (pt_providers p) of None \<Rightarrow> Inr (r\<lparr>sk_ScopeProvider := None\<rparr>)
     | Some x \<Rightarrow> map_sum KSProvider (\<lambda>y. r\<lparr>sk_ScopeProvider := Some y\<rparr>) (StoreProvider_AfterFind env False x)))"

fun load_each :: "('a \<Rightarrow> catalog_store_error + 'a) \<Rightarrow> 'a list \<Rightarrow> catalog_store_error + 'a list" where
  "load_each load [] = Inr []"
| "load_each load (r # rs) = (case load r of Inl e \<Rightarrow> Inl e | Inr x \<Rightarrow> map_sum id ((#) x) (load_each load rs))"

definition load_one :: "('a \<Rightarrow> catalog_store_error + 'a) \<Rightarrow> ('a \<Rightarrow> string) \<Rightarrow> string \<Rightarrow> 'a list \<Rightarrow> catalog_store_error + 'a" where
  "load_one load key ident rs = (case List.find (\<lambda>r. key r = ident) rs of None \<Rightarrow> Inl (KSNotFound ident) | Some r \<Rightarrow> load r)"

definition GetModelMetadata :: "credential_env \<Rightarrow> ProviderTables \<Rightarrow> string \<Rightarrow> CatalogTables \<Rightarrow> catalog_store_error + StoreModelMetadata" where
  "GetModelMetadata env p ident t = (if \<not> se_reload env then Inl KSDatabase else load_one (load_metadata env p) sm_ID ident (ct_metadata t))"

definition ListModelMetadata :: "credential_env \<Rightarrow> ProviderTables \<Rightarrow> CatalogTables \<Rightarrow> catalog_store_error + StoreModelMetadata list" where
  "ListModelMetadata env p t = (if \<not> se_reload env then Inl KSDatabase else load_each (load_metadata env p) (ct_metadata t))"

text \<open>The row of the provider is read for its identifier only, so it has no proxy to open.\<close>

definition ModelNamesByProvider :: "credential_env \<Rightarrow> ProviderTables \<Rightarrow> Provider \<Rightarrow> CatalogTables \<Rightarrow> catalog_store_error + string list" where
  "ModelNamesByProvider env p provider t = (if \<not> se_reload env then Inl KSDatabase
     else case List.find (\<lambda>x. sp_Name x = provider) (pt_providers p) of None \<Rightarrow> Inl (KSNotFound provider)
     | Some x \<Rightarrow> Inr (map sm_ModelName (filter (\<lambda>r. sm_ProviderID r = sp_ID x) (ct_metadata t))))"

definition GetModelPricing :: "credential_env \<Rightarrow> ProviderTables \<Rightarrow> string \<Rightarrow> CatalogTables \<Rightarrow> catalog_store_error + StoreModelPricing" where
  "GetModelPricing env p ident t = (if \<not> se_reload env then Inl KSDatabase else load_one (load_pricing env p) smp_ID ident (ct_pricing t))"

definition ListModelPricing :: "credential_env \<Rightarrow> ProviderTables \<Rightarrow> CatalogTables \<Rightarrow> catalog_store_error + StoreModelPricing list" where
  "ListModelPricing env p t = (if \<not> se_reload env then Inl KSDatabase else load_each (load_pricing env p) (ct_pricing t))"

definition GetCustomPricing :: "credential_env \<Rightarrow> ProviderTables \<Rightarrow> string \<Rightarrow> CatalogTables \<Rightarrow> catalog_store_error + StoreCustomModelPricing" where
  "GetCustomPricing env p ident t = (if \<not> se_reload env then Inl KSDatabase else load_one (load_custom env p) sk_ID ident (ct_custom t))"

definition ListCustomPricing :: "credential_env \<Rightarrow> ProviderTables \<Rightarrow> CatalogTables \<Rightarrow> catalog_store_error + StoreCustomModelPricing list" where
  "ListCustomPricing env p t = (if \<not> se_reload env then Inl KSDatabase else load_each (load_custom env p) (ct_custom t))"

record CustomPricingFilters =
  cf_ScopeType :: string
  cf_VirtualKeyID :: string
  cf_Provider :: string
  cf_ModelName :: string

fun ScopeType_name :: "ScopeType \<Rightarrow> string" where
  "ScopeType_name ScopeGlobal = ''global''"
| "ScopeType_name ScopeProvider = ''provider''"
| "ScopeType_name ScopeVirtualKey = ''virtualkey''"
| "ScopeType_name (ScopeOther s) = s"

definition filter_custom :: "ProviderTables \<Rightarrow> CustomPricingFilters \<Rightarrow> StoreCustomModelPricing \<Rightarrow> bool" where
  "filter_custom p filters r \<longleftrightarrow> (cf_ScopeType filters \<noteq> [] \<longrightarrow> ScopeType_name (sk_ScopeType r) = cf_ScopeType filters)
     \<and> (cf_VirtualKeyID filters \<noteq> [] \<longrightarrow> sk_ScopeVirtualkeyID r = Some (cf_VirtualKeyID filters))
     \<and> (cf_ModelName filters \<noteq> [] \<longrightarrow> sk_ModelName r = cf_ModelName filters)
     \<and> (cf_Provider filters \<noteq> [] \<longrightarrow> list_ex (\<lambda>x. Some (sp_ID x) = sk_ScopeProviderID r \<and> sp_Name x = cf_Provider filters) (pt_providers p))"

definition ListCustomPricingFiltered :: "credential_env \<Rightarrow> ProviderTables \<Rightarrow> CustomPricingFilters \<Rightarrow> CatalogTables
    \<Rightarrow> catalog_store_error + StoreCustomModelPricing list" where
  "ListCustomPricingFiltered env p filters t = (if \<not> se_reload env then Inl KSDatabase
     else load_each (load_custom env p) (filter (filter_custom p filters) (ct_custom t)))"

section \<open>Models\<close>

text \<open>The unique index of the table.\<close>

definition metadata_key :: "StoreModelMetadata \<Rightarrow> string \<times> string \<times> string" where
  "metadata_key r = (sm_ProviderID r, sm_ModelName r, sm_ModelType r)"

definition CreateModelMetadata :: "credential_env \<Rightarrow> ProviderTables \<Rightarrow> ModelMetadata \<Rightarrow> CatalogTables
    \<Rightarrow> CatalogTables \<times> (catalog_store_error + StoreModelMetadata)" where
  "CreateModelMetadata env p md t =
    (if \<not> se_tx env then (t, Inl KSDatabase)
     else case resolveProvider env (mm_Provider md) p of Inl e \<Rightarrow> (t, Inl (KSProvider e))
     | Inr provider \<Rightarrow>
         let payload = newStoreModelMetadata (se_uuid env) md (sp_ID provider) (se_now env) in
         if list_ex (\<lambda>r. sm_ID r = se_uuid env \<or> metadata_key r = metadata_key payload) (ct_metadata t) then (t, Inl KSUnique)
         else let t1 = t\<lparr>ct_metadata := ct_metadata t @ [payload]\<rparr> in (t1, GetModelMetadata env p (se_uuid env) t1))"

definition UpdateModelMetadata :: "credential_env \<Rightarrow> ProviderTables \<Rightarrow> string \<Rightarrow> ModelMetadata \<Rightarrow> CatalogTables
    \<Rightarrow> CatalogTables \<times> (catalog_store_error + StoreModelMetadata)" where
  "UpdateModelMetadata env p ident md t =
    (if \<not> se_tx env then (t, Inl KSDatabase)
     else if \<not> list_ex (\<lambda>r. sm_ID r = ident) (ct_metadata t) then (t, Inl (KSNotFound ident))
     else let t1 = t\<lparr>ct_metadata := map (\<lambda>r. if sm_ID r = ident then r\<lparr>sm_ModelType := ModelType_String (mm_ModelType md),
            sm_BaseModel := mm_BaseModel md, sm_Capabilities := Capability_String (mm_Capability md),
            sm_ContextWindow := ContextWindow (mm_Limits md), sm_MaxInputTokens := MaxInputTokens (mm_Limits md),
            sm_MaxOutputTokens := MaxOutputTokens (mm_Limits md), sm_LongContextThreshold := LongContextThreshold (mm_Limits md),
            sm_UpdatedAt := se_now env\<rparr> else r) (ct_metadata t)\<rparr>
       in (t1, GetModelMetadata env p ident t1))"

definition DeleteModelMetadata :: "credential_env \<Rightarrow> string \<Rightarrow> CatalogTables \<Rightarrow> CatalogTables \<times> catalog_store_error option" where
  "DeleteModelMetadata env ident t =
    (if \<not> se_tx env then (t, Some KSDatabase)
     else if \<not> list_ex (\<lambda>r. sm_ID r = ident) (ct_metadata t) then (t, Some (KSNotFound ident))
     else (t\<lparr>ct_metadata := filter (\<lambda>r. sm_ID r \<noteq> ident) (ct_metadata t)\<rparr>, None))"

text \<open>
  The entries to copy: those of a known provider, the first of each key; the loop of both copies. An upsert keeps the identifier and
  the time of creation of the row that has the key.
\<close>

fun sync_rows :: "('a \<Rightarrow> string option) \<Rightarrow> ('a \<Rightarrow> 'k) \<Rightarrow> 'a list \<Rightarrow> 'k set \<Rightarrow> ('a \<times> string) list" where
  "sync_rows pid key [] seen = []"
| "sync_rows pid key (x # xs) seen = (case pid x of None \<Rightarrow> sync_rows pid key xs seen
   | Some i \<Rightarrow> if key x \<in> seen then sync_rows pid key xs seen else (x, i) # sync_rows pid key xs (insert (key x) seen))"

definition upsert_row :: "('r \<Rightarrow> 'k) \<Rightarrow> ('r \<Rightarrow> 'r \<Rightarrow> 'r) \<Rightarrow> 'r list \<Rightarrow> 'r \<Rightarrow> 'r list" where
  "upsert_row key assign rs new = (if list_ex (\<lambda>r. key r = key new) rs then map (\<lambda>r. if key r = key new then assign new r else r) rs
     else rs @ [new])"

definition assign_metadata :: "StoreModelMetadata \<Rightarrow> StoreModelMetadata \<Rightarrow> StoreModelMetadata" where
  "assign_metadata new r = r\<lparr>sm_BaseModel := sm_BaseModel new, sm_Capabilities := sm_Capabilities new, sm_ContextWindow := sm_ContextWindow new,
     sm_MaxInputTokens := sm_MaxInputTokens new, sm_MaxOutputTokens := sm_MaxOutputTokens new,
     sm_LongContextThreshold := sm_LongContextThreshold new, sm_SourceRawKey := sm_SourceRawKey new, sm_UpdatedAt := sm_UpdatedAt new\<rparr>"

definition BulkSyncModelMetadata :: "credential_env \<Rightarrow> ProviderTables \<Rightarrow> ModelMetadata list \<Rightarrow> CatalogTables
    \<Rightarrow> CatalogTables \<times> catalog_store_error option" where
  "BulkSyncModelMetadata env p models t =
    (if models = [] then (t, None)
     else case ProviderIDs env p of Inl e \<Rightarrow> (t, Some (KSProvider e))
     | Inr providerIDs \<Rightarrow>
         let rows = map (\<lambda>(i, md, pid). newStoreModelMetadata (ce_uuids env i) md pid (se_now env))
               (List.enumerate 0 (sync_rows (\<lambda>md. providerIDs (mm_Provider md)) ModelMetadata_CatalogKey models {})) in
         if rows = [] then (t, None)
         else if \<not> se_tx env then (t, Some KSDatabase)
         else (t\<lparr>ct_metadata := foldl (upsert_row metadata_key assign_metadata) (ct_metadata t) rows\<rparr>, None))"

section \<open>Base prices\<close>

definition CreateModelPricing :: "credential_env \<Rightarrow> ProviderTables \<Rightarrow> PricingVariant \<Rightarrow> CatalogTables
    \<Rightarrow> CatalogTables \<times> (catalog_store_error + StoreModelPricing)" where
  "CreateModelPricing env p variant t =
    (if \<not> se_tx env then (t, Inl KSDatabase)
     else case resolveProvider env (pv_Provider variant) p of Inl e \<Rightarrow> (t, Inl (KSProvider e))
     | Inr provider \<Rightarrow>
         let payload = newStoreModelPricing (se_uuid env) variant (sp_ID provider) (se_now env) in
         if list_ex (\<lambda>r. smp_ID r = se_uuid env \<or> smp_RawKey r = smp_RawKey payload) (ct_pricing t) then (t, Inl KSUnique)
         else let t1 = t\<lparr>ct_pricing := ct_pricing t @ [payload]\<rparr> in (t1, GetModelPricing env p (se_uuid env) t1))"

definition UpdateModelPricingRates :: "credential_env \<Rightarrow> ProviderTables \<Rightarrow> string \<Rightarrow> Pricing \<Rightarrow> CatalogTables
    \<Rightarrow> CatalogTables \<times> (catalog_store_error + StoreModelPricing)" where
  "UpdateModelPricingRates env p ident pricing t =
    (if \<not> se_tx env then (t, Inl KSDatabase)
     else if \<not> list_ex (\<lambda>r. smp_ID r = ident) (ct_pricing t) then (t, Inl (KSNotFound ident))
     else let t1 = t\<lparr>ct_pricing := map (\<lambda>r. if smp_ID r = ident then r\<lparr>smp_Pricing := pricing,
            smp_HeadlineInputCostPerToken := InputCostPerToken pricing, smp_HeadlineOutputCostPerToken := OutputCostPerToken pricing,
            smp_UpdatedAt := se_now env\<rparr> else r) (ct_pricing t)\<rparr>
       in (t1, GetModelPricing env p ident t1))"

definition DeleteModelPricing :: "credential_env \<Rightarrow> string \<Rightarrow> CatalogTables \<Rightarrow> CatalogTables \<times> catalog_store_error option" where
  "DeleteModelPricing env ident t =
    (if \<not> se_tx env then (t, Some KSDatabase)
     else if \<not> list_ex (\<lambda>r. smp_ID r = ident) (ct_pricing t) then (t, Some (KSNotFound ident))
     else (t\<lparr>ct_pricing := filter (\<lambda>r. smp_ID r \<noteq> ident) (ct_pricing t)\<rparr>, None))"

definition assign_pricing :: "StoreModelPricing \<Rightarrow> StoreModelPricing \<Rightarrow> StoreModelPricing" where
  "assign_pricing new r = r\<lparr>smp_ProviderID := smp_ProviderID new, smp_ModelName := smp_ModelName new, smp_SelectorKey := smp_SelectorKey new,
     smp_ModelType := smp_ModelType new, smp_Pricing := smp_Pricing new, smp_HeadlineInputCostPerToken := smp_HeadlineInputCostPerToken new,
     smp_HeadlineOutputCostPerToken := smp_HeadlineOutputCostPerToken new, smp_UpdatedAt := smp_UpdatedAt new\<rparr>"

definition BulkSyncModelPricing :: "credential_env \<Rightarrow> ProviderTables \<Rightarrow> PricingVariant list \<Rightarrow> CatalogTables
    \<Rightarrow> CatalogTables \<times> catalog_store_error option" where
  "BulkSyncModelPricing env p variants t =
    (if variants = [] then (t, None)
     else case ProviderIDs env p of Inl e \<Rightarrow> (t, Some (KSProvider e))
     | Inr providerIDs \<Rightarrow>
         let rows = map (\<lambda>(i, variant, pid). newStoreModelPricing (ce_uuids env i) variant pid (se_now env))
               (List.enumerate 0 (sync_rows (\<lambda>v. providerIDs (pv_Provider v)) pv_RawKey variants {})) in
         if rows = [] then (t, None)
         else if \<not> se_tx env then (t, Some KSDatabase)
         else (t\<lparr>ct_pricing := foldl (upsert_row smp_RawKey assign_pricing) (ct_pricing t) rows\<rparr>, None))"

section \<open>Custom prices\<close>

record CustomPricingRequest =
  pr_Name :: string
  pr_ModelName :: string
  pr_ModelType :: string
  pr_Pricing :: Pricing
  pr_ScopeType :: ScopeType
  pr_ScopeVirtualkeyID :: "string option"
  pr_ScopeProvider :: "Provider option"

definition hasBasePricing :: "ProviderTables \<Rightarrow> string \<Rightarrow> string \<Rightarrow> Provider option \<Rightarrow> CatalogTables \<Rightarrow> bool" where
  "hasBasePricing p modelName modelType provider t = list_ex (\<lambda>r. smp_ModelName r = modelName \<and> smp_ModelType r = modelType
     \<and> (case provider of None \<Rightarrow> True
        | Some name \<Rightarrow> list_ex (\<lambda>x. sp_ID x = smp_ProviderID r \<and> sp_Name x = name) (pt_providers p))) (ct_pricing t)"

text \<open>The row of a request, from its scope.\<close>

definition custom_row :: "credential_env \<Rightarrow> ProviderTables \<Rightarrow> CustomPricingRequest \<Rightarrow> catalog_store_error + StoreCustomModelPricing" where
  "custom_row env p b =
    (let payload = \<lparr>sk_ID = se_uuid env, sk_Name = pr_Name b, sk_ModelName = pr_ModelName b, sk_ModelType = pr_ModelType b,
       sk_ScopeType = pr_ScopeType b, sk_ScopeVirtualkeyID = None, sk_ScopeProviderID = None, sk_ScopeProvider = None, sk_ScopeRef = [],
       sk_Pricing = pr_Pricing b, sk_CreatedAt = se_now env, sk_UpdatedAt = se_now env\<rparr> in
     case pr_ScopeType b of
       ScopeGlobal \<Rightarrow> Inr payload
     | ScopeProvider \<Rightarrow> (case pr_ScopeProvider b of None \<Rightarrow> Inl KSProviderRequired
       | Some name \<Rightarrow> (case provider_row env False name p of Inl e \<Rightarrow> Inl (KSProvider e)
         | Inr provider \<Rightarrow> Inr (payload\<lparr>sk_ScopeProviderID := Some (sp_ID provider)\<rparr>)))
     | ScopeVirtualKey \<Rightarrow> (case pr_ScopeVirtualkeyID b of None \<Rightarrow> Inl KSKeyRequired
       | Some i \<Rightarrow> if i = [] then Inl KSKeyRequired else Inr (payload\<lparr>sk_ScopeVirtualkeyID := Some i\<rparr>))
     | ScopeOther s \<Rightarrow> Inl (KSInvalidScope (ScopeOther s)))"

definition custom_key :: "StoreCustomModelPricing \<Rightarrow> string \<times> string \<times> ScopeType \<times> string" where
  "custom_key r = (sk_ModelName r, sk_ModelType r, sk_ScopeType r, sk_ScopeRef r)"

definition CreateCustomPricing :: "credential_env \<Rightarrow> ProviderTables \<Rightarrow> CustomPricingRequest \<Rightarrow> CatalogTables
    \<Rightarrow> CatalogTables \<times> (catalog_store_error + StoreCustomModelPricing)" where
  "CreateCustomPricing env p b t =
    (if ParseModelType (pr_ModelType b) = ModelTypeUnknown then (t, Inl (KSInvalidType (pr_ModelType b)))
     else if \<not> se_read env then (t, Inl KSDatabase)
     else if \<not> hasBasePricing p (pr_ModelName b) (pr_ModelType b) (if pr_ScopeType b = ScopeProvider then pr_ScopeProvider b else None) t
     then (t, Inl (KSNoBasePrice (pr_ModelName b) (pr_ModelType b)))
     else case custom_row env p b of Inl e \<Rightarrow> (t, Inl e)
     | Inr payload \<Rightarrow> (case StoreCustomModelPricing_BeforeSave payload of Inl e \<Rightarrow> (t, Inl e)
       | Inr stored \<Rightarrow>
           if \<not> se_tx env then (t, Inl KSDatabase)
           else if list_ex (\<lambda>r. sk_ID r = se_uuid env \<or> custom_key r = custom_key stored) (ct_custom t) then (t, Inl KSUnique)
           else let t1 = t\<lparr>ct_custom := ct_custom t @ [stored]\<rparr> in (t1, GetCustomPricing env p (se_uuid env) t1)))"

text \<open>The row is read again inside the transaction: if that fails nothing is stored.\<close>

definition UpdateCustomPricing :: "credential_env \<Rightarrow> ProviderTables \<Rightarrow> string \<Rightarrow> Pricing \<Rightarrow> CatalogTables
    \<Rightarrow> CatalogTables \<times> (catalog_store_error + StoreCustomModelPricing)" where
  "UpdateCustomPricing env p ident pricing t =
    (if \<not> se_tx env then (t, Inl KSDatabase)
     else case List.find (\<lambda>r. sk_ID r = ident) (ct_custom t) of None \<Rightarrow> (t, Inl (KSNotFound ident))
     | Some row \<Rightarrow> (case StoreCustomModelPricing_BeforeSave (row\<lparr>sk_Pricing := MergePricing (sk_Pricing row) pricing\<rparr>) of Inl e \<Rightarrow> (t, Inl e)
       | Inr stored \<Rightarrow>
           let t1 = t\<lparr>ct_custom := map (\<lambda>r. if sk_ID r = ident then stored\<lparr>sk_UpdatedAt := se_now env\<rparr> else r) (ct_custom t)\<rparr> in
           (case GetCustomPricing env p ident t1 of Inl e \<Rightarrow> (t, Inl e) | Inr row \<Rightarrow> (t1, Inr row))))"

definition DeleteCustomPricing :: "credential_env \<Rightarrow> string \<Rightarrow> CatalogTables \<Rightarrow> CatalogTables \<times> catalog_store_error option" where
  "DeleteCustomPricing env ident t =
    (if \<not> se_tx env then (t, Some KSDatabase)
     else if \<not> list_ex (\<lambda>r. sk_ID r = ident) (ct_custom t) then (t, Some (KSNotFound ident))
     else (t\<lparr>ct_custom := filter (\<lambda>r. sk_ID r \<noteq> ident) (ct_custom t)\<rparr>, None))"

section \<open>Usage\<close>

definition BulkInsertUsageHistory :: "credential_env \<Rightarrow> StoreUsageRecord list \<Rightarrow> CatalogTables \<Rightarrow> CatalogTables \<times> catalog_store_error option" where
  "BulkInsertUsageHistory env records t = (if records = [] then (t, None) else if \<not> se_tx env then (t, Some KSDatabase)
     else (t\<lparr>ct_usage := ct_usage t @ records\<rparr>, None))"

definition ListUsageByclient :: "credential_env \<Rightarrow> string \<Rightarrow> time \<Rightarrow> time \<Rightarrow> CatalogTables \<Rightarrow> catalog_store_error + StoreUsageRecord list" where
  "ListUsageByclient env clientID from_t to_t t = (if \<not> se_reload env then Inl KSDatabase
     else Inr (sort_key (\<lambda>r. - su_RequestAt r) (filter (\<lambda>r. su_ClientID r = clientID \<and> from_t \<le> su_RequestAt r \<and> su_RequestAt r \<le> to_t) (ct_usage t))))"

section \<open>Copying the feed\<close>

definition load_models :: "credential_env \<Rightarrow> ProviderTables \<Rightarrow> CatalogTables \<Rightarrow> ModelMetadata list option" where
  "load_models env p t = (case ListModelMetadata env p t of Inl _ \<Rightarrow> None | Inr rows \<Rightarrow> Some (map StoreModelMetadata_ToCore rows))"

definition load_variants :: "credential_env \<Rightarrow> ProviderTables \<Rightarrow> CatalogTables \<Rightarrow> PricingVariant list option" where
  "load_variants env p t = (case ListModelPricing env p t of Inl _ \<Rightarrow> None | Inr rows \<Rightarrow> Some (map StoreModelPricing_ToCore rows))"

definition load_customs :: "credential_env \<Rightarrow> ProviderTables \<Rightarrow> CatalogTables \<Rightarrow> CustomPricing list option" where
  "load_customs env p t = (case ListCustomPricing env p t of Inl _ \<Rightarrow> None | Inr rows \<Rightarrow> Some (map StoreCustomModelPricing_ToCore rows))"

text \<open>What the fetch of the feed gave, \<^const>\<open>None\<close> when it failed; the flag says whether the job succeeded.\<close>

definition syncCatalog :: "credential_env \<Rightarrow> ProviderTables \<Rightarrow> (ModelMetadata list \<times> PricingVariant list) option
    \<Rightarrow> CatalogTables \<Rightarrow> ModelCatalog \<Rightarrow> CatalogTables \<times> ModelCatalog \<times> bool" where
  "syncCatalog env p fetched t c = (case fetched of None \<Rightarrow> (t, c, False)
   | Some (models, variants) \<Rightarrow> (case BulkSyncModelMetadata env p models t of (t1, Some _) \<Rightarrow> (t1, c, False)
     | (t1, None) \<Rightarrow> (case BulkSyncModelPricing env p variants t1 of (t2, Some _) \<Rightarrow> (t2, c, False)
       | (t2, None) \<Rightarrow> (case loadAll (load_models env p t2) (load_variants env p t2) (load_customs env p t2) c of
           (c1, ok) \<Rightarrow> (t2, c1, ok)))))"

definition ReloadCustomPricing :: "credential_env \<Rightarrow> ProviderTables \<Rightarrow> CatalogTables \<Rightarrow> ModelCatalog \<Rightarrow> ModelCatalog option" where
  "ReloadCustomPricing env p t c = loadCustomPricing (load_customs env p t) c"

section \<open>Tables as maps\<close>

text \<open>The row of a key, and what an upsert does to it.\<close>

definition row_at :: "('r \<Rightarrow> 'k) \<Rightarrow> 'k \<Rightarrow> 'r list \<Rightarrow> 'r option" where
  "row_at key k rs = List.find (\<lambda>r. key r = k) rs"

lemma row_at_simps:
  "row_at key k [] = None" "row_at key k (r # rs) = (if key r = k then Some r else row_at key k rs)"
  by (simp_all add: row_at_def)

lemma row_at_map:
  "(\<And>r. key r = j \<Longrightarrow> key (g r) = j) \<Longrightarrow> row_at key k (map (\<lambda>r. if key r = j then g r else r) rs) = map_option (\<lambda>r. if k = j then g r else r) (row_at key k rs)"
  by (induction rs) (auto simp: row_at_def)

lemma row_at_upsert:
  assumes "\<And>n r. key r = key n \<Longrightarrow> key (assign n r) = key n"
  shows "row_at key k (upsert_row key assign rs n)
    = (if k = key n then Some (case row_at key k rs of None \<Rightarrow> n | Some r \<Rightarrow> assign n r) else row_at key k rs)"
proof (cases "list_ex (\<lambda>r. key r = key n) rs")
  case True
  then obtain r where "row_at key (key n) rs = Some r" unfolding row_at_def by (metis (mono_tags, lifting) find_None_iff list_ex_iff not_Some_eq)
  then show ?thesis using True by (simp add: upsert_row_def row_at_map assms option.map_ident)
next
  case False
  then have "row_at key (key n) rs = None" by (auto simp: row_at_def find_None_iff list_ex_iff)
  then show ?thesis using False by (auto simp: upsert_row_def row_at_def find_append split: option.splits)
qed

lemma row_at_upserts:
  assumes "\<And>n r. key r = key n \<Longrightarrow> key (assign n r) = key n" "distinct (map key ns)"
  shows "row_at key k (foldl (upsert_row key assign) rs ns)
    = (case row_at key k ns of None \<Rightarrow> row_at key k rs | Some n \<Rightarrow> Some (case row_at key k rs of None \<Rightarrow> n | Some r \<Rightarrow> assign n r))"
  using assms(2)
proof (induction ns arbitrary: rs)
  case (Cons n ns)
  have "row_at key (key n) ns = None" using Cons.prems by (auto simp: row_at_def find_None_iff) (metis imageI)
  with Cons show ?case by (cases "k = key n") (simp_all add: row_at_upsert [of key assign, OF assms(1)] row_at_simps split: option.split)
qed (simp add: row_at_def)

lemma sync_rows_at:
  "row_at (\<lambda>(x, i). key x) k (sync_rows pid key xs seen)
     = (if k \<in> seen then None else map_option (\<lambda>x. (x, the (pid x))) (List.find (\<lambda>x. pid x \<noteq> None \<and> key x = k) xs))"
  by (induction pid key xs seen rule: sync_rows.induct) (auto simp: row_at_def split: option.splits)

lemma sync_rows_distinct:
  "distinct (map (key \<circ> fst) (sync_rows pid key xs seen)) \<and> (key \<circ> fst) ` set (sync_rows pid key xs seen) \<inter> seen = {}"
  by (induction pid key xs seen rule: sync_rows.induct) (auto split: option.splits)

lemma row_at_enumerate:
  assumes "\<And>i x. key (f i x) = key' x"
  shows "case row_at key' k xs of None \<Rightarrow> row_at key k (map (\<lambda>(i, x). f i x) (List.enumerate n xs)) = None
    | Some x \<Rightarrow> \<exists>i. row_at key k (map (\<lambda>(i, x). f i x) (List.enumerate n xs)) = Some (f i x)"
  unfolding row_at_def by (induction xs arbitrary: n) (auto simp: assms split: option.splits)

lemma enumerate_keys: "(\<And>i x. key (f i x) = key' x) \<Longrightarrow> map key (map (\<lambda>(i, x). f i x) (List.enumerate n xs)) = map key' xs"
  by (induction xs arbitrary: n) auto

section \<open>The copied feed\<close>

lemma foldl_ids: "foldl (\<lambda>ids p. ids(sp_Name p \<mapsto> sp_ID p)) Map.empty ps n = Some i \<Longrightarrow> \<exists>p \<in> set ps. sp_Name p = n \<and> sp_ID p = i"
  by (induction ps rule: rev_induct) (auto split: if_splits)

lemma ProviderIDs_found:
  assumes "rows_ok env p" "ProviderIDs env p = Inr ids" "ids n = Some i"
  shows "\<exists>x. row_provider env p i = Inr x \<and> sp_Name x = n"
proof -
  from assms(2) obtain qs where qs: "each_row (StoreProvider_AfterFind env False) (pt_providers p) = Inr qs"
    "ids = foldl (\<lambda>ids p. ids(sp_Name p \<mapsto> sp_ID p)) Map.empty qs"
    by (auto simp: ProviderIDs_def ListProviders_def split: sum.splits if_splits)
  obtain q where q: "q \<in> set qs" "sp_Name q = n" "sp_ID q = i" using foldl_ids [of qs n i] assms(3) qs(2) by auto
  obtain x where x: "x \<in> set (pt_providers p)" "StoreProvider_AfterFind env False x = Inr q"
    using list_all2_setD2 [OF each_row_found [OF qs(1)] q(1)] by blast
  have d: "distinct (map sp_ID (pt_providers p))" using assms(1) by (simp add: rows_ok_def)
  have "List.find (\<lambda>y. sp_ID y = i) (pt_providers p) = Some x" using find_map_distinct [OF d x(1)] hook_name [OF x(2)] q(3) by simp
  with x(2) q(2) show ?thesis by (auto simp: row_provider_def)
qed

text \<open>
  After the prices of a feed are copied, the row of a raw key is the first variant of the feed with that key and a known provider,
  and the row as it was where the feed has none: every variant reads back as the feed had it, under the identifier of its row.
\<close>

lemma copied_prices:
  assumes "rows_ok env p" "ProviderIDs env p = Inr ids" "se_tx env"
  shows "case List.find (\<lambda>v. ids (pv_Provider v) \<noteq> None \<and> pv_RawKey v = k) variants of
      None \<Rightarrow> row_at smp_RawKey k (ct_pricing (fst (BulkSyncModelPricing env p variants t))) = row_at smp_RawKey k (ct_pricing t)
    | Some v \<Rightarrow> \<exists>row x. row_at smp_RawKey k (ct_pricing (fst (BulkSyncModelPricing env p variants t))) = Some row \<and> load_pricing env p row = Inr x
        \<and> StoreModelPricing_ToCore x = v\<lparr>pv_ID := smp_ID row, pv_Selectors := \<lparr>ss_Key = SelectorSet_CanonicalKey (pv_Selectors v)\<rparr>\<rparr>"
proof -
  let ?rows = "sync_rows (\<lambda>v. ids (pv_Provider v)) pv_RawKey variants {}"
  let ?f = "\<lambda>i (v, pid). newStoreModelPricing (ce_uuids env i) v pid (se_now env)"
  let ?new = "map (\<lambda>(i, x). ?f i x) (List.enumerate 0 ?rows)"
  let ?t1 = "fst (BulkSyncModelPricing env p variants t)"
  have key: "smp_RawKey (?f i x) = (\<lambda>(v, pid). pv_RawKey v) x" for i x by (simp add: newStoreModelPricing_def split: prod.split)
  have t1: "ct_pricing ?t1 = foldl (upsert_row smp_RawKey assign_pricing) (ct_pricing t) ?new"
    using assms(2,3) by (cases variants) (simp_all add: BulkSyncModelPricing_def Let_def)
  have "distinct (map smp_RawKey ?new)"
    using sync_rows_distinct [of pv_RawKey "\<lambda>v. ids (pv_Provider v)" variants "{}"] enumerate_keys [of smp_RawKey ?f, OF key]
    by (simp add: comp_def case_prod_beta)
  then have at: "row_at smp_RawKey k (ct_pricing ?t1) = (case row_at smp_RawKey k ?new of None \<Rightarrow> row_at smp_RawKey k (ct_pricing t)
     | Some n \<Rightarrow> Some (case row_at smp_RawKey k (ct_pricing t) of None \<Rightarrow> n | Some r \<Rightarrow> assign_pricing n r))"
    unfolding t1 by (intro row_at_upserts) (simp add: assign_pricing_def)
  have src: "row_at (\<lambda>(v, pid). pv_RawKey v) k ?rows
      = map_option (\<lambda>v. (v, the (ids (pv_Provider v)))) (List.find (\<lambda>v. ids (pv_Provider v) \<noteq> None \<and> pv_RawKey v = k) variants)"
    by (simp add: sync_rows_at)
  show ?thesis
  proof (cases "List.find (\<lambda>v. ids (pv_Provider v) \<noteq> None \<and> pv_RawKey v = k) variants")
    case None
    with src row_at_enumerate [of smp_RawKey ?f, OF key, where k = k and xs = ?rows and n = 0] have "row_at smp_RawKey k ?new = None" by simp
    with at None show ?thesis by simp
  next
    case (Some v)
    then obtain pid where pid: "ids (pv_Provider v) = Some pid" "pv_RawKey v = k" by (auto dest: find_SomeD)
    with Some src row_at_enumerate [of smp_RawKey ?f, OF key, where k = k and xs = ?rows and n = 0] obtain i where
      new: "row_at smp_RawKey k ?new = Some (newStoreModelPricing (ce_uuids env i) v pid (se_now env))" by auto
    obtain x where x: "row_provider env p pid = Inr x" "sp_Name x = pv_Provider v" using ProviderIDs_found [OF assms(1,2) pid(1)] by blast
    define row where "row = (case row_at smp_RawKey k (ct_pricing t) of None \<Rightarrow> newStoreModelPricing (ce_uuids env i) v pid (se_now env)
      | Some r \<Rightarrow> assign_pricing (newStoreModelPricing (ce_uuids env i) v pid (se_now env)) r)"
    have row: "row_at smp_RawKey k (ct_pricing ?t1) = Some row" using at new by (simp add: row_def)
    have raw: "smp_RawKey row = k" using row by (auto simp: row_at_def dest: find_SomeD)
    have f: "smp_ProviderID row = pid" "smp_ModelName row = pv_ModelName v" "smp_ModelType row = ModelType_String (pv_ModelType v)"
      "smp_SelectorKey row = SelectorSet_CanonicalKey (pv_Selectors v)" "smp_Pricing row = pv_Pricing v"
      by (auto simp: row_def newStoreModelPricing_def assign_pricing_def split: option.split)
    have "load_pricing env p row = Inr (row\<lparr>smp_Provider := x\<rparr>)" by (simp add: load_pricing_def f x)
    moreover have "StoreModelPricing_ToCore (row\<lparr>smp_Provider := x\<rparr>)
        = v\<lparr>pv_ID := smp_ID row, pv_Selectors := \<lparr>ss_Key = SelectorSet_CanonicalKey (pv_Selectors v)\<rparr>\<rparr>"
      using pid(2) x(2) raw by (simp add: StoreModelPricing_ToCore_def f model_type.parse_print)
    ultimately show ?thesis using Some row by auto
  qed
qed

lemma load_each_found: "load_each load rs = Inr xs \<Longrightarrow> list_all2 (\<lambda>r x. load r = Inr x) rs xs"
proof (induction rs arbitrary: xs)
  case (Cons r rs)
  then obtain x ys where "load r = Inr x" "load_each load rs = Inr ys" "xs = x # ys"
    by (cases "load_each load rs") (auto split: sum.splits)
  with Cons.IH show ?case by simp
qed simp

lemma loaded_variant:
  assumes "load_variants env p t = Some vs" "r \<in> set (ct_pricing t)" "load_pricing env p r = Inr x"
  shows "StoreModelPricing_ToCore x \<in> set vs"
proof -
  from assms(1) obtain xs where xs: "load_each (load_pricing env p) (ct_pricing t) = Inr xs" "vs = map StoreModelPricing_ToCore xs"
    by (auto simp: load_variants_def ListModelPricing_def split: sum.splits if_splits)
  from list_all2_setD1 [OF load_each_found [OF xs(1)] assms(2)] assms(3) xs(2) show ?thesis by auto
qed

lemma base_price_found:
  assumes "v \<in> set vs" "PricingVariant_CatalogKey v = key"
  shows "\<exists>b. BasePricing_find (newBasePricingSnapshot vs) key sel = Some b \<and> b \<in> set vs \<and> PricingVariant_CatalogKey b = key"
proof -
  have mine: "v \<in> set (rows_for key vs)" and sub: "set (rows_for key vs) \<subseteq> {b \<in> set vs. PricingVariant_CatalogKey b = key}"
    using assms by (auto simp: rows_for_def)
  have "\<exists>b. base_of (rows_for key vs) = Some b \<and> b \<in> set (rows_for key vs)"
    using mine by (cases "rows_for key vs") (auto simp: base_of_def split: option.split dest: find_SomeD)
  then have "\<exists>b. variant_for vs key sel = Some b \<and> b \<in> set (rows_for key vs)"
    by (auto simp: variant_for_def Let_def split: option.splits if_splits dest: find_SomeD)
  with sub show ?thesis unfolding find_newBasePricing by blast
qed

lemma ResolvePrice_base: "BasePricing_find b key sel = Some v \<Longrightarrow> mc_basePricing c = Some b \<Longrightarrow> ResolvePrice c vkid key sel \<noteq> None"
  by (auto simp: ResolvePrice_def split: option.splits)

lemma loadAll_base:
  "loadAll models variants customs c = (c1, True) \<Longrightarrow> \<exists>vs. variants = Some vs \<and> mc_basePricing c1 = Some (newBasePricingSnapshot vs)"
  by (auto simp: loadAll_def loadModels_def loadBasePricing_def loadCustomPricing_def split: option.splits)

text \<open>
  C31: After a successful synchronisation every variant of the feed that is the first of its raw key and has a known provider is priced:
  a request for its model resolves to a price whatever the key and the selectors.
\<close>

theorem synced_feed_priced:
  assumes "rows_ok env p" "ProviderIDs env p = Inr ids" "se_tx env" "syncCatalog env p (Some (models, variants)) t c = (t1, c1, True)"
    and "List.find (\<lambda>w. ids (pv_Provider w) \<noteq> None \<and> pv_RawKey w = k) variants = Some v"
  shows "ResolvePrice c1 vkid (PricingVariant_CatalogKey v) sel \<noteq> None"
proof -
  from assms(4) obtain t0 where t1: "fst (BulkSyncModelPricing env p variants t0) = t1"
    and l: "loadAll (load_models env p t1) (load_variants env p t1) (load_customs env p t1) c = (c1, True)"
    by (auto simp: syncCatalog_def split: prod.splits option.splits) (metis fst_conv)
  from loadAll_base [OF l] obtain vs where vs: "load_variants env p t1 = Some vs" "mc_basePricing c1 = Some (newBasePricingSnapshot vs)" by blast
  from copied_prices [OF assms(1-3), of k variants t0] assms(5) t1 obtain row x where row: "row_at smp_RawKey k (ct_pricing t1) = Some row"
    "load_pricing env p row = Inr x" "StoreModelPricing_ToCore x = v\<lparr>pv_ID := smp_ID row, pv_Selectors := \<lparr>ss_Key = SelectorSet_CanonicalKey (pv_Selectors v)\<rparr>\<rparr>"
    by auto
  have "row \<in> set (ct_pricing t1)" using row(1) by (auto simp: row_at_def dest: find_SomeD)
  from loaded_variant [OF vs(1) this row(2)] have "StoreModelPricing_ToCore x \<in> set vs" .
  moreover have "PricingVariant_CatalogKey (StoreModelPricing_ToCore x) = PricingVariant_CatalogKey v" by (simp add: row(3) PricingVariant_CatalogKey_def)
  ultimately obtain b where "BasePricing_find (newBasePricingSnapshot vs) (PricingVariant_CatalogKey v) sel = Some b" using base_price_found by blast
  with vs(2) show ?thesis by (intro ResolvePrice_base)
qed

definition feed_variant :: PricingVariant where
  "feed_variant = \<lparr>pv_ID = [], pv_RawKey = ''openai/m'', pv_Selectors = \<lparr>ss_Key = []\<rparr>, pv_Provider = ProviderOpenAI,
     pv_ModelType = ModelTypeChat, pv_ModelName = ''m'', pv_Pricing = Pricing_zero\<rparr>"

definition empty_catalog :: CatalogTables where
  "empty_catalog = \<lparr>ct_metadata = [], ct_pricing = [], ct_custom = [], ct_usage = []\<rparr>"

lemma seeded_ids: "ProviderIDs cred_env seeded_tables = Inr [ProviderOpenAI \<mapsto> []]"
  by (simp add: ProviderIDs_def ListProviders_def seeded_tables_eq cred_env_ok StoreProvider_AfterFind_def zero_provider_def)

lemma seeded_rows_ok: "rows_ok cred_env seeded_tables"
proof -
  have "stored_in cred_env seeded_tables" unfolding seeded_tables_def
    by (intro stored_in.intros) (use cred_env_ok in \<open>simp_all add: step_env_def same_key_def\<close>)
  then show ?thesis by (rule plain.stored_rows_ok) (simp add: cred_env_def)
qed

lemma feed_synced: "\<exists>t1 c1. syncCatalog cred_env seeded_tables (Some ([], [feed_variant])) empty_catalog NewModelCatalog = (t1, c1, True)"
proof -
  define row where "row = newStoreModelPricing (ce_uuids cred_env 0) feed_variant [] (se_now cred_env)"
  have "BulkSyncModelPricing cred_env seeded_tables [feed_variant] empty_catalog = (empty_catalog\<lparr>ct_pricing := [row]\<rparr>, None)"
    by (simp add: BulkSyncModelPricing_def seeded_ids Let_def cred_env_ok row_def upsert_row_def empty_catalog_def feed_variant_def)
  moreover have "load_pricing cred_env seeded_tables row = Inr (row\<lparr>smp_Provider := zero_provider\<lparr>sp_ID := [], sp_Name := ProviderOpenAI\<rparr>\<rparr>)"
    by (simp add: load_pricing_def row_provider_def seeded_tables_eq row_def newStoreModelPricing_def StoreProvider_AfterFind_def zero_provider_def)
  ultimately show ?thesis
    by (simp add: syncCatalog_def BulkSyncModelMetadata_def loadAll_def load_models_def load_variants_def load_customs_def ListModelMetadata_def
        ListModelPricing_def ListCustomPricing_def cred_env_ok empty_catalog_def loadModels_def loadBasePricing_def loadCustomPricing_def)
qed

theorem synced_feed_priced_witness:
  "\<exists>t1 c1. syncCatalog cred_env seeded_tables (Some ([], [feed_variant])) empty_catalog NewModelCatalog = (t1, c1, True)
     \<and> ResolvePrice c1 ''u1'' (PricingVariant_CatalogKey feed_variant) ''{}'' \<noteq> None"
proof -
  obtain t1 c1 where s: "syncCatalog cred_env seeded_tables (Some ([], [feed_variant])) empty_catalog NewModelCatalog = (t1, c1, True)"
    using feed_synced by blast
  have "List.find (\<lambda>w. [ProviderOpenAI \<mapsto> []] (pv_Provider w) \<noteq> None \<and> pv_RawKey w = ''openai/m'') [feed_variant] = Some feed_variant"
    by (simp add: feed_variant_def)
  from synced_feed_priced [OF seeded_rows_ok seeded_ids cred_env_ok(5) s this] s show ?thesis by blast
qed

end
