(* ===== verification/KeyBinding.thy ===== *)
theory KeyBinding
  imports KeyStore
begin

text \<open>
  What every operation of the key store keeps: a budget belongs to one active key at most, and every stored key can be loaded
  into the cache.
\<close>

section \<open>Which key a budget is bound to\<close>

text \<open>
  A budget belongs to at most one active key, and the budget of an active key says that it is bound. Only the identifiers,
  the references and the two flags matter for it.
\<close>

definition key_view :: "StoreVirtualKey \<Rightarrow> string \<times> string \<times> bool" where
  "key_view r = (svk_ID r, svk_BudgetID r, svk_IsActive r)"

definition budget_view :: "StoreBudget \<Rightarrow> string \<times> string" where
  "budget_view b = (sb_ID b, sb_Status b)"

definition holders :: "(string \<times> string \<times> bool) list \<Rightarrow> string \<Rightarrow> string set" where
  "holders ks b = {i. (i, b, True) \<in> set ks}"

definition bound_views :: "(string \<times> string \<times> bool) list \<Rightarrow> (string \<times> string) list \<Rightarrow> bool" where
  "bound_views ks bs \<longleftrightarrow> distinct (map fst ks) \<and> distinct (map fst bs)
     \<and> (\<forall>b. \<forall>i \<in> holders ks b. \<forall>j \<in> holders ks b. i = j) \<and> (\<forall>(b, st) \<in> set bs. holders ks b \<noteq> {} \<longrightarrow> st = ''bound'')"

definition binding_ok :: "KeyTables \<Rightarrow> bool" where
  "binding_ok t \<longleftrightarrow> bound_views (map key_view (kt_keys t)) (map budget_view (kt_budgets t))"

lemma view_map:
  "map key_view (kt_keys (set_key ident f t)) = map (\<lambda>r. if svk_ID r = ident then key_view (f r) else key_view r) (kt_keys t)"
  "map budget_view (kt_budgets (set_budget ident g t)) = map (\<lambda>b. if sb_ID b = ident then budget_view (g b) else budget_view b) (kt_budgets t)"
  "kt_budgets (set_key ident f t) = kt_budgets t" "kt_keys (set_budget ident g t) = kt_keys t"
  by (simp_all add: set_key_def set_budget_def)

lemma status_views:
  "map key_view (kt_keys (set_key_active now ident active t))
     = map (\<lambda>(i, b, a). (i, b, if i = ident then active else a)) (map key_view (kt_keys t))"
  "map budget_view (kt_budgets (set_budget_status now ident status t))
     = map (\<lambda>(i, st). (i, if i = ident then status else st)) (map budget_view (kt_budgets t))"
  "kt_budgets (set_key_active now ident active t) = kt_budgets t" "kt_keys (set_budget_status now ident status t) = kt_keys t"
  by (auto simp: set_key_active_def set_budget_status_def view_map key_view_def budget_view_def)

lemma distinct_keys: "binding_ok t \<Longrightarrow> distinct (map svk_ID (kt_keys t))"
  by (simp add: binding_ok_def bound_views_def comp_def key_view_def)

lemma binding_set_budget:
  assumes "\<And>b. budget_view (g b) = budget_view b"
  shows "binding_ok (set_budget ident g t) = binding_ok t"
proof -
  have "map budget_view (kt_budgets (set_budget ident g t)) = map budget_view (kt_budgets t)" by (auto simp: view_map assms)
  then show ?thesis by (simp add: binding_ok_def view_map(4))
qed

lemma binding_save_key:
  assumes "binding_ok t" "row \<in> set (kt_keys t)" "key_view key = key_view row" "save_key env key t = Inr t1"
  shows "binding_ok t1"
proof -
  have key: "svk_ID key = svk_ID row" "svk_BudgetID key = svk_BudgetID row" "svk_IsActive key = svk_IsActive row"
    using assms(3) by (simp_all add: key_view_def)
  from assms(4) obtain stored where t1: "t1 = set_key (svk_ID row) (\<lambda>_. stored) t" and st: "key_view stored = key_view row"
    using key by (auto simp: save_key_def StoreVirtualKey_BeforeSave_def key_view_def split: sum.splits option.splits if_splits)
  have "key_view stored = key_view r" if "r \<in> set (kt_keys t)" "svk_ID r = svk_ID row" for r
    using distinct_keys [OF assms(1)] assms(2) st that by (metis distinct_map inj_onD)
  then have "map key_view (kt_keys t1) = map key_view (kt_keys t)" by (auto simp: t1 view_map)
  then show ?thesis using assms(1) by (simp add: binding_ok_def t1 view_map(3))
qed

text \<open>A change that concerns one budget only.\<close>

lemma bound_change:
  assumes "bound_views ks bs" "distinct (map fst ks')" "distinct (map fst bs')"
    and "\<And>b'. b' \<noteq> b \<Longrightarrow> holders ks' b' \<subseteq> holders ks b'" "\<And>b' st. b' \<noteq> b \<Longrightarrow> (b', st) \<in> set bs' \<Longrightarrow> (b', st) \<in> set bs"
    and "\<And>i j. i \<in> holders ks' b \<Longrightarrow> j \<in> holders ks' b \<Longrightarrow> i = j" "\<And>st. (b, st) \<in> set bs' \<Longrightarrow> holders ks' b \<noteq> {} \<Longrightarrow> st = ''bound''"
  shows "bound_views ks' bs'"
  unfolding bound_views_def
proof (intro conjI allI ballI)
  fix b' i j
  assume "i \<in> holders ks' b'" "j \<in> holders ks' b'"
  then show "i = j" using assms(1,4,6) unfolding bound_views_def by (cases "b' = b") blast+
next
  fix x
  assume x: "x \<in> set bs'"
  show "case x of (b', st) \<Rightarrow> holders ks' b' \<noteq> {} \<longrightarrow> st = ''bound''"
  proof (cases x)
    case (Pair b' st)
    then show ?thesis using assms(1,4,5,7) x unfolding bound_views_def by (cases "b' = b") fastforce+
  qed
qed (simp_all add: assms)

lemma views_fst:
  "map fst (map (\<lambda>(i, b, a). (i, b, if i = ident then active else a)) ks) = map fst ks"
  "map fst (map (\<lambda>(i, st). (i, if i = b then status else st)) bs) = map fst bs"
  by auto

lemma statuses:
  "(b', st) \<in> set (map (\<lambda>(i, st). (i, if i = b then status else st)) bs) \<Longrightarrow> b' \<noteq> b \<Longrightarrow> (b', st) \<in> set bs"
  "(b, st) \<in> set (map (\<lambda>(i, st). (i, if i = b then status else st)) bs) \<Longrightarrow> st = status"
  by (auto split: if_splits)

lemma holders_set_active:
  "holders (map (\<lambda>(i, b, a). (i, b, if i = ident then active else a)) ks) b
     = {i. i \<in> holders ks b \<and> i \<noteq> ident} \<union> (if active \<and> (\<exists>a. (ident, b, a) \<in> set ks) then {ident} else {})"
  by (auto simp: holders_def image_iff split: if_splits) force+

lemma binding_set_active:
  assumes "binding_ok t" "row \<in> set (kt_keys t)" "svk_ID row = ident"
    and only: "\<And>i. i \<in> holders (map key_view (kt_keys t)) (svk_BudgetID row) \<Longrightarrow> i = ident"
    and status: "active \<Longrightarrow> status = ''bound''"
  shows "binding_ok (set_budget_status now (svk_BudgetID row) status (set_key_active now' ident active t))"
proof -
  let ?ks = "map key_view (kt_keys t)" and ?bs = "map budget_view (kt_budgets t)"
  have mem: "(ident, svk_BudgetID row, svk_IsActive row) \<in> set ?ks" using assms(2,3) by (auto simp: key_view_def image_iff)
  have d: "distinct (map fst ?ks)" using assms(1) by (simp only: binding_ok_def bound_views_def)
  have other: "b' = svk_BudgetID row" if "(ident, b', a) \<in> set ?ks" for b' a
    using eq_key_imp_eq_value [OF d mem that] by simp
  have "bound_views (map (\<lambda>(i, b, a). (i, b, if i = ident then active else a)) ?ks)
      (map (\<lambda>(i, st). (i, if i = svk_BudgetID row then status else st)) ?bs)"
  proof (rule bound_change [where b = "svk_BudgetID row"])
    show bv: "bound_views ?ks ?bs" using assms(1) by (simp add: binding_ok_def)
    show "distinct (map fst (map (\<lambda>(i, b, a). (i, b, if i = ident then active else a)) ?ks))" by (simp only: views_fst d)
    show "distinct (map fst (map (\<lambda>(i, st). (i, if i = svk_BudgetID row then status else st)) ?bs))"
      using bv by (simp only: views_fst bound_views_def)
    fix b' assume "b' \<noteq> svk_BudgetID row"
    then show "holders (map (\<lambda>(i, b, a). (i, b, if i = ident then active else a)) ?ks) b' \<subseteq> holders ?ks b'"
      using other by (auto simp only: holders_set_active split: if_splits)
  next
    fix i j
    assume "i \<in> holders (map (\<lambda>(i, b, a). (i, b, if i = ident then active else a)) ?ks) (svk_BudgetID row)"
      "j \<in> holders (map (\<lambda>(i, b, a). (i, b, if i = ident then active else a)) ?ks) (svk_BudgetID row)"
    then show "i = j" using only by (auto simp only: holders_set_active split: if_splits)
  next
    fix st
    assume st: "(svk_BudgetID row, st) \<in> set (map (\<lambda>(i, st). (i, if i = svk_BudgetID row then status else st)) ?bs)"
      and h: "holders (map (\<lambda>(i, b, a). (i, b, if i = ident then active else a)) ?ks) (svk_BudgetID row) \<noteq> {}"
    from h have active using only by (auto simp only: holders_set_active split: if_splits)
    moreover from st have "st = status" by (rule statuses(2))
    ultimately show "st = ''bound''" using status by simp
  qed (rule statuses(1))
  then show ?thesis by (simp add: binding_ok_def status_views)
qed

lemma holders_found:
  "i \<in> holders (map key_view (kt_keys t)) b \<longleftrightarrow> (\<exists>r \<in> set (kt_keys t). svk_ID r = i \<and> svk_BudgetID r = b \<and> svk_IsActive r)"
  by (auto simp: holders_def key_view_def image_iff)

lemma budget_bound:
  assumes "binding_ok t" "r \<in> set (kt_keys t)" "svk_IsActive r" "b \<in> set (kt_budgets t)" "sb_ID b = svk_BudgetID r"
  shows "sb_Status b = ''bound''"
proof -
  have "svk_ID r \<in> holders (map key_view (kt_keys t)) (sb_ID b)" using assms by (auto simp: holders_found)
  moreover have "(sb_ID b, sb_Status b) \<in> set (map budget_view (kt_budgets t))" using assms(4) by (auto simp: budget_view_def)
  ultimately show ?thesis using assms(1) unfolding binding_ok_def bound_views_def by blast
qed

lemma only_holder:
  assumes "binding_ok t" "r \<in> set (kt_keys t)" "svk_IsActive r" "i \<in> holders (map key_view (kt_keys t)) (svk_BudgetID r)"
  shows "i = svk_ID r"
proof -
  have "svk_ID r \<in> holders (map key_view (kt_keys t)) (svk_BudgetID r)" using assms by (auto simp: holders_found)
  with assms(1,4) show ?thesis unfolding binding_ok_def bound_views_def by blast
qed

lemma binding_SetActive: "binding_ok t \<Longrightarrow> binding_ok (fst (SetVirtualKeyActive env ident active t))"
proof -
  assume ok: "binding_ok t"
  show ?thesis
  proof (cases "fst (SetVirtualKeyActive env ident active t) = t")
    case False
    then obtain key where key: "key_row env False ident t = Inr key" "svk_IsActive key \<noteq> active"
      "\<not> (active \<and> list_ex (\<lambda>r. svk_BudgetID r = svk_BudgetID key \<and> svk_IsActive r \<and> svk_ID r \<noteq> ident) (kt_keys t))"
      "fst (SetVirtualKeyActive env ident active t) = set_budget_status (se_now env) (svk_BudgetID key) (if active then ''bound'' else ''released'')
         (set_key_active (se_now env) ident active t)"
      by (auto simp: SetVirtualKeyActive_def Let_def split: sum.splits if_splits)
    from key(1) obtain row where row: "row \<in> set (kt_keys t)" "svk_ID row = ident" "key = row\<lparr>svk_APIKey := svk_APIKey key\<rparr>"
      by (rule key_row_found)
    have same: "svk_BudgetID key = svk_BudgetID row" "svk_IsActive key = svk_IsActive row" by (subst row(3), simp)+
    have "i = ident" if "i \<in> holders (map key_view (kt_keys t)) (svk_BudgetID row)" for i
    proof (cases active)
      case True
      with that key(3) same show ?thesis by (auto simp: holders_found list_ex_iff)
    next
      case False
      with key(2) same only_holder [OF ok row(1) _ that] row(2) show ?thesis by simp
    qed
    from binding_set_active [OF ok row(1,2) this] show ?thesis by (simp add: key(4) same)
  qed (simp add: ok)
qed

lemma binding_Revoke:
  assumes "binding_ok t" "\<And>r. r \<in> set (kt_keys t) \<Longrightarrow> svk_ID r = ident \<Longrightarrow> svk_IsActive r"
  shows "binding_ok (fst (RevokeVirtualKey env ident t))"
proof (cases "fst (RevokeVirtualKey env ident t) = t")
  case False
  then obtain key where key: "key_row env False ident t = Inr key"
    "fst (RevokeVirtualKey env ident t) = set_budget_status (se_now env) (svk_BudgetID key) ''released'' (set_key_active (se_now env) ident False t)"
    by (auto simp: RevokeVirtualKey_def split: sum.splits if_splits)
  from key(1) obtain row where row: "row \<in> set (kt_keys t)" "svk_ID row = ident" "key = row\<lparr>svk_APIKey := svk_APIKey key\<rparr>"
    by (rule key_row_found)
  have same: "svk_BudgetID key = svk_BudgetID row" by (subst row(3), simp)
  have "i = ident" if "i \<in> holders (map key_view (kt_keys t)) (svk_BudgetID row)" for i
    using only_holder [OF assms(1) row(1) assms(2) [OF row(1,2)] that] row(2) by simp
  from binding_set_active [OF assms(1) row(1,2) this, of False] show ?thesis by (simp add: key(2) same)
qed (simp add: assms)

text \<open>Removing rows of keys, and changing the status of a budget nobody holds afterwards.\<close>

lemma binding_remove:
  assumes "binding_ok t" "\<And>r. r \<in> set (kt_keys t) \<Longrightarrow> keep r \<Longrightarrow> svk_IsActive r \<Longrightarrow> svk_BudgetID r \<noteq> b"
  shows "binding_ok (set_budget_status now b status (t\<lparr>kt_keys := filter keep (kt_keys t)\<rparr>))"
proof -
  let ?ks = "map key_view (kt_keys t)" and ?ks' = "map key_view (filter keep (kt_keys t))" and ?bs = "map budget_view (kt_budgets t)"
  have bv: "bound_views ?ks ?bs" using assms(1) by (simp add: binding_ok_def)
  have sub: "holders ?ks' b' \<subseteq> holders ?ks b'" for b' by (auto simp: holders_def)
  have none: "holders ?ks' b = {}" using assms(2) by (auto simp: holders_def key_view_def)
  have "distinct (map fst ?ks')" using bv by (simp add: bound_views_def comp_def key_view_def distinct_map_filter)
  then have "bound_views ?ks' (map (\<lambda>(i, st). (i, if i = b then status else st)) ?bs)"
  proof (rule bound_change [OF bv, where b = b])
    show "distinct (map fst (map (\<lambda>(i, st). (i, if i = b then status else st)) ?bs))" using bv by (simp only: views_fst bound_views_def)
    show "i = j" if "i \<in> holders ?ks' b" for i j using that none by simp
    show "st = ''bound''" if "holders ?ks' b \<noteq> {}" for st using that none by simp
    show "(b', st) \<in> set ?bs" if "b' \<noteq> b" "(b', st) \<in> set (map (\<lambda>(i, st). (i, if i = b then status else st)) ?bs)" for b' st
      using statuses(1) [OF that(2,1)] .
  qed (use \<open>distinct (map fst ?ks')\<close> sub in \<open>simp_all only:\<close>)
  then show ?thesis by (simp add: binding_ok_def status_views)
qed

lemma binding_Delete:
  assumes "binding_ok t" "\<And>r. r \<in> set (kt_keys t) \<Longrightarrow> svk_ID r = ident \<Longrightarrow> svk_IsActive r"
  shows "binding_ok (fst (DeleteVirtualKey env ident t))"
proof (cases "fst (DeleteVirtualKey env ident t) = t")
  case False
  then obtain key where key: "key_row env False ident t = Inr key"
    "fst (DeleteVirtualKey env ident t) = set_budget_status (se_now env) (svk_BudgetID key) ''released'' (t\<lparr>kt_keys := filter (\<lambda>r. svk_ID r \<noteq> ident) (kt_keys t)\<rparr>)"
    by (auto simp: DeleteVirtualKey_def split: sum.splits if_splits)
  from key(1) obtain row where row: "row \<in> set (kt_keys t)" "svk_ID row = ident" "key = row\<lparr>svk_APIKey := svk_APIKey key\<rparr>"
    by (rule key_row_found)
  have same: "svk_BudgetID key = svk_BudgetID row" by (subst row(3), simp)
  have "svk_BudgetID r \<noteq> svk_BudgetID row" if "r \<in> set (kt_keys t)" "svk_ID r \<noteq> ident" "svk_IsActive r" for r
    using only_holder [OF assms(1) row(1) assms(2) [OF row(1,2)], of "svk_ID r"] that row(2) by (auto simp: holders_found)
  then show ?thesis unfolding key(2) same by (intro binding_remove [OF assms(1)]) auto
qed (simp add: assms)

lemma binding_Rotate: "binding_ok t \<Longrightarrow> binding_ok (fst (RotateVirtualKey env ident t))"
proof -
  assume ok: "binding_ok t"
  show ?thesis
  proof (cases "fst (RotateVirtualKey env ident t) = t")
    case False
    then obtain key apiKey hash shown t1 where key: "key_row env False ident t = Inr key"
      "save_key env (key\<lparr>svk_APIKey := apiKey, svk_KeyHash := hash, svk_DisplayPrefix := shown\<rparr>) t = Inr t1" "fst (RotateVirtualKey env ident t) = t1"
      by (auto simp: RotateVirtualKey_def split: sum.splits if_splits option.splits prod.splits)
    from key(1) obtain row where row: "row \<in> set (kt_keys t)" "key = row\<lparr>svk_APIKey := svk_APIKey key\<rparr>"
      by (rule key_row_found)
    have "key_view (key\<lparr>svk_APIKey := apiKey, svk_KeyHash := hash, svk_DisplayPrefix := shown\<rparr>) = key_view row"
      by (subst row(2)) (simp add: key_view_def)
    from binding_save_key [OF ok row(1) this key(2)] key(3) show ?thesis by simp
  qed (simp add: ok)
qed

lemma binding_Routing: "binding_ok t \<Longrightarrow> binding_ok (fst (UpdateVirtualKeyRouting env ident request t))"
proof -
  assume ok: "binding_ok t"
  show ?thesis
  proof (cases "fst (UpdateVirtualKeyRouting env ident request t) = t")
    case False
    then obtain key cs t1 where key: "key_row env False ident t = Inr key"
      "save_key env ((routed request key)\<lparr>svk_ProviderConfigs := cs\<rparr>) t = Inr t1" "fst (UpdateVirtualKeyRouting env ident request t) = t1"
      by (auto simp: UpdateVirtualKeyRouting_def Let_def split: sum.splits if_splits option.splits)
    from key(1) obtain row where row: "row \<in> set (kt_keys t)" "key = row\<lparr>svk_APIKey := svk_APIKey key\<rparr>"
      by (rule key_row_found)
    have "key_view ((routed request key)\<lparr>svk_ProviderConfigs := cs\<rparr>) = key_view row"
      by (subst row(2)) (simp add: key_view_def routed_def)
    from binding_save_key [OF ok row(1) this key(2)] key(3) show ?thesis by simp
  qed (simp add: ok)
qed

lemma binding_CreateKey: "binding_ok t \<Longrightarrow> binding_ok (fst (CreateVirtualKeyTx env payload t))"
proof -
  assume ok: "binding_ok t"
  show ?thesis
  proof (cases "fst (CreateVirtualKeyTx env payload t) = t")
    case False
    then obtain budget mode lb gen t1 where b: "budget_row (vq_BudgetID payload) t = Inr budget" "sb_Status budget \<noteq> ''bound''"
      and ins: "insert_key env (new_key env payload mode lb gen) (set_budget_status (se_now env) (sb_ID budget) ''bound'' t) = Inr t1"
      and t1: "fst (CreateVirtualKeyTx env payload t) = t1"
      by (auto simp: CreateVirtualKeyTx_def split: sum.splits if_splits option.splits)
    from b(1) obtain row where row: "row \<in> set (kt_budgets t)" "sb_ID row = vq_BudgetID payload" "budget = row\<lparr>sb_BudgetParseDuration := sb_BudgetParseDuration budget\<rparr>"
      by (rule budget_row_found)
    have same: "sb_ID budget = vq_BudgetID payload" "sb_Status budget = sb_Status row" using row(2) by (subst row(3), simp)+
    let ?b = "vq_BudgetID payload" and ?ks = "map key_view (kt_keys t)" and ?bs = "map budget_view (kt_budgets t)"
    have free: "holders ?ks ?b = {}"
      using budget_bound [OF ok _ _ row(1)] row(2) b(2) same(2) by (metis equals0I holders_found)
    obtain apiKey where new: "kt_keys t1 = kt_keys t @ [(new_key env payload mode lb gen)\<lparr>svk_APIKey := apiKey\<rparr>]"
      "kt_budgets t1 = kt_budgets (set_budget_status (se_now env) ?b ''bound'' t)" "\<not> list_ex (\<lambda>r. svk_ID r = se_uuid env) (kt_keys t)"
      using ins same(1) by (auto simp: insert_key_def StoreVirtualKey_BeforeSave_def status_views new_key_def list_ex_iff
          split: sum.splits option.splits if_splits prod.splits)
    have view: "key_view ((new_key env payload mode lb gen)\<lparr>svk_APIKey := apiKey\<rparr>) = (se_uuid env, ?b, True)"
      by (simp add: key_view_def new_key_def split: prod.split)
    have bv: "bound_views ?ks ?bs" using ok by (simp add: binding_ok_def)
    have h: "holders (?ks @ [(se_uuid env, ?b, True)]) b' = holders ?ks b' \<union> (if b' = ?b then {se_uuid env} else {})" for b'
      by (auto simp: holders_def)
    have "bound_views (?ks @ [(se_uuid env, ?b, True)]) (map (\<lambda>(i, st). (i, if i = ?b then ''bound'' else st)) ?bs)"
    proof (rule bound_change [OF bv, where b = ?b])
      show "distinct (map fst (?ks @ [(se_uuid env, ?b, True)]))" using bv new(3) by (auto simp: bound_views_def comp_def key_view_def list_ex_iff)
      show "distinct (map fst (map (\<lambda>(i, st). (i, if i = ?b then ''bound'' else st)) ?bs))" using bv by (simp only: views_fst bound_views_def)
      show "st = ''bound''" if "(?b, st) \<in> set (map (\<lambda>(i, st). (i, if i = ?b then ''bound'' else st)) ?bs)" for st using that by (rule statuses(2))
    qed (use free in \<open>auto simp only: h split: if_splits\<close>, rule statuses(1))
    then show ?thesis by (simp add: t1 binding_ok_def new view status_views)
  qed (simp add: ok)
qed

lemma binding_CreateBudget:
  assumes "binding_ok t" "\<And>r. r \<in> set (kt_keys t) \<Longrightarrow> svk_BudgetID r \<noteq> se_uuid env"
  shows "binding_ok (fst (CreateBudget env b t))"
proof (cases "fst (CreateBudget env b t) = t")
  case False
  then have t1: "fst (CreateBudget env b t) = t\<lparr>kt_budgets := kt_budgets t @ [new_budget env b]\<rparr>"
    and new: "\<not> list_ex (\<lambda>r. sb_ID r = se_uuid env) (kt_budgets t)"
    by (auto simp: CreateBudget_def list_ex_iff split: if_splits duration_result.splits)
  have free: "holders (map key_view (kt_keys t)) (se_uuid env) = {}" using assms(2) by (auto simp: holders_found)
  show ?thesis using assms(1) new free
    by (auto simp: t1 binding_ok_def bound_views_def budget_view_def new_budget_def list_ex_iff)
qed (simp add: assms)

lemma binding_DeleteBudget: "binding_ok t \<Longrightarrow> binding_ok (fst (DeleteBudget env ident t))"
  by (auto simp: DeleteBudget_def binding_ok_def bound_views_def distinct_map_filter split: sum.splits if_splits)

lemma binding_UpdateBudget: "binding_ok t \<Longrightarrow> binding_ok (fst (UpdateBudget env ident b t))"
  by (auto simp: UpdateBudget_def Let_def binding_set_budget budget_view_def budget_updates_def split: sum.splits if_splits)

text \<open>
  Revoking or deleting a key releases its budget whether or not the key holds it: these two keep the binding only when the key is active.
  A new budget has an identifier that no key refers to.
\<close>

definition op_guard :: "store_env \<Rightarrow> key_op \<Rightarrow> KeyTables \<Rightarrow> bool" where
  "op_guard env op t = (case op of
     OpRevoke ident \<Rightarrow> list_all (\<lambda>r. svk_ID r = ident \<longrightarrow> svk_IsActive r) (kt_keys t)
   | OpDelete ident \<Rightarrow> list_all (\<lambda>r. svk_ID r = ident \<longrightarrow> svk_IsActive r) (kt_keys t)
   | OpCreateBudget _ \<Rightarrow> list_all (\<lambda>r. svk_BudgetID r \<noteq> se_uuid env) (kt_keys t)
   | _ \<Rightarrow> True)"

lemma binding_step:
  assumes "binding_ok t" "op_guard env op t"
  shows "binding_ok (apply_op env op t)"
proof (cases op)
  case (OpRevoke ident)
  with assms show ?thesis by (auto simp: op_guard_def list_all_iff intro: binding_Revoke)
next
  case (OpDelete ident)
  with assms show ?thesis by (auto simp: op_guard_def list_all_iff intro: binding_Delete)
next
  case (OpCreateBudget b)
  with assms show ?thesis by (auto simp: op_guard_def list_all_iff intro: binding_CreateBudget)
qed (use assms in \<open>simp_all add: binding_CreateKey binding_SetActive binding_Rotate binding_Routing binding_UpdateBudget binding_DeleteBudget
    UpdateBudgetEnforce_def FlushBudgetUsage_def ResetBudgetWindow_def binding_set_budget budget_view_def\<close>)

section \<open>Rows that can be loaded\<close>

definition loadable :: "StoreVirtualKey \<Rightarrow> bool" where
  "loadable row \<longleftrightarrow> (case ParseVKMode (svk_Mode row) of None \<Rightarrow> False
     | Some mode \<Rightarrow> ParseLBKind (svk_LoadBalancer row) \<noteq> None \<and> configs_ok mode (svk_ProviderConfigs row))"

lemma loadable_ToCore: "loadable row \<longleftrightarrow> (\<exists>vk. StoreVirtualKey_ToCore row = Inr vk)"
proof -
  have "configs_ok mode cs \<longleftrightarrow> (\<exists>x. CompileProviderConfigs mode cs = Inr x)" for mode cs
    using CompileProviderConfigs_eq [of mode cs] CompileProviderConfigs_err [of mode cs] by fastforce
  then show ?thesis by (auto simp: loadable_def StoreVirtualKey_ToCore_def split: option.splits sum.splits)
qed

lemma configs_ok_Compile: "CompileProviderConfigs mode cs = Inr x \<Longrightarrow> configs_ok mode cs"
  using CompileProviderConfigs_err [of mode cs] by fastforce

lemma configs_ok_direct: "configs_ok mode cs \<Longrightarrow> configs_ok mode (direct_weight mode cs)"
  by (cases cs) (auto simp: configs_ok_def direct_weight_def weights_ok_def models_ok_def)

lemma loadable_same:
  "svk_Mode a = svk_Mode b \<Longrightarrow> svk_LoadBalancer a = svk_LoadBalancer b \<Longrightarrow> svk_ProviderConfigs a = svk_ProviderConfigs b \<Longrightarrow> loadable a = loadable b"
  by (auto simp: loadable_def split: option.splits)

lemma loadable_flag: "loadable (r\<lparr>svk_IsActive := a, svk_UpdatedAt := u\<rparr>) = loadable r"
  by (rule loadable_same) simp_all

definition all_loadable :: "KeyTables \<Rightarrow> bool" where
  "all_loadable t \<longleftrightarrow> list_all loadable (kt_keys t)"

lemma all_loadable_set:
  "all_loadable t \<Longrightarrow> (\<And>r. loadable r \<Longrightarrow> loadable (f r)) \<Longrightarrow> all_loadable (set_key ident f t)"
  "all_loadable (set_budget ident g t) = all_loadable t"
  by (auto simp: all_loadable_def set_key_def set_budget_def list_all_iff)

lemma all_loadable_save:
  assumes "all_loadable t" "loadable key" "save_key env key t = Inr t1"
  shows "all_loadable t1"
proof -
  obtain stored where t1: "t1 = set_key (svk_ID key) (\<lambda>_. stored) t" and "loadable stored"
    using assms(2,3) by (auto simp: save_key_def StoreVirtualKey_BeforeSave_def loadable_def split: sum.splits option.splits if_splits)
  then show ?thesis using all_loadable_set(1) [OF assms(1)] by simp
qed

lemma key_row_loadable:
  assumes "all_loadable t" "key_row env masked ident t = Inr key"
  shows "loadable key"
proof -
  from assms(2) obtain row where row: "row \<in> set (kt_keys t)" "key = row\<lparr>svk_APIKey := svk_APIKey key\<rparr>" by (rule key_row_found)
  have "loadable key = loadable row" by (rule loadable_same) (subst row(2), simp)+
  with assms(1) row(1) show ?thesis by (simp add: all_loadable_def list_all_iff)
qed

lemma loadable_SetActive: "all_loadable t \<Longrightarrow> all_loadable (fst (SetVirtualKeyActive env ident active t))"
  by (auto simp: SetVirtualKeyActive_def Let_def set_budget_status_def set_key_active_def all_loadable_set loadable_flag split: sum.splits if_splits)

lemma loadable_Revoke: "all_loadable t \<Longrightarrow> all_loadable (fst (RevokeVirtualKey env ident t))"
  by (auto simp: RevokeVirtualKey_def set_budget_status_def set_key_active_def all_loadable_set loadable_flag split: sum.splits if_splits)

lemma loadable_Delete: "all_loadable t \<Longrightarrow> all_loadable (fst (DeleteVirtualKey env ident t))"
  by (auto simp: DeleteVirtualKey_def set_budget_status_def all_loadable_set(2) split: sum.splits if_splits)
    (auto simp: all_loadable_def list_all_iff)

lemma loadable_Rotate:
  assumes "all_loadable t"
  shows "all_loadable (fst (RotateVirtualKey env ident t))"
proof (cases "fst (RotateVirtualKey env ident t) = t")
  case False
  then obtain gen key t1 where key: "key_row env False ident t = Inr key"
    and t1: "save_key env (key\<lparr>svk_APIKey := fst gen, svk_KeyHash := fst (snd gen), svk_DisplayPrefix := snd (snd gen)\<rparr>) t = Inr t1"
      "fst (RotateVirtualKey env ident t) = t1"
    by (auto simp: RotateVirtualKey_def split: sum.splits if_splits option.splits)
  have "loadable (key\<lparr>svk_APIKey := fst gen, svk_KeyHash := fst (snd gen), svk_DisplayPrefix := snd (snd gen)\<rparr>)"
    using key_row_loadable [OF assms key] by (auto simp: loadable_def split: option.splits)
  from all_loadable_save [OF assms this t1(1)] t1(2) show ?thesis by simp
qed (simp add: assms)

lemma loadable_Routing:
  assumes "all_loadable t"
  shows "all_loadable (fst (UpdateVirtualKeyRouting env ident request t))"
proof (cases "fst (UpdateVirtualKeyRouting env ident request t) = t")
  case False
  then obtain key mode x t1 where mode: "ParseVKMode (svk_Mode key) = Some mode"
    and x: "CompileProviderConfigs mode (svk_ProviderConfigs key) = Inr x" and lb: "ParseLBKind (svk_LoadBalancer key) \<noteq> None"
    and t1: "save_key env (key\<lparr>svk_ProviderConfigs := direct_weight mode (svk_ProviderConfigs key)\<rparr>) t = Inr t1"
      "fst (UpdateVirtualKeyRouting env ident request t) = t1"
    by (auto simp: UpdateVirtualKeyRouting_def Let_def split: sum.splits if_splits option.splits)
  have "loadable (key\<lparr>svk_ProviderConfigs := direct_weight mode (svk_ProviderConfigs key)\<rparr>)"
    using lb by (simp add: loadable_def mode configs_ok_direct [OF configs_ok_Compile [OF x]])
  from all_loadable_save [OF assms this t1(1)] t1(2) show ?thesis by simp
qed (simp add: assms)

lemma loadable_CreateKey:
  assumes "all_loadable t"
  shows "all_loadable (fst (CreateVirtualKeyTx env payload t))"
proof (cases "fst (CreateVirtualKeyTx env payload t) = t")
  case False
  then obtain b mode lb gen x t1 where x: "CompileProviderConfigs mode (vq_ProviderConfigs payload) = Inr x"
    and ins: "insert_key env (new_key env payload mode lb gen) (set_budget_status (se_now env) b ''bound'' t) = Inr t1"
    and t1: "fst (CreateVirtualKeyTx env payload t) = t1"
    by (auto simp: CreateVirtualKeyTx_def split: sum.splits if_splits option.splits)
  obtain apiKey where "kt_keys t1 = kt_keys t @ [(new_key env payload mode lb gen)\<lparr>svk_APIKey := apiKey\<rparr>]"
    using ins by (auto simp: insert_key_def StoreVirtualKey_BeforeSave_def status_views split: sum.splits option.splits if_splits)
  moreover have "loadable ((new_key env payload mode lb gen)\<lparr>svk_APIKey := apiKey\<rparr>)"
    by (cases gen) (simp add: loadable_def new_key_def vk_mode.parse_print lb_kind.parse_print configs_ok_direct [OF configs_ok_Compile [OF x]])
  ultimately show ?thesis using assms by (simp add: t1 all_loadable_def)
qed (simp add: assms)

lemma loadable_step: "all_loadable t \<Longrightarrow> all_loadable (apply_op env op t)"
proof (cases op)
  case (OpCreateBudget b)
  then show "all_loadable t \<Longrightarrow> ?thesis"
    by (auto simp: CreateBudget_def all_loadable_def split: if_splits duration_result.splits)
next
  case (OpDeleteBudget ident)
  then show "all_loadable t \<Longrightarrow> ?thesis" by (auto simp: DeleteBudget_def all_loadable_def split: if_splits sum.splits)
next
  case (OpUpdateBudget ident b)
  then show "all_loadable t \<Longrightarrow> ?thesis"
    by (auto simp: UpdateBudget_def Let_def all_loadable_set split: sum.splits if_splits)
qed (simp_all add: loadable_CreateKey loadable_SetActive loadable_Revoke loadable_Delete loadable_Rotate loadable_Routing
    UpdateBudgetEnforce_def FlushBudgetUsage_def ResetBudgetWindow_def all_loadable_set)

section \<open>Tables that operations lead to\<close>

definition no_rows :: KeyTables where
  "no_rows = \<lparr>kt_keys = [], kt_budgets = []\<rparr>"

inductive reachable :: "(store_env \<Rightarrow> key_op \<Rightarrow> KeyTables \<Rightarrow> bool) \<Rightarrow> KeyTables \<Rightarrow> bool" for guard where
  start: "reachable guard no_rows"
| step: "reachable guard t \<Longrightarrow> guard env op t \<Longrightarrow> reachable guard (apply_op env op t)"

lemma reachable_binding: "reachable op_guard t \<Longrightarrow> binding_ok t"
  by (induction rule: reachable.induct) (simp_all add: binding_step, simp add: binding_ok_def bound_views_def no_rows_def holders_def)

lemma reachable_loadable: "reachable guard t \<Longrightarrow> all_loadable t"
  by (induction rule: reachable.induct) (simp_all add: loadable_step, simp add: all_loadable_def no_rows_def)


definition demo_env :: store_env where
  "demo_env = \<lparr>se_gcm = plain_gcm, se_passkey = ''0123456789abcdef'', se_nonce = Some ''nonce-nonce-'', se_now = 5, se_uuid = ''u1'',
     se_random = Some ''0123456789abc'', se_read = True, se_tx = True, se_reload = True\<rparr>"

definition demo_budget :: Budget where
  "demo_budget = \<lparr>b_ID = [], b_Name = ''team'', b_BudgetLimit = 100, b_BudgetUnit = [], b_BudgetDuration = ''1h'', b_LastBudgetRefreshAt = 0,
     b_Enforce = None, b_TotalSpend = 0, b_RequestCount = 0, b_Status = [], b_CreatedAt = 0, b_UpdatedAt = 0, b_BudgetParseDuration = 0\<rparr>"

definition demo_request :: VirtualKeyRequest where
  "demo_request = \<lparr>vq_ClientID = ''c'', vq_BudgetID = ''u1'', vq_ExpiresAt = None, vq_Mode = Some VKDirect,
     vq_LoadBalancer = Some LBRoundRobin, vq_ProviderConfigs = [example_config]\<rparr>"

definition one_budget :: KeyTables where
  "one_budget = apply_op demo_env (OpCreateBudget demo_budget) no_rows"

definition one_key :: KeyTables where
  "one_key = apply_op demo_env (OpCreateKey demo_request) one_budget"

lemma hour: "ParseDuration ''1h'' = DurOK 3600000000000"
  by code_simp

lemma one_budget_eq: "one_budget = \<lparr>kt_keys = [], kt_budgets = [new_budget demo_env demo_budget]\<rparr>"
  by (simp add: one_budget_def no_rows_def CreateBudget_def demo_budget_def hour demo_env_def)

lemma one_key_run:
  "\<exists>r. kt_keys one_key = [r] \<and> svk_IsActive r \<and> svk_ID r = ''u1'' \<and> svk_BudgetID r = ''u1'' \<and> svk_LoadBalancer r = ''round_robin''
     \<and> (\<exists>b. kt_budgets one_key = [b] \<and> sb_ID b = ''u1'')"
proof -
  obtain gen where gen: "GenerateVirtualKey (se_random demo_env) = Some gen"
    by (simp add: GenerateVirtualKey_def demo_env_def Let_def)
  define nb where "nb = new_budget demo_env demo_budget"
  have nb: "sb_ID nb = ''u1''" "sb_Status nb = ''unbound''" "sb_BudgetDuration nb = ''1h''"
    by (simp_all add: nb_def new_budget_def demo_env_def demo_budget_def)
  have t: "one_budget = \<lparr>kt_keys = [], kt_budgets = [nb]\<rparr>" by (simp add: one_budget_eq nb_def)
  have row: "budget_row ''u1'' \<lparr>kt_keys = [], kt_budgets = [nb]\<rparr> = Inr (nb\<lparr>sb_BudgetParseDuration := 3600000000000\<rparr>)"
    by (simp add: budget_row_def nb StoreBudget_AfterFind_def hour)
  have env: "se_tx demo_env" "se_gcm demo_env = plain_gcm" "cipher_key_ok (se_passkey demo_env)" "se_nonce demo_env = Some ''nonce-nonce-''"
    "se_uuid demo_env = ''u1''"
    by (simp_all add: demo_env_def cipher_key_ok_def)
  show ?thesis
    by (cases gen) (simp add: one_key_def t CreateVirtualKeyTx_def demo_request_def CompileProviderConfigs_eq [OF example_config_ok] gen row env nb
      insert_key_def StoreVirtualKey_BeforeSave_def encryptKey_def new_key_def set_budget_status_def set_budget_def)
qed

lemma one_key_reachable: "reachable op_guard one_key"
  unfolding one_key_def one_budget_def
  by (intro reachable.intros) (simp_all add: op_guard_def no_rows_def)


section \<open>Loading the stored keys\<close>

lemma map_sum_Inr: "map_sum f g x = Inr y \<longleftrightarrow> (\<exists>z. x = Inr z \<and> y = g z)"
  by (cases x) auto

lemma all_rows_found: "all_rows hook rs = Inr xs \<Longrightarrow> list_all2 (\<lambda>r x. hook r = Inr x) rs xs"
  by (induction rs arbitrary: xs) (auto split: sum.splits simp: map_sum_Inr)

lemma loaded_fields:
  "StoreVirtualKey_AfterFind env masked row = Inr key \<Longrightarrow>
     svk_Mode key = svk_Mode row \<and> svk_LoadBalancer key = svk_LoadBalancer row \<and> svk_ProviderConfigs key = svk_ProviderConfigs row
     \<and> svk_ID key = svk_ID row \<and> svk_IsActive key = svk_IsActive row"
  by (auto simp: StoreVirtualKey_AfterFind_def split: if_splits option.splits)

definition balanced :: "StoreVirtualKey \<Rightarrow> bool" where
  "balanced row \<longleftrightarrow> (\<exists>lb. ParseLBKind (svk_LoadBalancer row) = Some lb \<and> LBKind_Implemented lb)"

lemma loadable_convert:
  assumes "loadable row"
  obtains vk where "StoreVirtualKey_ToCore row = Inr vk"
    "VirtualKey_Validate (Some vk) = (if balanced row then None else Some (LBNotImplemented (svk_LoadBalancer row)))"
proof -
  obtain mode lb cs where m: "ParseVKMode (svk_Mode row) = Some mode" "ParseLBKind (svk_LoadBalancer row) = Some lb"
    "CompileProviderConfigs mode (svk_ProviderConfigs row) = Inr cs" and ne: "cs \<noteq> []"
    using assms CompileProviderConfigs_eq by (fastforce simp: loadable_def configs_ok_def split: option.splits)
  have name: "LBKind_String lb = svk_LoadBalancer row" by (rule ParseLBKind_SomeD [OF m(2)])
  moreover have "LBKind_String lb \<noteq> []" by (cases lb) simp_all
  ultimately have ne': "svk_LoadBalancer row \<noteq> []" by simp
  obtain vk where vk: "StoreVirtualKey_ToCore row = Inr vk" "vk_LoadBalancer vk = lb" "vk_ProviderConfigs vk = cs"
    by (simp add: StoreVirtualKey_ToCore_def m)
  show thesis by (rule that [OF vk(1)]) (simp add: VirtualKey_Validate_def vk Let_def balanced_def m(2) name ne ne')
qed

lemma convert_loadable:
  assumes "list_all loadable rows"
  shows "case convert_keys rows acc of Inl e \<Rightarrow> \<exists>row \<in> set rows. \<not> balanced row \<and> e = SyncInvalid (LBNotImplemented (svk_LoadBalancer row))
    | Inr out \<Rightarrow> list_all balanced rows \<and> length out = length acc + length rows"
  using assms
proof (induction rows arbitrary: acc)
  case (Cons row rows)
  then have "loadable row" by simp
  then obtain vk where vk: "StoreVirtualKey_ToCore row = Inr vk"
    "VirtualKey_Validate (Some vk) = (if balanced row then None else Some (LBNotImplemented (svk_LoadBalancer row)))" by (rule loadable_convert)
  with Cons.prems Cons.IH [of "acc @ [vk]"] show ?case by (auto split: sum.splits)
qed simp

text \<open>
  C19: Every key that the operations can store converts to the form the cache needs: synchronising the keys fails only when one
  of them has a load balancer that is not implemented, and then for all of them; otherwise all of them are loaded.
\<close>

theorem stored_keys_sync:
  assumes "reachable (\<lambda>_ _ _. True) t" "ListVirtualKeys env t = Inr rows"
  shows "case snd (syncVirtualKey now (Some rows) g) of
      Inl e \<Rightarrow> \<exists>row \<in> set (kt_keys t). \<not> balanced row \<and> e = SyncInvalid (LBNotImplemented (svk_LoadBalancer row))
    | Inr n \<Rightarrow> list_all balanced (kt_keys t) \<and> n = length (kt_keys t)"
proof -
  have rows: "list_all2 (\<lambda>r x. StoreVirtualKey_AfterFind env False r = Inr x) (kt_keys t) rows"
    using assms(2) by (auto simp: ListVirtualKeys_def intro: all_rows_found split: if_splits)
  have all: "all_loadable t" using assms(1) by (rule reachable_loadable)
  have load: "list_all loadable rows"
    using list_all2_setD2 [OF rows] all by (fastforce simp: list_all_iff all_loadable_def dest: loaded_fields loadable_same)
  have same: "balanced x = balanced r" "svk_LoadBalancer x = svk_LoadBalancer r" if "StoreVirtualKey_AfterFind env False r = Inr x" for r x
    using loaded_fields [OF that] by (simp_all add: balanced_def)
  show ?thesis
  proof (cases "convert_keys rows []")
    case (Inl e)
    with convert_loadable [OF load, of "[]"] list_all2_setD2 [OF rows] same show ?thesis
      by (fastforce simp: syncVirtualKey_def)
  next
    case (Inr out)
    with convert_loadable [OF load, of "[]"] list_all2_setD1 [OF rows] same list_all2_lengthD [OF rows] show ?thesis
      by (fastforce simp: syncVirtualKey_def list_all_iff)
  qed
qed

section \<open>Keys that are read back\<close>

lemma budget_row_ID: "budget_row ident t = Inr b \<Longrightarrow> sb_ID b = ident"
  by (auto simp: budget_row_def StoreBudget_AfterFind_def dest: find_SomeD split: option.splits if_splits duration_result.splits)

lemma find_appended: "List.find P (xs @ ys) = (case List.find P xs of None \<Rightarrow> List.find P ys | Some x \<Rightarrow> Some x)"
  by (induction xs) auto

lemma find_map_update:
  "r \<in> set rs \<Longrightarrow> f r = ident \<Longrightarrow> f x = ident \<Longrightarrow> List.find (\<lambda>r. f r = ident) (map (\<lambda>r. if f r = ident then x else r) rs) = Some x"
  by (induction rs) auto

text \<open>What a row that was stored and is found under its identifier reads as, when the cipher opens what it sealed.\<close>

context sealing
begin

lemma stored_row_reads:
  assumes "se_gcm env = gcm" "\<And>n. se_nonce env = Some n \<Longrightarrow> length n = NonceSize"
    and "StoreVirtualKey_BeforeSave env key = Inr stored" "List.find (\<lambda>r. svk_ID r = ident) (kt_keys t) = Some (stored\<lparr>svk_UpdatedAt := u\<rparr>)"
  shows "key_row env False ident t = Inr (key\<lparr>svk_UpdatedAt := u\<rparr>)"
proof -
  from assms(3) obtain c where c: "encryptKey gcm (se_nonce env) (svk_APIKey key) (se_passkey env) = Some c" "stored = key\<lparr>svk_APIKey := c\<rparr>"
    using assms(1) by (auto simp: StoreVirtualKey_BeforeSave_def split: option.splits)
  have d: "decryptKey gcm c (se_passkey env) = Some (svk_APIKey key)" using decrypt_encrypt [OF c(1)] assms(2) by blast
  have ne: "c \<noteq> []" using c(1) assms(2)
    by (auto simp: encryptKey_def encode_empty NonceSize_def split: if_splits option.splits)
  show ?thesis using ne d by (simp add: key_row_def assms(4) StoreVirtualKey_AfterFind_def c(2) assms(1))
qed

lemma created_key:
  assumes "se_gcm env = gcm" "\<And>n. se_nonce env = Some n \<Longrightarrow> length n = NonceSize"
    and "CreateVirtualKeyTx env payload t = (t1, Inr (row, apiKey))"
  shows "\<exists>mode lb gen. vq_Mode payload = Some mode \<and> vq_LoadBalancer payload = Some lb \<and> GenerateVirtualKey (se_random env) = Some gen
    \<and> apiKey = fst gen \<and> row = new_key env payload mode lb gen \<and> key_row env False (se_uuid env) t1 = Inr row
    \<and> (\<exists>c. kt_keys t1 = kt_keys t @ [row\<lparr>svk_APIKey := c\<rparr>])"
proof -
  from assms(3) obtain b mode lb gen where p: "vq_Mode payload = Some mode" "vq_LoadBalancer payload = Some lb"
    and gen: "GenerateVirtualKey (se_random env) = Some gen"
    and ins: "insert_key env (new_key env payload mode lb gen) (set_budget_status (se_now env) b ''bound'' t) = Inr t1"
    and row: "GetVirtualKey env (se_uuid env) t1 = Inr row" "apiKey = fst gen"
    by (auto simp: CreateVirtualKeyTx_def map_sum_Inr split: sum.splits if_splits option.splits)
  let ?key = "new_key env payload mode lb gen"
  from ins obtain stored where st: "StoreVirtualKey_BeforeSave env ?key = Inr stored" "kt_keys t1 = kt_keys t @ [stored]"
    and new: "\<not> list_ex (\<lambda>r. svk_ID r = svk_ID ?key) (kt_keys t)"
    by (auto simp: insert_key_def status_views list_ex_iff split: sum.splits if_splits)
  have id: "svk_ID ?key = se_uuid env" "svk_UpdatedAt ?key = se_now env" by (simp_all add: new_key_def split: prod.split)
  obtain c where c: "stored = ?key\<lparr>svk_APIKey := c\<rparr>" using st(1) by (auto simp: StoreVirtualKey_BeforeSave_def split: option.splits)
  have same: "stored\<lparr>svk_UpdatedAt := se_now env\<rparr> = stored" "?key\<lparr>svk_UpdatedAt := se_now env\<rparr> = ?key" using id(2) by (simp_all add: c)
  have "svk_ID stored = se_uuid env" by (simp add: c id)
  then have "List.find (\<lambda>r. svk_ID r = se_uuid env) (kt_keys t1) = Some stored"
    using new by (auto simp: st(2) id list_ex_iff find_appended dest: find_SomeD split: option.splits)
  then have "key_row env False (se_uuid env) t1 = Inr ?key"
    using stored_row_reads [OF assms(1,2) st(1), where u = "se_now env" and t = t1] by (simp add: same)
  with p gen row st(2) c show ?thesis by (auto simp: GetVirtualKey_def split: if_splits)
qed

lemma rotated_key:
  assumes "se_gcm env = gcm" "\<And>n. se_nonce env = Some n \<Longrightarrow> length n = NonceSize"
    and "RotateVirtualKey env ident t = (t1, Inr (row, apiKey))"
  shows "\<exists>old hash shown. key_row env False ident t = Inr old \<and> GenerateVirtualKey (se_random env) = Some (apiKey, hash, shown)
    \<and> row = old\<lparr>svk_APIKey := apiKey, svk_KeyHash := hash, svk_DisplayPrefix := shown, svk_UpdatedAt := se_now env\<rparr>"
proof -
  from assms(3) obtain hash shown old where gen: "GenerateVirtualKey (se_random env) = Some (apiKey, hash, shown)"
    and old: "key_row env False ident t = Inr old"
    and save: "save_key env (old\<lparr>svk_APIKey := apiKey, svk_KeyHash := hash, svk_DisplayPrefix := shown\<rparr>) t = Inr t1"
    and row: "GetVirtualKey env ident t1 = Inr row"
    by (auto simp: RotateVirtualKey_def map_sum_Inr split: sum.splits if_splits option.splits)
  let ?key = "old\<lparr>svk_APIKey := apiKey, svk_KeyHash := hash, svk_DisplayPrefix := shown\<rparr>"
  from old obtain r where r: "r \<in> set (kt_keys t)" "svk_ID r = ident" "old = r\<lparr>svk_APIKey := svk_APIKey old\<rparr>" by (rule key_row_found)
  have id: "svk_ID old = ident" using r(2) by (subst r(3)) simp
  from save id obtain stored where st: "StoreVirtualKey_BeforeSave env ?key = Inr stored"
    "t1 = set_key ident (\<lambda>_. stored\<lparr>svk_UpdatedAt := se_now env\<rparr>) t"
    by (auto simp: save_key_def split: sum.splits if_splits)
  have "svk_ID stored = ident" using st(1) id by (auto simp: StoreVirtualKey_BeforeSave_def split: option.splits)
  then have "List.find (\<lambda>r. svk_ID r = ident) (kt_keys t1) = Some (stored\<lparr>svk_UpdatedAt := se_now env\<rparr>)"
    using r(1,2) by (auto simp: st(2) set_key_def find_map_update)
  from stored_row_reads [OF assms(1,2) st(1) this] row gen old show ?thesis by (auto simp: GetVirtualKey_def split: if_splits)
qed

end

text \<open>
  C20: The answer to creating a key carries a key that passes the offline check; the row is active, has the hash of that key, refers to
  the budget of the request, which is now bound, and reads back with that key, while the display form of it shows the mask only.
\<close>

theorem created_key_reads_back:
  assumes "\<forall>k n p. gcm_Open (se_gcm env) k n (gcm_Seal (se_gcm env) k n p) = Some p" "\<forall>n. se_nonce env = Some n \<longrightarrow> length n = NonceSize"
    and "CreateVirtualKeyTx env payload t = (t1, Inr (row, apiKey))"
  shows "ValidateKeySignature apiKey \<and> svk_APIKey row = apiKey \<and> svk_KeyHash row = sha256_hex apiKey \<and> svk_IsActive row
    \<and> svk_ID row = se_uuid env \<and> svk_BudgetID row = vq_BudgetID payload \<and> GetVirtualKey env (se_uuid env) t1 = Inr row
    \<and> GetVirtualKeyRedacted env (se_uuid env) t1 = Inr (row\<lparr>svk_APIKey := SecretMask\<rparr>)
    \<and> (\<forall>b \<in> set (kt_budgets t1). sb_ID b = vq_BudgetID payload \<longrightarrow> sb_Status b = ''bound'')"
proof -
  have s: "sealing (se_gcm env)" by (rule sealing.intro) (simp add: assms(1))
  from sealing.created_key [OF s refl _ assms(3)] assms(2) obtain mode lb gen c where gen: "GenerateVirtualKey (se_random env) = Some gen"
    and row: "apiKey = fst gen" "row = new_key env payload mode lb gen" "key_row env False (se_uuid env) t1 = Inr row"
    and keys: "kt_keys t1 = kt_keys t @ [row\<lparr>svk_APIKey := c\<rparr>]" by blast
  obtain raw where raw: "se_random env = Some raw" "gen = (apiKey, sha256_hex apiKey, take 11 apiKey)" "ValidateKeySignature apiKey"
    using gen row(1) GenerateVirtualKey_valid [of "se_random env"] by (cases "se_random env") auto
  have fields: "svk_APIKey row = apiKey" "svk_KeyHash row = sha256_hex apiKey" "svk_IsActive row" "svk_ID row = se_uuid env"
    "svk_BudgetID row = vq_BudgetID payload"
    by (simp_all add: row(2) raw(2) new_key_def)
  have reload: "se_reload env" and budgets: "\<exists>b. kt_budgets t1 = kt_budgets (set_budget_status (se_now env) b ''bound'' t) \<and> b = vq_BudgetID payload"
    using assms(3) by (auto simp: CreateVirtualKeyTx_def insert_key_def GetVirtualKey_def map_sum_Inr split: sum.splits if_splits option.splits
        dest: budget_row_ID)
  from row(3) obtain r where r: "List.find (\<lambda>r. svk_ID r = se_uuid env) (kt_keys t1) = Some r" "StoreVirtualKey_AfterFind env False r = Inr row"
    by (auto simp: key_row_def split: option.splits)
  have "svk_APIKey r \<noteq> []"
  proof
    assume "svk_APIKey r = []"
    with r(2) fields(1) have "apiKey = []" by (auto simp: StoreVirtualKey_AfterFind_def)
    with raw(3) show False by (simp add: ValidateKeySignature_def dk_defs)
  qed
  with r have "key_row env True (se_uuid env) t1 = Inr (row\<lparr>svk_APIKey := SecretMask\<rparr>)"
    by (auto simp: key_row_def StoreVirtualKey_AfterFind_def split: if_splits option.splits)
  with fields raw(3) row(3) reload budgets show ?thesis
    by (auto simp: GetVirtualKey_def GetVirtualKeyRedacted_def set_budget_status_def set_budget_def)
qed

lemma demo_created: "\<exists>row apiKey. CreateVirtualKeyTx demo_env demo_request one_budget = (one_key, Inr (row, apiKey))"
proof -
  have "fst (CreateVirtualKeyTx demo_env demo_request one_budget) \<noteq> one_budget"
    using one_key_run by (auto simp: one_budget_eq one_key_def)
  then obtain mode lb gen b t1 where one: "CreateVirtualKeyTx demo_env demo_request one_budget
       = (t1, map_sum id (\<lambda>row. (row, fst gen)) (GetVirtualKey demo_env (se_uuid demo_env) t1))"
    and ins: "insert_key demo_env (new_key demo_env demo_request mode lb gen) (set_budget_status (se_now demo_env) b ''bound'' one_budget) = Inr t1"
    by (auto simp: CreateVirtualKeyTx_def split: sum.splits if_splits option.splits)
  let ?key = "new_key demo_env demo_request mode lb gen"
  from ins obtain stored where st: "StoreVirtualKey_BeforeSave demo_env ?key = Inr stored" "kt_keys t1 = [stored]"
    by (auto simp: insert_key_def status_views one_budget_eq split: sum.splits if_splits)
  have "svk_ID stored = se_uuid demo_env" "stored = stored\<lparr>svk_UpdatedAt := svk_UpdatedAt stored\<rparr>"
    using st(1) by (auto simp: StoreVirtualKey_BeforeSave_def new_key_def split: option.splits prod.splits)
  then have "\<exists>row. key_row demo_env False (se_uuid demo_env) t1 = Inr row"
    using plain.stored_row_reads [OF _ _ st(1), where ident = "se_uuid demo_env" and t = t1 and u = "svk_UpdatedAt stored"]
    by (simp add: st(2) demo_env_def NonceSize_def)
  then show ?thesis using one by (auto simp: GetVirtualKey_def demo_env_def one_key_def)
qed

theorem created_key_reads_back_witness:
  "\<exists>row apiKey. CreateVirtualKeyTx demo_env demo_request one_budget = (one_key, Inr (row, apiKey))
     \<and> ValidateKeySignature apiKey \<and> GetVirtualKey demo_env ''u1'' one_key = Inr row \<and> svk_APIKey row = apiKey"
proof -
  obtain row apiKey where c: "CreateVirtualKeyTx demo_env demo_request one_budget = (one_key, Inr (row, apiKey))"
    using demo_created by blast
  have "\<forall>k n p. gcm_Open (se_gcm demo_env) k n (gcm_Seal (se_gcm demo_env) k n p) = Some p"
    "\<forall>n. se_nonce demo_env = Some n \<longrightarrow> length n = NonceSize" "se_uuid demo_env = ''u1''"
    by (simp_all add: demo_env_def plain.open_seal NonceSize_def)
  with created_key_reads_back [OF _ _ c] c show ?thesis by auto
qed

lemma reachable_any: "reachable guard t \<Longrightarrow> reachable (\<lambda>_ _ _. True) t"
  by (induction rule: reachable.induct) (simp_all add: reachable.intros)

theorem stored_keys_sync_witness:
  "\<exists>row. ListVirtualKeys demo_env one_key = Inr [row] \<and> (\<forall>g. snd (syncVirtualKey 5 (Some [row]) g) = Inr 1)"
proof -
  obtain r where r: "kt_keys one_key = [r]" "svk_IsActive r" "svk_ID r = ''u1''" "svk_LoadBalancer r = ''round_robin''"
    using one_key_run by blast
  obtain row apiKey where c: "CreateVirtualKeyTx demo_env demo_request one_budget = (one_key, Inr (row, apiKey))"
    using demo_created by blast
  then have "GetVirtualKey demo_env ''u1'' one_key = Inr row"
    by (auto simp: CreateVirtualKeyTx_def map_sum_Inr demo_env_def split: sum.splits if_splits option.splits)
  then have l: "ListVirtualKeys demo_env one_key = Inr [row]"
    using r by (auto simp: ListVirtualKeys_def GetVirtualKey_def key_row_def split: if_splits)
  have b: "balanced r" by (simp add: balanced_def r(4) ParseLBKind_def LBKind_Implemented_def)
  have "snd (syncVirtualKey 5 (Some [row]) g) = Inr 1" for g
    using stored_keys_sync [OF reachable_any [OF one_key_reachable] l, of 5 g] r b by (auto split: sum.splits)
  with l show ?thesis by blast
qed

lemma find_map_released:
  "List.find (\<lambda>b. sb_ID b = i) (map (\<lambda>b. if sb_ID b = i then b\<lparr>sb_Status := st, sb_UpdatedAt := u\<rparr> else b) bs)
     = map_option (\<lambda>b. b\<lparr>sb_Status := st, sb_UpdatedAt := u\<rparr>) (List.find (\<lambda>b. sb_ID b = i) bs)"
  by (induction bs) auto

text \<open>
  Releasing is not conditional on holding: revoking an inactive key makes the budget that another active key holds deletable, and
  that key stays active without it.
\<close>

theorem revoking_inactive_key_frees_held_budget:
  assumes "se_read env" "se_tx env" "key_row env False ident t = Inr key" "StoreVirtualKey_BeforeSave env key = Inr stored"
    and "other \<in> set (kt_keys t)" "svk_IsActive other" "svk_ID other \<noteq> ident" "svk_BudgetID other = svk_BudgetID key"
    and "budget_row (svk_BudgetID key) t = Inr budget"
  shows "let t1 = fst (RevokeVirtualKey env ident t); t2 = fst (DeleteBudget env (svk_BudgetID other) t1)
    in snd (RevokeVirtualKey env ident t) = None \<and> snd (DeleteBudget env (svk_BudgetID other) t1) = None
       \<and> other \<in> set (kt_keys t2) \<and> (\<forall>b \<in> set (kt_budgets t2). sb_ID b \<noteq> svk_BudgetID other)"
proof -
  define t1 where "t1 = set_budget_status (se_now env) (svk_BudgetID key) ''released'' (set_key_active (se_now env) ident False t)"
  have rv: "RevokeVirtualKey env ident t = (t1, None)" using assms(2-4) by (simp add: RevokeVirtualKey_def t1_def)
  have keys: "other \<in> set (kt_keys t1)"
    using assms(5,7) by (auto simp: t1_def set_budget_status_def set_key_active_def set_budget_def set_key_def image_iff)
  have "\<exists>b. budget_row (svk_BudgetID key) t1 = Inr b \<and> sb_Status b \<noteq> ''bound''"
    using assms(9) by (auto simp: budget_row_def t1_def set_budget_status_def set_key_active_def set_budget_def set_key_def
        find_map_released StoreBudget_AfterFind_def split: option.splits if_splits duration_result.splits)
  with assms(1,2,8) have "DeleteBudget env (svk_BudgetID other) t1
      = (t1\<lparr>kt_budgets := filter (\<lambda>r. sb_ID r \<noteq> svk_BudgetID other) (kt_budgets t1)\<rparr>, None)"
    by (auto simp: DeleteBudget_def)
  with rv keys show ?thesis by (simp add: Let_def)
qed

text \<open>
  The reads for display do not depend on the key column: the listing is the same whatever the column holds, and one key
  shows the mask or nothing.
\<close>

theorem display_reads_hide_keys:
  "ListVirtualKeysWithoutKeys env (t\<lparr>kt_keys := map (\<lambda>r. r\<lparr>svk_APIKey := f r\<rparr>) (kt_keys t)\<rparr>) = ListVirtualKeysWithoutKeys env t
   \<and> (case GetVirtualKeyRedacted env ident t of Inl _ \<Rightarrow> True | Inr key \<Rightarrow> svk_APIKey key \<in> {[], SecretMask})"
proof -
  have "filter (\<lambda>r. P (svk_IsActive r)) (map (\<lambda>r. r\<lparr>svk_APIKey := f r\<rparr>) rs) = map (\<lambda>r. r\<lparr>svk_APIKey := f r\<rparr>) (filter (\<lambda>r. P (svk_IsActive r)) rs)" for P rs
    by (simp add: filter_map comp_def)
  from this [of "\<lambda>a. a"] this [of Not] show ?thesis
    by (auto simp: ListVirtualKeysWithoutKeys_def comp_def GetVirtualKeyRedacted_def key_row_def StoreVirtualKey_AfterFind_def
        split: sum.splits option.splits if_splits)
qed

section \<open>Budgets that are read back\<close>

text \<open>
  The answer to creating a budget has no window, though the row it stored has one when it is read: the cache that takes the answer
  gets a budget without a window until the next synchronisation.
\<close>

theorem created_budget_window_unset:
  assumes "CreateBudget env b t = (t1, Inr created)" "se_reload env"
  shows "sb_BudgetParseDuration created = 0
    \<and> (\<exists>d. ParseDuration (b_BudgetDuration b) = DurOK d \<and> GetBudget env (sb_ID created) t1 = Inr (created\<lparr>sb_BudgetParseDuration := d\<rparr>))"
proof -
  from assms(1) obtain d where d: "ParseDuration (b_BudgetDuration b) = DurOK d" and ne: "b_BudgetDuration b \<noteq> []"
    and c: "created = new_budget env b" "t1 = t\<lparr>kt_budgets := kt_budgets t @ [created]\<rparr>"
    and new: "\<And>r. r \<in> set (kt_budgets t) \<Longrightarrow> sb_ID r \<noteq> se_uuid env"
    by (auto simp: CreateBudget_def list_ex_iff split: if_splits duration_result.splits)
  have id: "sb_ID created = se_uuid env" "sb_BudgetDuration created = b_BudgetDuration b" "sb_BudgetParseDuration created = 0"
    by (simp_all add: c(1) new_budget_def)
  have "List.find (\<lambda>r. sb_ID r = se_uuid env) (kt_budgets t) = None" using new by (auto simp: find_None_iff)
  then show ?thesis using assms(2) d ne
    by (simp add: GetBudget_def budget_row_def c(2) find_appended StoreBudget_AfterFind_def id)
qed

text \<open>An update does not check the sign of the limit that creation does.\<close>

theorem update_accepts_negative_limit:
  assumes "budget_row ident t = Inr b0" "se_read env" "se_tx env" "b_BudgetLimit b < 0" "b_BudgetDuration b = []" "sb_BudgetLimit b0 \<noteq> b_BudgetLimit b"
  shows "\<exists>b1 \<in> set (kt_budgets (fst (UpdateBudget env ident b t))). sb_ID b1 = ident \<and> sb_BudgetLimit b1 < 0"
proof -
  from assms(1) obtain row where row: "row \<in> set (kt_budgets t)" "sb_ID row = ident" by (rule budget_row_found)
  have "fst (UpdateBudget env ident b t) = set_budget ident (\<lambda>r. (budget_updates b r)\<lparr>sb_UpdatedAt := se_now env\<rparr>) t"
    using assms by (auto simp: UpdateBudget_def Let_def)
  moreover have "sb_BudgetLimit (budget_updates b row) < 0" "sb_ID (budget_updates b row) = ident"
    using assms(4) row(2) by (simp_all add: budget_updates_def)
  ultimately show ?thesis using row by (intro bexI [of _ "(budget_updates b row)\<lparr>sb_UpdatedAt := se_now env\<rparr>"]) (auto simp: set_budget_def)
qed

end
