(* ===== verification/Worker.thy ===== *)
theory Worker
  imports CoreTypes
begin

text \<open>
  Background jobs (\<^verbatim>\<open>internal/worker/worker.go\<close>): a job with its statistics, the group that adds, starts,
  triggers and stops jobs, and the goroutine that runs one job, as a step relation. The group's map
  is the list of its jobs, whose names are distinct; the clock and what a run of a job returns are
  arguments. A trigger channel has room for one token.
\<close>

section \<open>Jobs\<close>

type_synonym Detail = "(string \<times> int) list"

record JobStats =
  js_Name :: string
  js_Interval :: duration
  js_Running :: bool
  js_LastRunAt :: time
  js_LastSuccessAt :: time
  js_LastDuration :: duration
  js_LastError :: string
  js_ConsecutiveFailures :: int
  js_LastDetail :: "Detail option"

definition JobStats_zero :: JobStats where
  "JobStats_zero = \<lparr>js_Name = [], js_Interval = 0, js_Running = False, js_LastRunAt = 0, js_LastSuccessAt = 0,
     js_LastDuration = 0, js_LastError = [], js_ConsecutiveFailures = 0, js_LastDetail = None\<rparr>"

text \<open>What a call of \<^verbatim>\<open>Run\<close> does: it returns details and perhaps an error text, or panics.\<close>

datatype run_outcome = RunReturns "Detail option" "string option" | RunPanics string

record Job =
  j_Name :: string
  j_Interval :: duration
  j_RunAtStart :: bool
  j_RunAtStop :: bool
  j_hasRun :: bool
  j_stats :: JobStats
  j_trigger :: "bool option"

definition Job_Stats :: "Job \<Rightarrow> JobStats" where
  "Job_Stats j = j_stats j"

definition markRunning :: "time \<Rightarrow> Job \<Rightarrow> Job" where
  "markRunning start j = j\<lparr>j_stats := (j_stats j)\<lparr>js_Name := j_Name j, js_Interval := j_Interval j,
     js_Running := True, js_LastRunAt := start\<rparr>\<rparr>"

datatype worker_error = NilJob | NoName | NoRun string | BadInterval string | AddAfterStart | DuplicateJob string
  | AlreadyStarted | FailedAtStart string string | NoSuchJob string

definition Job_validate :: "Job option \<Rightarrow> worker_error option" where
  "Job_validate job = (case job of None \<Rightarrow> Some NilJob | Some j \<Rightarrow>
     if j_Name j = [] then Some NoName
     else if \<not> j_hasRun j then Some (NoRun (j_Name j))
     else if j_Interval j \<le> 0 then Some (BadInterval (j_Name j))
     else None)"

definition markDone :: "time \<Rightarrow> Detail option \<Rightarrow> string option \<Rightarrow> duration \<Rightarrow> Job \<Rightarrow> Job" where
  "markDone start detail err took j =
    (let st = (j_stats j)\<lparr>js_Running := False, js_LastDuration := took, js_LastDetail := detail\<rparr>
     in case err of
          Some e \<Rightarrow> j\<lparr>j_stats := st\<lparr>js_LastError := e, js_ConsecutiveFailures := js_ConsecutiveFailures st + 1\<rparr>\<rparr>
        | None \<Rightarrow> j\<lparr>j_stats := st\<lparr>js_LastSuccessAt := start, js_LastError := [], js_ConsecutiveFailures := 0\<rparr>\<rparr>)"

fun outcome_detail :: "run_outcome \<Rightarrow> Detail option" where
  "outcome_detail (RunReturns d e) = d"
| "outcome_detail (RunPanics p) = None"

fun outcome_error :: "run_outcome \<Rightarrow> string option" where
  "outcome_error (RunReturns d e) = e"
| "outcome_error (RunPanics p) = Some (''panic: '' @ p)"

definition Job_exec :: "time \<Rightarrow> duration \<Rightarrow> run_outcome \<Rightarrow> Job \<Rightarrow> Job \<times> string option" where
  "Job_exec start took out j =
     (markDone start (outcome_detail out) (outcome_error out) took (markRunning start j), outcome_error out)"

section \<open>Groups\<close>

record Group =
  g_name :: string
  g_jobs :: "Job list"
  g_started :: bool
  g_stop :: "bool option"

text \<open>\<open>g_stop\<close> is \<^const>\<open>None\<close> for a channel not made yet, and tells whether it is closed.\<close>

definition NewGroup :: "string \<Rightarrow> Group" where
  "NewGroup name = \<lparr>g_name = name, g_jobs = [], g_started = False, g_stop = None\<rparr>"

definition added_job :: "Job \<Rightarrow> Job" where
  "added_job j = j\<lparr>j_trigger := Some False, j_stats := (j_stats j)\<lparr>js_Name := j_Name j, js_Interval := j_Interval j\<rparr>\<rparr>"

fun add_jobs :: "Job option list \<Rightarrow> Job list \<Rightarrow> Job list \<times> worker_error option" where
  "add_jobs [] js = (js, None)"
| "add_jobs (job # rest) js = (case Job_validate job of Some e \<Rightarrow> (js, Some e)
   | None \<Rightarrow> let j = the job in
       if j_Name j \<in> j_Name ` set js then (js, Some (DuplicateJob (j_Name j)))
       else add_jobs rest (js @ [added_job j]))"

definition Group_Add :: "Job option list \<Rightarrow> Group \<Rightarrow> Group \<times> worker_error option" where
  "Group_Add jobs g = (if g_started g then (g, Some AddAfterStart)
     else case add_jobs jobs (g_jobs g) of (js, err) \<Rightarrow> (g\<lparr>g_jobs := js\<rparr>, err))"

text \<open>The runs at the start: each job that asks for one, in order, up to the first failure; the
  clock, the time taken and the outcome of a run are indexed by the job. The names of the jobs that
  ranNames are returned.\<close>

type_synonym run_oracle = "string \<Rightarrow> time \<times> duration \<times> run_outcome"

fun start_runs :: "run_oracle \<Rightarrow> Job list \<Rightarrow> Job list \<times> string list \<times> (string \<times> string) option" where
  "start_runs ora [] = ([], [], None)"
| "start_runs ora (j # rest) = (if j_RunAtStart j then
     (case ora (j_Name j) of (start, took, out) \<Rightarrow>
      case Job_exec start took out j of
        (j', Some e) \<Rightarrow> (j' # rest, [j_Name j], Some (j_Name j, e))
      | (j', None) \<Rightarrow> (case start_runs ora rest of (js, ranNames, err) \<Rightarrow> (j' # js, j_Name j # ranNames, err)))
   else case start_runs ora rest of (js, ranNames, err) \<Rightarrow> (j # js, ranNames, err))"

text \<open>On success every job's goroutine is running; the result lists them in the order they were
  started.\<close>

definition Group_Start :: "run_oracle \<Rightarrow> Group \<Rightarrow> Group \<times> string list \<times> worker_error option" where
  "Group_Start ora g = (if g_started g then (g, [], Some AlreadyStarted)
     else let jobs = sort_key j_Name (g_jobs g) in
       case start_runs ora jobs of
         (js, ranNames, Some (n, e)) \<Rightarrow> (g\<lparr>g_jobs := js, g_started := False, g_stop := None\<rparr>, ranNames, Some (FailedAtStart n e))
       | (js, ranNames, None) \<Rightarrow> (g\<lparr>g_jobs := js, g_started := True, g_stop := Some False\<rparr>, ranNames, None))"

text \<open>\<^verbatim>\<open>Shutdown\<close> up to closing the channel; waiting for the goroutines is the step relation below.\<close>

definition Group_Shutdown :: "Group \<Rightarrow> Group" where
  "Group_Shutdown g = (if \<not> g_started g then g else g\<lparr>g_started := False, g_stop := Some True\<rparr>)"

definition Job_Trigger :: "Job \<Rightarrow> Job" where
  "Job_Trigger j = j\<lparr>j_trigger := map_option (\<lambda>_. True) (j_trigger j)\<rparr>"

definition Group_Trigger :: "string \<Rightarrow> Group \<Rightarrow> Group \<times> worker_error option" where
  "Group_Trigger name g = (if name \<notin> j_Name ` set (g_jobs g) then (g, Some (NoSuchJob name))
     else (g\<lparr>g_jobs := map (\<lambda>j. if j_Name j = name then Job_Trigger j else j) (g_jobs g)\<rparr>, None))"

definition Group_Stats :: "Group \<Rightarrow> JobStats list" where
  "Group_Stats g = sort_key js_Name (map Job_Stats (g_jobs g))"

section \<open>The goroutine of a job\<close>

text \<open>
  The loop waits, runs (after a tick or a trigger), runs for the last time, or has returned. Ghosts:
  the outcomes of the finished runs (whether each failed), newest first; how many triggers put a
  token into the channel and how many runs took one; the runs begun after the stop was seen.
\<close>

datatype loop_pc = Waiting | Running time | Draining time | Returned

record job_sys =
  sys_job :: Job
  sys_at :: loop_pc
  sys_stopped :: bool
  gh_failed :: "bool list"
  gh_tokens :: nat
  gh_taken :: nat
  gh_final :: nat

definition job_start :: "Job \<Rightarrow> job_sys" where
  "job_start j = \<lparr>sys_job = j, sys_at = Waiting, sys_stopped = False, gh_failed = [], gh_tokens = 0, gh_taken = 0, gh_final = 0\<rparr>"

definition finish_run :: "time \<Rightarrow> duration \<Rightarrow> run_outcome \<Rightarrow> job_sys \<Rightarrow> job_sys" where
  "finish_run start took out s = s\<lparr>sys_job := markDone start (outcome_detail out) (outcome_error out) took (sys_job s),
     gh_failed := (outcome_error out \<noteq> None) # gh_failed s\<rparr>"

inductive job_step :: "job_sys \<Rightarrow> job_sys \<Rightarrow> bool" where
  tick: "sys_at s = Waiting \<Longrightarrow> job_step s (s\<lparr>sys_at := Running now, sys_job := markRunning now (sys_job s)\<rparr>)"
| take_trigger: "sys_at s = Waiting \<Longrightarrow> j_trigger (sys_job s) = Some True \<Longrightarrow>
    job_step s (s\<lparr>sys_at := Running now, sys_job := markRunning now ((sys_job s)\<lparr>j_trigger := Some False\<rparr>),
      gh_taken := Suc (gh_taken s)\<rparr>)"
| finish: "sys_at s = Running start \<Longrightarrow> job_step s ((finish_run start took out s)\<lparr>sys_at := Waiting\<rparr>)"
| see_stop_drain: "sys_at s = Waiting \<Longrightarrow> sys_stopped s \<Longrightarrow> j_RunAtStop (sys_job s) \<Longrightarrow>
    job_step s (s\<lparr>sys_at := Draining now, sys_job := markRunning now (sys_job s), gh_final := Suc (gh_final s)\<rparr>)"
| see_stop: "sys_at s = Waiting \<Longrightarrow> sys_stopped s \<Longrightarrow> \<not> j_RunAtStop (sys_job s) \<Longrightarrow> job_step s (s\<lparr>sys_at := Returned\<rparr>)"
| drained: "sys_at s = Draining start \<Longrightarrow> job_step s ((finish_run start took out s)\<lparr>sys_at := Returned\<rparr>)"
| trigger_new: "j_trigger (sys_job s) = Some False \<Longrightarrow>
    job_step s (s\<lparr>sys_job := Job_Trigger (sys_job s), gh_tokens := Suc (gh_tokens s)\<rparr>)"
| trigger_full: "j_trigger (sys_job s) = Some True \<Longrightarrow> job_step s (s\<lparr>sys_job := Job_Trigger (sys_job s)\<rparr>)"
| close_stop: "job_step s (s\<lparr>sys_stopped := True\<rparr>)"

inductive_simps job_step_from: "job_step s t"

abbreviation job_reachable :: "Job \<Rightarrow> job_sys \<Rightarrow> bool" where
  "job_reachable j s \<equiv> job_step\<^sup>*\<^sup>* (job_start j) s"

section \<open>Facts about groups\<close>

definition wf_job :: "Job \<Rightarrow> bool" where
  "wf_job j \<longleftrightarrow> Job_validate (Some j) = None \<and> j_trigger j \<noteq> None"

definition wf_group :: "Group \<Rightarrow> bool" where
  "wf_group g \<longleftrightarrow> distinct (map j_Name (g_jobs g)) \<and> list_all wf_job (g_jobs g)"

lemma wf_NewGroup [wf_intro]: "wf_group (NewGroup name)"
  by (simp add: wf_group_def NewGroup_def)

lemma added_job_Name [simp]: "j_Name (added_job j) = j_Name j"
  by (simp add: added_job_def)

lemma add_jobs_wf:
  "distinct (map j_Name js) \<Longrightarrow> list_all wf_job js \<Longrightarrow> add_jobs jobs js = (js', err) \<Longrightarrow>
   distinct (map j_Name js') \<and> list_all wf_job js' \<and> (\<exists>new. js' = js @ map (\<lambda>a. added_job (the a)) (take new jobs)
     \<and> (err = None \<longrightarrow> length jobs \<le> new))"
proof (induction jobs js rule: add_jobs.induct)
  case (1 js)
  then show ?case by (auto intro: exI [of _ 0])
next
  case (2 job rest js)
  show ?case
  proof (cases "Job_validate job")
    case (Some e)
    then have "js' = js" "err = Some e" using 2(4) by auto
    then show ?thesis using 2(2,3) by (auto intro!: exI [of _ 0])
  next
    case None
    then obtain j where j: "job = Some j" by (auto simp: Job_validate_def split: option.splits)
    show ?thesis
    proof (cases "j_Name j \<in> j_Name ` set js")
      case True
      then show ?thesis using 2(2-) None j by (auto intro!: exI [of _ 0])
    next
      case False
      have wf: "wf_job (added_job j)" using None j
        by (auto simp: wf_job_def added_job_def Job_validate_def split: if_splits)
      have "\<exists>new. js' = (js @ [added_job j]) @ map (\<lambda>a. added_job (the a)) (take new rest) \<and> (err = None \<longrightarrow> length rest \<le> new)"
        "distinct (map j_Name js') \<and> list_all wf_job js'"
        using 2(1) [OF None, of "the job"] 2(2-) None j False wf by auto
      then obtain new where "js' = (js @ [added_job j]) @ map (\<lambda>a. added_job (the a)) (take new rest)" "err = None \<longrightarrow> length rest \<le> new"
        "distinct (map j_Name js') \<and> list_all wf_job js'" by blast
      then show ?thesis using j by (intro conjI exI [of _ "Suc new"]) auto
    qed
  qed
qed

lemma wf_Group_Add [wf_intro]: "wf_group g \<Longrightarrow> wf_group (fst (Group_Add jobs g))"
  using add_jobs_wf [of "g_jobs g" jobs] by (auto simp: wf_group_def Group_Add_def split: prod.splits)

lemma exec_keeps [simp]: "j_Name (fst (Job_exec st tk out j)) = j_Name j" "j_trigger (fst (Job_exec st tk out j)) = j_trigger j"
  "Job_validate (Some (fst (Job_exec st tk out j))) = Job_validate (Some j)"
  by (simp_all add: Job_exec_def markDone_def markRunning_def Job_validate_def Let_def split: option.splits)

lemma start_runs_spec:
  "start_runs ora js = (js', ranNames, err) \<Longrightarrow>
   map j_Name js' = map j_Name js \<and> (list_all wf_job js \<longrightarrow> list_all wf_job js')
   \<and> (\<exists>k. ranNames = take k (map j_Name (filter j_RunAtStart js))
        \<and> (case err of None \<Rightarrow> ranNames = map j_Name (filter j_RunAtStart js)
           | Some (n, e) \<Rightarrow> ranNames \<noteq> [] \<and> last ranNames = n \<and> outcome_error (snd (snd (ora n))) = Some e)
        \<and> (\<forall>n \<in> set (if err = None then ranNames else butlast ranNames). outcome_error (snd (snd (ora n))) = None))"
proof (induction js arbitrary: js' ranNames err)
  case (Cons j js)
  obtain js1 ran1 err1 where rec: "start_runs ora js = (js1, ran1, err1)" by (metis prod_cases3)
  note IH = Cons.IH [OF rec]
  show ?case
  proof (cases "j_RunAtStart j")
    case False
    then show ?thesis using Cons.prems rec IH by auto
  next
    case True
    obtain st tk out where o: "ora (j_Name j) = (st, tk, out)" by (metis prod_cases3)
    obtain j' where j': "Job_exec st tk out j = (j', outcome_error out)" by (simp add: Job_exec_def)
    have wf: "j_Name j' = j_Name j" "wf_job j \<Longrightarrow> wf_job j'"
      using exec_keeps [of st tk out j] by (simp_all add: j' wf_job_def)
    show ?thesis
    proof (cases "outcome_error out")
      case (Some e)
      then show ?thesis using Cons.prems True o j' wf by (auto intro!: exI [of _ 1])
    next
      case None
      then have eqs: "js' = j' # js1" "ranNames = j_Name j # ran1" "err = err1" using Cons.prems True o j' rec by auto
      from IH obtain k where k: "ran1 = take k (map j_Name (filter j_RunAtStart js))"
        "case err of None \<Rightarrow> ran1 = map j_Name (filter j_RunAtStart js)
           | Some (n, e) \<Rightarrow> ran1 \<noteq> [] \<and> last ran1 = n \<and> outcome_error (snd (snd (ora n))) = Some e"
        "\<forall>n \<in> set (if err = None then ran1 else butlast ran1). outcome_error (snd (snd (ora n))) = None"
        unfolding eqs(3) by blast
      have "ranNames = take (Suc k) (map j_Name (filter j_RunAtStart (j # js)))" using True eqs(2) k(1) by simp
      moreover have "case err of None \<Rightarrow> ranNames = map j_Name (filter j_RunAtStart (j # js))
           | Some (n, e) \<Rightarrow> ranNames \<noteq> [] \<and> last ranNames = n \<and> outcome_error (snd (snd (ora n))) = Some e"
        using k(2) True eqs(2) by (cases err) (auto simp del: set_filter)
      moreover have "\<forall>n \<in> set (if err = None then ranNames else butlast ranNames). outcome_error (snd (snd (ora n))) = None"
        using k(3) eqs(2) None o by (auto split: if_splits)
      moreover have "map j_Name js' = map j_Name (j # js) \<and> (list_all wf_job (j # js) \<longrightarrow> list_all wf_job js')"
        using IH wf eqs(1) by simp
      ultimately show ?thesis by blast
    qed
  qed
qed auto

lemma distinct_sorted_names: "distinct (map j_Name (sort_key j_Name js)) = distinct (map j_Name js)"
  by (simp add: distinct_map)

lemma wf_Group_Start [wf_intro]: "wf_group g \<Longrightarrow> wf_group (fst (Group_Start ora g))"
  using start_runs_spec [of ora "sort_key j_Name (g_jobs g)"]
  by (auto simp: wf_group_def Group_Start_def list_all_iff Let_def distinct_sorted_names split: prod.splits option.splits)

text \<open>
  Starting a group runs the jobs that ask for a run at the start, in the order of their names,
  and stops at the first one that fails or panics: then the group is not started and the error
  names that job. Otherwise all of them have run without error and the group is started.
\<close>

theorem Group_Start_runs:
  assumes "\<not> g_started g" "Group_Start ora g = (g', ranNames, err)"
  shows "(\<exists>k. ranNames = take k (map j_Name (filter j_RunAtStart (sort_key j_Name (g_jobs g)))))
    \<and> g_started g' = (err = None)
    \<and> (case err of None \<Rightarrow> ranNames = map j_Name (filter j_RunAtStart (sort_key j_Name (g_jobs g)))
         \<and> (\<forall>n \<in> set ranNames. outcome_error (snd (snd (ora n))) = None)
       | Some e \<Rightarrow> ranNames \<noteq> [] \<and> (\<exists>msg. e = FailedAtStart (last ranNames) msg \<and> outcome_error (snd (snd (ora (last ranNames)))) = Some msg)
         \<and> (\<forall>n \<in> set (butlast ranNames). outcome_error (snd (snd (ora n))) = None))"
proof -
  obtain js r e0 where sr: "start_runs ora (sort_key j_Name (g_jobs g)) = (js, r, e0)" by (metis prod_cases3)
  have r: "ranNames = r" using assms sr by (cases e0) (auto simp: Group_Start_def Let_def)
  note spec = start_runs_spec [OF sr]
  from spec have "\<exists>k. ranNames = take k (map j_Name (filter j_RunAtStart (sort_key j_Name (g_jobs g))))" unfolding r by blast
  moreover have "g_started g' = (err = None)
    \<and> (case err of None \<Rightarrow> ranNames = map j_Name (filter j_RunAtStart (sort_key j_Name (g_jobs g)))
         \<and> (\<forall>n \<in> set ranNames. outcome_error (snd (snd (ora n))) = None)
       | Some e \<Rightarrow> ranNames \<noteq> [] \<and> (\<exists>msg. e = FailedAtStart (last ranNames) msg \<and> outcome_error (snd (snd (ora (last ranNames)))) = Some msg)
         \<and> (\<forall>n \<in> set (butlast ranNames). outcome_error (snd (snd (ora n))) = None))"
    using spec assms sr by (cases e0) (auto simp: Group_Start_def Let_def)
  ultimately show ?thesis by blast
qed

definition example_job :: "string \<Rightarrow> bool \<Rightarrow> Job" where
  "example_job name atStop = \<lparr>j_Name = name, j_Interval = 10, j_RunAtStart = True, j_RunAtStop = atStop, j_hasRun = True,
     j_stats = JobStats_zero, j_trigger = Some False\<rparr>"

definition example_group :: Group where
  "example_group = (NewGroup ''g'')\<lparr>g_jobs := [example_job ''b'' False, example_job ''a'' False]\<rparr>"

definition example_oracle :: run_oracle where
  "example_oracle name = (0, 1, if name = ''a'' then RunPanics ''boom'' else RunReturns None None)"

theorem Group_Start_runs_witness:
  "fst (snd (Group_Start example_oracle example_group)) = [''a''] \<and> \<not> g_started (fst (Group_Start example_oracle example_group))"
proof -
  have srt: "sort_key j_Name [example_job ''b'' False, example_job ''a'' False] = [example_job ''a'' False, example_job ''b'' False]"
    by (simp add: example_job_def less_list_code less_eq_list_code)
  obtain g' where g': "Group_Start example_oracle example_group = (g', [''a''], Some (FailedAtStart ''a'' ''panic: boom''))"
    by (simp add: Group_Start_def example_group_def NewGroup_def srt) (simp add: example_job_def example_oracle_def Job_exec_def)
  have "\<not> g_started example_group" by (simp add: example_group_def NewGroup_def)
  from Group_Start_runs [OF this g'] g' show ?thesis by simp
qed

section \<open>Facts about the goroutine\<close>

definition job_inv :: "job_sys \<Rightarrow> bool" where
  "job_inv s \<longleftrightarrow>
     js_Running (j_stats (sys_job s)) = (case sys_at s of Running _ \<Rightarrow> True | Draining _ \<Rightarrow> True | _ \<Rightarrow> False)
   \<and> js_ConsecutiveFailures (j_stats (sys_job s)) = int (length (takeWhile (\<lambda>failed. failed) (gh_failed s)))
   \<and> j_trigger (sys_job s) \<noteq> None \<and> gh_tokens s = gh_taken s + of_bool (j_trigger (sys_job s) = Some True)
   \<and> (case sys_at s of Draining _ \<Rightarrow> sys_stopped s \<and> j_RunAtStop (sys_job s) \<and> gh_final s = 1
       | Returned \<Rightarrow> sys_stopped s \<and> gh_final s = of_bool (j_RunAtStop (sys_job s))
       | _ \<Rightarrow> gh_final s = 0)"

lemmas job_ops = markRunning_def markDone_def finish_run_def Job_Trigger_def Let_def

definition fresh_job :: "Job \<Rightarrow> bool" where
  "fresh_job j \<longleftrightarrow> \<not> js_Running (j_stats j) \<and> js_ConsecutiveFailures (j_stats j) = 0 \<and> j_trigger j = Some False"

lemma job_inv_start: "fresh_job j \<Longrightarrow> job_inv (job_start j)"
  by (simp add: job_inv_def job_start_def fresh_job_def)

lemma job_inv_step: "job_step s t \<Longrightarrow> job_inv s \<Longrightarrow> job_inv t"
  by (induction rule: job_step.induct) (auto simp: job_inv_def job_ops split: option.splits loop_pc.splits)

lemma job_inv_reachable: "job_reachable j s \<Longrightarrow> fresh_job j \<Longrightarrow> job_inv s"
  by (induction rule: rtranclp_induct) (auto intro: job_inv_start job_inv_step)

lemma job_RunAtStop_step: "job_step s t \<Longrightarrow> j_RunAtStop (sys_job t) = j_RunAtStop (sys_job s)"
  by (induction rule: job_step.induct) (auto simp: job_ops split: option.splits)

lemma job_RunAtStop_reachable: "job_step\<^sup>*\<^sup>* s t \<Longrightarrow> j_RunAtStop (sys_job t) = j_RunAtStop (sys_job s)"
  by (induction rule: rtranclp_induct) (auto dest: job_RunAtStop_step)



text \<open>
  A stopped job can always finish: from every reachable state in which the stop was signalled
  the goroutine can return, and it does so within three of its own steps.
\<close>

theorem job_loop_can_return:
  assumes "job_reachable j s" "fresh_job j" "sys_stopped s"
  shows "\<exists>t n. (job_step ^^ n) s t \<and> n \<le> 3 \<and> sys_at t = Returned"
proof -
  have drain: "\<exists>t n. (job_step ^^ n) s t \<and> n \<le> 2 \<and> sys_at t = Returned" if w: "sys_at s = Waiting" "sys_stopped s" for s
  proof (cases "j_RunAtStop (sys_job s)")
    case True
    let ?s1 = "s\<lparr>sys_at := Draining 0, sys_job := markRunning 0 (sys_job s), gh_final := Suc (gh_final s)\<rparr>"
    have "job_step s ?s1" by (rule see_stop_drain [OF w True])
    moreover have "job_step ?s1 ((finish_run 0 0 (RunReturns None None) ?s1)\<lparr>sys_at := Returned\<rparr>)" by (rule drained) simp
    ultimately have "(job_step ^^ 2) s ((finish_run 0 0 (RunReturns None None) ?s1)\<lparr>sys_at := Returned\<rparr>)"
      by (auto simp: numeral_2_eq_2 intro: relcomppI)
    then show ?thesis by (intro exI [of _ "(finish_run 0 0 (RunReturns None None) ?s1)\<lparr>sys_at := Returned\<rparr>"] exI [of _ 2]) simp
  next
    case False
    have "job_step s (s\<lparr>sys_at := Returned\<rparr>)" by (rule see_stop [OF w False])
    then show ?thesis by (intro exI [of _ "s\<lparr>sys_at := Returned\<rparr>"] exI [of _ 1]) (simp add: eq_OO)
  qed
  show ?thesis
  proof (cases "sys_at s")
    case Waiting
    from drain [OF this assms(3)] obtain t n where "(job_step ^^ n) s t" "n \<le> 2" "sys_at t = Returned" by blast
    then show ?thesis by (intro exI [of _ t] exI [of _ n]) simp
  next
    case (Running start)
    let ?s1 = "(finish_run start 0 (RunReturns None None) s)\<lparr>sys_at := Waiting\<rparr>"
    have "job_step s ?s1" by (rule finish [OF Running])
    moreover obtain t n where "(job_step ^^ n) ?s1 t" "n \<le> 2" "sys_at t = Returned"
      using drain [of ?s1] assms(3) by (auto simp: finish_run_def)
    ultimately have "(job_step ^^ Suc n) s t" by (meson relpowp_Suc_I2)
    with \<open>n \<le> 2\<close> \<open>sys_at t = Returned\<close> show ?thesis by (intro exI [of _ t] exI [of _ "Suc n"]) simp
  next
    case (Draining start)
    have "job_step s ((finish_run start 0 (RunReturns None None) s)\<lparr>sys_at := Returned\<rparr>)" by (rule drained [OF Draining])
    then show ?thesis by (intro exI [of _ "(finish_run start 0 (RunReturns None None) s)\<lparr>sys_at := Returned\<rparr>"] exI [of _ 1]) (simp add: eq_OO)
  next
    case Returned
    then show ?thesis by (intro exI [of _ s] exI [of _ 0]) simp
  qed
qed

theorem job_loop_can_return_witness:
  "\<exists>t n. (job_step ^^ n) ((job_start (example_job ''a'' True))\<lparr>sys_stopped := True\<rparr>) t \<and> n \<le> 3 \<and> sys_at t = Returned"
proof -
  let ?s = "(job_start (example_job ''a'' True))\<lparr>sys_stopped := True\<rparr>"
  have "job_reachable (example_job ''a'' True) ?s" by (rule r_into_rtranclp) (rule close_stop)
  moreover have "fresh_job (example_job ''a'' True)" by (simp add: fresh_job_def example_job_def JobStats_zero_def)
  ultimately show ?thesis by (rule job_loop_can_return) simp
qed

end
