(* ===== verification/Admin.thy ===== *)
theory Admin
  imports Server CatalogStore KeyBinding Worker
begin

text \<open>
  The administrative interface (\<^verbatim>\<open>internal/server/admin-handlers.go\<close>, \<^verbatim>\<open>routes.go\<close>): every handler as a function
  from the state of the process to the state and the reply. A handler changes the database first and then the caches that the requests
  of clients read; the statements of the database, the order of visits of Go's maps, the unstable sort and the parsing of
  proxy addresses are arguments. A body that does not bind comes as the error of the binding, which includes the size limit.
\<close>

section \<open>State and replies\<close>

record modelOption =
  mo_ID :: string
  mo_ModelName :: string
  mo_ModelType :: string

record catalogEntry =
  en_ModelMetadata :: ModelMetadata
  en_Pricing :: "Pricing option"

record catalogPage =
  cp_Models :: "catalogEntry list"
  cp_Total :: int
  cp_Limit :: int
  cp_Offset :: int

record updateProviderRequest =
  upr_Network :: NetworkConfig
  upr_Proxy :: "ProxyConfig option"
  upr_ConfirmUnsafe :: bool

record admin_state =
  ad_server :: server
  ad_transport :: DiffractLLMTransport
  ad_keys :: KeyTables
  ad_upstreams :: ProviderTables
  ad_catalog :: CatalogTables
  ad_governanceJobs :: Group
  ad_catalogJobs :: Group
  ad_metricsJobs :: "Group option"
  ad_isReady :: bool

text \<open>
  What a handler gets from outside: the environment of each of its calls to the store, the order in which the key cache and
  the table of upstreams are visited, and the sorts.
\<close>

record admin_env =
  ae_call :: "nat \<Rightarrow> credential_env"
  ae_order :: "string list"
  ae_providers :: "Provider list"
  ae_url_ok :: "string \<Rightarrow> bool"
  ae_socks_ok :: "string \<Rightarrow> bool"
  ae_sort_options :: "modelOption list \<Rightarrow> modelOption list"
  ae_sort_models :: "ModelMetadata list \<Rightarrow> ModelMetadata list"

datatype admin_error = BindError string | Message string | KeyFailure store_error | CredentialFailure credential_store_error
  | PricingFailure catalog_store_error | JobFailure worker_error

datatype admin_body = NoBody | ErrorBody admin_error | BudgetBody Budget | BudgetsBody "Budget list"
  | KeyBody VirtualKeyResponse | IssuedBody string VirtualKeyResponse | KeysBody "VirtualKeyResponse list" "string list"
  | CredentialBody Credential | CredentialsBody "Credential list" | PricingBody CustomPricing | PricingsBody "CustomPricing list"
  | ProviderBody StoreProvider | ProvidersBody "StoreProvider list" | SettingsBody NetworkConfig "ProxyConfig option" NetworkConfig
  | ModelsBody "modelOption list" | PageBody catalogPage | StatsBody bool "JobStats list" "JobStats list" "JobStats list"
  | StatusBody string | ChecksBody string "(string \<times> bool) list"

type_synonym admin_reply = "int \<times> admin_body"

definition adminErr :: "int \<Rightarrow> admin_error \<Rightarrow> admin_reply" where
  "adminErr code msg = (code, ErrorBody msg)"

definition key_env :: "admin_env \<Rightarrow> store_env" where
  "key_env env = store_env.truncate (ae_call env 0)"

definition with_governance :: "(Governance \<Rightarrow> Governance) \<Rightarrow> admin_state \<Rightarrow> admin_state" where
  "with_governance f s = s\<lparr>ad_server := (ad_server s)\<lparr>srv_governance := f (srv_governance (ad_server s))\<rparr>\<rparr>"

definition with_budgets :: "(BudgetCache \<Rightarrow> BudgetCache) \<Rightarrow> admin_state \<Rightarrow> admin_state" where
  "with_budgets f = with_governance (\<lambda>g. g\<lparr>gov_BudgetCache := f (gov_BudgetCache g)\<rparr>)"

definition with_keys :: "(VirtualkeyCache \<Rightarrow> VirtualkeyCache) \<Rightarrow> admin_state \<Rightarrow> admin_state" where
  "with_keys f = with_governance (\<lambda>g. g\<lparr>KeyCache := f (KeyCache g)\<rparr>)"

section \<open>Budgets\<close>

definition getBudget :: "admin_env \<Rightarrow> string \<Rightarrow> admin_state \<Rightarrow> admin_state \<times> admin_reply" where
  "getBudget env ident s = (s, case GetBudget (key_env env) ident (ad_keys s) of
     Inl _ \<Rightarrow> adminErr 404 (Message ''budget not found'') | Inr row \<Rightarrow> (200, BudgetBody (StoreBudget_ToCore row)))"

definition createBudget :: "admin_env \<Rightarrow> string + Budget \<Rightarrow> admin_state \<Rightarrow> admin_state \<times> admin_reply" where
  "createBudget env bound s = (case bound of Inl e \<Rightarrow> (s, adminErr 400 (BindError e))
   | Inr payload \<Rightarrow> (case CreateBudget (key_env env) payload (ad_keys s) of
       (t, Inl e) \<Rightarrow> (s\<lparr>ad_keys := t\<rparr>, adminErr 400 (KeyFailure e))
     | (t, Inr row) \<Rightarrow> (with_budgets (UpsertBudget (Some (StoreBudget_ToCore row))) (s\<lparr>ad_keys := t\<rparr>),
         (201, BudgetBody (StoreBudget_ToCore row)))))"

definition updateBudget :: "admin_env \<Rightarrow> string \<Rightarrow> string + Budget \<Rightarrow> admin_state \<Rightarrow> admin_state \<times> admin_reply" where
  "updateBudget env ident bound s = (case bound of Inl e \<Rightarrow> (s, adminErr 400 (BindError e))
   | Inr payload \<Rightarrow> (case UpdateBudget (key_env env) ident payload (ad_keys s) of
       (t, Inl e) \<Rightarrow> (s\<lparr>ad_keys := t\<rparr>, adminErr 400 (KeyFailure e))
     | (t, Inr row) \<Rightarrow> (with_budgets (UpsertBudget (Some (StoreBudget_ToCore row))) (s\<lparr>ad_keys := t\<rparr>),
         (200, BudgetBody (StoreBudget_ToCore row)))))"

definition deleteBudget :: "admin_env \<Rightarrow> string \<Rightarrow> admin_state \<Rightarrow> admin_state \<times> admin_reply" where
  "deleteBudget env ident s = (case KeyStore.DeleteBudget (key_env env) ident (ad_keys s) of
     (t, Some e) \<Rightarrow> (s\<lparr>ad_keys := t\<rparr>, adminErr 409 (KeyFailure e))
   | (t, None) \<Rightarrow> (with_budgets (BudgetLedger.DeleteBudget ident) (s\<lparr>ad_keys := t\<rparr>), (204, NoBody)))"

definition listBudgets :: "admin_env \<Rightarrow> admin_state \<Rightarrow> admin_state \<times> admin_reply" where
  "listBudgets env s = (s, case ListBudgets (key_env env) (ad_keys s) of
     Inl _ \<Rightarrow> adminErr 500 (Message ''listing budgets'') | Inr rows \<Rightarrow> (200, BudgetsBody (map StoreBudget_ToCore rows)))"

section \<open>Virtual keys\<close>

text \<open>The response of a row whose conversion error is discarded is the zero value.\<close>

definition VirtualKeyResponse_zero :: VirtualKeyResponse where
  "VirtualKeyResponse_zero = \<lparr>vr_ID = [], vr_DisplayPrefix = [], vr_ClientID = [], vr_BudgetID = [], vr_Mode = VKDirect,
     vr_LoadBalancer = LBRoundRobin, vr_ProviderConfigs = [], vr_IsActive = False, vr_ExpiresAt = 0, vr_CreatedAt = 0, vr_UpdatedAt = 0\<rparr>"

definition response_of :: "StoreVirtualKey \<Rightarrow> VirtualKeyResponse" where
  "response_of row = (case StoreVirtualKey_ToResponse row of Inl _ \<Rightarrow> VirtualKeyResponse_zero | Inr resp \<Rightarrow> resp)"

definition getVirtualKey :: "admin_env \<Rightarrow> string \<Rightarrow> admin_state \<Rightarrow> admin_state \<times> admin_reply" where
  "getVirtualKey env ident s = (s, case GetVirtualKeyRedacted (key_env env) ident (ad_keys s) of
     Inl _ \<Rightarrow> adminErr 404 (Message ''virtual key not found'')
   | Inr row \<Rightarrow> (case StoreVirtualKey_ToResponse row of Inl _ \<Rightarrow> adminErr 500 (Message ''rendering virtual key'')
     | Inr resp \<Rightarrow> (200, KeyBody resp)))"

definition createVirtualKey :: "admin_env \<Rightarrow> string + VirtualKeyRequest \<Rightarrow> admin_state \<Rightarrow> admin_state \<times> admin_reply" where
  "createVirtualKey env bound s = (case bound of Inl e \<Rightarrow> (s, adminErr 400 (BindError e))
   | Inr payload \<Rightarrow> (case CreateVirtualKeyTx (key_env env) payload (ad_keys s) of
       (t, Inl e) \<Rightarrow> (s\<lparr>ad_keys := t\<rparr>, adminErr 400 (KeyFailure e))
     | (t, Inr (row, apiKey)) \<Rightarrow> (case StoreVirtualKey_ToCore row of
         Inl _ \<Rightarrow> (s\<lparr>ad_keys := t\<rparr>, adminErr 500 (Message ''stored, not yet live''))
       | Inr vk \<Rightarrow> (with_keys (UpsertVirtualKey (Some vk)) (s\<lparr>ad_keys := t\<rparr>), (201, IssuedBody apiKey (response_of row))))))"

definition updateVirtualKeyRouting :: "admin_env \<Rightarrow> string \<Rightarrow> string + UpdateVirtualKeyRoutingRequest \<Rightarrow> admin_state
    \<Rightarrow> admin_state \<times> admin_reply" where
  "updateVirtualKeyRouting env ident bound s = (case bound of Inl e \<Rightarrow> (s, adminErr 400 (BindError e))
   | Inr payload \<Rightarrow> (case UpdateVirtualKeyRouting (key_env env) ident payload (ad_keys s) of
       (t, Inl e) \<Rightarrow> (s\<lparr>ad_keys := t\<rparr>, adminErr 400 (KeyFailure e))
     | (t, Inr row) \<Rightarrow> (case StoreVirtualKey_ToCore row of
         Inl _ \<Rightarrow> (s\<lparr>ad_keys := t\<rparr>, adminErr 500 (Message ''stored, not yet live''))
       | Inr vk \<Rightarrow> (with_keys (UpsertVirtualKey (Some vk)) (s\<lparr>ad_keys := t\<rparr>), (200, KeyBody (response_of row))))))"

definition setVirtualKeyStatus :: "admin_env \<Rightarrow> string \<Rightarrow> string + bool \<Rightarrow> admin_state \<Rightarrow> admin_state \<times> admin_reply" where
  "setVirtualKeyStatus env ident bound s = (case bound of Inl e \<Rightarrow> (s, adminErr 400 (BindError e))
   | Inr isActive \<Rightarrow> (case SetVirtualKeyActive (key_env env) ident isActive (ad_keys s) of
       (t, Inl e) \<Rightarrow> (s\<lparr>ad_keys := t\<rparr>, adminErr 400 (KeyFailure e))
     | (t, Inr row) \<Rightarrow>
         if isActive then (case StoreVirtualKey_ToCore row of
             Inl _ \<Rightarrow> (s\<lparr>ad_keys := t\<rparr>, adminErr 500 (Message ''stored, not yet live''))
           | Inr vk \<Rightarrow> (with_keys (UpsertVirtualKey (Some vk)) (s\<lparr>ad_keys := t\<rparr>), (200, KeyBody (response_of row))))
         else (with_keys (\<lambda>c. fst (DeleteVirtualKeyByID (ae_order env) ident c)) (s\<lparr>ad_keys := t\<rparr>), (200, KeyBody (response_of row)))))"

definition revokeVirtualKey :: "admin_env \<Rightarrow> string \<Rightarrow> admin_state \<Rightarrow> admin_state \<times> admin_reply" where
  "revokeVirtualKey env ident s = (case RevokeVirtualKey (key_env env) ident (ad_keys s) of
     (t, Some _) \<Rightarrow> (s\<lparr>ad_keys := t\<rparr>, adminErr 404 (Message ''virtual key not found''))
   | (t, None) \<Rightarrow> (with_keys (\<lambda>c. fst (DeleteVirtualKeyByID (ae_order env) ident c)) (s\<lparr>ad_keys := t\<rparr>), (204, NoBody)))"

text \<open>Rows that cannot be shown are skipped and listed by their identifier; the counts of the reply are the lengths.\<close>

fun list_responses :: "StoreVirtualKey list \<Rightarrow> VirtualKeyResponse list \<times> string list" where
  "list_responses [] = ([], [])"
| "list_responses (row # rows) = (case list_responses rows of (shown, skipped) \<Rightarrow>
     (case StoreVirtualKey_ToResponse row of Inl _ \<Rightarrow> (shown, svk_ID row # skipped) | Inr resp \<Rightarrow> (resp # shown, skipped)))"

definition listVirtualKeys :: "admin_env \<Rightarrow> admin_state \<Rightarrow> admin_state \<times> admin_reply" where
  "listVirtualKeys env s = (s, case ListVirtualKeysWithoutKeys (key_env env) (ad_keys s) of
     Inl _ \<Rightarrow> adminErr 500 (Message ''listing virtual keys'')
   | Inr rows \<Rightarrow> (case list_responses rows of (shown, skipped) \<Rightarrow> (200, KeysBody shown skipped)))"

definition rotateVirtualKey :: "admin_env \<Rightarrow> string \<Rightarrow> admin_state \<Rightarrow> admin_state \<times> admin_reply" where
  "rotateVirtualKey env ident s = (case RotateVirtualKey (key_env env) ident (ad_keys s) of
     (t, Inl e) \<Rightarrow> (s\<lparr>ad_keys := t\<rparr>, adminErr 400 (KeyFailure e))
   | (t, Inr (row, apiKey)) \<Rightarrow> (case StoreVirtualKey_ToCore row of
       Inl _ \<Rightarrow> (s\<lparr>ad_keys := t\<rparr>, adminErr 500 (Message ''stored, not yet live''))
     | Inr vk \<Rightarrow> (with_keys (UpsertVirtualKey (Some vk)) (with_keys (\<lambda>c. fst (DeleteVirtualKeyByID (ae_order env) ident c)) (s\<lparr>ad_keys := t\<rparr>)),
         (200, IssuedBody apiKey (response_of row)))))"

section \<open>Credentials\<close>

definition with_plane :: "ProviderPlane \<Rightarrow> admin_state \<Rightarrow> admin_state" where
  "with_plane plane s = s\<lparr>ad_server := (ad_server s)\<lparr>srv_plane := plane\<rparr>\<rparr>"

text \<open>Publishing a stored credential and rendering it without its secrets, the common end of the two writers.\<close>

definition publish_credential :: "admin_env \<Rightarrow> StoreCredential \<Rightarrow> string \<Rightarrow> int \<Rightarrow> string \<Rightarrow> admin_state \<Rightarrow> admin_state \<times> admin_reply" where
  "publish_credential env row ident code failed s = (case UpsertCredential (StoreCredential_ToCore row) (srv_plane (ad_server s)) of
     Inl _ \<Rightarrow> (s, adminErr 500 (Message ''stored, not yet live''))
   | Inr plane \<Rightarrow> (with_plane plane s, case GetCredentialRedacted (ae_call env 1) ident (ad_upstreams s) of
       Inl _ \<Rightarrow> adminErr 500 (Message failed) | Inr safe \<Rightarrow> (code, CredentialBody (StoreCredential_ToCore safe))))"

definition createCredential :: "admin_env \<Rightarrow> Provider \<Rightarrow> string + Credential \<Rightarrow> admin_state \<Rightarrow> admin_state \<times> admin_reply" where
  "createCredential env provider bound s = (case bound of Inl e \<Rightarrow> (s, adminErr 400 (BindError e))
   | Inr payload \<Rightarrow> (case CreateCredential (ae_call env 0) (payload\<lparr>c_Provider := provider\<rparr>) (ad_upstreams s) of
       (t, Inl e) \<Rightarrow> (s\<lparr>ad_upstreams := t\<rparr>, adminErr 400 (CredentialFailure e))
     | (t, Inr row) \<Rightarrow> publish_credential env row (sc_ID row) 201 ''created, could not render'' (s\<lparr>ad_upstreams := t\<rparr>)))"

definition updateCredential :: "admin_env \<Rightarrow> string \<Rightarrow> string + UpdateCredentialRequest \<Rightarrow> admin_state \<Rightarrow> admin_state \<times> admin_reply" where
  "updateCredential env ident bound s = (case bound of Inl e \<Rightarrow> (s, adminErr 400 (BindError e))
   | Inr payload \<Rightarrow> (case UpdateCredential (ae_call env 0) ident payload (ad_upstreams s) of
       (t, Inl e) \<Rightarrow> (s\<lparr>ad_upstreams := t\<rparr>, adminErr 400 (CredentialFailure e))
     | (t, Inr row) \<Rightarrow> publish_credential env row ident 200 ''updated, could not render'' (s\<lparr>ad_upstreams := t\<rparr>)))"

definition deleteCredential :: "admin_env \<Rightarrow> Provider \<Rightarrow> string \<Rightarrow> admin_state \<Rightarrow> admin_state \<times> admin_reply" where
  "deleteCredential env providername ident s = (case GetCredential (ae_call env 0) ident (ad_upstreams s) of
     Inl _ \<Rightarrow> (s, adminErr 404 (Message ''credential not found''))
   | Inr row \<Rightarrow>
       let provider = c_Provider (StoreCredential_ToCore row) in
       if provider \<noteq> providername then (s, adminErr 404 (Message ''credential not found''))
       else case DeleteCredential (ae_call env 1) ident (ad_upstreams s) of
         (t, Some e) \<Rightarrow> (s\<lparr>ad_upstreams := t\<rparr>, adminErr 404 (CredentialFailure e))
       | (t, None) \<Rightarrow> (case RemoveCredential provider ident (srv_plane (ad_server s)) of
           Inl _ \<Rightarrow> (s\<lparr>ad_upstreams := t\<rparr>, adminErr 500 (Message ''deleted, still live''))
         | Inr plane \<Rightarrow> (with_plane plane (s\<lparr>ad_upstreams := t\<rparr>), (204, NoBody))))"

definition listCredentials :: "admin_env \<Rightarrow> Provider \<Rightarrow> admin_state \<Rightarrow> admin_state \<times> admin_reply" where
  "listCredentials env provider s = (s, case ListCredentialsByProviderRedacted (ae_call env 0) provider (ad_upstreams s) of
     Inl _ \<Rightarrow> adminErr 500 (Message ''listing credentials'') | Inr rows \<Rightarrow> (200, CredentialsBody (map StoreCredential_ToCore rows)))"

section \<open>Custom prices\<close>

definition with_catalog :: "ModelCatalog \<Rightarrow> admin_state \<Rightarrow> admin_state" where
  "with_catalog c s = s\<lparr>ad_server := (ad_server s)\<lparr>srv_catalog := c\<rparr>\<rparr>"

definition reload_prices :: "admin_env \<Rightarrow> string \<Rightarrow> admin_reply \<Rightarrow> admin_state \<Rightarrow> admin_state \<times> admin_reply" where
  "reload_prices env failed reply s = (case ReloadCustomPricing (ae_call env 1) (ad_upstreams s) (ad_catalog s) (srv_catalog (ad_server s)) of
     None \<Rightarrow> (s, adminErr 500 (Message failed)) | Some c \<Rightarrow> (with_catalog c s, reply))"

definition createCustomPricing :: "admin_env \<Rightarrow> string + CustomPricingRequest \<Rightarrow> admin_state \<Rightarrow> admin_state \<times> admin_reply" where
  "createCustomPricing env bound s = (case bound of Inl e \<Rightarrow> (s, adminErr 400 (BindError e))
   | Inr payload \<Rightarrow> (case CreateCustomPricing (ae_call env 0) (ad_upstreams s) payload (ad_catalog s) of
       (t, Inl e) \<Rightarrow> (s\<lparr>ad_catalog := t\<rparr>, adminErr 400 (PricingFailure e))
     | (t, Inr row) \<Rightarrow> reload_prices env ''stored, not yet live'' (201, PricingBody (StoreCustomModelPricing_ToCore row)) (s\<lparr>ad_catalog := t\<rparr>)))"

definition updateCustomPricing :: "admin_env \<Rightarrow> string \<Rightarrow> string + Pricing \<Rightarrow> admin_state \<Rightarrow> admin_state \<times> admin_reply" where
  "updateCustomPricing env ident bound s = (case bound of Inl e \<Rightarrow> (s, adminErr 400 (BindError e))
   | Inr payload \<Rightarrow> (case UpdateCustomPricing (ae_call env 0) (ad_upstreams s) ident payload (ad_catalog s) of
       (t, Inl e) \<Rightarrow> (s\<lparr>ad_catalog := t\<rparr>, adminErr 400 (PricingFailure e))
     | (t, Inr row) \<Rightarrow> reload_prices env ''stored, not yet live'' (200, PricingBody (StoreCustomModelPricing_ToCore row)) (s\<lparr>ad_catalog := t\<rparr>)))"

definition deleteCustomPricing :: "admin_env \<Rightarrow> string \<Rightarrow> admin_state \<Rightarrow> admin_state \<times> admin_reply" where
  "deleteCustomPricing env ident s = (case DeleteCustomPricing (ae_call env 0) ident (ad_catalog s) of
     (t, Some e) \<Rightarrow> (s\<lparr>ad_catalog := t\<rparr>, adminErr 404 (PricingFailure e))
   | (t, None) \<Rightarrow> reload_prices env ''deleted, still live'' (204, NoBody) (s\<lparr>ad_catalog := t\<rparr>))"

definition listCustomPricing :: "admin_env \<Rightarrow> CustomPricingFilters \<Rightarrow> admin_state \<Rightarrow> admin_state \<times> admin_reply" where
  "listCustomPricing env filters s = (s, case ListCustomPricingFiltered (ae_call env 0) (ad_upstreams s) filters (ad_catalog s) of
     Inl _ \<Rightarrow> adminErr 500 (Message ''listing custom pricing'') | Inr rows \<Rightarrow> (200, PricingsBody (map StoreCustomModelPricing_ToCore rows)))"

section \<open>Providers\<close>

definition annotate :: "admin_state \<Rightarrow> StoreProvider \<Rightarrow> StoreProvider" where
  "annotate s row = row\<lparr>sp_AdapterEnabled := Registry_Has (srv_registry (ad_server s)) (sp_Name row),
     sp_ModelCount := int (ModelCount (srv_catalog (ad_server s)) (sp_Name row))\<rparr>"

definition listProviders :: "admin_env \<Rightarrow> admin_state \<Rightarrow> admin_state \<times> admin_reply" where
  "listProviders env s = (s, case ListProvidersRedacted (ae_call env 0) (ad_upstreams s) of
     Inl _ \<Rightarrow> adminErr 500 (Message ''listing providers'') | Inr rows \<Rightarrow> (200, ProvidersBody (map (annotate s) rows)))"

definition getProvider :: "admin_env \<Rightarrow> Provider \<Rightarrow> admin_state \<Rightarrow> admin_state \<times> admin_reply" where
  "getProvider env providername s = (s, case GetProviderRedacted (ae_call env 0) providername (ad_upstreams s) of
     Inl _ \<Rightarrow> adminErr 404 (Message ''provider not found'') | Inr row \<Rightarrow> (200, ProviderBody (annotate s row)))"

definition getProviderSettings :: "admin_env \<Rightarrow> Provider \<Rightarrow> admin_state \<Rightarrow> admin_state \<times> admin_reply" where
  "getProviderSettings env providername s = (s, case GetProviderRedacted (ae_call env 0) providername (ad_upstreams s) of
     Inl _ \<Rightarrow> adminErr 404 (Message ''provider not found'')
   | Inr row \<Rightarrow> (200, SettingsBody (EffectiveNetwork (ad_transport s) (sp_Network row)) (sp_Proxy row) (sp_Network row)))"

definition validateProviderSettings :: "(string \<Rightarrow> bool) \<Rightarrow> updateProviderRequest \<Rightarrow> string option" where
  "validateProviderSettings url_ok payload =
    (if (case RequestTimeout (upr_Network payload) of None \<Rightarrow> False | Some d \<Rightarrow> d \<le> 0) then Some ''request_timeout must be positive''
     else if (case RetryBackoff (upr_Network payload) of None \<Rightarrow> False | Some d \<Rightarrow> d \<le> 0) then Some ''retry_backoff must be positive''
     else if (case MaxConnsPerHost (upr_Network payload) of None \<Rightarrow> False | Some n \<Rightarrow> n \<le> 0) then Some ''max_conns_per_host must be positive''
     else case upr_Proxy payload of None \<Rightarrow> None
     | Some proxy \<Rightarrow>
         if pc_Type proxy = ''http'' \<or> pc_Type proxy = ''socks5'' then
           (if \<not> url_ok (pc_URL proxy) \<or> pc_URL proxy = [] then Some ''proxy url is required and must parse'' else None)
         else if pc_Type proxy = ''environment'' then
           (if pc_URL proxy \<noteq> [] then Some ''proxy url must be empty for type environment'' else None)
         else Some ''unknown proxy type'')"

text \<open>The map of upstreams by name, in the order in which it is visited.\<close>

definition upstreams_of :: "Provider list \<Rightarrow> StoreProvider list \<Rightarrow> (Provider \<times> Upstream) list" where
  "upstreams_of order rows =
    (let table = foldl (\<lambda>m row. m(sp_Name row \<mapsto> StoreProvider_ToUpstream row)) Map.empty rows
     in concat (map (\<lambda>p. case table p of None \<Rightarrow> [] | Some u \<Rightarrow> [(p, u)]) order))"

definition updateProvider :: "admin_env \<Rightarrow> Provider \<Rightarrow> string + updateProviderRequest \<Rightarrow> admin_state \<Rightarrow> admin_state \<times> admin_reply" where
  "updateProvider env provider bound s = (case bound of Inl e \<Rightarrow> (s, adminErr 400 (BindError e))
   | Inr payload \<Rightarrow>
       if \<not> Registry_Has (srv_registry (ad_server s)) provider
       then (s, adminErr 400 (Message ''provider has no registered adapter in this build''))
       else if NetworkConfig_IsZero (upr_Network payload) \<and> upr_Proxy payload = None
       then (s, adminErr 400 (Message ''empty settings; PUT replaces the whole config''))
       else if (AllowPrivateNetwork (upr_Network payload) \<or> InsecureSkipVerify (upr_Network payload)) \<and> \<not> upr_ConfirmUnsafe payload
       then (s, adminErr 400 (Message ''allow_private_network and insecure_skip_verify require confirm_unsafe''))
       else case validateProviderSettings (ae_url_ok env) payload of Some e \<Rightarrow> (s, adminErr 400 (Message e))
       | None \<Rightarrow> (case UpdateProviderConfig (ae_call env 0) provider (upr_Network payload) (upr_Proxy payload) (ad_upstreams s) of
           (t, Some e) \<Rightarrow> (s\<lparr>ad_upstreams := t\<rparr>, adminErr 400 (CredentialFailure e))
         | (t, None) \<Rightarrow> (case ListProviders (ae_call env 1) t of
             Inl _ \<Rightarrow> (s\<lparr>ad_upstreams := t\<rparr>, adminErr 500 (Message ''stored, not yet live''))
           | Inr rows \<Rightarrow>
               (case Transport_Replace (ae_url_ok env) (ae_socks_ok env) (upstreams_of (ae_providers env) rows) (ad_transport s) of
                  (transport, failed, _) \<Rightarrow>
                    let s1 = s\<lparr>ad_upstreams := t, ad_transport := transport\<rparr> in
                    if provider \<in> set failed then (s1, adminErr 500 (Message ''stored, still running the previous config''))
                    else (s1, case GetProviderRedacted (ae_call env 2) provider t of
                      Inl _ \<Rightarrow> adminErr 500 (Message ''updated, could not render'') | Inr row \<Rightarrow> (200, ProviderBody (annotate s1 row)))))))"

section \<open>Models\<close>

definition pageParams :: "string \<Rightarrow> string \<Rightarrow> int \<Rightarrow> int \<Rightarrow> int \<times> int" where
  "pageParams limit_query offset_query fallback cap =
    (let limit = (case Atoi limit_query of None \<Rightarrow> fallback | Some n \<Rightarrow> if n > 0 then n else fallback);
         limit1 = (if limit > cap then cap else limit);
         offset = (case Atoi offset_query of None \<Rightarrow> 0 | Some n \<Rightarrow> if n > 0 then n else 0)
     in (limit1, offset))"

definition listModels :: "admin_env \<Rightarrow> Provider \<Rightarrow> admin_state \<Rightarrow> admin_state \<times> admin_reply" where
  "listModels env provider s =
    (let entries = Models (srv_catalog (ad_server s)) provider;
         runnable = set (Registry_Providers (srv_registry (ad_server s)));
         shown = map (\<lambda>e. \<lparr>mo_ID = mm_ID e, mo_ModelName = mm_ModelName e, mo_ModelType = ModelType_String (mm_ModelType e)\<rparr>)
           (filter (\<lambda>e. mm_Provider e \<in> runnable) entries)
     in (s, (200, ModelsBody (ae_sort_options env shown))))"

definition page_window :: "int \<Rightarrow> int \<Rightarrow> 'a list \<Rightarrow> int \<times> 'a list" where
  "page_window limit offset entries =
    (let total = int (length entries);
         offset1 = (if offset > total then total else offset);
         last = (if offset1 + limit > total then total else offset1 + limit)
     in (offset1, take (nat (last - offset1)) (drop (nat offset1) entries)))"

definition listModelCatalog :: "admin_env \<Rightarrow> Provider \<Rightarrow> string \<Rightarrow> string \<Rightarrow> admin_state \<Rightarrow> admin_state \<times> admin_reply" where
  "listModelCatalog env provider limit_query offset_query s =
    (if provider = [] then (s, adminErr 400 (Message ''provider is required''))
     else if \<not> Registry_Has (srv_registry (ad_server s)) provider
     then (s, adminErr 400 (Message ''provider has no registered adapter in this build''))
     else case pageParams limit_query offset_query 100 500 of (limit, offset) \<Rightarrow>
       let entries = ae_sort_models env (Models (srv_catalog (ad_server s)) provider) in
       case page_window limit offset entries of (offset1, window) \<Rightarrow>
         (s, (200, PageBody \<lparr>cp_Models = map (\<lambda>e. \<lparr>en_ModelMetadata = e,
              en_Pricing = BasePrice (srv_catalog (ad_server s)) (ModelMetadata_CatalogKey e)\<rparr>) window,
            cp_Total = int (length entries), cp_Limit = limit, cp_Offset = offset1\<rparr>)))"

section \<open>Health and jobs\<close>

definition handleStats :: "admin_state \<Rightarrow> admin_state \<times> admin_reply" where
  "handleStats s = (s, (200, StatsBody (ad_isReady s) (Group_Stats (ad_governanceJobs s)) (Group_Stats (ad_catalogJobs s))
     (case ad_metricsJobs s of None \<Rightarrow> [] | Some g \<Rightarrow> Group_Stats g)))"

definition JobCatalogSync :: string where "JobCatalogSync = ''catalog_sync''"

definition handleModelCatalog :: "admin_state \<Rightarrow> admin_state \<times> admin_reply" where
  "handleModelCatalog s = (case Group_Trigger JobCatalogSync (ad_catalogJobs s) of
     (g, Some e) \<Rightarrow> (s\<lparr>ad_catalogJobs := g\<rparr>, adminErr 500 (JobFailure e))
   | (g, None) \<Rightarrow> (s\<lparr>ad_catalogJobs := g\<rparr>, (202, StatusBody ''catalog sync triggered'')))"

definition handleHealth :: "admin_state \<Rightarrow> admin_state \<times> admin_reply" where
  "handleHealth s = (s, (200, StatusBody ''ok''))"

definition ready_checks :: "admin_state \<Rightarrow> (string \<times> bool) list" where
  "ready_checks s = [(''listening'', ad_isReady s), (''catalog'', Catalog_Ready (srv_catalog (ad_server s))),
     (''adapters'', Registry_Len (srv_registry (ad_server s)) > 0), (''governance'', Governance_Ready (Some (srv_governance (ad_server s)))),
     (''hooks'', Registered (hook_engine (ad_server s)) > 0)]"

definition handleReady :: "admin_state \<Rightarrow> admin_state \<times> admin_reply" where
  "handleReady s = (s, if list_ex (\<lambda>(_, ok). \<not> ok) (ready_checks s) then (503, ChecksBody ''not ready'' (ready_checks s))
     else (200, ChecksBody ''ready'' (ready_checks s)))"

section \<open>Routes\<close>

text \<open>
  The routes of the administrative group with their handlers. The body comes bound to each payload type; a path is its list of segments
  below \<^verbatim>\<open>/v1/admin\<close>. The metrics group is left out.
\<close>

datatype admin_call = CallStats | CallSyncCatalog | CallListBudgets | CallCreateBudget "string + Budget" | CallGetBudget string
  | CallUpdateBudget string "string + Budget" | CallDeleteBudget string | CallListKeys | CallCreateKey "string + VirtualKeyRequest"
  | CallGetKey string | CallRouting string "string + UpdateVirtualKeyRoutingRequest" | CallRotate string | CallKeyStatus string "string + bool"
  | CallRevoke string | CallListProviders | CallGetProvider Provider | CallGetSettings Provider
  | CallUpdateProvider Provider "string + updateProviderRequest" | CallListCredentials Provider
  | CallCreateCredential Provider "string + Credential" | CallUpdateCredential string "string + UpdateCredentialRequest"
  | CallDeleteCredential Provider string | CallListModels Provider | CallListModelCatalog Provider string string
  | CallListPricing CustomPricingFilters | CallCreatePricing "string + CustomPricingRequest" | CallUpdatePricing string "string + Pricing"
  | CallDeletePricing string

fun admin :: "admin_env \<Rightarrow> admin_call \<Rightarrow> admin_state \<Rightarrow> admin_state \<times> admin_reply" where
  "admin env CallStats s = handleStats s"
| "admin env CallSyncCatalog s = handleModelCatalog s"
| "admin env CallListBudgets s = listBudgets env s"
| "admin env (CallCreateBudget body) s = createBudget env body s"
| "admin env (CallGetBudget ident) s = getBudget env ident s"
| "admin env (CallUpdateBudget ident body) s = updateBudget env ident body s"
| "admin env (CallDeleteBudget ident) s = deleteBudget env ident s"
| "admin env CallListKeys s = listVirtualKeys env s"
| "admin env (CallCreateKey body) s = createVirtualKey env body s"
| "admin env (CallGetKey ident) s = getVirtualKey env ident s"
| "admin env (CallRouting ident body) s = updateVirtualKeyRouting env ident body s"
| "admin env (CallRotate ident) s = rotateVirtualKey env ident s"
| "admin env (CallKeyStatus ident body) s = setVirtualKeyStatus env ident body s"
| "admin env (CallRevoke ident) s = revokeVirtualKey env ident s"
| "admin env CallListProviders s = listProviders env s"
| "admin env (CallGetProvider name) s = getProvider env name s"
| "admin env (CallGetSettings name) s = getProviderSettings env name s"
| "admin env (CallUpdateProvider name body) s = updateProvider env name body s"
| "admin env (CallListCredentials name) s = listCredentials env name s"
| "admin env (CallCreateCredential name body) s = createCredential env name body s"
| "admin env (CallUpdateCredential ident body) s = updateCredential env ident body s"
| "admin env (CallDeleteCredential name ident) s = deleteCredential env name ident s"
| "admin env (CallListModels name) s = listModels env name s"
| "admin env (CallListModelCatalog name l i) s = listModelCatalog env name l i s"
| "admin env (CallListPricing filters) s = listCustomPricing env filters s"
| "admin env (CallCreatePricing body) s = createCustomPricing env body s"
| "admin env (CallUpdatePricing ident body) s = updateCustomPricing env ident body s"
| "admin env (CallDeletePricing ident) s = deleteCustomPricing env ident s"

record admin_bodies =
  bd_budget :: "string + Budget"
  bd_key :: "string + VirtualKeyRequest"
  bd_routing :: "string + UpdateVirtualKeyRoutingRequest"
  bd_status :: "string + bool"
  bd_provider :: "string + updateProviderRequest"
  bd_credential :: "string + Credential"
  bd_update :: "string + UpdateCredentialRequest"
  bd_custom :: "string + CustomPricingRequest"
  bd_pricing :: "string + Pricing"

definition admin_collection :: "admin_bodies \<Rightarrow> (string \<Rightarrow> string) \<Rightarrow> string \<Rightarrow> (string \<times> admin_call) list" where
  "admin_collection bd q a =
    (if a = ''stats'' then [(''GET'', CallStats)]
     else if a = ''budgets'' then [(''GET'', CallListBudgets), (''POST'', CallCreateBudget (bd_budget bd))]
     else if a = ''virtual-keys'' then [(''GET'', CallListKeys), (''POST'', CallCreateKey (bd_key bd))]
     else if a = ''providers'' then [(''GET'', CallListProviders)]
     else if a = ''models'' then [(''GET'', CallListModels (q ''provider''))]
     else [])"

definition admin_item :: "admin_bodies \<Rightarrow> (string \<Rightarrow> string) \<Rightarrow> string \<Rightarrow> string \<Rightarrow> (string \<times> admin_call) list" where
  "admin_item bd q a b =
    (if a = ''sync'' \<and> b = ''catalog'' then [(''POST'', CallSyncCatalog)]
     else if a = ''models'' \<and> b = ''catalog'' then [(''GET'', CallListModelCatalog (q ''provider'') (q ''limit'') (q ''offset''))]
     else if a = ''pricing'' \<and> b = ''custom'' then [(''GET'', CallListPricing \<lparr>cf_ScopeType = q ''scope_type'', cf_VirtualKeyID = q ''virtual_key_id'',
         cf_Provider = q ''provider'', cf_ModelName = q ''model_name''\<rparr>), (''POST'', CallCreatePricing (bd_custom bd))]
     else if b = [] then []
     else if a = ''budgets'' then [(''GET'', CallGetBudget b), (''PUT'', CallUpdateBudget b (bd_budget bd)), (''DELETE'', CallDeleteBudget b)]
     else if a = ''virtual-keys'' then [(''GET'', CallGetKey b), (''DELETE'', CallRevoke b)]
     else if a = ''providers'' then [(''GET'', CallGetProvider b)]
     else [])"

definition admin_part :: "admin_bodies \<Rightarrow> string \<Rightarrow> string \<Rightarrow> string \<Rightarrow> (string \<times> admin_call) list" where
  "admin_part bd a b c =
    (if a = ''pricing'' \<and> b = ''custom'' \<and> c \<noteq> [] then [(''PUT'', CallUpdatePricing c (bd_pricing bd)), (''DELETE'', CallDeletePricing c)]
     else if b = [] then []
     else if a = ''virtual-keys'' \<and> c = ''routing'' then [(''PUT'', CallRouting b (bd_routing bd))]
     else if a = ''virtual-keys'' \<and> c = ''rotate'' then [(''POST'', CallRotate b)]
     else if a = ''virtual-keys'' \<and> c = ''status'' then [(''PUT'', CallKeyStatus b (bd_status bd))]
     else if a = ''providers'' \<and> c = ''settings'' then [(''GET'', CallGetSettings b), (''PUT'', CallUpdateProvider b (bd_provider bd))]
     else if a = ''providers'' \<and> c = ''credentials'' then [(''GET'', CallListCredentials b), (''POST'', CallCreateCredential b (bd_credential bd))]
     else [])"

definition admin_routes :: "admin_bodies \<Rightarrow> (string \<Rightarrow> string) \<Rightarrow> string list \<Rightarrow> (string \<times> admin_call) list" where
  "admin_routes bd q path = (case path of
     [a] \<Rightarrow> admin_collection bd q a
   | [a, b] \<Rightarrow> admin_item bd q a b
   | [a, b, c] \<Rightarrow> admin_part bd a b c
   | [a, b, c, d] \<Rightarrow> if a = ''providers'' \<and> b \<noteq> [] \<and> c = ''credentials'' \<and> d \<noteq> []
       then [(''PUT'', CallUpdateCredential d (bd_update bd)), (''DELETE'', CallDeleteCredential b d)] else []
   | _ \<Rightarrow> [])"

definition serve_admin :: "admin_env \<Rightarrow> admin_bodies \<Rightarrow> (string \<Rightarrow> string) \<Rightarrow> string \<Rightarrow> string list \<Rightarrow> admin_state \<Rightarrow> admin_state \<times> admin_reply" where
  "serve_admin env bd q method path s = (case admin_routes bd q path of
     [] \<Rightarrow> (s, adminErr 404 (Message ''unknown or unsupported endpoint''))
   | routes \<Rightarrow> (case map_of routes method of None \<Rightarrow> (s, adminErr 405 (Message ''method not allowed'')) | Some call \<Rightarrow> admin env call s))"

text \<open>The pass that loads the keys, run by its job in the same process.\<close>

definition sync_keys :: "store_env \<Rightarrow> time \<Rightarrow> admin_state \<Rightarrow> admin_state" where
  "sync_keys env now s = with_governance (\<lambda>g. fst (syncVirtualKey now
     (case ListVirtualKeys env (ad_keys s) of Inl _ \<Rightarrow> None | Inr rows \<Rightarrow> Some rows) g)) s"

end
