(* ===== verification/KeyCache.thy ===== *)
theory KeyCache
  imports KeyBinding
begin

text \<open>
  The cache of virtual keys against the table it is filled from: what it means that the cache follows the table, and that
  writing a row and then its entry, or writing a row and then dropping its entry, keeps it so.
\<close>

section \<open>The entry of a row\<close>

definition opened :: "gcm_cipher \<Rightarrow> string \<Rightarrow> StoreVirtualKey \<Rightarrow> StoreVirtualKey option" where
  "opened gcm passkey row = (if svk_APIKey row = [] then Some row
     else map_option (\<lambda>apiKey. row\<lparr>svk_APIKey := apiKey\<rparr>) (decryptKey gcm (svk_APIKey row) passkey))"

definition core_of :: "gcm_cipher \<Rightarrow> string \<Rightarrow> StoreVirtualKey \<Rightarrow> VirtualKey option" where
  "core_of gcm passkey row = (case opened gcm passkey row of None \<Rightarrow> None
   | Some key \<Rightarrow> (case StoreVirtualKey_ToCore key of Inl _ \<Rightarrow> None | Inr vk \<Rightarrow> Some vk))"

lemma AfterFind_opened: "StoreVirtualKey_AfterFind env False row = Inr key \<longleftrightarrow> opened (se_gcm env) (se_passkey env) row = Some key"
  by (auto simp: StoreVirtualKey_AfterFind_def opened_def split: option.splits)

lemma opened_fields:
  "opened gcm passkey row = Some key \<Longrightarrow> key = row\<lparr>svk_APIKey := svk_APIKey key\<rparr>"
  by (auto simp: opened_def split: if_splits)

lemma core_of_fields:
  assumes "core_of gcm passkey row = Some vk"
  shows "vk_ID vk = svk_ID row" "vk_IsActive vk = svk_IsActive row" "vk_ExpiresAt vk = svk_ExpiresAt row" "vk_BudgetID vk = svk_BudgetID row"
    "vk_ClientID vk = svk_ClientID row" "\<exists>key. opened gcm passkey row = Some key \<and> vk_Key vk = svk_APIKey key"
proof -
  from assms obtain key where key: "opened gcm passkey row = Some key" "StoreVirtualKey_ToCore key = Inr vk"
    by (auto simp: core_of_def split: option.splits sum.splits)
  note f = ToCore_fields [OF key(2)] opened_fields [OF key(1)]
  show "vk_ID vk = svk_ID row" "vk_IsActive vk = svk_IsActive row" "vk_ExpiresAt vk = svk_ExpiresAt row" "vk_BudgetID vk = svk_BudgetID row"
    "vk_ClientID vk = svk_ClientID row"
    using f by (metis StoreVirtualKey.select_convs StoreVirtualKey.surjective StoreVirtualKey.update_convs(2))+
  show "\<exists>key. opened gcm passkey row = Some key \<and> vk_Key vk = svk_APIKey key" using f key by blast
qed

section \<open>A cache that follows the table\<close>

definition cache_follows :: "gcm_cipher \<Rightarrow> string \<Rightarrow> KeyTables \<Rightarrow> VirtualkeyCache \<Rightarrow> bool" where
  "cache_follows gcm passkey t c \<longleftrightarrow> distinct (map svk_ID (kt_keys t)) \<and> all_loadable t
     \<and> (\<forall>k v. LookupVkey k c = Some v \<longrightarrow> vk_Key v = k \<and> (\<exists>row \<in> set (kt_keys t). core_of gcm passkey row = Some v))"

lemma followsD:
  assumes "cache_follows gcm passkey t c" "LookupVkey k c = Some v"
  obtains row where "vk_Key v = k" "row \<in> set (kt_keys t)" "core_of gcm passkey row = Some v" "svk_ID row = vk_ID v"
  using assms core_of_fields(1) by (fastforce simp: cache_follows_def)

lemma one_entry:
  assumes "cache_follows gcm passkey t c" "LookupVkey k c = Some v" "LookupVkey k' c = Some v'" "vk_ID v = vk_ID v'"
  shows "k = k'"
proof -
  obtain r r' where r: "vk_Key v = k" "r \<in> set (kt_keys t)" "core_of gcm passkey r = Some v" "svk_ID r = vk_ID v"
    "vk_Key v' = k'" "r' \<in> set (kt_keys t)" "core_of gcm passkey r' = Some v'" "svk_ID r' = vk_ID v'"
    using followsD [OF assms(1,2)] followsD [OF assms(1,3)] by metis
  have "inj_on svk_ID (set (kt_keys t))" using assms(1) by (simp add: cache_follows_def distinct_map)
  then have "r = r'" by (rule inj_onD) (use assms(4) r in simp_all)
  with r show ?thesis by auto
qed

text \<open>The rows of other keys are still there.\<close>

definition others_kept :: "string \<Rightarrow> KeyTables \<Rightarrow> KeyTables \<Rightarrow> bool" where
  "others_kept ident t t' \<longleftrightarrow> (\<forall>r \<in> set (kt_keys t). svk_ID r \<noteq> ident \<longrightarrow> r \<in> set (kt_keys t'))"

lemma follows_change:
  assumes "cache_follows gcm passkey t c" "others_kept ident t t'" "distinct (map svk_ID (kt_keys t'))" "all_loadable t'"
    and "\<And>k v. LookupVkey k c' = Some v \<Longrightarrow> (LookupVkey k c = Some v \<and> vk_ID v \<noteq> ident)
      \<or> (vk_Key v = k \<and> (\<exists>row \<in> set (kt_keys t'). core_of gcm passkey row = Some v))"
  shows "cache_follows gcm passkey t' c'"
  using assms unfolding cache_follows_def others_kept_def by (metis core_of_fields(1))

lemma follows_rows_kept:
  assumes "cache_follows gcm passkey t c" "kt_keys t' = kt_keys t"
  shows "cache_follows gcm passkey t' c"
  using assms by (simp add: cache_follows_def all_loadable_def)

lemma delete_entry:
  assumes "cache_follows gcm passkey t c" "\<And>k v. LookupVkey k c = Some v \<Longrightarrow> k \<in> set order"
  shows "LookupVkey k (fst (DeleteVirtualKeyByID order ident c)) = Some v \<longleftrightarrow> LookupVkey k c = Some v \<and> vk_ID v \<noteq> ident"
proof -
  obtain c' found where d: "DeleteVirtualKeyByID order ident c = (c', found)" by force
  show ?thesis
  proof (cases found)
    case True
    then obtain key w where w: "LookupVkey key c = Some w" "vk_ID w = ident" "\<And>k. LookupVkey k c' = (if k = key then None else LookupVkey k c)"
      using LookupVkey_Delete [OF d] by auto
    have "k = key" if "LookupVkey k c = Some v" "vk_ID v = ident" using one_entry [OF assms(1) that(1) w(1)] that(2) w(2) by simp
    with w show ?thesis by (auto simp: d)
  next
    case False
    have "vk_ID v \<noteq> ident" if "LookupVkey k c = Some v" for k v
    proof
      assume "vk_ID v = ident"
      with that False d assms(2) [OF that] show False
        by (auto simp: DeleteVirtualKeyByID_def Let_def find_None_iff LookupVkey_def VirtualkeyCache_clone_def split: option.splits)
    qed
    with False LookupVkey_Delete [OF d] show ?thesis by (auto simp: d)
  qed
qed

lemma follows_deleted:
  assumes "cache_follows gcm passkey t c" "\<And>k v. LookupVkey k c = Some v \<Longrightarrow> k \<in> set order"
    and "others_kept ident t t'" "distinct (map svk_ID (kt_keys t'))" "all_loadable t'"
  shows "cache_follows gcm passkey t' (fst (DeleteVirtualKeyByID order ident c))"
  by (rule follows_change [OF assms(1,3-5)]) (simp add: delete_entry [OF assms(1,2)])

lemma follows_upserted:
  assumes "cache_follows gcm passkey t c" "others_kept ident t t'" "distinct (map svk_ID (kt_keys t'))" "all_loadable t'"
    and "row \<in> set (kt_keys t')" "core_of gcm passkey row = Some vk"
    and "\<And>k v. LookupVkey k c = Some v \<Longrightarrow> vk_ID v = ident \<Longrightarrow> k = vk_Key vk"
  shows "cache_follows gcm passkey t' (UpsertVirtualKey (Some vk) c)"
  by (rule follows_change [OF assms(1-4)]) (use assms(5-7) in \<open>auto simp: LookupVkey_Upsert split: if_splits\<close>)

section \<open>What the operations of the store leave\<close>

text \<open>The configured cipher, nonces of the length it needs, and reads after a statement that succeed.\<close>

definition serving :: "gcm_cipher \<Rightarrow> string \<Rightarrow> store_env \<Rightarrow> bool" where
  "serving gcm passkey env \<longleftrightarrow> se_gcm env = gcm \<and> se_passkey env = passkey \<and> se_reload env
     \<and> (\<forall>n. se_nonce env = Some n \<longrightarrow> length n = NonceSize)"

lemma servingD:
  assumes "serving gcm passkey env"
  shows "se_gcm env = gcm" "se_passkey env = passkey" "se_reload env" "\<And>n. se_nonce env = Some n \<Longrightarrow> length n = NonceSize"
  using assms by (simp_all add: serving_def)

text \<open>The row of an identifier was written and read again; the rows of the others are as they were.\<close>

definition row_written :: "store_env \<Rightarrow> string \<Rightarrow> KeyTables \<Rightarrow> KeyTables \<Rightarrow> StoreVirtualKey \<Rightarrow> bool" where
  "row_written env ident t t' key \<longleftrightarrow> others_kept ident t t' \<and> (distinct (map svk_ID (kt_keys t)) \<longrightarrow> distinct (map svk_ID (kt_keys t')))
     \<and> key_row env False ident t' = Inr key"

lemma key_row_core:
  assumes "key_row env False ident t = Inr key" "StoreVirtualKey_ToCore key = Inr vk"
  obtains row where "row \<in> set (kt_keys t)" "core_of (se_gcm env) (se_passkey env) row = Some vk" "vk_ID vk = ident" "vk_Key vk = svk_APIKey key"
proof -
  from assms(1) obtain row where row: "row \<in> set (kt_keys t)" "svk_ID row = ident" "StoreVirtualKey_AfterFind env False row = Inr key"
    by (rule key_row_found)
  have c: "core_of (se_gcm env) (se_passkey env) row = Some vk" using row(3) assms(2) by (simp add: core_of_def AfterFind_opened)
  show thesis using that [OF row(1) c] core_of_fields(1) [OF c] row(2) ToCore_fields [OF assms(2)] by simp
qed

lemma ids_set_key:
  "(\<And>r. svk_ID r = ident \<Longrightarrow> svk_ID (f r) = ident) \<Longrightarrow> map svk_ID (kt_keys (set_key ident f t)) = map svk_ID (kt_keys t)"
  "others_kept ident t (set_key ident f t)"
  by (auto simp: set_key_def others_kept_def)

lemma others_kept_budget: "others_kept ident t (set_budget_status now b st t') = others_kept ident t t'"
  by (simp add: others_kept_def set_budget_status_def set_budget_def)

lemma find_flagged:
  "List.find (\<lambda>r. svk_ID r = ident) (map (\<lambda>r. if svk_ID r = ident then r\<lparr>svk_IsActive := active, svk_UpdatedAt := now\<rparr> else r) rs)
     = map_option (\<lambda>r. r\<lparr>svk_IsActive := active, svk_UpdatedAt := now\<rparr>) (List.find (\<lambda>r. svk_ID r = ident) rs)"
  by (induction rs) auto

lemma AfterFind_flagged:
  "StoreVirtualKey_AfterFind env False row = Inr key \<Longrightarrow>
     StoreVirtualKey_AfterFind env False (row\<lparr>svk_IsActive := active, svk_UpdatedAt := now\<rparr>) = Inr (key\<lparr>svk_IsActive := active, svk_UpdatedAt := now\<rparr>)"
  by (auto simp: StoreVirtualKey_AfterFind_def split: if_splits option.splits)

lemma written_flag:
  assumes "key_row env False ident t = Inr key"
  shows "row_written env ident t (set_budget_status now b st (set_key_active now' ident active t)) (key\<lparr>svk_IsActive := active, svk_UpdatedAt := now'\<rparr>)"
proof -
  from assms obtain row where row: "List.find (\<lambda>r. svk_ID r = ident) (kt_keys t) = Some row" "StoreVirtualKey_AfterFind env False row = Inr key"
    by (auto simp: key_row_def split: option.splits)
  have keys: "kt_keys (set_budget_status now b st (set_key_active now' ident active t))
      = map (\<lambda>r. if svk_ID r = ident then r\<lparr>svk_IsActive := active, svk_UpdatedAt := now'\<rparr> else r) (kt_keys t)"
    by (simp add: set_budget_status_def set_budget_def set_key_active_def set_key_def)
  have "key_row env False ident (set_budget_status now b st (set_key_active now' ident active t)) = Inr (key\<lparr>svk_IsActive := active, svk_UpdatedAt := now'\<rparr>)"
    unfolding key_row_def keys find_flagged row(1) by (simp add: AfterFind_flagged [OF row(2)])
  moreover have "map svk_ID (kt_keys (set_budget_status now b st (set_key_active now' ident active t))) = map svk_ID (kt_keys t)"
    unfolding keys by auto
  ultimately show ?thesis by (simp add: row_written_def others_kept_budget set_key_active_def ids_set_key)
qed

lemma SetActive_written:
  assumes "SetVirtualKeyActive env ident active t = (t', res)" "se_reload env"
  shows "case res of Inl e \<Rightarrow> t' = t
    | Inr row \<Rightarrow> row_written env ident t t' row \<and> svk_IsActive row = active \<and> (\<exists>old. key_row env False ident t = Inr old \<and> svk_APIKey row = svk_APIKey old)"
proof (cases "key_row env False ident t")
  case (Inr key)
  show ?thesis
  proof (cases "svk_IsActive key = active")
    case True
    have "row_written env ident t t key" using Inr by (simp add: row_written_def others_kept_def)
    moreover have "t' = t \<and> (res = Inl ErrDatabase \<or> res = Inr key)" using True Inr assms
      by (simp add: SetVirtualKeyActive_def GetVirtualKey_def split: if_splits)
    ultimately show ?thesis using True Inr by auto
  next
    case False
    have w: "row_written env ident t (set_budget_status now b st (set_key_active now' ident active t)) (key\<lparr>svk_IsActive := active, svk_UpdatedAt := now'\<rparr>)"
      for now b st now' by (rule written_flag [OF Inr])
    then have "key_row env False ident (set_budget_status now b st (set_key_active now' ident active t)) = Inr (key\<lparr>svk_IsActive := active, svk_UpdatedAt := now'\<rparr>)"
      for now b st now' by (simp add: row_written_def)
    with False Inr assms w show ?thesis
      by (auto simp: SetVirtualKeyActive_def GetVirtualKey_def Let_def split: if_splits sum.splits)
  qed
next
  case (Inl e)
  then have "t' = t \<and> (res = Inl ErrDatabase \<or> res = Inl e)" using assms(1) by (simp add: SetVirtualKeyActive_def split: if_splits)
  then show ?thesis by auto
qed

lemma Revoke_written:
  assumes "RevokeVirtualKey env ident t = (t', None)"
  shows "\<exists>row. row_written env ident t t' row \<and> \<not> svk_IsActive row"
  using assms written_flag [of env ident t _ "se_now env" _ "''released''" "se_now env" False]
  by (fastforce simp: RevokeVirtualKey_def split: if_splits sum.splits)

lemma Revoke_failed: "RevokeVirtualKey env ident t = (t', Some e) \<Longrightarrow> t' = t"
  by (auto simp: RevokeVirtualKey_def split: if_splits sum.splits)

lemma generated_valid: "GenerateVirtualKey source = Some (apiKey, hash, shown) \<Longrightarrow> ValidateKeySignature apiKey"
  using GenerateVirtualKey_valid [of source] by (auto split: option.splits)

context sealing
begin

lemma save_written:
  assumes "serving gcm passkey env" "key_row env False ident t = Inr old" "svk_ID key = ident" "save_key env key t = Inr t1"
  shows "row_written env ident t t1 (key\<lparr>svk_UpdatedAt := se_now env\<rparr>)"
proof -
  note sv = servingD [OF assms(1)]
  from assms(3,4) obtain stored where st: "StoreVirtualKey_BeforeSave env key = Inr stored"
    "t1 = set_key ident (\<lambda>_. stored\<lparr>svk_UpdatedAt := se_now env\<rparr>) t"
    by (auto simp: save_key_def split: sum.splits if_splits)
  have i: "svk_ID stored = ident" using st(1) assms(3) by (auto simp: StoreVirtualKey_BeforeSave_def split: option.splits)
  obtain r where "r \<in> set (kt_keys t)" "svk_ID r = ident" using assms(2) by (rule key_row_found)
  then have "List.find (\<lambda>r. svk_ID r = ident) (kt_keys t1) = Some (stored\<lparr>svk_UpdatedAt := se_now env\<rparr>)"
    using i by (auto simp: st(2) set_key_def find_map_update)
  from stored_row_reads [OF sv(1) sv(4) st(1) this] i show ?thesis by (simp add: row_written_def st(2) ids_set_key)
qed

lemma key_row_ID: "key_row env masked ident t = Inr key \<Longrightarrow> svk_ID key = ident"
  by (erule key_row_found) (metis StoreVirtualKey.select_convs(1) StoreVirtualKey.surjective StoreVirtualKey.update_convs(2))

lemma Rotate_written:
  assumes "serving gcm passkey env" "RotateVirtualKey env ident t = (t', res)"
  shows "case res of Inl e \<Rightarrow> t' = t
    | Inr (row, apiKey) \<Rightarrow> row_written env ident t t' row \<and> svk_APIKey row = apiKey \<and> svk_IsActive row \<and> ValidateKeySignature apiKey"
proof (cases "t' = t \<and> (\<exists>e. res = Inl e)")
  case False
  with assms(2) obtain apiKey hash shown old where gen: "GenerateVirtualKey (se_random env) = Some (apiKey, hash, shown)"
    and old: "key_row env False ident t = Inr old" "svk_IsActive old"
    and save: "save_key env (old\<lparr>svk_APIKey := apiKey, svk_KeyHash := hash, svk_DisplayPrefix := shown\<rparr>) t = Inr t'"
    and res: "res = map_sum id (\<lambda>row. (row, apiKey)) (GetVirtualKey env ident t')"
    by (auto simp: RotateVirtualKey_def split: sum.splits if_splits option.splits)
  have "ValidateKeySignature apiKey" using gen generated_valid by blast
  moreover have w: "row_written env ident t t' (old\<lparr>svk_APIKey := apiKey, svk_KeyHash := hash, svk_DisplayPrefix := shown, svk_UpdatedAt := se_now env\<rparr>)"
    using save_written [OF assms(1) old(1) _ save] key_row_ID [OF old(1)] by simp
  ultimately show ?thesis using servingD(3) [OF assms(1)] old(2) by (auto simp: res GetVirtualKey_def row_written_def)
qed auto

lemma Routing_written:
  assumes "serving gcm passkey env" "UpdateVirtualKeyRouting env ident request t = (t', res)"
  shows "case res of Inl e \<Rightarrow> t' = t
    | Inr row \<Rightarrow> row_written env ident t t' row \<and> (\<exists>old. key_row env False ident t = Inr old \<and> svk_APIKey row = svk_APIKey old)"
proof (cases "t' = t \<and> (\<exists>e. res = Inl e)")
  case False
  obtain old where old: "key_row env False ident t = Inr old"
  proof (cases "key_row env False ident t")
    case (Inl e)
    with assms(2) have "t' = t \<and> (res = Inl ErrDatabase \<or> res = Inl e)" by (simp add: UpdateVirtualKeyRouting_def split: if_splits)
    with False show ?thesis by blast
  qed
  with assms(2) False obtain cs where save: "save_key env ((routed request old)\<lparr>svk_ProviderConfigs := cs\<rparr>) t = Inr t'" and res: "res = GetVirtualKey env ident t'"
    by (auto simp: UpdateVirtualKeyRouting_def Let_def split: sum.splits if_splits option.splits)
  have "row_written env ident t t' ((routed request old)\<lparr>svk_ProviderConfigs := cs, svk_UpdatedAt := se_now env\<rparr>)"
    using save_written [OF assms(1) old _ save] key_row_ID [OF old] by (simp add: routed_def)
  then show ?thesis using servingD(3) [OF assms(1)] old by (auto simp: res GetVirtualKey_def row_written_def routed_def)
qed auto

lemma Create_written:
  assumes "serving gcm passkey env" "CreateVirtualKeyTx env payload t = (t', res)"
  shows "case res of Inl e \<Rightarrow> t' = t
    | Inr (row, apiKey) \<Rightarrow> row_written env (se_uuid env) t t' row \<and> svk_APIKey row = apiKey \<and> svk_IsActive row \<and> ValidateKeySignature apiKey
        \<and> svk_BudgetID row = vq_BudgetID payload \<and> svk_ClientID row = vq_ClientID payload \<and> svk_ExpiresAt row = vq_ExpiresAt payload
        \<and> (\<forall>r \<in> set (kt_keys t). svk_ID r \<noteq> se_uuid env)"
proof (cases "t' = t \<and> (\<exists>e. res = Inl e)")
  case False
  note sv = servingD [OF assms(1)]
  from assms(2) False obtain b mode lb gen where gen: "GenerateVirtualKey (se_random env) = Some gen"
    and ins: "insert_key env (new_key env payload mode lb gen) (set_budget_status (se_now env) b ''bound'' t) = Inr t'"
    and res: "res = map_sum id (\<lambda>row. (row, fst gen)) (GetVirtualKey env (se_uuid env) t')"
    by (auto simp: CreateVirtualKeyTx_def split: sum.splits if_splits option.splits)
  let ?key = "new_key env payload mode lb gen"
  from ins obtain stored where st: "StoreVirtualKey_BeforeSave env ?key = Inr stored" "kt_keys t' = kt_keys t @ [stored]"
    and new: "\<forall>r \<in> set (kt_keys t). svk_ID r \<noteq> svk_ID ?key"
    by (auto simp: insert_key_def status_views list_ex_iff split: sum.splits if_splits)
  have id: "svk_ID ?key = se_uuid env" "?key\<lparr>svk_UpdatedAt := se_now env\<rparr> = ?key" by (simp_all add: new_key_def split: prod.split)
  have st': "svk_ID stored = se_uuid env" "stored\<lparr>svk_UpdatedAt := se_now env\<rparr> = stored"
    using st(1) by (auto simp: StoreVirtualKey_BeforeSave_def new_key_def split: option.splits prod.splits)
  then have "List.find (\<lambda>r. svk_ID r = se_uuid env) (kt_keys t') = Some stored"
    using new by (auto simp: st(2) id find_appended dest: find_SomeD split: option.splits)
  then have "key_row env False (se_uuid env) t' = Inr ?key"
    using stored_row_reads [OF sv(1) sv(4) st(1), where u = "se_now env" and t = t' and ident = "se_uuid env"] by (simp add: st' id)
  moreover have "ValidateKeySignature (fst gen)" using gen generated_valid by (metis prod.collapse)
  ultimately show ?thesis using sv(3) new st' id
    by (auto simp: res GetVirtualKey_def row_written_def others_kept_def st(2) new_key_def split: prod.splits)
qed auto

end

end
