(* ===== verification/AdminLife.thy ===== *)
theory AdminLife
  imports Admin KeyCache
begin

text \<open>
  What the administrative interface promises about virtual keys: the cache that requests are authenticated with follows the table of the
  database under every sequence of administrative calls and synchronisations, a key that was issued is live, and a key that was
  revoked, deactivated or rotated away is dead when the call is answered.
\<close>

section \<open>The state as table and cache\<close>

definition key_cache :: "admin_state \<Rightarrow> VirtualkeyCache" where
  "key_cache s = KeyCache (srv_governance (ad_server s))"

lemma key_cache_simps [simp]:
  "key_cache (with_keys f s) = f (key_cache s)" "key_cache (with_budgets g s) = key_cache s" "key_cache (with_plane p s) = key_cache s"
  "key_cache (with_catalog c s) = key_cache s" "key_cache (s\<lparr>ad_keys := t\<rparr>) = key_cache s" "key_cache (s\<lparr>ad_upstreams := u\<rparr>) = key_cache s"
  "key_cache (s\<lparr>ad_catalog := ct\<rparr>) = key_cache s" "key_cache (s\<lparr>ad_catalogJobs := j\<rparr>) = key_cache s"
  "key_cache (s\<lparr>ad_transport := tr\<rparr>) = key_cache s"
  by (simp_all add: key_cache_def with_keys_def with_budgets_def with_governance_def with_plane_def with_catalog_def)

lemma ad_keys_simps [simp]:
  "ad_keys (with_keys f s) = ad_keys s" "ad_keys (with_budgets g s) = ad_keys s" "ad_keys (with_plane p s) = ad_keys s"
  "ad_keys (with_catalog c s) = ad_keys s"
  by (simp_all add: with_keys_def with_budgets_def with_governance_def with_plane_def with_catalog_def)

text \<open>Before the first synchronisation the cache is empty.\<close>

definition booted :: "admin_state \<Rightarrow> bool" where
  "booted s \<longleftrightarrow> distinct (map svk_ID (kt_keys (ad_keys s))) \<and> all_loadable (ad_keys s) \<and> key_cache s = VirtualkeyCache_zero"

definition admin_ok :: "gcm_cipher \<Rightarrow> string \<Rightarrow> admin_env \<Rightarrow> admin_state \<Rightarrow> bool" where
  "admin_ok gcm passkey env s \<longleftrightarrow> serving gcm passkey (key_env env) \<and> (\<forall>k v. LookupVkey k (key_cache s) = Some v \<longrightarrow> k \<in> set (ae_order env))"

text \<open>A call, a synchronisation, or anything that touches neither the rows of the keys nor their cache.\<close>

inductive admin_run :: "gcm_cipher \<Rightarrow> string \<Rightarrow> admin_state \<Rightarrow> admin_state \<Rightarrow> bool" for gcm passkey s0 where
  boot: "admin_run gcm passkey s0 s0"
| call: "admin_run gcm passkey s0 s \<Longrightarrow> admin_ok gcm passkey env s \<Longrightarrow> admin_run gcm passkey s0 (fst (admin env op s))"
| sync: "admin_run gcm passkey s0 s \<Longrightarrow> se_gcm env = gcm \<Longrightarrow> se_passkey env = passkey \<Longrightarrow> admin_run gcm passkey s0 (sync_keys env now s)"
| elsewhere: "admin_run gcm passkey s0 s \<Longrightarrow> kt_keys (ad_keys s') = kt_keys (ad_keys s) \<Longrightarrow> key_cache s' = key_cache s \<Longrightarrow> admin_run gcm passkey s0 s'"

abbreviation key_inv :: "gcm_cipher \<Rightarrow> string \<Rightarrow> admin_state \<Rightarrow> bool" where
  "key_inv gcm passkey s \<equiv> cache_follows gcm passkey (ad_keys s) (key_cache s)"

lemma booted_follows: "booted s \<Longrightarrow> key_inv gcm passkey s"
  by (simp add: booted_def cache_follows_def LookupVkey_def VirtualkeyCache_zero_def)

section \<open>Synchronisation\<close>

lemma convert_keys_entries:
  "convert_keys rows acc = Inr out \<Longrightarrow> v \<in> set out \<Longrightarrow> v \<in> set acc \<or> (\<exists>row \<in> set rows. StoreVirtualKey_ToCore row = Inr v)"
  by (induction rows acc rule: convert_keys.induct) (auto split: sum.splits option.splits)

lemma follows_sync:
  assumes "cache_follows (se_gcm env) (se_passkey env) t (KeyCache g)" "ListVirtualKeys env t = Inr rows"
  shows "cache_follows (se_gcm env) (se_passkey env) t (KeyCache (fst (syncVirtualKey now (Some rows) g)))"
proof (cases "convert_keys rows []")
  case (Inr out)
  have rows: "list_all2 (\<lambda>r x. StoreVirtualKey_AfterFind env False r = Inr x) (kt_keys t) rows"
    using assms(2) by (auto simp: ListVirtualKeys_def intro: all_rows_found split: if_splits)
  have "vk_Key v = k \<and> (\<exists>row \<in> set (kt_keys t). core_of (se_gcm env) (se_passkey env) row = Some v)"
    if "LookupVkey k (LoadVirtualKeys now out (KeyCache g)) = Some v" for k v
  proof -
    from that have v: "v \<in> set out" "vk_Key v = k" by (auto simp: LookupVkey_Load dest: find_SomeD)
    from convert_keys_entries [OF Inr v(1)] obtain x where "x \<in> set rows" "StoreVirtualKey_ToCore x = Inr v" by auto
    moreover obtain row where "row \<in> set (kt_keys t)" "StoreVirtualKey_AfterFind env False row = Inr x"
      using list_all2_setD2 [OF rows \<open>x \<in> set rows\<close>] by blast
    ultimately show ?thesis using v(2) by (auto simp: core_of_def AfterFind_opened intro!: bexI [of _ row])
  qed
  with assms(1) show ?thesis by (simp add: syncVirtualKey_def Inr cache_follows_def)
qed (simp add: syncVirtualKey_def assms(1))

lemma follows_sync_keys: "key_inv (se_gcm env) (se_passkey env) s \<Longrightarrow> key_inv (se_gcm env) (se_passkey env) (sync_keys env now s)"
  using follows_sync [of env "ad_keys s" "srv_governance (ad_server s)"]
  by (auto simp: sync_keys_def with_governance_def key_cache_def syncVirtualKey_def split: sum.splits)

section \<open>The calls\<close>

lemma written_loadable:
  assumes "row_written env ident t t' key" "all_loadable t'"
  obtains vk where "StoreVirtualKey_ToCore key = Inr vk"
  using that key_row_loadable [OF assms(2)] assms(1) unfolding row_written_def loadable_ToCore by blast

lemma follows_written:
  assumes "cache_follows (se_gcm env) (se_passkey env) t c" "row_written env ident t t' key" "all_loadable t'" "StoreVirtualKey_ToCore key = Inr vk"
    and "\<And>k v. LookupVkey k c = Some v \<Longrightarrow> vk_ID v = ident \<Longrightarrow> k = svk_APIKey key"
  shows "cache_follows (se_gcm env) (se_passkey env) t' (UpsertVirtualKey (Some vk) c)"
proof -
  from assms(2) have w: "others_kept ident t t'" "distinct (map svk_ID (kt_keys t'))" "key_row env False ident t' = Inr key"
    using assms(1) by (auto simp: row_written_def cache_follows_def)
  obtain row where "row \<in> set (kt_keys t')" "core_of (se_gcm env) (se_passkey env) row = Some vk" "vk_Key vk = svk_APIKey key"
    using key_row_core [OF w(3) assms(4)] by metis
  then show ?thesis using follows_upserted [OF assms(1) w(1,2) assms(3)] assms(5) by auto
qed

lemma cached_under_stored_key:
  assumes "cache_follows (se_gcm env) (se_passkey env) t c" "key_row env False ident t = Inr old" "LookupVkey k c = Some v" "vk_ID v = ident"
  shows "k = svk_APIKey old"
proof -
  obtain row where row: "vk_Key v = k" "row \<in> set (kt_keys t)" "core_of (se_gcm env) (se_passkey env) row = Some v" "svk_ID row = vk_ID v"
    using followsD [OF assms(1,3)] by metis
  obtain r where r: "r \<in> set (kt_keys t)" "svk_ID r = ident" "StoreVirtualKey_AfterFind env False r = Inr old" using assms(2) by (rule key_row_found)
  have "inj_on svk_ID (set (kt_keys t))" using assms(1) by (simp add: cache_follows_def distinct_map)
  then have "row = r" by (rule inj_onD) (use row r assms(4) in simp_all)
  with core_of_fields(6) [OF row(3)] r(3) row(1) show ?thesis by (auto simp: AfterFind_opened)
qed

text \<open>The calls that write rows of keys; the others touch neither those rows nor the cache.\<close>

fun key_call :: "admin_call \<Rightarrow> bool" where
  "key_call (CallCreateKey _) = True"
| "key_call (CallRouting _ _) = True"
| "key_call (CallKeyStatus _ _) = True"
| "key_call (CallRevoke _) = True"
| "key_call (CallRotate _) = True"
| "key_call _ = False"

lemma budget_ops_keys:
  "CreateBudget env b t = (t', r) \<Longrightarrow> kt_keys t' = kt_keys t" "UpdateBudget env ident b t = (t', r) \<Longrightarrow> kt_keys t' = kt_keys t"
  "KeyStore.DeleteBudget env ident t = (t', e) \<Longrightarrow> kt_keys t' = kt_keys t"
  by (auto simp: CreateBudget_def UpdateBudget_def KeyStore.DeleteBudget_def Let_def view_map(4)
      split: sum.splits duration_result.splits if_splits)

lemma elsewhere_budgets:
  "kt_keys (ad_keys (fst (createBudget env body s))) = kt_keys (ad_keys s) \<and> key_cache (fst (createBudget env body s)) = key_cache s"
  "kt_keys (ad_keys (fst (updateBudget env ident body s))) = kt_keys (ad_keys s) \<and> key_cache (fst (updateBudget env ident body s)) = key_cache s"
  "kt_keys (ad_keys (fst (deleteBudget env ident s))) = kt_keys (ad_keys s) \<and> key_cache (fst (deleteBudget env ident s)) = key_cache s"
  by (auto simp: createBudget_def updateBudget_def deleteBudget_def dest: budget_ops_keys split: sum.splits prod.splits option.splits)

lemma elsewhere_credentials:
  "ad_keys (fst (publish_credential env row ident code failed s)) = ad_keys s \<and> key_cache (fst (publish_credential env row ident code failed s)) = key_cache s"
  "ad_keys (fst (createCredential env p body s)) = ad_keys s \<and> key_cache (fst (createCredential env p body s)) = key_cache s"
  "ad_keys (fst (updateCredential env ident upd s)) = ad_keys s \<and> key_cache (fst (updateCredential env ident upd s)) = key_cache s"
  "ad_keys (fst (deleteCredential env p ident s)) = ad_keys s \<and> key_cache (fst (deleteCredential env p ident s)) = key_cache s"
  by (auto simp: publish_credential_def createCredential_def updateCredential_def deleteCredential_def Let_def
      split: sum.splits prod.splits option.splits)

lemma elsewhere_pricing:
  "ad_keys (fst (reload_prices env failed reply s)) = ad_keys s \<and> key_cache (fst (reload_prices env failed reply s)) = key_cache s"
  "ad_keys (fst (createCustomPricing env body s)) = ad_keys s \<and> key_cache (fst (createCustomPricing env body s)) = key_cache s"
  "ad_keys (fst (updateCustomPricing env ident p s)) = ad_keys s \<and> key_cache (fst (updateCustomPricing env ident p s)) = key_cache s"
  "ad_keys (fst (deleteCustomPricing env ident s)) = ad_keys s \<and> key_cache (fst (deleteCustomPricing env ident s)) = key_cache s"
  by (auto simp: reload_prices_def createCustomPricing_def updateCustomPricing_def deleteCustomPricing_def
      split: sum.splits prod.splits option.splits)

lemma elsewhere_provider:
  "ad_keys (fst (updateProvider env name body s)) = ad_keys s \<and> key_cache (fst (updateProvider env name body s)) = key_cache s"
  by (auto simp: updateProvider_def Let_def split: sum.splits prod.splits option.splits)

lemma elsewhere_reads:
  "fst (handleStats s) = s" "fst (listBudgets env s) = s" "fst (getBudget env ident s) = s" "fst (listVirtualKeys env s) = s"
  "fst (getVirtualKey env ident s) = s" "fst (listProviders env s) = s" "fst (getProvider env name s) = s"
  "fst (getProviderSettings env name s) = s" "fst (listCredentials env name s) = s" "fst (listModels env name s) = s"
  "fst (listModelCatalog env name l i s) = s" "fst (listCustomPricing env filters s) = s"
  by (simp_all add: handleStats_def listBudgets_def getBudget_def listVirtualKeys_def getVirtualKey_def listProviders_def getProvider_def
      getProviderSettings_def listCredentials_def listModels_def listModelCatalog_def listCustomPricing_def Let_def split: prod.split)

lemma calls_elsewhere:
  "\<not> key_call op \<Longrightarrow> kt_keys (ad_keys (fst (admin env op s))) = kt_keys (ad_keys s) \<and> key_cache (fst (admin env op s)) = key_cache s"
  by (cases op) (simp_all add: elsewhere_budgets elsewhere_credentials elsewhere_pricing elsewhere_provider elsewhere_reads handleModelCatalog_def
      split: prod.split option.split)

context sealing
begin

lemma follows_create:
  assumes "key_inv gcm passkey s" "admin_ok gcm passkey env s"
  shows "key_inv gcm passkey (fst (createVirtualKey env (Inr payload) s))"
proof -
  let ?e = "key_env env"
  have sv: "serving gcm passkey ?e" using assms(2) by (simp add: admin_ok_def)
  note cipher = servingD(1,2) [OF sv]
  obtain t' res where c: "CreateVirtualKeyTx ?e payload (ad_keys s) = (t', res)" by force
  have load: "all_loadable t'" using assms(1) loadable_CreateKey [of "ad_keys s" ?e payload] by (simp add: c cache_follows_def)
  show ?thesis
  proof (cases res)
    case (Inl e)
    then show ?thesis using Create_written [OF sv c] assms(1) by (simp add: createVirtualKey_def c)
  next
    case (Inr ra)
    obtain row apiKey where ra: "ra = (row, apiKey)" by force
    from Create_written [OF sv c] have w: "row_written ?e (se_uuid ?e) (ad_keys s) t' row" "\<forall>r \<in> set (kt_keys (ad_keys s)). svk_ID r \<noteq> se_uuid ?e"
      by (simp_all add: Inr ra)
    obtain vk where vk: "StoreVirtualKey_ToCore row = Inr vk" using written_loadable [OF w(1) load] .
    have "vk_ID v \<noteq> se_uuid ?e" if "LookupVkey k (key_cache s) = Some v" for k v using followsD [OF assms(1) that] w(2) by metis
    then show ?thesis using follows_written [OF _ w(1) load vk, of "key_cache s"] assms(1) by (auto simp: createVirtualKey_def c Inr ra vk cipher)
  qed
qed

lemma follows_routing:
  assumes "key_inv gcm passkey s" "admin_ok gcm passkey env s"
  shows "key_inv gcm passkey (fst (updateVirtualKeyRouting env ident (Inr payload) s))"
proof -
  let ?e = "key_env env"
  have sv: "serving gcm passkey ?e" using assms(2) by (simp add: admin_ok_def)
  note cipher = servingD(1,2) [OF sv]
  obtain t' res where c: "UpdateVirtualKeyRouting ?e ident payload (ad_keys s) = (t', res)" by force
  have load: "all_loadable t'" using assms(1) loadable_Routing [of "ad_keys s" ?e ident payload] by (simp add: c cache_follows_def)
  show ?thesis
  proof (cases res)
    case (Inl e)
    then show ?thesis using Routing_written [OF sv c] assms(1) by (simp add: updateVirtualKeyRouting_def c)
  next
    case (Inr row)
    from Routing_written [OF sv c] obtain old where w: "row_written ?e ident (ad_keys s) t' row" "key_row ?e False ident (ad_keys s) = Inr old"
      "svk_APIKey row = svk_APIKey old" by (auto simp: Inr)
    obtain vk where vk: "StoreVirtualKey_ToCore row = Inr vk" using written_loadable [OF w(1) load] .
    show ?thesis using follows_written [OF _ w(1) load vk, of "key_cache s"] cached_under_stored_key [OF _ w(2)] w(3) assms(1)
      by (auto simp: updateVirtualKeyRouting_def c Inr vk cipher)
  qed
qed

lemma follows_status:
  assumes "key_inv gcm passkey s" "admin_ok gcm passkey env s"
  shows "key_inv gcm passkey (fst (setVirtualKeyStatus env ident (Inr active) s))"
proof -
  let ?e = "key_env env"
  have sv: "serving gcm passkey ?e" and order: "\<And>k v. LookupVkey k (key_cache s) = Some v \<Longrightarrow> k \<in> set (ae_order env)"
    using assms(2) by (auto simp: admin_ok_def)
  note cipher = servingD(1,2) [OF sv]
  obtain t' res where c: "SetVirtualKeyActive ?e ident active (ad_keys s) = (t', res)" by force
  have load: "all_loadable t'" using assms(1) loadable_SetActive [of "ad_keys s" ?e ident active] by (simp add: c cache_follows_def)
  show ?thesis
  proof (cases res)
    case (Inl e)
    then show ?thesis using SetActive_written [OF c servingD(3) [OF sv]] assms(1) by (simp add: setVirtualKeyStatus_def c)
  next
    case (Inr row)
    from SetActive_written [OF c servingD(3) [OF sv]] obtain old where w: "row_written ?e ident (ad_keys s) t' row"
      "key_row ?e False ident (ad_keys s) = Inr old" "svk_APIKey row = svk_APIKey old" by (auto simp: Inr)
    obtain vk where vk: "StoreVirtualKey_ToCore row = Inr vk" using written_loadable [OF w(1) load] .
    have "others_kept ident (ad_keys s) t'" "distinct (map svk_ID (kt_keys t'))" using w(1) assms(1) by (auto simp: row_written_def cache_follows_def)
    with follows_written [OF _ w(1) load vk, of "key_cache s"] cached_under_stored_key [OF _ w(2)] w(3) assms(1)
      follows_deleted [OF assms(1) order _ _ load]
    show ?thesis by (auto simp: setVirtualKeyStatus_def c Inr vk cipher)
  qed
qed

lemma follows_revoke:
  assumes "key_inv gcm passkey s" "admin_ok gcm passkey env s"
  shows "key_inv gcm passkey (fst (revokeVirtualKey env ident s))"
proof -
  let ?e = "key_env env"
  have order: "\<And>k v. LookupVkey k (key_cache s) = Some v \<Longrightarrow> k \<in> set (ae_order env)" using assms(2) by (auto simp: admin_ok_def)
  obtain t' res where c: "RevokeVirtualKey ?e ident (ad_keys s) = (t', res)" by force
  have load: "all_loadable t'" using assms(1) loadable_Revoke [of "ad_keys s" ?e ident] by (simp add: c cache_follows_def)
  show ?thesis
  proof (cases res)
    case None
    from Revoke_written [of ?e ident "ad_keys s" t'] obtain row where "row_written ?e ident (ad_keys s) t' row" using c None by auto
    then have "others_kept ident (ad_keys s) t'" "distinct (map svk_ID (kt_keys t'))" using assms(1) by (auto simp: row_written_def cache_follows_def)
    with follows_deleted [OF assms(1) order _ _ load] show ?thesis by (simp add: revokeVirtualKey_def c None)
  next
    case (Some e)
    then show ?thesis using Revoke_failed [of ?e ident "ad_keys s" t'] assms(1) c by (simp add: revokeVirtualKey_def)
  qed
qed

lemma follows_rotate:
  assumes "key_inv gcm passkey s" "admin_ok gcm passkey env s"
  shows "key_inv gcm passkey (fst (rotateVirtualKey env ident s))"
proof -
  let ?e = "key_env env" and ?c = "fst (DeleteVirtualKeyByID (ae_order env) ident (key_cache s))"
  have sv: "serving gcm passkey ?e" and order: "\<And>k v. LookupVkey k (key_cache s) = Some v \<Longrightarrow> k \<in> set (ae_order env)"
    using assms(2) by (auto simp: admin_ok_def)
  note cipher = servingD(1,2) [OF sv]
  obtain t' res where c: "RotateVirtualKey ?e ident (ad_keys s) = (t', res)" by force
  have load: "all_loadable t'" using assms(1) loadable_Rotate [of "ad_keys s" ?e ident] by (simp add: c cache_follows_def)
  show ?thesis
  proof (cases res)
    case (Inl e)
    then show ?thesis using Rotate_written [OF sv c] assms(1) by (simp add: rotateVirtualKey_def c)
  next
    case (Inr ra)
    obtain row apiKey where ra: "ra = (row, apiKey)" by force
    from Rotate_written [OF sv c] have w: "row_written ?e ident (ad_keys s) t' row" by (simp add: Inr ra)
    obtain vk where vk: "StoreVirtualKey_ToCore row = Inr vk" using written_loadable [OF w load] .
    have "cache_follows gcm passkey (ad_keys s) ?c"
      by (rule follows_deleted [OF assms(1) order]) (use assms(1) in \<open>simp_all add: cache_follows_def others_kept_def\<close>)
    moreover have "k = svk_APIKey row" if "LookupVkey k ?c = Some v" "vk_ID v = ident" for k v
      using that delete_entry [OF assms(1), of "ae_order env" k ident v] order by blast
    ultimately have "cache_follows gcm passkey t' (UpsertVirtualKey (Some vk) ?c)"
      using follows_written [OF _ w load vk, of ?c] by (simp add: cipher)
    then show ?thesis by (simp add: rotateVirtualKey_def c Inr ra vk)
  qed
qed

lemma follows_admin:
  assumes "key_inv gcm passkey s" "admin_ok gcm passkey env s"
  shows "key_inv gcm passkey (fst (admin env op s))"
proof -
  have same: ?thesis if "kt_keys (ad_keys (fst (admin env op s))) = kt_keys (ad_keys s)" "key_cache (fst (admin env op s)) = key_cache s"
    using follows_rows_kept [OF assms(1) that(1)] that(2) by simp
  show ?thesis
  proof (cases op)
    case (CallCreateKey body)
    then show ?thesis using assms follows_create by (cases body) (simp_all add: createVirtualKey_def [of _ "Inl _"])
  next
    case (CallRouting ident body)
    then show ?thesis using assms follows_routing by (cases body) (simp_all add: updateVirtualKeyRouting_def [of _ _ "Inl _"])
  next
    case (CallKeyStatus ident body)
    then show ?thesis using assms follows_status by (cases body) (simp_all add: setVirtualKeyStatus_def [of _ _ "Inl _"])
  next
    case (CallRevoke ident)
    then show ?thesis using assms follows_revoke by simp
  next
    case (CallRotate ident)
    then show ?thesis using assms follows_rotate by simp
  qed (use same calls_elsewhere [of op env s] in simp_all)
qed

lemma run_follows: "admin_run gcm passkey s0 s \<Longrightarrow> booted s0 \<Longrightarrow> key_inv gcm passkey s"
proof (induction rule: admin_run.induct)
  case boot
  then show ?case by (rule booted_follows)
next
  case (call s env op)
  then show ?case using follows_admin by blast
next
  case (sync s env now)
  then show ?case using follows_sync_keys [of env s now] by simp
next
  case (elsewhere s s')
  then show ?case using follows_rows_kept by metis
qed

end

section \<open>Keys that are issued and withdrawn\<close>

lemma authenticated_entry:
  "ValidatevKeyAuth g now rctx = (rctx', None) \<Longrightarrow>
     \<exists>vk. LookupVkey (extractKey rctx) (KeyCache g) = Some vk \<and> usable_key now vk \<and> rctx' = identified vk rctx"
  by (auto simp: ValidatevKeyAuth_def Let_def usable_key_def identified_def split: option.splits if_splits)

lemma entry_authenticates:
  assumes "LookupVkey (extractKey rctx) (KeyCache g) = Some vk" "usable_key now vk" "ValidateKeySignature (extractKey rctx)"
  shows "ValidatevKeyAuth g now rctx = (identified vk rctx, None)"
proof -
  have "extractKey rctx \<noteq> []" using assms(3) by (auto simp: ValidateKeySignature_def dk_defs)
  then show ?thesis using assms by (auto simp: ValidatevKeyAuth_def Let_def usable_key_def identified_def split: option.splits)
qed


text \<open>
  C9: A key that was just issued authenticates at once, as the client and on the budget it was created for, until it expires.
\<close>

theorem issued_key_live:
  assumes "\<forall>k n p. gcm_Open gcm k n (gcm_Seal gcm k n p) = Some p" "serving gcm passkey (key_env env)"
    and "createVirtualKey env (Inr payload) s = (s', (201, IssuedBody apiKey resp))"
    and "extractKey rctx = apiKey" "\<forall>e. vq_ExpiresAt payload = Some e \<longrightarrow> now \<le> e"
  shows "\<exists>rctx'. ValidatevKeyAuth (srv_governance (ad_server s')) now rctx = (rctx', None)
    \<and> rc_ClientID rctx' = vq_ClientID payload \<and> rc_BudgetRef rctx' = vq_BudgetID payload \<and> rc_VirtualKeyID rctx' = se_uuid (key_env env)"
proof -
  have sl: "sealing gcm" by (rule sealing.intro) (simp add: assms(1))
  from assms(3) obtain t row vk where c: "CreateVirtualKeyTx (key_env env) payload (ad_keys s) = (t, Inr (row, apiKey))"
    and vk: "StoreVirtualKey_ToCore row = Inr vk" and s': "s' = with_keys (UpsertVirtualKey (Some vk)) (s\<lparr>ad_keys := t\<rparr>)"
    by (auto simp: createVirtualKey_def adminErr_def split: prod.splits sum.splits)
  from sealing.Create_written [OF sl assms(2) c] have w: "key_row (key_env env) False (se_uuid (key_env env)) t = Inr row"
    "svk_APIKey row = apiKey" "svk_IsActive row" "ValidateKeySignature apiKey" "svk_BudgetID row = vq_BudgetID payload"
    "svk_ClientID row = vq_ClientID payload" "svk_ExpiresAt row = vq_ExpiresAt payload" by (auto simp: row_written_def)
  have id: "svk_ID row = se_uuid (key_env env)" using sealing.key_row_ID [OF sl w(1)] .
  note f = ToCore_fields [OF vk]
  have "LookupVkey (extractKey rctx) (key_cache s') = Some vk" using f w(2) assms(4) by (simp add: s' LookupVkey_Upsert)
  moreover have "usable_key now vk" using f w assms(5) by (simp add: usable_key_def)
  ultimately have "ValidatevKeyAuth (srv_governance (ad_server s')) now rctx = (identified vk rctx, None)"
    using entry_authenticates w(4) assms(4) by (simp add: key_cache_def)
  then show ?thesis using f w id by (simp add: identified_def)
qed



text \<open>
  The listing of a synchronisation and its load are two steps: a listing from before a revocation, loaded after it, puts the revoked key
  back into the cache as it was, and it authenticates again until the next synchronisation.
\<close>

theorem stale_sync_revives_key:
  assumes "ListVirtualKeys env t = Inr rows" "row \<in> set rows" "StoreVirtualKey_ToCore row = Inr vk" "usable_key now vk"
    and "distinct (map svk_APIKey rows)" "ValidateKeySignature (svk_APIKey row)" "extractKey rctx = svk_APIKey row"
    and "syncVirtualKey synced (Some rows) (srv_governance (ad_server (fst (revokeVirtualKey aenv (svk_ID row) s)))) = (g, Inr n)"
  shows "snd (ValidatevKeyAuth g now rctx) = None"
proof -
  obtain v where v: "LookupVkey (svk_APIKey row) (KeyCache g) = Some v" "StoreVirtualKey_ToCore row = Inr v"
    using sync_lookup [OF assms(8,5,2)] by blast
  with assms(3) have "v = vk" by simp
  with entry_authenticates [of rctx g vk now] v(1) assms(4,6,7) show ?thesis by simp
qed

section \<open>A concrete run\<close>

text \<open>A process that starts with one budget and no keys, and an administrator who creates, rotates and revokes a key.\<close>

definition demo_admin :: admin_state where
  "demo_admin = \<lparr>ad_server = \<lparr>srv_config = the (gc_ServerConfig default_config), srv_governance = NewGovernance,
       srv_plane = NewProviderPlane [], srv_cursors = Map.empty, srv_catalog = NewModelCatalog, srv_registry = [], srv_pool = [], srv_metrics = None\<rparr>,
     ad_transport = example_transport, ad_keys = one_budget, ad_upstreams = \<lparr>pt_providers = [], pt_credentials = []\<rparr>,
     ad_catalog = empty_catalog, ad_governanceJobs = NewGroup ''governance'', ad_catalogJobs = NewGroup ''catalog'', ad_metricsJobs = None,
     ad_isReady = True\<rparr>"

definition admin_demo_env :: admin_env where
  "admin_demo_env = \<lparr>ae_call = \<lambda>_. cred_env\<lparr>se_gcm := se_gcm demo_env, se_passkey := se_passkey demo_env, se_nonce := se_nonce demo_env,
       se_now := se_now demo_env, se_uuid := se_uuid demo_env, se_random := se_random demo_env, se_read := True, se_tx := True, se_reload := True\<rparr>,
     ae_order = [fst (the (GenerateVirtualKey (se_random demo_env)))], ae_providers = [], ae_url_ok = \<lambda>_. True, ae_socks_ok = \<lambda>_. True,
     ae_sort_options = id, ae_sort_models = id\<rparr>"

definition keyed_admin :: admin_state where
  "keyed_admin = fst (createVirtualKey admin_demo_env (Inr demo_request) demo_admin)"

definition demo_call :: "string \<Rightarrow> DiffractLLMContext" where
  "demo_call apiKey = DiffractLLMContext_zero\<lparr>rc_Request := Some \<lparr>req_Method = ''POST'', req_Path = ''/v1/chat/completions'',
     req_Header = [(''Authorization'', ''Bearer '' @ apiKey)], req_Body = [], req_ContentLength = 0\<rparr>\<rparr>"

lemma demo_env_same: "key_env admin_demo_env = demo_env"
  by (simp add: key_env_def admin_demo_env_def store_env.truncate_def demo_env_def)

lemma demo_serving: "serving plain_gcm ''0123456789abcdef'' (key_env admin_demo_env)"
  by (simp add: demo_env_same serving_def demo_env_def NonceSize_def)

lemma demo_booted: "booted demo_admin"
  by (simp add: booted_def demo_admin_def one_budget_eq all_loadable_def key_cache_def NewGovernance_def)

lemma demo_extract: "ValidateKeySignature apiKey \<Longrightarrow> extractKey (demo_call apiKey) = apiKey"
  using extractKey_single [OF signature_no_space, of apiKey "demo_call apiKey"]
  by (cases "apiKey = []") (auto simp: demo_call_def request_header_def)

lemma demo_issued:
  "\<exists>row apiKey vk. createVirtualKey admin_demo_env (Inr demo_request) demo_admin = (keyed_admin, (201, IssuedBody apiKey (response_of row)))
     \<and> ValidateKeySignature apiKey \<and> ad_keys keyed_admin = one_key \<and> StoreVirtualKey_ToCore row = Inr vk
     \<and> key_cache keyed_admin = UpsertVirtualKey (Some vk) VirtualkeyCache_zero \<and> vk_Key vk = apiKey
     \<and> ae_order admin_demo_env = [apiKey] \<and> key_row demo_env False ''u1'' one_key = Inr row \<and> svk_IsActive row \<and> svk_ExpiresAt row = None"
proof -
  obtain row apiKey where c: "CreateVirtualKeyTx demo_env demo_request one_budget = (one_key, Inr (row, apiKey))" using demo_created by blast
  have sl: "sealing plain_gcm" by (rule plain.sealing_axioms)
  from sealing.Create_written [OF sl demo_serving, unfolded demo_env_same, OF c]
  have w: "row_written demo_env ''u1'' one_budget one_key row" "svk_APIKey row = apiKey" "ValidateKeySignature apiKey"
    "svk_IsActive row" "svk_ExpiresAt row = None"
    by (auto simp: demo_env_def demo_request_def)
  have "all_loadable one_key" using reachable_loadable [OF one_key_reachable] .
  then obtain vk where vk: "StoreVirtualKey_ToCore row = Inr vk" using written_loadable [OF w(1)] by blast
  have k: "fst (the (GenerateVirtualKey (se_random demo_env))) = apiKey"
    using c by (auto simp: CreateVirtualKeyTx_def map_sum_Inr split: option.splits sum.splits if_splits)
  have s: "ad_keys demo_admin = one_budget" "key_cache demo_admin = VirtualkeyCache_zero"
    by (simp_all add: demo_admin_def key_cache_def NewGovernance_def)
  have "createVirtualKey admin_demo_env (Inr demo_request) demo_admin
      = (with_keys (UpsertVirtualKey (Some vk)) (demo_admin\<lparr>ad_keys := one_key\<rparr>), (201, IssuedBody apiKey (response_of row)))"
    by (simp add: createVirtualKey_def demo_env_same c vk s)
  moreover have "ae_order admin_demo_env = [apiKey]" by (simp add: admin_demo_env_def k)
  ultimately show ?thesis using w vk ToCore_fields [OF vk] by (auto simp: keyed_admin_def s row_written_def)
qed

lemma empty_cache: "LookupVkey k VirtualkeyCache_zero = None"
  by (simp add: LookupVkey_def VirtualkeyCache_zero_def)

lemma demo_run:
  "admin_run plain_gcm ''0123456789abcdef'' demo_admin keyed_admin" "admin_ok plain_gcm ''0123456789abcdef'' admin_demo_env keyed_admin"
proof -
  have "admin_ok plain_gcm ''0123456789abcdef'' admin_demo_env demo_admin"
    using demo_serving by (simp add: admin_ok_def demo_admin_def key_cache_def NewGovernance_def LookupVkey_def VirtualkeyCache_zero_def)
  then have "admin_run plain_gcm ''0123456789abcdef'' demo_admin (fst (admin admin_demo_env (CallCreateKey (Inr demo_request)) demo_admin))"
    by (rule admin_run.call [OF admin_run.boot])
  then show "admin_run plain_gcm ''0123456789abcdef'' demo_admin keyed_admin" by (simp add: keyed_admin_def)
  show "admin_ok plain_gcm ''0123456789abcdef'' admin_demo_env keyed_admin"
    using demo_issued demo_serving empty_cache by (auto simp: admin_ok_def LookupVkey_Upsert split: if_splits)
qed

lemma plain_opens: "\<forall>k n p. gcm_Open plain_gcm k n (gcm_Seal plain_gcm k n p) = Some p"
  by (simp add: plain.open_seal)

theorem issued_key_live_witness:
  "\<exists>apiKey resp rctx'. createVirtualKey admin_demo_env (Inr demo_request) demo_admin = (keyed_admin, (201, IssuedBody apiKey resp))
     \<and> ValidatevKeyAuth (srv_governance (ad_server keyed_admin)) 5 (demo_call apiKey) = (rctx', None) \<and> rc_ClientID rctx' = ''c''"
proof -
  obtain row apiKey where c: "createVirtualKey admin_demo_env (Inr demo_request) demo_admin = (keyed_admin, (201, IssuedBody apiKey (response_of row)))"
    "ValidateKeySignature apiKey" using demo_issued by blast
  from issued_key_live [OF plain_opens demo_serving c(1) demo_extract [OF c(2)], of 5] c show ?thesis by (auto simp: demo_request_def)
qed




end
