(* ===== verification/Gateway.thy ===== *)
theory Gateway
  imports Worker
begin

text \<open>
  The life of the process (\<^verbatim>\<open>internal/gateway/gateway.go\<close>, \<^verbatim>\<open>main.go\<close>, \<^verbatim>\<open>Start\<close> and \<^verbatim>\<open>Shutdown\<close> of
  \<^verbatim>\<open>internal/server/server.go\<close>): initialisation, start and stop, with the groups of background jobs they start and drain, and
  the two files they open and close. What the libraries, the configuration and the network answer is an argument. A call of a method on a
  \<^verbatim>\<open>nil\<close> group would panic: that is the result \<^const>\<open>None\<close> of a stop.
\<close>

section \<open>State\<close>

text \<open>
  The groups are \<^const>\<open>None\<close> until a start makes them; the metrics engine is \<^const>\<open>None\<close> when there is none. The flag of the
  HTTP server is its \<^verbatim>\<open>isReady\<close>, absent until the server is made. The last field lists what a stop did, in order.
\<close>

datatype stop_action = StopHTTP | DrainMetrics | CloseEvents | DrainGovernance | StopCatalog | CloseStore

record gatewayImpl =
  gw_source :: bool
  gw_server :: bool
  gw_catalog :: "Group option"
  gw_governance :: "Group option"
  gw_metrics :: "Group option option"
  gw_startOnce :: bool
  gw_http :: "bool option"
  gw_isRunning :: bool
  gw_cancelWork :: bool
  gw_storeOpen :: bool
  gw_eventsOpen :: bool
  gw_done :: "stop_action list"

definition NewGateway :: gatewayImpl where
  "NewGateway = \<lparr>gw_source = False, gw_server = False, gw_catalog = None, gw_governance = None, gw_metrics = None, gw_startOnce = False,
     gw_http = None, gw_isRunning = False, gw_cancelWork = False, gw_storeOpen = False, gw_eventsOpen = False, gw_done = []\<rparr>"

datatype gateway_error = ErrConfig | ErrSource | ErrSeed | ErrSnapshot | ErrGovernance | ErrMetricsStore | ErrMetricsHooks
  | ErrAlreadyRunning | ErrNotInitialized | ErrCatalogLoad | ErrJobs worker_error | ErrRoutes | ErrListen

section \<open>Initialisation\<close>

text \<open>Whether each step succeeds, and whether the metrics engine is configured.\<close>

record init_env =
  in_config :: bool
  in_source :: bool
  in_seed :: bool
  in_load :: bool
  in_governance :: bool
  in_metrics :: bool
  in_events :: bool
  in_hooks :: bool

definition Initialize :: "init_env \<Rightarrow> gatewayImpl \<Rightarrow> gatewayImpl \<times> gateway_error option" where
  "Initialize env gw =
    (if \<not> in_config env then (gw, Some ErrConfig)
     else if \<not> in_source env then (gw, Some ErrSource)
     else let gw1 = gw\<lparr>gw_source := True, gw_storeOpen := True\<rparr> in
       if \<not> in_seed env then (gw1, Some ErrSeed)
       else if \<not> in_load env then (gw1, Some ErrSnapshot)
       else if \<not> in_governance env then (gw1, Some ErrGovernance)
       else let gw2 = gw1\<lparr>gw_server := True\<rparr> in
         if \<not> in_metrics env then (gw2, None)
         else if \<not> in_events env then (gw2, Some ErrMetricsStore)
         else let gw3 = gw2\<lparr>gw_metrics := Some None, gw_eventsOpen := True\<rparr> in
           if \<not> in_hooks env then (gw3, Some ErrMetricsHooks) else (gw3, None))"

section \<open>Start\<close>

definition new_job :: "string \<Rightarrow> duration \<Rightarrow> bool \<Rightarrow> bool \<Rightarrow> Job" where
  "new_job name interval atStart atStop = \<lparr>j_Name = name, j_Interval = interval, j_RunAtStart = atStart, j_RunAtStop = atStop, j_hasRun = True,
     j_stats = JobStats_zero, j_trigger = None\<rparr>"

definition governance_jobs :: "Job list" where
  "governance_jobs = [new_job ''budget_sync'' 10000000000 True False, new_job ''virtual_keys_sync'' 10000000000 True False,
     new_job ''usage_flush'' 10000000000 False True, new_job ''budget_flush_roll'' 10000000000 False True]"

definition start_group :: "run_oracle \<Rightarrow> string \<Rightarrow> Job list \<Rightarrow> Group \<times> worker_error option" where
  "start_group ora name jobs = (case Group_Add (map Some jobs) (NewGroup name) of
     (g, Some e) \<Rightarrow> (g, Some e)
   | (g, None) \<Rightarrow> (case Group_Start ora g of (g', _, err) \<Rightarrow> (g', err)))"

text \<open>
  What a start meets: whether the catalog loads from an open store, whether it was empty, the two configured intervals, the runs of the
  jobs, and whether the routes and the listener can be made.
\<close>

record start_env =
  st_load :: bool
  st_firstBoot :: bool
  st_sync :: duration
  st_flush :: duration
  st_runs :: run_oracle
  st_routes :: bool
  st_listen :: bool

definition Server_Start :: "start_env \<Rightarrow> gatewayImpl \<Rightarrow> gatewayImpl \<times> gateway_error option" where
  "Server_Start env gw =
    (if gw_startOnce gw then (gw, None)
     else let gw1 = gw\<lparr>gw_startOnce := True\<rparr> in
       if \<not> st_routes env then (gw1, Some ErrRoutes)
       else if \<not> st_listen env then (gw1\<lparr>gw_http := Some False\<rparr>, Some ErrListen)
       else (gw1\<lparr>gw_http := Some True\<rparr>, None))"

definition start_catalog :: "start_env \<Rightarrow> gatewayImpl \<Rightarrow> gatewayImpl \<times> gateway_error option" where
  "start_catalog env gw = (if \<not> (st_load env \<and> gw_storeOpen gw) then (gw, Some ErrCatalogLoad)
     else case start_group (st_runs env) ''catalog'' [new_job ''catalog_sync'' (st_sync env) (st_firstBoot env) False] of
       (g, err) \<Rightarrow> (gw\<lparr>gw_catalog := Some g\<rparr>, map_option ErrJobs err))"

definition start_governance :: "start_env \<Rightarrow> gatewayImpl \<Rightarrow> gatewayImpl \<times> gateway_error option" where
  "start_governance env gw = (case start_group (st_runs env) ''governance'' governance_jobs of
     (g, err) \<Rightarrow> (gw\<lparr>gw_governance := Some g\<rparr>, map_option ErrJobs err))"

definition start_metrics :: "start_env \<Rightarrow> gatewayImpl \<Rightarrow> gatewayImpl \<times> gateway_error option" where
  "start_metrics env gw = (if gw_metrics gw = None then (gw, None)
     else case start_group (st_runs env) ''metrics'' [new_job ''events_flush'' (st_flush env) False True] of
       (g, err) \<Rightarrow> (gw\<lparr>gw_metrics := Some (Some g)\<rparr>, map_option ErrJobs err))"

text \<open>Steps that stop at the first error.\<close>

definition and_then :: "(gatewayImpl \<Rightarrow> gatewayImpl \<times> gateway_error option) \<Rightarrow> (gatewayImpl \<Rightarrow> gatewayImpl \<times> gateway_error option)
    \<Rightarrow> gatewayImpl \<Rightarrow> gatewayImpl \<times> gateway_error option" where
  "and_then f h gw = (case f gw of (gw1, Some e) \<Rightarrow> (gw1, Some e) | (gw1, None) \<Rightarrow> h gw1)"

definition Start :: "start_env \<Rightarrow> gatewayImpl \<Rightarrow> gatewayImpl \<times> gateway_error option" where
  "Start env gw =
    (if gw_isRunning gw then (gw, Some ErrAlreadyRunning)
     else if \<not> gw_server gw then (gw, Some ErrNotInitialized)
     else and_then (start_catalog env) (and_then (start_governance env) (and_then (start_metrics env) (and_then (Server_Start env)
       (\<lambda>g. (g\<lparr>gw_isRunning := True\<rparr>, None))))) (gw\<lparr>gw_cancelWork := True\<rparr>))"

section \<open>Stop\<close>

text \<open>Which of the steps report an error; the stop goes on after each of them.\<close>

record stop_env =
  sp_http :: bool
  sp_metrics :: bool
  sp_governance :: bool
  sp_catalog :: bool
  sp_store :: bool

definition stop_http :: "gatewayImpl \<Rightarrow> gatewayImpl" where
  "stop_http gw = (if gw_isRunning gw then gw\<lparr>gw_http := map_option (\<lambda>_. False) (gw_http gw), gw_done := gw_done gw @ [StopHTTP]\<rparr> else gw)"

definition stop_metrics :: "gatewayImpl \<Rightarrow> gatewayImpl" where
  "stop_metrics gw = (case gw_metrics gw of None \<Rightarrow> gw
   | Some workers \<Rightarrow> gw\<lparr>gw_metrics := None, gw_eventsOpen := False,
       gw_done := gw_done gw @ (case workers of None \<Rightarrow> [CloseEvents] | Some g \<Rightarrow> if g_started g then [DrainMetrics, CloseEvents] else [CloseEvents])\<rparr>)"

definition stop_jobs :: "gatewayImpl \<Rightarrow> gatewayImpl option" where
  "stop_jobs gw = (if \<not> gw_isRunning gw then Some gw
     else case gw_governance gw of None \<Rightarrow> None
     | Some g \<Rightarrow> (case gw_catalog gw of None \<Rightarrow> None
       | Some c \<Rightarrow> Some (gw\<lparr>gw_governance := Some (Group_Shutdown g), gw_catalog := Some (Group_Shutdown c),
           gw_done := gw_done gw @ [DrainGovernance, StopCatalog]\<rparr>)))"

definition close_store :: "gatewayImpl \<Rightarrow> gatewayImpl" where
  "close_store gw = (if gw_source gw then gw\<lparr>gw_source := False, gw_storeOpen := False, gw_done := gw_done gw @ [CloseStore]\<rparr> else gw)"

definition Stop :: "stop_env \<Rightarrow> gatewayImpl \<Rightarrow> (gatewayImpl \<times> bool) option" where
  "Stop env gw = map_option (\<lambda>gw1. ((close_store (gw1\<lparr>gw_isRunning := False\<rparr>))\<lparr>gw_cancelWork := False\<rparr>,
       (gw_isRunning gw \<longrightarrow> \<not> sp_http env \<and> \<not> sp_governance env \<and> \<not> sp_catalog env)
         \<and> (gw_metrics gw \<noteq> None \<longrightarrow> \<not> sp_metrics env) \<and> (gw_source gw \<longrightarrow> \<not> sp_store env)))
     (stop_jobs (stop_metrics (stop_http gw)))"

text \<open>
  The program: a failure of the initialisation or of the start is followed by a stop and the exit code 1; otherwise it waits for a signal
  or for the HTTP server to fail, and stops. What happens to the server while it waits is an argument.
\<close>

definition main :: "init_env \<Rightarrow> start_env \<Rightarrow> bool \<Rightarrow> stop_env \<Rightarrow> (gatewayImpl \<times> nat) option" where
  "main ie se serve_failed pe = (case Initialize ie NewGateway of
     (gw, Some _) \<Rightarrow> map_option (\<lambda>(gw', _). (gw', 1)) (Stop pe gw)
   | (gw, None) \<Rightarrow> (case Start se gw of
       (gw1, Some _) \<Rightarrow> map_option (\<lambda>(gw', _). (gw', 1)) (Stop pe gw1)
     | (gw1, None) \<Rightarrow> map_option (\<lambda>(gw', _). (gw', 0)) (Stop pe (if serve_failed then gw1\<lparr>gw_http := Some False\<rparr> else gw1))))"

section \<open>Facts about starting\<close>

text \<open>What holds of the process between the calls of its methods.\<close>

definition group_up :: "Group option \<Rightarrow> bool" where
  "group_up g \<longleftrightarrow> (\<exists>x. g = Some x \<and> g_started x)"

definition gateway_inv :: "gatewayImpl \<Rightarrow> bool" where
  "gateway_inv gw \<longleftrightarrow> gw_storeOpen gw = gw_source gw \<and> gw_eventsOpen gw = (gw_metrics gw \<noteq> None)
     \<and> (gw_isRunning gw \<longrightarrow> gw_server gw \<and> gw_source gw \<and> group_up (gw_catalog gw) \<and> group_up (gw_governance gw)
          \<and> (\<forall>m. gw_metrics gw = Some m \<longrightarrow> group_up m) \<and> gw_startOnce gw \<and> gw_cancelWork gw)"

lemma start_group_up: "start_group ora name jobs = (g, None) \<Longrightarrow> g_started g"
  by (auto simp: start_group_def Group_Start_def Group_Add_def NewGroup_def Let_def split: prod.splits option.splits if_splits)

lemma and_then_None: "and_then f h gw = (gw', None) \<longleftrightarrow> (\<exists>gw1. f gw = (gw1, None) \<and> h gw1 = (gw', None))"
  by (auto simp: and_then_def split: prod.splits option.splits)

lemma and_then_Some: "and_then f h gw = (gw', Some e) \<longleftrightarrow> f gw = (gw', Some e) \<or> (\<exists>gw1. f gw = (gw1, None) \<and> h gw1 = (gw', Some e))"
  by (auto simp: and_then_def split: prod.splits option.splits)

lemmas start_steps = start_catalog_def start_governance_def start_metrics_def Server_Start_def Let_def

lemma started:
  assumes "Start env gw = (gw', None)"
  shows "\<exists>c g m h. gw' = gw\<lparr>gw_cancelWork := True, gw_catalog := Some c, gw_governance := Some g, gw_metrics := m, gw_startOnce := True,
      gw_http := h, gw_isRunning := True\<rparr> \<and> g_started c \<and> g_started g \<and> (m = None \<longleftrightarrow> gw_metrics gw = None) \<and> (\<forall>x. m = Some x \<longrightarrow> group_up x)
    \<and> gw_server gw \<and> gw_storeOpen gw \<and> \<not> gw_isRunning gw \<and> h = (if gw_startOnce gw then gw_http gw else Some True)"
proof -
  from assms obtain g1 g2 g3 g4 where s: "start_catalog env (gw\<lparr>gw_cancelWork := True\<rparr>) = (g1, None)" "start_governance env g1 = (g2, None)"
    "start_metrics env g2 = (g3, None)" "Server_Start env g3 = (g4, None)" "gw' = g4\<lparr>gw_isRunning := True\<rparr>" "gw_server gw" "\<not> gw_isRunning gw"
    by (auto simp: Start_def and_then_None split: if_splits)
  from s(1) obtain c where c: "g1 = gw\<lparr>gw_cancelWork := True, gw_catalog := Some c\<rparr>" "g_started c" "gw_storeOpen gw"
    by (auto simp: start_catalog_def dest: start_group_up split: if_splits prod.splits)
  from s(2) obtain g where g: "g2 = g1\<lparr>gw_governance := Some g\<rparr>" "g_started g"
    by (auto simp: start_governance_def dest: start_group_up split: prod.splits)
  from s(3) obtain m where m: "g3 = g2\<lparr>gw_metrics := m\<rparr>" "m = None \<longleftrightarrow> gw_metrics gw = None" "\<forall>x. m = Some x \<longrightarrow> group_up x"
    by (auto simp: start_metrics_def group_up_def c g dest: start_group_up split: prod.splits if_splits)
  from s(4) have h: "g4 = g3\<lparr>gw_startOnce := True, gw_http := (if gw_startOnce gw then gw_http gw else Some True)\<rparr>"
    by (auto simp: Server_Start_def Let_def m g c split: if_splits)
  show ?thesis
    by (intro exI [of _ c] exI [of _ g] exI [of _ m] exI [of _ "if gw_startOnce gw then gw_http gw else Some True"] conjI)
      (use c g m h s(5-7) in simp_all)
qed

text \<open>What no step of a start changes.\<close>

definition held :: "gatewayImpl \<Rightarrow> bool \<times> bool \<times> bool \<times> bool \<times> bool \<times> stop_action list" where
  "held gw = (gw_isRunning gw, gw_source gw, gw_storeOpen gw, gw_eventsOpen gw, gw_metrics gw = None, gw_done gw)"

lemma held_steps:
  "held (fst (start_catalog env gw)) = held gw" "held (fst (start_governance env gw)) = held gw"
  "held (fst (start_metrics env gw)) = held gw" "held (fst (Server_Start env gw)) = held gw"
  by (simp_all add: start_steps held_def split: prod.split)

lemma and_then_fails:
  assumes "and_then f h gw = (gw', Some e)" "held (fst (f gw)) = held gw" "\<And>gw1. h gw1 = (gw', Some e) \<Longrightarrow> held gw' = held gw1"
  shows "held gw' = held gw"
  using assms unfolding and_then_Some by (metis fst_conv)

lemma failed_start:
  assumes "Start env gw = (gw', Some e)"
  shows "held gw' = held gw \<and> (gw_isRunning gw \<longrightarrow> gw' = gw)"
proof (cases "gw_isRunning gw \<or> \<not> gw_server gw")
  case True
  with assms show ?thesis by (auto simp: Start_def split: if_splits)
next
  case False
  then have "and_then (start_catalog env) (and_then (start_governance env) (and_then (start_metrics env) (and_then (Server_Start env)
      (\<lambda>g. (g\<lparr>gw_isRunning := True\<rparr>, None))))) (gw\<lparr>gw_cancelWork := True\<rparr>) = (gw', Some e)"
    using assms by (simp add: Start_def)
  then have "held gw' = held (gw\<lparr>gw_cancelWork := True\<rparr>)"
    by (elim and_then_fails) (simp_all add: held_steps)
  with False show ?thesis by (simp add: held_def)
qed

section \<open>The states of the process\<close>

inductive gateway_step :: "gatewayImpl \<Rightarrow> gatewayImpl \<Rightarrow> bool" where
  init: "gw = NewGateway \<Longrightarrow> gateway_step gw (fst (Initialize ie gw))"
| start: "gateway_step gw (fst (Start se gw))"
| stop: "Stop pe gw = Some (gw', ok) \<Longrightarrow> gateway_step gw gw'"
| serve_fails: "gw_http gw = Some h \<Longrightarrow> gateway_step gw (gw\<lparr>gw_http := Some False\<rparr>)"

lemma inv_init: "gateway_inv (fst (Initialize ie NewGateway)) \<and> \<not> gw_isRunning (fst (Initialize ie NewGateway))"
  by (simp add: Initialize_def NewGateway_def gateway_inv_def Let_def)

lemma inv_start:
  assumes "gateway_inv gw"
  shows "gateway_inv (fst (Start se gw))"
proof (cases "Start se gw")
  case (Pair gw' err)
  show ?thesis
  proof (cases err)
    case None
    with Pair have st: "Start se gw = (gw', None)" by simp
    from started [OF st] assms show ?thesis by (auto simp: Pair gateway_inv_def group_up_def)
  next
    case (Some e)
    with Pair have st: "Start se gw = (gw', Some e)" by simp
    from failed_start [OF st] assms show ?thesis by (cases "gw_isRunning gw") (auto simp: Pair gateway_inv_def held_def)
  qed
qed

lemma stop_simps:
  "gw_isRunning (stop_metrics gw) = gw_isRunning gw" "gw_governance (stop_metrics gw) = gw_governance gw" "gw_catalog (stop_metrics gw) = gw_catalog gw"
  "gw_source (stop_metrics gw) = gw_source gw" "gw_storeOpen (stop_metrics gw) = gw_storeOpen gw" "gw_metrics (stop_metrics gw) = None"
  "gw_isRunning (stop_http gw) = gw_isRunning gw" "gw_governance (stop_http gw) = gw_governance gw" "gw_catalog (stop_http gw) = gw_catalog gw"
  "gw_source (stop_http gw) = gw_source gw" "gw_storeOpen (stop_http gw) = gw_storeOpen gw" "gw_metrics (stop_http gw) = gw_metrics gw"
  "gw_eventsOpen (stop_http gw) = gw_eventsOpen gw"
  by (simp_all add: stop_metrics_def stop_http_def split: option.splits)

lemma events_closed: "gateway_inv gw \<Longrightarrow> \<not> gw_eventsOpen (stop_metrics (stop_http gw))"
  by (auto simp: stop_metrics_def stop_simps gateway_inv_def split: option.splits)

lemma close_store_simps:
  "gw_governance (close_store gw) = gw_governance gw" "gw_catalog (close_store gw) = gw_catalog gw"
  by (simp_all add: close_store_def)

lemma shutdown_down: "\<not> group_up (Some (Group_Shutdown g))"
  by (simp add: group_up_def Group_Shutdown_def)

lemma stop_jobs_total:
  assumes "gateway_inv gw"
  shows "\<exists>g1. stop_jobs (stop_metrics (stop_http gw)) = Some g1 \<and> gw_source g1 = gw_source gw \<and> gw_storeOpen g1 = gw_storeOpen gw
    \<and> gw_eventsOpen g1 = gw_eventsOpen (stop_metrics (stop_http gw)) \<and> gw_metrics g1 = None
    \<and> (gw_isRunning gw \<longrightarrow> \<not> group_up (gw_governance g1) \<and> \<not> group_up (gw_catalog g1))"
proof (cases "gw_isRunning gw")
  case True
  then obtain g c where "gw_governance gw = Some g" "gw_catalog gw = Some c" using assms by (auto simp: gateway_inv_def group_up_def)
  with True show ?thesis by (simp add: stop_jobs_def stop_simps shutdown_down)
qed (simp add: stop_jobs_def stop_simps)

text \<open>A stop of a process in a proper state does not panic, and leaves nothing open.\<close>

lemma stop_total:
  assumes "gateway_inv gw"
  obtains gw' ok where "Stop env gw = Some (gw', ok)" "gateway_inv gw'" "\<not> gw_isRunning gw'" "\<not> gw_storeOpen gw'" "\<not> gw_eventsOpen gw'"
    "\<not> gw_cancelWork gw'" "gw_isRunning gw \<Longrightarrow> \<not> group_up (gw_governance gw') \<and> \<not> group_up (gw_catalog gw')"
proof -
  let ?g = "stop_metrics (stop_http gw)"
  obtain g1 where j: "stop_jobs ?g = Some g1" "gw_source g1 = gw_source gw" "gw_storeOpen g1 = gw_storeOpen gw" "gw_eventsOpen g1 = gw_eventsOpen ?g"
    "gw_metrics g1 = None" "gw_isRunning gw \<Longrightarrow> \<not> group_up (gw_governance g1) \<and> \<not> group_up (gw_catalog g1)"
    using stop_jobs_total [OF assms] by metis
  show thesis
    by (rule that [where gw' = "(close_store (g1\<lparr>gw_isRunning := False\<rparr>))\<lparr>gw_cancelWork := False\<rparr>"])
      (use j assms events_closed [OF assms] in \<open>auto simp: Stop_def close_store_def gateway_inv_def\<close>)
qed

lemma inv_reachable:
  assumes "gateway_step\<^sup>*\<^sup>* NewGateway gw"
  shows "gateway_inv gw"
  using assms
proof (induction rule: rtranclp_induct)
  case base
  then show ?case by (simp add: gateway_inv_def NewGateway_def)
next
  case (step gw gw')
  from step(2) show ?case
  proof cases
    case (init ie)
    then show ?thesis using inv_init by simp
  next
    case (start se)
    then show ?thesis using inv_start step.IH by simp
  next
    case (stop pe ok)
    then show ?thesis using stop_total [OF step.IH, of pe] by (metis option.inject prod.inject)
  next
    case (serve_fails h)
    then show ?thesis using step.IH by (simp add: gateway_inv_def)
  qed
qed


section \<open>The program as a whole\<close>


text \<open>
  When only the listener fails, the stop that follows leaves the jobs of governance and catalog running over the closed store. A second
  start finds the server's start already spent: it reports success although nothing listens.
\<close>

theorem failed_listener:
  assumes "Start se gw = (gw1, Some ErrListen)" "gateway_inv gw"
  shows "(\<exists>gw2 ok. Stop pe gw1 = Some (gw2, ok) \<and> group_up (gw_governance gw2) \<and> group_up (gw_catalog gw2) \<and> \<not> gw_storeOpen gw2)
    \<and> (\<forall>se' gw2. Start se' gw1 = (gw2, None) \<longrightarrow> gw_isRunning gw2 \<and> gw_http gw2 = Some False)"
proof -
  have g: "\<not> gw_isRunning gw1" "group_up (gw_governance gw1)" "group_up (gw_catalog gw1)" "gw_startOnce gw1" "gw_http gw1 = Some False"
    using assms(1) by (auto simp: Start_def and_then_Some start_steps group_up_def dest: start_group_up split: if_splits prod.splits)
  have "gateway_inv gw1" using inv_start [OF assms(2), of se] by (simp add: assms(1))
  then obtain gw2 ok where s: "Stop pe gw1 = Some (gw2, ok)" "\<not> gw_storeOpen gw2" using stop_total by metis
  then have "gw_governance gw2 = gw_governance gw1" "gw_catalog gw2 = gw_catalog gw1"
    using g(1) s(1) by (auto simp: Stop_def stop_jobs_def stop_simps close_store_simps)
  moreover have "gw_isRunning gw2 \<and> gw_http gw2 = Some False" if "Start se' gw1 = (gw2, None)" for se' gw2
    using started [OF that] g(4,5) by auto
  ultimately show ?thesis using s g by auto
qed

section \<open>A concrete run\<close>

definition demo_init :: init_env where
  "demo_init = \<lparr>in_config = True, in_source = True, in_seed = True, in_load = True, in_governance = True, in_metrics = True, in_events = True, in_hooks = True\<rparr>"

definition demo_start :: start_env where
  "demo_start = \<lparr>st_load = True, st_firstBoot = False, st_sync = 5, st_flush = 5, st_runs = \<lambda>_. (0, 1, RunReturns None None), st_routes = True, st_listen = True\<rparr>"

lemma demo_group:
  assumes "snd (Group_Add (map Some jobs) (NewGroup name)) = None"
  shows "snd (start_group (\<lambda>_. (0, 1, RunReturns None None)) name jobs) = None"
proof -
  have run: "start_runs (\<lambda>_. (0, 1, RunReturns None None)) js = (js', names, e) \<Longrightarrow> e = None" for js js' names e
    by (induction js arbitrary: js' names e) (auto simp: Job_exec_def split: if_splits prod.splits)
  obtain g where g: "Group_Add (map Some jobs) (NewGroup name) = (g, None)" using assms by (metis prod.collapse)
  then have "\<not> g_started g" by (auto simp: Group_Add_def NewGroup_def split: prod.splits)
  with g run show ?thesis by (auto simp: start_group_def Group_Start_def Let_def split: prod.splits option.splits)
qed

lemma demo_started: "\<exists>gw. Start demo_start (fst (Initialize demo_init NewGateway)) = (gw, None)"
proof -
  have a: "snd (Group_Add (map Some [new_job ''catalog_sync'' 5 False False]) (NewGroup ''catalog'')) = None"
    "snd (Group_Add (map Some governance_jobs) (NewGroup ''governance'')) = None"
    "snd (Group_Add (map Some [new_job ''events_flush'' 5 False True]) (NewGroup ''metrics'')) = None"
    by (simp_all add: Group_Add_def NewGroup_def new_job_def governance_jobs_def Job_validate_def added_job_def)
  obtain c g m where up: "start_group (st_runs demo_start) ''catalog'' [new_job ''catalog_sync'' 5 False False] = (c, None)"
    "start_group (st_runs demo_start) ''governance'' governance_jobs = (g, None)"
    "start_group (st_runs demo_start) ''metrics'' [new_job ''events_flush'' 5 False True] = (m, None)"
    using demo_group [OF a(1)] demo_group [OF a(2)] demo_group [OF a(3)] by (auto simp: demo_start_def prod_eq_iff)
  have env: "st_load demo_start" "st_firstBoot demo_start = False" "st_sync demo_start = 5" "st_flush demo_start = 5" "st_routes demo_start" "st_listen demo_start"
    by (simp_all add: demo_start_def)
  have "fst (Initialize demo_init NewGateway) = NewGateway\<lparr>gw_source := True, gw_storeOpen := True, gw_server := True, gw_metrics := Some None, gw_eventsOpen := True\<rparr>"
    by (simp add: Initialize_def demo_init_def)
  then show ?thesis by (simp add: Start_def and_then_def start_steps up env NewGateway_def)
qed



end
