(* ===== verification/EventStore.thy ===== *)
theory EventStore
  imports Metrics KeyFormat "HOL-Library.Product_Lexorder"
begin

text \<open>
  The store of the metrics engine (\<^verbatim>\<open>internal/metrics-engine/duckdb.go\<close>, \<^verbatim>\<open>duckdb-events.go\<close>, \<^verbatim>\<open>duckdb-reads.go\<close>,
  \<^verbatim>\<open>utils.go\<close>): the migrations, the row of an event, the writes and prunes as transactions, and the queries as functions on the rows.
  The tables are lists of rows; the statements are those of the source. Whether the database executes a statement, its quantile function and
  the JSON codec are arguments. Times are stored in microseconds since the Unix epoch.
\<close>

section \<open>Migrations\<close>

record migration_file =
  mf_name :: string
  mf_sql :: string

record olap_schema =
  os_applied :: "(int \<times> string) list"
  os_executed :: "string list"

datatype migration_error = MigDatabase | MigBadName string | MigGap int int | MigModified int | MigFailed string

definition parseVersion :: "string \<Rightarrow> migration_error + int" where
  "parseVersion base = (if CHR ''_'' \<notin> set base then Inl (MigBadName base)
     else case Atoi (takeWhile (\<lambda>c. c \<noteq> CHR ''_'') base) of None \<Rightarrow> Inl (MigBadName base) | Some version \<Rightarrow> Inr version)"

fun check_versions :: "int \<Rightarrow> migration_file list \<Rightarrow> migration_error option" where
  "check_versions expected [] = None"
| "check_versions expected (f # fs) = (case parseVersion (mf_name f) of Inl e \<Rightarrow> Some e
   | Inr version \<Rightarrow> if version \<noteq> expected then Some (MigGap expected version) else check_versions (expected + 1) fs)"

text \<open>A migration runs and is recorded in one transaction, which the database executes or not.\<close>

fun apply_migrations :: "(string \<Rightarrow> bool) \<Rightarrow> (int \<times> migration_file) list \<Rightarrow> (int \<times> string) list \<Rightarrow> olap_schema \<Rightarrow> olap_schema \<times> migration_error option" where
  "apply_migrations executes [] applied s = (s, None)"
| "apply_migrations executes ((version, f) # fs) applied s =
    (case map_of applied version of
       Some checksum \<Rightarrow> if checksum \<noteq> sha256_hex (mf_sql f) then (s, Some (MigModified version)) else apply_migrations executes fs applied s
     | None \<Rightarrow> if \<not> executes (mf_name f) then (s, Some (MigFailed (mf_name f)))
         else apply_migrations executes fs applied (s\<lparr>os_applied := os_applied s @ [(version, sha256_hex (mf_sql f))], os_executed := os_executed s @ [mf_sql f]\<rparr>))"

definition numbered :: "migration_file list \<Rightarrow> (int \<times> migration_file) list" where
  "numbered files = map (\<lambda>(i, f). (int i + 1, f)) (List.enumerate 0 files)"

definition Migrate :: "bool \<Rightarrow> (string \<Rightarrow> bool) \<Rightarrow> migration_file list \<Rightarrow> olap_schema \<Rightarrow> olap_schema \<times> migration_error option" where
  "Migrate reads executes found s =
    (if \<not> reads then (s, Some MigDatabase)
     else let files = sort_key mf_name found in
       case check_versions 1 files of Some e \<Rightarrow> (s, Some e)
       | None \<Rightarrow> apply_migrations executes (numbered files) (os_applied s) s)"

section \<open>The row of an event\<close>

definition nullCheck :: "string \<Rightarrow> string option" where
  "nullCheck s = (if s = [] then None else Some s)"

definition nz :: "int \<Rightarrow> int option" where
  "nz v = (if v = 0 then None else Some v)"

text \<open>A JSON column: what the codec makes of a value, \<^const>\<open>None\<close> when that fails; empty values are stored as null.\<close>

definition js :: "string option \<Rightarrow> string option option" where
  "js marshalled = map_option (\<lambda>s. if s = ''null'' \<or> s = ''[]'' \<or> s = ''{}'' then None else Some s) marshalled"

definition bodyJSON :: "(string \<Rightarrow> string) \<Rightarrow> string option \<Rightarrow> string option" where
  "bodyJSON column b = (case b of None \<Rightarrow> None | Some s \<Rightarrow> if s = [] then None else Some (column s))"

record event_codec =
  ec_stages :: "TimingStage list \<Rightarrow> string option"
  ec_pricing :: "Pricing option \<Rightarrow> string option"
  ec_usage :: "Usage \<Rightarrow> string option"
  ec_headers :: "(string \<times> string) list \<Rightarrow> string option"
  ec_body :: "string \<Rightarrow> string"
  ed_stages :: "string \<Rightarrow> TimingStage list option"
  ed_pricing :: "string \<Rightarrow> Pricing option"
  ed_usage :: "string \<Rightarrow> Usage option"
  ed_headers :: "string \<Rightarrow> (string \<times> string) list option"

definition UnixMicro :: "time \<Rightarrow> int" where
  "UnixMicro t = (t - unix_epoch) div 1000"

record event_row =
  er_schema_version :: int
  er_id :: string
  er_request_id :: "string option"
  er_kind :: string
  er_request_kind :: "RequestKind option"
  er_request_endpoint :: string
  er_cost_nano_usd :: int
  er_client_id :: "string option"
  er_virtual_key_id :: "string option"
  er_budget_id :: "string option"
  er_result :: "Result option"
  er_http_status :: int
  er_upstream_http_status :: "int option"
  er_error_code :: "string option"
  er_error_category :: "string option"
  er_error_message :: "string option"
  er_started_at :: int
  er_total_us :: int
  er_ttfb_us :: "int option"
  er_ttft_us :: "int option"
  er_stages :: "string option"
  er_routing_mode :: "string option"
  er_credential_id :: "string option"
  er_credential_name :: "string option"
  er_attempts :: "int option"
  er_requested_model :: "string option"
  er_provider :: "string option"
  er_model :: "string option"
  er_upstream_model :: "string option"
  er_stream :: "bool option"
  er_finish_reason :: "string option"
  er_pricing :: "string option"
  er_tier :: "string option"
  er_input_tokens :: "int option"
  er_output_tokens :: "int option"
  er_total_tokens :: "int option"
  er_cached_input_tokens :: "int option"
  er_cache_creation_tokens :: "int option"
  er_reasoning_tokens :: "int option"
  er_usage_detail :: "string option"
  er_headers :: "string option"
  er_payload_state :: PayloadState

text \<open>
  The JSON columns together, \<^const>\<open>None\<close> when the codec refuses one of them. The columns for tool calls, parameters and the list of attempts
  are always null, because nothing fills those fields of an event.
\<close>

definition json_columns :: "event_codec \<Rightarrow> Event \<Rightarrow> (string option \<times> string option \<times> string option \<times> string option) option" where
  "json_columns ec e = (case js (ec_stages ec (tm_Stages (ev_Timing e))) of None \<Rightarrow> None
   | Some sts \<Rightarrow> (case (case ev_LLM e of None \<Rightarrow> Some None | Some l \<Rightarrow> js (ec_pricing ec (llm_Pricing l))) of None \<Rightarrow> None
     | Some pricing \<Rightarrow> (case (case ev_LLM e of None \<Rightarrow> Some None | Some l \<Rightarrow> (case llm_Usage l of None \<Rightarrow> Some None | Some u \<Rightarrow> js (ec_usage ec u))) of
         None \<Rightarrow> None
       | Some usage \<Rightarrow> (case js (ec_headers ec (ev_Headers e)) of None \<Rightarrow> None | Some headers \<Rightarrow> Some (sts, pricing, usage, headers)))))"

definition llm_column :: "(LLM \<Rightarrow> 'a option) \<Rightarrow> Event \<Rightarrow> 'a option" where
  "llm_column f e = (case ev_LLM e of None \<Rightarrow> None | Some l \<Rightarrow> f l)"

definition usage_column :: "(Usage \<Rightarrow> 'a option) \<Rightarrow> Event \<Rightarrow> 'a option" where
  "usage_column f = llm_column (\<lambda>l. case llm_Usage l of None \<Rightarrow> None | Some u \<Rightarrow> f u)"

definition toAppenderValues :: "event_codec \<Rightarrow> Event \<Rightarrow> event_row option" where
  "toAppenderValues ec e = map_option (\<lambda>(sts, pricing, usage, headers).
     \<lparr>er_schema_version = ev_SchemaVersion e, er_id = ev_ID e, er_request_id = nullCheck (ev_RequestID e), er_kind = ev_Kind e,
      er_request_kind = ev_RequestKind e, er_request_endpoint = ev_RequestEndpoint e, er_cost_nano_usd = ev_CostNanoUSD e,
      er_client_id = nullCheck (eg_ClientID (ev_Governance e)), er_virtual_key_id = nullCheck (eg_VirtualKeyID (ev_Governance e)),
      er_budget_id = nullCheck (eg_BudgetID (ev_Governance e)), er_result = oc_Result (ev_Outcome e), er_http_status = oc_HTTPStatus (ev_Outcome e),
      er_upstream_http_status = nz (oc_UpstreamHTTPStatus (ev_Outcome e)), er_error_code = nullCheck (oc_ErrorCode (ev_Outcome e)),
      er_error_category = nullCheck (oc_ErrorCategory (ev_Outcome e)), er_error_message = nullCheck (oc_ErrorMessage (ev_Outcome e)),
      er_started_at = UnixMicro (tm_Start (ev_Timing e)), er_total_us = tm_TotalUS (ev_Timing e), er_ttfb_us = nz (tm_TTFBUS (ev_Timing e)),
      er_ttft_us = nz (tm_TTFTUS (ev_Timing e)), er_stages = sts,
      er_routing_mode = map_option (\<lambda>r. VKMode_String (rt_Mode r)) (ev_Routing e),
      er_credential_id = (case ev_Routing e of None \<Rightarrow> None | Some r \<Rightarrow> nullCheck (rt_CredentialID r)),
      er_credential_name = (case ev_Routing e of None \<Rightarrow> None | Some r \<Rightarrow> nullCheck (rt_CredentialName r)),
      er_attempts = (case ev_Routing e of None \<Rightarrow> None | Some r \<Rightarrow> nz (rt_AttemptCount r)),
      er_requested_model = llm_column (\<lambda>l. nullCheck (llm_RequestedModel l)) e, er_provider = llm_column (\<lambda>l. nullCheck (llm_Provider l)) e,
      er_model = llm_column (\<lambda>l. nullCheck (llm_Model l)) e, er_upstream_model = llm_column (\<lambda>l. nullCheck (llm_UpstreamModel l)) e,
      er_stream = llm_column (\<lambda>l. Some (llm_Stream l)) e, er_finish_reason = llm_column (\<lambda>l. nullCheck (llm_FinishReason l)) e,
      er_pricing = pricing, er_tier = usage_column (\<lambda>u. Some (ServiceTier_String (Tier u))) e,
      er_input_tokens = usage_column (\<lambda>u. nz (InputTokens u)) e, er_output_tokens = usage_column (\<lambda>u. nz (OutputTokens u)) e,
      er_total_tokens = usage_column (\<lambda>u. nz (TotalTokens u)) e, er_cached_input_tokens = usage_column (\<lambda>u. nz (CachedInputTokens u)) e,
      er_cache_creation_tokens = usage_column (\<lambda>u. nz (CacheCreationTokens u)) e, er_reasoning_tokens = usage_column (\<lambda>u. nz (ReasoningTokens u)) e,
      er_usage_detail = usage, er_headers = headers, er_payload_state = ev_PayloadState e\<rparr>) (json_columns ec e)"

record payload_row =
  py_id :: string
  py_started_at :: int
  py_client_request :: "string option"
  py_client_response :: "string option"

definition toPayloadValues :: "event_codec \<Rightarrow> Event \<Rightarrow> Payload \<Rightarrow> payload_row" where
  "toPayloadValues ec e p = \<lparr>py_id = ev_ID e, py_started_at = UnixMicro (tm_Start (ev_Timing e)),
     py_client_request = bodyJSON (ec_body ec) (pl_ClientRequest p), py_client_response = bodyJSON (ec_body ec) (pl_ClientResponse p)\<rparr>"

section \<open>Writing\<close>

record olap_tables =
  ol_events :: "event_row list"
  ol_payloads :: "payload_row list"

fun event_rows :: "event_codec \<Rightarrow> Event list \<Rightarrow> event_row list option" where
  "event_rows ec [] = Some []"
| "event_rows ec (e # es) = (case toAppenderValues ec e of None \<Rightarrow> None | Some row \<Rightarrow> map_option ((#) row) (event_rows ec es))"

fun payload_rows :: "event_codec \<Rightarrow> Event list \<Rightarrow> payload_row list" where
  "payload_rows ec [] = []"
| "payload_rows ec (e # es) = (case ev_Payload e of None \<Rightarrow> payload_rows ec es | Some p \<Rightarrow> toPayloadValues ec e p # payload_rows ec es)"

text \<open>One transaction: everything is appended, or nothing when a statement fails, a value has no JSON, or an identifier is taken.\<close>

definition Duck_Write :: "event_codec \<Rightarrow> bool \<Rightarrow> Event list \<Rightarrow> olap_tables \<Rightarrow> olap_tables \<times> bool" where
  "Duck_Write ec executes events t =
    (if events = [] then (t, True)
     else if \<not> executes then (t, False)
     else case event_rows ec events of None \<Rightarrow> (t, False)
     | Some rows \<Rightarrow>
         if \<not> distinct (map er_id (ol_events t @ rows)) \<or> \<not> distinct (map py_id (ol_payloads t @ payload_rows ec events)) then (t, False)
         else (t\<lparr>ol_events := ol_events t @ rows, ol_payloads := ol_payloads t @ payload_rows ec events\<rparr>, True))"

definition Duck_Prune :: "bool \<Rightarrow> time \<Rightarrow> olap_tables \<Rightarrow> olap_tables \<times> (nat \<times> nat) option" where
  "Duck_Prune executes recordsBefore t = (if \<not> executes then (t, None)
     else (\<lparr>ol_events = filter (\<lambda>r. \<not> er_started_at r < UnixMicro recordsBefore) (ol_events t),
        ol_payloads = filter (\<lambda>r. \<not> py_started_at r < UnixMicro recordsBefore) (ol_payloads t)\<rparr>,
       Some (length (filter (\<lambda>r. er_started_at r < UnixMicro recordsBefore) (ol_events t)),
             length (filter (\<lambda>r. py_started_at r < UnixMicro recordsBefore) (ol_payloads t)))))"

section \<open>Queries\<close>

text \<open>Each query takes the database's answer: \<^const>\<open>None\<close> when it executes the query, else the error.\<close>

datatype olap_error = OlapNotFound | OlapDeadline | OlapFailed

fun answered :: "olap_error option \<Rightarrow> 'a \<Rightarrow> olap_error + 'a" where
  "answered None rows = Inr rows"
| "answered (Some e) rows = Inl e"

definition is_error :: "event_row \<Rightarrow> bool" where
  "is_error r \<longleftrightarrow> er_result r \<noteq> Some ResultOK \<and> er_result r \<noteq> Some ResultClientAbort"

definition is_cancelled :: "event_row \<Rightarrow> bool" where
  "is_cancelled r \<longleftrightarrow> er_result r = Some ResultClientAbort"

definition is_ok :: "event_row \<Rightarrow> bool" where
  "is_ok r \<longleftrightarrow> er_result r = Some ResultOK"

definition in_window :: "time \<Rightarrow> time \<Rightarrow> event_row \<Rightarrow> bool" where
  "in_window from_t to_t r \<longleftrightarrow> UnixMicro from_t \<le> er_started_at r \<and> er_started_at r < UnixMicro to_t"

definition rows_in :: "time \<Rightarrow> time \<Rightarrow> olap_tables \<Rightarrow> event_row list" where
  "rows_in from_t to_t t = filter (in_window from_t to_t) (ol_events t)"

definition billed :: "event_row \<Rightarrow> int" where
  "billed r = opt_or 0 (er_input_tokens r) + opt_or 0 (er_output_tokens r)"

definition usd :: "int \<Rightarrow> float64" where
  "usd nano = fdiv_const (float_of_int nano) 1000000000"

definition ms :: "int \<Rightarrow> float64" where
  "ms us = fdiv_const (float_of_int us) 1000"

record OverviewTiles =
  ot_Requests :: int
  ot_Errors :: int
  ot_Cancelled :: int
  ot_ErrorRate :: float64
  ot_P95LatencyMS :: float64
  ot_P99LatencyMS :: float64
  ot_TotalTokens :: int
  ot_SpendUSD :: float64

text \<open>The quantiles are those of the database over the requests that reached a credential, \<^const>\<open>None\<close> for no rows.\<close>

definition Duck_GetOverviewTiles :: "olap_error option \<Rightarrow> (rat \<Rightarrow> int list \<Rightarrow> float64 option) \<Rightarrow> olap_tables \<Rightarrow> time \<Rightarrow> time \<Rightarrow> olap_error + OverviewTiles" where
  "Duck_GetOverviewTiles db quantile t from_t to_t = answered db
    (let rows = rows_in from_t to_t t;
         routed = map er_total_us (filter (\<lambda>r. er_credential_id r \<noteq> None) rows);
         requests = int (length rows); errors = int (length (filter is_error rows))
     in \<lparr>ot_Requests = requests, ot_Errors = errors, ot_Cancelled = int (length (filter is_cancelled rows)),
        ot_ErrorRate = (if requests > 0 then (case float_of_int requests of Fin q \<Rightarrow> fdiv_const (float_of_int errors) q | _ \<Rightarrow> NaN) else Fin 0),
        ot_P95LatencyMS = fdiv_const (opt_or (Fin 0) (quantile (95 / 100) routed)) 1000,
        ot_P99LatencyMS = fdiv_const (opt_or (Fin 0) (quantile (99 / 100) routed)) 1000,
        ot_TotalTokens = sum_list (map billed rows), ot_SpendUSD = usd (sum_list (map er_cost_nano_usd rows))\<rparr>)"

text \<open>Buckets: integer division truncates towards zero and panics on zero (the result \<^const>\<open>None\<close>); \<^verbatim>\<open>to.Sub\<close> saturates.\<close>

definition truncated_div :: "int \<Rightarrow> int \<Rightarrow> int" where
  "truncated_div a b = (if a < 0 then - (- a div b) else a div b)"

definition bucketStart :: "time \<Rightarrow> time \<Rightarrow> duration \<Rightarrow> (int \<times> int) option" where
  "bucketStart from_t to_t bucket =
    (let b = Microseconds bucket;
         start = truncated_div (UnixMicro from_t) b * b
     in if b = 0 then None else Some (start, truncated_div (wrap64 (time_Sub to_t (unix_epoch + start * 1000) + bucket - 1)) bucket))"

record ProviderCount =
  pn_Provider :: string
  pn_Success :: nat

record TimePoint =
  tp_T :: time
  tp_Errors :: nat
  tp_Cancelled :: nat
  tp_Providers :: "ProviderCount list"

definition bucket_points :: "int \<Rightarrow> int \<Rightarrow> duration \<Rightarrow> TimePoint list" where
  "bucket_points start n bucket = map (\<lambda>i. \<lparr>tp_T = unix_epoch + start * 1000 + int i * bucket, tp_Errors = 0, tp_Cancelled = 0, tp_Providers = []\<rparr>) [0..<nat n]"

definition event_key :: "int \<Rightarrow> int \<Rightarrow> event_row \<Rightarrow> int \<times> string" where
  "event_key start b r = ((er_started_at r - start) div b, opt_or [] (er_provider r))"

record summary_group =
  sg_idx :: int
  sg_provider :: string
  sg_ok :: nat
  sg_errors :: nat
  sg_cancelled :: nat

definition summary_groups :: "int \<Rightarrow> int \<Rightarrow> event_row list \<Rightarrow> summary_group list" where
  "summary_groups start b rows = map (\<lambda>k. let grp = filter (\<lambda>r. event_key start b r = k) rows in
     \<lparr>sg_idx = fst k, sg_provider = snd k, sg_ok = length (filter is_ok grp), sg_errors = length (filter is_error grp), sg_cancelled = length (filter is_cancelled grp)\<rparr>)
     (sort (remdups (map (event_key start b) rows)))"

text \<open>An index outside the points would panic: the result \<^const>\<open>None\<close>.\<close>

fun add_groups :: "summary_group list \<Rightarrow> TimePoint list \<Rightarrow> TimePoint list option" where
  "add_groups [] points = Some points"
| "add_groups (g # gs) points = (if sg_idx g < 0 \<or> sg_idx g \<ge> int (length points) then None
     else let i = nat (sg_idx g); p = points ! i in
       add_groups gs (points[i := p\<lparr>tp_Errors := tp_Errors p + sg_errors g, tp_Cancelled := tp_Cancelled p + sg_cancelled g,
         tp_Providers := (if sg_ok g > 0 \<and> sg_provider g \<noteq> [] then tp_Providers p @ [\<lparr>pn_Provider = sg_provider g, pn_Success = sg_ok g\<rparr>]
           else tp_Providers p)\<rparr>]))"

record TimeSummary =
  tu_From :: time
  tu_To :: time
  tu_Bucket :: duration
  tu_Points :: "TimePoint list"

text \<open>A negative number of buckets panics in \<^verbatim>\<open>make\<close>, before the query.\<close>

definition Duck_GetRequestSummaryByTime :: "olap_error option \<Rightarrow> olap_tables \<Rightarrow> time \<Rightarrow> time \<Rightarrow> duration \<Rightarrow> (olap_error + TimeSummary) option" where
  "Duck_GetRequestSummaryByTime db t from_t to_t bucket = (case bucketStart from_t to_t bucket of None \<Rightarrow> None
   | Some (start, n) \<Rightarrow> if n < 0 then None
     else case answered db (summary_groups start (Microseconds bucket) (rows_in from_t to_t t)) of Inl e \<Rightarrow> Some (Inl e)
     | Inr groups \<Rightarrow> map_option (\<lambda>points. Inr \<lparr>tu_From = from_t, tu_To = to_t, tu_Bucket = bucket, tu_Points = points\<rparr>)
         (add_groups groups (bucket_points start n bucket)))"

record SpendPoint =
  sq_T :: time
  sq_SpendUSD :: float64

fun put_spends :: "(int \<times> int) list \<Rightarrow> SpendPoint list \<Rightarrow> SpendPoint list option" where
  "put_spends [] points = Some points"
| "put_spends ((idx, nano) # gs) points = (if idx < 0 \<or> idx \<ge> int (length points) then None
     else put_spends gs (points[nat idx := (points ! nat idx)\<lparr>sq_SpendUSD := usd nano\<rparr>]))"

text \<open>The groups come in an order that the database chooses; here the order of their indices, which does not matter to the result.\<close>

definition spend_groups :: "int \<Rightarrow> int \<Rightarrow> event_row list \<Rightarrow> (int \<times> int) list" where
  "spend_groups start b rows = map (\<lambda>i. (i, sum_list (map er_cost_nano_usd (filter (\<lambda>r. (er_started_at r - start) div b = i) rows))))
     (sort (remdups (map (\<lambda>r. (er_started_at r - start) div b) rows)))"

definition spend_points :: "int \<Rightarrow> int \<Rightarrow> duration \<Rightarrow> SpendPoint list" where
  "spend_points start n bucket = map (\<lambda>i. \<lparr>sq_T = unix_epoch + start * 1000 + int i * bucket, sq_SpendUSD = Fin 0\<rparr>) [0..<nat n]"

record BudgetSpend =
  bs_BudgetID :: string
  bs_From :: time
  bs_To :: time
  bs_Bucket :: duration
  bs_Points :: "SpendPoint list"

definition Duck_GetBudgetSpendByTime :: "olap_error option \<Rightarrow> olap_tables \<Rightarrow> string \<Rightarrow> time \<Rightarrow> time \<Rightarrow> duration \<Rightarrow> (olap_error + BudgetSpend) option" where
  "Duck_GetBudgetSpendByTime db t budgetID from_t to_t bucket = (case bucketStart from_t to_t bucket of None \<Rightarrow> None
   | Some (start, n) \<Rightarrow> if n < 0 then None
     else case answered db (spend_groups start (Microseconds bucket) (filter (\<lambda>r. er_budget_id r = Some budgetID) (rows_in from_t to_t t))) of
       Inl e \<Rightarrow> Some (Inl e)
     | Inr groups \<Rightarrow> map_option (\<lambda>points. Inr \<lparr>bs_BudgetID = budgetID, bs_From = from_t, bs_To = to_t, bs_Bucket = bucket, bs_Points = points\<rparr>)
         (put_spends groups (spend_points start n bucket)))"

record RequestLogRow =
  rl_ID :: string
  rl_StartedAt :: int
  rl_RequestKind :: "RequestKind option"
  rl_Provider :: string
  rl_Model :: string
  rl_LatencyMS :: float64
  rl_InputTokens :: int
  rl_OutputTokens :: int
  rl_CostUSD :: float64
  rl_HTTPStatus :: int
  rl_Result :: "Result option"
  rl_ClientID :: string

record RequestLogPage =
  lp_Total :: nat
  lp_Rows :: "RequestLogRow list"

definition log_row :: "event_row \<Rightarrow> RequestLogRow" where
  "log_row r = \<lparr>rl_ID = er_id r, rl_StartedAt = er_started_at r, rl_RequestKind = er_request_kind r, rl_Provider = opt_or [] (er_provider r),
     rl_Model = (case er_model r of Some m \<Rightarrow> m | None \<Rightarrow> opt_or [] (er_requested_model r)), rl_LatencyMS = ms (er_total_us r),
     rl_InputTokens = opt_or 0 (er_input_tokens r), rl_OutputTokens = opt_or 0 (er_output_tokens r), rl_CostUSD = usd (er_cost_nano_usd r),
     rl_HTTPStatus = er_http_status r, rl_Result = er_result r, rl_ClientID = opt_or [] (er_client_id r)\<rparr>"

definition newest_first :: "event_row list \<Rightarrow> event_row list" where
  "newest_first rows = rev (sort_key (\<lambda>r. (er_started_at r, er_id r)) rows)"

text \<open>The total is a column of the rows of the page: a page without rows keeps the zero.\<close>

definition Duck_GetRequestLogsByTime :: "olap_error option \<Rightarrow> olap_tables \<Rightarrow> time \<Rightarrow> time \<Rightarrow> int \<Rightarrow> int \<Rightarrow> olap_error + RequestLogPage" where
  "Duck_GetRequestLogsByTime db t from_t to_t offset limit = answered db
    (let rows = newest_first (rows_in from_t to_t t); page = take (nat limit) (drop (nat offset) rows)
     in \<lparr>lp_Total = (if page = [] then 0 else length rows), lp_Rows = map log_row page\<rparr>)"

record RequestDetail =
  rd_ID :: string
  rd_RequestID :: string
  rd_StartedAt :: int
  rd_RequestKind :: "RequestKind option"
  rd_Endpoint :: string
  rd_Result :: "Result option"
  rd_HTTPStatus :: int
  rd_LatencyUS :: int
  rd_TTFBUS :: int
  rd_TTFTUS :: int
  rd_Error :: "(string \<times> string \<times> string) option"
  rd_Requested :: string
  rd_Provider :: string
  rd_Model :: string
  rd_Upstream :: string
  rd_Stream :: bool
  rd_FinishReason :: string
  rd_Input :: int
  rd_Output :: int
  rd_CachedInput :: int
  rd_CacheCreation :: int
  rd_Reasoning :: int
  rd_Billed :: int
  rd_VirtualKeyID :: string
  rd_ClientID :: string
  rd_BudgetID :: string
  rd_Credential :: string
  rd_RoutingMode :: string
  rd_UpstreamStatus :: int
  rd_Attempts :: int
  rd_Headers :: "(string \<times> string) list"
  rd_UpstreamRequestID :: string
  rd_Pipeline :: "TimingStage list"
  rd_CostNano :: int
  rd_Lines :: "CostLine list"
  rd_PayloadState :: PayloadState

definition decoded :: "(string \<Rightarrow> 'a option) \<Rightarrow> 'a \<Rightarrow> string option \<Rightarrow> 'a option" where
  "decoded f zero column = (case column of None \<Rightarrow> Some zero | Some s \<Rightarrow> if s = [] then Some zero else f s)"

text \<open>The lines of the cost, when both the price sheet and the usage were stored.\<close>

definition cost_lines :: "event_codec \<Rightarrow> string option \<Rightarrow> string option \<Rightarrow> CostLine list option" where
  "cost_lines ec pricing usage = (if opt_or [] pricing = [] \<or> opt_or [] usage = [] then Some []
     else case ed_pricing ec (opt_or [] pricing) of None \<Rightarrow> None
     | Some p \<Rightarrow> (case ed_usage ec (opt_or [] usage) of None \<Rightarrow> None | Some u \<Rightarrow> Some (CostBreakdown p u)))"

definition first_of :: "string option \<Rightarrow> string option \<Rightarrow> string" where
  "first_of a b = (if opt_or [] a \<noteq> [] then opt_or [] a else opt_or [] b)"

definition detail_of :: "event_row \<Rightarrow> (string \<times> string) list \<Rightarrow> TimingStage list \<Rightarrow> CostLine list \<Rightarrow> RequestDetail" where
  "detail_of r headers sts lines = (let err = (opt_or [] (er_error_code r), opt_or [] (er_error_category r), opt_or [] (er_error_message r)) in
     \<lparr>rd_ID = er_id r, rd_RequestID = opt_or [] (er_request_id r), rd_StartedAt = er_started_at r, rd_RequestKind = er_request_kind r,
      rd_Endpoint = er_request_endpoint r, rd_Result = er_result r, rd_HTTPStatus = er_http_status r, rd_LatencyUS = er_total_us r,
      rd_TTFBUS = opt_or 0 (er_ttfb_us r), rd_TTFTUS = opt_or 0 (er_ttft_us r), rd_Error = (if err = ([], [], []) then None else Some err),
      rd_Requested = opt_or [] (er_requested_model r), rd_Provider = opt_or [] (er_provider r), rd_Model = opt_or [] (er_model r),
      rd_Upstream = opt_or [] (er_upstream_model r), rd_Stream = opt_or False (er_stream r), rd_FinishReason = opt_or [] (er_finish_reason r),
      rd_Input = opt_or 0 (er_input_tokens r), rd_Output = opt_or 0 (er_output_tokens r), rd_CachedInput = opt_or 0 (er_cached_input_tokens r),
      rd_CacheCreation = opt_or 0 (er_cache_creation_tokens r), rd_Reasoning = opt_or 0 (er_reasoning_tokens r), rd_Billed = billed r,
      rd_VirtualKeyID = opt_or [] (er_virtual_key_id r), rd_ClientID = opt_or [] (er_client_id r), rd_BudgetID = opt_or [] (er_budget_id r),
      rd_Credential = opt_or [] (er_credential_name r), rd_RoutingMode = opt_or [] (er_routing_mode r),
      rd_UpstreamStatus = opt_or 0 (er_upstream_http_status r), rd_Attempts = opt_or 0 (er_attempts r), rd_Headers = headers,
      rd_UpstreamRequestID = first_of (map_of headers ''x-request-id'') (map_of headers ''apim-request-id''), rd_Pipeline = sts,
      rd_CostNano = er_cost_nano_usd r, rd_Lines = lines, rd_PayloadState = er_payload_state r\<rparr>)"

definition Duck_GetRequestDetailByID :: "olap_error option \<Rightarrow> event_codec \<Rightarrow> olap_tables \<Rightarrow> string \<Rightarrow> olap_error + RequestDetail" where
  "Duck_GetRequestDetailByID db ec t ident = (case answered db (List.find (\<lambda>r. er_id r = ident) (ol_events t)) of Inl e \<Rightarrow> Inl e
   | Inr None \<Rightarrow> Inl OlapNotFound
   | Inr (Some r) \<Rightarrow> (case decoded (ed_headers ec) [] (er_headers r) of None \<Rightarrow> Inl OlapFailed
     | Some headers \<Rightarrow> (case decoded (ed_stages ec) [] (er_stages r) of None \<Rightarrow> Inl OlapFailed
       | Some sts \<Rightarrow> (case cost_lines ec (er_pricing r) (er_usage_detail r) of None \<Rightarrow> Inl OlapFailed
         | Some lines \<Rightarrow> Inr (detail_of r headers sts lines)))))"

definition Duck_GetPayloadByID :: "olap_error option \<Rightarrow> olap_tables \<Rightarrow> string \<Rightarrow> olap_error + (string option \<times> string option)" where
  "Duck_GetPayloadByID db t ident = (case answered db (List.find (\<lambda>r. py_id r = ident) (ol_payloads t)) of Inl e \<Rightarrow> Inl e
   | Inr None \<Rightarrow> Inl OlapNotFound
   | Inr (Some r) \<Rightarrow> Inr (py_client_request r, py_client_response r))"

record VirtualKeyUsage =
  vu_VirtualKeyID :: string
  vu_ClientID :: string
  vu_Requests :: nat
  vu_Errors :: nat
  vu_Tokens :: int
  vu_SpendNano :: int
  vu_LastUsed :: int

text \<open>One line per key; which client identifier of its rows is shown is up to the database, here the first.\<close>

definition key_usage :: "event_row list \<Rightarrow> string \<Rightarrow> VirtualKeyUsage" where
  "key_usage rows k = (let grp = filter (\<lambda>r. er_virtual_key_id r = Some k) rows in
     \<lparr>vu_VirtualKeyID = k, vu_ClientID = (case List.map_filter er_client_id grp of [] \<Rightarrow> [] | c # _ \<Rightarrow> c), vu_Requests = length grp,
      vu_Errors = length (filter is_error grp), vu_Tokens = sum_list (map billed grp), vu_SpendNano = sum_list (map er_cost_nano_usd grp),
      vu_LastUsed = Max (er_started_at ` set grp)\<rparr>)"

definition Duck_GetTopVirtualKeys :: "olap_error option \<Rightarrow> olap_tables \<Rightarrow> time \<Rightarrow> time \<Rightarrow> int \<Rightarrow> olap_error + VirtualKeyUsage list" where
  "Duck_GetTopVirtualKeys db t from_t to_t limit = answered db
    (let rows = rows_in from_t to_t t; keys = remdups (List.map_filter er_virtual_key_id rows)
     in take (nat limit) (sort_key (\<lambda>u. (- vu_SpendNano u, - int (vu_Requests u), vu_VirtualKeyID u)) (map (key_usage rows) keys)))"


section \<open>Each migration runs once, in order\<close>

definition migration_entry :: "int \<times> migration_file \<Rightarrow> int \<times> string" where
  "migration_entry vf = (fst vf, sha256_hex (mf_sql (snd vf)))"

text \<open>The schema after the first \<open>k\<close> migrations of the files, in the order of their names.\<close>

definition schema_at :: "nat \<Rightarrow> migration_file list \<Rightarrow> olap_schema \<Rightarrow> bool" where
  "schema_at k files s \<longleftrightarrow> k \<le> length files \<and> os_applied s = map migration_entry (take k (numbered files)) \<and> os_executed s = map mf_sql (take k files)"

lemma numbered_length [simp]: "length (numbered files) = length files"
  by (simp add: numbered_def)

lemma numbered_nth: "i < length files \<Longrightarrow> numbered files ! i = (int i + 1, files ! i)"
  by (simp add: numbered_def nth_enumerate_eq)

lemma numbered_distinct: "distinct (map fst (numbered files))"
proof -
  have "map fst (numbered files) = map (\<lambda>i. int i + 1) [0..<length files]"
    by (rule nth_equalityI) (simp_all add: numbered_nth)
  then show ?thesis by (simp add: distinct_map inj_on_def)
qed

lemma numbered_snd: "map snd (numbered files) = files"
  by (rule nth_equalityI) (simp_all add: numbered_nth)

lemma apply_applied:
  "\<forall>(v, f) \<in> set xs. map_of applied v = Some (sha256_hex (mf_sql f)) \<Longrightarrow> apply_migrations executes (xs @ ys) applied s = apply_migrations executes ys applied s"
  by (induction xs) auto

lemma apply_pending:
  assumes "\<forall>(v, f) \<in> set ys. map_of applied v = None"
  shows "\<exists>j r. apply_migrations executes ys applied s =
      (s\<lparr>os_applied := os_applied s @ map migration_entry (take j ys), os_executed := os_executed s @ map (mf_sql \<circ> snd) (take j ys)\<rparr>, r) \<and>
    j \<le> length ys \<and> (r = None \<longrightarrow> j = length ys) \<and> ((\<forall>(v, f) \<in> set ys. executes (mf_name f)) \<longrightarrow> r = None)"
  using assms
proof (induction ys arbitrary: s)
  case Nil
  then show ?case by simp
next
  case (Cons y ys)
  obtain v f where y: "y = (v, f)" by (cases y)
  have pending: "\<forall>(v, f) \<in> set ys. map_of applied v = None" using Cons.prems by simp
  show ?case
  proof (cases "executes (mf_name f)")
    case False
    then show ?thesis using Cons.prems y by (intro exI [of _ 0] exI [of _ "Some (MigFailed (mf_name f))"]) auto
  next
    case True
    let ?s = "s\<lparr>os_applied := os_applied s @ [(v, sha256_hex (mf_sql f))], os_executed := os_executed s @ [mf_sql f]\<rparr>"
    obtain j r where "apply_migrations executes ys applied ?s =
        (?s\<lparr>os_applied := os_applied ?s @ map migration_entry (take j ys), os_executed := os_executed ?s @ map (mf_sql \<circ> snd) (take j ys)\<rparr>, r)"
      "j \<le> length ys" "r = None \<longrightarrow> j = length ys" "(\<forall>(v, f) \<in> set ys. executes (mf_name f)) \<longrightarrow> r = None"
      using Cons.IH [OF pending, of ?s] by blast
    then show ?thesis using True Cons.prems y
      by (intro exI [of _ "Suc j"] exI [of _ r]) (auto simp: migration_entry_def)
  qed
qed

lemma applied_lookup:
  assumes "k \<le> length files"
  shows "\<forall>(v, f) \<in> set (take k (numbered files)). map_of (map migration_entry (take k (numbered files))) v = Some (sha256_hex (mf_sql f))"
    and "\<forall>(v, f) \<in> set (drop k (numbered files)). map_of (map migration_entry (take k (numbered files))) v = None"
proof -
  have keys: "fst \<circ> migration_entry = fst" by (simp add: fun_eq_iff migration_entry_def)
  have split: "distinct (map fst (take k (numbered files)) @ map fst (drop k (numbered files)))"
    using numbered_distinct [of files] by (metis append_take_drop_id map_append)
  then show "\<forall>(v, f) \<in> set (take k (numbered files)). map_of (map migration_entry (take k (numbered files))) v = Some (sha256_hex (mf_sql f))"
    by (auto simp: keys intro!: map_of_is_SomeI) (auto simp: migration_entry_def rev_image_eqI)
  show "\<forall>(v, f) \<in> set (drop k (numbered files)). map_of (map migration_entry (take k (numbered files))) v = None"
    using split by (auto simp: map_of_eq_None_iff migration_entry_def rev_image_eqI)
qed

lemma apply_from:
  assumes "schema_at k files s"
  shows "\<exists>j s' r. apply_migrations executes (numbered files) (os_applied s) s = (s', r) \<and> k \<le> j \<and> schema_at j files s' \<and> (r = None \<longrightarrow> j = length files) \<and>
    ((\<forall>f \<in> set files. executes (mf_name f)) \<longrightarrow> r = None)"
proof -
  have k: "k \<le> length files" and app: "os_applied s = map migration_entry (take k (numbered files))" and ex: "os_executed s = map mf_sql (take k files)"
    using assms by (auto simp: schema_at_def)
  have skip: "apply_migrations executes (numbered files) (os_applied s) s = apply_migrations executes (drop k (numbered files)) (os_applied s) s"
    using apply_applied [of "take k (numbered files)" "os_applied s" executes "drop k (numbered files)" s] applied_lookup(1) [OF k] app by simp
  obtain j r where j: "apply_migrations executes (drop k (numbered files)) (os_applied s) s =
      (s\<lparr>os_applied := os_applied s @ map migration_entry (take j (drop k (numbered files))), os_executed := os_executed s @ map (mf_sql \<circ> snd) (take j (drop k (numbered files)))\<rparr>, r)"
    "j \<le> length files - k" "r = None \<longrightarrow> j = length files - k" "(\<forall>(v, f) \<in> set (drop k (numbered files)). executes (mf_name f)) \<longrightarrow> r = None"
    using apply_pending [OF applied_lookup(2) [OF k], of executes s] unfolding app [symmetric] length_drop numbered_length by blast
  have all: "(\<forall>f \<in> set files. executes (mf_name f)) \<longrightarrow> r = None"
  proof
    assume "\<forall>f \<in> set files. executes (mf_name f)"
    then have "\<forall>f \<in> set (map snd (numbered files)). executes (mf_name f)" by (simp add: numbered_snd)
    then show "r = None" using j(4) by (force dest: in_set_dropD)
  qed
  have "take j (drop k files) = map snd (take j (drop k (numbered files)))"
    by (metis drop_map numbered_snd take_map)
  then have "schema_at (k + j) files (s\<lparr>os_applied := os_applied s @ map migration_entry (take j (drop k (numbered files))),
      os_executed := os_executed s @ map (mf_sql \<circ> snd) (take j (drop k (numbered files)))\<rparr>)"
    using k j(2) app ex by (simp add: schema_at_def take_add)
  then show ?thesis using skip j k all by (intro exI [of _ "k + j"]) auto
qed

text \<open>
  C28: From a schema that holds the first migrations of the release, however many, \<^const>\<open>Migrate\<close> leaves one that holds at least those, again a prefix in
  the order of the file names, each executed once; a run without error has applied them all, which every run does that the database does not
  fail; and a further run executes nothing.
\<close>

theorem migrations_run_once:
  assumes "check_versions 1 (sort_key mf_name found) = None" "schema_at k (sort_key mf_name found) s" "Migrate reads executes found s = (s', r)"
  shows "(\<exists>j \<ge> k. schema_at j (sort_key mf_name found) s' \<and> (r = None \<longrightarrow> j = length found)) \<and>
    (reads \<and> (\<forall>f \<in> set found. executes (mf_name f)) \<longrightarrow> r = None) \<and> (r = None \<longrightarrow> (\<forall>ex. Migrate True ex found s' = (s', None)))"
proof (cases reads)
  case False
  then show ?thesis using assms by (auto simp: Migrate_def)
next
  case True
  let ?files = "sort_key mf_name found"
  have run: "Migrate True ex found u = apply_migrations ex (numbered ?files) (os_applied u) u" for ex u
    using assms(1) by (simp add: Migrate_def Let_def)
  obtain j where j: "k \<le> j" "schema_at j ?files s'" "r = None \<longrightarrow> j = length found" "(\<forall>f \<in> set found. executes (mf_name f)) \<longrightarrow> r = None"
    using apply_from [OF assms(2), of executes] assms(3) True run [of executes s] by auto
  have again: "Migrate True ex found s' = (s', None)" if r: "r = None" for ex
  proof -
    have "schema_at (length ?files) ?files s'" using j r by simp
    then have "\<forall>(v, f) \<in> set (numbered ?files). map_of (os_applied s') v = Some (sha256_hex (mf_sql f))"
      using applied_lookup(1) [of "length ?files" ?files] by (simp add: schema_at_def)
    then show ?thesis using apply_applied [of "numbered ?files" "os_applied s'" ex "[]" s'] run by simp
  qed
  show ?thesis using j again by auto
qed

definition first_migration :: migration_file where
  "first_migration = \<lparr>mf_name = ''0001_init.sql'', mf_sql = ''a''\<rparr>"

lemma migrations_run_once_witness:
  "check_versions 1 (sort_key mf_name [first_migration]) = None \<and> schema_at 0 (sort_key mf_name [first_migration]) \<lparr>os_applied = [], os_executed = []\<rparr> \<and>
   snd (Migrate True (\<lambda>_. True) [first_migration] \<lparr>os_applied = [], os_executed = []\<rparr>) = None"
proof -
  have "check_versions 1 (sort_key mf_name [first_migration]) = None" by (simp add: first_migration_def) code_simp
  moreover have "schema_at 0 (sort_key mf_name [first_migration]) \<lparr>os_applied = [], os_executed = []\<rparr>" by (simp add: schema_at_def)
  ultimately show ?thesis
    using migrations_run_once [of "[first_migration]" 0 "\<lparr>os_applied = [], os_executed = []\<rparr>" True "\<lambda>_. True"
      "fst (Migrate True (\<lambda>_. True) [first_migration] \<lparr>os_applied = [], os_executed = []\<rparr>)"
      "snd (Migrate True (\<lambda>_. True) [first_migration] \<lparr>os_applied = [], os_executed = []\<rparr>)"] by simp
qed

section \<open>The buckets of a query cover its window\<close>

lemma truncated_div_range:
  assumes "0 < b"
  shows "truncated_div a b * b - b < a" "0 \<le> a \<Longrightarrow> truncated_div a b * b \<le> a" "a < 0 \<Longrightarrow> truncated_div a b * b \<le> 0 \<and> truncated_div a b * b - b < a"
    and "a < truncated_div a b * b + b"
proof -
  have pos: "x div b * b \<le> x" "x < x div b * b + b" for x
    using assms by (simp_all add: minus_mod_eq_div_mult [symmetric])
  show "truncated_div a b * b - b < a" "a < truncated_div a b * b + b"
    using pos [of a] pos [of "- a"] assms by (auto simp: truncated_div_def)
  show "0 \<le> a \<Longrightarrow> truncated_div a b * b \<le> a" using pos [of a] by (simp add: truncated_div_def)
  show "a < 0 \<Longrightarrow> truncated_div a b * b \<le> 0 \<and> truncated_div a b * b - b < a"
    using pos [of "- a"] assms by (simp add: truncated_div_def pos_imp_zdiv_nonneg_iff)
qed

lemma bucketFor_whole: "bucketFor r = 1000 * Microseconds (bucketFor r) \<and> 0 < Microseconds (bucketFor r) \<and> Microseconds (bucketFor r) \<le> 2592000000000"
  by (simp add: bucketFor_def Microseconds_def Let_def)

lemma ceiling_div:
  fixes x :: int
  assumes "0 < b" "- b < x"
  shows "0 \<le> truncated_div (x + b - 1) b" "x \<le> truncated_div (x + b - 1) b * b" "truncated_div (x + b - 1) b * b < x + b"
proof -
  have e: "truncated_div (x + b - 1) b = (x + b - 1) div b" using assms by (simp add: truncated_div_def)
  have m: "(x + b - 1) div b * b = x + b - 1 - (x + b - 1) mod b" by (simp add: minus_mod_eq_div_mult)
  have r: "0 \<le> (x + b - 1) mod b" "(x + b - 1) mod b < b" using assms by simp_all
  show "0 \<le> truncated_div (x + b - 1) b" using e assms by (simp add: pos_imp_zdiv_nonneg_iff)
  show "x \<le> truncated_div (x + b - 1) b * b" "truncated_div (x + b - 1) b * b < x + b" using e m r by simp_all
qed

text \<open>The first bucket starts at most a bucket before the window, on a whole number of buckets, and the last one ends after the window and starts in it.\<close>

lemma bucketStart_covers:
  assumes "checkRange cfg from_t to_t" "mec_MaxWindow cfg \<le> 2 ^ 62"
  obtains start n where "bucketStart from_t to_t (bucketFor (time_Sub to_t from_t)) = Some (start, n)" "0 \<le> n"
    "to_t \<le> unix_epoch + start * 1000 + n * bucketFor (time_Sub to_t from_t)" "\<And>s. 0 \<le> s \<Longrightarrow> UnixMicro from_t \<le> s \<Longrightarrow> start \<le> s"
proof -
  let ?w = "bucketFor (time_Sub to_t from_t)"
  let ?b = "Microseconds ?w"
  let ?start = "truncated_div (UnixMicro from_t) ?b * ?b"
  let ?x = "to_t - (unix_epoch + ?start * 1000)"
  have b: "?w = 1000 * ?b" "0 < ?b" "?b \<le> 2592000000000" using bucketFor_whole [of "time_Sub to_t from_t"] by auto
  have range: "3600000000000 \<le> to_t - from_t" "to_t - from_t \<le> 2 ^ 62"
    using assms by (auto simp: checkRange_def minRange_def time_Sub_def max_int64_def min_int64_def min_def max_def split: if_splits)
  have micro: "UnixMicro from_t * 1000 \<le> from_t - unix_epoch" "from_t - unix_epoch < UnixMicro from_t * 1000 + 1000"
    unfolding UnixMicro_def by (simp_all add: minus_mod_eq_div_mult [symmetric])
  have start: "?start - ?b < UnixMicro from_t" "UnixMicro from_t < ?start + ?b"
    using truncated_div_range(1,4) [OF b(2), of "UnixMicro from_t"] by auto
  have x: "- ?w < ?x" "?x < 2 ^ 62 + ?w + 1000" using start micro range b by linarith+
  have sub: "time_Sub to_t (unix_epoch + ?start * 1000) = ?x"
    using x b by (intro time_Sub_exact) (auto simp: in_int64_def min_int64_def max_int64_def)
  have wr: "wrap64 (?x + ?w - 1) = ?x + ?w - 1"
    using x b by (intro wrap64_id) (auto simp: in_int64_def min_int64_def max_int64_def)
  have w: "0 < ?w" using b by simp
  have "bucketStart from_t to_t ?w = Some (?start, truncated_div (?x + ?w - 1) ?w)"
    using b(2) by (simp add: bucketStart_def Let_def sub wr)
  moreover have "?start \<le> s" if "0 \<le> s" "UnixMicro from_t \<le> s" for s
    using truncated_div_range(2,3) [OF b(2), of "UnixMicro from_t"] that by (cases "UnixMicro from_t < 0") auto
  ultimately show ?thesis using ceiling_div [OF w x(1)] that by auto
qed

lemma bucket_index:
  assumes "0 < b" "w = 1000 * b" "start \<le> s" "s < UnixMicro to_t" "to_t \<le> unix_epoch + start * 1000 + n * w"
  shows "0 \<le> (s - start) div b" "(s - start) div b < n"
proof -
  show "0 \<le> (s - start) div b" using assms by (simp add: pos_imp_zdiv_nonneg_iff)
  have "UnixMicro to_t * 1000 \<le> to_t - unix_epoch" unfolding UnixMicro_def by (simp add: minus_mod_eq_div_mult [symmetric])
  moreover have "to_t \<le> unix_epoch + start * 1000 + n * (1000 * b)" using assms(2,5) by simp
  ultimately have "s * 1000 < start * 1000 + n * (1000 * b)" using assms(4) by linarith
  then have "s - start < n * b" by (simp add: algebra_simps)
  moreover have "(s - start) div b * b \<le> s - start" using assms(1) by (simp add: minus_mod_eq_div_mult [symmetric])
  ultimately have "(s - start) div b * b < n * b" by linarith
  then show "(s - start) div b < n" using assms(1) by simp
qed

lemma window_index:
  assumes "0 < b" "w = 1000 * b" "to_t \<le> unix_epoch + start * 1000 + n * w" "\<And>s. 0 \<le> s \<Longrightarrow> UnixMicro from_t \<le> s \<Longrightarrow> start \<le> s"
    "\<forall>r \<in> set (ol_events t). 0 \<le> er_started_at r"
  shows "\<forall>r \<in> set (rows_in from_t to_t t). 0 \<le> (er_started_at r - start) div b \<and> (er_started_at r - start) div b < n"
proof
  fix r
  assume "r \<in> set (rows_in from_t to_t t)"
  then have r: "r \<in> set (ol_events t)" "UnixMicro from_t \<le> er_started_at r" "er_started_at r < UnixMicro to_t" by (auto simp: rows_in_def in_window_def)
  then have "start \<le> er_started_at r" using assms(4,5) by blast
  then show "0 \<le> (er_started_at r - start) div b \<and> (er_started_at r - start) div b < n" using bucket_index [OF assms(1,2) _ r(3) assms(3)] by blast
qed

section \<open>What the points of a query count\<close>

lemma add_groups_ok:
  "\<forall>g \<in> set gs. 0 \<le> sg_idx g \<and> sg_idx g < int (length points) \<Longrightarrow>
   \<exists>points'. add_groups gs points = Some points' \<and> length points' = length points \<and>
     (\<forall>i < length points. tp_T (points' ! i) = tp_T (points ! i) \<and>
       tp_Errors (points' ! i) = tp_Errors (points ! i) + (\<Sum>g\<leftarrow>filter (\<lambda>g. sg_idx g = int i) gs. sg_errors g) \<and>
       tp_Cancelled (points' ! i) = tp_Cancelled (points ! i) + (\<Sum>g\<leftarrow>filter (\<lambda>g. sg_idx g = int i) gs. sg_cancelled g) \<and>
       tp_Providers (points' ! i) = tp_Providers (points ! i) @
         map (\<lambda>g. \<lparr>pn_Provider = sg_provider g, pn_Success = sg_ok g\<rparr>) (filter (\<lambda>g. sg_idx g = int i \<and> sg_ok g > 0 \<and> sg_provider g \<noteq> []) gs))"
proof (induction gs arbitrary: points)
  case Nil
  then show ?case by simp
next
  case (Cons g gs)
  let ?p = "points ! nat (sg_idx g)"
  let ?points = "points[nat (sg_idx g) := ?p\<lparr>tp_Errors := tp_Errors ?p + sg_errors g, tp_Cancelled := tp_Cancelled ?p + sg_cancelled g,
     tp_Providers := (if sg_ok g > 0 \<and> sg_provider g \<noteq> [] then tp_Providers ?p @ [\<lparr>pn_Provider = sg_provider g, pn_Success = sg_ok g\<rparr>] else tp_Providers ?p)\<rparr>]"
  have idx: "0 \<le> sg_idx g" "sg_idx g < int (length points)" and rest: "\<forall>h \<in> set gs. 0 \<le> sg_idx h \<and> sg_idx h < int (length ?points)"
    using Cons.prems by simp_all
  obtain points' where step: "add_groups (g # gs) points = Some points'" and len: "length points' = length ?points" and
    pts: "\<And>i. i < length ?points \<Longrightarrow> tp_T (points' ! i) = tp_T (?points ! i) \<and>
       tp_Errors (points' ! i) = tp_Errors (?points ! i) + (\<Sum>g\<leftarrow>filter (\<lambda>g. sg_idx g = int i) gs. sg_errors g) \<and>
       tp_Cancelled (points' ! i) = tp_Cancelled (?points ! i) + (\<Sum>g\<leftarrow>filter (\<lambda>g. sg_idx g = int i) gs. sg_cancelled g) \<and>
       tp_Providers (points' ! i) = tp_Providers (?points ! i) @
         map (\<lambda>g. \<lparr>pn_Provider = sg_provider g, pn_Success = sg_ok g\<rparr>) (filter (\<lambda>g. sg_idx g = int i \<and> sg_ok g > 0 \<and> sg_provider g \<noteq> []) gs)"
    using Cons.IH [OF rest] idx by (auto simp: Let_def)
  have "i = nat (sg_idx g) \<longleftrightarrow> sg_idx g = int i" for i using idx by auto
  then show ?case using step len pts idx by (intro exI [of _ points']) (auto simp: nth_list_update)
qed

lemma grouped_count:
  assumes "distinct ks" "f ` set rows \<subseteq> set ks"
  shows "(\<Sum>k\<leftarrow>filter Q ks. length (filter P (filter (\<lambda>r. f r = k) rows))) = length (filter (\<lambda>r. P r \<and> Q (f r)) rows)"
  using assms(2)
proof (induction rows)
  case Nil
  then show ?case by simp
next
  case (Cons r rows)
  have one: "(\<Sum>k\<leftarrow>filter Q ks. if f r = k \<and> P r then Suc 0 else 0) = (if P r \<and> Q (f r) then 1 else 0)"
    using assms(1) Cons.prems by (auto simp: sum_list_distinct_conv_sum_set sum.delta)
  have "(\<Sum>k\<leftarrow>filter Q ks. length (filter P (filter (\<lambda>x. f x = k) (r # rows)))) =
      (\<Sum>k\<leftarrow>filter Q ks. (if f r = k \<and> P r then Suc 0 else 0) + length (filter P (filter (\<lambda>x. f x = k) rows)))"
    by (rule arg_cong [where f = sum_list], rule map_cong) auto
  also have "\<dots> = (if P r \<and> Q (f r) then 1 else 0) + length (filter (\<lambda>r. P r \<and> Q (f r)) rows)"
    using one Cons by (simp add: sum_list_addf)
  finally show ?case by simp
qed

definition count_between :: "(event_row \<Rightarrow> bool) \<Rightarrow> time \<Rightarrow> time \<Rightarrow> event_row list \<Rightarrow> nat" where
  "count_between P lo hi rows = length (filter (\<lambda>r. P r \<and> lo \<le> unix_epoch + er_started_at r * 1000 \<and> unix_epoch + er_started_at r * 1000 < hi) rows)"

lemma bucket_between:
  assumes "0 < b" "w = 1000 * b"
  shows "(s - start) div b = i \<longleftrightarrow> unix_epoch + start * 1000 + i * w \<le> unix_epoch + s * 1000 \<and> unix_epoch + s * 1000 < unix_epoch + start * 1000 + i * w + w"
proof -
  have "(s - start) div b = i \<longleftrightarrow> i * b \<le> s - start \<and> s - start < i * b + b"
  proof
    assume "(s - start) div b = i"
    then show "i * b \<le> s - start \<and> s - start < i * b + b" using assms(1) by (auto simp: minus_mod_eq_div_mult [symmetric])
  next
    assume "i * b \<le> s - start \<and> s - start < i * b + b"
    then show "(s - start) div b = i" using assms(1) by (intro int_div_pos_eq [of _ _ _ "s - start - i * b"]) (auto simp: algebra_simps)
  qed
  then show ?thesis using assms(2) by (auto simp: algebra_simps)
qed

lemma group_sums:
  assumes "0 < b" "w = 1000 * b"
  shows "(\<Sum>g\<leftarrow>filter (\<lambda>g. sg_idx g = i) (summary_groups start b rows). sg_errors g) =
      count_between is_error (unix_epoch + start * 1000 + i * w) (unix_epoch + start * 1000 + i * w + w) rows"
    and "(\<Sum>g\<leftarrow>filter (\<lambda>g. sg_idx g = i) (summary_groups start b rows). sg_cancelled g) =
      count_between is_cancelled (unix_epoch + start * 1000 + i * w) (unix_epoch + start * 1000 + i * w + w) rows"
proof -
  let ?ks = "sort (remdups (map (event_key start b) rows))"
  have ks: "distinct ?ks" "event_key start b ` set rows \<subseteq> set ?ks" by simp_all
  have key: "fst (event_key start b r) = (er_started_at r - start) div b" for r by (simp add: event_key_def)
  have count: "length (filter (\<lambda>r. P r \<and> fst (event_key start b r) = i) rows) =
      count_between P (unix_epoch + start * 1000 + i * w) (unix_epoch + start * 1000 + i * w + w) rows" for P
    using bucket_between [OF assms] by (simp add: count_between_def key)
  show "(\<Sum>g\<leftarrow>filter (\<lambda>g. sg_idx g = i) (summary_groups start b rows). sg_errors g) =
      count_between is_error (unix_epoch + start * 1000 + i * w) (unix_epoch + start * 1000 + i * w + w) rows"
    using grouped_count [OF ks, where P = is_error and Q = "\<lambda>k. fst k = i"] count [of is_error] by (simp add: summary_groups_def filter_map o_def Let_def)
  show "(\<Sum>g\<leftarrow>filter (\<lambda>g. sg_idx g = i) (summary_groups start b rows). sg_cancelled g) =
      count_between is_cancelled (unix_epoch + start * 1000 + i * w) (unix_epoch + start * 1000 + i * w + w) rows"
    using grouped_count [OF ks, where P = is_cancelled and Q = "\<lambda>k. fst k = i"] count [of is_cancelled] by (simp add: summary_groups_def filter_map o_def Let_def)
qed

lemma group_providers:
  assumes "0 < b" "w = 1000 * b" "\<lparr>pn_Provider = p, pn_Success = c\<rparr> \<in>
      (\<lambda>g. \<lparr>pn_Provider = sg_provider g, pn_Success = sg_ok g\<rparr>) ` set (filter (\<lambda>g. sg_idx g = i \<and> sg_ok g > 0 \<and> sg_provider g \<noteq> []) (summary_groups start b rows))"
  shows "p \<noteq> [] \<and> 0 < c \<and> c = count_between (\<lambda>r. is_ok r \<and> er_provider r = Some p) (unix_epoch + start * 1000 + i * w) (unix_epoch + start * 1000 + i * w + w) rows"
proof -
  have prov: "opt_or [] x = p \<longleftrightarrow> x = Some p" if "p \<noteq> []" for x :: "string option" using that by (cases x) auto
  have "p \<noteq> []" "0 < c" "c = length (filter is_ok (filter (\<lambda>r. event_key start b r = (i, p)) rows))"
    using assms(3) by (auto simp: summary_groups_def Let_def)
  then show ?thesis using bucket_between [OF assms(1,2)] prov
    by (auto simp: count_between_def event_key_def conj_ac intro!: arg_cong [where f = length] filter_cong)
qed

definition point_counts :: "duration \<Rightarrow> event_row list \<Rightarrow> TimePoint \<Rightarrow> bool" where
  "point_counts w rows p \<longleftrightarrow> tp_Errors p = count_between is_error (tp_T p) (tp_T p + w) rows \<and> tp_Cancelled p = count_between is_cancelled (tp_T p) (tp_T p + w) rows \<and>
     (\<forall>q \<in> set (tp_Providers p). pn_Provider q \<noteq> [] \<and> 0 < pn_Success q \<and>
       pn_Success q = count_between (\<lambda>r. is_ok r \<and> er_provider r = Some (pn_Provider q)) (tp_T p) (tp_T p + w) rows)"

lemma summary_points:
  assumes b: "0 < b" "w = 1000 * b" and idx: "\<forall>r \<in> set rows. 0 \<le> (er_started_at r - start) div b \<and> (er_started_at r - start) div b < n"
  obtains points where "add_groups (summary_groups start b rows) (bucket_points start n w) = Some points" "length points = nat n"
    "\<And>i. i < nat n \<Longrightarrow> tp_T (points ! i) = unix_epoch + start * 1000 + int i * w" "\<And>i. i < nat n \<Longrightarrow> point_counts w rows (points ! i)"
proof -
  let ?gs = "summary_groups start b rows"
  let ?pts = "bucket_points start n w"
  have len: "length ?pts = nat n" by (simp add: bucket_points_def)
  have pt: "tp_T (?pts ! i) = unix_epoch + start * 1000 + int i * w" "tp_Errors (?pts ! i) = 0" "tp_Cancelled (?pts ! i) = 0" "tp_Providers (?pts ! i) = []" if "i < nat n" for i
    using that by (simp_all add: bucket_points_def)
  have "\<forall>g \<in> set ?gs. 0 \<le> sg_idx g \<and> sg_idx g < int (length ?pts)"
    using idx len by (auto simp: summary_groups_def event_key_def Let_def)
  from add_groups_ok [OF this] obtain points where pts: "add_groups ?gs ?pts = Some points" "length points = nat n" and
    here: "\<And>i. i < nat n \<Longrightarrow> tp_T (points ! i) = unix_epoch + start * 1000 + int i * w \<and>
       tp_Errors (points ! i) = (\<Sum>g\<leftarrow>filter (\<lambda>g. sg_idx g = int i) ?gs. sg_errors g) \<and>
       tp_Cancelled (points ! i) = (\<Sum>g\<leftarrow>filter (\<lambda>g. sg_idx g = int i) ?gs. sg_cancelled g) \<and>
       tp_Providers (points ! i) = map (\<lambda>g. \<lparr>pn_Provider = sg_provider g, pn_Success = sg_ok g\<rparr>)
         (filter (\<lambda>g. sg_idx g = int i \<and> sg_ok g > 0 \<and> sg_provider g \<noteq> []) ?gs)"
    using len pt by auto
  have "point_counts w rows (points ! i)" if i: "i < nat n" for i
  proof -
    have provs: "pn_Provider q \<noteq> [] \<and> 0 < pn_Success q \<and>
        pn_Success q = count_between (\<lambda>r. is_ok r \<and> er_provider r = Some (pn_Provider q)) (tp_T (points ! i)) (tp_T (points ! i) + w) rows"
      if q: "q \<in> set (tp_Providers (points ! i))" for q
      using group_providers [OF b, of "pn_Provider q" "pn_Success q" "int i" start rows] q here [OF i] by auto
    have "tp_Errors (points ! i) = count_between is_error (tp_T (points ! i)) (tp_T (points ! i) + w) rows"
      "tp_Cancelled (points ! i) = count_between is_cancelled (tp_T (points ! i)) (tp_T (points ! i) + w) rows"
      using here [OF i] group_sums [OF b] by simp_all
    then show ?thesis using provs unfolding point_counts_def by blast
  qed
  then show ?thesis using that pts here by auto
qed


definition example_row :: "string \<Rightarrow> Result \<Rightarrow> int \<Rightarrow> event_row" where
  "example_row ident res at_us = \<lparr>er_schema_version = 1, er_id = ident, er_request_id = None, er_kind = KindLLM, er_request_kind = None, er_request_endpoint = ''/v1'',
     er_cost_nano_usd = 5, er_client_id = None, er_virtual_key_id = None, er_budget_id = Some ''b'', er_result = Some res, er_http_status = 200,
     er_upstream_http_status = None, er_error_code = None, er_error_category = None, er_error_message = None, er_started_at = at_us, er_total_us = 7,
     er_ttfb_us = None, er_ttft_us = None, er_stages = None, er_routing_mode = None, er_credential_id = None, er_credential_name = None, er_attempts = None,
     er_requested_model = None, er_provider = Some ''openai'', er_model = None, er_upstream_model = None, er_stream = None, er_finish_reason = None,
     er_pricing = None, er_tier = None, er_input_tokens = None, er_output_tokens = None, er_total_tokens = None, er_cached_input_tokens = None,
     er_cache_creation_tokens = None, er_reasoning_tokens = None, er_usage_detail = None, er_headers = None, er_payload_state = PayloadNone\<rparr>"

definition example_tables :: olap_tables where
  "example_tables = \<lparr>ol_events = [example_row ''r1'' ResultOK 90000000, example_row ''r2'' ResultRejected 3599000000], ol_payloads = []\<rparr>"

lemma example_tables_range: "checkRange example_metrics_config unix_epoch (unix_epoch + 3600000000000)" "mec_MaxWindow example_metrics_config \<le> 2 ^ 62"
    "\<forall>r \<in> set (ol_events example_tables). 0 \<le> er_started_at r"
  by (simp_all add: checkRange_def example_metrics_config_def minRange_def time_Sub_def max_int64_def min_int64_def default_config_def Second_def example_tables_def example_row_def)


text \<open>A page of the log past the last row reports no rows in total, whatever the window holds.\<close>

lemma log_page_past_end:
  assumes "int (length (rows_in from_t to_t t)) \<le> offset"
  shows "Duck_GetRequestLogsByTime None t from_t to_t offset limit = Inr \<lparr>lp_Total = 0, lp_Rows = []\<rparr>"
proof -
  have "length (rows_in from_t to_t t) \<le> nat offset" using assms by linarith
  then show ?thesis by (simp add: Duck_GetRequestLogsByTime_def newest_first_def Let_def)
qed

text \<open>The pages of the log, read one after the other with the same limit, are the rows of the window, newest first, none twice and none left out.\<close>

definition log_pages :: "olap_tables \<Rightarrow> time \<Rightarrow> time \<Rightarrow> int \<Rightarrow> nat \<Rightarrow> RequestLogRow list" where
  "log_pages t from_t to_t limit n = concat (map (\<lambda>i. case Duck_GetRequestLogsByTime None t from_t to_t (int i * limit) limit of
     Inl _ \<Rightarrow> [] | Inr page \<Rightarrow> lp_Rows page) [0..<n])"

lemma take_pages: "concat (map (\<lambda>i. take m (drop (i * m) xs)) [0..<n]) = take (n * m) xs"
proof (induction n)
  case (Suc n)
  have "take (Suc n * m) xs = take (n * m) xs @ take m (drop (n * m) xs)" by (metis add.commute mult_Suc take_add)
  then show ?case using Suc by simp
qed simp

lemma log_pages_take:
  assumes "0 \<le> limit"
  shows "log_pages t from_t to_t limit n = map log_row (take (n * nat limit) (newest_first (rows_in from_t to_t t)))"
proof -
  have "nat (int i * limit) = i * nat limit" for i using assms by (simp add: nat_mult_distrib)
  then have "log_pages t from_t to_t limit n = concat (map (\<lambda>i. map log_row (take (nat limit) (drop (i * nat limit) (newest_first (rows_in from_t to_t t))))) [0..<n])"
    by (simp add: log_pages_def Duck_GetRequestLogsByTime_def Let_def)
  also have "\<dots> = map log_row (concat (map (\<lambda>i. take (nat limit) (drop (i * nat limit) (newest_first (rows_in from_t to_t t)))) [0..<n]))"
    by (simp add: map_concat o_def)
  finally show ?thesis by (simp add: take_pages)
qed

lemma newest_first_sorted:
  "sorted_wrt (\<lambda>a b. er_started_at b \<le> er_started_at a) (newest_first rows)" "mset (newest_first rows) = mset rows"
proof -
  have "sorted (map (\<lambda>r. (er_started_at r, er_id r)) (sort_key (\<lambda>r. (er_started_at r, er_id r)) rows))" by simp
  then have "sorted_wrt (\<lambda>a b. er_started_at a \<le> er_started_at b) (sort_key (\<lambda>r. (er_started_at r, er_id r)) rows)"
    by (auto simp: sorted_wrt_map elim!: sorted_wrt_mono_rel [rotated] simp: less_eq_prod_def)
  then show "sorted_wrt (\<lambda>a b. er_started_at b \<le> er_started_at a) (newest_first rows)" by (simp add: newest_first_def sorted_wrt_rev)
  show "mset (newest_first rows) = mset rows" by (simp add: newest_first_def)
qed

text \<open>Reading enough pages of the log returns every row of the window once, newest first.\<close>

theorem log_pages_complete:
  assumes "1 \<le> limit" "length (rows_in from_t to_t t) \<le> n * nat limit"
  shows "mset (log_pages t from_t to_t limit n) = image_mset log_row (mset (rows_in from_t to_t t)) \<and>
    sorted_wrt (\<lambda>a b. rl_StartedAt b \<le> rl_StartedAt a) (log_pages t from_t to_t limit n)"
proof -
  have "length (newest_first (rows_in from_t to_t t)) \<le> n * nat limit" using assms(2) by (simp add: newest_first_def)
  then have "log_pages t from_t to_t limit n = map log_row (newest_first (rows_in from_t to_t t))" using assms(1) by (simp add: log_pages_take)
  moreover have "rl_StartedAt (log_row r) = er_started_at r" for r by (simp add: log_row_def)
  ultimately show ?thesis using newest_first_sorted [of "rows_in from_t to_t t"] by (simp add: sorted_wrt_map)
qed

lemma log_pages_complete_witness:
  "length (rows_in unix_epoch (unix_epoch + 3600000000000) example_tables) = 2 \<and>
   mset (log_pages example_tables unix_epoch (unix_epoch + 3600000000000) 1 2) = image_mset log_row (mset (rows_in unix_epoch (unix_epoch + 3600000000000) example_tables))"
proof -
  have two: "length (rows_in unix_epoch (unix_epoch + 3600000000000) example_tables) = 2"
    by (simp add: rows_in_def example_tables_def in_window_def example_row_def UnixMicro_def)
  then show ?thesis using log_pages_complete [of 1 unix_epoch "unix_epoch + 3600000000000" example_tables 2] by simp
qed

section \<open>What is written is read back\<close>

text \<open>What the codec makes of a value is decoded to it again; an empty text only of the empty value.\<close>

definition json_blank :: "string \<Rightarrow> bool" where
  "json_blank j \<longleftrightarrow> j = ''null'' \<or> j = ''[]'' \<or> j = ''{}''"

definition codec_keeps :: "('v \<Rightarrow> string option) \<Rightarrow> (string \<Rightarrow> 'v option) \<Rightarrow> 'v \<Rightarrow> 'v \<Rightarrow> bool" where
  "codec_keeps enc dec zero v \<longleftrightarrow> (case enc v of None \<Rightarrow> False | Some j \<Rightarrow> if json_blank j then v = zero else j \<noteq> [] \<and> dec j = Some v)"

definition codec_keeps_llm :: "event_codec \<Rightarrow> LLM \<Rightarrow> bool" where
  "codec_keeps_llm ec l \<longleftrightarrow> (case (llm_Pricing l, llm_Usage l) of
     (Some p, Some u) \<Rightarrow> (case (ec_pricing ec (Some p), ec_usage ec u) of
        (Some jp, Some ju) \<Rightarrow> \<not> json_blank jp \<and> jp \<noteq> [] \<and> ed_pricing ec jp = Some p \<and> \<not> json_blank ju \<and> ju \<noteq> [] \<and> ed_usage ec ju = Some u
      | _ \<Rightarrow> False)
   | _ \<Rightarrow> True)"

definition codec_keeps_event :: "event_codec \<Rightarrow> Event \<Rightarrow> bool" where
  "codec_keeps_event ec e \<longleftrightarrow> codec_keeps (ec_headers ec) (ed_headers ec) [] (ev_Headers e) \<and>
     codec_keeps (ec_stages ec) (ed_stages ec) [] (tm_Stages (ev_Timing e)) \<and> (case ev_LLM e of None \<Rightarrow> True | Some l \<Rightarrow> codec_keeps_llm ec l)"

lemma decoded_js:
  assumes "codec_keeps enc dec zero v" "js (enc v) = Some column"
  shows "decoded dec zero column = Some v"
  using assms by (cases "enc v") (auto simp: codec_keeps_def js_def decoded_def json_blank_def split: if_splits)

lemma opt_or_nullCheck [simp]: "opt_or [] (nullCheck x) = x" "opt_or 0 (nz i) = i"
  by (simp_all add: nullCheck_def nz_def)

lemma event_rows_set: "event_rows ec es = Some rows \<Longrightarrow> e \<in> set es \<Longrightarrow> \<exists>row \<in> set rows. toAppenderValues ec e = Some row"
  by (induction es arbitrary: rows) (auto split: option.splits)

lemma payload_rows_set: "e \<in> set es \<Longrightarrow> ev_Payload e = Some p \<Longrightarrow> toPayloadValues ec e p \<in> set (payload_rows ec es)"
  by (induction es) (auto split: option.splits)

lemma find_distinct: "distinct (map f xs) \<Longrightarrow> x \<in> set xs \<Longrightarrow> List.find (\<lambda>y. f y = f x) xs = Some x"
  by (induction xs) (auto simp: rev_image_eqI)

lemma cost_lines_stored:
  assumes "codec_keeps_llm ec l" "llm_Pricing l = Some p" "llm_Usage l = Some u" "js (ec_pricing ec (Some p)) = Some pc" "js (ec_usage ec u) = Some uc"
  shows "cost_lines ec pc uc = Some (CostBreakdown p u)"
proof -
  obtain jp ju where "ec_pricing ec (Some p) = Some jp" "ec_usage ec u = Some ju" "\<not> json_blank jp" "jp \<noteq> []" "ed_pricing ec jp = Some p"
    "\<not> json_blank ju" "ju \<noteq> []" "ed_usage ec ju = Some u"
    using assms(1-3) by (simp add: codec_keeps_llm_def split: option.splits)
  moreover from this have "pc = Some jp" "uc = Some ju" using assms(4,5) by (auto simp: js_def json_blank_def)
  ultimately show ?thesis by (simp add: cost_lines_def)
qed

lemma stored_json:
  assumes row: "toAppenderValues ec e = Some row" and keeps: "codec_keeps_event ec e" and llm: "ev_LLM e = Some l" "llm_Pricing l = Some p" "llm_Usage l = Some u"
  shows "decoded (ed_headers ec) [] (er_headers row) = Some (ev_Headers e)" "decoded (ed_stages ec) [] (er_stages row) = Some (tm_Stages (ev_Timing e))"
    "cost_lines ec (er_pricing row) (er_usage_detail row) = Some (CostBreakdown p u)"
proof -
  have columns: "js (ec_headers ec (ev_Headers e)) = Some (er_headers row)" "js (ec_stages ec (tm_Stages (ev_Timing e))) = Some (er_stages row)"
    "js (ec_pricing ec (Some p)) = Some (er_pricing row)" "js (ec_usage ec u) = Some (er_usage_detail row)"
    using row llm by (auto simp: toAppenderValues_def json_columns_def split: option.splits)
  show "decoded (ed_headers ec) [] (er_headers row) = Some (ev_Headers e)" "decoded (ed_stages ec) [] (er_stages row) = Some (tm_Stages (ev_Timing e))"
    using keeps columns(1,2) by (auto simp: codec_keeps_event_def intro: decoded_js)
  show "cost_lines ec (er_pricing row) (er_usage_detail row) = Some (CostBreakdown p u)"
    using cost_lines_stored [OF _ llm(2,3) columns(3,4)] keeps llm(1) by (simp add: codec_keeps_event_def)
qed

definition detail_matches :: "Event \<Rightarrow> LLM \<Rightarrow> Pricing \<Rightarrow> Usage \<Rightarrow> RequestDetail \<Rightarrow> bool" where
  "detail_matches e l p u d \<longleftrightarrow> rd_ID d = ev_ID e \<and> rd_RequestID d = ev_RequestID e \<and> rd_RequestKind d = ev_RequestKind e \<and> rd_Endpoint d = ev_RequestEndpoint e \<and>
     rd_Result d = oc_Result (ev_Outcome e) \<and> rd_HTTPStatus d = oc_HTTPStatus (ev_Outcome e) \<and> rd_UpstreamStatus d = oc_UpstreamHTTPStatus (ev_Outcome e) \<and>
     rd_LatencyUS d = tm_TotalUS (ev_Timing e) \<and> rd_TTFBUS d = tm_TTFBUS (ev_Timing e) \<and> rd_TTFTUS d = tm_TTFTUS (ev_Timing e) \<and>
     rd_Error d = (let err = (oc_ErrorCode (ev_Outcome e), oc_ErrorCategory (ev_Outcome e), oc_ErrorMessage (ev_Outcome e)) in if err = ([], [], []) then None else Some err) \<and>
     rd_Requested d = llm_RequestedModel l \<and> rd_Provider d = llm_Provider l \<and> rd_Model d = llm_Model l \<and> rd_Upstream d = llm_UpstreamModel l \<and>
     rd_Stream d = llm_Stream l \<and> rd_FinishReason d = llm_FinishReason l \<and> rd_Input d = InputTokens u \<and> rd_Output d = OutputTokens u \<and>
     rd_CachedInput d = CachedInputTokens u \<and> rd_CacheCreation d = CacheCreationTokens u \<and> rd_Reasoning d = ReasoningTokens u \<and>
     rd_Billed d = InputTokens u + OutputTokens u \<and> rd_VirtualKeyID d = eg_VirtualKeyID (ev_Governance e) \<and> rd_ClientID d = eg_ClientID (ev_Governance e) \<and>
     rd_BudgetID d = eg_BudgetID (ev_Governance e) \<and> rd_Headers d = ev_Headers e \<and> rd_Pipeline d = tm_Stages (ev_Timing e) \<and>
     rd_CostNano d = ev_CostNanoUSD e \<and> rd_Lines d = CostBreakdown p u \<and> rd_PayloadState d = ev_PayloadState e"

lemma detail_of_row:
  assumes "toAppenderValues ec e = Some row" "ev_LLM e = Some l" "llm_Usage l = Some u"
  shows "detail_matches e l p u (detail_of row (ev_Headers e) (tm_Stages (ev_Timing e)) (CostBreakdown p u))"
  using assms by (auto simp: toAppenderValues_def detail_matches_def detail_of_def Let_def llm_column_def usage_column_def billed_def)


definition event_demo_codec :: event_codec where
  "event_demo_codec = \<lparr>ec_stages = (\<lambda>s. if s = [] then Some ''[]'' else None), ec_pricing = (\<lambda>p. case p of None \<Rightarrow> Some ''null'' | Some _ \<Rightarrow> Some ''p''),
     ec_usage = (\<lambda>_. Some ''u''), ec_headers = (\<lambda>h. if h = [] then Some ''{}'' else None), ec_body = (\<lambda>s. s),
     ed_stages = (\<lambda>_. None), ed_pricing = (\<lambda>_. Some example_sheet), ed_usage = (\<lambda>_. Some Usage_zero), ed_headers = (\<lambda>_. None)\<rparr>"

definition example_llm :: LLM where
  "example_llm = \<lparr>llm_RequestedModel = ''m'', llm_Provider = ''openai'', llm_Model = ''m'', llm_UpstreamModel = ''m'', llm_Stream = False,
     llm_Usage = Some Usage_zero, llm_Pricing = Some example_sheet, llm_FinishReason = ''stop''\<rparr>"

definition example_event :: Event where
  "example_event = Event_zero\<lparr>ev_ID := ''e1'', ev_LLM := Some example_llm, ev_Payload := Some \<lparr>pl_ClientRequest = Some ''q'', pl_ClientResponse = None\<rparr>\<rparr>"

lemma example_event_kept: "codec_keeps_event event_demo_codec example_event"
  by (simp add: codec_keeps_event_def codec_keeps_def codec_keeps_llm_def event_demo_codec_def example_event_def example_llm_def Event_zero_def json_blank_def)

lemma example_event_written: "snd (Duck_Write event_demo_codec True [example_event] example_tables)"
  by (simp add: Duck_Write_def event_demo_codec_def example_event_def example_llm_def example_tables_def example_row_def Event_zero_def toAppenderValues_def json_columns_def
      js_def toPayloadValues_def)


section \<open>The spend of a budget over time\<close>

lemma put_spends_ok:
  "distinct (map fst gs) \<Longrightarrow> \<forall>g \<in> set gs. 0 \<le> fst g \<and> fst g < int (length points) \<Longrightarrow>
   \<exists>points'. put_spends gs points = Some points' \<and> length points' = length points \<and>
     (\<forall>i < length points. sq_T (points' ! i) = sq_T (points ! i) \<and>
       sq_SpendUSD (points' ! i) = (case map_of gs (int i) of None \<Rightarrow> sq_SpendUSD (points ! i) | Some nano \<Rightarrow> usd nano))"
proof (induction gs arbitrary: points)
  case Nil
  then show ?case by simp
next
  case (Cons g gs)
  obtain idx nano where g: "g = (idx, nano)" by (cases g)
  let ?points = "points[nat idx := (points ! nat idx)\<lparr>sq_SpendUSD := usd nano\<rparr>]"
  have idx: "0 \<le> idx" "idx < int (length points)" and rest: "distinct (map fst gs)" "\<forall>h \<in> set gs. 0 \<le> fst h \<and> fst h < int (length ?points)"
    using Cons.prems g by auto
  have new: "map_of gs idx = None" using Cons.prems(1) g by (simp add: map_of_eq_None_iff)
  obtain points' where step: "put_spends gs ?points = Some points'" and len: "length points' = length ?points" and
    pts: "\<And>i. i < length ?points \<Longrightarrow> sq_T (points' ! i) = sq_T (?points ! i) \<and>
       sq_SpendUSD (points' ! i) = (case map_of gs (int i) of None \<Rightarrow> sq_SpendUSD (?points ! i) | Some nano \<Rightarrow> usd nano)"
    using Cons.IH [OF rest] by blast
  have "i = nat idx \<longleftrightarrow> idx = int i" for i using idx by auto
  then show ?case using step len pts idx new g
    by (intro exI [of _ points']) (auto simp: nth_list_update split: option.splits)
qed

definition cost_between :: "time \<Rightarrow> time \<Rightarrow> event_row list \<Rightarrow> int" where
  "cost_between lo hi rows = (\<Sum>r\<leftarrow>filter (\<lambda>r. lo \<le> unix_epoch + er_started_at r * 1000 \<and> unix_epoch + er_started_at r * 1000 < hi) rows. er_cost_nano_usd r)"

lemma usd_zero: "usd 0 = Fin 0"
  by (simp add: usd_def float_of_int_def fdiv_const_def)

lemma spend_groups_lookup:
  assumes b: "0 < b" "w = 1000 * b"
  shows "(case map_of (spend_groups start b rows) i of None \<Rightarrow> Fin 0 | Some nano \<Rightarrow> usd nano) =
    usd (cost_between (unix_epoch + start * 1000 + i * w) (unix_epoch + start * 1000 + i * w + w) rows)"
proof -
  let ?is = "sort (remdups (map (\<lambda>r. (er_started_at r - start) div b) rows))"
  let ?cost = "\<lambda>i. sum_list (map er_cost_nano_usd (filter (\<lambda>r. (er_started_at r - start) div b = i) rows))"
  have cost: "?cost i = cost_between (unix_epoch + start * 1000 + i * w) (unix_epoch + start * 1000 + i * w + w) rows"
    using bucket_between [OF b] by (simp add: cost_between_def)
  have look: "map_of (spend_groups start b rows) i = (if i \<in> set ?is then Some (?cost i) else None)"
    unfolding spend_groups_def by (simp add: map_of_map_restrict restrict_map_def)
  have "?cost i = 0" if "i \<notin> set ?is"
  proof -
    have "filter (\<lambda>r. (er_started_at r - start) div b = i) rows = []" using that by (auto simp: filter_empty_conv)
    then show ?thesis by simp
  qed
  then show ?thesis using look cost usd_zero by auto
qed

lemma spend_points_put:
  assumes b: "0 < b" "w = 1000 * b" and idx: "\<forall>r \<in> set rows. 0 \<le> (er_started_at r - start) div b \<and> (er_started_at r - start) div b < n"
  obtains points where "put_spends (spend_groups start b rows) (spend_points start n w) = Some points" "length points = nat n"
    "\<And>i. i < nat n \<Longrightarrow> sq_T (points ! i) = unix_epoch + start * 1000 + int i * w"
    "\<And>i. i < nat n \<Longrightarrow> sq_SpendUSD (points ! i) = usd (cost_between (sq_T (points ! i)) (sq_T (points ! i) + w) rows)"
proof -
  let ?gs = "spend_groups start b rows"
  let ?pts = "spend_points start n w"
  have pt: "length ?pts = nat n" "\<And>i. i < nat n \<Longrightarrow> sq_T (?pts ! i) = unix_epoch + start * 1000 + int i * w \<and> sq_SpendUSD (?pts ! i) = Fin 0"
    by (simp_all add: spend_points_def)
  have "distinct (map fst ?gs)" "\<forall>g \<in> set ?gs. 0 \<le> fst g \<and> fst g < int (length ?pts)"
    using idx pt(1) by (auto simp: spend_groups_def o_def)
  from put_spends_ok [OF this] obtain points where pts: "put_spends ?gs ?pts = Some points" "length points = nat n" and
    here: "\<And>i. i < nat n \<Longrightarrow> sq_T (points ! i) = unix_epoch + start * 1000 + int i * w \<and>
       sq_SpendUSD (points ! i) = (case map_of ?gs (int i) of None \<Rightarrow> Fin 0 | Some nano \<Rightarrow> usd nano)"
    using pt by (auto cong: option.case_cong)
  then show ?thesis using that pts here spend_groups_lookup [OF b] by auto
qed

text \<open>
  For a range that the engine admits, the spend query of a budget answers without a panic, and each point is the sum of the costs of the budget's requests
  in its bucket, zero where there were none.
\<close>

theorem budget_spend_by_bucket:
  assumes "checkRange cfg from_t to_t" "mec_MaxWindow cfg \<le> 2 ^ 62" "\<forall>r \<in> set (ol_events t). 0 \<le> er_started_at r" "budgetID \<noteq> []"
  shows "\<exists>s. GetBudgetSpendByTime (Duck_GetBudgetSpendByTime None t) cfg budgetID from_t to_t = Some (Some (Inr s)) \<and> bs_BudgetID s = budgetID \<and>
    (\<forall>p \<in> set (bs_Points s). sq_SpendUSD p =
      usd (cost_between (sq_T p) (sq_T p + bs_Bucket s) (filter (\<lambda>r. er_budget_id r = Some budgetID) (rows_in from_t to_t t))))"
proof -
  define w where "w = bucketFor (time_Sub to_t from_t)"
  define rows where "rows = filter (\<lambda>r. er_budget_id r = Some budgetID) (rows_in from_t to_t t)"
  obtain start n where st: "bucketStart from_t to_t w = Some (start, n)" "0 \<le> n" "to_t \<le> unix_epoch + start * 1000 + n * w"
    "\<And>s. 0 \<le> s \<Longrightarrow> UnixMicro from_t \<le> s \<Longrightarrow> start \<le> s"
    using bucketStart_covers [OF assms(1,2)] unfolding w_def by blast
  have b: "w = 1000 * Microseconds w" "0 < Microseconds w" using bucketFor_whole by (auto simp: w_def)
  have idx: "\<forall>r \<in> set rows. 0 \<le> (er_started_at r - start) div Microseconds w \<and> (er_started_at r - start) div Microseconds w < n"
    using window_index [OF b(2,1) st(3,4) assms(3)] by (simp add: rows_def)
  obtain points where pts: "put_spends (spend_groups start (Microseconds w) rows) (spend_points start n w) = Some points" "length points = nat n"
    "\<And>i. i < nat n \<Longrightarrow> sq_T (points ! i) = unix_epoch + start * 1000 + int i * w"
    and spend: "\<And>i. i < nat n \<Longrightarrow> sq_SpendUSD (points ! i) = usd (cost_between (sq_T (points ! i)) (sq_T (points ! i) + w) rows)"
    using spend_points_put [OF b(2,1) idx] by blast
  let ?s = "\<lparr>bs_BudgetID = budgetID, bs_From = from_t, bs_To = to_t, bs_Bucket = w, bs_Points = points\<rparr>"
  have run: "GetBudgetSpendByTime (Duck_GetBudgetSpendByTime None t) cfg budgetID from_t to_t = Some (Some (Inr ?s))"
    using assms(1,4) st(1,2) pts by (simp add: GetBudgetSpendByTime_def Duck_GetBudgetSpendByTime_def w_def [symmetric] rows_def [symmetric])
  have "sq_SpendUSD p = usd (cost_between (sq_T p) (sq_T p + w) rows)" if "p \<in> set points" for p
    using that pts(2) spend by (metis in_set_conv_nth)
  then show ?thesis using run by (intro exI [of _ ?s]) (simp add: rows_def)
qed

lemma budget_spend_by_bucket_witness:
  "\<exists>s. GetBudgetSpendByTime (Duck_GetBudgetSpendByTime None example_tables) example_metrics_config ''b'' unix_epoch (unix_epoch + 3600000000000) = Some (Some (Inr s))"
  using budget_spend_by_bucket [OF example_tables_range, of "''b''"] by blast

end
