(* ===== verification/MetricsApi.thy ===== *)
theory MetricsApi
  imports EventStore
begin

text \<open>
  The metrics queries as the dashboard calls them: the remaining read operations of the engine (\<^verbatim>\<open>internal/metrics-engine/metrics-engine.go\<close>)
  and the handlers of \<^verbatim>\<open>internal/server/metrics-handlers.go\<close> with their routes. The parser of RFC 3339 times and the answers of the database are
  arguments. A handler that panics has no reply.
\<close>

section \<open>Queries of the engine\<close>

text \<open>As for the other queries, the result \<^const>\<open>None\<close> is the invalid query.\<close>

definition GetOverviewTiles :: "(time \<Rightarrow> time \<Rightarrow> 'r) \<Rightarrow> MetricsEngineConfig \<Rightarrow> time \<Rightarrow> time \<Rightarrow> 'r option" where
  "GetOverviewTiles store cfg from_t to_t = (if \<not> checkRange cfg from_t to_t then None else Some (store from_t to_t))"

definition GetRequestDetailByID :: "(string \<Rightarrow> 'r) \<Rightarrow> string \<Rightarrow> 'r option" where
  "GetRequestDetailByID store ident = (if ident = [] then None else Some (store ident))"

definition GetPayloadByID :: "(string \<Rightarrow> 'r) \<Rightarrow> string \<Rightarrow> 'r option" where
  "GetPayloadByID store ident = (if ident = [] then None else Some (store ident))"

section \<open>Handlers\<close>

definition defaultMetricsPageSize :: int where "defaultMetricsPageSize = 50"
definition defaultMetricsTopLimit :: int where "defaultMetricsTopLimit = 10"

datatype metrics_body = TilesBody OverviewTiles | SummaryBody TimeSummary | LogBody RequestLogPage | DetailBody RequestDetail
  | PayloadBody "string option \<times> string option" | TopBody "VirtualKeyUsage list" | SpendBody BudgetSpend | MetricsError string

type_synonym metrics_reply = "int \<times> metrics_body"

record metrics_env =
  mv_time :: "string \<Rightarrow> time option"
  mv_answer :: "olap_error option"
  mv_quantile :: "rat \<Rightarrow> int list \<Rightarrow> float64 option"
  mv_codec :: event_codec

text \<open>The parameters of a query; an absent one is \<^const>\<open>None\<close>, which \<^verbatim>\<open>c.Query\<close> reads as the empty text.\<close>

record metrics_query =
  mq_from :: "string option"
  mq_to :: "string option"
  mq_offset :: "string option"
  mq_limit :: "string option"

definition metricsErr :: "olap_error option \<Rightarrow> metrics_reply" where
  "metricsErr err = (case err of None \<Rightarrow> (400, MetricsError ''invalid query'')
   | Some OlapNotFound \<Rightarrow> (404, MetricsError ''request not found'')
   | Some OlapDeadline \<Rightarrow> (504, MetricsError ''metrics query timed out'')
   | Some OlapFailed \<Rightarrow> (500, MetricsError ''metrics query failed''))"

definition timeRange :: "metrics_env \<Rightarrow> metrics_query \<Rightarrow> metrics_reply + time \<times> time" where
  "timeRange env q = (case mv_time env (opt_or [] (mq_from q)) of None \<Rightarrow> Inl (400, MetricsError ''from must be an RFC3339 time'')
   | Some from_t \<Rightarrow> (case mv_time env (opt_or [] (mq_to q)) of None \<Rightarrow> Inl (400, MetricsError ''to must be an RFC3339 time'')
     | Some to_t \<Rightarrow> Inr (from_t, to_t)))"

definition number_param :: "string option \<Rightarrow> int \<Rightarrow> int option" where
  "number_param p dflt = (case p of None \<Rightarrow> Some dflt | Some s \<Rightarrow> Atoi s)"

text \<open>The common end of the handlers: the error of the engine, of the store, or the body.\<close>

definition metrics_answer :: "('r \<Rightarrow> metrics_body) \<Rightarrow> (olap_error + 'r) option \<Rightarrow> metrics_reply" where
  "metrics_answer body res = (case res of None \<Rightarrow> metricsErr None | Some (Inl e) \<Rightarrow> metricsErr (Some e) | Some (Inr r) \<Rightarrow> (200, body r))"

definition getMetricsStats :: "metrics_env \<Rightarrow> MetricsEngineConfig \<Rightarrow> olap_tables \<Rightarrow> metrics_query \<Rightarrow> metrics_reply" where
  "getMetricsStats env cfg t q = (case timeRange env q of Inl r \<Rightarrow> r
   | Inr (from_t, to_t) \<Rightarrow> metrics_answer TilesBody (GetOverviewTiles (Duck_GetOverviewTiles (mv_answer env) (mv_quantile env) t) cfg from_t to_t))"

text \<open>Two queries may panic in the store: the inner \<^const>\<open>None\<close> of their results.\<close>

definition unless_panic :: "('r \<Rightarrow> metrics_body) \<Rightarrow> (olap_error + 'r) option option \<Rightarrow> metrics_reply option" where
  "unless_panic body res = (case res of None \<Rightarrow> Some (metricsErr None) | Some None \<Rightarrow> None | Some (Some r) \<Rightarrow> Some (metrics_answer body (Some r)))"

definition getMetricsRequestSummary :: "metrics_env \<Rightarrow> MetricsEngineConfig \<Rightarrow> olap_tables \<Rightarrow> metrics_query \<Rightarrow> metrics_reply option" where
  "getMetricsRequestSummary env cfg t q = (case timeRange env q of Inl r \<Rightarrow> Some r
   | Inr (from_t, to_t) \<Rightarrow> unless_panic SummaryBody (GetRequestSummaryByTime (Duck_GetRequestSummaryByTime (mv_answer env) t) cfg from_t to_t))"

definition listMetricsRequests :: "metrics_env \<Rightarrow> MetricsEngineConfig \<Rightarrow> olap_tables \<Rightarrow> metrics_query \<Rightarrow> metrics_reply" where
  "listMetricsRequests env cfg t q = (case timeRange env q of Inl r \<Rightarrow> r
   | Inr (from_t, to_t) \<Rightarrow> (case number_param (mq_offset q) 0 of None \<Rightarrow> (400, MetricsError ''offset must be a number'')
     | Some offset \<Rightarrow> (case number_param (mq_limit q) defaultMetricsPageSize of None \<Rightarrow> (400, MetricsError ''limit must be a number'')
       | Some limit \<Rightarrow> metrics_answer LogBody (GetRequestLogsByTime (Duck_GetRequestLogsByTime (mv_answer env) t) cfg from_t to_t offset limit))))"

definition getMetricsRequest :: "metrics_env \<Rightarrow> olap_tables \<Rightarrow> string \<Rightarrow> metrics_reply" where
  "getMetricsRequest env t ident = metrics_answer DetailBody (GetRequestDetailByID (Duck_GetRequestDetailByID (mv_answer env) (mv_codec env) t) ident)"

definition getMetricsRequestPayload :: "metrics_env \<Rightarrow> olap_tables \<Rightarrow> string \<Rightarrow> metrics_reply" where
  "getMetricsRequestPayload env t ident = metrics_answer PayloadBody (GetPayloadByID (Duck_GetPayloadByID (mv_answer env) t) ident)"

definition getMetricsTopVirtualKeys :: "metrics_env \<Rightarrow> MetricsEngineConfig \<Rightarrow> olap_tables \<Rightarrow> metrics_query \<Rightarrow> metrics_reply" where
  "getMetricsTopVirtualKeys env cfg t q = (case timeRange env q of Inl r \<Rightarrow> r
   | Inr (from_t, to_t) \<Rightarrow> (case number_param (mq_limit q) defaultMetricsTopLimit of None \<Rightarrow> (400, MetricsError ''limit must be a number'')
     | Some limit \<Rightarrow> metrics_answer TopBody (GetTopVirtualKeys (Duck_GetTopVirtualKeys (mv_answer env) t) cfg from_t to_t limit)))"

definition getMetricsBudgetSpend :: "metrics_env \<Rightarrow> MetricsEngineConfig \<Rightarrow> olap_tables \<Rightarrow> string \<Rightarrow> metrics_query \<Rightarrow> metrics_reply option" where
  "getMetricsBudgetSpend env cfg t ident q = (case timeRange env q of Inl r \<Rightarrow> Some r
   | Inr (from_t, to_t) \<Rightarrow> unless_panic SpendBody (GetBudgetSpendByTime (Duck_GetBudgetSpendByTime (mv_answer env) t) cfg ident from_t to_t))"

section \<open>Routes\<close>

datatype metrics_call = CallStats metrics_query | CallRequests metrics_query | CallSummary metrics_query | CallDetail string | CallPayload string
  | CallTopKeys metrics_query | CallBudget string metrics_query

text \<open>The group answers 503 before any handler when the engine is disabled.\<close>

definition serve_metrics :: "metrics_env \<Rightarrow> (MetricsEngineConfig \<times> olap_tables) option \<Rightarrow> metrics_call \<Rightarrow> metrics_reply option" where
  "serve_metrics env engine call = (case engine of None \<Rightarrow> Some (503, MetricsError ''metrics engine is disabled'')
   | Some (cfg, t) \<Rightarrow> (case call of CallStats q \<Rightarrow> Some (getMetricsStats env cfg t q) | CallRequests q \<Rightarrow> Some (listMetricsRequests env cfg t q)
     | CallSummary q \<Rightarrow> getMetricsRequestSummary env cfg t q | CallDetail ident \<Rightarrow> Some (getMetricsRequest env t ident)
     | CallPayload ident \<Rightarrow> Some (getMetricsRequestPayload env t ident) | CallTopKeys q \<Rightarrow> Some (getMetricsTopVirtualKeys env cfg t q)
     | CallBudget ident q \<Rightarrow> getMetricsBudgetSpend env cfg t ident q))"

section \<open>Every query is answered\<close>

text \<open>The largest window is at most 146 years and no row is from before 1970.\<close>

definition metrics_sound :: "MetricsEngineConfig \<Rightarrow> olap_tables \<Rightarrow> bool" where
  "metrics_sound cfg t \<longleftrightarrow> mec_MaxWindow cfg \<le> 2 ^ 62 \<and> (\<forall>r \<in> set (ol_events t). 0 \<le> er_started_at r)"

lemma buckets_index:
  assumes "checkRange cfg from_t to_t" "metrics_sound cfg t"
  obtains start n where "bucketStart from_t to_t (bucketFor (time_Sub to_t from_t)) = Some (start, n)" "0 \<le> n"
    "\<forall>r \<in> set (rows_in from_t to_t t). 0 \<le> (er_started_at r - start) div Microseconds (bucketFor (time_Sub to_t from_t)) \<and>
       (er_started_at r - start) div Microseconds (bucketFor (time_Sub to_t from_t)) < n"
proof -
  have b: "0 < Microseconds (bucketFor (time_Sub to_t from_t))" "bucketFor (time_Sub to_t from_t) = 1000 * Microseconds (bucketFor (time_Sub to_t from_t))"
    using bucketFor_whole by auto
  have sound: "mec_MaxWindow cfg \<le> 2 ^ 62" "\<forall>r \<in> set (ol_events t). 0 \<le> er_started_at r" using assms(2) by (auto simp: metrics_sound_def)
  show ?thesis
  proof (rule bucketStart_covers [OF assms(1) sound(1)])
    fix start n
    assume st: "bucketStart from_t to_t (bucketFor (time_Sub to_t from_t)) = Some (start, n)" "0 \<le> n"
      "to_t \<le> unix_epoch + start * 1000 + n * bucketFor (time_Sub to_t from_t)" "\<And>s. 0 \<le> s \<Longrightarrow> UnixMicro from_t \<le> s \<Longrightarrow> start \<le> s"
    show thesis using that [OF st(1,2)] window_index [OF b st(3,4) sound(2)] by blast
  qed
qed

lemma summary_no_panic:
  assumes "metrics_sound cfg t"
  shows "GetRequestSummaryByTime (Duck_GetRequestSummaryByTime a t) cfg from_t to_t \<noteq> Some None"
proof (cases "checkRange cfg from_t to_t")
  case True
  let ?w = "bucketFor (time_Sub to_t from_t)"
  have b: "0 < Microseconds ?w" "?w = 1000 * Microseconds ?w" using bucketFor_whole by auto
  obtain start n where st: "bucketStart from_t to_t ?w = Some (start, n)" "0 \<le> n" and
    idx: "\<forall>r \<in> set (rows_in from_t to_t t). 0 \<le> (er_started_at r - start) div Microseconds ?w \<and> (er_started_at r - start) div Microseconds ?w < n"
    by (rule buckets_index [OF True assms])
  obtain points where "add_groups (summary_groups start (Microseconds ?w) (rows_in from_t to_t t)) (bucket_points start n ?w) = Some points"
    by (rule summary_points [OF b idx])
  then show ?thesis using st True by (cases a) (simp_all add: GetRequestSummaryByTime_def Duck_GetRequestSummaryByTime_def)
qed (simp add: GetRequestSummaryByTime_def)

lemma spend_no_panic:
  assumes "metrics_sound cfg t"
  shows "GetBudgetSpendByTime (Duck_GetBudgetSpendByTime a t) cfg ident from_t to_t \<noteq> Some None"
proof (cases "checkRange cfg from_t to_t")
  case True
  let ?w = "bucketFor (time_Sub to_t from_t)"
  let ?rows = "filter (\<lambda>r. er_budget_id r = Some ident) (rows_in from_t to_t t)"
  have b: "0 < Microseconds ?w" "?w = 1000 * Microseconds ?w" using bucketFor_whole by auto
  obtain start n where st: "bucketStart from_t to_t ?w = Some (start, n)" "0 \<le> n" and
    idx: "\<forall>r \<in> set (rows_in from_t to_t t). 0 \<le> (er_started_at r - start) div Microseconds ?w \<and> (er_started_at r - start) div Microseconds ?w < n"
    by (rule buckets_index [OF True assms])
  have "\<forall>r \<in> set ?rows. 0 \<le> (er_started_at r - start) div Microseconds ?w \<and> (er_started_at r - start) div Microseconds ?w < n" using idx by simp
  then obtain points where "put_spends (spend_groups start (Microseconds ?w) ?rows) (spend_points start n ?w) = Some points"
    by (rule spend_points_put [OF b])
  then show ?thesis using st True by (cases a) (simp_all add: GetBudgetSpendByTime_def Duck_GetBudgetSpendByTime_def)
qed (simp add: GetBudgetSpendByTime_def)

text \<open>A reply that is an error body exactly when its code is not 200, a time-out only when the database reports one.\<close>

definition proper_reply :: "olap_error option \<Rightarrow> metrics_reply \<Rightarrow> bool" where
  "proper_reply a r \<longleftrightarrow> fst r \<in> {200, 400, 404, 500, 504} \<and> (fst r = 200 \<longleftrightarrow> (\<forall>m. snd r \<noteq> MetricsError m)) \<and> (fst r = 504 \<longrightarrow> a = Some OlapDeadline)"

lemma metricsErr_proper: "e \<noteq> Some OlapDeadline \<or> a = Some OlapDeadline \<Longrightarrow> proper_reply a (metricsErr e)"
  by (auto simp: metricsErr_def proper_reply_def split: option.splits olap_error.splits)

lemma metrics_answer_proper:
  assumes "\<And>r m. body r \<noteq> MetricsError m" "\<And>e. res = Some (Inl e) \<Longrightarrow> e \<noteq> OlapDeadline \<or> a = Some OlapDeadline"
  shows "proper_reply a (metrics_answer body res)"
proof (cases res)
  case None
  then show ?thesis by (simp add: metrics_answer_def metricsErr_proper)
next
  case (Some r)
  then show ?thesis
  proof (cases r)
    case (Inl e)
    then show ?thesis using Some assms(2) [of e] by (simp add: metrics_answer_def metricsErr_proper)
  next
    case (Inr x)
    then show ?thesis using Some assms(1) [of x] by (simp add: metrics_answer_def proper_reply_def)
  qed
qed

lemma answered_error: "answered a rows = Inl e \<Longrightarrow> a = Some e"
  by (cases a) auto

lemma timeRange_error: "timeRange env q = Inl r \<Longrightarrow> proper_reply a r"
  by (auto simp: timeRange_def proper_reply_def split: option.splits)

lemma unless_panic_proper:
  assumes "\<And>r m. body r \<noteq> MetricsError m" "\<And>e. res = Some (Some (Inl e)) \<Longrightarrow> e \<noteq> OlapDeadline \<or> a = Some OlapDeadline" "res \<noteq> Some None"
  shows "\<exists>r. unless_panic body res = Some r \<and> proper_reply a r"
proof (cases res)
  case None
  then show ?thesis using metricsErr_proper [of None a] by (simp add: unless_panic_def)
next
  case (Some inner)
  then obtain x where x: "res = Some (Some x)" using assms(3) by (cases inner) auto
  have "proper_reply a (metrics_answer body (Some x))" by (rule metrics_answer_proper) (use assms(1,2) x in auto)
  then show ?thesis using x by (simp add: unless_panic_def)
qed

lemma store_errors:
  "Duck_GetOverviewTiles a quantile t from_t to_t = Inl e \<Longrightarrow> a = Some e" "Duck_GetRequestLogsByTime a t from_t to_t offset limit = Inl e \<Longrightarrow> a = Some e"
  "Duck_GetTopVirtualKeys a t from_t to_t limit = Inl e \<Longrightarrow> a = Some e" "Duck_GetPayloadByID a t ident = Inl e \<Longrightarrow> a = Some e \<or> e = OlapNotFound"
  "Duck_GetRequestDetailByID a ec t ident = Inl e \<Longrightarrow> a = Some e \<or> e = OlapNotFound \<or> e = OlapFailed"
  "Duck_GetRequestSummaryByTime a t from_t to_t bucket = Some (Inl e) \<Longrightarrow> a = Some e" "Duck_GetBudgetSpendByTime a t ident from_t to_t bucket = Some (Inl e) \<Longrightarrow> a = Some e"
  subgoal by (simp only: Duck_GetOverviewTiles_def answered_error)
  subgoal by (simp only: Duck_GetRequestLogsByTime_def answered_error)
  subgoal by (simp only: Duck_GetTopVirtualKeys_def answered_error)
  subgoal by (cases a) (auto simp: Duck_GetPayloadByID_def split: option.splits)
  subgoal by (cases a) (auto simp: Duck_GetRequestDetailByID_def split: option.splits)
  subgoal by (cases a) (auto simp: Duck_GetRequestSummaryByTime_def split: option.splits if_splits)
  subgoal by (cases a) (auto simp: Duck_GetBudgetSpendByTime_def split: option.splits if_splits)
  done

lemma query_errors:
  "GetOverviewTiles (Duck_GetOverviewTiles a quantile t) cfg from_t to_t = Some (Inl e) \<Longrightarrow> a = Some e"
  "GetRequestLogsByTime (Duck_GetRequestLogsByTime a t) cfg from_t to_t offset limit = Some (Inl e) \<Longrightarrow> a = Some e"
  "GetTopVirtualKeys (Duck_GetTopVirtualKeys a t) cfg from_t to_t limit = Some (Inl e) \<Longrightarrow> a = Some e"
  "GetRequestSummaryByTime (Duck_GetRequestSummaryByTime a t) cfg from_t to_t = Some (Some (Inl e)) \<Longrightarrow> a = Some e"
  "GetBudgetSpendByTime (Duck_GetBudgetSpendByTime a t) cfg ident from_t to_t = Some (Some (Inl e)) \<Longrightarrow> a = Some e"
  "GetRequestDetailByID (Duck_GetRequestDetailByID a ec t) ident = Some (Inl e) \<Longrightarrow> a = Some e \<or> e \<noteq> OlapDeadline"
  "GetPayloadByID (Duck_GetPayloadByID a t) ident = Some (Inl e) \<Longrightarrow> a = Some e \<or> e \<noteq> OlapDeadline"
  by (auto simp: GetOverviewTiles_def GetRequestLogsByTime_def GetTopVirtualKeys_def GetRequestSummaryByTime_def GetBudgetSpendByTime_def GetRequestDetailByID_def
      GetPayloadByID_def dest: store_errors split: if_splits)

lemma bad_request_proper [simp]: "proper_reply a (400, MetricsError m)"
  by (simp add: proper_reply_def)

lemma handlers_proper:
  "proper_reply (mv_answer env) (getMetricsStats env cfg t q)" "proper_reply (mv_answer env) (listMetricsRequests env cfg t q)"
  "proper_reply (mv_answer env) (getMetricsTopVirtualKeys env cfg t q)" "proper_reply (mv_answer env) (getMetricsRequest env t ident)"
  "proper_reply (mv_answer env) (getMetricsRequestPayload env t ident)"
  subgoal by (auto simp: getMetricsStats_def dest: query_errors intro!: metrics_answer_proper intro: timeRange_error split: sum.split)
  subgoal by (auto simp: listMetricsRequests_def dest: query_errors intro!: metrics_answer_proper intro: timeRange_error split: sum.split option.split)
  subgoal by (auto simp: getMetricsTopVirtualKeys_def dest: query_errors intro!: metrics_answer_proper intro: timeRange_error split: sum.split option.split)
  subgoal by (auto simp: getMetricsRequest_def dest: query_errors intro!: metrics_answer_proper)
  subgoal by (auto simp: getMetricsRequestPayload_def dest: query_errors intro!: metrics_answer_proper)
  done

lemma bucket_handlers_proper:
  assumes "metrics_sound cfg t"
  shows "\<exists>r. getMetricsRequestSummary env cfg t q = Some r \<and> proper_reply (mv_answer env) r" "\<exists>r. getMetricsBudgetSpend env cfg t ident q = Some r \<and> proper_reply (mv_answer env) r"
proof -
  have "\<exists>r. unless_panic SummaryBody (GetRequestSummaryByTime (Duck_GetRequestSummaryByTime (mv_answer env) t) cfg from_t to_t) = Some r \<and> proper_reply (mv_answer env) r" for from_t to_t
    by (rule unless_panic_proper) (auto simp: summary_no_panic [OF assms] dest: query_errors)
  then show "\<exists>r. getMetricsRequestSummary env cfg t q = Some r \<and> proper_reply (mv_answer env) r"
    using timeRange_error [of env q] by (auto simp: getMetricsRequestSummary_def split: sum.split)
  have "\<exists>r. unless_panic SpendBody (GetBudgetSpendByTime (Duck_GetBudgetSpendByTime (mv_answer env) t) cfg ident from_t to_t) = Some r \<and> proper_reply (mv_answer env) r" for from_t to_t
    by (rule unless_panic_proper) (auto simp: spend_no_panic [OF assms] dest: query_errors)
  then show "\<exists>r. getMetricsBudgetSpend env cfg t ident q = Some r \<and> proper_reply (mv_answer env) r"
    using timeRange_error [of env q] by (auto simp: getMetricsBudgetSpend_def split: sum.split)
qed

definition call_query :: "metrics_call \<Rightarrow> metrics_query option" where
  "call_query call = (case call of CallStats q \<Rightarrow> Some q | CallRequests q \<Rightarrow> Some q | CallSummary q \<Rightarrow> Some q | CallTopKeys q \<Rightarrow> Some q | CallBudget _ q \<Rightarrow> Some q
   | _ \<Rightarrow> None)"

lemma bad_range_refused:
  assumes "call_query call = Some q" "timeRange env q = Inr (from_t, to_t)" "\<not> checkRange cfg from_t to_t"
  shows "\<exists>m. serve_metrics env (Some (cfg, t)) call = Some (400, MetricsError m)"
  using assms
  by (cases call) (auto simp: call_query_def serve_metrics_def getMetricsStats_def listMetricsRequests_def getMetricsRequestSummary_def getMetricsTopVirtualKeys_def
      getMetricsBudgetSpend_def GetOverviewTiles_def GetRequestLogsByTime_def GetRequestSummaryByTime_def GetTopVirtualKeys_def GetBudgetSpendByTime_def metrics_answer_def
      unless_panic_def metricsErr_def split: option.split)

text \<open>
  C27: Every call of the metrics routes gets a reply, whatever its parameters and whatever the database answers: 503 exactly when the engine is disabled, and
  otherwise a body with 200 or an error with 400, 404, 500 or 504, where 504 only reports a deadline of the database. A range outside the limits is refused
  with 400 whatever the database would answer.
\<close>

theorem metrics_calls_answered:
  assumes "\<And>cfg t. engine = Some (cfg, t) \<Longrightarrow> metrics_sound cfg t"
  shows "\<exists>r. serve_metrics env engine call = Some r \<and> (fst r = 503 \<longleftrightarrow> engine = None) \<and> (engine \<noteq> None \<longrightarrow> proper_reply (mv_answer env) r) \<and>
    (\<forall>cfg t q from_t to_t. engine = Some (cfg, t) \<and> call_query call = Some q \<and> timeRange env q = Inr (from_t, to_t) \<and> \<not> checkRange cfg from_t to_t \<longrightarrow> fst r = 400)"
proof (cases engine)
  case None
  then show ?thesis by (simp add: serve_metrics_def)
next
  case (Some p)
  then obtain cfg t where e: "engine = Some (cfg, t)" by (cases p) auto
  have "\<exists>r. serve_metrics env engine call = Some r \<and> proper_reply (mv_answer env) r"
    using e handlers_proper [of env] bucket_handlers_proper [OF assms [OF e], of env] by (cases call) (simp_all add: serve_metrics_def)
  then obtain r where r: "serve_metrics env engine call = Some r" "proper_reply (mv_answer env) r" by blast
  have "fst r \<noteq> 503" using r(2) by (auto simp: proper_reply_def)
  moreover have "fst r = 400" if "call_query call = Some q" "timeRange env q = Inr (from_t, to_t)" "\<not> checkRange cfg from_t to_t" for q from_t to_t
    using bad_range_refused [OF that, of t] r(1) e by auto
  ultimately show ?thesis using r e by (intro exI [of _ r]) auto
qed

definition example_metrics_env :: metrics_env where
  "example_metrics_env = \<lparr>mv_time = (\<lambda>s. if s = [] then None else Some (unix_epoch + int (length s) * 3600000000000)), mv_answer = None, mv_quantile = (\<lambda>_ _. None),
     mv_codec = event_demo_codec\<rparr>"

definition example_query :: metrics_query where
  "example_query = \<lparr>mq_from = Some ''a'', mq_to = Some ''a'', mq_offset = None, mq_limit = None\<rparr>"

lemma metrics_calls_answered_witness:
  "metrics_sound example_metrics_config example_tables \<and>
   (\<exists>r. serve_metrics example_metrics_env (Some (example_metrics_config, example_tables)) (CallSummary example_query) = Some r \<and> fst r = 400)"
proof -
  have sound: "metrics_sound example_metrics_config example_tables" using example_tables_range by (simp add: metrics_sound_def)
  have range: "timeRange example_metrics_env example_query = Inr (unix_epoch + 3600000000000, unix_epoch + 3600000000000)"
    by (simp add: timeRange_def example_metrics_env_def example_query_def)
  have "\<not> checkRange example_metrics_config (unix_epoch + 3600000000000) (unix_epoch + 3600000000000)"
    by (simp add: checkRange_def time_Sub_def minRange_def max_int64_def min_int64_def)
  then show ?thesis
    using metrics_calls_answered [of "Some (example_metrics_config, example_tables)" example_metrics_env "CallSummary example_query"] sound range by (auto simp: call_query_def)
qed

end
