(* ===== verification/StateManager.thy ===== *)
theory StateManager
  imports CoreTypes
begin

text \<open>
  Deployment health state (\<^verbatim>\<open>internal/core/statemanager.go\<close>). The manager hands out pointers to
  shared state objects, so the objects live in a store from addresses to values. Times are Unix
  seconds; the counters are signed 32-bit integers.
\<close>

record DeploymentState =
  Alive :: "32 word"
  TripUntil :: int64
  activeConnections :: int
  ConsecutiveFails :: int
  ConsecutiveSuccess :: int
  lastSeen :: int64

definition wrap32 :: "int \<Rightarrow> int" where
  "wrap32 x = (x + 2 ^ 31) mod 2 ^ 32 - 2 ^ 31"

definition AddConnection :: "DeploymentState \<Rightarrow> DeploymentState" where
  "AddConnection d = d\<lparr>activeConnections := wrap32 (activeConnections d + 1)\<rparr>"

definition RemoveConnection :: "DeploymentState \<Rightarrow> DeploymentState" where
  "RemoveConnection d = (if activeConnections d > 0
     then d\<lparr>activeConnections := wrap32 (activeConnections d - 1)\<rparr> else d)"

definition GetConnections :: "DeploymentState \<Rightarrow> int" where
  "GetConnections d = activeConnections d"

definition SetAliveState :: "32 word \<Rightarrow> DeploymentState \<Rightarrow> DeploymentState" where
  "SetAliveState alive d = d\<lparr>Alive := alive\<rparr>"

text \<open>\<^verbatim>\<open>Unix()\<close> is the number of whole seconds since 1970.\<close>

definition Unix :: "time \<Rightarrow> int64" where
  "Unix t = (t - unix_epoch) div 1000000000"

definition SetTripUntil :: "time \<Rightarrow> duration \<Rightarrow> DeploymentState \<Rightarrow> DeploymentState" where
  "SetTripUntil now s d = (if s > 0 then d\<lparr>TripUntil := Unix (now + s)\<rparr> else d)"

definition IsHealthy :: "time \<Rightarrow> DeploymentState \<Rightarrow> bool" where
  "IsHealthy now d = (if Alive d = 0 then False else if TripUntil d > Unix now then False else True)"

record StateManager =
  States :: "string \<rightharpoonup> nat"
  sm_store :: "nat \<rightharpoonup> DeploymentState"
  sm_next :: nat

definition NewStateManager :: StateManager where
  "NewStateManager = \<lparr>States = Map.empty, sm_store = Map.empty, sm_next = 0\<rparr>"

definition DeploymentState_zero :: DeploymentState where
  "DeploymentState_zero = \<lparr>Alive = 0, TripUntil = 0, activeConnections = 0, ConsecutiveFails = 0,
     ConsecutiveSuccess = 0, lastSeen = 0\<rparr>"

definition StateManager_Acquire :: "time \<Rightarrow> string \<Rightarrow> 32 word \<Rightarrow> StateManager \<Rightarrow> nat \<times> StateManager" where
  "StateManager_Acquire now ident alive m = (case States m ident of
     Some a \<Rightarrow> (a, m\<lparr>sm_store := (sm_store m)(a := map_option (\<lambda>d. d\<lparr>lastSeen := Unix now\<rparr>) (sm_store m a))\<rparr>)
   | None \<Rightarrow> let a = sm_next m; s = (SetAliveState alive DeploymentState_zero)\<lparr>lastSeen := Unix now\<rparr>
       in (a, m\<lparr>States := (States m)(ident \<mapsto> a), sm_store := (sm_store m)(a \<mapsto> s), sm_next := Suc a\<rparr>))"

definition StateManager_Release :: "string \<Rightarrow> StateManager \<Rightarrow> StateManager" where
  "StateManager_Release ident m = m\<lparr>States := (States m)(ident := None)\<rparr>"

section \<open>Invariant\<close>

text \<open>Every registered deployment has its own allocated state object.\<close>

definition wf_manager :: "StateManager \<Rightarrow> bool" where
  "wf_manager m \<longleftrightarrow> ran (States m) \<subseteq> dom (sm_store m) \<and> dom (sm_store m) \<subseteq> {..< sm_next m}
     \<and> inj_on (States m) (dom (States m))"

lemma wf_NewStateManager [wf_intro]: "wf_manager NewStateManager"
  by (simp add: wf_manager_def NewStateManager_def)

lemma wf_Release [wf_intro]: "wf_manager m \<Longrightarrow> wf_manager (StateManager_Release ident m)"
  unfolding wf_manager_def StateManager_Release_def
  by (auto simp: ran_def inj_on_def dom_def split: if_splits)

lemma wf_Acquire [wf_intro]:
  assumes "wf_manager m"
  shows "wf_manager (snd (StateManager_Acquire now ident alive m))"
proof (cases "States m ident")
  case (Some a)
  then have "dom ((sm_store m)(a := map_option f (sm_store m a))) = dom (sm_store m)" for f
    by (auto split: if_splits)
  with Some assms show ?thesis by (simp add: StateManager_Acquire_def wf_manager_def)
next
  case None
  have new: "sm_next m \<notin> ran (States m)" using assms by (auto simp: wf_manager_def)
  have "inj_on ((States m)(ident \<mapsto> sm_next m)) (dom ((States m)(ident \<mapsto> sm_next m)))"
  proof (rule inj_onI)
    fix x y
    assume "x \<in> dom ((States m)(ident \<mapsto> sm_next m))" "y \<in> dom ((States m)(ident \<mapsto> sm_next m))"
      "((States m)(ident \<mapsto> sm_next m)) x = ((States m)(ident \<mapsto> sm_next m)) y"
    with new assms show "x = y"
      by (auto simp: wf_manager_def inj_on_def dom_def ran_def split: if_splits)
  qed
  with None assms show ?thesis
    by (auto simp: StateManager_Acquire_def wf_manager_def Let_def ran_def split: if_splits)
qed

lemma Acquire_same:
  "wf_manager m \<Longrightarrow> fst (StateManager_Acquire t ident a (snd (StateManager_Acquire t' ident a' m)))
     = fst (StateManager_Acquire t' ident a' m)"
  by (auto simp: StateManager_Acquire_def Let_def split: option.splits)

lemma Acquire_other:
  "States m ident' = Some p \<Longrightarrow> ident' \<noteq> ident \<Longrightarrow> States (snd (StateManager_Acquire t ident a m)) ident' = Some p"
  by (auto simp: StateManager_Acquire_def Let_def split: option.splits)

text \<open>A trip keeps the deployment out for its whole duration, up to the second.\<close>

lemma SetTripUntil_unhealthy:
  "0 < s \<Longrightarrow> Unix now' < Unix (now + s) \<Longrightarrow> \<not> IsHealthy now' (SetTripUntil now s d)"
  by (simp add: SetTripUntil_def IsHealthy_def)

lemma Remove_Add_connection:
  "0 \<le> activeConnections d \<Longrightarrow> activeConnections d < 2 ^ 31 - 1 \<Longrightarrow> RemoveConnection (AddConnection d) = d"
  by (simp add: AddConnection_def RemoveConnection_def wrap32_def)

end
