(* ===== verification/Spec2Isabelle.thy ===== *)
theory Spec2Isabelle
  imports RequestPath AdminLife Gateway MetricsApi Duration StateManager
begin

text \<open>
  Verification development of DiffractLLM, a gateway in front of providers of language models, written in Go. Paths below are
  relative to \<^verbatim>\<open>src/\<close>.

  \<^bold>\<open>The program.\<close> A client sends a chat request with a virtual key. The server (\<^verbatim>\<open>internal/server\<close>) takes a context from
  a pool, lets governance (\<^verbatim>\<open>internal/governance\<close>) authenticate the key against its cache, reads the body, and runs the admission hooks
  (\<^verbatim>\<open>internal/core/hooks.go\<close>): may the key use the model, is its budget open. The selection engine (\<^verbatim>\<open>internal/dataplane\<close>) chooses one of
  the credentials that the provider plane (\<^verbatim>\<open>internal/providerplane\<close>) holds, the model catalog (\<^verbatim>\<open>internal/modelcatalog\<close>) resolves the price,
  and a provider (\<^verbatim>\<open>internal/providers\<close>) translates the request and sends it through the transport, which retries, bounds the
  response and refuses addresses of private networks. The answer is relayed, as a whole or as a stream; deferred hooks charge the
  budget, keep a usage record and make an event for the metrics engine (\<^verbatim>\<open>internal/metrics-engine\<close>). Background jobs
  (\<^verbatim>\<open>internal/worker\<close>) reload keys and budgets from the database, settle spend with it, write usage and events, and copy a public
  price feed. An administrator changes keys, budgets, credentials, providers and prices through handlers that write the
  database (\<^verbatim>\<open>internal/dbstore\<close>) and then the caches. The gateway (\<^verbatim>\<open>internal/gateway\<close>, \<^verbatim>\<open>main.go\<close>) makes, starts and stops all of it.

  \<^bold>\<open>The theories.\<close> Each opens with the files it models; its definitions carry the names of the code, a method of a type
  being prefixed with the type where the name alone would be ambiguous, and the fields of a record with an abbreviation of it.

  \<^item> Vocabulary: \<^verbatim>\<open>Prelude\<close> (64-bit integers, strings, lists), \<^verbatim>\<open>Float64\<close> (IEEE binary64 on rationals), \<^verbatim>\<open>CoreTypes\<close>, \<^verbatim>\<open>Errors\<close>,
    \<^verbatim>\<open>Duration\<close>, \<^verbatim>\<open>Money\<close>, \<^verbatim>\<open>ChatTypes\<close> (\<^verbatim>\<open>internal/core\<close>), \<^verbatim>\<open>Config\<close> (\<^verbatim>\<open>configs\<close>).
  \<^item> Prices: \<^verbatim>\<open>PricingTypes\<close> and \<^verbatim>\<open>Pricing\<close> (\<^verbatim>\<open>internal/core/pricing.go\<close>), \<^verbatim>\<open>Catalog\<close> and \<^verbatim>\<open>PriceFeed\<close> (\<^verbatim>\<open>internal/modelcatalog\<close>),
    \<^verbatim>\<open>CatalogStore\<close> (the tables of models and prices and the pass that fills them).
  \<^item> Keys and budgets: \<^verbatim>\<open>KeyFormat\<close>, \<^verbatim>\<open>VirtualKey\<close>, \<^verbatim>\<open>BudgetLedger\<close>, \<^verbatim>\<open>Buffers\<close> and \<^verbatim>\<open>Governance\<close>; in the database \<^verbatim>\<open>Secrets\<close> and \<^verbatim>\<open>KeyStore\<close>,
    with what its operations keep in \<^verbatim>\<open>KeyBinding\<close>, and the relation of the cache to the table in \<^verbatim>\<open>KeyCache\<close>.
  \<^item> Upstreams: \<^verbatim>\<open>Credential\<close>, \<^verbatim>\<open>ProviderPlane\<close>, \<^verbatim>\<open>Selection\<close>, \<^verbatim>\<open>Transport\<close>, \<^verbatim>\<open>OpenAI\<close>, \<^verbatim>\<open>Azure\<close>, \<^verbatim>\<open>StateManager\<close>; in the database
    \<^verbatim>\<open>CredentialStore\<close>, with what it keeps in \<^verbatim>\<open>CredentialLife\<close>.
  \<^item> Requests: \<^verbatim>\<open>Context\<close>, \<^verbatim>\<open>Hooks\<close>, \<^verbatim>\<open>Server\<close> (the handler, composed of the parts above), and \<^verbatim>\<open>RequestPath\<close> (what the composition guarantees).
  \<^item> Operation: \<^verbatim>\<open>Worker\<close>, \<^verbatim>\<open>Metrics\<close>, \<^verbatim>\<open>EventStore\<close> (the analytical store and its queries), \<^verbatim>\<open>MetricsApi\<close> (the metrics routes),
    \<^verbatim>\<open>Admin\<close> (the administrative handlers and routes), \<^verbatim>\<open>AdminLife\<close> (what they guarantee for keys), \<^verbatim>\<open>Gateway\<close> (the life of the process).

  \<^bold>\<open>How the code is rendered.\<close> State is passed explicitly: a handler or operation is a function from records to records and its
  result, and composes the operations it calls in the order of the code. Errors are values of a sum or option type, one
  constructor per error of the code; a panic is \<^verbatim>\<open>None\<close>. Concurrency is interleaving: the operations under a lock or on an atomic are
  the steps, sequences of steps (\<^verbatim>\<open>budget_step\<close>, \<^verbatim>\<open>job_step\<close>, \<^verbatim>\<open>admin_run\<close>, \<^verbatim>\<open>gateway_step\<close>, \<^verbatim>\<open>buf_run\<close>, \<^verbatim>\<open>metrics_run\<close>) the executions, and invariants are proved by rule
  induction. Integers of 64 bits are \<^verbatim>\<open>int\<close> with the wrap-around written out; prices are floating point numbers, rounded after
  every operation; times are nanoseconds since the zero time of Go. Tables of a database are lists of rows, a transaction does
  all or nothing. What is not code of the repository is an argument: the network and resolver, whether the database executes a
  statement, the cipher, the JSON library, the identity library, clocks, random numbers and identifiers, the order in which a map is visited.
  A theorem names as hypothesis what it relies on of them, for example that the cipher opens what it sealed, and its witness instantiates
  the argument with a concrete function.

  \<^bold>\<open>Termination and bounds.\<close> No definition uses fuel: loops over data are structural recursions or have a measure (the base 62 digits, the
  retries, the frames of a stream, which are a finite list because the body is). The loop of a background job is a step relation, for which
  \<^verbatim>\<open>Worker\<close> shows that a stopped job can return. The numeric hypotheses are that amounts stay in 64 bits, that a metrics window is at most 146 years
  and that no event is from before 1970.

  \<^bold>\<open>Interfaces.\<close> Bounded buffers, hook phases, enumerations on the wire, selectors and credential sources, chat providers as the handler
  uses them, model lookups, and the sealing of secrets are locales; each is interpreted on the definitions of the code that provide it, and the last, whose
  provider is the cipher of the standard library, on a concrete cipher that satisfies it.

  \<^bold>\<open>What is shown.\<close>

  \<^item> \<^verbatim>\<open>RequestPath\<close>: a provider is called only for an admitted request; every request is answered without a panic; a request with usage is charged
    once, to the budget of its key and at the resolved price; a stream recorded as completed was complete.
  \<^item> \<^verbatim>\<open>Governance\<close>, \<^verbatim>\<open>BudgetLedger\<close>, \<^verbatim>\<open>Buffers\<close>: exactly which requests are authenticated and admitted; spend is conserved under every interleaving of
    requests, reloads and settling; a failed flush loses nothing.
  \<^item> \<^verbatim>\<open>KeyBinding\<close>, \<^verbatim>\<open>KeyCache\<close>, \<^verbatim>\<open>AdminLife\<close>: a budget belongs to one active key at most; the cache follows the table under every sequence of administrative calls, so
    only stored, active, unexpired keys authenticate; an issued key is live and a withdrawn one dead when the call is answered.
  \<^item> \<^verbatim>\<open>CredentialLife\<close>, \<^verbatim>\<open>CatalogStore\<close>, \<^verbatim>\<open>Catalog\<close>, \<^verbatim>\<open>PriceFeed\<close>: stored credentials always load; updates implement the update of the credential and keep masked
    secrets; price resolution implements its specification on the rows; every first variant of a synchronised feed is priced.
  \<^item> \<^verbatim>\<open>Selection\<close>, \<^verbatim>\<open>ProviderPlane\<close>, \<^verbatim>\<open>Transport\<close>, \<^verbatim>\<open>OpenAI\<close>, \<^verbatim>\<open>Azure\<close>: a resolved credential is one the key allows; round robin is fair; no blocked address is
    dialled; the attempts are bounded and accounted for; streams are read back as written and truncation is reported; a call carries its own credential.
  \<^item> \<^verbatim>\<open>Pricing\<close>, \<^verbatim>\<open>Money\<close>, \<^verbatim>\<open>Float64\<close>: the breakdown of a cost adds up to what is charged; conversions to nano-dollars round trip and are monotone.
  \<^item> \<^verbatim>\<open>Worker\<close>, \<^verbatim>\<open>Gateway\<close>, \<^verbatim>\<open>Metrics\<close>, \<^verbatim>\<open>EventStore\<close>, \<^verbatim>\<open>MetricsApi\<close>: the statistics of jobs; the life of the process; events are stored, pending or counted as lost;
    migrations run once and in order; a written event is read back; queries never index outside their points and count exactly the rows of their buckets;
    every metrics call is answered.

  Theorems that record a behaviour the code probably does not intend stand beside the others, for example
  \<^verbatim>\<open>Selection.weighted_ignores_block_list\<close>, \<^verbatim>\<open>Duration.ParseDuration_surprises\<close>, \<^verbatim>\<open>Gateway.failed_listener\<close> and \<^verbatim>\<open>AdminLife.stale_sync_revives_key\<close>.

  \<^bold>\<open>Not modelled.\<close> Opening and migrating the SQLite file through its library (\<^verbatim>\<open>internal/dbstore/store.go\<close>), log output and build stamps
  (\<^verbatim>\<open>internal/observability\<close>, \<^verbatim>\<open>internal/buildinfo\<close>), the URL library, the codecs of JSON apart from the enumerations and message contents the code decodes by
  hand, the reading of the configuration file and the environment, the waiting of a shutdown for streams and goroutines under its deadline, and the
  read-only status reports of the gateway: they hold no logic of the gateway, or none but that of the libraries they call.
\<close>

end
